(* ===== verification/Prelude.thy ===== *)
theory Prelude
  imports Complex_Main "HOL-Library.AList" "HOL-Library.List_Lexorder" "HOL-Library.Multiset"
begin

text \<open>
  Shared ground of the development.

  \<^item> \<open>exc\<close>: the exceptions the program raises, one constructor per exception class of the
    source (with the fixed part of its message, so that every \<open>raise\<close> is a distinct branch),
    and the built-in exceptions that escape from the standard library.
  \<^item> \<open>'a res\<close>: the result of a pure function that may raise, with \<open>bind\<close> and the
    \<open>try ... except\<close> forms.
  \<^item> \<open>'v dict\<close> and friends: a Python dict as an association list in insertion order
    (\<open>AList.update\<close> is exactly \<open>d[k] = v\<close>: it replaces in place or appends).
  \<^item> generic list facts the components share.
\<close>

section \<open>Automation collections\<close>

named_theorems res_simps \<open>unfolding of the error monad\<close>
named_theorems lit_simps \<open>evaluation of string literals\<close>

section \<open>Exceptions and results\<close>

datatype exc =
    ProtocolValueError string
  | IdentityError string
  | StateError string
  | ConfigError string
  | TransportError "int option" "rat option"   \<comment> \<open>\<open>status\<close>, \<open>retry_after\<close>\<close>
  | ResponseError string
  | DeliveryError string
  | UncertainWriteError string
  | AuditError string
  | CapabilityError string
  | GitHubReceiptError string "int option" "rat option"   \<comment> \<open>\<open>code\<close>, \<open>status\<close>, \<open>retry_after\<close>\<close>
  | ControllerError string
  | WorkReceiptError string
  | EvidenceInputError string
  | HealthError string
  | ProcessLockError string
  | BeadsTasksError string
  | LaunchAgentError string
  | PilotError string
  | ValueError string         \<comment> \<open>a plain \<open>ValueError\<close> of the standard library\<close>
  | TypeError string          \<comment> \<open>e.g. an unhashable value looked up in a set\<close>
  | UnicodeDecodeError
  | UnicodeEncodeError
  | HTTPException
  | OSError
  | SubprocessError          \<comment> \<open>\<open>CalledProcessError\<close> and \<open>TimeoutExpired\<close> of \<open>subprocess\<close>\<close>
  | RecursionError
  | AssertionError
  | KeyboardInterrupt
  | Killed                    \<comment> \<open>the process dies here: no handler runs\<close>

type_synonym 'a res = "exc + 'a"

abbreviation raise :: "exc \<Rightarrow> 'a res" where "raise \<equiv> Inl"
abbreviation ret :: "'a \<Rightarrow> 'a res" where "ret \<equiv> Inr"

definition bind :: "'a res \<Rightarrow> ('a \<Rightarrow> 'b res) \<Rightarrow> 'b res" where
  "bind m f = (case m of Inl e \<Rightarrow> Inl e | Inr x \<Rightarrow> f x)"

text \<open>\<open>if c: raise e\<close>\<close>

definition raise_if :: "bool \<Rightarrow> exc \<Rightarrow> unit res" where
  "raise_if c e = (if c then Inl e else Inr ())"

text \<open>\<open>try: m except p as e: raise e'\<close>\<close>

definition except_raise :: "(exc \<Rightarrow> bool) \<Rightarrow> exc \<Rightarrow> 'a res \<Rightarrow> 'a res" where
  "except_raise p e' m = (case m of Inl e \<Rightarrow> if p e then Inl e' else Inl e | Inr x \<Rightarrow> Inr x)"

fun is_ProtocolValueError :: "exc \<Rightarrow> bool" where
  "is_ProtocolValueError (ProtocolValueError _) = True"
| "is_ProtocolValueError _ = False"

fun is_StateError :: "exc \<Rightarrow> bool" where
  "is_StateError (StateError _) = True"
| "is_StateError _ = False"

fun is_DeliveryError :: "exc \<Rightarrow> bool" where
  "is_DeliveryError (DeliveryError _) = True"
| "is_DeliveryError _ = False"

fun is_GitHubReceiptError :: "exc \<Rightarrow> bool" where
  "is_GitHubReceiptError (GitHubReceiptError _ _ _) = True"
| "is_GitHubReceiptError _ = False"

fun is_WorkReceiptError :: "exc \<Rightarrow> bool" where
  "is_WorkReceiptError (WorkReceiptError _) = True"
| "is_WorkReceiptError _ = False"

text \<open>\<open>except (TransportError, ResponseError)\<close>\<close>

fun is_wire_error :: "exc \<Rightarrow> bool" where
  "is_wire_error (TransportError _ _) = True"
| "is_wire_error (ResponseError _) = True"
| "is_wire_error _ = False"

text \<open>\<open>except ValueError\<close> also catches its subclasses.\<close>

fun is_ValueError :: "exc \<Rightarrow> bool" where
  "is_ValueError (ValueError _) = True"
| "is_ValueError (ProtocolValueError _) = True"
| "is_ValueError (IdentityError _) = True"
| "is_ValueError (EvidenceInputError _) = True"
| "is_ValueError UnicodeDecodeError = True"
| "is_ValueError UnicodeEncodeError = True"
| "is_ValueError _ = False"

lemma bind_Inl [simp, res_simps]: "bind (Inl e) f = Inl e"
  by (simp add: bind_def)

lemma bind_Inr [simp, res_simps]: "bind (Inr x) f = f x"
  by (simp add: bind_def)

lemma bind_eq_Inr [res_simps]: "bind m f = Inr y \<longleftrightarrow> (\<exists>x. m = Inr x \<and> f x = Inr y)"
  by (cases m) auto

lemma bind_eq_Inl [res_simps]:
  "bind m f = Inl e \<longleftrightarrow> m = Inl e \<or> (\<exists>x. m = Inr x \<and> f x = Inl e)"
  by (cases m) auto

lemma bind_assoc: "bind (bind m f) g = bind m (\<lambda>x. bind (f x) g)"
  by (cases m) auto

lemma raise_if_eq_Inr [simp, res_simps]: "raise_if c e = Inr u \<longleftrightarrow> \<not> c"
  by (simp add: raise_if_def)

lemma raise_if_eq_Inl [simp, res_simps]: "raise_if c e = Inl e' \<longleftrightarrow> c \<and> e' = e"
  by (auto simp: raise_if_def)

lemma raise_if_True [simp]: "raise_if True e = Inl e"
  by (simp add: raise_if_def)

lemma raise_if_False [simp]: "raise_if False e = Inr ()"
  by (simp add: raise_if_def)

lemma except_raise_eq_Inr [simp, res_simps]: "except_raise p e m = Inr x \<longleftrightarrow> m = Inr x"
  by (auto simp: except_raise_def split: sum.splits if_splits)

lemma except_raise_eq_Inl [res_simps]:
  "except_raise p e m = Inl e' \<longleftrightarrow> (\<exists>e0. m = Inl e0 \<and> e' = (if p e0 then e else e0))"
  by (auto simp: except_raise_def split: sum.splits if_splits)

lemma except_raise_Inr [simp]: "except_raise p e (Inr x) = Inr x"
  by (simp add: except_raise_def)

lemma except_raise_Inl [simp]: "except_raise p e (Inl e') = Inl (if p e' then e else e')"
  by (simp add: except_raise_def)

text \<open>\<open>if x is None: raise e\<close>\<close>

definition some_or :: "exc \<Rightarrow> 'a option \<Rightarrow> 'a res" where
  "some_or e x = (case x of None \<Rightarrow> Inl e | Some y \<Rightarrow> Inr y)"

lemma some_or_Inr [simp, res_simps]: "some_or e x = Inr y \<longleftrightarrow> x = Some y"
  by (simp add: some_or_def split: option.splits)

lemma some_or_simps [simp]: "some_or e (Some y) = Inr y" "some_or e None = Inl e"
  by (simp_all add: some_or_def)

text \<open>A loop \<open>[f(x) for x in xs]\<close> whose body may raise.\<close>

fun map_res :: "('a \<Rightarrow> 'b res) \<Rightarrow> 'a list \<Rightarrow> 'b list res" where
  "map_res f [] = Inr []"
| "map_res f (x # xs) = bind (f x) (\<lambda>y. bind (map_res f xs) (\<lambda>ys. Inr (y # ys)))"

lemma map_res_eq_Inr:
  "map_res f xs = Inr ys \<longleftrightarrow> list_all2 (\<lambda>x y. f x = Inr y) xs ys"
  by (induction xs arbitrary: ys) (auto simp: res_simps list_all2_Cons1)

lemma map_res_id: "(\<And>x. x \<in> set xs \<Longrightarrow> f x = Inr (g x)) \<Longrightarrow> map_res f xs = Inr (map g xs)"
  by (induction xs) auto

section \<open>Dictionaries\<close>

text \<open>
  A Python dict keeps insertion order. \<open>d.get(k)\<close> is \<open>map_of d k\<close>, \<open>d[k] = v\<close> is
  \<open>AList.update k v d\<close>, \<open>dict(sorted(d.items()))\<close> is \<open>sort_key fst d\<close>.
\<close>

definition get_default :: "('k \<times> 'v) list \<Rightarrow> 'k \<Rightarrow> 'v \<Rightarrow> 'v" where
  "get_default d k v = (case map_of d k of None \<Rightarrow> v | Some x \<Rightarrow> x)"

definition keys_distinct :: "('k \<times> 'v) list \<Rightarrow> bool" where
  "keys_distinct d \<longleftrightarrow> distinct (map fst d)"

lemma keys_distinct_Nil [simp]: "keys_distinct []"
  by (simp add: keys_distinct_def)

lemma keys_distinct_update [simp]: "keys_distinct d \<Longrightarrow> keys_distinct (AList.update k v d)"
  by (simp add: keys_distinct_def distinct_update)

lemma map_of_update: "map_of (AList.update k v d) = (map_of d)(k \<mapsto> v)"
  by (simp add: update_conv')

lemma get_default_update:
  "get_default (AList.update k v d) k' x = (if k' = k then v else get_default d k' x)"
  by (simp add: get_default_def map_of_update)

lemma map_of_sort_key:
  fixes d :: "('k::linorder \<times> 'v) list"
  assumes "keys_distinct d"
  shows "map_of (sort_key fst d) = map_of d"
proof -
  have d1: "distinct (map fst d)" using assms by (simp add: keys_distinct_def)
  have ms: "mset (map fst (sort_key fst d)) = mset (map fst d)" by simp
  have d2: "distinct (map fst (sort_key fst d))"
    using d1 ms by (metis mset_eq_imp_distinct_iff)
  show ?thesis by (rule map_of_inject_set [THEN iffD2, OF d2 d1]) simp
qed

lemma keys_distinct_sort_key:
  "keys_distinct d \<Longrightarrow> keys_distinct (sort_key fst (d :: ('k::linorder \<times> 'v) list))"
  unfolding keys_distinct_def by (metis mset_eq_imp_distinct_iff mset_map mset_sort)

text \<open>Mapping the values of a dictionary keeps its keys.\<close>

lemma fst_o_map_value [simp]: "fst \<circ> (\<lambda>(k, v). (k, f k v)) = fst"
  by (auto simp: fun_eq_iff)

lemma fst_map_value [simp]: "fst (case x of (k, v) \<Rightarrow> (k, f k v)) = fst x"
  by (cases x) simp

lemma map_sum_eq_Inr: "map_sum f g m = Inr y \<longleftrightarrow> (\<exists>x. m = Inr x \<and> y = g x)"
  by (cases m) auto

section \<open>Lists\<close>

lemma sorted_wrt_less_last:
  assumes "sorted_wrt (<) (xs :: int list)" and "x \<in> set xs"
  shows "x \<le> last xs"
  using assms by (induction xs) (auto simp: less_imp_le)

lemma sorted_distinct_imp_strict:
  "sorted xs \<Longrightarrow> distinct xs \<Longrightarrow> sorted_wrt (<) (xs :: 'a::linorder list)"
  by (simp add: strict_sorted_iff)

end
