(* ===== verification/Pytext.thy ===== *)
theory Pytext
  imports Prelude
begin

text \<open>
  Python text. A \<open>str\<close> is a list of Unicode code points (so \<open>length\<close> is Python's \<open>len\<close>), a
  \<open>bytes\<close> value a list of numbers below 256. Literals of the source are written \<open>lit ''...''\<close>.
  The string methods and built-ins the program uses are defined here (\<open>str(int)\<close>, \<open>int(str)\<close>,
  \<open>strip\<close>, \<open>split\<close>, \<open>count\<close>, \<open>startswith\<close>, \<open>encode("utf-8")\<close>, \<open>unicodedata.category\<close> on the
  categories the program names), with the facts about them that the components share.
\<close>

type_synonym str = "nat list"
type_synonym bytes = "nat list"

definition lit :: "string \<Rightarrow> str" where
  "lit s = map of_char s"

lemma lit_Nil [simp, lit_simps]: "lit [] = []"
  by (simp add: lit_def)

lemma lit_Cons [lit_simps]: "lit (c # s) = of_char c # lit s"
  by (simp add: lit_def)

lemma lit_eq_iff [simp]: "lit s = lit t \<longleftrightarrow> s = t"
  by (simp add: lit_def inj_map_eq_map inj_def)

lemma lit_eq_Nil [simp]: "lit s = [] \<longleftrightarrow> s = []" "[] = lit s \<longleftrightarrow> s = []"
  by (cases s; simp add: lit_def)+

lemma length_lit [simp]: "length (lit s) = length s"
  by (simp add: lit_def)

lemma lit_append: "lit (s @ t) = lit s @ lit t"
  by (simp add: lit_def)

section \<open>Character classes\<close>

definition is_digit :: "nat \<Rightarrow> bool" where   \<comment> \<open>\<open>[0-9]\<close>\<close>
  "is_digit c \<longleftrightarrow> 48 \<le> c \<and> c \<le> 57"

definition is_lower :: "nat \<Rightarrow> bool" where   \<comment> \<open>\<open>[a-z]\<close>\<close>
  "is_lower c \<longleftrightarrow> 97 \<le> c \<and> c \<le> 122"

definition is_upper :: "nat \<Rightarrow> bool" where   \<comment> \<open>\<open>[A-Z]\<close>\<close>
  "is_upper c \<longleftrightarrow> 65 \<le> c \<and> c \<le> 90"

definition is_alpha :: "nat \<Rightarrow> bool" where
  "is_alpha c \<longleftrightarrow> is_lower c \<or> is_upper c"

definition is_alnum :: "nat \<Rightarrow> bool" where   \<comment> \<open>\<open>[A-Za-z0-9]\<close>\<close>
  "is_alnum c \<longleftrightarrow> is_alpha c \<or> is_digit c"

definition is_hex_lower :: "nat \<Rightarrow> bool" where   \<comment> \<open>\<open>[0-9a-f]\<close>\<close>
  "is_hex_lower c \<longleftrightarrow> is_digit c \<or> (97 \<le> c \<and> c \<le> 102)"

definition is_b64url :: "nat \<Rightarrow> bool" where   \<comment> \<open>\<open>[A-Za-z0-9_-]\<close>\<close>
  "is_b64url c \<longleftrightarrow> is_alnum c \<or> c = 95 \<or> c = 45"

lemmas char_class_defs =
  is_digit_def is_lower_def is_upper_def is_alpha_def is_alnum_def is_hex_lower_def is_b64url_def

text \<open>\<open>str.isspace\<close> of a character: the set \<open>str.strip()\<close> removes.\<close>

definition is_space :: "nat \<Rightarrow> bool" where
  "is_space c \<longleftrightarrow> (9 \<le> c \<and> c \<le> 13) \<or> (28 \<le> c \<and> c \<le> 32) \<or> c \<in> {133, 160, 5760} \<or>
     (8192 \<le> c \<and> c \<le> 8202) \<or> c \<in> {8232, 8233, 8239, 8287, 12288}"

text \<open>
  \<open>unicodedata.category(c) in {"Cc", "Cf", "Cs", "Co", "Zl", "Zp"}\<close>, from the Unicode 15 tables
  of CPython 3.12 (the oldest version the program supports).
\<close>

definition in_ranges :: "(nat \<times> nat) list \<Rightarrow> nat \<Rightarrow> bool" where
  "in_ranges rs c \<longleftrightarrow> (\<exists>(a, b) \<in> set rs. a \<le> c \<and> c \<le> b)"

definition cat_Cc :: "(nat \<times> nat) list" where
  "cat_Cc = [(0, 31), (127, 159)]"

definition cat_Cf :: "(nat \<times> nat) list" where
  "cat_Cf = [(173, 173), (1536, 1541), (1564, 1564), (1757, 1757), (1807, 1807), (2192, 2193),
     (2274, 2274), (6158, 6158), (8203, 8207), (8234, 8238), (8288, 8292), (8294, 8303),
     (65279, 65279), (65529, 65531), (69821, 69821), (69837, 69837), (78896, 78911),
     (113824, 113827), (119155, 119162), (917505, 917505), (917536, 917631)]"

definition cat_Cs :: "(nat \<times> nat) list" where
  "cat_Cs = [(55296, 57343)]"

definition cat_Co :: "(nat \<times> nat) list" where
  "cat_Co = [(57344, 63743), (983040, 1048573), (1048576, 1114109)]"

definition cat_Zl_Zp :: "(nat \<times> nat) list" where
  "cat_Zl_Zp = [(8232, 8232), (8233, 8233)]"

text \<open>The digits \<open>\d\<close> of a \<open>str\<close> pattern matches, as runs of ten from their zero.\<close>

definition decimal_zeros :: "nat list" where
  "decimal_zeros =
    [48, 1632, 1776, 1984, 2406, 2534, 2662, 2790, 2918, 3046, 3174, 3302, 3430, 3558, 3664,
     3792, 3872, 4160, 4240, 6112, 6160, 6470, 6608, 6784, 6800, 6992, 7088, 7232, 7248, 42528,
     43216, 43264, 43472, 43504, 43600, 44016, 65296, 66720, 68912, 69734, 69872, 69942, 70096,
     70384, 70736, 70864, 71248, 71360, 71472, 71904, 72016, 72784, 73040, 73120, 73552, 92768,
     92864, 93008, 120782, 120792, 120802, 120812, 120822, 123200, 123632, 124144, 125264,
     130032]"

definition digit_value :: "nat \<Rightarrow> nat option" where
  "digit_value c = map_option (\<lambda>z. c - z) (find (\<lambda>z. z \<le> c \<and> c < z + 10) decimal_zeros)"

definition is_decimal :: "nat \<Rightarrow> bool" where
  "is_decimal c \<longleftrightarrow> digit_value c \<noteq> None"

section \<open>String methods\<close>

definition lstrip :: "str \<Rightarrow> str" where
  "lstrip s = dropWhile is_space s"

definition rstrip :: "str \<Rightarrow> str" where
  "rstrip s = rev (dropWhile is_space (rev s))"

definition strip :: "str \<Rightarrow> str" where
  "strip s = rstrip (lstrip s)"

definition startswith :: "str \<Rightarrow> str \<Rightarrow> bool" where
  "startswith s p \<longleftrightarrow> take (length p) s = p"

lemma startswith_iff: "startswith s p \<longleftrightarrow> (\<exists>z. s = p @ z)"
  unfolding startswith_def by (metis append_eq_conv_conj)

definition endswith :: "str \<Rightarrow> str \<Rightarrow> bool" where
  "endswith s p \<longleftrightarrow> length p \<le> length s \<and> drop (length s - length p) s = p"

definition removeprefix :: "str \<Rightarrow> str \<Rightarrow> str" where
  "removeprefix s p = (if startswith s p then drop (length p) s else s)"

definition count_char :: "str \<Rightarrow> nat \<Rightarrow> nat" where
  "count_char s c = count_list s c"

text \<open>\<open>s.partition(c)\<close> on one character, as (before, found, after).\<close>

definition partition_at :: "nat \<Rightarrow> str \<Rightarrow> str \<times> bool \<times> str" where
  "partition_at c s = (takeWhile (\<lambda>x. x \<noteq> c) s, c \<in> set s, tl (dropWhile (\<lambda>x. x \<noteq> c) s))"

lemma partition_at_stop [simp]: "c \<notin> set a \<Longrightarrow> partition_at c (a @ c # r) = (a, True, r)"
  by (induction a) (auto simp: partition_at_def)

lemma partition_at_absent [simp]: "c \<notin> set s \<Longrightarrow> partition_at c s = (s, False, [])"
  by (induction s) (auto simp: partition_at_def)

lemma partition_at_found: "c \<in> set s \<Longrightarrow> partition_at c s = (a, b, r) \<Longrightarrow> s = a @ c # r \<and> c \<notin> set a"
  by (induction s arbitrary: a) (fastforce simp: partition_at_def split: if_splits)+

text \<open>\<open>s.split(c)\<close>\<close>

fun split_all :: "nat \<Rightarrow> str \<Rightarrow> str list" where
  "split_all c [] = [[]]"
| "split_all c (x # s) =
     (if x = c then [] # split_all c s
      else (case split_all c s of [] \<Rightarrow> [[x]] | p # ps \<Rightarrow> (x # p) # ps))"

lemma split_all_absent: "c \<notin> set s \<Longrightarrow> split_all c s = [s]"
  by (induction s) auto

lemma split_all_append: "c \<notin> set a \<Longrightarrow> split_all c (a @ c # r) = a # split_all c r"
  by (induction a) auto

lemma split_all_no_sep: "p \<in> set (split_all c s) \<Longrightarrow> c \<notin> set p"
  by (induction s arbitrary: p) (auto split: if_splits list.splits)

text \<open>Lower case on ASCII letters: \<open>casefold()\<close> and \<open>lower()\<close> of the ASCII texts the program folds.\<close>

definition fold_char :: "nat \<Rightarrow> nat" where
  "fold_char c = (if is_upper c then c + 32 else c)"

definition casefold :: "str \<Rightarrow> str" where
  "casefold s = map fold_char s"

definition is_ascii :: "str \<Rightarrow> bool" where
  "is_ascii s \<longleftrightarrow> list_all (\<lambda>c. c < 128) s"

section \<open>Decimal numbers\<close>

fun str_of_nat :: "nat \<Rightarrow> str" where
  "str_of_nat n = (if n < 10 then [48 + n] else str_of_nat (n div 10) @ [48 + n mod 10])"

declare str_of_nat.simps [simp del]

definition str_of_int :: "int \<Rightarrow> str" where   \<comment> \<open>\<open>str(i)\<close>\<close>
  "str_of_int i = (if i < 0 then 45 # str_of_nat (nat (- i)) else str_of_nat (nat i))"

definition nat_of_str :: "str \<Rightarrow> nat" where   \<comment> \<open>\<open>int(s)\<close> for \<open>s\<close> of ASCII digits\<close>
  "nat_of_str s = foldl (\<lambda>a c. 10 * a + (c - 48)) 0 s"

lemma str_of_nat_digits: "list_all is_digit (str_of_nat n)"
  by (induction n rule: str_of_nat.induct)
    (subst str_of_nat.simps, auto simp: is_digit_def [abs_def])

lemma str_of_nat_not_Nil [simp]: "str_of_nat n \<noteq> []"
  by (subst str_of_nat.simps) simp

lemma nat_of_str_snoc: "nat_of_str (s @ [c]) = 10 * nat_of_str s + (c - 48)"
  by (simp add: nat_of_str_def)

lemma nat_of_str_of_nat [simp]: "nat_of_str (str_of_nat n) = n"
proof (induction n rule: str_of_nat.induct)
  case (1 n)
  show ?case
  proof (cases "n < 10")
    case True
    then show ?thesis by (subst str_of_nat.simps) (simp add: nat_of_str_def)
  next
    case False
    with 1 have "nat_of_str (str_of_nat (n div 10)) = n div 10" by simp
    with False show ?thesis by (subst str_of_nat.simps) (simp add: nat_of_str_snoc)
  qed
qed

lemma str_of_nat_inj [simp]: "str_of_nat m = str_of_nat n \<longleftrightarrow> m = n"
  by (metis nat_of_str_of_nat)

lemma length_str_of_nat: "0 < k \<Longrightarrow> n < 10 ^ k \<longleftrightarrow> length (str_of_nat n) \<le> k"
proof (induction n arbitrary: k rule: str_of_nat.induct)
  case (1 n)
  show ?case
  proof (cases "n < 10")
    case True
    have "(10::nat) ^ 1 \<le> 10 ^ k" using 1(2) by (intro power_increasing) auto
    with True have "n < 10 ^ k" by simp
    moreover have "length (str_of_nat n) \<le> k" using True 1(2) by (subst str_of_nat.simps) simp
    ultimately show ?thesis by simp
  next
    case False
    have len: "length (str_of_nat n) = Suc (length (str_of_nat (n div 10)))"
      using False by (subst str_of_nat.simps) simp
    show ?thesis
    proof (cases "k = 1")
      case True
      then show ?thesis using False len by simp
    next
      case k: False
      with 1(2) obtain j where j: "k = Suc j" "0 < j" by (cases k) auto
      have "n < 10 ^ k \<longleftrightarrow> n div 10 < 10 ^ j" unfolding j(1) by (simp add: div_less_iff_less_mult mult.commute)
      also have "\<dots> \<longleftrightarrow> length (str_of_nat (n div 10)) \<le> j" using 1(1)[OF False j(2)] .
      finally show ?thesis using len j by simp
    qed
  qed
qed

section \<open>UTF-8\<close>

definition utf8_char :: "nat \<Rightarrow> bytes" where
  "utf8_char c =
    (if c < 128 then [c]
     else if c < 2048 then [192 + c div 64, 128 + c mod 64]
     else if c < 65536 then [224 + c div 4096, 128 + c div 64 mod 64, 128 + c mod 64]
     else [240 + c div 262144, 128 + c div 4096 mod 64, 128 + c div 64 mod 64, 128 + c mod 64])"

definition is_surrogate :: "nat \<Rightarrow> bool" where
  "is_surrogate c \<longleftrightarrow> 55296 \<le> c \<and> c \<le> 57343"

text \<open>The bytes of \<open>s.encode("utf-8")\<close>; a lone surrogate makes Python raise.\<close>

definition utf8 :: "str \<Rightarrow> bytes" where
  "utf8 s = concat (map utf8_char s)"

definition encode_utf8 :: "str \<Rightarrow> bytes res" where
  "encode_utf8 s = (if list_ex is_surrogate s then raise UnicodeEncodeError else ret (utf8 s))"

lemma utf8_Nil [simp]: "utf8 [] = []"
  by (simp add: utf8_def)

lemma utf8_Cons: "utf8 (c # s) = utf8_char c @ utf8 s"
  by (simp add: utf8_def)

lemma utf8_append: "utf8 (s @ t) = utf8 s @ utf8 t"
  by (simp add: utf8_def)

lemma utf8_ascii: "is_ascii s \<Longrightarrow> utf8 s = s"
  by (induction s) (auto simp: is_ascii_def utf8_Cons utf8_char_def)

text \<open>Reading one character back: the lead byte says how many bytes follow.\<close>

definition utf8_next :: "bytes \<Rightarrow> nat \<times> bytes" where
  "utf8_next bs =
    (if bs ! 0 < 192 then (bs ! 0, drop 1 bs)
     else if bs ! 0 < 224 then (64 * (bs ! 0 - 192) + (bs ! 1 - 128), drop 2 bs)
     else if bs ! 0 < 240 then
       (64 * (64 * (bs ! 0 - 224) + (bs ! 1 - 128)) + (bs ! 2 - 128), drop 3 bs)
     else (64 * (64 * (64 * (bs ! 0 - 240) + (bs ! 1 - 128)) + (bs ! 2 - 128)) + (bs ! 3 - 128),
           drop 4 bs))"

lemma utf8_next_utf8_char:
  assumes "c < 1114112"
  shows "utf8_next (utf8_char c @ r) = (c, r)"
proof -
  have d2: "c div 4096 = c div 64 div 64" "c div 262144 = c div 64 div 64 div 64"
    by (simp_all add: div_mult2_eq [symmetric])
  have b: "c < 2048 \<Longrightarrow> c div 64 < 32" "c < 65536 \<Longrightarrow> c div 64 div 64 < 16"
    by (simp_all add: div_less_iff_less_mult)
  consider "c < 128" | "\<not> c < 128" "c < 2048" | "\<not> c < 2048" "c < 65536" | "\<not> c < 65536" by blast
  then show ?thesis
    by cases (use b in \<open>simp_all add: utf8_char_def utf8_next_def d2\<close>)
qed

lemma utf8_char_prefix:
  assumes "c < 1114112" and "d < 1114112" and "utf8_char c @ r = utf8_char d @ s"
  shows "c = d \<and> r = s"
proof -
  have "(c, r) = (d, s)"
    using utf8_next_utf8_char [OF assms(1), of r] utf8_next_utf8_char [OF assms(2), of s]
    unfolding assms(3) by (rule trans [OF sym])
  then show ?thesis by simp
qed

lemma utf8_char_not_Nil [simp]: "utf8_char c \<noteq> []"
  by (simp add: utf8_char_def)

text \<open>A \<open>str\<close> holds code points only.\<close>

definition is_text :: "str \<Rightarrow> bool" where
  "is_text s \<longleftrightarrow> list_all (\<lambda>c. c < 1114112) s"

lemma utf8_inj:
  assumes "is_text s" and "is_text t" and "utf8 s = utf8 t"
  shows "s = t"
  using assms
proof (induction s arbitrary: t)
  case Nil
  then show ?case by (cases t) (auto simp: utf8_Cons)
next
  case (Cons c s)
  then obtain d t' where t: "t = d # t'" by (cases t) (auto simp: utf8_Cons)
  with Cons.prems have "c = d \<and> utf8 s = utf8 t'"
    by (intro utf8_char_prefix) (auto simp: is_text_def utf8_Cons)
  with Cons t show ?case by (auto simp: is_text_def)
qed

end
