(* ===== verification/Json.thy ===== *)
theory Json
  imports Pytext
begin

text \<open>
  JSON as the program sees it. A value of type \<open>json\<close> is the parse tree of a document: objects
  keep their pairs in order and may repeat a key, so that the three ways the source reads a
  document are functions on it: \<open>loads\<close> (\<open>json.loads\<close>: the last value of a repeated key wins),
  \<open>loads_strict\<close> (\<open>object_pairs_hook=reject_duplicate_keys\<close>), and the writers
  \<open>dumps\<close>/\<open>canonical_json\<close> (\<open>json.dumps\<close> with \<open>ensure_ascii=True\<close> and compact separators,
  without and with \<open>sort_keys\<close>). The step from text to parse tree is not modelled.
\<close>

datatype pyfloat = Fin rat | NegZero | PosInf | NegInf | NaN

datatype json =
    JNull
  | JBool bool
  | JInt int
  | JFloat pyfloat
  | JStr str
  | JArr "json list"
  | JObj "(str \<times> json) list"

fun float_value :: "pyfloat \<Rightarrow> rat option" where   \<comment> \<open>\<open>math.isfinite\<close> and the value\<close>
  "float_value (Fin r) = Some r"
| "float_value NegZero = Some 0"
| "float_value _ = None"

type_synonym pairs = "(str \<times> json) list"

section \<open>Reading\<close>

definition dict_of_pairs :: "('k \<times> 'v) list \<Rightarrow> ('k \<times> 'v) list" where
  "dict_of_pairs ps = foldl (\<lambda>d (k, v). AList.update k v d) [] ps"

fun loads :: "json \<Rightarrow> json" where
  "loads (JArr xs) = JArr (map loads xs)"
| "loads (JObj kvs) = JObj (dict_of_pairs (map (\<lambda>(k, v). (k, loads v)) kvs))"
| "loads v = v"

fun has_duplicate_key :: "json \<Rightarrow> bool" where
  "has_duplicate_key (JArr xs) = list_ex has_duplicate_key xs"
| "has_duplicate_key (JObj kvs) =
     (list_ex (\<lambda>(k, v). has_duplicate_key v) kvs \<or> \<not> distinct (map fst kvs))"
| "has_duplicate_key v = False"

definition loads_strict :: "exc \<Rightarrow> json \<Rightarrow> json res" where
  "loads_strict e v = (if has_duplicate_key v then raise e else ret v)"

text \<open>\<open>payload.get(k)\<close>: a missing key and \<open>null\<close> are both \<open>None\<close>.\<close>

definition dget :: "pairs \<Rightarrow> string \<Rightarrow> json" where
  "dget kvs k = (case map_of kvs (lit k) of None \<Rightarrow> JNull | Some v \<Rightarrow> v)"

definition dget_default :: "pairs \<Rightarrow> string \<Rightarrow> json \<Rightarrow> json" where
  "dget_default kvs k d = (case map_of kvs (lit k) of None \<Rightarrow> d | Some v \<Rightarrow> v)"

text \<open>\<open>set(payload) == KEYS\<close>\<close>

definition keys_are :: "pairs \<Rightarrow> string list \<Rightarrow> bool" where
  "keys_are kvs ks \<longleftrightarrow> set (map fst kvs) = set (map lit ks)"

text \<open>
  \<open>x in S\<close> for a set of strings: an unhashable \<open>x\<close> (a list or a dict) raises, any other
  value is compared.
\<close>

fun in_str_set :: "json \<Rightarrow> string list \<Rightarrow> bool res" where
  "in_str_set (JStr s) S = ret (s \<in> set (map lit S))"
| "in_str_set (JArr _) S = raise (TypeError ''unhashable type: list'')"
| "in_str_set (JObj _) S = raise (TypeError ''unhashable type: dict'')"
| "in_str_set _ S = ret False"

text \<open>\<open>x == 0\<close> in Python: \<open>False\<close>, \<open>0.0\<close> and \<open>-0.0\<close> are equal to \<open>0\<close>.\<close>

fun equals_zero :: "json \<Rightarrow> bool" where
  "equals_zero (JInt i) = (i = 0)"
| "equals_zero (JBool b) = (\<not> b)"
| "equals_zero (JFloat f) = (f = Fin 0 \<or> f = NegZero)"
| "equals_zero _ = False"

text \<open>\<open>isinstance(x, int) and not isinstance(x, bool) and x >= lo\<close>, else raise \<open>e\<close>\<close>

definition int_at_least :: "int \<Rightarrow> exc \<Rightarrow> json \<Rightarrow> int res" where
  "int_at_least lo e v = (case v of JInt i \<Rightarrow> if i < lo then raise e else ret i | _ \<Rightarrow> raise e)"

text \<open>\<open>if not isinstance(x, T): raise e\<close>\<close>

definition as_str :: "exc \<Rightarrow> json \<Rightarrow> str res" where
  "as_str e v = (case v of JStr s \<Rightarrow> ret s | _ \<Rightarrow> raise e)"

definition as_bool :: "exc \<Rightarrow> json \<Rightarrow> bool res" where
  "as_bool e v = (case v of JBool b \<Rightarrow> ret b | _ \<Rightarrow> raise e)"

definition as_arr :: "exc \<Rightarrow> json \<Rightarrow> json list res" where
  "as_arr e v = (case v of JArr xs \<Rightarrow> ret xs | _ \<Rightarrow> raise e)"

definition as_obj :: "exc \<Rightarrow> json \<Rightarrow> pairs res" where
  "as_obj e v = (case v of JObj kvs \<Rightarrow> ret kvs | _ \<Rightarrow> raise e)"

fun is_str :: "json \<Rightarrow> bool" where
  "is_str (JStr _) = True"
| "is_str _ = False"

section \<open>Writing\<close>

definition hex_digit :: "nat \<Rightarrow> nat" where
  "hex_digit d = (if d < 10 then 48 + d else 87 + d)"

definition hex4 :: "nat \<Rightarrow> str" where
  "hex4 n = [hex_digit (n div 4096 mod 16), hex_digit (n div 256 mod 16),
             hex_digit (n div 16 mod 16), hex_digit (n mod 16)]"

definition escape_char :: "nat \<Rightarrow> str" where
  "escape_char c =
    (if c = 34 then [92, 34]
     else if c = 92 then [92, 92]
     else if c = 10 then [92, 110]
     else if c = 13 then [92, 114]
     else if c = 9 then [92, 116]
     else if c = 12 then [92, 102]
     else if c = 8 then [92, 98]
     else if 32 \<le> c \<and> c \<le> 126 then [c]
     else if c < 65536 then [92, 117] @ hex4 c
     else [92, 117] @ hex4 (55296 + (c - 65536) div 1024 mod 1024)
          @ [92, 117] @ hex4 (56320 + (c - 65536) mod 1024))"

definition quote_json :: "str \<Rightarrow> str" where
  "quote_json s = [34] @ concat (map escape_char s) @ [34]"

fun join :: "nat \<Rightarrow> str list \<Rightarrow> str" where
  "join c [] = []"
| "join c [s] = s"
| "join c (s # t # ss) = s @ [c] @ join c (t # ss)"

definition member_text :: "str \<times> str \<Rightarrow> str" where
  "member_text kt = quote_json (fst kt) @ [58] @ snd kt"

fun dumps_with :: "bool \<Rightarrow> (pyfloat \<Rightarrow> str) \<Rightarrow> json \<Rightarrow> str" where
  "dumps_with srt fr JNull = lit ''null''"
| "dumps_with srt fr (JBool b) = (if b then lit ''true'' else lit ''false'')"
| "dumps_with srt fr (JInt i) = str_of_int i"
| "dumps_with srt fr (JFloat f) = fr f"
| "dumps_with srt fr (JStr s) = quote_json s"
| "dumps_with srt fr (JArr xs) = [91] @ join 44 (map (dumps_with srt fr) xs) @ [93]"
| "dumps_with srt fr (JObj kvs) =
     (let texts = map (\<lambda>(k, v). (k, dumps_with srt fr v)) kvs
      in [123] @ join 44 (map member_text (if srt then sort_key fst texts else texts)) @ [125])"

definition dumps :: "(pyfloat \<Rightarrow> str) \<Rightarrow> json \<Rightarrow> str" where
  "dumps = dumps_with False"

text \<open>\<open>_canonical_json\<close>: the text is ASCII, so its UTF-8 bytes are its code points.\<close>

definition canonical_json :: "(pyfloat \<Rightarrow> str) \<Rightarrow> json \<Rightarrow> bytes" where
  "canonical_json = dumps_with True"

section \<open>Facts\<close>

lemma dict_of_pairs_snoc:
  "dict_of_pairs (ps @ [p]) = AList.update (fst p) (snd p) (dict_of_pairs ps)"
  by (simp add: dict_of_pairs_def split: prod.splits)

lemma keys_distinct_dict_of_pairs [simp]: "keys_distinct (dict_of_pairs ps)"
  by (induction ps rule: rev_induct) (simp_all add: dict_of_pairs_snoc, simp add: dict_of_pairs_def)

lemma update_fresh: "k \<notin> set (map fst d) \<Longrightarrow> AList.update k v d = d @ [(k, v)]"
  by (induction d) auto

lemma dict_of_pairs_distinct: "distinct (map fst ps) \<Longrightarrow> dict_of_pairs ps = ps"
  by (induction ps rule: rev_induct) (auto simp: dict_of_pairs_snoc update_fresh, simp add: dict_of_pairs_def)

text \<open>A document without a repeated key reads as itself.\<close>

lemma loads_no_duplicates: "\<not> has_duplicate_key v \<Longrightarrow> loads v = v"
proof (induction v rule: loads.induct)
  case (1 xs)
  then show ?case by (auto simp: list_ex_iff intro!: map_idI)
next
  case (2 kvs)
  have "map (\<lambda>(k, v). (k, loads v)) kvs = kvs"
    using 2 by (intro map_idI) (fastforce simp: list_ex_iff)
  with 2 show ?case by (simp add: dict_of_pairs_distinct)
qed simp_all

lemma as_Inr [simp, res_simps]:
  "as_str e v = Inr t \<longleftrightarrow> v = JStr t"
  "as_bool e v = Inr b \<longleftrightarrow> v = JBool b"
  "as_arr e v = Inr xs \<longleftrightarrow> v = JArr xs"
  "as_obj e v = Inr kvs \<longleftrightarrow> v = JObj kvs"
  by (auto simp: as_str_def as_bool_def as_arr_def as_obj_def split: json.splits)

lemma as_simps [simp]:
  "as_str e (JStr t) = Inr t"
  "as_bool e (JBool b) = Inr b"
  "as_arr e (JArr xs) = Inr xs"
  "as_obj e (JObj kvs) = Inr kvs"
  by simp_all

text \<open>Reading a value of the wrong type or range raises the given exception and no other.\<close>

lemma reader_Inl:
  "as_str e v = Inl e' \<Longrightarrow> e' = e"
  "as_bool e v = Inl e' \<Longrightarrow> e' = e"
  "as_arr e v = Inl e' \<Longrightarrow> e' = e"
  "as_obj e v = Inl e' \<Longrightarrow> e' = e"
  "int_at_least lo e v = Inl e' \<Longrightarrow> e' = e"
  by (auto simp: as_str_def as_bool_def as_arr_def as_obj_def int_at_least_def split: json.splits if_splits)

lemma int_at_least_Inr [simp, res_simps]:
  "int_at_least lo e v = Inr i \<longleftrightarrow> v = JInt i \<and> lo \<le> i"
  by (auto simp: int_at_least_def split: json.splits)

lemma int_at_least_JInt [simp]: "lo \<le> i \<Longrightarrow> int_at_least lo e (JInt i) = Inr i"
  by simp

lemma length_hex4 [simp]: "length (hex4 n) = 4"
  by (simp add: hex4_def)

lemma in_str_set_eq_Inr:
  "in_str_set v S = Inr True \<longleftrightarrow> (\<exists>s \<in> set S. v = JStr (lit s))"
  by (cases v) auto

section \<open>The order of keys\<close>

text \<open>What a text written with \<open>sort_keys=True\<close> parses to\<close>

fun sort_keys :: "json \<Rightarrow> json" where
  "sort_keys (JArr xs) = JArr (map sort_keys xs)"
| "sort_keys (JObj kvs) = JObj (sort_key fst (map (\<lambda>(k, v). (k, sort_keys v)) kvs))"
| "sort_keys v = v"

lemma insort_key_map: "insort_key f (g x) (map g xs) = map g (insort_key (f \<circ> g) x xs)"
  by (induction xs) auto

lemma sort_key_map: "sort_key f (map g xs) = map g (sort_key (f \<circ> g) xs)"
  by (induction xs) (simp_all add: insort_key_map [of f g, unfolded comp_def] comp_def)

lemma sort_key_values:
  "sort_key fst (map (\<lambda>(k, v). (k, f v)) kvs) = map (\<lambda>(k, v). (k, f v)) (sort_key fst kvs)"
  by (simp add: sort_key_map)

text \<open>Sorting the keys first changes nothing in the canonical text.\<close>

lemma canonical_sort_keys: "canonical_json fr (sort_keys v) = canonical_json fr v"
  unfolding canonical_json_def
proof (induction v rule: sort_keys.induct)
  case (1 xs)
  then have "map (dumps_with True fr \<circ> sort_keys) xs = map (dumps_with True fr) xs" by simp
  then show ?case by (simp only: sort_keys.simps dumps_with.simps map_map)
next
  case (2 kvs)
  have "map (\<lambda>(k, v). (k, dumps_with True fr v)) (map (\<lambda>(k, v). (k, sort_keys v)) kvs)
      = map (\<lambda>(k, v). (k, dumps_with True fr v)) kvs"
    using 2 by (fastforce simp: comp_def case_prod_unfold)
  then show ?case
    by (simp add: sort_key_values [symmetric] sorted_sort_key sort_key_id_if_sorted Let_def
        del: map_map)
qed simp_all

lemma distinct_sort_key [simp]:
  "distinct (map fst (sort_key fst kvs)) \<longleftrightarrow> distinct (map fst (kvs :: (str \<times> 'a) list))"
  by (metis mset_eq_imp_distinct_iff mset_map mset_sort)

lemma has_duplicate_key_sort_keys: "has_duplicate_key (sort_keys v) = has_duplicate_key v"
proof (induction v rule: sort_keys.induct)
  case (1 xs)
  then show ?case by (auto simp: list_ex_iff)
next
  case (2 kvs)
  then show ?case by (fastforce simp: list_ex_iff)
qed simp_all

text \<open>A dictionary is what it maps: \<open>get\<close> and the key set do not see the order.\<close>

definition same_dict :: "pairs \<Rightarrow> pairs \<Rightarrow> bool" where
  "same_dict p q \<longleftrightarrow> map_of p = map_of q"

lemma same_dict_dget: "same_dict p q \<Longrightarrow> dget p k = dget q k"
  by (simp add: same_dict_def dget_def)

lemma same_dict_keys_are: "same_dict p q \<Longrightarrow> keys_are p ks = keys_are q ks"
  unfolding same_dict_def keys_are_def by (metis dom_map_of_conv_image_fst image_set)

lemma same_dict_sort: "distinct (map fst p) \<Longrightarrow> same_dict (sort_key fst p) p"
  by (simp add: same_dict_def map_of_sort_key keys_distinct_def)

end
