(* ===== verification/Radix.thy ===== *)
theory Radix
  imports Pytext
begin

text \<open>
  Positional numbers, most significant digit first: the arithmetic under base58 and
  \<open>int.from_bytes\<close>/\<open>int.to_bytes\<close>, and base64 over bytes. The two round trips
  (\<open>value_digits\<close>, \<open>digits_value\<close>) and the one for base64 carry the proofs of the DID and
  signature encodings.
\<close>

section \<open>Digits and values\<close>

definition value_of :: "nat \<Rightarrow> nat list \<Rightarrow> nat" where
  "value_of b ds = foldl (\<lambda>a d. a * b + d) 0 ds"

fun digits :: "nat \<Rightarrow> nat \<Rightarrow> nat list" where
  "digits b n = (if n = 0 \<or> b < 2 then [] else digits b (n div b) @ [n mod b])"

declare digits.simps [simp del]

lemma digits_zero [simp]: "digits b 0 = []"
  by (simp add: digits.simps)

lemma value_of_snoc [simp]: "value_of b (ds @ [d]) = value_of b ds * b + d"
  by (simp add: value_of_def)

lemma value_of_Nil [simp]: "value_of b [] = 0"
  by (simp add: value_of_def)

lemma value_of_single [simp]: "value_of b [d] = d"
  by (simp add: value_of_def)

lemma value_of_zeros [simp]: "value_of b (replicate k 0) = 0"
  by (induction k) (simp_all add: replicate_append_same [symmetric])

lemma value_of_leading_zeros [simp]: "value_of b (replicate k 0 @ ds) = value_of b ds"
proof (induction ds rule: rev_induct)
  case (snoc d ds)
  have "value_of b ((replicate k 0 @ ds) @ [d]) = value_of b (replicate k 0 @ ds) * b + d"
    by (rule value_of_snoc)
  with snoc show ?case by simp
qed simp

lemma value_digits: "2 \<le> b \<Longrightarrow> value_of b (digits b n) = n"
proof (induction b n rule: digits.induct)
  case (1 b n)
  then show ?case by (cases "n = 0") (simp_all add: digits.simps [of b n])
qed

lemma digits_bound: "2 \<le> b \<Longrightarrow> list_all (\<lambda>d. d < b) (digits b n)"
proof (induction b n rule: digits.induct)
  case (1 b n)
  then show ?case by (cases "n = 0") (simp_all add: digits.simps [of b n])
qed

lemma digits_eq_Nil: "2 \<le> b \<Longrightarrow> digits b n = [] \<longleftrightarrow> n = 0"
  by (subst digits.simps) simp

lemma hd_digits: "2 \<le> b \<Longrightarrow> n \<noteq> 0 \<Longrightarrow> hd (digits b n) \<noteq> 0"
proof (induction b n rule: digits.induct)
  case (1 b n)
  show ?case
  proof (cases "n div b = 0")
    case True
    with 1 show ?thesis by (subst digits.simps) (auto simp: div_eq_0_iff)
  next
    case False
    with 1 have "hd (digits b (n div b)) \<noteq> 0" by simp
    moreover have "digits b (n div b) \<noteq> []" using 1 False by (simp add: digits_eq_Nil)
    ultimately show ?thesis using 1 by (subst digits.simps) simp
  qed
qed

lemma value_of_pos: "ds \<noteq> [] \<Longrightarrow> hd ds \<noteq> 0 \<Longrightarrow> 0 < b \<Longrightarrow> 0 < value_of b ds"
proof (induction ds rule: rev_induct)
  case (snoc d ds)
  then show ?case by (cases "ds = []") simp_all
qed simp

lemma digits_value:
  "2 \<le> b \<Longrightarrow> list_all (\<lambda>d. d < b) ds \<Longrightarrow> (ds = [] \<or> hd ds \<noteq> 0) \<Longrightarrow> digits b (value_of b ds) = ds"
proof (induction ds rule: rev_induct)
  case (snoc d ds)
  have d: "d < b" and ds: "digits b (value_of b ds) = ds" using snoc by (cases ds; auto)+
  have pos: "value_of b (ds @ [d]) \<noteq> 0"
    using value_of_pos [of "ds @ [d]" b] snoc.prems by auto
  show ?case using pos d ds snoc.prems(1) by (subst digits.simps) simp
qed simp

text \<open>A list splits into its leading zeros and a rest without one.\<close>

lemma leading_zeros_split:
  "ds = replicate (length (takeWhile (\<lambda>d. d = 0) ds)) (0::nat) @ dropWhile (\<lambda>d. d = 0) ds"
proof -
  have "takeWhile (\<lambda>d. d = 0) ds = replicate (length (takeWhile (\<lambda>d. d = 0) ds)) 0"
    by (rule replicate_eqI) (auto dest: set_takeWhileD)
  then show ?thesis by (metis takeWhile_dropWhile_id)
qed

lemma dropWhile_zero_hd:
  "dropWhile (\<lambda>d. d = 0) ds = [] \<or> hd (dropWhile (\<lambda>d. d = 0) ds) \<noteq> (0::nat)"
  using hd_dropWhile by blast

section \<open>Base64, URL-safe alphabet, without padding\<close>

definition b64_char :: "nat \<Rightarrow> nat" where
  "b64_char d = (if d < 26 then 65 + d else if d < 52 then 71 + d
                 else if d < 62 then d - 4 else if d = 62 then 45 else 95)"

definition b64_index :: "nat \<Rightarrow> nat" where
  "b64_index c = (if is_upper c then c - 65 else if is_lower c then c - 71
                  else if is_digit c then c + 4 else if c = 45 then 62 else 63)"

fun b64_encode :: "bytes \<Rightarrow> str" where
  "b64_encode [] = []"
| "b64_encode [a] = [b64_char (a div 4), b64_char (a mod 4 * 16)]"
| "b64_encode [a, b] =
     [b64_char (a div 4), b64_char (a mod 4 * 16 + b div 16), b64_char (b mod 16 * 4)]"
| "b64_encode (a # b # c # r) =
     [b64_char (a div 4), b64_char (a mod 4 * 16 + b div 16),
      b64_char (b mod 16 * 4 + c div 64), b64_char (c mod 64)] @ b64_encode r"

fun b64_decode :: "str \<Rightarrow> bytes" where
  "b64_decode (w # x # y # z # r) =
     (let p = b64_index w; q = b64_index x; s = b64_index y; t = b64_index z
      in [p * 4 + q div 16, q mod 16 * 16 + s div 4, s mod 4 * 64 + t] @ b64_decode r)"
| "b64_decode [w, x, y] =
     (let p = b64_index w; q = b64_index x; s = b64_index y
      in [p * 4 + q div 16, q mod 16 * 16 + s div 4])"
| "b64_decode [w, x] = [b64_index w * 4 + b64_index x div 16]"
| "b64_decode _ = []"

definition is_bytes :: "bytes \<Rightarrow> bool" where
  "is_bytes bs \<longleftrightarrow> list_all (\<lambda>b. b < 256) bs"

lemma b64_index_char [simp]: "d < 64 \<Longrightarrow> b64_index (b64_char d) = d"
  by (auto simp: b64_index_def b64_char_def char_class_defs)

lemma b64_char_class: "d < 64 \<Longrightarrow> is_b64url (b64_char d)"
  by (auto simp: b64_char_def char_class_defs)

lemma b64_nibbles:
  "b < 256 \<Longrightarrow> b div 16 < (16::nat)" "c < 256 \<Longrightarrow> c div 64 < (4::nat)"
  by (simp_all add: div_less_iff_less_mult)

lemma add_shifted_less: "x < p \<Longrightarrow> y < k \<Longrightarrow> x * k + y < p * (k::nat)"
proof -
  assume "x < p" "y < k"
  then have "x * k + y < Suc x * k" by simp
  also have "\<dots> \<le> p * k" using \<open>x < p\<close> by (intro mult_right_mono) auto
  finally show ?thesis .
qed

lemma b64_parts:
  "a < 256 \<Longrightarrow> a div 4 < (64::nat)"
  "a mod 4 * 16 < (64::nat)"
  "b < 256 \<Longrightarrow> a mod 4 * 16 + b div 16 < (64::nat)"
  "b mod 16 * 4 < (64::nat)"
  "c < 256 \<Longrightarrow> b mod 16 * 4 + c div 64 < (64::nat)"
  "c mod 64 < (64::nat)"
  using add_shifted_less [of "a mod 4" 4 0 16] add_shifted_less [of "a mod 4" 4 "b div 16" 16]
    add_shifted_less [of "b mod 16" 16 0 4] add_shifted_less [of "b mod 16" 16 "c div 64" 4]
  by (simp_all add: b64_nibbles div_less_iff_less_mult)

lemma b64_roundtrip: "is_bytes bs \<Longrightarrow> b64_decode (b64_encode bs) = bs"
proof (induction bs rule: b64_encode.induct)
  case (2 a)
  then show ?case by (simp add: is_bytes_def b64_parts)
next
  case (3 a b)
  then show ?case by (simp add: is_bytes_def b64_parts b64_nibbles del: div_mult2_eq)
next
  case (4 a b c r)
  then show ?case by (simp add: is_bytes_def b64_parts b64_nibbles)
qed simp

lemma b64_encode_class: "is_bytes bs \<Longrightarrow> list_all is_b64url (b64_encode bs)"
  by (induction bs rule: b64_encode.induct) (simp_all add: is_bytes_def b64_parts b64_char_class)

lemma length_b64_encode: "length (b64_encode bs) = (4 * length bs + 2) div 3"
  by (induction bs rule: b64_encode.induct) simp_all

end
