(* ===== verification/Crypto.thy ===== *)
theory Crypto
  imports Json Radix
begin

text \<open>
  The identity and message rules of \<open>crypto.py\<close>: base58, \<open>did:key\<close> identifiers, the regular
  expressions of rooms and nonces, the text sweep, detached signatures and the signed room
  message. What the source takes from the \<open>cryptography\<close> package (Ed25519), from \<open>hashlib\<close>
  (SHA-256) and from two corners of the standard library is the record \<open>lib\<close>, an argument of
  every definition that uses it; \<open>ed25519_ok\<close> is the documented behaviour of Ed25519.
\<close>

record lib =
  sha256_hex :: "bytes \<Rightarrow> str"              \<comment> \<open>\<open>hashlib.sha256(b).hexdigest()\<close>\<close>
  ed_public :: "bytes \<Rightarrow> bytes"             \<comment> \<open>raw public key of a 32-byte private key\<close>
  ed_sign :: "bytes \<Rightarrow> bytes \<Rightarrow> bytes"      \<comment> \<open>\<open>private_key.sign(payload)\<close>\<close>
  ed_verify :: "bytes \<Rightarrow> bytes \<Rightarrow> bytes \<Rightarrow> bool"   \<comment> \<open>public key, signature, payload\<close>
  float_repr :: "pyfloat \<Rightarrow> str"            \<comment> \<open>\<open>float.__repr__\<close>, used by \<open>json.dumps\<close>\<close>
  netloc_rejected :: "str \<Rightarrow> bool"          \<comment> \<open>\<open>urlsplit\<close>'s checks of bracketed or non-ASCII netlocs\<close>

definition ed25519_ok :: "lib \<Rightarrow> bool" where
  "ed25519_ok L \<longleftrightarrow> (\<forall>k m. length k = 32 \<longrightarrow>
     length (ed_public L k) = 32 \<and> is_bytes (ed_public L k) \<and>
     length (ed_sign L k m) = 64 \<and> is_bytes (ed_sign L k m) \<and>
     ed_verify L (ed_public L k) (ed_sign L k m) m)"

definition sha256_ok :: "lib \<Rightarrow> bool" where
  "sha256_ok L \<longleftrightarrow> (\<forall>m. length (sha256_hex L m) = 64 \<and> list_all is_hex_lower (sha256_hex L m))"

section \<open>Base58\<close>

definition BASE58BTC_ALPHABET :: str where
  "BASE58BTC_ALPHABET = lit ''123456789ABCDEFGHJKLMNPQRSTUVWXYZabcdefghijkmnopqrstuvwxyz''"

definition index_of :: "nat \<Rightarrow> str \<Rightarrow> nat option" where
  "index_of c s = (if c \<in> set s then Some (length (takeWhile (\<lambda>x. x \<noteq> c) s)) else None)"

definition base58btc_encode :: "bytes \<Rightarrow> str" where
  "base58btc_encode data =
     replicate (length (takeWhile (\<lambda>b. b = 0) data)) (BASE58BTC_ALPHABET ! 0)
     @ map (\<lambda>d. BASE58BTC_ALPHABET ! d) (digits 58 (value_of 256 data))"

definition base58_digit :: "nat \<Rightarrow> nat res" where
  "base58_digit c = (case index_of c BASE58BTC_ALPHABET of
      None \<Rightarrow> raise (ProtocolValueError ''base58btc value contains an invalid character'')
    | Some d \<Rightarrow> ret d)"

definition base58btc_decode :: "str \<Rightarrow> bytes res" where
  "base58btc_decode value =
     bind (raise_if (value = []) (ProtocolValueError ''base58btc value must not be empty'')) (\<lambda>_.
     bind (map_res base58_digit value) (\<lambda>ds.
     ret (replicate (length (takeWhile (\<lambda>c. c = 49) value)) 0 @ digits 256 (value_of 58 ds))))"

section \<open>Keys and DIDs\<close>

definition match_hex_seed :: "str \<Rightarrow> bool" where   \<comment> \<open>\<open>[0-9a-fA-F]{64}\<close>\<close>
  "match_hex_seed s \<longleftrightarrow> length s = 64 \<and> list_all (\<lambda>c. is_hex_lower (fold_char c)) s"

definition hex_value :: "nat \<Rightarrow> nat" where
  "hex_value c = (if is_digit c then c - 48 else fold_char c - 87)"

fun bytes_fromhex :: "str \<Rightarrow> bytes" where
  "bytes_fromhex (a # b # s) = (16 * hex_value a + hex_value b) # bytes_fromhex s"
| "bytes_fromhex _ = []"

definition private_key_from_seed :: "str \<Rightarrow> bytes res" where
  "private_key_from_seed seed =
     (if \<not> match_hex_seed seed
      then raise (IdentityError ''Keychain identity must be exactly 64 hexadecimal characters'')
      else ret (bytes_fromhex seed))"

definition match_did :: "str \<Rightarrow> bool" where   \<comment> \<open>\<open>did:key:z6Mk[1-9A-HJ-NP-Za-km-z]{44}\Z\<close>\<close>
  "match_did s \<longleftrightarrow> startswith s (lit ''did:key:z6Mk'') \<and> length s = 56
     \<and> list_all (\<lambda>c. c \<in> set BASE58BTC_ALPHABET) (drop 12 s)"

definition validate_did :: "str \<Rightarrow> str res" where
  "validate_did did =
     (if \<not> match_did did then raise (ProtocolValueError ''DID must be a canonical Ed25519 did:key'')
      else ret did)"

text \<open>\<open>validate_did\<close> applied to a value taken out of JSON\<close>

definition validate_did_value :: "json \<Rightarrow> str res" where
  "validate_did_value v = (case v of JStr s \<Rightarrow> validate_did s
     | _ \<Rightarrow> raise (ProtocolValueError ''DID must be a canonical Ed25519 did:key''))"

definition did_from_private_key :: "lib \<Rightarrow> bytes \<Rightarrow> str res" where
  "did_from_private_key L key =
     (let did = lit ''did:key:z'' @ base58btc_encode ([237, 1] @ ed_public L key)
      in if \<not> match_did did then raise (IdentityError ''derived an invalid Ed25519 did:key'')
         else ret did)"

definition public_key_from_did :: "str \<Rightarrow> bytes res" where
  "public_key_from_did did =
     bind (validate_did did) (\<lambda>valid_did.
     bind (base58btc_decode (removeprefix valid_did (lit ''did:key:z''))) (\<lambda>decoded.
     if length decoded \<noteq> 34 \<or> take 2 decoded \<noteq> [237, 1]
     then raise (ProtocolValueError ''DID does not contain a canonical Ed25519 public key'')
     else ret (drop 2 decoded)))"

definition fingerprint_of_did :: "lib \<Rightarrow> str \<Rightarrow> str res" where
  "fingerprint_of_did L did =
     bind (validate_did did) (\<lambda>_. ret (take 16 (sha256_hex L (utf8 did))))"

section \<open>Rooms, nonces and texts\<close>

definition match_room :: "str \<Rightarrow> bool" where   \<comment> \<open>\<open>[a-z0-9][a-z0-9_-]{0,47}\Z\<close>\<close>
  "match_room s \<longleftrightarrow> s \<noteq> [] \<and> length s \<le> 48 \<and> (is_lower (hd s) \<or> is_digit (hd s))
     \<and> list_all (\<lambda>c. is_lower c \<or> is_digit c \<or> c = 95 \<or> c = 45) (tl s)"

definition validate_room :: "str \<Rightarrow> str res" where
  "validate_room room =
     (if \<not> match_room room then raise (ProtocolValueError ''room must match ^[a-z0-9][a-z0-9_-]{0,47}$'')
      else ret room)"

definition match_nonce :: "str \<Rightarrow> bool" where   \<comment> \<open>\<open>[0-9]{1,19}\Z\<close>\<close>
  "match_nonce s \<longleftrightarrow> s \<noteq> [] \<and> length s \<le> 19 \<and> list_all is_digit s"

definition validate_nonce :: "str \<Rightarrow> str res" where
  "validate_nonce rendered =
     (if \<not> match_nonce rendered then raise (ProtocolValueError ''nonce must contain 1-19 ASCII digits'')
      else ret rendered)"

text \<open>
  \<open>validate_nonce\<close> on a JSON value: only an integer or a string can render as digits; the
  \<open>str()\<close> of any other value has a letter, a bracket or a point in it.
\<close>

definition validate_nonce_value :: "json \<Rightarrow> str res" where
  "validate_nonce_value v = (case v of
      JInt i \<Rightarrow> validate_nonce (str_of_int i)
    | JStr s \<Rightarrow> validate_nonce s
    | _ \<Rightarrow> raise (ProtocolValueError ''nonce must contain 1-19 ASCII digits''))"

definition is_invisible :: "nat \<Rightarrow> bool" where
  "is_invisible c \<longleftrightarrow> in_ranges (cat_Cc @ cat_Cf @ cat_Cs @ cat_Co @ cat_Zl_Zp) c"

definition sweep_text_limit :: "nat \<Rightarrow> str \<Rightarrow> str res" where
  "sweep_text_limit limit text =
     (let swept = strip (map (\<lambda>c. if is_invisible c then 32 else c) text)
      in if swept = [] then raise (ProtocolValueError ''message has no visible text after the protocol sweep'')
         else if limit < length swept then raise (ProtocolValueError ''message exceeds the character limit'')
         else ret swept)"

definition sweep_text :: "str \<Rightarrow> str res" where
  "sweep_text = sweep_text_limit 4096"

section \<open>Signatures\<close>

definition match_signature :: "str \<Rightarrow> bool" where   \<comment> \<open>\<open>[A-Za-z0-9_-]{86}\<close>\<close>
  "match_signature s \<longleftrightarrow> length s = 86 \<and> list_all is_b64url s"

text \<open>\<open>[A-Za-z0-9_-]{85}[AQgw]\<close>: the last character carries no stray bits\<close>

definition match_canonical_signature :: "str \<Rightarrow> bool" where
  "match_canonical_signature s \<longleftrightarrow> length s = 86 \<and> list_all is_b64url (butlast s)
     \<and> last s \<in> {65, 81, 103, 119}"

definition sign_detached :: "lib \<Rightarrow> bytes \<Rightarrow> bytes \<Rightarrow> str res" where
  "sign_detached L key payload =
     (let signature = b64_encode (ed_sign L key payload)
      in if \<not> match_signature signature then raise (IdentityError ''generated an invalid Ed25519 signature'')
         else ret signature)"

definition verify_detached_signature :: "lib \<Rightarrow> str \<Rightarrow> bytes \<Rightarrow> str \<Rightarrow> bool" where
  "verify_detached_signature L did payload signature \<longleftrightarrow>
     match_signature signature \<and>
     (case public_key_from_did did of
        Inl _ \<Rightarrow> False
      | Inr public \<Rightarrow> ed_verify L public (b64_decode signature) payload)"

text \<open>\<open>f"{room}|{nonce}|{text}"\<close>\<close>

definition canonical_message :: "str \<Rightarrow> str \<Rightarrow> str \<Rightarrow> str" where
  "canonical_message room nonce text = room @ [124] @ nonce @ [124] @ text"

definition sign_room_message :: "lib \<Rightarrow> bytes \<Rightarrow> str \<Rightarrow> str \<Rightarrow> str \<Rightarrow> (str \<times> str) res" where
  "sign_room_message L key room nonce text =
     bind (validate_room room) (\<lambda>valid_room.
     bind (validate_nonce nonce) (\<lambda>valid_nonce.
     bind (sweep_text text) (\<lambda>swept.
     bind (encode_utf8 (canonical_message valid_room valid_nonce swept)) (\<lambda>canonical.
     bind (sign_detached L key canonical) (\<lambda>signature.
     ret (swept, signature))))))"

section \<open>The validator interface\<close>

text \<open>
  A validator returns its argument or raises: whoever goes on with the returned value goes on
  with the checked argument itself. Clients use the two facts of this locale.
\<close>

locale validator =
  fixes check :: "'a \<Rightarrow> 'a res" and accepted :: "'a \<Rightarrow> bool"
  assumes check_accepted: "accepted x \<Longrightarrow> check x = Inr x"
    and check_rejected: "\<not> accepted x \<Longrightarrow> \<exists>e. check x = Inl e"
begin

lemma check_iff: "check x = Inr y \<longleftrightarrow> accepted x \<and> y = x"
  using check_accepted check_rejected by (cases "accepted x") fastforce+

lemma check_again: "bind (check x) check = check x"
  by (cases "check x") (auto simp: check_iff check_accepted)

end

interpretation did: validator validate_did match_did
  by unfold_locales (simp_all add: validate_did_def)

interpretation room: validator validate_room match_room
  by unfold_locales (simp_all add: validate_room_def)

interpretation nonce: validator validate_nonce match_nonce
  by unfold_locales (simp_all add: validate_nonce_def)

lemmas validated [simp] = did.check_iff room.check_iff nonce.check_iff
  did.check_accepted room.check_accepted nonce.check_accepted

lemma validate_did_value_Inr [simp]:
  "validate_did_value v = Inr s \<longleftrightarrow> v = JStr s \<and> match_did s"
  by (auto simp: validate_did_value_def split: json.splits)

section \<open>Base58 round trip\<close>

lemma length_alphabet [simp]: "length BASE58BTC_ALPHABET = 58"
  by (simp add: BASE58BTC_ALPHABET_def)

lemma distinct_alphabet: "distinct BASE58BTC_ALPHABET"
  by (simp add: BASE58BTC_ALPHABET_def lit_def)

lemma alphabet_0 [simp]: "BASE58BTC_ALPHABET ! 0 = 49"
  by (simp add: BASE58BTC_ALPHABET_def lit_def)

lemma index_of_nth: "distinct s \<Longrightarrow> i < length s \<Longrightarrow> index_of (s ! i) s = Some i"
proof (induction s arbitrary: i)
  case (Cons c s)
  then show ?case by (cases i) (auto simp: index_of_def)
qed simp

lemma base58_digit_nth [simp]: "d < 58 \<Longrightarrow> base58_digit (BASE58BTC_ALPHABET ! d) = Inr d"
  by (simp add: base58_digit_def index_of_nth distinct_alphabet)

lemma map_res_base58_digit:
  "list_all (\<lambda>d. d < 58) ds \<Longrightarrow> map_res base58_digit (map (\<lambda>d. BASE58BTC_ALPHABET ! d) ds) = Inr ds"
  by (induction ds) simp_all

lemma alphabet_eq_49: "d < 58 \<Longrightarrow> BASE58BTC_ALPHABET ! d = 49 \<longleftrightarrow> d = 0"
  using distinct_alphabet nth_eq_iff_index_eq [of BASE58BTC_ALPHABET d 0] by simp

lemma leading_ones:
  assumes "list_all (\<lambda>d. d < 58) ds" and "ds = [] \<or> hd ds \<noteq> 0"
  shows "takeWhile (\<lambda>c. c = 49) (replicate k 49 @ map (\<lambda>d. BASE58BTC_ALPHABET ! d) ds)
    = replicate k 49"
  using assms by (cases ds) (auto simp: takeWhile_append takeWhile_replicate alphabet_eq_49)

lemma base58_decode_encode:
  assumes "is_bytes data" and "data \<noteq> []"
  shows "base58btc_decode (base58btc_encode data) = Inr data"
proof -
  define k where "k = length (takeWhile (\<lambda>b. b = 0) data)"
  define r where "r = dropWhile (\<lambda>b. b = 0) data"
  define ds where "ds = digits 58 (value_of 256 data)"
  have data: "data = replicate k 0 @ r"
    unfolding k_def r_def by (rule leading_zeros_split)
  have v: "value_of 256 data = value_of 256 r" by (subst data) simp
  have r: "digits 256 (value_of 256 r) = r"
  proof (rule digits_value)
    show "list_all (\<lambda>d. d < 256) r"
      using assms(1) by (subst (asm) data) (simp add: is_bytes_def)
    show "r = [] \<or> hd r \<noteq> 0" unfolding r_def by (rule dropWhile_zero_hd)
  qed simp
  have b: "list_all (\<lambda>d. d < 58) ds" unfolding ds_def by (rule digits_bound) simp
  have h: "ds = [] \<or> hd ds \<noteq> 0"
    unfolding ds_def using hd_digits [of 58 "value_of 256 data"] by (cases "value_of 256 data = 0") auto
  have enc: "base58btc_encode data = replicate k 49 @ map (\<lambda>d. BASE58BTC_ALPHABET ! d) ds"
    by (simp add: base58btc_encode_def k_def ds_def)
  have ne: "base58btc_encode data \<noteq> []"
  proof
    assume "base58btc_encode data = []"
    then have "k = 0" and "ds = []" using enc by simp_all
    then have "value_of 256 r = 0" by (simp add: ds_def v digits_eq_Nil)
    with r have "r = []" by simp
    with data \<open>k = 0\<close> assms(2) show False by simp
  qed
  have "list_all (\<lambda>d. d < 58) (replicate k 0 @ ds)" using b by (auto simp: list_all_iff)
  then have "map_res base58_digit (base58btc_encode data) = Inr (replicate k 0 @ ds)"
    using map_res_base58_digit [of "replicate k 0 @ ds"] enc by simp
  moreover have "length (takeWhile (\<lambda>c. c = 49) (base58btc_encode data)) = k"
    using leading_ones [OF b h, of k] enc by simp
  moreover have "value_of 58 ds = value_of 256 data" unfolding ds_def by (rule value_digits) simp
  ultimately show ?thesis
    using ne data r v by (simp add: base58btc_decode_def)
qed

section \<open>DIDs of keys\<close>

lemma digits_split:
  assumes "2 \<le> b" and "n div b ^ k \<noteq> 0"
  shows "\<exists>low. digits b n = digits b (n div b ^ k) @ low \<and> length low = k"
  using assms(2)
proof (induction k arbitrary: n)
  case (Suc k)
  have eq: "n div b ^ Suc k = n div b div b ^ k" by (simp add: div_mult2_eq)
  with Suc.prems have "n div b div b ^ k \<noteq> 0" by simp
  then obtain low where low: "digits b (n div b) = digits b (n div b div b ^ k) @ low" "length low = k"
    using Suc.IH by blast
  have "n \<noteq> 0" using Suc.prems by (metis div_0)
  then have "digits b n = digits b (n div b) @ [n mod b]"
    using assms(1) by (subst digits.simps) simp
  with low eq show ?case by (intro exI [of _ "low @ [n mod b]"]) simp
qed simp

lemma value_of_append: "value_of b (xs @ ys) = value_of b xs * b ^ length ys + value_of b ys"
proof (induction ys rule: rev_induct)
  case (snoc y ys)
  have "value_of b ((xs @ ys) @ [y]) = value_of b (xs @ ys) * b + y" by (rule value_of_snoc)
  with snoc show ?case by (simp add: algebra_simps)
qed simp

lemma value_of_less: "list_all (\<lambda>d. d < b) ds \<Longrightarrow> value_of b ds < b ^ length ds"
proof (induction ds rule: rev_induct)
  case (snoc d ds)
  then have "value_of b ds * b + d < b ^ length ds * b" by (intro add_shifted_less) simp_all
  then show ?case by (simp add: mult.commute)
qed simp

text \<open>The 34 bytes of any Ed25519 key have the same three leading base58 digits, \<open>6Mk\<close>.\<close>

lemma multikey_value:
  assumes "length p = 32" and "is_bytes p"
  shows "value_of 256 ([237, 1] @ p) div 58 ^ 44 = 5 * 58 ^ 2 + 20 * 58 + 43"
proof -
  define v where "v = value_of 256 ([237, 1] @ p)"
  have two: "value_of 256 [237, 1] = 60673" by (simp add: value_of_def)
  have "value_of 256 p < 256 ^ 32" using value_of_less [of 256 p] assms by (simp add: is_bytes_def)
  then have lo: "60673 * 256 ^ 32 \<le> v" and hi: "v < 60674 * 256 ^ 32"
    unfolding v_def value_of_append two using assms(1) by simp_all
  have "(5 * 58 ^ 2 + 20 * 58 + 43) * 58 ^ 44 \<le> 60673 * (256::nat) ^ 32" by simp
  moreover have "60674 * (256::nat) ^ 32 \<le> (5 * 58 ^ 2 + 20 * 58 + 44) * 58 ^ 44" by simp
  ultimately have "v div 58 ^ 44 = 5 * 58 ^ 2 + 20 * 58 + 43"
    using lo hi by (intro div_nat_eqI) simp_all
  then show ?thesis unfolding v_def .
qed

lemma digits_6Mk: "digits 58 (5 * 58 ^ 2 + 20 * 58 + 43) = [5, 20, 43]"
  by (simp add: digits.simps)

lemma multikey_encoding:
  assumes "length p = 32" and "is_bytes p"
  obtains low where "base58btc_encode ([237, 1] @ p) = lit ''6Mk'' @ map (\<lambda>d. BASE58BTC_ALPHABET ! d) low"
    and "length low = 44" and "list_all (\<lambda>d. d < 58) low"
proof -
  let ?v = "value_of 256 ([237, 1] @ p)"
  have "?v div 58 ^ 44 \<noteq> 0" using multikey_value [OF assms] by simp
  from digits_split [OF _ this] obtain low
    where low: "digits 58 ?v = digits 58 (?v div 58 ^ 44) @ low" "length low = 44" by auto
  then have d: "digits 58 ?v = [5, 20, 43] @ low" unfolding multikey_value [OF assms] digits_6Mk by simp
  have "list_all (\<lambda>d. d < 58) (digits 58 ?v)" by (rule digits_bound) simp
  then have "list_all (\<lambda>d. d < 58) low" unfolding d by simp
  moreover have "base58btc_encode ([237, 1] @ p) = lit ''6Mk'' @ map (\<lambda>d. BASE58BTC_ALPHABET ! d) low"
    unfolding base58btc_encode_def d by (simp add: BASE58BTC_ALPHABET_def lit_def)
  ultimately show ?thesis using that low(2) by blast
qed

lemma match_did_of_key:
  assumes "length p = 32" and "is_bytes p"
  shows "match_did (lit ''did:key:z'' @ base58btc_encode ([237, 1] @ p))"
proof -
  obtain low where e: "base58btc_encode ([237, 1] @ p) = lit ''6Mk'' @ map (\<lambda>d. BASE58BTC_ALPHABET ! d) low"
    and l: "length low = 44" "list_all (\<lambda>d. d < 58) low"
    using multikey_encoding [OF assms] by blast
  have "list_all (\<lambda>c. c \<in> set BASE58BTC_ALPHABET) (map (\<lambda>d. BASE58BTC_ALPHABET ! d) low)"
    using l(2) by (auto simp: list_all_iff)
  then show ?thesis unfolding e match_did_def startswith_def using l(1) by (simp add: lit_simps)
qed

lemma ed25519_okD:
  assumes "ed25519_ok L" and "length k = 32"
  shows "length (ed_public L k) = 32" "is_bytes (ed_public L k)"
    "length (ed_sign L k m) = 64" "is_bytes (ed_sign L k m)"
    "ed_verify L (ed_public L k) (ed_sign L k m) m"
  using assms by (auto simp: ed25519_ok_def)

lemma did_from_private_key_total:
  assumes "ed25519_ok L" and "length k = 32"
  shows "did_from_private_key L k = Inr (lit ''did:key:z'' @ base58btc_encode ([237, 1] @ ed_public L k))"
  using match_did_of_key [OF ed25519_okD(1,2) [OF assms]]
  by (simp add: did_from_private_key_def)

lemma public_key_of_own_did:
  assumes "ed25519_ok L" and "length k = 32" and "did_from_private_key L k = Inr did"
  shows "public_key_from_did did = Inr (ed_public L k)"
proof -
  note pub = ed25519_okD(1,2) [OF assms(1,2)]
  have did: "did = lit ''did:key:z'' @ base58btc_encode ([237, 1] @ ed_public L k)"
    using assms(3) did_from_private_key_total [OF assms(1,2)] by simp
  have m: "match_did did" unfolding did by (rule match_did_of_key [OF pub])
  have r: "removeprefix did (lit ''did:key:z'') = base58btc_encode ([237, 1] @ ed_public L k)"
    unfolding did removeprefix_def startswith_def by simp
  have "base58btc_decode (base58btc_encode ([237, 1] @ ed_public L k)) = Inr ([237, 1] @ ed_public L k)"
    by (rule base58_decode_encode) (use pub in \<open>auto simp: is_bytes_def\<close>)
  then show ?thesis using m pub(1) by (simp add: public_key_from_did_def r)
qed

section \<open>Signatures verify\<close>

lemma sign_detached_total:
  assumes "ed25519_ok L" and "length k = 32"
  shows "sign_detached L k m = Inr (b64_encode (ed_sign L k m))"
  using ed25519_okD(3,4) [OF assms, of m]
  by (simp add: sign_detached_def match_signature_def length_b64_encode b64_encode_class)

lemma sign_detached_Inr:
  "sign_detached L k m = Inr s \<longleftrightarrow> s = b64_encode (ed_sign L k m) \<and> match_signature s"
  by (auto simp: sign_detached_def Let_def)

lemma signed_verifies:
  assumes "ed25519_ok L" and "length k = 32"
    and "did_from_private_key L k = Inr did" and "sign_detached L k m = Inr s"
  shows "verify_detached_signature L did m s"
proof -
  have s: "s = b64_encode (ed_sign L k m)" "match_signature s" using assms(4) unfolding sign_detached_Inr by blast+
  note ok = ed25519_okD(4,5) [OF assms(1,2), of m]
  have "b64_decode s = ed_sign L k m" unfolding s(1) by (rule b64_roundtrip [OF ok(1)])
  with s(2) ok(2) public_key_of_own_did [OF assms(1-3)] show ?thesis
    by (simp add: verify_detached_signature_def)
qed

text \<open>The 64 bytes of a signature leave two bits in the last character: the encoding is canonical.\<close>

lemma last_b64_encode:
  "length bs mod 3 = 1 \<Longrightarrow> is_bytes bs \<Longrightarrow> last (b64_encode bs) \<in> {65, 81, 103, 119}"
proof (induction bs rule: b64_encode.induct)
  case (2 a)
  have "a mod 4 \<in> {0, 1, 2, 3}" by auto
  then show ?case by (auto simp: b64_char_def)
next
  case (4 a b c r)
  then have "length r mod 3 = 1" "is_bytes r" by (simp_all add: is_bytes_def mod_Suc split: if_splits)
  moreover from this have "b64_encode r \<noteq> []" by (cases r rule: b64_encode.cases) auto
  ultimately show ?case using 4 by simp
qed simp_all

lemma sign_detached_canonical:
  assumes "ed25519_ok L" and "length k = 32" and "sign_detached L k m = Inr s"
  shows "match_canonical_signature s"
proof -
  have s: "s = b64_encode (ed_sign L k m)" "match_signature s" using assms(3) by (auto simp: sign_detached_Inr)
  note ok = ed25519_okD(3,4) [OF assms(1,2), of m]
  have "last s \<in> {65, 81, 103, 119}" unfolding s(1) by (rule last_b64_encode) (use ok in auto)
  with s(2) show ?thesis
    by (auto simp: match_canonical_signature_def match_signature_def list_all_iff dest: in_set_butlastD)
qed

section \<open>The sweep\<close>

lemma set_strip: "set (strip s) \<subseteq> set s"
  unfolding strip_def lstrip_def rstrip_def by (metis set_dropWhileD set_rev subsetI)

lemma dropWhile_hd: "dropWhile P xs = [] \<or> \<not> P (hd (dropWhile P xs))"
  using hd_dropWhile by blast

lemma strip_ends:
  assumes "strip s \<noteq> []"
  shows "\<not> is_space (hd (strip s))" and "\<not> is_space (last (strip s))"
proof -
  let ?l = "lstrip s" and ?r = "strip s"
  have r: "?r = rev (dropWhile is_space (rev ?l))" by (simp add: strip_def rstrip_def)
  have "dropWhile is_space (rev ?l) \<noteq> []" using assms unfolding r by simp
  then have "\<not> is_space (hd (dropWhile is_space (rev ?l)))" by (rule hd_dropWhile)
  then show "\<not> is_space (last ?r)" unfolding r last_rev .
  have "rev ?l = takeWhile is_space (rev ?l) @ rev ?r" unfolding r by simp
  then have l: "?l = ?r @ rev (takeWhile is_space (rev ?l))" by (metis rev_append rev_rev_ident)
  then have "hd ?l = hd ?r" and "?l \<noteq> []" using assms by (metis hd_append2, auto)
  then show "\<not> is_space (hd ?r)" using hd_dropWhile [of is_space s] unfolding lstrip_def by metis
qed

lemma strip_id:
  assumes "s = [] \<or> (\<not> is_space (hd s) \<and> \<not> is_space (last s))"
  shows "strip s = s"
proof (cases "s = []")
  case False
  with assms have "lstrip s = s" unfolding lstrip_def by (cases s) auto
  moreover from False assms have "dropWhile is_space (rev s) = rev s"
    by (cases s rule: rev_cases) auto
  ultimately show ?thesis by (simp add: strip_def rstrip_def)
qed (simp add: strip_def lstrip_def rstrip_def)

lemma not_invisible_32 [simp]: "\<not> is_invisible 32"
  by (simp add: is_invisible_def in_ranges_def cat_Cc_def cat_Cf_def cat_Cs_def cat_Co_def cat_Zl_Zp_def)

lemma surrogate_invisible: "is_surrogate c \<Longrightarrow> is_invisible c"
  by (simp add: is_surrogate_def is_invisible_def in_ranges_def cat_Cs_def)

lemma sweep_text_limit_Inr:
  "sweep_text_limit n t = Inr s \<longleftrightarrow>
     s = strip (map (\<lambda>c. if is_invisible c then 32 else c) t) \<and> s \<noteq> [] \<and> length s \<le> n"
  by (auto simp: sweep_text_limit_def Let_def)

lemma swept_visible:
  assumes "sweep_text_limit n t = Inr s"
  shows "list_all (\<lambda>c. \<not> is_invisible c) s" and "strip s = s" and "s \<noteq> []" and "length s \<le> n"
proof -
  note s = assms [unfolded sweep_text_limit_Inr]
  show "list_all (\<lambda>c. \<not> is_invisible c) s"
    using s set_strip by (fastforce simp: list_all_iff split: if_splits)
  show "strip s = s" using s strip_ends by (intro strip_id) metis
  show "s \<noteq> []" "length s \<le> n" using s by blast+
qed

lemma sweep_fixed:
  assumes "list_all (\<lambda>c. \<not> is_invisible c) s" and "strip s = s" and "s \<noteq> []" and "length s \<le> n"
  shows "sweep_text_limit n s = Inr s"
proof -
  have "map (\<lambda>c. if is_invisible c then 32 else c) s = s"
    using assms(1) by (intro map_idI) (auto simp: list_all_iff)
  then show ?thesis using assms by (simp add: sweep_text_limit_Inr)
qed

lemma swept_encodes:
  assumes "list_all (\<lambda>c. \<not> is_invisible c) s"
  shows "encode_utf8 s = Inr (utf8 s)"
  using assms surrogate_invisible by (auto simp: encode_utf8_def list_ex_iff list_all_iff)

section \<open>What a room signature covers\<close>

text \<open>
  Neither a room nor a nonce can hold the separator, so the signed bytes determine the room, the
  nonce and the text: a signature cannot be moved to another envelope.
\<close>

lemma match_room_chars: "match_room s \<Longrightarrow> list_all (\<lambda>c. c \<noteq> 124 \<and> c < 128) s"
  by (cases s) (auto simp: match_room_def list_all_iff is_lower_def is_digit_def)

lemma match_nonce_chars: "match_nonce s \<Longrightarrow> list_all (\<lambda>c. c \<noteq> 124 \<and> c < 128) s"
  by (auto simp: match_nonce_def list_all_iff is_digit_def)

lemma split_at_sep:
  "list_all (\<lambda>c. c \<noteq> sep) a \<Longrightarrow> list_all (\<lambda>c. c \<noteq> sep) b \<Longrightarrow>
   a @ sep # x = b @ sep # y \<longleftrightarrow> a = b \<and> x = y"
  by (induction a arbitrary: b) (case_tac b; auto)+

lemma list_all_conj1: "list_all (\<lambda>x. P x \<and> Q x) xs \<Longrightarrow> list_all P xs"
  by (simp add: list_all_iff)

lemma canonical_message_inj:
  assumes "match_room r" "match_nonce n" "match_room r'" "match_nonce n'"
    and "is_text t" "is_text t'"
    and "utf8 (canonical_message r n t) = utf8 (canonical_message r' n' t')"
  shows "r = r' \<and> n = n' \<and> t = t'"
proof -
  note ch = match_room_chars [OF assms(1)] match_nonce_chars [OF assms(2)]
    match_room_chars [OF assms(3)] match_nonce_chars [OF assms(4)]
  have "is_text (canonical_message r n t)" "is_text (canonical_message r' n' t')"
    using ch assms(5,6) by (auto simp: is_text_def canonical_message_def list_all_iff)
  then have "canonical_message r n t = canonical_message r' n' t'"
    using utf8_inj assms(7) by blast
  then show ?thesis
    unfolding canonical_message_def using ch [THEN list_all_conj1] by (simp add: split_at_sep)
qed

lemma match_nonce_str_of_int:
  assumes "0 \<le> i"
  shows "match_nonce (str_of_int i) \<longleftrightarrow> i \<le> 9999999999999999999"
proof -
  have "length (str_of_nat (nat i)) \<le> 19 \<longleftrightarrow> nat i < 10 ^ 19"
    using length_str_of_nat [of 19 "nat i"] by simp
  also have "\<dots> \<longleftrightarrow> i \<le> 9999999999999999999" using assms by (simp add: nat_less_iff) linarith
  finally show ?thesis
    using assms str_of_nat_digits [of "nat i"] by (simp add: match_nonce_def str_of_int_def)
qed

lemma str_of_int_inj: "0 \<le> i \<Longrightarrow> 0 \<le> j \<Longrightarrow> str_of_int i = str_of_int j \<longleftrightarrow> i = j"
  by (simp add: str_of_int_def eq_nat_nat_iff)

lemma encode_canonical:
  assumes "match_room room" "match_nonce nonce" "sweep_text text = Inr swept"
  shows "encode_utf8 (canonical_message room nonce swept) = Inr (utf8 (canonical_message room nonce swept))"
proof -
  have "\<not> list_ex is_surrogate swept"
    using swept_visible(1) [OF assms(3) [unfolded sweep_text_def]] surrogate_invisible
    by (auto simp: list_ex_iff list_all_iff)
  moreover have "\<not> list_ex is_surrogate room" "\<not> list_ex is_surrogate nonce"
    using match_room_chars [OF assms(1)] match_nonce_chars [OF assms(2)]
    by (auto simp: list_ex_iff list_all_iff is_surrogate_def)
  ultimately show ?thesis by (simp add: encode_utf8_def canonical_message_def is_surrogate_def)
qed

lemma sign_room_message_Inr:
  "sign_room_message L k room nonce text = Inr (swept, sg) \<longleftrightarrow>
     match_room room \<and> match_nonce nonce \<and> sweep_text text = Inr swept \<and>
     sign_detached L k (utf8 (canonical_message room nonce swept)) = Inr sg"
  by (auto simp: sign_room_message_def res_simps encode_canonical)

section \<open>A library that keeps the hypotheses\<close>

text \<open>
  The witnesses run on this instance of the library parameters: keys sign with their own bytes.
  It shows that \<open>ed25519_ok\<close> and \<open>sha256_ok\<close> can hold, nothing more.
\<close>

definition demo_sign :: "bytes \<Rightarrow> bytes \<Rightarrow> bytes" where
  "demo_sign k m = map (\<lambda>b. b mod 256) (take 64 (k @ m @ replicate 64 0))"

definition demo_lib :: lib where
  "demo_lib = \<lparr>sha256_hex = (\<lambda>m. replicate 64 (48 + sum_list m mod 10)),
     ed_public = map (\<lambda>b. b mod 256), ed_sign = demo_sign,
     ed_verify = (\<lambda>p s m. s = demo_sign p m), float_repr = (\<lambda>f. lit ''0.0''),
     netloc_rejected = (\<lambda>n. False)\<rparr>"

definition demo_key :: bytes where
  "demo_key = replicate 32 7"

lemma demo_lib_ok: "ed25519_ok demo_lib" "sha256_ok demo_lib" "length demo_key = 32"
  by (auto simp: ed25519_ok_def sha256_ok_def demo_lib_def demo_sign_def demo_key_def is_bytes_def
      list_all_iff is_hex_lower_def is_digit_def map_idI dest!: in_set_takeD)

section \<open>Properties\<close>

text \<open>Base58 loses nothing: every byte string, leading zero bytes included, decodes from its
  encoding.\<close>

lemma base58_roundtrip:
  "data \<noteq> [] \<Longrightarrow> is_bytes data \<Longrightarrow> base58btc_decode (base58btc_encode data) = Inr data"
  by (rule base58_decode_encode)

text \<open>C39. Every private key has a DID the program itself accepts, and the DID gives back the public
  key the key signs for.\<close>

theorem did_key_roundtrip:
  assumes "ed25519_ok L" and "length key = 32"
  shows "\<exists>did. did_from_private_key L key = Inr did \<and> validate_did did = Inr did
    \<and> public_key_from_did did = Inr (ed_public L key)"
proof -
  obtain did where did: "did_from_private_key L key = Inr did"
    using did_from_private_key_total [OF assms] by blast
  then have "validate_did did = Inr did" by (auto simp: did_from_private_key_def Let_def split: if_splits)
  with did public_key_of_own_did [OF assms did] show ?thesis by blast
qed

theorem did_key_roundtrip_witness:
  "\<exists>did. did_from_private_key demo_lib demo_key = Inr did \<and> validate_did did = Inr did
    \<and> public_key_from_did did = Inr (ed_public demo_lib demo_key)"
  by (rule did_key_roundtrip) (rule demo_lib_ok)+

text \<open>A signed room message verifies under the signer's DID, over exactly the room, the nonce and
  the swept text, and the text it returns is one the sweep leaves as it is.\<close>

lemma room_signature_verifies:
  assumes "ed25519_ok L" and "length key = 32" and "did_from_private_key L key = Inr did"
    and "sign_room_message L key room nonce txt = Inr (swept, signature)"
  shows "verify_detached_signature L did (utf8 (canonical_message room nonce swept)) signature
    \<and> sweep_text swept = Inr swept"
proof
  note s = assms(4) [unfolded sign_room_message_Inr]
  show "verify_detached_signature L did (utf8 (canonical_message room nonce swept)) signature"
    using signed_verifies [OF assms(1-3)] s by blast
  show "sweep_text swept = Inr swept"
    using s swept_visible sweep_fixed unfolding sweep_text_def by blast
qed

lemma sweep_x: "sweep_text [120] = Inr [120]"
  and sweep_2x: "sweep_text [50, 120] = Inr [50, 120]"
  by (simp_all add: sweep_text_def sweep_text_limit_def is_invisible_def in_ranges_def cat_Cc_def
      cat_Cf_def cat_Cs_def cat_Co_def cat_Zl_Zp_def strip_def lstrip_def rstrip_def is_space_def)

lemma sample_room_nonce: "match_room [114]" "match_nonce [49]" "match_nonce [49, 50]"
  by (simp_all add: match_room_def match_nonce_def char_class_defs)

text \<open>C38. Two envelopes with valid rooms, valid nonces and swept texts have the same bytes under the
  signature exactly when they have the same room, the same nonce and the same text: a signature
  cannot be replayed for another envelope.\<close>

theorem canonical_message_unambiguous:
  assumes "validate_room r = Inr r" "validate_nonce n = Inr n" "sweep_text t0 = Inr t" "is_text t"
    and "validate_room r' = Inr r'" "validate_nonce n' = Inr n'" "sweep_text t0' = Inr t'" "is_text t'"
  shows "utf8 (canonical_message r n t) = utf8 (canonical_message r' n' t') \<longleftrightarrow> r = r' \<and> n = n' \<and> t = t'"
proof
  assume e: "utf8 (canonical_message r n t) = utf8 (canonical_message r' n' t')"
  show "r = r' \<and> n = n' \<and> t = t'" by (rule canonical_message_inj [OF _ _ _ _ _ _ e]) (use assms in simp_all)
qed simp

text \<open>Room \<open>r\<close>: the nonce \<open>1\<close> with the text \<open>2x\<close> against the nonce \<open>12\<close> with the text \<open>x\<close>\<close>

theorem canonical_message_unambiguous_witness:
  "validate_room [114] = Inr [114] \<and> validate_nonce [49] = Inr [49] \<and> sweep_text [50, 120] = Inr [50, 120]
   \<and> validate_nonce [49, 50] = Inr [49, 50] \<and> sweep_text [120] = Inr [120]
   \<and> utf8 (canonical_message [114] [49] [50, 120]) \<noteq> utf8 (canonical_message [114] [49, 50] [120])"
proof -
  have v: "validate_room [114] = Inr [114]" "validate_nonce [49] = Inr [49]" "validate_nonce [49, 50] = Inr [49, 50]"
    by (simp_all add: validate_room_def validate_nonce_def sample_room_nonce raise_if_def)
  have "is_text [50, 120]" "is_text [120]" by (simp_all add: is_text_def)
  from canonical_message_unambiguous [OF v(1,2) sweep_2x this(1) v(1,3) sweep_x this(2)] v sweep_2x sweep_x
  show ?thesis by simp
qed

text \<open>The sweep leaves no invisible character, keeps the length bound and is idempotent.\<close>

lemma sweep_canonical:
  assumes "sweep_text t = Inr s"
  shows "list_all (\<lambda>c. \<not> is_invisible c) s \<and> length s \<le> 4096 \<and> s \<noteq> [] \<and> sweep_text s = Inr s"
  using assms swept_visible sweep_fixed unfolding sweep_text_def by blast

end
