(* ===== verification/State.thy ===== *)
theory State
  imports Crypto
begin

text \<open>
  \<open>state.py\<close>, the in-memory half: the record of cursors, nonces, room generations and
  capability request histories, every method that reads or changes it, and its JSON form
  (\<open>json_of_state\<close> is the payload \<open>save\<close> writes, \<open>state_of_json\<close> the checks of \<open>load\<close>).
  A method that raises does so before it assigns, so an operation returns the new state or the
  exception. The files themselves are in \<open>State_File\<close>.
\<close>

type_synonym int_dict = "(str \<times> int) list"

record agent_state =
  cursors :: int_dict
  nonces :: int_dict
  generations :: int_dict
  capability_requests :: "(str \<times> int list) list"

definition empty_state :: agent_state where
  "empty_state = \<lparr>cursors = [], nonces = [], generations = [], capability_requests = []\<rparr>"

definition require_nonnegative_int :: "int \<Rightarrow> unit res" where
  "require_nonnegative_int v = raise_if (v < 0) (StateError ''must be a non-negative integer'')"

definition require_positive_int :: "int \<Rightarrow> unit res" where
  "require_positive_int v = raise_if (v \<le> 0) (StateError ''must be a positive integer'')"

section \<open>Cursors, generations, nonces\<close>

definition cursor_for :: "agent_state \<Rightarrow> str \<Rightarrow> int" where
  "cursor_for s room = get_default (cursors s) room 0"

definition advance_cursor :: "str \<Rightarrow> int \<Rightarrow> agent_state \<Rightarrow> agent_state res" where
  "advance_cursor room sequence s =
     bind (require_nonnegative_int sequence) (\<lambda>_.
     bind (raise_if (sequence < cursor_for s room)
       (StateError ''refusing to move a room cursor backwards'')) (\<lambda>_.
     ret (s\<lparr>cursors := AList.update room sequence (cursors s)\<rparr>)))"

definition generation_for :: "agent_state \<Rightarrow> str \<Rightarrow> int option" where
  "generation_for s room = map_of (generations s) room"

text \<open>The returned flag is the method's result: a known generation was left behind.\<close>

definition observe_generation :: "str \<Rightarrow> int \<Rightarrow> agent_state \<Rightarrow> (agent_state \<times> bool) res" where
  "observe_generation room generation s =
     bind (require_nonnegative_int generation) (\<lambda>_.
     let previous = map_of (generations s) room in
     bind (raise_if (case previous of None \<Rightarrow> False | Some p \<Rightarrow> generation < p)
       (StateError ''refusing to move a room generation backwards'')) (\<lambda>_.
     ret (s\<lparr>generations := AList.update room generation (generations s)\<rparr>,
          case previous of None \<Rightarrow> False | Some p \<Rightarrow> p < generation)))"

definition NONCE_LIMIT :: int where
  "NONCE_LIMIT = 9999999999999999999"

definition next_nonce :: "str \<Rightarrow> int \<Rightarrow> agent_state \<Rightarrow> (agent_state \<times> int) res" where
  "next_nonce room clock_value s =
     bind (require_nonnegative_int clock_value) (\<lambda>_.
     let selected = max clock_value (get_default (nonces s) room 0 + 1) in
     bind (raise_if (NONCE_LIMIT < selected)
       (StateError ''nonce exceeds the Technocore 19-digit limit'')) (\<lambda>_.
     ret (s\<lparr>nonces := AList.update room selected (nonces s)\<rparr>, selected)))"

definition observe_nonce :: "str \<Rightarrow> int \<Rightarrow> agent_state \<Rightarrow> agent_state res" where
  "observe_nonce room nonce s =
     bind (require_nonnegative_int nonce) (\<lambda>_.
     ret (s\<lparr>nonces := AList.update room (max (get_default (nonces s) room 0) nonce) (nonces s)\<rparr>))"

section \<open>Capability request histories\<close>

definition effective_now :: "int list \<Rightarrow> int \<Rightarrow> int" where
  "effective_now existing now = max now (if existing = [] then now else last existing)"

definition history :: "agent_state \<Rightarrow> str \<Rightarrow> int list" where
  "history s did = get_default (capability_requests s) did []"

definition capability_request_count :: "str \<Rightarrow> int \<Rightarrow> int \<Rightarrow> agent_state \<Rightarrow> nat res" where
  "capability_request_count did now window_seconds s =
     bind (require_nonnegative_int now) (\<lambda>_.
     bind (require_positive_int window_seconds) (\<lambda>_.
     let existing = history s did; cutoff = effective_now existing now - window_seconds
     in ret (length (filter (\<lambda>t. t > cutoff) existing))))"

definition prune_capability_requests :: "int \<Rightarrow> int \<Rightarrow> agent_state \<Rightarrow> agent_state" where
  "prune_capability_requests now window_seconds s =
     (let cutoff = now - window_seconds in
      s\<lparr>capability_requests :=
          filter (\<lambda>(did, current). current \<noteq> [])
            (map (\<lambda>(did, timestamps). (did, filter (\<lambda>t. t > cutoff) timestamps))
              (capability_requests s))\<rparr>)"

definition reserve_capability_request :: "str \<Rightarrow> int \<Rightarrow> int \<Rightarrow> agent_state \<Rightarrow> agent_state res" where
  "reserve_capability_request did now window_seconds s =
     bind (raise_if (did = []) (StateError ''capability principal must be a non-empty string'')) (\<lambda>_.
     bind (require_nonnegative_int now) (\<lambda>_.
     bind (require_positive_int window_seconds) (\<lambda>_.
     let s1 = prune_capability_requests now window_seconds s;
         existing = history s1 did;
         eff = effective_now existing now;
         cutoff = eff - window_seconds
     in ret (s1\<lparr>capability_requests := AList.update did
               (filter (\<lambda>t. t > cutoff) existing @ [eff]) (capability_requests s1)\<rparr>))))"

section \<open>JSON form\<close>

definition json_of_int_dict :: "int_dict \<Rightarrow> json" where
  "json_of_int_dict d = JObj (map (\<lambda>(k, v). (k, JInt v)) (sort_key fst d))"

definition STATE_SCHEMA :: string where
  "STATE_SCHEMA = ''technocore-safe-agent-state-v1''"

definition json_of_state :: "agent_state \<Rightarrow> json" where
  "json_of_state s = JObj (
     [(lit ''schema'', JStr (lit STATE_SCHEMA)),
      (lit ''cursors'', json_of_int_dict (cursors s)),
      (lit ''nonces'', json_of_int_dict (nonces s))]
     @ (if generations s = [] then []
        else [(lit ''generations'', json_of_int_dict (generations s))])
     @ (if capability_requests s = [] then []
        else [(lit ''capability_requests'',
               JObj (map (\<lambda>(k, ts). (k, JArr (map JInt ts)))
                 (sort_key fst (capability_requests s))))]))"

definition nonnegative_int_of :: "json \<Rightarrow> int res" where
  "nonnegative_int_of v = (case v of
      JInt i \<Rightarrow> if i < 0 then raise (StateError ''must be a non-negative integer'') else ret i
    | _ \<Rightarrow> raise (StateError ''must be a non-negative integer''))"

definition nonnegative_int_map :: "json \<Rightarrow> int_dict res" where
  "nonnegative_int_map v = (case v of
      JObj kvs \<Rightarrow> map_res (\<lambda>(key, item).
          if key = [] then raise (StateError ''contains an invalid room'')
          else bind (nonnegative_int_of item) (\<lambda>i. ret (key, i))) kvs
    | _ \<Rightarrow> raise (StateError ''must be an object''))"

definition MAX_STATE_PRINCIPALS :: nat where "MAX_STATE_PRINCIPALS = 128"
definition MAX_STATE_HISTORY :: nat where "MAX_STATE_HISTORY = 1000"

definition request_history :: "str \<times> json \<Rightarrow> (str \<times> int list) res" where
  "request_history = (\<lambda>(did, raw).
     bind (except_raise is_ProtocolValueError
             (StateError ''state capability_requests contains an invalid principal'')
             (validate_did did)) (\<lambda>valid_did.
     case raw of
       JArr xs \<Rightarrow>
         bind (raise_if (MAX_STATE_HISTORY < length xs)
           (StateError ''state capability request history is invalid or oversized'')) (\<lambda>_.
         bind (map_res nonnegative_int_of xs) (\<lambda>timestamps.
         bind (raise_if (\<not> sorted timestamps)
           (StateError ''state capability request history is not ordered'')) (\<lambda>_.
         ret (valid_did, timestamps))))
     | _ \<Rightarrow> raise (StateError ''state capability request history is invalid or oversized'')))"

definition capability_request_map :: "json \<Rightarrow> (str \<times> int list) list res" where
  "capability_request_map v = (case v of
      JObj kvs \<Rightarrow> if MAX_STATE_PRINCIPALS < length kvs
        then raise (StateError ''state capability_requests must be a bounded object'')
        else map_res request_history kvs
    | _ \<Rightarrow> raise (StateError ''state capability_requests must be a bounded object''))"

definition state_of_json :: "json \<Rightarrow> agent_state res" where
  "state_of_json payload = (case payload of
      JObj p \<Rightarrow>
        bind (raise_if (dget p ''schema'' \<noteq> JStr (lit STATE_SCHEMA))
          (StateError ''state file has an unsupported schema'')) (\<lambda>_.
        bind (nonnegative_int_map (dget p ''cursors'')) (\<lambda>cs.
        bind (nonnegative_int_map (dget p ''nonces'')) (\<lambda>ns.
        bind (nonnegative_int_map (dget_default p ''generations'' (JObj []))) (\<lambda>gs.
        bind (capability_request_map (dget_default p ''capability_requests'' (JObj []))) (\<lambda>rs.
        ret \<lparr>cursors = cs, nonces = ns, generations = gs, capability_requests = rs\<rparr>)))))
    | _ \<Rightarrow> raise (StateError ''state file has an unsupported schema''))"

section \<open>The state invariant\<close>

definition int_dict_ok :: "int_dict \<Rightarrow> bool" where
  "int_dict_ok d \<longleftrightarrow> keys_distinct d \<and> list_all (\<lambda>(k, v). k \<noteq> [] \<and> 0 \<le> v) d"

definition history_ok :: "str \<times> int list \<Rightarrow> bool" where
  "history_ok = (\<lambda>(did, ts). match_did did \<and> sorted ts \<and> list_all (\<lambda>t. 0 \<le> t) ts)"

text \<open>What every operation keeps.\<close>

definition state_ok :: "agent_state \<Rightarrow> bool" where
  "state_ok s \<longleftrightarrow> int_dict_ok (cursors s) \<and> int_dict_ok (nonces s) \<and> int_dict_ok (generations s)
     \<and> keys_distinct (capability_requests s) \<and> list_all history_ok (capability_requests s)"

text \<open>The bounds the loader adds.\<close>

definition state_loadable :: "agent_state \<Rightarrow> bool" where
  "state_loadable s \<longleftrightarrow> state_ok s \<and> length (capability_requests s) \<le> MAX_STATE_PRINCIPALS
     \<and> list_all (\<lambda>(did, ts). length ts \<le> MAX_STATE_HISTORY) (capability_requests s)"

text \<open>The state a saved file gives back: the same dictionaries, sorted by key.\<close>

definition sort_state :: "agent_state \<Rightarrow> agent_state" where
  "sort_state s = \<lparr>cursors = sort_key fst (cursors s), nonces = sort_key fst (nonces s),
     generations = sort_key fst (generations s),
     capability_requests = sort_key fst (capability_requests s)\<rparr>"

section \<open>Every operation keeps the invariant\<close>

lemma list_all_update:
  "list_all P d \<Longrightarrow> P (k, v) \<Longrightarrow> list_all P (AList.update k v d)"
  by (induction d) auto

lemma int_dict_ok_update:
  "int_dict_ok d \<Longrightarrow> k \<noteq> [] \<Longrightarrow> 0 \<le> v \<Longrightarrow> int_dict_ok (AList.update k v d)"
  by (simp add: int_dict_ok_def list_all_update)

lemma advance_cursor_Inr:
  "advance_cursor room n s = Inr s' \<longleftrightarrow>
     0 \<le> n \<and> cursor_for s room \<le> n \<and> s' = s\<lparr>cursors := AList.update room n (cursors s)\<rparr>"
  by (auto simp: advance_cursor_def require_nonnegative_int_def res_simps)

lemma observe_generation_Inr:
  "observe_generation room g s = Inr (s', b) \<longleftrightarrow>
     0 \<le> g \<and> (\<forall>p. generation_for s room = Some p \<longrightarrow> p \<le> g) \<and>
     s' = s\<lparr>generations := AList.update room g (generations s)\<rparr> \<and>
     b = (\<exists>p. generation_for s room = Some p \<and> p < g)"
  by (auto simp: observe_generation_def require_nonnegative_int_def generation_for_def Let_def
      res_simps split: option.splits)

lemma next_nonce_Inr:
  "next_nonce room c s = Inr (s', n) \<longleftrightarrow>
     0 \<le> c \<and> n = max c (get_default (nonces s) room 0 + 1) \<and> n \<le> NONCE_LIMIT \<and>
     s' = s\<lparr>nonces := AList.update room n (nonces s)\<rparr>"
  by (auto simp: next_nonce_def require_nonnegative_int_def Let_def res_simps)

lemma observe_nonce_Inr:
  "observe_nonce room n s = Inr s' \<longleftrightarrow> 0 \<le> n \<and>
     s' = s\<lparr>nonces := AList.update room (max (get_default (nonces s) room 0) n) (nonces s)\<rparr>"
  by (auto simp: observe_nonce_def require_nonnegative_int_def res_simps)

lemmas state_op_Inr = advance_cursor_Inr observe_generation_Inr next_nonce_Inr observe_nonce_Inr

lemma state_ok_advance_cursor:
  "state_ok s \<Longrightarrow> room \<noteq> [] \<Longrightarrow> advance_cursor room n s = Inr s' \<Longrightarrow> state_ok s'"
  by (simp add: state_ok_def advance_cursor_Inr int_dict_ok_update)

lemma state_ok_observe_generation:
  "state_ok s \<Longrightarrow> room \<noteq> [] \<Longrightarrow> observe_generation room g s = Inr (s', b) \<Longrightarrow> state_ok s'"
  by (simp add: state_ok_def observe_generation_Inr int_dict_ok_update)

lemma state_ok_next_nonce:
  "state_ok s \<Longrightarrow> room \<noteq> [] \<Longrightarrow> next_nonce room c s = Inr (s', n) \<Longrightarrow> state_ok s'"
  by (auto simp: state_ok_def next_nonce_Inr intro!: int_dict_ok_update)

lemma state_ok_observe_nonce:
  "state_ok s \<Longrightarrow> room \<noteq> [] \<Longrightarrow> observe_nonce room n s = Inr s' \<Longrightarrow> state_ok s'"
  by (auto simp: state_ok_def observe_nonce_Inr intro!: int_dict_ok_update)

lemma history_update [simp]:
  "history (s\<lparr>capability_requests := AList.update did h (capability_requests s)\<rparr>) did'
     = (if did' = did then h else history s did')"
  by (simp add: history_def get_default_update)

lemma history_ok_of:
  assumes "list_all history_ok (capability_requests s)"
  shows "sorted (history s did)" and "list_all (\<lambda>t. 0 \<le> t) (history s did)"
proof -
  have "history_ok (did, ts)" if "map_of (capability_requests s) did = Some ts" for ts
    using assms map_of_SomeD [OF that] by (auto simp: list_all_iff)
  then show "sorted (history s did)" and "list_all (\<lambda>t. 0 \<le> t) (history s did)"
    by (auto simp: history_def get_default_def history_ok_def split: option.splits)
qed

lemma sorted_filter': "sorted xs \<Longrightarrow> sorted (filter P xs)"
  by (rule sorted_wrt_filter)

lemma list_all_filter: "list_all P xs \<Longrightarrow> list_all P (filter Q xs)"
  by (auto simp: list_all_iff)

lemma sorted_le_last: "sorted xs \<Longrightarrow> x \<in> set xs \<Longrightarrow> x \<le> last (xs :: int list)"
  by (induction xs) auto

lemma effective_now_ge: "now \<le> effective_now h now"
  by (simp add: effective_now_def)

lemma effective_now_max: "sorted h \<Longrightarrow> x \<in> set h \<Longrightarrow> x \<le> effective_now h now"
  using sorted_le_last by (fastforce simp: effective_now_def)

lemma history_prune: "keys_distinct (capability_requests s) \<Longrightarrow>
  history (prune_capability_requests now w s) did = filter (\<lambda>t. t > now - w) (history s did)"
proof -
  assume d: "keys_distinct (capability_requests s)"
  have "map_of (filter (\<lambda>(d, c). c \<noteq> []) (map (\<lambda>(d, ts). (d, f ts)) xs)) did
    = (case map_of xs did of None \<Rightarrow> None | Some ts \<Rightarrow> if f ts = [] then None else Some (f ts))"
    if "keys_distinct xs" for f :: "int list \<Rightarrow> int list" and xs
    using that
  proof (induction xs)
    case (Cons x xs)
    obtain d ts where x: "x = (d, ts)" by (cases x)
    from Cons.prems have kd: "keys_distinct xs" and "d \<notin> fst ` set xs"
      by (simp_all add: x keys_distinct_def)
    then have "map_of xs d = None" by (simp add: map_of_eq_None_iff)
    with Cons.IH [OF kd] show ?case by (cases "did = d") (auto simp: x)
  qed simp
  from this [OF d] show ?thesis
    by (auto simp: history_def prune_capability_requests_def get_default_def Let_def split: option.splits)
qed

lemma prune_ok:
  assumes "keys_distinct (capability_requests s)" and "list_all history_ok (capability_requests s)"
  shows "keys_distinct (capability_requests (prune_capability_requests now w s))"
    and "list_all history_ok (capability_requests (prune_capability_requests now w s))"
proof -
  let ?f = "\<lambda>(did::str, timestamps). (did, filter (\<lambda>t. t > now - w) timestamps)"
  have "distinct (map fst (map ?f (capability_requests s)))"
    using assms(1) by (simp add: keys_distinct_def)
  then show "keys_distinct (capability_requests (prune_capability_requests now w s))"
    by (auto simp: keys_distinct_def prune_capability_requests_def Let_def intro: distinct_map_filter)
  show "list_all history_ok (capability_requests (prune_capability_requests now w s))"
    using assms(2) by (fastforce simp: prune_capability_requests_def Let_def list_all_iff
        history_ok_def sorted_filter')
qed

text \<open>A reservation appends the effective time to what is left of the window.\<close>

lemma effective_now_prune:
  assumes "sorted h" and "0 < w"
  shows "effective_now (filter (\<lambda>t. t > now - w) h) now = effective_now h now"
proof (cases "h = [] \<or> last h \<le> now - w")
  case True
  then have "filter (\<lambda>t. t > now - w) h = []"
    using sorted_le_last [OF assms(1)] by (fastforce simp: filter_empty_conv)
  with True assms(2) show ?thesis by (auto simp: effective_now_def)
next
  case False
  then have "filter (\<lambda>t. t > now - w) h = filter (\<lambda>t. t > now - w) (butlast h) @ [last h]"
    by (metis (lifting) append_butlast_last_id filter.simps(1,2) filter_append linorder_not_le)
  with False show ?thesis by (simp add: effective_now_def)
qed

lemma reserve_history:
  assumes ok: "state_ok s" and r: "reserve_capability_request did now w s = Inr s'"
  shows "history s' did = filter (\<lambda>t. t > effective_now (history s did) now - w) (history s did)
            @ [effective_now (history s did) now]"
    and "did' \<noteq> did \<Longrightarrow> history s' did' = filter (\<lambda>t. t > now - w) (history s did')"
proof -
  let ?h = "history s did"
  have kd: "keys_distinct (capability_requests s)" and hs: "sorted ?h"
    using ok history_ok_of by (auto simp: state_ok_def)
  have w: "0 < w" using r by (auto simp: reserve_capability_request_def require_positive_int_def res_simps)
  note h = history_prune [OF kd, of now w]
  have eff: "effective_now (filter (\<lambda>t. t > now - w) ?h) now = effective_now ?h now"
    by (rule effective_now_prune [OF hs w])
  have ff: "filter (\<lambda>t. now - w < t \<and> effective_now ?h now - w < t) ?h
      = filter (\<lambda>t. t > effective_now ?h now - w) ?h"
    using effective_now_ge [of now ?h] by (intro filter_cong) auto
  show "history s' did = filter (\<lambda>t. t > effective_now ?h now - w) ?h @ [effective_now ?h now]"
    using r by (auto simp: reserve_capability_request_def res_simps Let_def h eff ff)
  show "history s' did' = filter (\<lambda>t. t > now - w) (history s did')" if "did' \<noteq> did"
    using r that by (auto simp: reserve_capability_request_def res_simps Let_def h)
qed

lemma state_ok_reserve:
  assumes ok: "state_ok s" and did: "match_did did"
    and r: "reserve_capability_request did now w s = Inr s'"
  shows "state_ok s'"
proof -
  let ?s1 = "prune_capability_requests now w s"
  have p: "keys_distinct (capability_requests ?s1)" "list_all history_ok (capability_requests ?s1)"
    using prune_ok ok by (simp_all add: state_ok_def)
  note h = history_ok_of [OF p(2), of did]
  have now: "0 \<le> now" using r by (auto simp: reserve_capability_request_def require_nonnegative_int_def res_simps)
  let ?e = "effective_now (history ?s1 did) now"
  have "history_ok (did, filter (\<lambda>t. t > ?e - w) (history ?s1 did) @ [?e])"
    using did h now effective_now_ge [of now "history ?s1 did"] effective_now_max [OF h(1)]
    by (auto simp: history_ok_def sorted_append sorted_filter' list_all_iff)
  moreover have "cursors ?s1 = cursors s" "nonces ?s1 = nonces s" "generations ?s1 = generations s"
    by (simp_all add: prune_capability_requests_def Let_def)
  ultimately show ?thesis
    using r ok p by (auto simp: reserve_capability_request_def res_simps Let_def state_ok_def list_all_update)
qed

section \<open>High-water marks\<close>

text \<open>
  Cursors, generations and nonces share one contract: a mark per room that no operation, on
  whatever room, moves back. Its consequence for a sequence of operations is proved once.
\<close>

locale high_water =
  fixes mark :: "'s \<Rightarrow> str \<Rightarrow> int" and step :: "str \<Rightarrow> int \<Rightarrow> 's \<Rightarrow> 's res"
  assumes step_keeps: "step room n s = Inr s' \<Longrightarrow> mark s room' \<le> mark s' room'"
    and step_marks: "step room n s = Inr s' \<Longrightarrow> n \<le> mark s' room"
begin

fun steps :: "(str \<times> int) list \<Rightarrow> 's \<Rightarrow> 's res" where
  "steps [] s = Inr s"
| "steps ((room, n) # ops) s = bind (step room n s) (steps ops)"

lemma steps_keep: "steps ops s = Inr s' \<Longrightarrow> mark s room \<le> mark s' room"
proof (induction ops arbitrary: s)
  case (Cons op ops)
  obtain r n where op: "op = (r, n)" by (cases op)
  with Cons.prems obtain s1 where "step r n s = Inr s1" "steps ops s1 = Inr s'"
    by (auto simp: res_simps)
  with Cons.IH step_keeps show ?case by (meson order_trans)
qed simp

lemma steps_mark: "steps ops s = Inr s' \<Longrightarrow> (room, n) \<in> set ops \<Longrightarrow> n \<le> mark s' room"
proof (induction ops arbitrary: s)
  case (Cons op ops)
  obtain r m where op: "op = (r, m)" by (cases op)
  with Cons.prems obtain s1 where s1: "step r m s = Inr s1" "steps ops s1 = Inr s'"
    by (auto simp: res_simps)
  show ?case
  proof (cases "(room, n) = (r, m)")
    case True
    with s1 step_marks steps_keep show ?thesis by (metis order_trans prod.inject)
  next
    case False
    with Cons.prems(2) op have "(room, n) \<in> set ops" by auto
    with Cons.IH s1(2) show ?thesis by blast
  qed
qed simp

end

interpretation cursor_mark: high_water cursor_for advance_cursor
  by unfold_locales (auto simp: advance_cursor_Inr cursor_for_def get_default_update)

interpretation generation_mark:
  high_water "\<lambda>s room. get_default (generations s) room (-1)"
    "\<lambda>room g s. map_sum id fst (observe_generation room g s)"
  by unfold_locales (auto simp: map_sum_eq_Inr observe_generation_Inr generation_for_def
      get_default_def map_of_update split: option.splits if_splits)

interpretation nonce_mark:
  high_water "\<lambda>s room. get_default (nonces s) room 0"
    "\<lambda>room c s. map_sum id fst (next_nonce room c s)"
  by unfold_locales (auto simp: map_sum_eq_Inr next_nonce_Inr get_default_update)

interpretation recovered_nonce_mark:
  high_water "\<lambda>s room. get_default (nonces s) room 0" observe_nonce
  by unfold_locales (auto simp: observe_nonce_Inr get_default_update)

section \<open>Saving and loading\<close>

lemma map_res_json_ints:
  "list_all (\<lambda>t. 0 \<le> t) ts \<Longrightarrow> map_res nonnegative_int_of (map JInt ts) = Inr ts"
  by (induction ts) (auto simp: nonnegative_int_of_def)

lemma nonnegative_int_map_json:
  assumes "int_dict_ok d"
  shows "nonnegative_int_map (json_of_int_dict d) = Inr (sort_key fst d)"
proof -
  have "list_all (\<lambda>(k, v). k \<noteq> [] \<and> 0 \<le> v) (sort_key fst d)"
    using assms by (simp add: int_dict_ok_def list_all_iff)
  moreover have "list_all (\<lambda>(k, v). k \<noteq> [] \<and> 0 \<le> v) xs \<Longrightarrow>
      map_res (\<lambda>(key, item). if key = [] then raise (StateError ''contains an invalid room'')
        else bind (nonnegative_int_of item) (\<lambda>i. ret (key, i))) (map (\<lambda>(k, v). (k, JInt v)) xs) = Inr xs"
    for xs by (induction xs) (auto simp: nonnegative_int_of_def)
  ultimately show ?thesis by (simp add: nonnegative_int_map_def json_of_int_dict_def)
qed

lemma capability_request_map_json:
  assumes "list_all history_ok rs" and "length rs \<le> MAX_STATE_PRINCIPALS"
    and "list_all (\<lambda>(did, ts). length ts \<le> MAX_STATE_HISTORY) rs"
  shows "capability_request_map (JObj (map (\<lambda>(k, ts). (k, JArr (map JInt ts))) rs)) = Inr rs"
proof -
  have "map_res request_history (map (\<lambda>(k, ts). (k, JArr (map JInt ts))) rs) = Inr rs"
    using assms(1,3)
    by (induction rs) (auto simp: request_history_def history_ok_def map_res_json_ints)
  then show ?thesis using assms(2) by (simp add: capability_request_map_def)
qed

lemma state_of_json_of_state:
  assumes "state_loadable s"
  shows "state_of_json (json_of_state s) = Inr (sort_state s)"
proof -
  let ?rs = "sort_key fst (capability_requests s)"
  have ok: "int_dict_ok (cursors s)" "int_dict_ok (nonces s)" "int_dict_ok (generations s)"
    "list_all history_ok ?rs" "length ?rs \<le> MAX_STATE_PRINCIPALS"
    "list_all (\<lambda>(did, ts). length ts \<le> MAX_STATE_HISTORY) ?rs"
    using assms by (simp_all add: state_loadable_def state_ok_def list_all_iff)
  have "nonnegative_int_map (JObj []) = Inr []" "capability_request_map (JObj []) = Inr []"
    by (simp_all add: nonnegative_int_map_def capability_request_map_def)
  then show ?thesis
    using nonnegative_int_map_json [OF ok(1)] nonnegative_int_map_json [OF ok(2)]
      nonnegative_int_map_json [OF ok(3)] capability_request_map_json [OF ok(4-6)]
    by (simp add: state_of_json_def json_of_state_def dget_def dget_default_def sort_state_def)
qed

lemma sort_state_lookups:
  assumes "state_ok s"
  shows "cursor_for (sort_state s) room = cursor_for s room"
    and "generation_for (sort_state s) room = generation_for s room"
    and "get_default (nonces (sort_state s)) room d = get_default (nonces s) room d"
    and "history (sort_state s) did = history s did"
  using assms
  by (simp_all add: sort_state_def state_ok_def int_dict_ok_def cursor_for_def generation_for_def
      history_def get_default_def map_of_sort_key)

text \<open>Reading the payload back as JSON text does not change it: no key repeats.\<close>

lemma has_duplicate_key_int_dict:
  assumes "keys_distinct (d :: int_dict)"
  shows "\<not> has_duplicate_key (json_of_int_dict d)"
proof -
  have "distinct (map fst (sort_key fst d))"
    using keys_distinct_sort_key [OF assms] by (simp add: keys_distinct_def)
  then show ?thesis by (auto simp: json_of_int_dict_def list_ex_iff)
qed

lemma loads_json_of_state:
  assumes "state_ok s"
  shows "loads (json_of_state s) = json_of_state s"
proof (rule loads_no_duplicates)
  let ?f = "\<lambda>(k, ts). (k :: str, JArr (map JInt ts))"
  have "distinct (map fst (sort_key fst (capability_requests s)))"
    using keys_distinct_sort_key assms unfolding keys_distinct_def state_ok_def by blast
  then have "\<not> has_duplicate_key (JObj (map ?f (sort_key fst (capability_requests s))))"
    by (auto simp: list_ex_iff)
  moreover have "\<not> has_duplicate_key (json_of_int_dict (cursors s))"
    "\<not> has_duplicate_key (json_of_int_dict (nonces s))"
    "\<not> has_duplicate_key (json_of_int_dict (generations s))"
    using assms by (simp_all add: has_duplicate_key_int_dict state_ok_def int_dict_ok_def)
  ultimately show "\<not> has_duplicate_key (json_of_state s)"
    by (simp add: json_of_state_def)
qed

section \<open>Nonces over a session\<close>

text \<open>The nonces a room gets for a sequence of clock readings.\<close>

fun issue_nonces :: "str \<Rightarrow> int list \<Rightarrow> agent_state \<Rightarrow> (agent_state \<times> int list) res" where
  "issue_nonces room [] s = ret (s, [])"
| "issue_nonces room (c # cs) s = bind (next_nonce room c s) (\<lambda>(s', n).
     bind (issue_nonces room cs s') (\<lambda>(s'', ns). ret (s'', n # ns)))"

lemma issue_nonces_keep:
  "issue_nonces room cs s = Inr (s', ns) \<Longrightarrow> get_default (nonces s) room 0 \<le> get_default (nonces s') room 0"
proof (induction cs arbitrary: s ns)
  case (Cons c cs)
  then obtain s1 n ms where "next_nonce room c s = Inr (s1, n)" "issue_nonces room cs s1 = Inr (s', ms)"
    by (auto simp: res_simps)
  with Cons.IH [OF this(2)] nonce_mark.step_keeps [of room c s s1 room] show ?case by simp
qed simp

end
