(* ===== verification/Runtime.thy ===== *)
theory Runtime
  imports State
begin

text \<open>
  The world the program runs in, and the monad its effectful functions are written in.

  \<^item> A \<open>world\<close> holds the file system, every request sent so far (each with the file system at the
    moment it left), and the two objects that live in memory between calls: the \<open>AgentState\<close>
    shared by the responder and the rate limiter, and the receipt service's last attempt. Four
    more fields serve one component each: the Keychain items, the output bundles, the process
    locks and the notes of the audited client.
  \<^item> An \<open>env\<close> is everything the program does not decide: clocks, the peer's answers, and which
    system call fails or is the last one before the process dies. It is indexed by \<open>tick\<close>, a
    counter every primitive advances, so that a statement for all \<open>env\<close> is a statement about
    every schedule of faults, and an invariant of the final world of an arbitrary run is an
    invariant of every moment of it (the run that is killed there ends there).
  \<^item> \<open>'a io\<close> returns a result or an exception together with the world it left behind: an
    exception does not roll anything back.
\<close>

section \<open>Files, requests, faults\<close>

type_synonym path = string

text \<open>What reading a text and parsing it as JSON gives.\<close>

datatype doc = Doc json | NotUtf8 | NotJson | HugeInt | TooDeep

text \<open>
  A file holds one text (its size in bytes and what it parses to), or is read line by line: its
  size, its lines (length in bytes and parse of each) and whether it ends with a newline.
\<close>

datatype body = Text nat doc | Lines nat "(nat \<times> doc) list" bool

record inode =
  regular :: bool
  mode :: nat
  owned :: bool
  contents :: body

type_synonym filesystem = "path \<Rightarrow> inode option"

datatype request =
    ReadRoom str
  | SaySigned str
  | SayUnsigned str
  | GitHubGet str
  | RunGit path "string list"               \<comment> \<open>\<open>git -C path arguments\<close>\<close>
  | CloneGit path path                      \<comment> \<open>\<open>git clone --quiet --no-hardlinks\<close>\<close>
  | SetOrigin path str                      \<comment> \<open>\<open>git -C path remote set-url origin\<close>\<close>
  | ExecCommand path "str list" nat          \<comment> \<open>the measured command: directory, argv, timeout in ms\<close>

text \<open>A \<open>Retry-After\<close> header: absent, not a number, or a number.\<close>

datatype retry_header = NoHeader | BadNumber | Number pyfloat

datatype response =
    HttpError int retry_header bool   \<comment> \<open>status, header, could the error body be read\<close>
  | ConnFailure                       \<comment> \<open>\<open>URLError\<close>, \<open>TimeoutError\<close>, \<open>OSError\<close>\<close>
  | ReadAborted                       \<comment> \<open>\<open>http.client.HTTPException\<close>, e.g. \<open>IncompleteRead\<close>\<close>
  | Payload nat doc                   \<comment> \<open>bytes read and their parse\<close>

datatype github_response =
    GitHubFailure
  | GitHubReply int retry_header bool nat doc
      \<comment> \<open>status, \<open>retry-after\<close>, \<open>x-ratelimit-remaining\<close> is \<open>"0"\<close>, bytes, parse\<close>

datatype io_fault = Fine | Fail nat | Kill nat   \<comment> \<open>at which stage of the operation\<close>

record utc_time =
  year :: nat
  month :: nat
  day :: nat
  hour :: nat
  minute :: nat
  sec :: nat

record env =
  fault :: "nat \<Rightarrow> io_fault"
  clock_ns :: "nat \<Rightarrow> int"                       \<comment> \<open>\<open>time.time_ns()\<close>\<close>
  clock_s :: "nat \<Rightarrow> pyfloat"                    \<comment> \<open>\<open>time.time()\<close>\<close>
  clock_mono :: "nat \<Rightarrow> rat"                     \<comment> \<open>\<open>time.monotonic()\<close>\<close>
  clock_utc :: "nat \<Rightarrow> utc_time"                 \<comment> \<open>\<open>datetime.now(UTC)\<close>, to the second\<close>
  wire :: "nat \<Rightarrow> request \<Rightarrow> response"
  github :: "nat \<Rightarrow> request \<Rightarrow> github_response"

definition calm :: "env \<Rightarrow> bool" where   \<comment> \<open>no call fails\<close>
  "calm E \<longleftrightarrow> (\<forall>n. fault E n = Fine)"

record world =
  tick :: nat
  fs :: filesystem
  sent :: "(request \<times> filesystem) list"
  mem :: agent_state
  last_attempt :: "rat option"
  seeds :: "str \<times> str \<Rightarrow> str option"            \<comment> \<open>Keychain: service and account\<close>
  outdir :: "path \<Rightarrow> (string \<Rightarrow> bytes option) option"   \<comment> \<open>output bundles and their files\<close>
  held :: "path \<Rightarrow> bool"                          \<comment> \<open>process locks this process holds\<close>
  acks :: "(int \<times> str \<times> str \<times> str) list"         \<comment> \<open>what the audited client noted\<close>

type_synonym 'a io = "world \<Rightarrow> 'a res \<times> world"

section \<open>The monad\<close>

named_theorems wp_simps \<open>weakest preconditions of the primitives and combinators\<close>

definition iret :: "'a \<Rightarrow> 'a io" where "iret x = (\<lambda>w. (Inr x, w))"

definition lift :: "'a res \<Rightarrow> 'a io" where "lift r = (\<lambda>w. (r, w))"

abbreviation iraise :: "exc \<Rightarrow> 'a io" where "iraise e \<equiv> lift (Inl e)"

abbreviation iraise_if :: "bool \<Rightarrow> exc \<Rightarrow> unit io" where "iraise_if c e \<equiv> lift (raise_if c e)"

definition ibind :: "'a io \<Rightarrow> ('a \<Rightarrow> 'b io) \<Rightarrow> 'b io" where
  "ibind m f = (\<lambda>w. case m w of (Inl e, w') \<Rightarrow> (Inl e, w') | (Inr x, w') \<Rightarrow> f x w')"

definition iwhen :: "bool \<Rightarrow> unit io \<Rightarrow> unit io" where
  "iwhen c m = (if c then m else iret ())"

text \<open>\<open>try: m except p as e: h e\<close>\<close>

definition on_error :: "(exc \<Rightarrow> bool) \<Rightarrow> (exc \<Rightarrow> 'a io) \<Rightarrow> 'a io \<Rightarrow> 'a io" where
  "on_error p h m = (\<lambda>w. case m w of
      (Inl e, w') \<Rightarrow> if p e then h e w' else (Inl e, w')
    | (Inr x, w') \<Rightarrow> (Inr x, w'))"

definition iget :: "(world \<Rightarrow> 'a) \<Rightarrow> 'a io" where "iget f = (\<lambda>w. (Inr (f w), w))"

definition imodify :: "(world \<Rightarrow> world) \<Rightarrow> unit io" where "imodify f = (\<lambda>w. (Inr (), f w))"

text \<open>One question to the environment.\<close>

definition ask :: "(nat \<Rightarrow> 'a) \<Rightarrow> 'a io" where
  "ask q = (\<lambda>w. (Inr (q (tick w)), w\<lparr>tick := Suc (tick w)\<rparr>))"

text \<open>A method of the in-memory state: it assigns only when it does not raise.\<close>

definition update_mem :: "(agent_state \<Rightarrow> (agent_state \<times> 'a) res) \<Rightarrow> 'a io" where
  "update_mem f = (\<lambda>w. case f (mem w) of
      Inl e \<Rightarrow> (Inl e, w) | Inr (s, x) \<Rightarrow> (Inr x, w\<lparr>mem := s\<rparr>))"

definition update_mem_unit :: "(agent_state \<Rightarrow> agent_state res) \<Rightarrow> unit io" where
  "update_mem_unit f = update_mem (\<lambda>s. map_sum id (\<lambda>s'. (s', ())) (f s))"

section \<open>Primitives\<close>

text \<open>
  \<open>json.loads(path.read_text(encoding="utf-8"))\<close> under
  \<open>except (OSError, json.JSONDecodeError)\<close>: only these two become \<open>e\<close>. A text that is not UTF-8, an
  integer over the interpreter's digit limit and a too deep nesting raise something else.
\<close>

definition parse_text :: "exc \<Rightarrow> doc \<Rightarrow> json res" where
  "parse_text e d = (case d of
      Doc v \<Rightarrow> ret (loads v)
    | NotJson \<Rightarrow> raise e
    | NotUtf8 \<Rightarrow> raise UnicodeDecodeError
    | HugeInt \<Rightarrow> raise (ValueError ''Exceeds the limit for integer string conversion'')
    | TooDeep \<Rightarrow> raise RecursionError)"

text \<open>\<open>json.loads(raw)\<close> under \<open>except (UnicodeDecodeError, json.JSONDecodeError)\<close>\<close>

definition parse_bytes :: "exc \<Rightarrow> doc \<Rightarrow> json res" where
  "parse_bytes e d = (case d of
      Doc v \<Rightarrow> ret (loads v)
    | NotJson \<Rightarrow> raise e
    | NotUtf8 \<Rightarrow> raise e
    | HugeInt \<Rightarrow> raise (ValueError ''Exceeds the limit for integer string conversion'')
    | TooDeep \<Rightarrow> raise RecursionError)"

text \<open>The parse of a file that is read whole: a log of several records is not one document.\<close>

fun body_doc :: "body \<Rightarrow> doc" where
  "body_doc (Text n d) = d"
| "body_doc (Lines n [(k, d)] b) = d"
| "body_doc (Lines n ls b) = NotJson"

fun body_size :: "body \<Rightarrow> nat" where
  "body_size (Text n d) = n"
| "body_size (Lines n ls b) = n"

text \<open>\<open>stat.S_IMODE(mode) & 0o077\<close>\<close>

definition group_or_other :: "inode \<Rightarrow> bool" where
  "group_or_other f \<longleftrightarrow> and (mode f) 63 \<noteq> 0"

definition exists_path :: "path \<Rightarrow> bool io" where
  "exists_path p = iget (\<lambda>w. fs w p \<noteq> None)"

text \<open>Opening and reading a whole file; \<open>OSError\<close> when it is not there or the call fails.\<close>

definition read_file :: "env \<Rightarrow> path \<Rightarrow> inode io" where
  "read_file E p = ibind (ask (fault E)) (\<lambda>flt. case flt of
      Fine \<Rightarrow> ibind (iget (\<lambda>w. fs w p)) (\<lambda>f. case f of
          None \<Rightarrow> iraise OSError | Some f \<Rightarrow> iret f)
    | Fail _ \<Rightarrow> iraise OSError
    | Kill _ \<Rightarrow> iraise Killed)"

definition fresh_file :: "body \<Rightarrow> inode" where
  "fresh_file b = \<lparr>regular = True, mode = 384, owned = True, contents = b\<rparr>"

definition set_file :: "path \<Rightarrow> inode option \<Rightarrow> unit io" where
  "set_file p f = imodify (\<lambda>w. w\<lparr>fs := (fs w)(p := f)\<rparr>)"

text \<open>
  The write the state file and the delivery journal use: create the directory (outside the
  \<open>try\<close>), write and sync a temporary file beside the target, \<open>os.replace\<close>, \<open>os.chmod\<close>. Stage 0
  is the directory, stage 1 everything before the replacement, a later stage comes after it. An
  \<open>OSError\<close> inside the \<open>try\<close> becomes \<open>e\<close>. The temporary file has a fresh name and is not modelled.
\<close>

definition atomic_write :: "env \<Rightarrow> exc \<Rightarrow> path \<Rightarrow> body \<Rightarrow> unit io" where
  "atomic_write E e p b = ibind (ask (fault E)) (\<lambda>flt. case flt of
      Fine \<Rightarrow> set_file p (Some (fresh_file b))
    | Fail n \<Rightarrow> if n = 0 then iraise OSError
               else if n = 1 then iraise e
               else ibind (set_file p (Some (fresh_file b))) (\<lambda>_. iraise e)
    | Kill n \<Rightarrow> if n \<le> 1 then iraise Killed
               else ibind (set_file p (Some (fresh_file b))) (\<lambda>_. iraise Killed))"

text \<open>
  \<open>path.unlink()\<close> and the sync of its directory: a missing file is no error, an \<open>OSError\<close> of
  either call is \<open>e\<close> (stage 0 before the unlink, later after it).
\<close>

definition unlink_synced :: "env \<Rightarrow> exc \<Rightarrow> path \<Rightarrow> unit io" where
  "unlink_synced E e p = ibind (exists_path p) (\<lambda>there.
     if \<not> there then iret ()
     else ibind (ask (fault E)) (\<lambda>flt. case flt of
        Fine \<Rightarrow> set_file p None
      | Fail n \<Rightarrow> if n = 0 then iraise e else ibind (set_file p None) (\<lambda>_. iraise e)
      | Kill n \<Rightarrow> if n = 0 then iraise Killed else ibind (set_file p None) (\<lambda>_. iraise Killed)))"

text \<open>A request leaves: it is recorded with the files as they are, then the answer is taken.\<close>

definition record_request :: "request \<Rightarrow> unit io" where
  "record_request r = imodify (\<lambda>w. w\<lparr>sent := sent w @ [(r, fs w)]\<rparr>)"

definition exchange :: "(nat \<Rightarrow> request \<Rightarrow> 'a) \<Rightarrow> env \<Rightarrow> request \<Rightarrow> 'a io" where
  "exchange answers E r = ibind (ask (fault E)) (\<lambda>flt. case flt of
      Kill n \<Rightarrow> if n = 0 then iraise Killed
                else ibind (record_request r) (\<lambda>_. iraise Killed)
    | _ \<Rightarrow> ibind (record_request r) (\<lambda>_. ask (\<lambda>t. answers t r)))"

section \<open>Weakest preconditions\<close>

text \<open>
  \<open>wp m Q R w\<close>: run from \<open>w\<close>, \<open>m\<close> returns a value and world in \<open>Q\<close> or raises an exception in a
  world of \<open>R\<close> (\<open>Killed\<close> included).
\<close>

definition wp :: "'a io \<Rightarrow> ('a \<Rightarrow> world \<Rightarrow> bool) \<Rightarrow> (exc \<Rightarrow> world \<Rightarrow> bool) \<Rightarrow> world \<Rightarrow> bool" where
  "wp m Q R w \<longleftrightarrow> (case m w of (Inl e, w') \<Rightarrow> R e w' | (Inr x, w') \<Rightarrow> Q x w')"

lemma wp_iret [wp_simps]: "wp (iret x) Q R w = Q x w"
  by (simp add: wp_def iret_def)

lemma wp_iret_eta [wp_simps]: "wp (iret x) Q R = Q x"
  by (simp add: fun_eq_iff wp_iret)

lemma wp_lift [wp_simps]: "wp (lift r) Q R w = (case r of Inl e \<Rightarrow> R e w | Inr x \<Rightarrow> Q x w)"
  by (simp add: wp_def lift_def split: sum.splits)

lemma wp_ibind [wp_simps]: "wp (ibind m f) Q R w = wp m (\<lambda>x. wp (f x) Q R) R w"
  by (simp add: wp_def ibind_def split: sum.splits prod.splits)

lemma wp_ibind_eta: "wp (ibind m f) Q R = wp m (\<lambda>x. wp (f x) Q R) R"
  by (simp add: fun_eq_iff wp_ibind)

lemma wp_on_error [wp_simps]:
  "wp (on_error p h m) Q R w = wp m Q (\<lambda>e w'. if p e then wp (h e) Q R w' else R e w') w"
  by (auto simp: wp_def on_error_def split: sum.splits prod.splits)

lemma wp_iget [wp_simps]: "wp (iget f) Q R w = Q (f w) w"
  by (simp add: wp_def iget_def)

lemma wp_imodify [wp_simps]: "wp (imodify f) Q R w = Q () (f w)"
  by (simp add: wp_def imodify_def)

lemma wp_ask [wp_simps]: "wp (ask q) Q R w = Q (q (tick w)) (w\<lparr>tick := Suc (tick w)\<rparr>)"
  by (simp add: wp_def ask_def)

lemma wp_update_mem [wp_simps]:
  "wp (update_mem f) Q R w =
     (case f (mem w) of Inl e \<Rightarrow> R e w | Inr (s, x) \<Rightarrow> Q x (w\<lparr>mem := s\<rparr>))"
  by (simp add: wp_def update_mem_def split: sum.splits prod.splits)

lemma wp_update_mem_unit [wp_simps]:
  "wp (update_mem_unit f) Q R w =
     (case f (mem w) of Inl e \<Rightarrow> R e w | Inr s \<Rightarrow> Q () (w\<lparr>mem := s\<rparr>))"
  by (simp add: update_mem_unit_def wp_update_mem split: sum.splits)

lemma wp_iwhen [wp_simps]: "wp (iwhen c m) Q R w = (if c then wp m Q R w else Q () w)"
  by (simp add: iwhen_def wp_iret)

lemma wp_exists_path [wp_simps]: "wp (exists_path p) Q R w = Q (fs w p \<noteq> None) w"
  by (simp add: exists_path_def wp_simps)

lemma wp_set_file [wp_simps]: "wp (set_file p f) Q R w = Q () (w\<lparr>fs := (fs w)(p := f)\<rparr>)"
  by (simp add: set_file_def wp_simps)

lemma wp_record_request [wp_simps]:
  "wp (record_request r) Q R w = Q () (w\<lparr>sent := sent w @ [(r, fs w)]\<rparr>)"
  by (simp add: record_request_def wp_simps)

lemma wp_mono:
  assumes "wp m Q R w" and "\<And>x w'. Q x w' \<Longrightarrow> Q' x w'" and "\<And>e w'. R e w' \<Longrightarrow> R' e w'"
  shows "wp m Q' R' w"
  using assms by (auto simp: wp_def split: sum.splits prod.splits)

lemma wp_True [simp]: "wp m (\<lambda>x w'. True) (\<lambda>e w'. True) w"
  by (simp add: wp_def split: sum.splits prod.splits)

lemma wp_conj:
  "wp m Q R w \<Longrightarrow> wp m Q' R' w \<Longrightarrow> wp m (\<lambda>x w'. Q x w' \<and> Q' x w') (\<lambda>e w'. R e w' \<and> R' e w') w"
  by (auto simp: wp_def split: sum.splits prod.splits)

lemma wp_Inr: "wp m Q R w \<Longrightarrow> m w = (Inr x, w') \<Longrightarrow> Q x w'"
  by (simp add: wp_def)

lemma wp_Inl: "wp m Q R w \<Longrightarrow> m w = (Inl e, w') \<Longrightarrow> R e w'"
  by (simp add: wp_def)

lemma wp_always: "wp m (\<lambda>x. I) (\<lambda>e. I) w \<longleftrightarrow> I (snd (m w))"
  by (auto simp: wp_def split: sum.splits prod.splits)

section \<open>What a run never undoes\<close>

text \<open>
  A reflexive and transitive relation between worlds that every primitive of a program respects
  is respected by the program: \<open>grows m\<close> says so for one \<open>m\<close>, on every path out of it.
\<close>

locale world_order =
  fixes R :: "world \<Rightarrow> world \<Rightarrow> bool"
  assumes refl: "R w w" and trans: "R u v \<Longrightarrow> R v w \<Longrightarrow> R u w"
    and ticks: "tick w \<le> n \<Longrightarrow> R w (w\<lparr>tick := n\<rparr>)"
begin

definition grows :: "'a io \<Rightarrow> bool" where
  "grows m \<longleftrightarrow> (\<forall>w. R w (snd (m w)))"

lemma grows_iret: "grows (iret x)"
  by (simp add: grows_def iret_def refl)

lemma grows_lift: "grows (lift r)"
  by (simp add: grows_def lift_def refl)

lemma grows_ibind: "grows m \<Longrightarrow> (\<And>x. grows (f x)) \<Longrightarrow> grows (ibind m f)"
proof -
  assume m: "grows m" and f: "\<And>x. grows (f x)"
  have "R w (snd (ibind m f w))" for w
    using m [unfolded grows_def, rule_format, of w] f [unfolded grows_def, rule_format] trans
    by (cases "m w") (auto simp: ibind_def split: sum.split)
  then show ?thesis by (simp add: grows_def)
qed

lemma grows_on_error: "grows m \<Longrightarrow> (\<And>e. grows (h e)) \<Longrightarrow> grows (on_error p h m)"
proof -
  assume m: "grows m" and h: "\<And>e. grows (h e)"
  have "R w (snd (on_error p h m w))" for w
    using m [unfolded grows_def, rule_format, of w] h [unfolded grows_def, rule_format] trans
    by (cases "m w") (auto simp: on_error_def split: sum.split)
  then show ?thesis by (simp add: grows_def)
qed

lemma grows_iwhen: "grows m \<Longrightarrow> grows (iwhen c m)"
  by (simp add: iwhen_def grows_iret)

lemma grows_iget: "grows (iget f)"
  by (simp add: grows_def iget_def refl)

lemma grows_ask: "grows (ask q)"
  by (simp add: grows_def ask_def ticks)

lemma grows_exists_path: "grows (exists_path p)"
  by (simp add: exists_path_def grows_iget)

lemma grows_read_file: "grows (read_file E p)"
  unfolding read_file_def
  by (intro grows_ibind grows_ask) (auto split: io_fault.splits option.splits
      intro!: grows_ibind grows_iget grows_lift grows_iret)

lemmas grows_intros = grows_iret grows_lift grows_ibind grows_on_error grows_iwhen grows_iget
  grows_ask grows_exists_path grows_read_file

lemma growsD: "grows m \<Longrightarrow> R w (snd (m w))"
  by (simp add: grows_def)

lemma wp_grows: "grows m \<Longrightarrow> wp m (\<lambda>x. R w) (\<lambda>e. R w) w"
  by (simp add: wp_always grows_def)

end

text \<open>Code that leaves the files, the memory and the record of requests alone.\<close>

interpretation still: world_order
  "\<lambda>w w'. fs w' = fs w \<and> mem w' = mem w \<and> sent w' = sent w \<and> last_attempt w' = last_attempt w"
  by unfold_locales auto

text \<open>Code that leaves the files and the memory alone: it may send requests.\<close>

interpretation asking: world_order "\<lambda>w w'. fs w' = fs w \<and> mem w' = mem w"
  by unfold_locales auto

text \<open>Code that writes no file and no memory and sends nothing signed.\<close>

definition says :: "world \<Rightarrow> (request \<times> filesystem) list" where
  "says w = filter (\<lambda>(r, f). case r of SaySigned u \<Rightarrow> True | _ \<Rightarrow> False) (sent w)"

interpretation quiet: world_order "\<lambda>w w'. fs w' = fs w \<and> says w' = says w"
  by unfold_locales (auto simp: says_def)

section \<open>Durable replacement\<close>

text \<open>
  The contract of a write the rest relies on: on every path out, faults and death included, the
  target holds its old content or the new one, nothing else changed, and a normal return means
  the new one. It holds of the atomic write of the state file and the journal and of clearing
  the journal.
\<close>

definition agrees_but :: "path \<Rightarrow> world \<Rightarrow> world \<Rightarrow> bool" where
  "agrees_but p w w' \<longleftrightarrow> (\<forall>q. q \<noteq> p \<longrightarrow> fs w' q = fs w q) \<and> mem w' = mem w \<and> sent w' = sent w
     \<and> last_attempt w' = last_attempt w"

locale durable =
  fixes op :: "unit io" and p :: path and new :: "inode option" and errs :: "exc set"
  assumes op_wp: "wp op (\<lambda>_ w'. agrees_but p w w' \<and> fs w' p = new)
      (\<lambda>e w'. agrees_but p w w' \<and> fs w' p \<in> {fs w p, new} \<and> e \<in> errs) w"
begin

lemma old_or_new: "wp op (\<lambda>_ w'. fs w' p \<in> {fs w p, new}) (\<lambda>_ w'. fs w' p \<in> {fs w p, new}) w"
  by (rule wp_mono [OF op_wp]) auto

lemma wpI:
  assumes "\<And>w'. agrees_but p w w' \<Longrightarrow> fs w' p = new \<Longrightarrow> Q () w'"
    and "\<And>e w'. agrees_but p w w' \<Longrightarrow> fs w' p = fs w p \<Longrightarrow> e \<in> errs \<Longrightarrow> R e w'"
    and "\<And>e w'. agrees_but p w w' \<Longrightarrow> fs w' p = new \<Longrightarrow> e \<in> errs \<Longrightarrow> R e w'"
  shows "wp op Q R w"
  by (rule wp_mono [OF op_wp]) (use assms in auto)

end

interpretation replaced: durable "atomic_write E e p b" p "Some (fresh_file b)" "{e, OSError, Killed}"
  for E e p b
  by unfold_locales (auto simp: atomic_write_def wp_simps agrees_but_def split: io_fault.splits)

interpretation unlinked: durable "unlink_synced E e p" p None "{e, Killed}"
  for E e p
  by unfold_locales (auto simp: unlink_synced_def wp_simps agrees_but_def split: io_fault.splits)

text \<open>Two ways to leave a world: nothing but time went by, or one request left.\<close>

definition untouched :: "world \<Rightarrow> world \<Rightarrow> bool" where
  "untouched w w' \<longleftrightarrow> fs w' = fs w \<and> mem w' = mem w \<and> sent w' = sent w
     \<and> last_attempt w' = last_attempt w"

definition sent_one :: "request \<Rightarrow> world \<Rightarrow> world \<Rightarrow> bool" where
  "sent_one r w w' \<longleftrightarrow> fs w' = fs w \<and> mem w' = mem w \<and> sent w' = sent w @ [(r, fs w)]
     \<and> last_attempt w' = last_attempt w"

lemma exchange_wp:
  assumes "\<And>a w'. sent_one r w w' \<Longrightarrow> Q a w'"
    and "\<And>w'. untouched w w' \<Longrightarrow> R Killed w'"
    and "\<And>w'. sent_one r w w' \<Longrightarrow> R Killed w'"
  shows "wp (exchange answers E r) Q R w"
  using assms by (auto simp: exchange_def wp_simps sent_one_def untouched_def split: io_fault.splits)

lemma says_of_sent: "sent w' = sent w \<Longrightarrow> says w' = says w"
  by (simp add: says_def)

lemma says_tick [simp]: "says (w\<lparr>tick := n\<rparr>) = says w"
  and says_sent: "says (w\<lparr>sent := sent w @ [(r, f)]\<rparr>)
    = says w @ (case r of SaySigned u \<Rightarrow> [(r, f)] | _ \<Rightarrow> [])"
  by (simp_all add: says_def split: request.splits)

lemma says_sent_one:
  "sent_one r w w' \<Longrightarrow> says w' = says w @ (case r of SaySigned u \<Rightarrow> [(r, fs w)] | _ \<Rightarrow> [])"
  by (simp add: says_def sent_one_def split: request.splits)

lemma asking_exchange: "asking.grows (exchange answers E r)"
proof -
  have "wp (exchange answers E r) (\<lambda>_ w'. fs w' = fs w \<and> mem w' = mem w)
      (\<lambda>_ w'. fs w' = fs w \<and> mem w' = mem w) w" for w
    by (rule exchange_wp) (auto simp: sent_one_def untouched_def)
  then show ?thesis unfolding asking.grows_def wp_always by blast
qed

lemma quiet_exchange:
  assumes "case r of SaySigned u \<Rightarrow> False | _ \<Rightarrow> True"
  shows "quiet.grows (exchange answers E r)"
proof -
  have "wp (exchange answers E r) (\<lambda>_ w'. fs w' = fs w \<and> says w' = says w)
      (\<lambda>_ w'. fs w' = fs w \<and> says w' = says w) w" for w
    by (rule exchange_wp)
      (use assms in \<open>auto simp: says_sent_one sent_one_def untouched_def says_def split: request.splits\<close>)
  then show ?thesis unfolding quiet.grows_def wp_always by blast
qed

end
