(* ===== verification/State_File.thy ===== *)
theory State_File
  imports Runtime
begin

text \<open>
  \<open>state.py\<close>, the file half: \<open>AgentState.load\<close> and \<open>AgentState.save\<close>. What \<open>save\<close> writes is the
  payload of \<open>json_of_state\<close>; the size of the text matters to no reader of this file, and the
  payload has no float in it.
\<close>

definition json_text_size :: "json \<Rightarrow> nat" where
  "json_text_size v = length (dumps (\<lambda>_. []) v) + 1"

definition state_body :: "agent_state \<Rightarrow> body" where
  "state_body s = Text (json_text_size (json_of_state s)) (Doc (json_of_state s))"

definition is_OSError :: "exc \<Rightarrow> bool" where
  "is_OSError e \<longleftrightarrow> e = OSError"

definition load_state :: "env \<Rightarrow> path \<Rightarrow> agent_state io" where
  "load_state E p = ibind (exists_path p) (\<lambda>there.
     if \<not> there then iret empty_state
     else ibind (on_error is_OSError (\<lambda>_. iraise (StateError ''cannot read state file'')) (read_file E p)) (\<lambda>f.
          ibind (lift (parse_text (StateError ''cannot read state file'') (body_doc (contents f)))) (\<lambda>payload.
          lift (state_of_json payload))))"

definition save_state :: "env \<Rightarrow> path \<Rightarrow> agent_state \<Rightarrow> unit io" where
  "save_state E p s = atomic_write E (StateError ''cannot write state file'') p (state_body s)"

text \<open>\<open>self.state.save(self.state_path)\<close>\<close>

definition save_mem :: "env \<Rightarrow> path \<Rightarrow> unit io" where
  "save_mem E p = ibind (iget mem) (save_state E p)"

section \<open>Facts\<close>

lemma is_OSError_simps [simp]: "is_OSError OSError" "\<not> is_OSError Killed"
  by (simp_all add: is_OSError_def)

lemma still_load_state: "still.grows (load_state E p)"
  unfolding load_state_def by (auto intro!: still.grows_intros)

lemma asking_load_state: "asking.grows (load_state E p)"
  unfolding load_state_def by (auto intro!: asking.grows_intros)

text \<open>The state a file stands for, when it is one \<open>load\<close> accepts.\<close>

definition state_in_file :: "inode \<Rightarrow> agent_state res" where
  "state_in_file f =
     bind (parse_text (StateError ''cannot read state file'') (body_doc (contents f))) state_of_json"

definition disk_state :: "filesystem \<Rightarrow> path \<Rightarrow> agent_state res" where
  "disk_state fl p = (case fl p of None \<Rightarrow> Inr empty_state | Some f \<Rightarrow> state_in_file f)"

lemma load_state_wp:
  assumes "\<And>s n. disk_state (fs w) p = Inr s \<Longrightarrow> Q s (w\<lparr>tick := n\<rparr>)"
    and "\<And>e n. R e (w\<lparr>tick := n\<rparr>)"
  shows "wp (load_state E p) Q R w"
proof (cases "fs w p")
  case None
  then show ?thesis using assms(1) [of empty_state "tick w"]
    by (simp add: load_state_def wp_simps disk_state_def)
next
  case (Some f)
  let ?w = "w\<lparr>tick := Suc (tick w)\<rparr>"
  have "wp (lift (state_in_file f)) Q R ?w"
    using assms Some by (auto simp: wp_simps disk_state_def split: sum.splits)
  then show ?thesis
    using assms(2) Some by (auto simp: load_state_def read_file_def wp_simps state_in_file_def
        bind_def split: io_fault.splits sum.splits)
qed

text \<open>A saved state reads back as itself, sorted.\<close>

lemma state_in_saved_file:
  assumes "state_loadable s"
  shows "state_in_file (fresh_file (state_body s)) = Inr (sort_state s)"
  using assms loads_json_of_state [of s] state_of_json_of_state [OF assms]
  by (simp add: state_in_file_def state_body_def fresh_file_def parse_text_def state_loadable_def)

lemma state_of_json_loads_state:
  assumes "state_ok s"
  shows "state_in_file (fresh_file (state_body s)) = state_of_json (json_of_state s)"
  using loads_json_of_state [OF assms]
  by (simp add: state_in_file_def state_body_def fresh_file_def parse_text_def)

interpretation state_saved:
  durable "save_state E p s" p "Some (fresh_file (state_body s))"
    "{StateError ''cannot write state file'', OSError, Killed}"
  for E p s
  by unfold_locales (unfold save_state_def, rule replaced.op_wp)

lemma save_mem_wp:
  assumes "\<And>w'. agrees_but p w w' \<Longrightarrow> fs w' p = Some (fresh_file (state_body (mem w))) \<Longrightarrow> Q () w'"
    and "\<And>e w'. agrees_but p w w' \<Longrightarrow> fs w' p = fs w p \<or> fs w' p = Some (fresh_file (state_body (mem w))) \<Longrightarrow>
      e \<in> {StateError ''cannot write state file'', OSError, Killed} \<Longrightarrow> R e w'"
  shows "wp (save_mem E p) Q R w"
  unfolding save_mem_def wp_simps by (rule state_saved.wpI) (use assms in blast)+

section \<open>What a file can hold\<close>

lemma set_update: "set (AList.update k v d) \<subseteq> insert (k, v) (set d)"
  by (induction d) auto

lemma set_dict_of_pairs: "set (dict_of_pairs ps) \<subseteq> set ps"
proof (induction ps rule: rev_induct)
  case (snoc p ps)
  then show ?case using set_update [of "fst p" "snd p" "dict_of_pairs ps"]
    by (fastforce simp: dict_of_pairs_snoc)
qed (simp add: dict_of_pairs_def)

lemma no_duplicates_loads: "\<not> has_duplicate_key (loads v)"
proof (induction v rule: loads.induct)
  case (2 kvs)
  have "keys_distinct (dict_of_pairs (map (\<lambda>(k, v). (k, loads v)) kvs))" by simp
  then show ?case
    using set_dict_of_pairs [of "map (\<lambda>(k, v). (k, loads v)) kvs"] 2
    by (fastforce simp: list_ex_iff keys_distinct_def)
qed (auto simp: list_ex_iff)

lemma no_duplicates_dget:
  "\<not> has_duplicate_key (JObj p) \<Longrightarrow> \<not> has_duplicate_key (dget p k)"
  "\<not> has_duplicate_key (JObj p) \<Longrightarrow> \<not> has_duplicate_key d \<Longrightarrow> \<not> has_duplicate_key (dget_default p k d)"
  by (auto simp: dget_def dget_default_def list_ex_iff split: option.split dest!: map_of_SomeD)

lemma nonnegative_int_map_ok:
  assumes "nonnegative_int_map v = Inr d" and "\<not> has_duplicate_key v"
  shows "int_dict_ok d"
proof -
  obtain kvs where v: "v = JObj kvs" and m: "map_res (\<lambda>(key, item).
          if key = [] then raise (StateError ''contains an invalid room'')
          else bind (nonnegative_int_of item) (\<lambda>i. ret (key, i))) kvs = Inr d"
    using assms(1) by (cases v) (auto simp: nonnegative_int_map_def)
  have e: "(case x of (key, item) \<Rightarrow> if key = [] then raise (StateError ''contains an invalid room'')
      else bind (nonnegative_int_of item) (\<lambda>i. ret (key, i))) = Inr y
      \<Longrightarrow> fst y = fst x \<and> fst y \<noteq> [] \<and> 0 \<le> snd y" for x y
    by (auto simp: nonnegative_int_of_def res_simps split: prod.splits json.splits if_splits)
  have a: "list_all2 (\<lambda>x y. fst y = fst x \<and> fst y \<noteq> [] \<and> 0 \<le> snd y) kvs d"
    using m [unfolded map_res_eq_Inr] by (rule list_all2_mono) (rule e)
  have "map fst d = map fst kvs \<and> list_all (\<lambda>(k, v). k \<noteq> [] \<and> 0 \<le> v) d"
    using a by (induction rule: list_all2_induct) auto
  with assms(2) show ?thesis by (simp add: v int_dict_ok_def keys_distinct_def)
qed

lemma capability_request_map_ok:
  assumes "capability_request_map v = Inr d" and "\<not> has_duplicate_key v"
  shows "keys_distinct d \<and> list_all history_ok d \<and> length d \<le> MAX_STATE_PRINCIPALS
    \<and> list_all (\<lambda>(did, ts). length ts \<le> MAX_STATE_HISTORY) d"
proof -
  obtain kvs where v: "v = JObj kvs" and n: "length kvs \<le> MAX_STATE_PRINCIPALS" and m: "map_res request_history kvs = Inr d"
    using assms(1) by (auto simp: capability_request_map_def split: json.splits if_splits)
  have h: "fst y = fst x \<and> history_ok y \<and> length (snd y) \<le> MAX_STATE_HISTORY" if q: "request_history x = Inr y" for x y
  proof -
    obtain did raw where x: "x = (did, raw)" by (cases x)
    obtain xs where raw: "raw = JArr xs"
      by (cases raw) (use q in \<open>auto simp: request_history_def x res_simps\<close>)
    obtain ts where m: "map_res nonnegative_int_of xs = Inr ts" and y: "y = (did, ts)"
      and c: "match_did did" "sorted ts" "length xs \<le> MAX_STATE_HISTORY"
      using q by (auto simp: request_history_def x raw res_simps validate_did_def split: if_splits)
    have "list_all2 (\<lambda>x y. nonnegative_int_of x = Inr y) xs ts" using m by (simp add: map_res_eq_Inr)
    then have "list_all (\<lambda>t. 0 \<le> t) ts \<and> length ts = length xs"
      by (induction rule: list_all2_induct) (auto simp: nonnegative_int_of_def split: json.splits if_splits)
    with c show ?thesis by (simp add: x y history_ok_def)
  qed
  have "list_all2 (\<lambda>x y. request_history x = Inr y) kvs d" using m by (simp add: map_res_eq_Inr)
  then have "map fst d = map fst kvs \<and> list_all history_ok d \<and> list_all (\<lambda>(did, ts). length ts \<le> MAX_STATE_HISTORY) d"
    by (induction rule: list_all2_induct) (auto dest: h)
  moreover from this have "length d = length kvs" by (metis length_map)
  ultimately show ?thesis using assms(2) n by (simp add: v keys_distinct_def)
qed

lemma state_of_json_ok:
  assumes "state_of_json v = Inr s" and "\<not> has_duplicate_key v"
  shows "state_loadable s"
proof -
  obtain p where v: "v = JObj p" using assms(1) by (auto simp: state_of_json_def split: json.splits)
  have nd: "\<not> has_duplicate_key (dget p k)" "\<not> has_duplicate_key (dget_default p k (JObj []))" for k
    using no_duplicates_dget [of p] assms(2) unfolding v by simp_all
  have "int_dict_ok (cursors s)" "int_dict_ok (nonces s)" "int_dict_ok (generations s)"
    "keys_distinct (capability_requests s) \<and> list_all history_ok (capability_requests s)
      \<and> length (capability_requests s) \<le> MAX_STATE_PRINCIPALS
      \<and> list_all (\<lambda>(did, ts). length ts \<le> MAX_STATE_HISTORY) (capability_requests s)"
    using assms(1) nd by (auto simp: state_of_json_def v res_simps dest: nonnegative_int_map_ok capability_request_map_ok)
  then show ?thesis by (simp add: state_loadable_def state_ok_def)
qed

lemma disk_state_loadable: "disk_state g p = Inr s \<Longrightarrow> state_loadable s"
proof -
  have "state_loadable empty_state"
    by (simp add: state_loadable_def state_ok_def empty_state_def int_dict_ok_def keys_distinct_def)
  moreover have "state_loadable s" if "parse_text e d = Inr v" "state_of_json v = Inr s" for e d v
    using that state_of_json_ok [OF that(2)] no_duplicates_loads
    by (auto simp: parse_text_def split: doc.splits)
  moreover assume "disk_state g p = Inr s"
  ultimately show ?thesis by (auto simp: disk_state_def state_in_file_def res_simps split: option.splits)
qed

lemma disk_state_ok: "disk_state g p = Inr s \<Longrightarrow> state_ok s"
  using disk_state_loadable by (auto simp: state_loadable_def)

end
