(* ===== verification/Url.thy ===== *)
theory Url
  imports Crypto
begin

text \<open>
  The corners of \<open>urllib.parse\<close> the program leans on, as CPython 3.12 implements them:
  \<open>urlsplit\<close> with its pre-processing, the \<open>hostname\<close>, \<open>username\<close> and \<open>password\<close> of its result, and
  \<open>quote(value, safe="")\<close>. The check of a bracketed or non-ASCII network location is the library
  parameter \<open>netloc_rejected\<close>.
\<close>

record split_url =
  scheme :: str
  netloc :: str
  upath :: str
  query :: str
  fragment :: str

definition is_scheme_char :: "nat \<Rightarrow> bool" where   \<comment> \<open>\<open>[A-Za-z0-9+.-]\<close>\<close>
  "is_scheme_char c \<longleftrightarrow> is_alnum c \<or> c \<in> {43, 45, 46}"

text \<open>leading C0 controls and spaces go, tab, CR and LF go everywhere\<close>

definition url_cleaned :: "str \<Rightarrow> str" where
  "url_cleaned u = filter (\<lambda>c. c \<notin> {9, 10, 13}) (dropWhile (\<lambda>c. c \<le> 32) u)"

definition split_scheme :: "str \<Rightarrow> str \<times> str" where
  "split_scheme u =
     (let (front, found, after) = partition_at 58 u
      in if found \<and> front \<noteq> [] \<and> is_alpha (hd front) \<and> list_all is_scheme_char front
         then (map fold_char front, after) else ([], u))"

definition split_netloc :: "str \<Rightarrow> str \<times> str" where
  "split_netloc u =
     (if take 2 u = [47, 47]
      then (takeWhile (\<lambda>c. c \<notin> {47, 63, 35}) (drop 2 u), dropWhile (\<lambda>c. c \<notin> {47, 63, 35}) (drop 2 u))
      else ([], u))"

definition netloc_error :: "lib \<Rightarrow> str \<Rightarrow> bool" where
  "netloc_error L n \<longleftrightarrow>
     ((91 \<in> set n) \<noteq> (93 \<in> set n)) \<or>
     ((91 \<in> set n \<and> 93 \<in> set n) \<or> \<not> is_ascii n) \<and> netloc_rejected L n"

definition urlsplit :: "lib \<Rightarrow> str \<Rightarrow> split_url res" where
  "urlsplit L u =
     (let (s, rest) = split_scheme (url_cleaned u);
          (n, rest) = split_netloc rest
      in if netloc_error L n then raise (ValueError ''Invalid IPv6 URL'')
         else let (rest, _, f) = partition_at 35 rest;
                  (p, _, q) = partition_at 63 rest
              in ret \<lparr>scheme = s, netloc = n, upath = p, query = q, fragment = f\<rparr>)"

text \<open>\<open>netloc.rpartition("@")\<close>\<close>

definition userinfo_of :: "str \<Rightarrow> str" where
  "userinfo_of n = (let (a, found, b) = partition_at 64 (rev n) in if found then rev b else [])"

definition hostinfo_of :: "str \<Rightarrow> str" where
  "hostinfo_of n = rev (fst (partition_at 64 (rev n)))"

definition hostname_of :: "str \<Rightarrow> str" where
  "hostname_of n =
     (let (_, bracket, inside) = partition_at 91 (hostinfo_of n);
          host = fst (if bracket then partition_at 93 inside else partition_at 58 (hostinfo_of n));
          (name, percent, zone) = partition_at 37 host
      in map fold_char name @ (if percent then [37] else []) @ zone)"

text \<open>Truthiness of \<open>parsed.username\<close> or \<open>parsed.password\<close>: some part of the user info is not empty.\<close>

definition has_credentials :: "str \<Rightarrow> bool" where
  "has_credentials n = (let (user, _, password) = partition_at 58 (userinfo_of n)
     in user \<noteq> [] \<or> password \<noteq> [])"

section \<open>Percent encoding\<close>

definition is_unreserved :: "nat \<Rightarrow> bool" where   \<comment> \<open>\<open>[A-Za-z0-9_.~-]\<close>\<close>
  "is_unreserved c \<longleftrightarrow> is_alnum c \<or> c \<in> {95, 46, 45, 126}"

definition hex_upper :: "nat \<Rightarrow> nat" where
  "hex_upper d = (if d < 10 then 48 + d else 55 + d)"

definition quote_byte :: "nat \<Rightarrow> str" where
  "quote_byte b = (if is_unreserved b then [b] else [37, hex_upper (b div 16), hex_upper (b mod 16)])"

definition quote_bytes :: "bytes \<Rightarrow> str" where
  "quote_bytes bs = concat (map quote_byte bs)"

definition quote :: "str \<Rightarrow> str res" where
  "quote s = bind (encode_utf8 s) (\<lambda>bs. ret (quote_bytes bs))"

lemma hex_upper_inj: "a < 16 \<Longrightarrow> b < 16 \<Longrightarrow> hex_upper a = hex_upper b \<longleftrightarrow> a = b"
  by (auto simp: hex_upper_def)

lemma quote_byte_prefix:
  assumes "a < 256" "b < 256" "quote_byte a @ x = quote_byte b @ y"
  shows "a = b \<and> x = y"
proof -
  have div: "a div 16 < 16" "b div 16 < 16" using assms by auto
  have "\<not> is_unreserved 37" by (simp add: is_unreserved_def char_class_defs)
  with assms(3) div have "a = b \<and> x = y \<or> a div 16 = b div 16 \<and> a mod 16 = b mod 16 \<and> x = y"
    by (auto simp: quote_byte_def hex_upper_inj split: if_splits)
  then show ?thesis by (metis div_mult_mod_eq)
qed

lemma quote_byte_nonempty: "quote_byte b \<noteq> []"
  by (simp add: quote_byte_def)

lemma quote_bytes_inj:
  "is_bytes xs \<Longrightarrow> is_bytes ys \<Longrightarrow> quote_bytes xs = quote_bytes ys \<Longrightarrow> xs = ys"
proof (induction xs arbitrary: ys)
  case Nil
  then show ?case by (cases ys) (auto simp: quote_bytes_def quote_byte_nonempty)
next
  case (Cons x xs)
  then obtain y ys' where ys: "ys = y # ys'"
    by (cases ys) (auto simp: quote_bytes_def quote_byte_nonempty)
  with Cons.prems have "quote_byte x @ quote_bytes xs = quote_byte y @ quote_bytes ys'"
    "x < 256" "y < 256" "is_bytes xs" "is_bytes ys'"
    by (simp_all add: quote_bytes_def is_bytes_def)
  then show ?case using Cons.IH quote_byte_prefix ys by blast
qed

lemma quote_bytes_no_slash: "is_bytes bs \<Longrightarrow> 47 \<notin> set (quote_bytes bs)"
proof -
  have "47 \<notin> set (quote_byte b)" if "b < 256" for b
  proof -
    have "b div 16 < 16" using that by auto
    then show ?thesis
      by (auto simp: quote_byte_def is_unreserved_def char_class_defs hex_upper_def)
  qed
  moreover assume "is_bytes bs"
  ultimately show ?thesis by (auto simp: quote_bytes_def is_bytes_def list_all_iff)
qed

end
