(* ===== verification/Protocol.thy ===== *)
theory Protocol
  imports State_File Url
begin

text \<open>
  \<open>protocol.py\<close>: the room client. The data model (\<open>room_message\<close>, \<open>room_snapshot\<close>), the checks
  of the base URL and the numeric options, the mapping of HTTP outcomes to exceptions, the
  parsers of a message and a snapshot, and the two requests \<open>read_room\<close> and
  \<open>send_signed_message\<close> with the exact URL each one sends. What the lemmas show: a snapshot that
  comes out of \<open>read_room\<close> is ordered and inside its advertised range, a posted record is the
  envelope that was asked for, and the URL of a signed write determines that envelope.
\<close>

record room_message =
  msg_seq :: int
  msg_sender :: str
  msg_text :: str
  msg_nonce :: "str option"

record room_snapshot =
  snap_room :: str
  first_seq :: int
  last_seq :: int
  messages :: "room_message list"
  generation :: int

record client =
  base_url :: str
  timeout :: pyfloat

definition is_signed :: "room_message \<Rightarrow> bool" where
  "is_signed m =
     (if msg_nonce m = None then False
      else case validate_did (msg_sender m) of Inl _ \<Rightarrow> False | Inr _ \<Rightarrow> True)"

section \<open>Options\<close>

definition validate_base_url :: "lib \<Rightarrow> str \<Rightarrow> str res" where
  "validate_base_url L url =
     bind (raise_if (url \<noteq> strip url)
       (ProtocolValueError ''base URL must not contain surrounding whitespace'')) (\<lambda>_.
     bind (urlsplit L url) (\<lambda>parsed.
     let loopback = hostname_of (netloc parsed)
           \<in> {lit ''127.0.0.1'', lit ''localhost'', lit ''::1''} in
     bind (raise_if (scheme parsed \<noteq> lit ''https'' \<and> \<not> (scheme parsed = lit ''http'' \<and> loopback))
       (ProtocolValueError ''base URL must use HTTPS, except for an explicit loopback host'')) (\<lambda>_.
     bind (raise_if (netloc parsed = [] \<or> has_credentials (netloc parsed) \<or> query parsed \<noteq> []
         \<or> fragment parsed \<noteq> [])
       (ProtocolValueError ''base URL must contain only scheme and host'')) (\<lambda>_.
     ret (rev (dropWhile (\<lambda>c. c = 47) (rev url)))))))"

definition bounded_float :: "pyfloat \<Rightarrow> rat \<Rightarrow> rat \<Rightarrow> pyfloat res" where
  "bounded_float v minimum maximum = (case float_value v of
      None \<Rightarrow> raise (ProtocolValueError ''must be a finite number'')
    | Some r \<Rightarrow> if minimum \<le> r \<and> r \<le> maximum then ret v
        else raise (ProtocolValueError ''must be between the bounds''))"

definition technocore_client :: "lib \<Rightarrow> str \<Rightarrow> pyfloat \<Rightarrow> client res" where
  "technocore_client L url t =
     bind (validate_base_url L url) (\<lambda>u.
     bind (bounded_float t (1 / 10) 120) (\<lambda>t'.
     ret \<lparr>base_url = u, timeout = t'\<rparr>))"

definition retry_after_of :: "retry_header \<Rightarrow> rat option" where
  "retry_after_of h = (case h of
      NoHeader \<Rightarrow> None
    | BadNumber \<Rightarrow> None
    | Number f \<Rightarrow> (case float_value f of None \<Rightarrow> None | Some r \<Rightarrow> if 0 \<le> r then Some r else None))"

section \<open>One request\<close>

definition MAX_RESPONSE_BYTES :: nat where "MAX_RESPONSE_BYTES = 5 * 1024 * 1024"

definition payload_of_response :: "response \<Rightarrow> pairs res" where
  "payload_of_response r = (case r of
      HttpError status header readable \<Rightarrow> raise (TransportError (Some status) (retry_after_of header))
    | ConnFailure \<Rightarrow> raise (TransportError None None)
    | ReadAborted \<Rightarrow> raise HTTPException
    | Payload n d \<Rightarrow>
        bind (raise_if (MAX_RESPONSE_BYTES < n)
          (ResponseError ''Technocore response exceeded the 5 MiB safety limit'')) (\<lambda>_.
        bind (parse_bytes (ResponseError ''Technocore returned invalid JSON'') d) (\<lambda>payload.
        as_obj (ResponseError ''Technocore response must be a JSON object'') payload)))"

definition request_json :: "env \<Rightarrow> request \<Rightarrow> pairs io" where
  "request_json E r = ibind (exchange (wire E) E r) (\<lambda>resp. lift (payload_of_response resp))"

section \<open>Parsing\<close>

definition parse_nonce :: "json \<Rightarrow> str option res" where
  "parse_nonce v = (case v of
      JNull \<Rightarrow> ret None
    | _ \<Rightarrow> bind (except_raise is_ProtocolValueError
               (ResponseError ''Technocore message has an invalid nonce'') (validate_nonce_value v))
             (\<lambda>n. ret (Some n)))"

definition parse_message :: "json \<Rightarrow> room_message res" where
  "parse_message item =
     bind (as_obj (ResponseError ''Technocore messages must be JSON objects'') item) (\<lambda>kvs.
     bind (int_at_least 1 (ResponseError ''Technocore message has an invalid sequence'') (dget kvs ''seq'')) (\<lambda>s.
     bind (as_str (ResponseError ''Technocore message has invalid sender or text'') (dget kvs ''from'')) (\<lambda>sender.
     bind (as_str (ResponseError ''Technocore message has invalid sender or text'') (dget kvs ''text'')) (\<lambda>txt.
     bind (parse_nonce (dget kvs ''nonce'')) (\<lambda>n.
     ret \<lparr>msg_seq = s, msg_sender = sender, msg_text = txt, msg_nonce = n\<rparr>)))))"

definition parse_first_seq :: "pairs \<Rightarrow> json list \<Rightarrow> int res" where
  "parse_first_seq p raw =
     (let v = dget_default p ''first_seq'' (JInt (if raw = [] then 0 else 1))
      in int_at_least 0 (ResponseError ''Technocore returned an invalid first_seq'')
           (if v = JNull \<and> raw = [] then JInt 0 else v))"

definition parse_snapshot :: "pairs \<Rightarrow> str \<Rightarrow> room_snapshot res" where
  "parse_snapshot p expected_room =
     bind (raise_if (dget p ''room'' \<noteq> JStr expected_room)
       (ResponseError ''Technocore returned a different room'')) (\<lambda>_.
     bind (int_at_least 0 (ResponseError ''Technocore returned an invalid last_seq'') (dget p ''last_seq'')) (\<lambda>lst.
     bind (as_arr (ResponseError ''Technocore returned an invalid messages list'') (dget p ''messages'')) (\<lambda>raw.
     bind (parse_first_seq p raw) (\<lambda>fst_seq.
     bind (int_at_least 0 (ResponseError ''Technocore returned an invalid generation'')
       (dget_default p ''generation'' (JInt 0))) (\<lambda>gen.
     bind (map_res parse_message raw) (\<lambda>ms.
     let sequences = map msg_seq ms in
     bind (raise_if (\<not> sorted sequences \<or> \<not> distinct sequences)
       (ResponseError ''Technocore messages are not strictly ordered'')) (\<lambda>_.
     bind (raise_if (sequences \<noteq> [] \<and> (last sequences > lst \<or> hd sequences < fst_seq))
       (ResponseError ''Technocore message sequences are outside the advertised range'')) (\<lambda>_.
     ret \<lparr>snap_room = expected_room, first_seq = fst_seq, last_seq = lst, messages = ms,
          generation = gen\<rparr>))))))))"

section \<open>Reading a room\<close>

definition read_url :: "lib \<Rightarrow> str \<Rightarrow> str \<Rightarrow> int \<Rightarrow> pyfloat \<Rightarrow> int \<Rightarrow> int \<Rightarrow> str" where
  "read_url L base room since wait limit n =
     base @ lit ''/r/'' @ room @ lit ''?format=json&since='' @ str_of_int since
     @ lit ''&wait='' @ float_repr L wait @ lit ''&limit='' @ str_of_int limit
     @ lit ''&n='' @ str_of_int n"

definition read_room ::
  "env \<Rightarrow> lib \<Rightarrow> client \<Rightarrow> str \<Rightarrow> int \<Rightarrow> pyfloat \<Rightarrow> int \<Rightarrow> int \<Rightarrow> room_snapshot io" where
  "read_room E L c room since wait limit cache_buster =
     ibind (lift (validate_room room)) (\<lambda>valid_room.
     ibind (iraise_if (since < 0) (ProtocolValueError ''since must be zero or greater'')) (\<lambda>_.
     ibind (lift (bounded_float wait 0 10)) (\<lambda>selected_wait.
     ibind (iraise_if (the (float_value (timeout c)) \<le> the (float_value selected_wait))
       (ProtocolValueError ''timeout must be greater than the long-poll wait'')) (\<lambda>_.
     ibind (iraise_if (\<not> (1 \<le> limit \<and> limit \<le> 200))
       (ProtocolValueError ''limit must be between 1 and 200'')) (\<lambda>_.
     ibind (iraise_if (cache_buster < 0)
       (ProtocolValueError ''cache buster must be zero or greater'')) (\<lambda>_.
     ibind (request_json E (ReadRoom (read_url L (base_url c) valid_room since selected_wait limit cache_buster)))
       (\<lambda>payload. lift (parse_snapshot payload valid_room))))))))"

section \<open>The signed write\<close>

definition say_url :: "str \<Rightarrow> str \<Rightarrow> str \<Rightarrow> str \<Rightarrow> str \<Rightarrow> str \<Rightarrow> str res" where
  "say_url base room did sig nonce txt =
     bind (map_res quote [room, did, sig, nonce, txt]) (\<lambda>quoted.
     let (first, _, rest) = partition_at 47 (join 47 quoted)
     in ret (base @ lit ''/r/'' @ first @ lit ''/say-signed/'' @ rest @ lit ''?format=json''))"

definition send_signed_message ::
  "env \<Rightarrow> client \<Rightarrow> str \<Rightarrow> str \<Rightarrow> str \<Rightarrow> str \<Rightarrow> str \<Rightarrow> room_message io" where
  "send_signed_message E c room did sig nonce txt =
     ibind (lift (validate_room room)) (\<lambda>valid_room.
     ibind (lift (validate_did did)) (\<lambda>valid_did.
     ibind (lift (validate_nonce nonce)) (\<lambda>valid_nonce.
     ibind (iraise_if (\<not> match_canonical_signature sig)
       (ProtocolValueError ''signature must use canonical unpadded base64url encoding'')) (\<lambda>_.
     ibind (lift (say_url (base_url c) valid_room valid_did sig valid_nonce txt)) (\<lambda>url.
     ibind (lift (encode_utf8 url)) (\<lambda>encoded.
     ibind (iraise_if (8000 < length encoded)
       (ProtocolValueError ''signed GET URL exceeds the 8000-byte safety limit'')) (\<lambda>_.
     ibind (request_json E (SaySigned url)) (\<lambda>payload.
     ibind (lift (parse_snapshot payload valid_room)) (\<lambda>snapshot.
     ibind (lift (parse_message (dget payload ''posted''))) (\<lambda>posted.
     ibind (iraise_if (msg_sender posted \<noteq> valid_did \<or> msg_text posted \<noteq> txt
         \<or> msg_nonce posted \<noteq> Some valid_nonce
         \<or> msg_seq posted \<notin> set (map msg_seq (messages snapshot)))
       (ResponseError ''Technocore posted record does not match the signed request'')) (\<lambda>_.
     iret posted)))))))))))"

section \<open>What a parsed answer satisfies\<close>

definition message_ok :: "room_message \<Rightarrow> bool" where
  "message_ok m \<longleftrightarrow> 0 < msg_seq m \<and> (case msg_nonce m of None \<Rightarrow> True | Some n \<Rightarrow> match_nonce n)"

definition snapshot_ok :: "str \<Rightarrow> room_snapshot \<Rightarrow> bool" where
  "snapshot_ok room s \<longleftrightarrow> snap_room s = room \<and> 0 \<le> first_seq s \<and> 0 \<le> last_seq s \<and> 0 \<le> generation s
     \<and> sorted_wrt (<) (map msg_seq (messages s))
     \<and> list_all (\<lambda>m. message_ok m \<and> first_seq s \<le> msg_seq m \<and> msg_seq m \<le> last_seq s) (messages s)"

lemma is_signed_iff: "is_signed m \<longleftrightarrow> msg_nonce m \<noteq> None \<and> match_did (msg_sender m)"
  by (auto simp: is_signed_def validate_did_def)

lemma parse_nonce_Inr: "parse_nonce v = Inr n \<Longrightarrow> case n of None \<Rightarrow> True | Some s \<Rightarrow> match_nonce s"
  by (auto simp: parse_nonce_def res_simps validate_nonce_value_def split: json.splits)

lemma parse_message_ok: "parse_message v = Inr m \<Longrightarrow> message_ok m"
  by (force simp: parse_message_def message_ok_def res_simps dest: parse_nonce_Inr)

lemma hd_le_sorted: "sorted_wrt (<) (xs :: int list) \<Longrightarrow> x \<in> set xs \<Longrightarrow> hd xs \<le> x"
  by (cases xs) auto

lemma parse_snapshot_ok: "parse_snapshot p room = Inr s \<Longrightarrow> snapshot_ok room s"
proof -
  assume "parse_snapshot p room = Inr s"
  then obtain raw ms fseq lst gen where f: "0 \<le> lst" "0 \<le> gen" "parse_first_seq p raw = Inr fseq"
      "map_res parse_message raw = Inr ms" "sorted (map msg_seq ms)" "distinct (map msg_seq ms)"
      "ms \<noteq> [] \<Longrightarrow> last (map msg_seq ms) \<le> lst \<and> fseq \<le> hd (map msg_seq ms)"
      and s: "s = \<lparr>snap_room = room, first_seq = fseq, last_seq = lst, messages = ms, generation = gen\<rparr>"
    unfolding parse_snapshot_def Let_def by (auto simp: res_simps not_less)
  have "0 \<le> fseq" using f(3) by (auto simp: parse_first_seq_def Let_def)
  have strict: "sorted_wrt (<) (map msg_seq ms)" by (rule sorted_distinct_imp_strict) fact+
  have "message_ok m" if "m \<in> set ms" for m
    using f(4) that parse_message_ok by (fastforce simp: map_res_eq_Inr list_all2_conv_all_nth in_set_conv_nth)
  moreover have "fseq \<le> msg_seq m \<and> msg_seq m \<le> lst" if m: "m \<in> set ms" for m
  proof -
    have "msg_seq m \<in> set (map msg_seq ms)" using m by simp
    then show ?thesis
      using f(7) m hd_le_sorted [OF strict] sorted_wrt_less_last [OF strict] by force
  qed
  ultimately show "snapshot_ok room s"
    using f strict \<open>0 \<le> fseq\<close> by (simp add: s snapshot_ok_def list_all_iff)
qed

section \<open>What the requests do\<close>

lemma asking_request_json: "asking.grows (request_json E r)"
  unfolding request_json_def by (intro asking.grows_intros asking_exchange)

lemma asking_read_room: "asking.grows (read_room E L c room since wait limit n)"
  unfolding read_room_def by (intro asking.grows_intros asking_request_json)

lemma asking_send: "asking.grows (send_signed_message E c room did sig nonce txt)"
  unfolding send_signed_message_def by (intro asking.grows_intros asking_request_json)

lemma quiet_read_room: "quiet.grows (read_room E L c room since wait limit n)"
  unfolding read_room_def request_json_def by (intro quiet.grows_intros quiet_exchange) simp

lemma read_room_ok:
  "wp (read_room E L c room since wait limit n) (\<lambda>s w'. snapshot_ok room s) (\<lambda>e w'. True) w"
  by (auto simp: wp_def read_room_def ibind_def lift_def parse_snapshot_ok
      split: sum.splits prod.splits)

text \<open>
  The rule for the write. \<open>Q\<close> and \<open>R\<close> are to hold in the worlds it can leave: nothing sent (a
  check failed, or the process died first), or exactly one request with the envelope's URL.
\<close>

definition posted_matches :: "str \<Rightarrow> str \<Rightarrow> str \<Rightarrow> room_message \<Rightarrow> bool" where
  "posted_matches did nonce txt m \<longleftrightarrow>
     msg_sender m = did \<and> msg_text m = txt \<and> msg_nonce m = Some nonce \<and> 0 < msg_seq m"

lemma send_wp:
  assumes unsent: "\<And>e w'. untouched w w' \<Longrightarrow> R e w'"
    and failed: "\<And>url e w'. say_url (base_url c) room did sig nonce txt = Inr url \<Longrightarrow>
      length (utf8 url) \<le> 8000 \<Longrightarrow> sent_one (SaySigned url) w w' \<Longrightarrow> R e w'"
    and ok: "\<And>url m w'. say_url (base_url c) room did sig nonce txt = Inr url \<Longrightarrow>
      length (utf8 url) \<le> 8000 \<Longrightarrow> posted_matches did nonce txt m \<Longrightarrow>
      sent_one (SaySigned url) w w' \<Longrightarrow> Q m w'"
  shows "wp (send_signed_message E c room did sig nonce txt) Q R w"
proof -
  have un: "R e w" for e by (rule unsent) (simp add: untouched_def)
  show ?thesis
    unfolding send_signed_message_def request_json_def
    using assms un
    by (auto simp: wp_simps validate_room_def validate_did_def validate_nonce_def encode_utf8_def
        raise_if_def posted_matches_def message_ok_def
        split: sum.splits if_splits intro!: exchange_wp dest!: parse_message_ok)
qed

section \<open>The URL determines the envelope\<close>

lemma is_bytes_utf8: "is_text s \<Longrightarrow> is_bytes (utf8 s)"
  unfolding utf8_def utf8_char_def is_bytes_def is_text_def
  by (induction s) (auto simp: list_all_iff)

lemma quote_Inr: "quote s = Inr q \<longleftrightarrow> \<not> list_ex is_surrogate s \<and> q = quote_bytes (utf8 s)"
  by (auto simp: quote_def encode_utf8_def)

lemma say_url_Inr:
  assumes "is_text room" and "say_url base room did sig nonce txt = Inr url"
  shows "url = base @ lit ''/r/'' @ quote_bytes (utf8 room) @ lit ''/say-signed/''
     @ join 47 (map (\<lambda>s. quote_bytes (utf8 s)) [did, sig, nonce, txt]) @ lit ''?format=json''"
proof -
  have ns: "47 \<notin> set (quote_bytes (utf8 room))"
    using quote_bytes_no_slash is_bytes_utf8 assms(1) by blast
  then show ?thesis
    using assms(2) by (auto simp: say_url_def res_simps quote_Inr partition_at_stop)
qed

lemma say_url_inj:
  assumes "list_all is_text [room, did, sig, nonce, txt, room', did', sig', nonce', txt']"
    and "say_url base room did sig nonce txt = Inr url"
    and "say_url base room' did' sig' nonce' txt' = Inr url"
  shows "room = room' \<and> did = did' \<and> sig = sig' \<and> nonce = nonce' \<and> txt = txt'"
proof -
  have t: "is_text room" "is_text did" "is_text sig" "is_text nonce" "is_text txt"
    "is_text room'" "is_text did'" "is_text sig'" "is_text nonce'" "is_text txt'"
    using assms(1) by simp_all
  let ?q = "\<lambda>s. quote_bytes (utf8 s)"
  have ns: "list_all (\<lambda>c. c \<noteq> 47) (?q s)" if "is_text s" for s
    using quote_bytes_no_slash [OF is_bytes_utf8 [OF that]] by (auto simp: list_all_iff)
  have inj: "s = s'" if "?q s = ?q s'" "is_text s" "is_text s'" for s s'
    using quote_bytes_inj is_bytes_utf8 utf8_inj that by blast
  have say: "lit ''/say-signed/'' = 47 # lit ''say-signed/''" by (simp add: lit_def)
  have "?q room @ 47 # lit ''say-signed/'' @ join 47 (map ?q [did, sig, nonce, txt]) @ lit ''?format=json''
      = ?q room' @ 47 # lit ''say-signed/'' @ join 47 (map ?q [did', sig', nonce', txt']) @ lit ''?format=json''"
    using say_url_Inr [OF t(1) assms(2)] say_url_Inr [OF t(6) assms(3)] by (simp add: say)
  then have "?q room = ?q room'" and
    "join 47 (map ?q [did, sig, nonce, txt]) = join 47 (map ?q [did', sig', nonce', txt'])"
    by (simp_all add: split_at_sep ns t)
  then show ?thesis using t by (auto simp: split_at_sep ns intro: inj)
qed

end
