(* ===== verification/Capabilities.thy ===== *)
theory Capabilities
  imports State_File
begin

text \<open>
  \<open>capabilities.py\<close>: the per-DID policy file, read afresh for every decision, and the rate
  limiter that reserves a request in the persistent state before it is answered. The parsers
  follow the order of the checks in the source. The lemmas show what a parsed policy
  guarantees, what a repository scope matches, and that a sequence of reservations never admits
  more than the limit in any window.
\<close>

record grant =
  enabled :: bool
  commands :: "str list"
  repositories :: "str list"
  max_requests :: int

type_synonym policy = "(str \<times> grant) list"

definition MAX_POLICY_BYTES :: nat where "MAX_POLICY_BYTES = 64 * 1024"
definition MAX_PRINCIPALS :: nat where "MAX_PRINCIPALS = 128"
definition MAX_REQUESTS_PER_HOUR :: int where "MAX_REQUESTS_PER_HOUR = 1000"
definition WINDOW_SECONDS :: int where "WINDOW_SECONDS = 3600"

definition SUPPORTED_COMMANDS :: "string list" where
  "SUPPORTED_COMMANDS = [''/ping'', ''/status'', ''/about'', ''/help'', ''/pr'']"

definition CAPABILITY_SCHEMA :: string where
  "CAPABILITY_SCHEMA = ''technocore-safe-agent-capabilities-v1''"

section \<open>Grants\<close>

definition scope_matches :: "str \<Rightarrow> str \<Rightarrow> bool" where
  "scope_matches candidate scope =
     (if endswith scope (lit ''/*'')
      then startswith candidate (butlast scope) \<and> count_char candidate 47 = 1
      else candidate = scope)"

definition allows_repository :: "grant \<Rightarrow> str \<Rightarrow> bool" where
  "allows_repository g full_name \<longleftrightarrow> list_ex (scope_matches (casefold full_name)) (repositories g)"

definition grant_for :: "policy \<Rightarrow> str \<Rightarrow> grant option" where
  "grant_for p did = map_of p did"

text \<open>\<open>[A-Za-z0-9](?:[A-Za-z0-9-]{0,37}[A-Za-z0-9])?\<close> and \<open>[A-Za-z0-9_.-]{1,100}\<close>\<close>

definition match_owner :: "str \<Rightarrow> bool" where
  "match_owner s \<longleftrightarrow> s \<noteq> [] \<and> length s \<le> 39 \<and> is_alnum (hd s) \<and> is_alnum (last s)
     \<and> list_all (\<lambda>c. is_alnum c \<or> c = 45) s"

definition match_repository :: "str \<Rightarrow> bool" where
  "match_repository s \<longleftrightarrow> s \<noteq> [] \<and> length s \<le> 100
     \<and> list_all (\<lambda>c. is_alnum c \<or> c \<in> {95, 46, 45}) s"

section \<open>Parsing the policy\<close>

definition parse_commands :: "json \<Rightarrow> str list res" where
  "parse_commands v =
     bind (as_arr (CapabilityError ''capability commands must be an array'') v) (\<lambda>xs.
     foldl (\<lambda>acc x. bind acc (\<lambda>checked.
         bind (as_str (CapabilityError ''capability grant contains an unsupported command'') x) (\<lambda>c.
         bind (raise_if (c \<notin> set (map lit SUPPORTED_COMMANDS))
           (CapabilityError ''capability grant contains an unsupported command'')) (\<lambda>_.
         bind (raise_if (c \<in> set checked)
           (CapabilityError ''capability grant contains a duplicate command'')) (\<lambda>_.
         ret (checked @ [c]))))))
       (ret []) xs)"

definition repository_scope :: "json \<Rightarrow> str res" where
  "repository_scope v =
     bind (as_str (CapabilityError ''capability repository scope is invalid'') v) (\<lambda>s.
     bind (raise_if (s \<noteq> strip s \<or> count_char s 47 \<noteq> 1)
       (CapabilityError ''capability repository scope is invalid'')) (\<lambda>_.
     let (owner, _, repository) = partition_at 47 s in
     bind (raise_if (\<not> match_owner owner)
       (CapabilityError ''capability repository owner is invalid'')) (\<lambda>_.
     bind (raise_if (repository \<noteq> lit ''*'' \<and>
         (\<not> match_repository repository \<or> repository \<in> {lit ''.'', lit ''..''}
          \<or> endswith repository (lit ''.git'')))
       (CapabilityError ''capability repository name is invalid'')) (\<lambda>_.
     ret (casefold (owner @ [47] @ repository))))))"

definition repository_scopes :: "json \<Rightarrow> str list res" where
  "repository_scopes v =
     bind (as_arr (CapabilityError ''capability repositories must be an array'') v) (\<lambda>xs.
     foldl (\<lambda>acc x. bind acc (\<lambda>checked.
         bind (repository_scope x) (\<lambda>scope.
         bind (raise_if (scope \<in> set checked)
           (CapabilityError ''capability grant contains a duplicate repository'')) (\<lambda>_.
         ret (checked @ [scope])))))
       (ret []) xs)"

definition parse_rate :: "json \<Rightarrow> int res" where
  "parse_rate v =
     bind (int_at_least 1 (CapabilityError ''max_requests_per_hour must be between 1 and 1000'') v) (\<lambda>rate.
     bind (raise_if (MAX_REQUESTS_PER_HOUR < rate)
       (CapabilityError ''max_requests_per_hour must be between 1 and 1000'')) (\<lambda>_. ret rate))"

definition parse_grant :: "json \<Rightarrow> grant res" where
  "parse_grant v =
     bind (as_obj (CapabilityError ''capability grant has unexpected fields'') v) (\<lambda>p.
     bind (raise_if (\<not> keys_are p [''enabled'', ''commands'', ''repositories'', ''max_requests_per_hour''])
       (CapabilityError ''capability grant has unexpected fields'')) (\<lambda>_.
     bind (as_bool (CapabilityError ''capability grant enabled flag must be boolean'') (dget p ''enabled'')) (\<lambda>en.
     bind (parse_commands (dget p ''commands'')) (\<lambda>cmds.
     bind (repository_scopes (dget p ''repositories'')) (\<lambda>repos.
     bind (raise_if (en \<and> cmds = [])
       (CapabilityError ''enabled capability grant must contain a command'')) (\<lambda>_.
     bind (raise_if (lit ''/pr'' \<in> set cmds \<and> en \<and> repos = [])
       (CapabilityError ''an enabled /pr grant requires a repository scope'')) (\<lambda>_.
     bind (raise_if (lit ''/pr'' \<notin> set cmds \<and> repos \<noteq> [])
       (CapabilityError ''repository scopes require the /pr command'')) (\<lambda>_.
     bind (parse_rate (dget p ''max_requests_per_hour'')) (\<lambda>rate.
     ret \<lparr>enabled = en, commands = cmds, repositories = repos, max_requests = rate\<rparr>)))))))))"

definition parse_principal :: "str \<times> json \<Rightarrow> (str \<times> grant) res" where
  "parse_principal = (\<lambda>(raw_did, raw_grant).
     bind (except_raise is_ProtocolValueError
       (CapabilityError ''capability policy contains an invalid DID'') (validate_did raw_did)) (\<lambda>did.
     bind (parse_grant raw_grant) (\<lambda>g. ret (did, g))))"

definition parse_policy :: "json \<Rightarrow> policy res" where
  "parse_policy v =
     bind (as_obj (CapabilityError ''capability policy has unexpected top-level fields'') v) (\<lambda>p.
     bind (raise_if (\<not> keys_are p [''schema'', ''principals''])
       (CapabilityError ''capability policy has unexpected top-level fields'')) (\<lambda>_.
     bind (raise_if (dget p ''schema'' \<noteq> JStr (lit CAPABILITY_SCHEMA))
       (CapabilityError ''capability policy has an unsupported schema'')) (\<lambda>_.
     bind (as_obj (CapabilityError ''capability policy principals must be an object'') (dget p ''principals'')) (\<lambda>ps.
     bind (raise_if (MAX_PRINCIPALS < length ps)
       (CapabilityError ''capability policy contains too many principals'')) (\<lambda>_.
     map_res parse_principal ps)))))"

section \<open>Reading the file\<close>

text \<open>
  \<open>_decode_json\<close>: a repeated key is an error of its own; a text that is not UTF-8 or not JSON
  becomes a \<open>CapabilityError\<close>, an integer over the digit limit does not.
\<close>

definition decode_policy :: "doc \<Rightarrow> json res" where
  "decode_policy d = bind (parse_bytes (CapabilityError ''capability policy is not valid JSON'') d)
     (\<lambda>_. case d of Doc v \<Rightarrow>
         loads_strict (CapabilityError ''capability policy contains a duplicate JSON key'') v
       | _ \<Rightarrow> raise AssertionError)"

text \<open>
  The descriptor is opened without following a symbolic link and checked before it is read.
  \<open>read_file\<close> covers the \<open>OSError\<close> of the open and of the reads; both become a \<open>CapabilityError\<close>.
\<close>

definition load_policy :: "env \<Rightarrow> path \<Rightarrow> policy io" where
  "load_policy E p =
     ibind (on_error is_OSError (\<lambda>_. iraise (CapabilityError ''cannot access capability policy''))
       (read_file E p)) (\<lambda>f.
     ibind (iraise_if (\<not> regular f) (CapabilityError ''capability policy must be a regular file'')) (\<lambda>_.
     ibind (iraise_if (group_or_other f)
       (CapabilityError ''capability policy permissions must not allow group or other access'')) (\<lambda>_.
     ibind (iraise_if (\<not> owned f)
       (CapabilityError ''capability policy must be owned by the current user'')) (\<lambda>_.
     ibind (iraise_if (MAX_POLICY_BYTES < body_size (contents f))
       (CapabilityError ''capability policy exceeds the 64 KiB limit'')) (\<lambda>_.
     ibind (lift (decode_policy (body_doc (contents f)))) (\<lambda>payload.
     lift (parse_policy payload)))))))"

section \<open>The rate limiter\<close>

text \<open>\<open>int(raw_now)\<close> for a finite number that is not negative\<close>

definition clock_seconds :: "pyfloat \<Rightarrow> int res" where
  "clock_seconds f = (case float_value f of
      None \<Rightarrow> raise (CapabilityError ''rate-limit clock returned an invalid timestamp'')
    | Some r \<Rightarrow> if r < 0 then raise (CapabilityError ''rate-limit clock returned an invalid timestamp'')
        else ret \<lfloor>r\<rfloor>)"

definition limiter_allow :: "env \<Rightarrow> path \<Rightarrow> bool \<Rightarrow> str \<Rightarrow> int \<Rightarrow> bool io" where
  "limiter_allow E state_path consume did limit =
     ibind (lift (except_raise is_ProtocolValueError
       (CapabilityError ''rate-limit principal DID is invalid'') (validate_did did))) (\<lambda>valid_did.
     ibind (iraise_if (\<not> (1 \<le> limit \<and> limit \<le> MAX_REQUESTS_PER_HOUR))
       (CapabilityError ''rate limit is outside the supported range'')) (\<lambda>_.
     ibind (ask (clock_s E)) (\<lambda>raw_now.
     ibind (lift (clock_seconds raw_now)) (\<lambda>now.
     ibind (iget mem) (\<lambda>s.
     ibind (lift (capability_request_count valid_did now WINDOW_SECONDS s)) (\<lambda>count.
     if limit \<le> int count then iret False
     else ibind (iwhen consume (ibind
            (update_mem_unit (reserve_capability_request valid_did now WINDOW_SECONDS)) (\<lambda>_.
            save_mem E state_path))) (\<lambda>_. iret True)))))))"

section \<open>What a parsed policy guarantees\<close>

definition grant_ok :: "grant \<Rightarrow> bool" where
  "grant_ok g \<longleftrightarrow> set (commands g) \<subseteq> set (map lit SUPPORTED_COMMANDS) \<and> distinct (commands g)
     \<and> distinct (repositories g) \<and> 1 \<le> max_requests g \<and> max_requests g \<le> MAX_REQUESTS_PER_HOUR
     \<and> (enabled g \<longrightarrow> commands g \<noteq> []) \<and> (enabled g \<and> lit ''/pr'' \<in> set (commands g) \<longrightarrow> repositories g \<noteq> [])
     \<and> (repositories g \<noteq> [] \<longrightarrow> lit ''/pr'' \<in> set (commands g))
     \<and> list_all (\<lambda>scope. \<exists>v. repository_scope v = Inr scope) (repositories g)"

text \<open>A loop that checks each item against those already accepted and appends it.\<close>

lemma foldl_collect_Inl [simp]: "foldl (\<lambda>acc x. bind acc (f x)) (Inl e) xs = Inl e"
  by (induction xs) auto

lemma foldl_collect_inv:
  assumes "foldl (\<lambda>acc x. bind acc (\<lambda>ys. f x ys)) (Inr ys0) xs = Inr ys" and "P ys0"
    and "\<And>x ys ys'. P ys \<Longrightarrow> f x ys = Inr ys' \<Longrightarrow> P ys'"
  shows "P ys"
  using assms(1,2)
proof (induction xs arbitrary: ys0)
  case (Cons x xs)
  then show ?case using assms(3) by (cases "f x ys0") auto
qed simp

lemma parse_commands_ok:
  assumes "parse_commands v = Inr cs"
  shows "set cs \<subseteq> set (map lit SUPPORTED_COMMANDS) \<and> distinct cs"
proof -
  obtain xs where f: "foldl (\<lambda>acc x. bind acc (\<lambda>checked.
         bind (as_str (CapabilityError ''capability grant contains an unsupported command'') x) (\<lambda>c.
         bind (raise_if (c \<notin> set (map lit SUPPORTED_COMMANDS))
           (CapabilityError ''capability grant contains an unsupported command'')) (\<lambda>_.
         bind (raise_if (c \<in> set checked)
           (CapabilityError ''capability grant contains a duplicate command'')) (\<lambda>_.
         ret (checked @ [c])))))) (ret []) xs = Inr cs"
    using assms by (auto simp: parse_commands_def res_simps)
  show ?thesis by (rule foldl_collect_inv [OF f]) (auto simp: res_simps)
qed

lemma repository_scopes_ok:
  assumes "repository_scopes v = Inr rs"
  shows "distinct rs \<and> list_all (\<lambda>scope. \<exists>v. repository_scope v = Inr scope) rs"
proof -
  obtain xs where f: "foldl (\<lambda>acc x. bind acc (\<lambda>checked.
         bind (repository_scope x) (\<lambda>scope.
         bind (raise_if (scope \<in> set checked)
           (CapabilityError ''capability grant contains a duplicate repository'')) (\<lambda>_.
         ret (checked @ [scope]))))) (ret []) xs = Inr rs"
    using assms by (auto simp: repository_scopes_def res_simps)
  show ?thesis by (rule foldl_collect_inv [OF f]) (auto simp: res_simps)
qed

lemma parse_grant_ok:
  assumes "parse_grant v = Inr g"
  shows "grant_ok g"
proof -
  from assms obtain p where cs: "parse_commands (dget p ''commands'') = Inr (commands g)"
    and rs: "repository_scopes (dget p ''repositories'') = Inr (repositories g)"
    and rate: "parse_rate (dget p ''max_requests_per_hour'') = Inr (max_requests g)"
    and c: "\<not> (enabled g \<and> commands g = [])"
      "\<not> (lit ''/pr'' \<in> set (commands g) \<and> enabled g \<and> repositories g = [])"
      "\<not> (lit ''/pr'' \<notin> set (commands g) \<and> repositories g \<noteq> [])"
    unfolding parse_grant_def by (elim bind_eq_Inr [THEN iffD1, elim_format] exE conjE) auto
  have "1 \<le> max_requests g \<and> max_requests g \<le> MAX_REQUESTS_PER_HOUR"
    using rate by (auto simp: parse_rate_def res_simps not_less)
  then show ?thesis
    using c parse_commands_ok [OF cs] repository_scopes_ok [OF rs] unfolding grant_ok_def by blast
qed

lemma parse_principal_ok: "parse_principal x = Inr (did, g) \<Longrightarrow> match_did did \<and> grant_ok g"
  by (cases x) (auto simp: parse_principal_def res_simps parse_grant_ok)

lemma parse_policy_ok:
  assumes "parse_policy v = Inr p"
  shows "length p \<le> MAX_PRINCIPALS \<and> list_all (\<lambda>(did, g). match_did did \<and> grant_ok g) p"
proof -
  obtain ps where "length ps \<le> MAX_PRINCIPALS" and l: "list_all2 (\<lambda>x y. parse_principal x = Inr y) ps p"
    using assms unfolding parse_policy_def by (auto simp: res_simps map_res_eq_Inr not_less)
  moreover from l have "list_all (\<lambda>(did, g). match_did did \<and> grant_ok g) p"
    by (induction rule: list_all2_induct) (auto dest: parse_principal_ok)
  ultimately show ?thesis using list_all2_lengthD [OF l] by simp
qed

section \<open>What a scope matches\<close>

lemma fold_char_slash [simp]: "fold_char c = 47 \<longleftrightarrow> c = 47"
  by (auto simp: fold_char_def is_upper_def)

lemma fold_char_star [simp]: "fold_char c = 42 \<longleftrightarrow> c = 42"
  by (auto simp: fold_char_def is_upper_def)

lemma owner_no_slash: "match_owner s \<Longrightarrow> 47 \<notin> set (casefold s)"
  by (auto simp: match_owner_def casefold_def list_all_iff char_class_defs)

lemma repository_chars: "match_repository s \<Longrightarrow> c \<in> set (casefold s) \<Longrightarrow> c \<noteq> 47 \<and> c \<noteq> 42"
  by (fastforce simp: match_repository_def casefold_def list_all_iff char_class_defs)

lemma split_at_slash:
  "47 \<notin> set a \<Longrightarrow> 47 \<notin> set b \<Longrightarrow> a @ 47 # x = b @ (47::nat) # y \<longleftrightarrow> a = b \<and> x = y"
  by (rule split_at_sep) (auto simp: list_all_iff)

lemma scope_matches_name:
  assumes o: "match_owner own" "match_owner own'" and r: "match_repository repo"
    and r': "rest = lit ''*'' \<or> match_repository rest"
  shows "scope_matches (casefold (own @ [47] @ repo)) (casefold (own' @ [47] @ rest)) \<longleftrightarrow>
    casefold own = casefold own' \<and> (rest = lit ''*'' \<or> casefold repo = casefold rest)"
proof -
  let ?o = "casefold own" and ?o' = "casefold own'" and ?r = "casefold repo" and ?s = "casefold rest"
  have split: "casefold (own @ [47] @ repo) = ?o @ 47 # ?r" "casefold (own' @ [47] @ rest) = ?o' @ 47 # ?s"
    by (simp_all add: casefold_def)
  note ns = owner_no_slash [OF o(1)] owner_no_slash [OF o(2)]
  have star: "lit ''*'' = [42]" "lit ''/*'' = [47, 42]" by (simp_all add: lit_def)
  show ?thesis
  proof (cases "rest = lit ''*''")
    case True
    then have s: "?s = [42]" by (simp add: star casefold_def)
    have "47 \<notin> set ?r" using repository_chars [OF r] by blast
    then have c: "count_char (?o @ 47 # ?r) 47 = 1" using ns by (simp add: count_char_def)
    have "startswith (?o @ 47 # ?r) (?o' @ [47]) \<longleftrightarrow> (\<exists>z. ?o @ 47 # ?r = ?o' @ 47 # z)"
      by (simp add: startswith_iff)
    also have "\<dots> \<longleftrightarrow> ?o = ?o'" using ns by (auto simp: split_at_slash)
    finally have "startswith (?o @ 47 # ?r) (butlast (?o' @ 47 # [42])) \<longleftrightarrow> ?o = ?o'"
      by (simp add: butlast_append)
    moreover have "endswith (?o' @ 47 # [42]) (lit ''/*'')" by (simp add: endswith_def star)
    ultimately show ?thesis unfolding split s scope_matches_def using c True by simp
  next
    case False
    with r' have v: "match_repository rest" by blast
    then have "rest \<noteq> []" by (simp add: match_repository_def)
    then have "?s \<noteq> []" by (simp add: casefold_def)
    then have "last ?s \<noteq> 42" using repository_chars [OF v] by (meson last_in_set)
    then have "\<not> endswith (?o' @ 47 # ?s) (lit ''/*'')"
      using \<open>?s \<noteq> []\<close> unfolding endswith_def star
      by (metis append_take_drop_id last.simps last_append last_snoc list.distinct(1))
    then show ?thesis unfolding split scope_matches_def using False ns by (simp add: split_at_slash)
  qed
qed

section \<open>The limiter over time\<close>

text \<open>
  The limiter's decisions for a sequence of requests, each with its principal and the clock it
  read: \<open>limiter_run\<close> returns the requests it admitted. It is the body of \<open>limiter_allow\<close> without
  the file, on whose failure the run would end.
\<close>

fun limiter_run :: "(str \<Rightarrow> int) \<Rightarrow> (str \<times> int) list \<Rightarrow> agent_state \<Rightarrow> (str \<times> int) list res" where
  "limiter_run quota [] s = ret []"
| "limiter_run quota ((did, now) # rs) s =
     bind (capability_request_count did now WINDOW_SECONDS s) (\<lambda>c.
     if quota did \<le> int c then limiter_run quota rs s
     else bind (reserve_capability_request did now WINDOW_SECONDS s) (\<lambda>s'.
          bind (limiter_run quota rs s') (\<lambda>admitted. ret ((did, now) # admitted))))"

definition in_window :: "int \<Rightarrow> int list \<Rightarrow> nat" where
  "in_window t past = length (filter (\<lambda>x. t - WINDOW_SECONDS < x \<and> x \<le> t) past)"

definition times_of :: "str \<Rightarrow> (str \<times> int) list \<Rightarrow> int list" where
  "times_of did rs = map snd (filter (\<lambda>(d, x). d = did) rs)"

lemma in_window_snoc:
  assumes "\<forall>t. in_window t past \<le> n" and "\<forall>x \<in> set past. x \<le> now" and "in_window now past < n"
  shows "in_window t (past @ [now]) \<le> n"
proof (cases "now \<le> t")
  case True
  have "filter (\<lambda>x. t - WINDOW_SECONDS < x \<and> x \<le> t) past
      = filter (\<lambda>x. t - WINDOW_SECONDS < x) (filter (\<lambda>x. now - WINDOW_SECONDS < x \<and> x \<le> now) past)"
    using assms(2) True by (auto simp: WINDOW_SECONDS_def intro!: filter_cong)
  then have "in_window t past \<le> in_window now past" unfolding in_window_def by (metis length_filter_le)
  with assms(3) show ?thesis by (simp add: in_window_def)
next
  case False
  with assms(1) show ?thesis by (simp add: in_window_def)
qed

text \<open>The invariant: what the state remembers of a principal is the recent part of its past.\<close>

definition remembers :: "agent_state \<Rightarrow> int \<Rightarrow> str \<Rightarrow> int list \<Rightarrow> bool" where
  "remembers s now did past \<longleftrightarrow> (\<forall>x \<in> set past \<union> set (history s did). x \<le> now)
     \<and> filter (\<lambda>x. now - WINDOW_SECONDS < x) (history s did) = filter (\<lambda>x. now - WINDOW_SECONDS < x) past"

lemma remembers_later:
  assumes "remembers s now did past" and "now \<le> now'"
  shows "remembers s now' did past"
proof -
  have f: "filter (\<lambda>x. now' - WINDOW_SECONDS < x) h
      = filter (\<lambda>x. now' - WINDOW_SECONDS < x) (filter (\<lambda>x. now - WINDOW_SECONDS < x) h)" for h :: "int list"
    using assms(2) by (auto intro!: filter_cong)
  have "\<forall>x \<in> set past \<union> set (history s did). x \<le> now'"
    using assms unfolding remembers_def by (metis order_trans)
  moreover have "filter (\<lambda>x. now' - WINDOW_SECONDS < x) (history s did)
      = filter (\<lambda>x. now' - WINDOW_SECONDS < x) past"
    using assms(1) unfolding f [of "history s did"] f [of past] remembers_def by argo
  ultimately show ?thesis by (simp add: remembers_def)
qed

lemma effective_now_current: "\<forall>x \<in> set h. x \<le> now \<Longrightarrow> effective_now h now = now"
  using last_in_set [of h] by (auto simp: effective_now_def max_def intro!: antisym)

lemma remembers_count:
  assumes "remembers s now did past" and "capability_request_count did now WINDOW_SECONDS s = Inr c"
  shows "c = in_window now past"
proof -
  have "filter (\<lambda>x. now - WINDOW_SECONDS < x \<and> x \<le> now) past = filter (\<lambda>x. now - WINDOW_SECONDS < x) past"
    using assms(1) by (auto simp: remembers_def intro!: filter_cong)
  then show ?thesis
    using assms effective_now_current [of "history s did" now]
    by (auto simp: capability_request_count_def res_simps Let_def in_window_def remembers_def)
qed

lemma remembers_reserve:
  assumes ok: "state_ok s" and r: "reserve_capability_request d now WINDOW_SECONDS s = Inr s'"
    and rem: "\<And>did. remembers s now did (past did)"
  shows "remembers s' now did (if did = d then past did @ [now] else past did)"
proof -
  have eff: "effective_now (history s d) now = now"
    using rem [of d] by (intro effective_now_current) (auto simp: remembers_def)
  have pos: "now - WINDOW_SECONDS < now" by (simp add: WINDOW_SECONDS_def)
  note h = reserve_history [OF ok r, unfolded eff]
  show ?thesis
    using rem [of did] rem [of d] h(1) h(2) [of did] pos
    by (cases "did = d") (auto simp: remembers_def filter_filter conj_commute)
qed

lemma limiter_run_bound:
  assumes "limiter_run quota rs s = Inr admitted" and "state_ok s"
    and "list_all (\<lambda>(d, x). match_did d \<and> now \<le> x) rs" and "sorted (map snd rs)"
    and "\<And>did. remembers s now did (past did)"
    and "\<And>did t. in_window t (past did) \<le> nat (quota did)"
  shows "in_window t (past did @ times_of did admitted) \<le> nat (quota did)"
  using assms
proof (induction rs arbitrary: s now past admitted)
  case Nil
  then show ?case by (simp add: times_of_def)
next
  case (Cons r rs)
  obtain d x where r: "r = (d, x)" by (cases r)
  from Cons.prems obtain c where c: "capability_request_count d x WINDOW_SECONDS s = Inr c"
    by (auto simp: r res_simps)
  have d: "match_did d" and x: "now \<le> x" and rs: "list_all (\<lambda>(d, y). match_did d \<and> x \<le> y) rs"
    "sorted (map snd rs)"
    using Cons.prems(3,4) by (auto simp: r list_all_iff)
  have rem: "remembers s x did (past did)" for did
    using remembers_later [OF Cons.prems(5) x] .
  show ?case
  proof (cases "quota d \<le> int c")
    case True
    with c Cons.prems(1) have "limiter_run quota rs s = Inr admitted" by (simp add: r)
    from Cons.IH [OF this Cons.prems(2) rs rem Cons.prems(6)] show ?thesis .
  next
    case False
    with c Cons.prems(1) obtain s' adm where s': "reserve_capability_request d x WINDOW_SECONDS s = Inr s'"
      and adm: "limiter_run quota rs s' = Inr adm" "admitted = (d, x) # adm"
      by (auto simp: r res_simps)
    let ?past = "\<lambda>did. if did = d then past did @ [x] else past did"
    have small: "in_window x (past d) < nat (quota d)"
      using remembers_count [OF rem c] False by linarith
    have le: "\<forall>y \<in> set (past d). y \<le> x" using rem [of d] by (simp add: remembers_def)
    have bound: "in_window t (?past did) \<le> nat (quota did)" for t did
      using in_window_snoc [OF _ le small] Cons.prems(6) by simp
    have "in_window t (?past did @ times_of did adm) \<le> nat (quota did)"
      by (rule Cons.IH [OF adm(1) state_ok_reserve [OF Cons.prems(2) d s'] rs
            remembers_reserve [OF Cons.prems(2) s' rem] bound])
    then show ?thesis by (simp add: adm(2) times_of_def split: if_splits)
  qed
qed

end
