(* ===== verification/Timestamp.thy ===== *)
theory Timestamp
  imports Runtime
begin

text \<open>
  The timestamps of receipts and audit records: what \<open>strftime("%Y-%m-%dT%H:%M:%SZ")\<close> prints of a
  UTC time, and the two ways the program checks such a text. Both start from the same regular
  expression, whose \<open>\d\<close> accepts every Unicode decimal digit; \<open>datetime.fromisoformat\<close> then
  insists on ASCII digits, while \<open>datetime.strptime\<close> only does so where its own expressions spell
  the digits out.
\<close>

definition leap :: "nat \<Rightarrow> bool" where
  "leap y \<longleftrightarrow> y mod 4 = 0 \<and> (y mod 100 \<noteq> 0 \<or> y mod 400 = 0)"

definition days_in_month :: "nat \<Rightarrow> nat \<Rightarrow> nat" where
  "days_in_month y m = (if m = 2 then if leap y then 29 else 28
     else if m \<in> {4, 6, 9, 11} then 30 else 31)"

definition valid_time :: "utc_time \<Rightarrow> bool" where
  "valid_time t \<longleftrightarrow> 1 \<le> year t \<and> year t \<le> 9999 \<and> 1 \<le> month t \<and> month t \<le> 12 \<and> 1 \<le> day t
     \<and> day t \<le> days_in_month (year t) (month t) \<and> hour t \<le> 23 \<and> minute t \<le> 59 \<and> sec t \<le> 59"

definition two_digits :: "nat \<Rightarrow> str" where
  "two_digits n = [48 + n div 10 mod 10, 48 + n mod 10]"

definition four_digits :: "nat \<Rightarrow> str" where
  "four_digits n = two_digits (n div 100) @ two_digits (n mod 100)"

definition format_timestamp :: "utc_time \<Rightarrow> str" where
  "format_timestamp t = four_digits (year t) @ [45] @ two_digits (month t) @ [45] @ two_digits (day t)
     @ [84] @ two_digits (hour t) @ [58] @ two_digits (minute t) @ [58] @ two_digits (sec t) @ [90]"

text \<open>The positions of the digits in \<open>YYYY-MM-DDTHH:MM:SSZ\<close>\<close>

definition digit_positions :: "nat list" where
  "digit_positions = [0, 1, 2, 3, 5, 6, 8, 9, 11, 12, 14, 15, 17, 18]"

definition match_timestamp :: "str \<Rightarrow> bool" where   \<comment> \<open>\<open>\d{4}-\d{2}-\d{2}T\d{2}:\d{2}:\d{2}Z\<close>\<close>
  "match_timestamp s \<longleftrightarrow> length s = 20
     \<and> s ! 4 = 45 \<and> s ! 7 = 45 \<and> s ! 10 = 84 \<and> s ! 13 = 58 \<and> s ! 16 = 58 \<and> s ! 19 = 90
     \<and> list_all (\<lambda>i. is_decimal (s ! i)) digit_positions"

definition digit_at :: "str \<Rightarrow> nat \<Rightarrow> nat" where
  "digit_at s i = the (digit_value (s ! i))"

definition two_at :: "str \<Rightarrow> nat \<Rightarrow> nat" where
  "two_at s i = 10 * digit_at s i + digit_at s (Suc i)"

definition time_of_text :: "str \<Rightarrow> utc_time" where
  "time_of_text s = \<lparr>year = 100 * two_at s 0 + two_at s 2, month = two_at s 5, day = two_at s 8,
     hour = two_at s 11, minute = two_at s 14, sec = two_at s 17\<rparr>"

text \<open>\<open>datetime.fromisoformat(value.removesuffix("Z") + "+00:00")\<close> does not raise\<close>

definition iso_accepts :: "str \<Rightarrow> bool" where
  "iso_accepts s \<longleftrightarrow> list_all (\<lambda>i. is_digit (s ! i)) digit_positions \<and> valid_time (time_of_text s)"

text \<open>
  \<open>datetime.strptime(value, "%Y-%m-%dT%H:%M:%SZ")\<close> does not raise: the expressions of \<open>%m\<close>, \<open>%d\<close>,
  \<open>%H\<close>, \<open>%M\<close>, \<open>%S\<close> name the first digit (and some second digits) in ASCII.
\<close>

definition strptime_accepts :: "str \<Rightarrow> bool" where
  "strptime_accepts s \<longleftrightarrow> valid_time (time_of_text s)
     \<and> list_all (\<lambda>i. is_digit (s ! i)) [5, 6, 8, 11, 14, 17]
     \<and> (two_at s 8 \<in> {10..29} \<or> is_digit (s ! 9))
     \<and> (two_at s 11 \<le> 19 \<or> is_digit (s ! 12))"

lemma digit_value_ascii: "is_digit c \<Longrightarrow> digit_value c = Some (c - 48)"
proof -
  assume "is_digit c"
  then have c: "48 \<le> c" "c \<le> 57" by (simp_all add: is_digit_def)
  then show ?thesis by (auto simp: digit_value_def decimal_zeros_def)
qed

lemma two_digits_simps:
  "n < 100 \<Longrightarrow> 10 * (n div 10 mod 10) + n mod 10 = (n::nat)"
proof -
  assume "n < 100"
  then have "n div 10 < 10" by (simp add: less_mult_imp_div_less)
  then show ?thesis by (simp add: mult_div_mod_eq)
qed

lemma mod_10_le [simp]: "n mod 10 \<le> (9::nat)"
  using mod_less_divisor [of 10 n] by linarith

lemma two_at_digits:
  assumes "s ! i = 48 + n div 10 mod 10" and "s ! Suc i = 48 + n mod 10" and "n < 100"
  shows "two_at s i = n"
proof -
  have "is_digit (48 + k mod 10)" for k by (simp add: is_digit_def)
  then have "digit_at s i = n div 10 mod 10" "digit_at s (Suc i) = n mod 10"
    using assms(1,2) by (simp_all add: digit_at_def digit_value_ascii)
  then show ?thesis using assms(3) by (simp add: two_at_def two_digits_simps)
qed

lemma format_timestamp_list:
  "format_timestamp t = [48 + year t div 100 div 10 mod 10, 48 + year t div 100 mod 10,
     48 + year t mod 100 div 10 mod 10, 48 + year t mod 100 mod 10, 45,
     48 + month t div 10 mod 10, 48 + month t mod 10, 45, 48 + day t div 10 mod 10, 48 + day t mod 10, 84,
     48 + hour t div 10 mod 10, 48 + hour t mod 10, 58, 48 + minute t div 10 mod 10, 48 + minute t mod 10,
     58, 48 + sec t div 10 mod 10, 48 + sec t mod 10, 90]"
  by (simp add: format_timestamp_def four_digits_def two_digits_def del: mod_mod_cancel)

lemma time_of_format:
  assumes "valid_time t"
  shows "time_of_text (format_timestamp t) = t"
proof -
  let ?s = "format_timestamp t"
  have "days_in_month (year t) (month t) \<le> 31" by (simp add: days_in_month_def)
  then have b: "year t div 100 < 100" "year t mod 100 < 100" "month t < 100" "day t < 100" "hour t < 100"
    "minute t < 100" "sec t < 100"
    using assms by (auto simp: valid_time_def)
  have "two_at ?s 0 = year t div 100" "two_at ?s 2 = year t mod 100" "two_at ?s 5 = month t"
    "two_at ?s 8 = day t" "two_at ?s 11 = hour t" "two_at ?s 14 = minute t" "two_at ?s 17 = sec t"
    using b by - (rule two_at_digits, simp_all add: format_timestamp_list)+
  then show ?thesis by (simp add: time_of_text_def)
qed

lemma format_timestamp_accepted:
  assumes "valid_time t"
  shows "match_timestamp (format_timestamp t)" and "iso_accepts (format_timestamp t)"
    and "strptime_accepts (format_timestamp t)"
proof -
  let ?s = "format_timestamp t"
  have d: "list_all (\<lambda>i. is_digit (?s ! i)) digit_positions"
    unfolding format_timestamp_list by (simp add: digit_positions_def is_digit_def)
  then have dec: "list_all (\<lambda>i. is_decimal (?s ! i)) digit_positions"
    by (auto simp: list_all_iff is_decimal_def digit_value_ascii)
  show "iso_accepts ?s" using d assms by (simp add: iso_accepts_def time_of_format)
  show "match_timestamp ?s" using dec unfolding match_timestamp_def format_timestamp_list by simp
  show "strptime_accepts ?s" using d assms
    by (simp add: strptime_accepts_def digit_positions_def time_of_format)
qed

end
