(* ===== verification/Receipt.thy ===== *)
theory Receipt
  imports Protocol Capabilities Timestamp
begin

text \<open>
  \<open>receipt.py\<close>: the pull-request URL, the three GitHub responses and the CI state derived from
  them, and the signed receipt: how it is built, rendered, verified and issued under the
  service's cooldown. A received value is a \<open>json\<close> until a check has fixed its type; a set lookup
  of an unhashable value raises \<open>TypeError\<close> as it does in Python.
\<close>

abbreviation gh_error :: "string \<Rightarrow> exc" where
  "gh_error code \<equiv> GitHubReceiptError code None None"

section \<open>Pull-request URLs\<close>

record pr_ref =
  ref_owner :: str
  ref_repository :: str
  ref_number :: nat

definition full_name :: "pr_ref \<Rightarrow> str" where
  "full_name r = ref_owner r @ [47] @ ref_repository r"

definition ref_url :: "pr_ref \<Rightarrow> str" where
  "ref_url r = lit ''https://github.com/'' @ full_name r @ lit ''/pull/'' @ str_of_nat (ref_number r)"

definition valid_repository :: "str \<Rightarrow> bool" where
  "valid_repository v \<longleftrightarrow> match_repository v \<and> v \<notin> {lit ''.'', lit ''..''} \<and> \<not> endswith v (lit ''.git'')"

text \<open>\<open>/([^/]+)/([^/]+)/pull/([1-9][0-9]*)\<close>\<close>

definition match_pull_path :: "str \<Rightarrow> (str \<times> str \<times> str) option" where
  "match_pull_path p = (case split_all 47 p of
      [e, own, repo, pull, n] \<Rightarrow>
        if e = [] \<and> own \<noteq> [] \<and> repo \<noteq> [] \<and> pull = lit ''pull'' \<and> n \<noteq> [] \<and> list_all is_digit n \<and> hd n \<noteq> 48
        then Some (own, repo, n) else None
    | _ \<Rightarrow> None)"

text \<open>\<open>int(digits)\<close>: the interpreter refuses more than 4300 of them\<close>

definition int_of_digits :: "str \<Rightarrow> nat res" where
  "int_of_digits s = (if 4300 < length s
     then raise (ValueError ''Exceeds the limit for integer string conversion'') else ret (nat_of_str s))"

definition parse_github_pull_request_url :: "lib \<Rightarrow> json \<Rightarrow> pr_ref res" where
  "parse_github_pull_request_url L v =
     bind (as_str (gh_error ''invalid_pull_request_url'') v) (\<lambda>url.
     bind (raise_if (url \<noteq> strip url) (gh_error ''invalid_pull_request_url'')) (\<lambda>_.
     bind (urlsplit L url) (\<lambda>parsed.
     bind (raise_if (scheme parsed \<noteq> lit ''https'' \<or> netloc parsed \<noteq> lit ''github.com''
         \<or> query parsed \<noteq> [] \<or> fragment parsed \<noteq> []) (gh_error ''invalid_pull_request_url'')) (\<lambda>_.
     bind (some_or (gh_error ''invalid_pull_request_url'') (match_pull_path (upath parsed)))
       (\<lambda>(own, repo, number_text).
     bind (raise_if (\<not> match_owner own \<or> \<not> valid_repository repo)
       (gh_error ''invalid_pull_request_url'')) (\<lambda>_.
     bind (int_of_digits number_text) (\<lambda>number.
     bind (raise_if (2147483647 < number) (gh_error ''invalid_pull_request_url'')) (\<lambda>_.
     ret \<lparr>ref_owner = own, ref_repository = repo, ref_number = number\<rparr>))))))))"

section \<open>Checked values\<close>

abbreviation bad_response :: exc where
  "bad_response \<equiv> gh_error ''invalid_github_response''"

definition parse_repository :: "json \<Rightarrow> str res" where
  "parse_repository v =
     bind (as_str bad_response v) (\<lambda>s.
     bind (raise_if (count_char s 47 \<noteq> 1) bad_response) (\<lambda>_.
     let (own, _, repo) = partition_at 47 s in
     bind (raise_if (\<not> match_owner own \<or> \<not> valid_repository repo) bad_response) (\<lambda>_. ret s)))"

definition match_sha :: "str \<Rightarrow> bool" where   \<comment> \<open>\<open>[0-9a-f]{40}\<close>\<close>
  "match_sha s \<longleftrightarrow> length s = 40 \<and> list_all is_hex_lower s"

definition require_sha :: "json \<Rightarrow> str res" where
  "require_sha v =
     bind (as_str bad_response v) (\<lambda>s. bind (raise_if (\<not> match_sha s) bad_response) (\<lambda>_. ret s))"

definition require_count :: "json \<Rightarrow> int res" where
  "require_count v = int_at_least 0 bad_response v"

definition require_timestamp :: "json \<Rightarrow> str res" where
  "require_timestamp v =
     bind (as_str bad_response v) (\<lambda>s.
     bind (raise_if (\<not> match_timestamp s \<or> \<not> iso_accepts s) bad_response) (\<lambda>_. ret s))"

definition match_login :: "str \<Rightarrow> bool" where
  "match_login s \<longleftrightarrow> s \<noteq> [] \<and> length s \<le> 100 \<and> is_alnum (hd s) \<and> is_alnum (last s)
     \<and> list_all (\<lambda>c. is_alnum c \<or> c = 45) s"

text \<open>\<open>[A-Za-z0-9](?:[A-Za-z0-9-]{0,98}[A-Za-z0-9])?(?:\[bot\])?\<close>\<close>

definition match_author :: "str \<Rightarrow> bool" where
  "match_author s \<longleftrightarrow> match_login s
     \<or> endswith s (lit ''[bot]'') \<and> match_login (take (length s - 5) s)"

definition require_author :: "exc \<Rightarrow> json \<Rightarrow> str res" where
  "require_author e v = bind (as_str e v) (\<lambda>s. bind (raise_if (\<not> match_author s) e) (\<lambda>_. ret s))"

text \<open>\<open>if x not in S: raise e\<close> on a set of strings, and the string it then is\<close>

definition require_member :: "exc \<Rightarrow> string list \<Rightarrow> json \<Rightarrow> str res" where
  "require_member e S v =
     bind (in_str_set v S) (\<lambda>found. bind (raise_if (\<not> found) e) (\<lambda>_. as_str e v))"

section \<open>The three responses\<close>

record pull_details =
  pd_repository :: str
  pd_number :: int
  pd_url :: str
  pd_author :: str
  pd_state :: str
  pd_merged :: bool
  pd_draft :: bool
  pd_head_sha :: str
  pd_base_sha :: str
  pd_merge_commit_sha :: "str option"
  pd_source_updated_at :: str

definition optional_sha :: "json \<Rightarrow> str option res" where
  "optional_sha v = bind (require_sha v) (\<lambda>s. ret (Some s))"

definition parse_pull :: "lib \<Rightarrow> pairs \<Rightarrow> pr_ref \<Rightarrow> pull_details res" where
  "parse_pull L p ref =
     bind (require_count (dget p ''number'')) (\<lambda>number.
     bind (raise_if (number \<noteq> int (ref_number ref) \<or> number = 0) bad_response) (\<lambda>_.
     bind (as_obj bad_response (dget p ''base'')) (\<lambda>base.
     bind (as_obj bad_response (dget base ''repo'')) (\<lambda>base_repo.
     bind (raise_if (dget base_repo ''private'' \<noteq> JBool False)
       (gh_error ''private_repository_rejected'')) (\<lambda>_.
     bind (parse_repository (dget base_repo ''full_name'')) (\<lambda>repository.
     bind (raise_if (casefold repository \<noteq> casefold (full_name ref)) bad_response) (\<lambda>_.
     bind (parse_github_pull_request_url L (JStr (lit ''https://github.com/'' @ repository
       @ lit ''/pull/'' @ str_of_int number))) (\<lambda>canonical.
     bind (parse_github_pull_request_url L (dget p ''html_url'')) (\<lambda>html.
     bind (raise_if (casefold (full_name html) \<noteq> casefold (full_name canonical)
         \<or> int (ref_number html) \<noteq> number) bad_response) (\<lambda>_.
     bind (as_obj bad_response (dget p ''user'')) (\<lambda>user.
     bind (require_author bad_response (dget user ''login'')) (\<lambda>author.
     bind (require_member bad_response [''open'', ''closed''] (dget p ''state'')) (\<lambda>state.
     bind (as_bool bad_response (dget p ''merged'')) (\<lambda>merged.
     bind (as_bool bad_response (dget p ''draft'')) (\<lambda>draft.
     bind (as_obj bad_response (dget p ''head'')) (\<lambda>head.
     bind (require_sha (dget head ''sha'')) (\<lambda>head_sha.
     bind (require_sha (dget base ''sha'')) (\<lambda>base_sha.
     bind (if merged \<and> dget p ''merge_commit_sha'' \<noteq> JNull
           then optional_sha (dget p ''merge_commit_sha'') else ret None) (\<lambda>merge_sha.
     bind (require_timestamp (dget p ''updated_at'')) (\<lambda>updated.
     ret \<lparr>pd_repository = repository, pd_number = number, pd_url = ref_url canonical,
       pd_author = author, pd_state = state, pd_merged = merged, pd_draft = draft,
       pd_head_sha = head_sha, pd_base_sha = base_sha, pd_merge_commit_sha = merge_sha,
       pd_source_updated_at = updated\<rparr>))))))))))))))))))))"

record check_summary =
  ck_observed :: nat
  ck_total :: int
  ck_complete :: bool
  ck_failure :: bool
  ck_pending :: bool

definition CHECK_STATUSES :: "string list" where
  "CHECK_STATUSES = [''queued'', ''in_progress'', ''requested'', ''waiting'', ''pending'', ''completed'']"

definition CHECK_FAILURES :: "string list" where
  "CHECK_FAILURES = [''action_required'', ''cancelled'', ''failure'', ''stale'', ''startup_failure'', ''timed_out'']"

definition CHECK_NON_FAILURES :: "string list" where
  "CHECK_NON_FAILURES = [''neutral'', ''skipped'', ''success'']"

datatype run_kind = RunPending | RunFailed | RunPassed

definition classify_run :: "str \<Rightarrow> json \<Rightarrow> run_kind res" where
  "classify_run expected_sha raw =
     bind (as_obj bad_response raw) (\<lambda>run.
     bind (require_sha (dget run ''head_sha'')) (\<lambda>sha.
     bind (raise_if (sha \<noteq> expected_sha) bad_response) (\<lambda>_.
     bind (require_member bad_response CHECK_STATUSES (dget run ''status'')) (\<lambda>status.
     if status \<noteq> lit ''completed'' then ret RunPending
     else bind (in_str_set (dget run ''conclusion'') CHECK_FAILURES) (\<lambda>failed.
          if failed then ret RunFailed
          else bind (in_str_set (dget run ''conclusion'') CHECK_NON_FAILURES) (\<lambda>fine.
               bind (raise_if (\<not> fine) bad_response) (\<lambda>_. ret RunPassed)))))))"

definition parse_checks :: "pairs \<Rightarrow> str \<Rightarrow> check_summary res" where
  "parse_checks p expected_sha =
     bind (require_count (dget p ''total_count'')) (\<lambda>total.
     bind (as_arr bad_response (dget p ''check_runs'')) (\<lambda>runs.
     bind (raise_if (int (length runs) > total \<or> length runs > 100) bad_response) (\<lambda>_.
     bind (map_res (classify_run expected_sha) runs) (\<lambda>kinds.
     ret \<lparr>ck_observed = length runs, ck_total = total, ck_complete = (int (length runs) = total),
       ck_failure = (RunFailed \<in> set kinds), ck_pending = (RunPending \<in> set kinds)\<rparr>))))"

record status_summary =
  st_observed :: nat
  st_total :: int
  st_complete :: bool
  st_state :: str

definition COMBINED_STATUS_STATES :: "string list" where
  "COMBINED_STATUS_STATES = [''error'', ''failure'', ''pending'', ''success'']"

definition parse_statuses :: "pairs \<Rightarrow> str \<Rightarrow> status_summary res" where
  "parse_statuses p expected_sha =
     bind (require_sha (dget p ''sha'')) (\<lambda>sha.
     bind (raise_if (sha \<noteq> expected_sha) bad_response) (\<lambda>_.
     bind (require_member bad_response COMBINED_STATUS_STATES (dget p ''state'')) (\<lambda>state.
     bind (require_count (dget p ''total_count'')) (\<lambda>total.
     bind (as_arr bad_response (dget p ''statuses'')) (\<lambda>statuses.
     bind (raise_if (int (length statuses) > total \<or> length statuses > 100) bad_response) (\<lambda>_.
     ret \<lparr>st_observed = length statuses, st_total = total, st_complete = (int (length statuses) = total),
       st_state = state\<rparr>))))))"

section \<open>Evidence\<close>

record evidence =
  ev_details :: pull_details
  ev_ci :: str
  ev_complete :: bool
  ev_checks_observed :: int
  ev_checks_total :: int
  ev_statuses_observed :: int
  ev_statuses_total :: int

definition ci_state :: "check_summary \<Rightarrow> status_summary \<Rightarrow> str" where
  "ci_state checks statuses =
     (if ck_failure checks \<or> st_state statuses \<in> {lit ''error'', lit ''failure''} then lit ''failure''
      else if \<not> (ck_complete checks \<and> st_complete statuses) then lit ''partial''
      else if ck_total checks + st_total statuses = 0 then lit ''no_signals''
      else if ck_pending checks \<or> st_state statuses = lit ''pending'' then lit ''pending''
      else lit ''success'')"

definition MAX_GITHUB_RESPONSE_BYTES :: nat where
  "MAX_GITHUB_RESPONSE_BYTES = 2 * 1024 * 1024"

text \<open>\<open>"//" in path\<close>\<close>

fun has_double_slash :: "str \<Rightarrow> bool" where
  "has_double_slash (a # b # s) = (a = 47 \<and> b = 47 \<or> has_double_slash (b # s))"
| "has_double_slash _ = False"

definition object_of_reply :: "github_response \<Rightarrow> pairs res" where
  "object_of_reply r = (case r of
      GitHubFailure \<Rightarrow> raise (gh_error ''github_transport_error'')
    | GitHubReply status header exhausted n d \<Rightarrow>
        bind (raise_if (MAX_GITHUB_RESPONSE_BYTES < n) (gh_error ''github_response_too_large'')) (\<lambda>_.
        if status \<noteq> 200 then
          raise (GitHubReceiptError
            (if status = 429 \<or> status = 403 \<and> exhausted then ''github_rate_limited'' else ''github_http_'' @ map char_of (str_of_int status))
            (Some status) (retry_after_of header))
        else bind (parse_bytes bad_response d) (\<lambda>payload. as_obj bad_response payload)))"

definition request_object :: "env \<Rightarrow> str \<Rightarrow> pairs io" where
  "request_object E path =
     ibind (iraise_if (\<not> startswith path (lit ''/repos/'') \<or> has_double_slash path)
       (gh_error ''unsafe_github_path'')) (\<lambda>_.
     ibind (exchange (github E) E (GitHubGet path)) (\<lambda>reply. lift (object_of_reply reply)))"

definition inspect :: "env \<Rightarrow> lib \<Rightarrow> pr_ref \<Rightarrow> evidence io" where
  "inspect E L ref =
     (let base_path = lit ''/repos/'' @ ref_owner ref @ [47] @ ref_repository ref in
     ibind (request_object E (base_path @ lit ''/pulls/'' @ str_of_nat (ref_number ref))) (\<lambda>pull.
     ibind (lift (parse_pull L pull ref)) (\<lambda>details.
     ibind (request_object E (base_path @ lit ''/commits/'' @ pd_head_sha details
       @ lit ''/check-runs?per_page=100&filter=latest'')) (\<lambda>raw_checks.
     ibind (lift (parse_checks raw_checks (pd_head_sha details))) (\<lambda>checks.
     ibind (request_object E (base_path @ lit ''/commits/'' @ pd_head_sha details
       @ lit ''/status?per_page=100'')) (\<lambda>raw_statuses.
     ibind (lift (parse_statuses raw_statuses (pd_head_sha details))) (\<lambda>statuses.
     iret \<lparr>ev_details = details, ev_ci = ci_state checks statuses,
       ev_complete = (ck_complete checks \<and> st_complete statuses),
       ev_checks_observed = int (ck_observed checks), ev_checks_total = ck_total checks,
       ev_statuses_observed = int (st_observed statuses), ev_statuses_total = st_total statuses\<rparr>)))))))"

section \<open>Validating a receipt\<close>

definition RECEIPT_SCHEMA :: string where "RECEIPT_SCHEMA = ''technocore-github-pr-receipt-v1''"
definition RECEIPT_SOURCE :: string where "RECEIPT_SOURCE = ''github-public-rest''"
definition GITHUB_API_VERSION :: string where "GITHUB_API_VERSION = ''2026-03-10''"

abbreviation bad_receipt :: exc where
  "bad_receipt \<equiv> gh_error ''invalid_receipt''"

definition CI_STATES :: "string list" where
  "CI_STATES = [''failure'', ''no_signals'', ''partial'', ''pending'', ''success'']"

definition RECEIPT_PAYLOAD_KEYS :: "string list" where
  "RECEIPT_PAYLOAD_KEYS = [''schema'', ''issuer'', ''source'', ''api_version'', ''repository'', ''pull_number'',
     ''url'', ''author'', ''state'', ''merged'', ''draft'', ''head_sha'', ''base_sha'', ''merge_commit_sha'', ''ci'',
     ''ci_data_complete'', ''checks_observed'', ''checks_total'', ''statuses_observed'', ''statuses_total'',
     ''source_updated_at'', ''observed_at'']"

definition validate_receipt_header :: "pairs \<Rightarrow> unit res" where
  "validate_receipt_header p =
     bind (raise_if (dget p ''schema'' \<noteq> JStr (lit RECEIPT_SCHEMA)
         \<or> dget p ''source'' \<noteq> JStr (lit RECEIPT_SOURCE)
         \<or> dget p ''api_version'' \<noteq> JStr (lit GITHUB_API_VERSION)) bad_receipt) (\<lambda>_.
     bind (except_raise is_ProtocolValueError bad_receipt (validate_did_value (dget p ''issuer''))) (\<lambda>_.
     ret ()))"

definition validate_receipt_subject :: "lib \<Rightarrow> pairs \<Rightarrow> unit res" where
  "validate_receipt_subject L p =
     bind (parse_repository (dget p ''repository'')) (\<lambda>repository.
     bind (require_count (dget p ''pull_number'')) (\<lambda>number.
     bind (raise_if (number = 0) bad_receipt) (\<lambda>_.
     bind (parse_github_pull_request_url L (dget p ''url'')) (\<lambda>reference.
     bind (raise_if (full_name reference \<noteq> repository \<or> int (ref_number reference) \<noteq> number) bad_receipt) (\<lambda>_.
     bind (require_author bad_receipt (dget p ''author'')) (\<lambda>_.
     bind (require_member bad_receipt [''open'', ''closed''] (dget p ''state'')) (\<lambda>_.
     bind (as_bool bad_receipt (dget p ''merged'')) (\<lambda>_.
     bind (as_bool bad_receipt (dget p ''draft'')) (\<lambda>_. ret ())))))))))"

definition validate_receipt_commits :: "pairs \<Rightarrow> unit res" where
  "validate_receipt_commits p =
     bind (require_sha (dget p ''head_sha'')) (\<lambda>_.
     bind (require_sha (dget p ''base_sha'')) (\<lambda>_.
     let merge_sha = dget p ''merge_commit_sha'' in
     if dget p ''merged'' = JBool True \<and> merge_sha \<noteq> JNull
     then bind (require_sha merge_sha) (\<lambda>_. ret ())
     else raise_if (merge_sha \<noteq> JNull) bad_receipt))"

definition validate_receipt_ci_counts :: "pairs \<Rightarrow> (int \<times> bool) res" where
  "validate_receipt_ci_counts p =
     bind (require_count (dget p ''checks_observed'')) (\<lambda>co.
     bind (require_count (dget p ''checks_total'')) (\<lambda>ct.
     bind (require_count (dget p ''statuses_observed'')) (\<lambda>so.
     bind (require_count (dget p ''statuses_total'')) (\<lambda>st.
     bind (raise_if (co > ct \<or> so > st) bad_receipt) (\<lambda>_.
     let counts_complete = (co = ct \<and> so = st) in
     bind (raise_if (dget p ''ci_data_complete'' \<noteq> JBool counts_complete) bad_receipt) (\<lambda>_.
     ret (ct + st, counts_complete)))))))"

definition validate_receipt_ci :: "pairs \<Rightarrow> unit res" where
  "validate_receipt_ci p =
     bind (require_member bad_receipt CI_STATES (dget p ''ci'')) (\<lambda>ci.
     bind (as_bool bad_receipt (dget p ''ci_data_complete'')) (\<lambda>_.
     bind (validate_receipt_ci_counts p) (\<lambda>(signals, counts_complete).
     bind (raise_if (ci = lit ''no_signals'' \<and> signals \<noteq> 0) bad_receipt) (\<lambda>_.
     bind (raise_if (ci \<noteq> lit ''no_signals'' \<and> signals = 0) bad_receipt) (\<lambda>_.
     bind (raise_if (ci = lit ''partial'' \<and> counts_complete) bad_receipt) (\<lambda>_.
     raise_if (ci \<in> {lit ''pending'', lit ''success''} \<and> \<not> counts_complete) bad_receipt))))))"

definition validate_receipt_payload :: "lib \<Rightarrow> pairs \<Rightarrow> unit res" where
  "validate_receipt_payload L p =
     bind (raise_if (\<not> keys_are p RECEIPT_PAYLOAD_KEYS) bad_receipt) (\<lambda>_.
     bind (validate_receipt_header p) (\<lambda>_.
     bind (validate_receipt_subject L p) (\<lambda>_.
     bind (validate_receipt_commits p) (\<lambda>_.
     bind (validate_receipt_ci p) (\<lambda>_.
     bind (require_timestamp (dget p ''source_updated_at'')) (\<lambda>_.
     bind (require_timestamp (dget p ''observed_at'')) (\<lambda>_. ret ())))))))"

text \<open>\<open>verify_detached_signature\<close> on a signature taken out of JSON\<close>

definition verify_signature_value :: "lib \<Rightarrow> json \<Rightarrow> bytes \<Rightarrow> json \<Rightarrow> bool" where
  "verify_signature_value L issuer payload signature = (case (issuer, signature) of
      (JStr did, JStr s) \<Rightarrow> verify_detached_signature L did payload s
    | _ \<Rightarrow> False)"

definition verify_signed_receipt :: "lib \<Rightarrow> json \<Rightarrow> pairs res" where
  "verify_signed_receipt L decoded =
     bind (as_obj bad_receipt decoded) (\<lambda>wrapper.
     bind (raise_if (\<not> keys_are wrapper [''payload'', ''payload_sha256'', ''signature'']) bad_receipt) (\<lambda>_.
     bind (as_obj bad_receipt (dget wrapper ''payload'')) (\<lambda>payload.
     bind (validate_receipt_payload L payload) (\<lambda>_.
     let canonical = canonical_json (float_repr L) (JObj payload) in
     bind (raise_if (dget wrapper ''payload_sha256'' \<noteq> JStr (sha256_hex L canonical)) bad_receipt) (\<lambda>_.
     bind (raise_if (\<not> verify_signature_value L (dget payload ''issuer'') canonical (dget wrapper ''signature''))
       bad_receipt) (\<lambda>_.
     ret payload))))))"

text \<open>The same on a text: \<open>except ValueError\<close> covers every failure of \<open>json.loads\<close> but the recursion limit.\<close>

definition verify_receipt_text :: "lib \<Rightarrow> doc \<Rightarrow> pairs res" where
  "verify_receipt_text L d = (case d of
      Doc v \<Rightarrow> verify_signed_receipt L (loads v)
    | TooDeep \<Rightarrow> raise RecursionError
    | _ \<Rightarrow> raise bad_receipt)"

section \<open>Building a receipt\<close>

definition receipt_payload :: "str \<Rightarrow> evidence \<Rightarrow> utc_time \<Rightarrow> pairs" where
  "receipt_payload issuer ev observed_at =
     [(lit ''schema'', JStr (lit RECEIPT_SCHEMA)),
      (lit ''issuer'', JStr issuer),
      (lit ''source'', JStr (lit RECEIPT_SOURCE)),
      (lit ''api_version'', JStr (lit GITHUB_API_VERSION)),
      (lit ''repository'', JStr (pd_repository (ev_details ev))),
      (lit ''pull_number'', JInt (pd_number (ev_details ev))),
      (lit ''url'', JStr (pd_url (ev_details ev))),
      (lit ''author'', JStr (pd_author (ev_details ev))),
      (lit ''state'', JStr (pd_state (ev_details ev))),
      (lit ''merged'', JBool (pd_merged (ev_details ev))),
      (lit ''draft'', JBool (pd_draft (ev_details ev))),
      (lit ''head_sha'', JStr (pd_head_sha (ev_details ev))),
      (lit ''base_sha'', JStr (pd_base_sha (ev_details ev))),
      (lit ''merge_commit_sha'', (case pd_merge_commit_sha (ev_details ev) of None \<Rightarrow> JNull | Some s \<Rightarrow> JStr s)),
      (lit ''ci'', JStr (ev_ci ev)),
      (lit ''ci_data_complete'', JBool (ev_complete ev)),
      (lit ''checks_observed'', JInt (ev_checks_observed ev)),
      (lit ''checks_total'', JInt (ev_checks_total ev)),
      (lit ''statuses_observed'', JInt (ev_statuses_observed ev)),
      (lit ''statuses_total'', JInt (ev_statuses_total ev)),
      (lit ''source_updated_at'', JStr (pd_source_updated_at (ev_details ev))),
      (lit ''observed_at'', JStr (format_timestamp observed_at))]"

definition build_signed_receipt :: "lib \<Rightarrow> evidence \<Rightarrow> str \<Rightarrow> bytes \<Rightarrow> utc_time \<Rightarrow> json res" where
  "build_signed_receipt L ev issuer_did key observed_at =
     bind (validate_did issuer_did) (\<lambda>_.
     bind (did_from_private_key L key) (\<lambda>own.
     bind (raise_if (own \<noteq> issuer_did) (gh_error ''receipt_issuer_mismatch'')) (\<lambda>_.
     let payload = receipt_payload issuer_did ev observed_at in
     bind (validate_receipt_payload L payload) (\<lambda>_.
     let canonical = canonical_json (float_repr L) (JObj payload) in
     bind (sign_detached L key canonical) (\<lambda>signature.
     ret (JObj [(lit ''payload'', JObj payload),
       (lit ''payload_sha256'', JStr (sha256_hex L canonical)),
       (lit ''signature'', JStr signature)]))))))"

definition render_signed_receipt :: "lib \<Rightarrow> json \<Rightarrow> str res" where
  "render_signed_receipt L receipt =
     bind (verify_signed_receipt L receipt) (\<lambda>_.
     let rendered = canonical_json (float_repr L) receipt in
     bind (raise_if (4096 < length rendered) (gh_error ''receipt_too_large'')) (\<lambda>_. ret rendered))"

section \<open>The service\<close>

record receipt_service =
  svc_issuer :: str
  svc_key :: bytes
  svc_interval :: rat

text \<open>The cooldown: an attempt is recorded before the network is asked; the last one stays otherwise.\<close>

definition reserve_attempt :: "rat \<Rightarrow> rat \<Rightarrow> unit io" where
  "reserve_attempt interval now =
     ibind (iget last_attempt) (\<lambda>prev.
     ibind (lift (case prev of None \<Rightarrow> ret () | Some t \<Rightarrow>
         let elapsed = now - t in
         if elapsed < interval
         then raise (GitHubReceiptError ''local_receipt_rate_limited'' None (Some (interval - max elapsed 0)))
         else ret ())) (\<lambda>_.
     imodify (\<lambda>w. w\<lparr>last_attempt := Some now\<rparr>)))"

definition issue :: "env \<Rightarrow> lib \<Rightarrow> receipt_service \<Rightarrow> str \<Rightarrow> str io" where
  "issue E L svc url =
     ibind (lift (parse_github_pull_request_url L (JStr url))) (\<lambda>reference.
     ibind (ask (clock_mono E)) (\<lambda>now.
     ibind (reserve_attempt (svc_interval svc) now) (\<lambda>_.
     ibind (inspect E L reference) (\<lambda>ev.
     ibind (ask (clock_utc E)) (\<lambda>observed_at.
     ibind (lift (build_signed_receipt L ev (svc_issuer svc) (svc_key svc) observed_at)) (\<lambda>receipt.
     lift (render_signed_receipt L receipt)))))))"

section \<open>URLs parse back\<close>

definition ref_ok :: "pr_ref \<Rightarrow> bool" where
  "ref_ok r \<longleftrightarrow> match_owner (ref_owner r) \<and> valid_repository (ref_repository r)
     \<and> 1 \<le> ref_number r \<and> ref_number r \<le> 2147483647"

lemma nat_of_str_pos:
  assumes "list_all is_digit s" and "s \<noteq> []" and "hd s \<noteq> 48"
  shows "0 < nat_of_str s"
proof -
  obtain c r where s: "s = c # r" using assms(2) by (cases s) auto
  have "0 < nat_of_str (c # r)" if "48 < c" for c r
  proof (induction r rule: rev_induct)
    case Nil
    then show ?case using nat_of_str_snoc [of "[]" c] that by (simp add: nat_of_str_def)
  next
    case (snoc x xs)
    then show ?case using nat_of_str_snoc [of "c # xs" x] by simp
  qed
  then show ?thesis using assms by (auto simp: s is_digit_def)
qed

lemma match_pull_path_SomeD:
  assumes "match_pull_path p = Some (own, repo, n)"
  shows "list_all is_digit n" "n \<noteq> []" "hd n \<noteq> 48"
  using assms by (auto simp: match_pull_path_def split: list.splits if_splits)

lemma parse_url_ok:
  assumes "parse_github_pull_request_url L v = Inr r"
  shows "ref_ok r"
proof -
  obtain p own repo n where m: "match_pull_path p = Some (own, repo, n)"
    and r: "match_owner own" "valid_repository repo" "nat_of_str n \<le> 2147483647"
      "r = \<lparr>ref_owner = own, ref_repository = repo, ref_number = nat_of_str n\<rparr>"
    using assms unfolding parse_github_pull_request_url_def
    by (auto simp: res_simps int_of_digits_def not_less split: if_splits)
  have "0 < nat_of_str n" using nat_of_str_pos match_pull_path_SomeD [OF m] by blast
  with r show ?thesis by (simp add: ref_ok_def)
qed

lemma urlsplit_github:
  assumes "list_all (\<lambda>c. c \<notin> {9, 10, 13, 35, 63}) p"
  shows "urlsplit L (lit ''https://github.com/'' @ p) = Inr \<lparr>scheme = lit ''https'', netloc = lit ''github.com'',
     upath = 47 # p, query = [], fragment = []\<rparr>"
proof -
  have c: "url_cleaned (lit ''https://github.com/'' @ p) = lit ''https://github.com/'' @ p"
    using assms by (auto simp: url_cleaned_def lit_simps list_all_iff intro!: filter_True)
  have s: "split_scheme (lit ''https://github.com/'' @ p) = (lit ''https'', lit ''//github.com/'' @ p)"
    using partition_at_stop [of 58 "lit ''https''" "lit ''//github.com/'' @ p"]
    by (simp add: split_scheme_def lit_simps is_scheme_char_def char_class_defs fold_char_def)
  have n: "split_netloc (lit ''//github.com/'' @ p) = (lit ''github.com'', 47 # p)"
    by (simp add: split_netloc_def lit_simps)
  have e: "\<not> netloc_error L (lit ''github.com'')"
    by (simp add: netloc_error_def lit_simps is_ascii_def)
  have "35 \<notin> set (47 # p)" "63 \<notin> set (47 # p)" using assms by (auto simp: list_all_iff)
  then show ?thesis by (simp add: urlsplit_def c s n e)
qed

lemma digits_no_slash: "list_all is_digit n \<Longrightarrow> 47 \<notin> set n"
  by (auto simp: list_all_iff is_digit_def)

lemma owner_raw_no_slash: "match_owner s \<Longrightarrow> 47 \<notin> set s"
  by (auto simp: match_owner_def list_all_iff char_class_defs)

lemma repository_raw_no_slash: "valid_repository s \<Longrightarrow> 47 \<notin> set s"
  by (auto simp: valid_repository_def match_repository_def list_all_iff char_class_defs)

lemma hd_str_of_nat: "0 < n \<Longrightarrow> hd (str_of_nat n) \<noteq> 48"
proof (induction n rule: str_of_nat.induct)
  case (1 n)
  then show ?case by (cases "n < 10") (auto simp: str_of_nat.simps [of n])
qed

definition pull_path :: "str \<Rightarrow> str \<Rightarrow> str \<Rightarrow> str" where
  "pull_path own repo n = own @ 47 # repo @ 47 # lit ''pull'' @ 47 # n"

lemma match_pull_path_of:
  assumes "match_owner own" "valid_repository repo" "list_all is_digit n" "n \<noteq> []" "hd n \<noteq> 48"
  shows "match_pull_path (47 # pull_path own repo n) = Some (own, repo, n)"
proof -
  have ne: "own \<noteq> []" "repo \<noteq> []"
    using assms(1,2) by (auto simp: match_owner_def valid_repository_def match_repository_def)
  have pull: "47 \<notin> set (lit ''pull'')" by (simp add: lit_simps)
  have "split_all 47 (47 # pull_path own repo n) = [[], own, repo, lit ''pull'', n]"
    using owner_raw_no_slash [OF assms(1)] repository_raw_no_slash [OF assms(2)] pull
      digits_no_slash [OF assms(3)]
    by (simp add: pull_path_def split_all_append split_all_absent)
  then show ?thesis using assms(3-5) ne by (simp add: match_pull_path_def)
qed

lemma pull_path_chars:
  assumes "match_owner own" "valid_repository repo" "list_all is_digit n"
  shows "list_all (\<lambda>c. 33 \<le> c \<and> c < 127 \<and> c \<notin> {35, 63}) (pull_path own repo n)"
  using assms
  by (auto simp: pull_path_def match_owner_def valid_repository_def match_repository_def list_all_iff
      char_class_defs lit_simps)

lemma strip_visible:
  assumes "list_all (\<lambda>c. 33 \<le> c \<and> c < 127) s"
  shows "strip s = s"
proof (rule strip_id)
  have "\<not> is_space c" if "c \<in> set s" for c
    using assms that by (auto simp: list_all_iff is_space_def)
  then show "s = [] \<or> \<not> is_space (hd s) \<and> \<not> is_space (last s)" by (cases "s = []") auto
qed

lemma parse_pull_url:
  assumes "match_owner own" "valid_repository repo" "1 \<le> n" "n \<le> 2147483647"
  shows "parse_github_pull_request_url L
      (JStr (lit ''https://github.com/'' @ pull_path own repo (str_of_nat n)))
    = Inr \<lparr>ref_owner = own, ref_repository = repo, ref_number = n\<rparr>"
proof -
  let ?p = "pull_path own repo (str_of_nat n)"
  have d: "list_all is_digit (str_of_nat n)" by (rule str_of_nat_digits)
  note ch = pull_path_chars [OF assms(1,2) d]
  have "length (str_of_nat n) \<le> 10"
    using length_str_of_nat [of 10 n] assms(4) by simp
  then have i: "int_of_digits (str_of_nat n) = Inr n" by (simp add: int_of_digits_def)
  have m: "match_pull_path (47 # ?p) = Some (own, repo, str_of_nat n)"
    using match_pull_path_of assms(1,2) d hd_str_of_nat assms(3) by simp
  have "list_all (\<lambda>c. 33 \<le> c \<and> c < 127) (lit ''https://github.com/'' @ ?p)"
    using ch by (auto simp: lit_simps list_all_iff)
  then have "strip (lit ''https://github.com/'' @ ?p) = lit ''https://github.com/'' @ ?p"
    by (rule strip_visible)
  moreover have "list_all (\<lambda>c. c \<notin> {9, 10, 13, 35, 63}) ?p" using ch by (auto simp: list_all_iff)
  ultimately show ?thesis
    using assms m i by (simp add: parse_github_pull_request_url_def urlsplit_github)
qed

lemma ref_url_path: "ref_url r = lit ''https://github.com/''
    @ pull_path (ref_owner r) (ref_repository r) (str_of_nat (ref_number r))"
  by (simp add: ref_url_def full_name_def pull_path_def lit_simps)

lemma parse_ref_url: "ref_ok r \<Longrightarrow> parse_github_pull_request_url L (JStr (ref_url r)) = Inr r"
  unfolding ref_url_path by (subst parse_pull_url) (auto simp: ref_ok_def)

section \<open>What the responses establish\<close>

lemma require_sha_Inr [simp, res_simps]: "require_sha v = Inr s \<longleftrightarrow> v = JStr s \<and> match_sha s"
  by (auto simp: require_sha_def res_simps)

lemma require_count_Inr [simp, res_simps]: "require_count v = Inr i \<longleftrightarrow> v = JInt i \<and> 0 \<le> i"
  by (auto simp: require_count_def)

lemma require_timestamp_Inr [simp, res_simps]:
  "require_timestamp v = Inr s \<longleftrightarrow> v = JStr s \<and> match_timestamp s \<and> iso_accepts s"
  by (auto simp: require_timestamp_def res_simps)

lemma require_author_Inr [simp, res_simps]: "require_author e v = Inr s \<longleftrightarrow> v = JStr s \<and> match_author s"
  by (auto simp: require_author_def res_simps)

lemma require_member_Inr [simp, res_simps]:
  "require_member e S v = Inr s \<longleftrightarrow> v = JStr s \<and> s \<in> set (map lit S)"
  by (cases v) (auto simp: require_member_def res_simps)

lemma parse_repository_Inr:
  "parse_repository v = Inr s \<longleftrightarrow> v = JStr s \<and>
     (\<exists>own repo. s = own @ 47 # repo \<and> match_owner own \<and> valid_repository repo)"
proof
  assume a: "parse_repository v = Inr s"
  then obtain s0 where v: "v = JStr s0" by (auto simp: parse_repository_def res_simps)
  obtain own b repo where pa: "partition_at 47 s0 = (own, b, repo)" by (rule prod_cases3)
  from a have m: "s = s0" "count_char s0 47 = 1" "match_owner own" "valid_repository repo"
    by (auto simp: parse_repository_def v pa res_simps)
  have "47 \<in> set s0" using m(2) by (metis count_char_def count_list_0_iff zero_neq_one)
  then have "s0 = own @ 47 # repo" using partition_at_found [OF _ pa] by blast
  with v m show "v = JStr s \<and> (\<exists>own repo. s = own @ 47 # repo \<and> match_owner own \<and> valid_repository repo)"
    by blast
next
  assume "v = JStr s \<and> (\<exists>own repo. s = own @ 47 # repo \<and> match_owner own \<and> valid_repository repo)"
  then obtain own repo where s: "v = JStr s" "s = own @ 47 # repo" "match_owner own" "valid_repository repo"
    by blast
  note ns = owner_raw_no_slash [OF s(3)] repository_raw_no_slash [OF s(4)]
  then have "count_char s 47 = 1" by (simp add: s(2) count_char_def)
  then show "parse_repository v = Inr s" using ns s by (simp add: parse_repository_def)
qed

definition details_ok :: "pull_details \<Rightarrow> bool" where
  "details_ok d \<longleftrightarrow>
     (\<exists>r. ref_ok r \<and> full_name r = pd_repository d \<and> int (ref_number r) = pd_number d \<and> pd_url d = ref_url r)
     \<and> match_author (pd_author d) \<and> pd_state d \<in> {lit ''open'', lit ''closed''}
     \<and> match_sha (pd_head_sha d) \<and> match_sha (pd_base_sha d)
     \<and> (case pd_merge_commit_sha d of None \<Rightarrow> True | Some s \<Rightarrow> pd_merged d \<and> match_sha s)
     \<and> match_timestamp (pd_source_updated_at d) \<and> iso_accepts (pd_source_updated_at d)"

lemma parse_pull_ok:
  assumes "parse_pull L p ref = Inr d" and "ref_ok ref"
  shows "details_ok d" and "pd_number d = int (ref_number ref)"
    and "casefold (pd_repository d) = casefold (full_name ref)"
proof -
  from assms(1) obtain canonical own repo where
    s: "pd_repository d = own @ 47 # repo" "match_owner own" "valid_repository repo" and
    n: "pd_number d = int (ref_number ref)" and
    cf: "casefold (pd_repository d) = casefold (full_name ref)" and
    canon: "parse_github_pull_request_url L (JStr (lit ''https://github.com/'' @ pd_repository d
      @ lit ''/pull/'' @ str_of_int (pd_number d))) = Inr canonical" "pd_url d = ref_url canonical" and
    rest: "match_author (pd_author d)" "pd_state d \<in> {lit ''open'', lit ''closed''}" "match_sha (pd_head_sha d)"
      "match_sha (pd_base_sha d)" "match_timestamp (pd_source_updated_at d)" "iso_accepts (pd_source_updated_at d)"
      "case pd_merge_commit_sha d of None \<Rightarrow> True | Some s \<Rightarrow> pd_merged d \<and> match_sha s"
    unfolding parse_pull_def
    by (auto simp: res_simps parse_repository_Inr optional_sha_def split: if_splits)
  have b: "1 \<le> ref_number ref" "ref_number ref \<le> 2147483647" using assms(2) by (simp_all add: ref_ok_def)
  have "lit ''https://github.com/'' @ pd_repository d @ lit ''/pull/'' @ str_of_int (pd_number d)
      = lit ''https://github.com/'' @ pull_path own repo (str_of_nat (ref_number ref))"
    by (simp add: s(1) n pull_path_def str_of_int_def lit_simps)
  with canon(1) parse_pull_url [OF s(2,3) b, of L]
  have "canonical = \<lparr>ref_owner = own, ref_repository = repo, ref_number = ref_number ref\<rparr>" by simp
  then have "ref_ok canonical \<and> full_name canonical = pd_repository d \<and> int (ref_number canonical) = pd_number d"
    using s n b by (simp add: ref_ok_def full_name_def)
  with canon(2) rest show "details_ok d" unfolding details_ok_def by blast
  show "pd_number d = int (ref_number ref)" "casefold (pd_repository d) = casefold (full_name ref)" by fact+
qed

definition evidence_ok :: "evidence \<Rightarrow> bool" where
  "evidence_ok ev \<longleftrightarrow> details_ok (ev_details ev)
     \<and> 0 \<le> ev_checks_observed ev \<and> ev_checks_observed ev \<le> ev_checks_total ev
     \<and> 0 \<le> ev_statuses_observed ev \<and> ev_statuses_observed ev \<le> ev_statuses_total ev
     \<and> ev_complete ev = (ev_checks_observed ev = ev_checks_total ev \<and> ev_statuses_observed ev = ev_statuses_total ev)
     \<and> ev_ci ev \<in> set (map lit CI_STATES)
     \<and> (ev_ci ev = lit ''no_signals'' \<longrightarrow> ev_checks_total ev + ev_statuses_total ev = 0)
     \<and> (ev_ci ev = lit ''partial'' \<longrightarrow> \<not> ev_complete ev)
     \<and> (ev_ci ev \<in> {lit ''pending'', lit ''success''} \<longrightarrow>
          ev_complete ev \<and> ev_checks_total ev + ev_statuses_total ev \<noteq> 0)"

lemma parse_checks_ok: "parse_checks p sha = Inr c \<Longrightarrow>
  int (ck_observed c) \<le> ck_total c \<and> ck_complete c = (int (ck_observed c) = ck_total c)"
  by (auto simp: parse_checks_def res_simps not_less)

lemma parse_statuses_ok: "parse_statuses p sha = Inr c \<Longrightarrow>
  int (st_observed c) \<le> st_total c \<and> st_complete c = (int (st_observed c) = st_total c)
  \<and> st_state c \<in> set (map lit COMBINED_STATUS_STATES)"
  by (auto simp: parse_statuses_def res_simps not_less)

lemma ci_state_cases:
  "ci_state c s \<in> {lit ''failure'', lit ''partial'', lit ''no_signals'', lit ''pending'', lit ''success''}"
  "ci_state c s = lit ''partial'' \<Longrightarrow> \<not> (ck_complete c \<and> st_complete s)"
  "ci_state c s = lit ''no_signals'' \<Longrightarrow> ck_total c + st_total s = 0"
  "ci_state c s \<in> {lit ''pending'', lit ''success''} \<Longrightarrow>
     ck_complete c \<and> st_complete s \<and> ck_total c + st_total s \<noteq> 0"
  "ci_state c s = lit ''success'' \<Longrightarrow> \<not> ck_failure c \<and> \<not> ck_pending c
     \<and> st_state s \<notin> {lit ''error'', lit ''failure'', lit ''pending''}"
  by (auto simp: ci_state_def split: if_splits)

lemma inspect_Inr:
  assumes "inspect E L ref w = (Inr ev, w')"
  shows "\<exists>pull raw_checks raw_statuses details checks statuses.
     parse_pull L pull ref = Inr details \<and>
     parse_checks raw_checks (pd_head_sha details) = Inr checks \<and>
     parse_statuses raw_statuses (pd_head_sha details) = Inr statuses \<and>
     ev = \<lparr>ev_details = details, ev_ci = ci_state checks statuses,
       ev_complete = (ck_complete checks \<and> st_complete statuses),
       ev_checks_observed = int (ck_observed checks), ev_checks_total = ck_total checks,
       ev_statuses_observed = int (st_observed statuses), ev_statuses_total = st_total statuses\<rparr>"
  using assms unfolding inspect_def Let_def ibind_def lift_def iret_def
  by (clarsimp split: prod.splits sum.splits) blast

lemma inspect_ok:
  assumes "inspect E L ref w = (Inr ev, w')" and "ref_ok ref"
  shows "evidence_ok ev"
proof -
  obtain pull rc rs d c s where p: "parse_pull L pull ref = Inr d"
    and c: "parse_checks rc (pd_head_sha d) = Inr c" and s: "parse_statuses rs (pd_head_sha d) = Inr s"
    and ev: "ev = \<lparr>ev_details = d, ev_ci = ci_state c s, ev_complete = (ck_complete c \<and> st_complete s),
       ev_checks_observed = int (ck_observed c), ev_checks_total = ck_total c,
       ev_statuses_observed = int (st_observed s), ev_statuses_total = st_total s\<rparr>"
    using inspect_Inr [OF assms(1)] by blast
  note parse_checks_ok [OF c] parse_statuses_ok [OF s] parse_pull_ok(1) [OF p assms(2)]
    ci_state_cases(1-4) [of c s]
  then show ?thesis by (auto simp: evidence_ok_def ev CI_STATES_def)
qed

section \<open>A built receipt verifies\<close>

lemma receipt_dget:
  "dget (receipt_payload did ev t) ''schema'' = JStr (lit RECEIPT_SCHEMA)"
  "dget (receipt_payload did ev t) ''issuer'' = JStr did"
  "dget (receipt_payload did ev t) ''source'' = JStr (lit RECEIPT_SOURCE)"
  "dget (receipt_payload did ev t) ''api_version'' = JStr (lit GITHUB_API_VERSION)"
  "dget (receipt_payload did ev t) ''repository'' = JStr (pd_repository (ev_details ev))"
  "dget (receipt_payload did ev t) ''pull_number'' = JInt (pd_number (ev_details ev))"
  "dget (receipt_payload did ev t) ''url'' = JStr (pd_url (ev_details ev))"
  "dget (receipt_payload did ev t) ''author'' = JStr (pd_author (ev_details ev))"
  "dget (receipt_payload did ev t) ''state'' = JStr (pd_state (ev_details ev))"
  "dget (receipt_payload did ev t) ''merged'' = JBool (pd_merged (ev_details ev))"
  "dget (receipt_payload did ev t) ''draft'' = JBool (pd_draft (ev_details ev))"
  "dget (receipt_payload did ev t) ''head_sha'' = JStr (pd_head_sha (ev_details ev))"
  "dget (receipt_payload did ev t) ''base_sha'' = JStr (pd_base_sha (ev_details ev))"
  "dget (receipt_payload did ev t) ''merge_commit_sha'' =
     (case pd_merge_commit_sha (ev_details ev) of None \<Rightarrow> JNull | Some s \<Rightarrow> JStr s)"
  "dget (receipt_payload did ev t) ''ci'' = JStr (ev_ci ev)"
  "dget (receipt_payload did ev t) ''ci_data_complete'' = JBool (ev_complete ev)"
  "dget (receipt_payload did ev t) ''checks_observed'' = JInt (ev_checks_observed ev)"
  "dget (receipt_payload did ev t) ''checks_total'' = JInt (ev_checks_total ev)"
  "dget (receipt_payload did ev t) ''statuses_observed'' = JInt (ev_statuses_observed ev)"
  "dget (receipt_payload did ev t) ''statuses_total'' = JInt (ev_statuses_total ev)"
  "dget (receipt_payload did ev t) ''source_updated_at'' = JStr (pd_source_updated_at (ev_details ev))"
  "dget (receipt_payload did ev t) ''observed_at'' = JStr (format_timestamp t)"
  by (simp_all add: dget_def receipt_payload_def)

lemma receipt_keys: "keys_are (receipt_payload did ev t) RECEIPT_PAYLOAD_KEYS"
  by (simp add: keys_are_def receipt_payload_def RECEIPT_PAYLOAD_KEYS_def)

lemma validate_built_subject:
  "details_ok (ev_details ev) \<Longrightarrow> validate_receipt_subject L (receipt_payload did ev t) = Inr ()"
proof -
  assume d: "details_ok (ev_details ev)"
  then obtain r where r: "ref_ok r" "full_name r = pd_repository (ev_details ev)"
    "int (ref_number r) = pd_number (ev_details ev)" "pd_url (ev_details ev) = ref_url r"
    unfolding details_ok_def by blast
  have "parse_repository (JStr (pd_repository (ev_details ev))) = Inr (pd_repository (ev_details ev))"
    unfolding parse_repository_Inr using r(1,2) unfolding full_name_def ref_ok_def
    by (metis append_Cons append_Nil)
  then show ?thesis
    using d r parse_ref_url [OF r(1), of L]
    by (auto simp: validate_receipt_subject_def receipt_dget res_simps details_ok_def ref_ok_def)
qed

lemma validate_built_commits:
  "details_ok (ev_details ev) \<Longrightarrow> validate_receipt_commits (receipt_payload did ev t) = Inr ()"
  by (auto simp: validate_receipt_commits_def receipt_dget res_simps details_ok_def split: option.splits)

definition claims_unseen_failure :: "evidence \<Rightarrow> bool" where
  "claims_unseen_failure ev \<longleftrightarrow>
     ev_ci ev = lit ''failure'' \<and> ev_checks_total ev + ev_statuses_total ev = 0"

lemma validate_built_ci:
  assumes ok: "evidence_ok ev" and "\<not> claims_unseen_failure ev"
  shows "validate_receipt_ci (receipt_payload did ev t) = Inr ()"
proof -
  have counts: "validate_receipt_ci_counts (receipt_payload did ev t)
      = Inr (ev_checks_total ev + ev_statuses_total ev, ev_complete ev)"
    using ok by (auto simp: validate_receipt_ci_counts_def receipt_dget res_simps evidence_ok_def)
  have "ev_ci ev \<noteq> lit ''no_signals'' \<Longrightarrow> ev_checks_total ev + ev_statuses_total ev \<noteq> 0"
    using assms by (auto simp: evidence_ok_def CI_STATES_def claims_unseen_failure_def)
  then show ?thesis
    using ok by (auto simp: validate_receipt_ci_def counts receipt_dget res_simps evidence_ok_def)
qed

lemma validate_built:
  assumes "evidence_ok ev" and "\<not> claims_unseen_failure ev" and "match_did did" and "valid_time t"
  shows "validate_receipt_payload L (receipt_payload did ev t) = Inr ()"
proof -
  have d: "details_ok (ev_details ev)" using assms(1) by (simp add: evidence_ok_def)
  then have "match_timestamp (pd_source_updated_at (ev_details ev))"
    "iso_accepts (pd_source_updated_at (ev_details ev))"
    by (simp_all add: details_ok_def)
  moreover have "validate_receipt_header (receipt_payload did ev t) = Inr ()"
    using assms(3) by (simp add: validate_receipt_header_def receipt_dget validate_did_value_def validate_did_def)
  ultimately show ?thesis
    using format_timestamp_accepted(1,2) [OF assms(4)] validate_built_subject [OF d]
      validate_built_commits [OF d] validate_built_ci [OF assms(1,2)]
    by (auto simp: validate_receipt_payload_def receipt_keys receipt_dget res_simps)
qed

definition signed_wrapper :: "lib \<Rightarrow> bytes \<Rightarrow> pairs \<Rightarrow> json" where
  "signed_wrapper L key payload =
     (let canonical = canonical_json (float_repr L) (JObj payload) in
      JObj [(lit ''payload'', JObj payload), (lit ''payload_sha256'', JStr (sha256_hex L canonical)),
        (lit ''signature'', JStr (b64_encode (ed_sign L key canonical)))])"

lemma verify_signed_wrapper:
  assumes "ed25519_ok L" and "length key = 32" and "did_from_private_key L key = Inr did"
    and "validate_receipt_payload L p = Inr ()" and "dget p ''issuer'' = JStr did"
  shows "verify_signed_receipt L (signed_wrapper L key p) = Inr p"
proof -
  have "keys_are [(lit ''payload'', a), (lit ''payload_sha256'', b), (lit ''signature'', c)]
      [''payload'', ''payload_sha256'', ''signature'']" for a b c :: json
    by (simp add: keys_are_def)
  moreover have "verify_detached_signature L did m (b64_encode (ed_sign L key m))" for m
    by (rule signed_verifies [OF assms(1-3) sign_detached_total [OF assms(1,2)]])
  ultimately show ?thesis
    using assms(4,5)
    by (simp add: verify_signed_receipt_def signed_wrapper_def Let_def dget_def verify_signature_value_def)
qed

lemma build_signed_receipt_total:
  assumes "ed25519_ok L" and "length key = 32" and "did_from_private_key L key = Inr did"
    and "evidence_ok ev" and "\<not> claims_unseen_failure ev" and "valid_time t"
  shows "build_signed_receipt L ev did key t = Inr (signed_wrapper L key (receipt_payload did ev t))"
    and "verify_signed_receipt L (signed_wrapper L key (receipt_payload did ev t))
      = Inr (receipt_payload did ev t)"
proof -
  have did: "match_did did" using assms(3) by (auto simp: did_from_private_key_def Let_def split: if_splits)
  note v = validate_built [OF assms(4,5) did assms(6), of L]
  show "build_signed_receipt L ev did key t = Inr (signed_wrapper L key (receipt_payload did ev t))"
    using did v assms(3) sign_detached_total [OF assms(1,2)]
    by (simp add: build_signed_receipt_def signed_wrapper_def Let_def)
  show "verify_signed_receipt L (signed_wrapper L key (receipt_payload did ev t))
      = Inr (receipt_payload did ev t)"
    by (rule verify_signed_wrapper [OF assms(1-3) v]) (simp add: receipt_dget)
qed

lemma build_signed_receipt_Inr:
  assumes "build_signed_receipt L ev did key t = Inr v"
  shows "did_from_private_key L key = Inr did"
    and "validate_receipt_payload L (receipt_payload did ev t) = Inr ()"
    and "v = signed_wrapper L key (receipt_payload did ev t)"
  using assms by (auto simp: build_signed_receipt_def res_simps Let_def sign_detached_Inr signed_wrapper_def)

section \<open>The text of a receipt is printable\<close>

definition printable :: "str \<Rightarrow> bool" where
  "printable s \<longleftrightarrow> list_all (\<lambda>c. 32 \<le> c \<and> c \<le> 126) s"

lemma printable_simps [simp]:
  "printable []" "printable (c # s) \<longleftrightarrow> 32 \<le> c \<and> c \<le> 126 \<and> printable s"
  "printable (s @ t) \<longleftrightarrow> printable s \<and> printable t"
  by (simp_all add: printable_def)

fun float_free :: "json \<Rightarrow> bool" where
  "float_free (JFloat f) = False"
| "float_free (JArr xs) = list_all float_free xs"
| "float_free (JObj kvs) = list_all (\<lambda>(k, v). float_free v) kvs"
| "float_free v = True"

lemma printable_escape: "printable (escape_char c)"
proof -
  have h: "32 \<le> hex_digit (n mod 16) \<and> hex_digit (n mod 16) \<le> 126" for n
  proof -
    have "n mod 16 < 16" by simp
    then show ?thesis unfolding hex_digit_def by auto
  qed
  then have "printable (hex4 n)" for n by (simp add: hex4_def)
  then show ?thesis by (simp add: escape_char_def)
qed

lemma printable_quote: "printable (quote_json s)"
proof -
  have "printable (concat (map escape_char s))" by (induction s) (simp_all add: printable_escape)
  then show ?thesis by (simp add: quote_json_def)
qed

lemma printable_join: "32 \<le> c \<Longrightarrow> c \<le> 126 \<Longrightarrow> list_all printable ss \<Longrightarrow> printable (join c ss)"
  by (induction c ss rule: join.induct) simp_all

lemma printable_nat: "printable (str_of_nat n)"
  using str_of_nat_digits [of n] by (auto simp: printable_def list_all_iff is_digit_def)

lemma printable_dumps: "float_free v \<Longrightarrow> printable (dumps_with srt fr v)"
proof (induction v)
  case (JArr xs)
  then show ?case by (simp add: printable_join list_all_iff)
next
  case (JObj kvs)
  let ?texts = "map (\<lambda>(k, v). (k, dumps_with srt fr v)) kvs"
  have "printable (snd kt)" if "kt \<in> set ?texts" for kt
    using that JObj by (fastforce simp: list_all_iff)
  then have "list_all printable (map member_text (if srt then sort_key fst ?texts else ?texts))"
    by (auto simp: list_all_iff member_text_def printable_quote)
  then show ?case by (simp add: Let_def printable_join)
qed (simp_all add: lit_simps printable_nat str_of_int_def printable_quote)

lemma dumps_obj_ends: "\<exists>m. dumps_with srt fr (JObj kvs) = [123] @ m @ [125]"
  by (simp add: Let_def)

lemma printable_visible: "32 \<le> c \<Longrightarrow> c \<le> 126 \<Longrightarrow> \<not> is_invisible c"
  by (simp add: is_invisible_def in_ranges_def cat_Cc_def cat_Cf_def cat_Cs_def cat_Co_def cat_Zl_Zp_def)

lemma sweep_object_text:
  assumes "float_free (JObj kvs)" and "length (dumps_with srt fr (JObj kvs)) \<le> 4096"
  shows "sweep_text (dumps_with srt fr (JObj kvs)) = Inr (dumps_with srt fr (JObj kvs))"
proof -
  let ?s = "dumps_with srt fr (JObj kvs)"
  obtain m where m: "?s = [123] @ m @ [125]" using dumps_obj_ends by blast
  have "strip ?s = ?s" unfolding m by (rule strip_id) (simp add: is_space_def)
  moreover have "list_all (\<lambda>c. \<not> is_invisible c) ?s"
    using printable_dumps [OF assms(1), of srt fr] printable_visible by (auto simp: printable_def list_all_iff)
  moreover have "?s \<noteq> []" unfolding m by simp
  ultimately show ?thesis using assms(2) sweep_fixed unfolding sweep_text_def by blast
qed

lemma receipt_float_free: "float_free (signed_wrapper L key (receipt_payload did ev t))"
  by (simp add: signed_wrapper_def receipt_payload_def Let_def split: option.splits)

end
