(* ===== verification/Policy.thy ===== *)
theory Policy
  imports Receipt
begin

text \<open>
  \<open>policy.py\<close>: the fixed commands and the order of the checks a room message goes through before
  it may cause a reply or a receipt. \<open>decide\<close> reads the capability file and, last of all, asks the
  rate limiter, which reserves the request in the state file.
\<close>

record decision =
  action :: string
  reason :: string
  reply :: "str option"
  target :: "str option"

abbreviation ignored :: "string \<Rightarrow> decision" where
  "ignored r \<equiv> \<lparr>action = ''ignore'', reason = r, reply = None, target = None\<rparr>"

record parsed_command =
  pc_name :: str
  pc_decision :: decision
  pc_repository :: "str option"

record command_policy =
  own_did :: str
  allowed_dids :: "str list"
  allow_any_signed :: bool
  policy_file :: "path option"
  rate_limiter :: "(path \<times> bool) option"   \<comment> \<open>state path, \<open>consume\<close>\<close>

text \<open>\<open>CommandPolicy.__post_init__\<close>\<close>

definition check_policy :: "command_policy \<Rightarrow> command_policy res" where
  "check_policy p =
     bind (raise_if (policy_file p \<noteq> None \<and> (allowed_dids p \<noteq> [] \<or> allow_any_signed p))
       (CapabilityError ''capability policy cannot be combined with legacy sender flags'')) (\<lambda>_.
     bind (raise_if ((policy_file p = None) \<noteq> (rate_limiter p = None))
       (CapabilityError ''capability policy and its rate limiter must be configured together'')) (\<lambda>_.
     ret p))"

section \<open>Commands\<close>

definition REPLIES :: "(string \<times> string) list" where
  "REPLIES =
    [(''/ping'', ''pong''),
     (''/help'', ''Commands: /ping, /status, /about, /help, /pr <public GitHub PR URL>''),
     (''/status'', ''Technocore Safe Agent is online. It reads public GitHub PR metadata only and executes no room-supplied tools.''),
     (''/about'', ''Keychain-backed Technocore responder. Signed commands only; fixed GitHub PR reads only; no shell, file, general URL, or arbitrary prompt execution.'')]"

definition reply_for :: "str \<Rightarrow> str option" where
  "reply_for name = map_of (map (\<lambda>(k, v). (lit k, lit v)) REPLIES) name"

definition command_name :: "str \<Rightarrow> str option" where
  "command_name txt =
     (if reply_for txt \<noteq> None then Some txt
      else if txt = lit ''/pr'' \<or> startswith txt (lit ''/pr '') then Some (lit ''/pr'')
      else None)"

text \<open>
  Only a \<open>GitHubReceiptError\<close> means an invalid URL; the plain \<open>ValueError\<close> of \<open>urlsplit\<close> passes
  through.
\<close>

definition parse_command :: "lib \<Rightarrow> str \<Rightarrow> str \<Rightarrow> parsed_command res" where
  "parse_command L name txt = (case reply_for name of
      Some r \<Rightarrow> ret \<lparr>pc_name = name,
        pc_decision = \<lparr>action = ''reply'', reason = ''allowed_command'', reply = Some r, target = None\<rparr>,
        pc_repository = None\<rparr>
    | None \<Rightarrow> (case parse_github_pull_request_url L (JStr (removeprefix txt (lit ''/pr ''))) of
          Inl e \<Rightarrow> if is_GitHubReceiptError e
            then ret \<lparr>pc_name = name, pc_decision = ignored ''invalid_pull_request_url'', pc_repository = None\<rparr>
            else raise e
        | Inr r \<Rightarrow> ret \<lparr>pc_name = name,
            pc_decision = \<lparr>action = ''receipt'', reason = ''allowed_public_pull_request'', reply = None,
              target = Some (ref_url r)\<rparr>,
            pc_repository = Some (full_name r)\<rparr>))"

section \<open>The decision\<close>

definition policy_grant :: "env \<Rightarrow> command_policy \<Rightarrow> str \<Rightarrow> grant option io" where
  "policy_grant E p did = (case policy_file p of
      None \<Rightarrow> iret None
    | Some file \<Rightarrow> ibind (load_policy E file) (\<lambda>loaded. iret (grant_for loaded did)))"

definition authorize_sender ::
  "env \<Rightarrow> command_policy \<Rightarrow> room_message \<Rightarrow> (decision option \<times> grant option) io" where
  "authorize_sender E p m =
     (if msg_sender m = own_did p then iret (Some (ignored ''own_message''), None)
      else if \<not> is_signed m then iret (Some (ignored ''unsigned_sender''), None)
      else ibind (policy_grant E p (msg_sender m)) (\<lambda>g.
        if policy_file p = None then
          (if \<not> allow_any_signed p \<and> msg_sender m \<notin> set (allowed_dids p)
           then iret (Some (ignored ''sender_not_allowlisted''), None)
           else iret (None, g))
        else case g of
            None \<Rightarrow> iret (Some (ignored ''principal_not_granted''), None)
          | Some gr \<Rightarrow> if \<not> enabled gr then iret (Some (ignored ''principal_revoked''), None)
                       else iret (None, g)))"

definition limiter_admits :: "env \<Rightarrow> command_policy \<Rightarrow> str \<Rightarrow> grant \<Rightarrow> bool io" where
  "limiter_admits E p did g = (case rate_limiter p of
      None \<Rightarrow> iraise (CapabilityError ''capability rate limiter is not configured'')
    | Some (state_path, consume) \<Rightarrow> limiter_allow E state_path consume did (max_requests g))"

definition decide_authorized_command ::
  "env \<Rightarrow> lib \<Rightarrow> command_policy \<Rightarrow> room_message \<Rightarrow> grant option \<Rightarrow> decision io" where
  "decide_authorized_command E L p m g = (case command_name (msg_text m) of
      None \<Rightarrow> iret (ignored ''unsupported_command'')
    | Some name \<Rightarrow>
        if (case g of None \<Rightarrow> False | Some gr \<Rightarrow> name \<notin> set (commands gr))
        then iret (ignored ''command_not_granted'')
        else ibind (lift (parse_command L name (msg_text m))) (\<lambda>parsed.
          if action (pc_decision parsed) = ''ignore'' then iret (pc_decision parsed)
          else case g of
              None \<Rightarrow> iret (pc_decision parsed)
            | Some gr \<Rightarrow>
                if (case pc_repository parsed of None \<Rightarrow> False | Some r \<Rightarrow> \<not> allows_repository gr r)
                then iret (ignored ''repository_not_granted'')
                else ibind (limiter_admits E p (msg_sender m) gr) (\<lambda>admitted.
                  if admitted then iret (pc_decision parsed) else iret (ignored ''rate_limited''))))"

definition decide :: "env \<Rightarrow> lib \<Rightarrow> command_policy \<Rightarrow> room_message \<Rightarrow> decision io" where
  "decide E L p m =
     ibind (authorize_sender E p m) (\<lambda>(denial, g). case denial of
        Some d \<Rightarrow> iret d
      | None \<Rightarrow> decide_authorized_command E L p m g)"

section \<open>What a positive decision means\<close>

definition command_of :: "lib \<Rightarrow> str \<Rightarrow> decision \<Rightarrow> str option \<Rightarrow> bool" where
  "command_of L txt d repo \<longleftrightarrow>
     (\<exists>r. reply_for txt = Some r \<and> repo = None \<and>
        d = \<lparr>action = ''reply'', reason = ''allowed_command'', reply = Some r, target = None\<rparr>)
   \<or> (\<exists>url ref. txt = lit ''/pr '' @ url \<and> parse_github_pull_request_url L (JStr url) = Inr ref
        \<and> repo = Some (full_name ref) \<and>
        d = \<lparr>action = ''receipt'', reason = ''allowed_public_pull_request'', reply = None,
             target = Some (ref_url ref)\<rparr>)"

lemma reply_for_slash_pr [simp]: "reply_for (lit ''/pr'') = None"
  by (simp add: reply_for_def REPLIES_def)

lemma removeprefix_pr: "txt = lit ''/pr'' \<Longrightarrow> removeprefix txt (lit ''/pr '') = lit ''/pr''"
  by (simp add: removeprefix_def startswith_def lit_simps)

lemma parse_slash_pr: "parse_github_pull_request_url L (JStr (lit ''/pr'')) = Inl (gh_error ''invalid_pull_request_url'')"
proof -
  have "strip (lit ''/pr'') = lit ''/pr''" by (rule strip_visible) (simp add: lit_simps)
  moreover have "urlsplit L (lit ''/pr'') = Inr \<lparr>scheme = [], netloc = [], upath = lit ''/pr'', query = [], fragment = []\<rparr>"
    by (simp add: urlsplit_def url_cleaned_def split_scheme_def split_netloc_def netloc_error_def
        partition_at_def lit_simps is_ascii_def)
  ultimately show ?thesis by (simp add: parse_github_pull_request_url_def)
qed

lemma command_parsed:
  assumes "command_name txt = Some name" and "parse_command L name txt = Inr c"
    and "action (pc_decision c) \<noteq> ''ignore''"
  shows "command_of L txt (pc_decision c) (pc_repository c)"
    and "name = (if action (pc_decision c) = ''reply'' then txt else lit ''/pr'')"
proof -
  have "command_of L txt (pc_decision c) (pc_repository c) \<and>
    name = (if action (pc_decision c) = ''reply'' then txt else lit ''/pr'')"
  proof (cases "reply_for txt")
    case (Some r)
    then show ?thesis using assms by (auto simp: command_name_def parse_command_def command_of_def)
  next
    case None
    then have n: "name = lit ''/pr''" and t: "txt = lit ''/pr'' \<or> startswith txt (lit ''/pr '')"
      using assms(1) by (auto simp: command_name_def split: if_splits)
    have "txt \<noteq> lit ''/pr''"
      using assms(2,3) parse_slash_pr [of L] by (auto simp: n parse_command_def removeprefix_pr)
    with t obtain url where url: "txt = lit ''/pr '' @ url" by (auto simp: startswith_iff)
    have "removeprefix txt (lit ''/pr '') = url" by (simp add: url removeprefix_def startswith_iff)
    then show ?thesis using assms(2,3) n None
      by (auto simp: parse_command_def command_of_def url split: sum.splits if_splits)
  qed
  then show "command_of L txt (pc_decision c) (pc_repository c)"
    "name = (if action (pc_decision c) = ''reply'' then txt else lit ''/pr'')" by blast+
qed

text \<open>The grant a decision rests on: none without a capability file, else the one read from it.\<close>

definition granted :: "env \<Rightarrow> command_policy \<Rightarrow> world \<Rightarrow> str \<Rightarrow> str \<Rightarrow> str option \<Rightarrow> bool" where
  "granted E p w did name repo \<longleftrightarrow> (case policy_file p of
      None \<Rightarrow> allow_any_signed p \<or> did \<in> set (allowed_dids p)
    | Some file \<Rightarrow> \<exists>loaded g w1. load_policy E file w = (Inr loaded, w1) \<and> grant_for loaded did = Some g
        \<and> enabled g \<and> name \<in> set (commands g)
        \<and> (case repo of None \<Rightarrow> True | Some r \<Rightarrow> allows_repository g r))"

lemma authorize_sender_Inr:
  assumes "authorize_sender E p m w = (Inr (None, g), w1)"
  shows "msg_sender m \<noteq> own_did p \<and> is_signed m \<and> (case policy_file p of
      None \<Rightarrow> g = None \<and> (allow_any_signed p \<or> msg_sender m \<in> set (allowed_dids p))
    | Some file \<Rightarrow> \<exists>loaded gr. load_policy E file w = (Inr loaded, w1)
        \<and> grant_for loaded (msg_sender m) = Some gr \<and> enabled gr \<and> g = Some gr)"
  using assms
  by (auto simp: authorize_sender_def policy_grant_def ibind_def iret_def
      split: if_splits option.splits prod.splits sum.splits)

lemma decide_Inr:
  assumes "decide E L p m w = (Inr d, w')" and "action d \<noteq> ''ignore''"
  shows "msg_sender m \<noteq> own_did p \<and> is_signed m \<and>
    (\<exists>repo. command_of L (msg_text m) d repo \<and>
       granted E p w (msg_sender m) (if action d = ''reply'' then msg_text m else lit ''/pr'') repo)"
proof -
  obtain denial g w1 where a: "authorize_sender E p m w = (Inr (denial, g), w1)"
    using assms(1) unfolding decide_def ibind_def by (auto split: prod.splits sum.splits)
  have "denial = None"
    using a assms by (auto simp: decide_def ibind_def iret_def authorize_sender_def policy_grant_def
        split: if_splits option.splits prod.splits sum.splits)
  with a have a: "authorize_sender E p m w = (Inr (None, g), w1)" by simp
  have c: "decide_authorized_command E L p m g w1 = (Inr d, w')"
    using assms(1) a unfolding decide_def ibind_def by simp
  obtain name parsed where n: "command_name (msg_text m) = Some name"
    and gn: "\<forall>gr. g = Some gr \<longrightarrow> name \<in> set (commands gr)"
    and parsed: "parse_command L name (msg_text m) = Inr parsed" and d: "d = pc_decision parsed"
    and repo: "\<forall>gr r. g = Some gr \<and> pc_repository parsed = Some r \<longrightarrow> allows_repository gr r"
    using c assms(2) unfolding decide_authorized_command_def
    by (auto simp: ibind_def iret_def lift_def split: option.splits if_splits sum.splits prod.splits)
  note cmd = command_parsed [OF n parsed, folded d, OF assms(2)]
  note auth = authorize_sender_Inr [OF a]
  have "granted E p w (msg_sender m) name (pc_repository parsed)"
  proof (cases "policy_file p")
    case None
    with auth show ?thesis by (auto simp: granted_def)
  next
    case (Some fp)
    with auth obtain loaded gr where "load_policy E fp w = (Inr loaded, w1)"
      "grant_for loaded (msg_sender m) = Some gr" "enabled gr" "g = Some gr" by auto
    moreover from this have "name \<in> set (commands gr)"
      "case pc_repository parsed of None \<Rightarrow> True | Some r \<Rightarrow> allows_repository gr r"
      using gn repo by (auto split: option.splits)
    ultimately show ?thesis using Some unfolding granted_def by fastforce
  qed
  with auth cmd show ?thesis unfolding cmd(2) [symmetric] by blast
qed

end
