(* ===== verification/Delivery.thy ===== *)
theory Delivery
  imports Protocol
begin

text \<open>
  \<open>delivery.py\<close>: the journal of the one signed envelope that may be in flight. The record with
  its two constructors (\<open>create\<close> for a new envelope, \<open>from_payload\<close> for one read back), the checks
  that tie it to a room and an identity, and the four operations on the journal file. The
  lemmas show that a record survives the file, that acknowledging is idempotent, and what every
  operation can leave on disk.
\<close>

record delivery_record =
  dr_status :: str
  dr_room_sha256 :: str
  dr_input_sequence :: int
  dr_did :: str
  dr_nonce :: int
  dr_text :: str
  dr_text_sha256 :: str
  dr_signature :: str
  dr_reply_sequence :: "int option"

definition DELIVERY_SCHEMA :: string where
  "DELIVERY_SCHEMA = ''technocore-safe-agent-delivery-v1''"

definition match_sha256 :: "str \<Rightarrow> bool" where   \<comment> \<open>\<open>[0-9a-f]{64}\<close>\<close>
  "match_sha256 s \<longleftrightarrow> length s = 64 \<and> list_all is_hex_lower s"

definition sha256_of_text :: "lib \<Rightarrow> str \<Rightarrow> str" where
  "sha256_of_text L s = sha256_hex L (utf8 s)"

section \<open>Checked fields\<close>

definition delivery_positive_int :: "json \<Rightarrow> int res" where
  "delivery_positive_int v = int_at_least 1 (DeliveryError ''must be a positive integer'') v"

definition delivery_did :: "json \<Rightarrow> str res" where
  "delivery_did v = except_raise is_ProtocolValueError (DeliveryError ''delivery DID is invalid'')
     (validate_did_value v)"

definition nonce_as_int :: "json \<Rightarrow> int res" where
  "nonce_as_int v = (case v of
      JInt i \<Rightarrow> bind (except_raise is_ProtocolValueError (DeliveryError ''delivery nonce is invalid'')
                   (validate_nonce (str_of_int i)))
                 (\<lambda>rendered. ret (int (nat_of_str rendered)))
    | _ \<Rightarrow> raise (DeliveryError ''delivery nonce must be a non-negative integer''))"

definition exact_swept_text :: "json \<Rightarrow> str res" where
  "exact_swept_text v =
     bind (as_str (DeliveryError ''delivery text is invalid'') v) (\<lambda>s.
     bind (except_raise is_ProtocolValueError (DeliveryError ''delivery text is invalid'') (sweep_text s)) (\<lambda>swept.
     bind (raise_if (swept \<noteq> s) (DeliveryError ''delivery text is not in canonical swept form'')) (\<lambda>_.
     ret swept)))"

definition delivery_signature :: "json \<Rightarrow> str res" where
  "delivery_signature v =
     bind (as_str (DeliveryError ''delivery signature is invalid'') v) (\<lambda>s.
     bind (raise_if (\<not> match_signature s) (DeliveryError ''delivery signature is invalid'')) (\<lambda>_. ret s))"

definition delivery_digest :: "json \<Rightarrow> str res" where
  "delivery_digest v =
     bind (as_str (DeliveryError ''delivery digest is invalid'') v) (\<lambda>s.
     bind (raise_if (\<not> match_sha256 s) (DeliveryError ''delivery digest is invalid'')) (\<lambda>_. ret s))"

section \<open>The record\<close>

definition verify_for_room :: "lib \<Rightarrow> delivery_record \<Rightarrow> str \<Rightarrow> unit res" where
  "verify_for_room L r room =
     bind (validate_room room) (\<lambda>valid_room.
     bind (raise_if (sha256_of_text L valid_room \<noteq> dr_room_sha256 r)
       (DeliveryError ''delivery journal belongs to a different room'')) (\<lambda>_.
     bind (encode_utf8 (canonical_message valid_room (str_of_int (dr_nonce r)) (dr_text r))) (\<lambda>canonical.
     raise_if (\<not> verify_detached_signature L (dr_did r) canonical (dr_signature r))
       (DeliveryError ''delivery signature is invalid for this room''))))"

definition create_record ::
  "lib \<Rightarrow> str \<Rightarrow> int \<Rightarrow> str \<Rightarrow> int \<Rightarrow> str \<Rightarrow> str \<Rightarrow> delivery_record res" where
  "create_record L room input_sequence did nonce txt signature =
     bind (validate_room room) (\<lambda>valid_room.
     bind (delivery_positive_int (JInt input_sequence)) (\<lambda>input.
     bind (validate_did did) (\<lambda>valid_did.
     bind (nonce_as_int (JInt nonce)) (\<lambda>n.
     bind (exact_swept_text (JStr txt)) (\<lambda>swept.
     bind (delivery_signature (JStr signature)) (\<lambda>sig.
     let r = \<lparr>dr_status = lit ''pending'', dr_room_sha256 = sha256_of_text L valid_room,
       dr_input_sequence = input, dr_did = valid_did, dr_nonce = n, dr_text = swept,
       dr_text_sha256 = sha256_of_text L txt, dr_signature = sig, dr_reply_sequence = None\<rparr> in
     bind (verify_for_room L r valid_room) (\<lambda>_. ret r)))))))"

definition DELIVERY_KEYS :: "string list" where
  "DELIVERY_KEYS = [''schema'', ''status'', ''room_sha256'', ''input_sequence'', ''did'', ''nonce'', ''text'',
     ''text_sha256'', ''signature'', ''reply_sequence'']"

definition reply_sequence_of :: "str \<Rightarrow> json \<Rightarrow> int option res" where
  "reply_sequence_of status v =
     (if status = lit ''pending''
      then bind (raise_if (v \<noteq> JNull) (DeliveryError ''pending delivery must not have a reply sequence'')) (\<lambda>_. ret None)
      else bind (delivery_positive_int v) (\<lambda>i. ret (Some i)))"

definition delivery_status :: "json \<Rightarrow> str res" where
  "delivery_status v =
     bind (in_str_set v [''pending'', ''acknowledged'']) (\<lambda>found.
     bind (raise_if (\<not> found) (DeliveryError ''delivery status must be pending or acknowledged'')) (\<lambda>_.
     as_str (DeliveryError ''delivery status must be pending or acknowledged'') v))"

definition record_of_payload :: "lib \<Rightarrow> json \<Rightarrow> delivery_record res" where
  "record_of_payload L payload =
     bind (as_obj (DeliveryError ''delivery journal has an unsupported schema'') payload) (\<lambda>p.
     bind (raise_if (dget p ''schema'' \<noteq> JStr (lit DELIVERY_SCHEMA))
       (DeliveryError ''delivery journal has an unsupported schema'')) (\<lambda>_.
     bind (raise_if (\<not> keys_are p DELIVERY_KEYS)
       (DeliveryError ''delivery journal contains unexpected fields'')) (\<lambda>_.
     bind (delivery_status (dget p ''status'')) (\<lambda>status.
     bind (delivery_digest (dget p ''room_sha256'')) (\<lambda>room_digest.
     bind (delivery_digest (dget p ''text_sha256'')) (\<lambda>text_digest.
     bind (exact_swept_text (dget p ''text'')) (\<lambda>txt.
     bind (raise_if (sha256_of_text L txt \<noteq> text_digest)
       (DeliveryError ''delivery text digest does not match its payload'')) (\<lambda>_.
     bind (reply_sequence_of status (dget p ''reply_sequence'')) (\<lambda>reply.
     bind (delivery_positive_int (dget p ''input_sequence'')) (\<lambda>input.
     bind (delivery_did (dget p ''did'')) (\<lambda>did.
     bind (nonce_as_int (dget p ''nonce'')) (\<lambda>nonce.
     bind (delivery_signature (dget p ''signature'')) (\<lambda>sig.
     bind (raise_if (case reply of None \<Rightarrow> False | Some i \<Rightarrow> i \<le> input)
       (DeliveryError ''reply sequence must follow the triggering input'')) (\<lambda>_.
     ret \<lparr>dr_status = status, dr_room_sha256 = room_digest, dr_input_sequence = input, dr_did = did,
       dr_nonce = nonce, dr_text = txt, dr_text_sha256 = text_digest, dr_signature = sig,
       dr_reply_sequence = reply\<rparr>))))))))))))))"

definition payload_of_record :: "delivery_record \<Rightarrow> json" where
  "payload_of_record r = JObj
     [(lit ''schema'', JStr (lit DELIVERY_SCHEMA)),
      (lit ''status'', JStr (dr_status r)),
      (lit ''room_sha256'', JStr (dr_room_sha256 r)),
      (lit ''input_sequence'', JInt (dr_input_sequence r)),
      (lit ''did'', JStr (dr_did r)),
      (lit ''nonce'', JInt (dr_nonce r)),
      (lit ''text'', JStr (dr_text r)),
      (lit ''text_sha256'', JStr (dr_text_sha256 r)),
      (lit ''signature'', JStr (dr_signature r)),
      (lit ''reply_sequence'', (case dr_reply_sequence r of None \<Rightarrow> JNull | Some i \<Rightarrow> JInt i))]"

definition acknowledge_record :: "int \<Rightarrow> delivery_record \<Rightarrow> delivery_record res" where
  "acknowledge_record reply_sequence r =
     bind (delivery_positive_int (JInt reply_sequence)) (\<lambda>sequence.
     bind (raise_if (sequence \<le> dr_input_sequence r)
       (DeliveryError ''reply sequence must follow the triggering input'')) (\<lambda>_.
     if dr_status r = lit ''acknowledged''
     then bind (raise_if (dr_reply_sequence r \<noteq> Some sequence)
            (DeliveryError ''delivery already has a different acknowledgement'')) (\<lambda>_. ret r)
     else ret (r\<lparr>dr_status := lit ''acknowledged'', dr_reply_sequence := Some sequence\<rparr>)))"

definition record_matches :: "delivery_record \<Rightarrow> room_message \<Rightarrow> bool" where
  "record_matches r m \<longleftrightarrow> msg_sender m = dr_did r \<and> msg_nonce m = Some (str_of_int (dr_nonce r))
     \<and> msg_text m = dr_text r"

section \<open>The journal file\<close>

definition record_body :: "delivery_record \<Rightarrow> body" where
  "record_body r = Text (json_text_size (payload_of_record r)) (Doc (payload_of_record r))"

definition decode_journal :: "lib \<Rightarrow> inode \<Rightarrow> delivery_record res" where
  "decode_journal L f =
     bind (raise_if (group_or_other f)
       (DeliveryError ''delivery journal permissions must not allow group or other access'')) (\<lambda>_.
     bind (parse_text (DeliveryError ''cannot read delivery journal'') (body_doc (contents f))) (\<lambda>payload.
     record_of_payload L payload))"

definition load_journal :: "env \<Rightarrow> lib \<Rightarrow> path \<Rightarrow> delivery_record option io" where
  "load_journal E L p = ibind (exists_path p) (\<lambda>there.
     if \<not> there then iret None
     else ibind (on_error is_OSError (\<lambda>_. iraise (DeliveryError ''cannot read delivery journal'')) (read_file E p)) (\<lambda>f.
          ibind (lift (decode_journal L f)) (\<lambda>r. iret (Some r))))"

definition require_empty :: "env \<Rightarrow> lib \<Rightarrow> path \<Rightarrow> unit io" where
  "require_empty E L p = ibind (load_journal E L p) (\<lambda>r.
     iraise_if (r \<noteq> None)
       (DeliveryError ''a pending delivery requires recover-delivery before live sending''))"

definition write_record :: "env \<Rightarrow> path \<Rightarrow> delivery_record \<Rightarrow> unit io" where
  "write_record E p r = atomic_write E (DeliveryError ''cannot write delivery journal'') p (record_body r)"

definition prepare_journal :: "env \<Rightarrow> path \<Rightarrow> delivery_record \<Rightarrow> unit io" where
  "prepare_journal E p r = ibind (exists_path p) (\<lambda>there.
     ibind (iraise_if there
       (DeliveryError ''a pending delivery already exists; run recover-delivery first'')) (\<lambda>_.
     write_record E p r))"

definition acknowledge_journal :: "env \<Rightarrow> lib \<Rightarrow> path \<Rightarrow> int \<Rightarrow> delivery_record io" where
  "acknowledge_journal E L p reply_sequence = ibind (load_journal E L p) (\<lambda>loaded. case loaded of
      None \<Rightarrow> iraise (DeliveryError ''cannot acknowledge a missing delivery journal'')
    | Some r \<Rightarrow> ibind (lift (acknowledge_record reply_sequence r)) (\<lambda>acknowledged.
        ibind (write_record E p acknowledged) (\<lambda>_. iret acknowledged)))"

definition clear_journal :: "env \<Rightarrow> path \<Rightarrow> unit io" where
  "clear_journal E p = unlink_synced E (DeliveryError ''cannot clear delivery journal'') p"

section \<open>Records survive the file\<close>

definition record_ok :: "lib \<Rightarrow> delivery_record \<Rightarrow> bool" where
  "record_ok L r \<longleftrightarrow> dr_status r \<in> {lit ''pending'', lit ''acknowledged''}
     \<and> (dr_reply_sequence r = None \<longleftrightarrow> dr_status r = lit ''pending'')
     \<and> (\<forall>i. dr_reply_sequence r = Some i \<longrightarrow> dr_input_sequence r < i)
     \<and> match_sha256 (dr_room_sha256 r) \<and> match_sha256 (dr_text_sha256 r)
     \<and> dr_text_sha256 r = sha256_of_text L (dr_text r) \<and> sweep_text (dr_text r) = Inr (dr_text r)
     \<and> 0 < dr_input_sequence r \<and> match_did (dr_did r) \<and> 0 \<le> dr_nonce r
     \<and> match_nonce (str_of_int (dr_nonce r)) \<and> match_signature (dr_signature r)"

lemma sha256_of_text_ok: "sha256_ok L \<Longrightarrow> match_sha256 (sha256_of_text L s)"
  by (simp add: sha256_ok_def match_sha256_def sha256_of_text_def)

lemma delivery_positive_int_Inr [simp, res_simps]: "delivery_positive_int v = Inr i \<longleftrightarrow> v = JInt i \<and> 1 \<le> i"
  by (auto simp: delivery_positive_int_def)

lemma delivery_did_Inr [simp, res_simps]: "delivery_did v = Inr d \<longleftrightarrow> v = JStr d \<and> match_did d"
  by (auto simp: delivery_did_def)

lemma negative_nonce: "i < 0 \<Longrightarrow> \<not> match_nonce (str_of_int i)"
  by (auto simp: match_nonce_def str_of_int_def is_digit_def)

lemma nonce_as_int_Inr [simp, res_simps]:
  "nonce_as_int v = Inr n \<longleftrightarrow> v = JInt n \<and> 0 \<le> n \<and> match_nonce (str_of_int n)"
proof -
  have "int (nat_of_str (str_of_int i)) = i" if "0 \<le> i" for i
    using that by (simp add: str_of_int_def)
  moreover have "0 \<le> i" if "match_nonce (str_of_int i)" for i
    using negative_nonce that not_less by blast
  ultimately show ?thesis by (cases v) (auto simp: nonce_as_int_def res_simps)
qed

lemma exact_swept_text_Inr [simp, res_simps]:
  "exact_swept_text v = Inr s \<longleftrightarrow> v = JStr s \<and> sweep_text s = Inr s"
  by (auto simp: exact_swept_text_def res_simps)

lemma delivery_signature_Inr [simp, res_simps]:
  "delivery_signature v = Inr s \<longleftrightarrow> v = JStr s \<and> match_signature s"
  by (auto simp: delivery_signature_def res_simps)

lemma delivery_digest_Inr [simp, res_simps]: "delivery_digest v = Inr s \<longleftrightarrow> v = JStr s \<and> match_sha256 s"
  by (auto simp: delivery_digest_def res_simps)

lemma delivery_status_Inr [simp, res_simps]:
  "delivery_status v = Inr s \<longleftrightarrow> v = JStr s \<and> s \<in> {lit ''pending'', lit ''acknowledged''}"
  by (cases v) (auto simp: delivery_status_def res_simps)

lemma reply_sequence_of_Inr [simp, res_simps]:
  "reply_sequence_of st v = Inr r \<longleftrightarrow>
     (if st = lit ''pending'' then v = JNull \<and> r = None else \<exists>i. v = JInt i \<and> 1 \<le> i \<and> r = Some i)"
  by (auto simp: reply_sequence_of_def res_simps)

lemma record_payload_dget:
  "payload_of_record r = JObj p \<Longrightarrow> dget p ''schema'' = JStr (lit DELIVERY_SCHEMA)
     \<and> dget p ''status'' = JStr (dr_status r) \<and> dget p ''room_sha256'' = JStr (dr_room_sha256 r)
     \<and> dget p ''input_sequence'' = JInt (dr_input_sequence r) \<and> dget p ''did'' = JStr (dr_did r)
     \<and> dget p ''nonce'' = JInt (dr_nonce r) \<and> dget p ''text'' = JStr (dr_text r)
     \<and> dget p ''text_sha256'' = JStr (dr_text_sha256 r) \<and> dget p ''signature'' = JStr (dr_signature r)
     \<and> dget p ''reply_sequence'' = (case dr_reply_sequence r of None \<Rightarrow> JNull | Some i \<Rightarrow> JInt i)
     \<and> keys_are p DELIVERY_KEYS"
  by (auto simp: payload_of_record_def dget_def keys_are_def DELIVERY_KEYS_def)

lemma record_of_payload_of_record:
  assumes "record_ok L r"
  shows "record_of_payload L (payload_of_record r) = Inr r"
proof -
  obtain p where p: "payload_of_record r = JObj p" by (simp add: payload_of_record_def)
  note d = record_payload_dget [OF p]
  have "reply_sequence_of (dr_status r) (case dr_reply_sequence r of None \<Rightarrow> JNull | Some i \<Rightarrow> JInt i)
      = Inr (dr_reply_sequence r)"
    using assms by (cases "dr_reply_sequence r") (auto simp: record_ok_def)
  moreover have "\<not> (case dr_reply_sequence r of None \<Rightarrow> False | Some i \<Rightarrow> i \<le> dr_input_sequence r)"
    using assms by (auto simp: record_ok_def split: option.splits)
  moreover have "delivery_status (JStr (dr_status r)) = Inr (dr_status r)"
    "delivery_digest (JStr (dr_room_sha256 r)) = Inr (dr_room_sha256 r)"
    "delivery_digest (JStr (dr_text_sha256 r)) = Inr (dr_text_sha256 r)"
    "exact_swept_text (JStr (dr_text r)) = Inr (dr_text r)"
    "sha256_of_text L (dr_text r) = dr_text_sha256 r"
    "delivery_positive_int (JInt (dr_input_sequence r)) = Inr (dr_input_sequence r)"
    "delivery_did (JStr (dr_did r)) = Inr (dr_did r)" "nonce_as_int (JInt (dr_nonce r)) = Inr (dr_nonce r)"
    "delivery_signature (JStr (dr_signature r)) = Inr (dr_signature r)"
    using assms by (auto simp: record_ok_def)
  ultimately show ?thesis
    by (simp add: record_of_payload_def p d del: delivery_status_Inr delivery_digest_Inr
        exact_swept_text_Inr reply_sequence_of_Inr delivery_positive_int_Inr delivery_did_Inr
        nonce_as_int_Inr delivery_signature_Inr)
qed

lemma record_of_payload_ok:
  assumes "record_of_payload L v = Inr r"
  shows "record_ok L r"
proof -
  from assms obtain p where p: "v = JObj p" by (auto simp: record_of_payload_def res_simps)
  from assms obtain status room tdig tx reply input did nonce sg where
    f: "delivery_status (dget p ''status'') = Inr status" "delivery_digest (dget p ''room_sha256'') = Inr room"
      "delivery_digest (dget p ''text_sha256'') = Inr tdig" "exact_swept_text (dget p ''text'') = Inr tx"
      "sha256_of_text L tx = tdig" "reply_sequence_of status (dget p ''reply_sequence'') = Inr reply"
      "delivery_positive_int (dget p ''input_sequence'') = Inr input" "delivery_did (dget p ''did'') = Inr did"
      "nonce_as_int (dget p ''nonce'') = Inr nonce" "delivery_signature (dget p ''signature'') = Inr sg"
      "\<not> (case reply of None \<Rightarrow> False | Some i \<Rightarrow> i \<le> input)"
    and r: "r = \<lparr>dr_status = status, dr_room_sha256 = room, dr_input_sequence = input, dr_did = did,
       dr_nonce = nonce, dr_text = tx, dr_text_sha256 = tdig, dr_signature = sg, dr_reply_sequence = reply\<rparr>"
    unfolding record_of_payload_def p bind_eq_Inr raise_if_eq_Inr as_simps sum.inject by blast
  show ?thesis unfolding r record_ok_def using f by (auto split: if_splits option.splits)
qed

lemma loads_payload_of_record: "loads (payload_of_record r) = payload_of_record r"
  by (rule loads_no_duplicates) (simp add: payload_of_record_def split: option.splits)

lemma decode_written_record:
  "record_ok L r \<Longrightarrow> decode_journal L (fresh_file (record_body r)) = Inr r"
  by (simp add: decode_journal_def group_or_other_def fresh_file_def record_body_def parse_text_def
      loads_payload_of_record record_of_payload_of_record)

lemma create_record_Inr:
  assumes "create_record L room i did n txt sig = Inr r"
  shows "r = \<lparr>dr_status = lit ''pending'', dr_room_sha256 = sha256_of_text L room, dr_input_sequence = i,
       dr_did = did, dr_nonce = n, dr_text = txt, dr_text_sha256 = sha256_of_text L txt,
       dr_signature = sig, dr_reply_sequence = None\<rparr>"
    and "sha256_ok L \<Longrightarrow> record_ok L r" and "verify_for_room L r room = Inr ()"
  using assms by (auto simp: create_record_def Let_def res_simps record_ok_def sha256_of_text_ok)

lemma acknowledge_record_Inr:
  "acknowledge_record i r = Inr r' \<longleftrightarrow> 1 \<le> i \<and> dr_input_sequence r < i \<and>
     (if dr_status r = lit ''acknowledged'' then dr_reply_sequence r = Some i \<and> r' = r
      else r' = r\<lparr>dr_status := lit ''acknowledged'', dr_reply_sequence := Some i\<rparr>)"
  by (auto simp: acknowledge_record_def res_simps)

lemma acknowledge_record_ok: "record_ok L r \<Longrightarrow> acknowledge_record i r = Inr r' \<Longrightarrow> record_ok L r'"
  by (auto simp: acknowledge_record_Inr record_ok_def split: if_splits)

section \<open>What the operations do to the file\<close>

lemma still_load_journal: "still.grows (load_journal E L p)"
  unfolding load_journal_def by (auto intro!: still.grows_intros)

lemma load_journal_wp:
  assumes "\<And>r w'. untouched w w' \<Longrightarrow> fs w p = None \<Longrightarrow> Q None w'"
    and "\<And>f r w'. untouched w w' \<Longrightarrow> fs w p = Some f \<Longrightarrow> decode_journal L f = Inr r \<Longrightarrow> Q (Some r) w'"
    and "\<And>e w'. untouched w w' \<Longrightarrow> R e w'"
  shows "wp (load_journal E L p) Q R w"
  using assms
  by (auto simp: load_journal_def read_file_def wp_simps untouched_def split: io_fault.splits sum.splits)

lemma require_empty_wp:
  assumes "\<And>w'. untouched w w' \<Longrightarrow> fs w p = None \<Longrightarrow> Q () w'" and "\<And>e w'. untouched w w' \<Longrightarrow> R e w'"
  shows "wp (require_empty E L p) Q R w"
  unfolding require_empty_def wp_simps
  by (rule load_journal_wp) (use assms in \<open>auto simp: raise_if_def wp_simps\<close>)

interpretation record_written:
  durable "write_record E p r" p "Some (fresh_file (record_body r))"
    "{DeliveryError ''cannot write delivery journal'', OSError, Killed}"
  for E p r
  by unfold_locales (unfold write_record_def, rule replaced.op_wp)

interpretation journal_cleared:
  durable "clear_journal E p" p None "{DeliveryError ''cannot clear delivery journal'', Killed}"
  for E p
  by unfold_locales (unfold clear_journal_def, rule unlinked.op_wp)

end
