(* ===== verification/Audit_Log.thy ===== *)
theory Audit_Log
  imports Delivery Timestamp
begin

text \<open>
  \<open>audit.py\<close>: the signed, hash-chained log of decisions. The checks of a payload, the verification
  of a record and of a whole log, and \<open>append\<close>, which verifies what is there before it adds one
  signed record. A line of the log is modelled by its length and its parse; the line \<open>append\<close>
  writes is the canonical text of the wrapper, so it parses to the wrapper with its keys sorted.
  The lemmas show that appending extends a verified log to a verified log, and that a write cut
  short leaves a log every later operation refuses.
\<close>

definition AUDIT_SCHEMA :: string where "AUDIT_SCHEMA = ''technocore-safe-agent-audit-v1''"
definition GENESIS_HASH :: str where "GENESIS_HASH = replicate 64 48"
definition MAX_AUDIT_BYTES :: nat where "MAX_AUDIT_BYTES = 16 * 1024 * 1024"
definition MAX_AUDIT_LINE_BYTES :: nat where "MAX_AUDIT_LINE_BYTES = 16 * 1024"

definition POLICY_DECISIONS :: "string list" where
  "POLICY_DECISIONS = [''ignore'', ''reply'', ''receipt'']"

definition OUTCOMES :: "string list" where
  "OUTCOMES = [''ignore'', ''sent'', ''receipt_failed'', ''sent_receipt'']"

definition PAYLOAD_KEYS :: "string list" where
  "PAYLOAD_KEYS = [''schema'', ''audit_sequence'', ''issuer'', ''observed_at'', ''input_sequence'',
     ''sender_fingerprint'', ''sender_authenticated'', ''policy_decision'', ''policy_reason'', ''outcome'',
     ''receipt_sha256'', ''response_sequence'', ''previous_entry_sha256'']"

definition WRAPPER_KEYS :: "string list" where
  "WRAPPER_KEYS = [''payload'', ''payload_sha256'', ''signature'']"

record audit_summary =
  entries :: nat
  issuer :: "str option"
  head_sha256 :: str

section \<open>Checking a payload\<close>

definition match_fingerprint :: "str \<Rightarrow> bool" where   \<comment> \<open>\<open>[0-9a-f]{16}\<close>\<close>
  "match_fingerprint s \<longleftrightarrow> length s = 16 \<and> list_all is_hex_lower s"

definition match_token :: "str \<Rightarrow> bool" where   \<comment> \<open>\<open>[a-z][a-z0-9_]{0,63}\<close>\<close>
  "match_token s \<longleftrightarrow> s \<noteq> [] \<and> length s \<le> 64 \<and> is_lower (hd s)
     \<and> list_all (\<lambda>c. is_lower c \<or> is_digit c \<or> c = 95) (tl s)"

definition audit_positive_int :: "json \<Rightarrow> int res" where
  "audit_positive_int v = int_at_least 1 (AuditError ''must be a positive integer'') v"

definition audit_did :: "json \<Rightarrow> str res" where
  "audit_did v = except_raise is_ProtocolValueError (AuditError ''audit issuer DID is invalid'')
     (validate_did_value v)"

definition audit_timestamp :: "json \<Rightarrow> str res" where
  "audit_timestamp v =
     bind (as_str (AuditError ''audit timestamp is invalid'') v) (\<lambda>s.
     bind (raise_if (\<not> match_timestamp s \<or> \<not> strptime_accepts s)
       (AuditError ''audit timestamp is invalid'')) (\<lambda>_. ret s))"

definition audit_sha256 :: "json \<Rightarrow> str res" where
  "audit_sha256 v =
     bind (as_str (AuditError ''hash is invalid'') v) (\<lambda>s.
     bind (raise_if (\<not> match_sha256 s) (AuditError ''hash is invalid'')) (\<lambda>_. ret s))"

definition validate_sender :: "pairs \<Rightarrow> unit res" where
  "validate_sender p =
     bind (as_bool (AuditError ''sender_authenticated must be boolean'') (dget p ''sender_authenticated'')) (\<lambda>auth.
     if auth then
       bind (as_str (AuditError ''authenticated sender fingerprint is invalid'') (dget p ''sender_fingerprint'')) (\<lambda>f.
       raise_if (\<not> match_fingerprint f) (AuditError ''authenticated sender fingerprint is invalid''))
     else raise_if (dget p ''sender_fingerprint'' \<noteq> JNull)
       (AuditError ''unauthenticated sender must not have a DID fingerprint''))"

definition validate_outcome :: "json \<Rightarrow> json \<Rightarrow> json \<Rightarrow> json \<Rightarrow> unit res" where
  "validate_outcome decision outcome receipt_hash response_sequence =
     raise_if (\<not> (
         decision = JStr (lit ''ignore'') \<and> outcome = JStr (lit ''ignore'') \<and> receipt_hash = JNull \<and> response_sequence = JNull
       \<or> decision = JStr (lit ''reply'') \<and> outcome = JStr (lit ''sent'') \<and> receipt_hash = JNull \<and> response_sequence \<noteq> JNull
       \<or> decision = JStr (lit ''receipt'') \<and> outcome = JStr (lit ''receipt_failed'') \<and> receipt_hash = JNull \<and> response_sequence = JNull
       \<or> decision = JStr (lit ''receipt'') \<and> outcome = JStr (lit ''sent_receipt'') \<and> receipt_hash \<noteq> JNull \<and> response_sequence \<noteq> JNull))
     (AuditError ''audit decision and outcome fields are inconsistent'')"

definition audit_member :: "exc \<Rightarrow> string list \<Rightarrow> json \<Rightarrow> unit res" where
  "audit_member e S v = bind (in_str_set v S) (\<lambda>found. raise_if (\<not> found) e)"

definition validate_decision :: "pairs \<Rightarrow> unit res" where
  "validate_decision p =
     bind (audit_member (AuditError ''audit policy decision is invalid'') POLICY_DECISIONS (dget p ''policy_decision'')) (\<lambda>_.
     bind (as_str (AuditError ''audit policy reason is invalid'') (dget p ''policy_reason'')) (\<lambda>rsn.
     bind (raise_if (\<not> match_token rsn) (AuditError ''audit policy reason is invalid'')) (\<lambda>_.
     bind (audit_member (AuditError ''audit outcome is invalid'') OUTCOMES (dget p ''outcome'')) (\<lambda>_.
     bind (if dget p ''receipt_sha256'' \<noteq> JNull
           then bind (audit_sha256 (dget p ''receipt_sha256'')) (\<lambda>_. ret ()) else ret ()) (\<lambda>_.
     bind (if dget p ''response_sequence'' \<noteq> JNull
           then bind (audit_positive_int (dget p ''response_sequence'')) (\<lambda>_. ret ()) else ret ()) (\<lambda>_.
     validate_outcome (dget p ''policy_decision'') (dget p ''outcome'') (dget p ''receipt_sha256'')
       (dget p ''response_sequence'')))))))"

definition validate_payload :: "pairs \<Rightarrow> unit res" where
  "validate_payload p =
     bind (raise_if (\<not> keys_are p PAYLOAD_KEYS \<or> dget p ''schema'' \<noteq> JStr (lit AUDIT_SCHEMA))
       (AuditError ''audit payload has unexpected fields or schema'')) (\<lambda>_.
     bind (audit_positive_int (dget p ''audit_sequence'')) (\<lambda>_.
     bind (audit_positive_int (dget p ''input_sequence'')) (\<lambda>_.
     bind (audit_did (dget p ''issuer'')) (\<lambda>_.
     bind (audit_timestamp (dget p ''observed_at'')) (\<lambda>_.
     bind (audit_sha256 (dget p ''previous_entry_sha256'')) (\<lambda>_.
     bind (validate_sender p) (\<lambda>_. validate_decision p)))))))"

section \<open>Verifying a log\<close>

definition entry_hash :: "lib \<Rightarrow> json \<Rightarrow> str" where
  "entry_hash L wrapper = sha256_hex L (canonical_json (float_repr L) wrapper)"

definition verify_wrapper_signature :: "lib \<Rightarrow> pairs \<Rightarrow> pairs \<Rightarrow> unit res" where
  "verify_wrapper_signature L wrapper payload =
     (let canonical = canonical_json (float_repr L) (JObj payload) in
     bind (raise_if (dget wrapper ''payload_sha256'' \<noteq> JStr (sha256_hex L canonical))
       (AuditError ''audit payload hash does not match'')) (\<lambda>_.
     bind (as_str (AuditError ''audit signature is not canonical base64url'') (dget wrapper ''signature'')) (\<lambda>sig.
     bind (raise_if (\<not> match_canonical_signature sig)
       (AuditError ''audit signature is not canonical base64url'')) (\<lambda>_.
     bind (as_str (AuditError ''audit issuer DID is invalid'') (dget payload ''issuer'')) (\<lambda>did.
     raise_if (\<not> verify_detached_signature L did canonical sig)
       (AuditError ''audit signature does not match its issuer''))))))"

definition decode_audit_line :: "doc \<Rightarrow> json res" where
  "decode_audit_line d = (case d of
      Doc v \<Rightarrow> loads_strict (AuditError ''audit record contains a duplicate JSON key'') v
    | TooDeep \<Rightarrow> raise RecursionError
    | _ \<Rightarrow> raise (AuditError ''audit record is not valid JSON''))"

definition verify_line ::
  "lib \<Rightarrow> nat \<times> doc \<Rightarrow> nat \<Rightarrow> str \<Rightarrow> str option \<Rightarrow> (str \<times> str) res" where
  "verify_line L line expected_sequence expected_previous expected_issuer =
     bind (raise_if (fst line = 0 \<or> MAX_AUDIT_LINE_BYTES < fst line)
       (AuditError ''audit log contains an empty or oversized record'')) (\<lambda>_.
     bind (decode_audit_line (snd line)) (\<lambda>decoded.
     bind (as_obj (AuditError ''audit record wrapper has unexpected fields'') decoded) (\<lambda>wrapper.
     bind (raise_if (\<not> keys_are wrapper WRAPPER_KEYS)
       (AuditError ''audit record wrapper has unexpected fields'')) (\<lambda>_.
     bind (as_obj (AuditError ''audit record payload must be an object'') (dget wrapper ''payload'')) (\<lambda>payload.
     bind (validate_payload payload) (\<lambda>_.
     bind (raise_if (dget payload ''audit_sequence'' \<noteq> JInt (int expected_sequence))
       (AuditError ''audit sequence is not contiguous'')) (\<lambda>_.
     bind (raise_if (dget payload ''previous_entry_sha256'' \<noteq> JStr expected_previous)
       (AuditError ''audit previous-entry hash does not match'')) (\<lambda>_.
     bind (as_str (AuditError ''audit issuer DID is invalid'') (dget payload ''issuer'')) (\<lambda>did.
     bind (raise_if (case expected_issuer of None \<Rightarrow> False | Some i \<Rightarrow> did \<noteq> i)
       (AuditError ''audit issuer changes inside one log'')) (\<lambda>_.
     bind (verify_wrapper_signature L wrapper payload) (\<lambda>_.
     ret (did, entry_hash L (JObj wrapper)))))))))))))"

fun verify_lines ::
  "lib \<Rightarrow> (nat \<times> doc) list \<Rightarrow> nat \<Rightarrow> str \<Rightarrow> str option \<Rightarrow> (str option \<times> str) res" where
  "verify_lines L [] n prev iss = ret (iss, prev)"
| "verify_lines L (line # ls) n prev iss =
     bind (verify_line L line n prev iss) (\<lambda>(did, h). verify_lines L ls (Suc n) h (Some did))"

text \<open>A file that was not written by \<open>append\<close> is one line of its own.\<close>

fun log_of_body :: "body \<Rightarrow> nat \<times> (nat \<times> doc) list \<times> bool" where
  "log_of_body (Lines n ls nl) = (n, ls, nl)"
| "log_of_body (Text n d) = (n, [(n - 1, d)], True)"

definition verify_body :: "lib \<Rightarrow> body \<Rightarrow> audit_summary res" where
  "verify_body L b =
     (let (n, ls, nl) = log_of_body b in
      if n = 0 then ret \<lparr>entries = 0, issuer = None, head_sha256 = GENESIS_HASH\<rparr>
      else bind (raise_if (\<not> nl) (AuditError ''audit log ends with a partial JSONL record'')) (\<lambda>_.
           bind (verify_lines L ls 1 GENESIS_HASH None) (\<lambda>(iss, h).
           ret \<lparr>entries = length ls, issuer = iss, head_sha256 = h\<rparr>)))"

section \<open>The file\<close>

text \<open>
  Opening for append creates the file (mode 0600) and locks it. Stage 0 fails or dies before the
  file exists. Every \<open>OSError\<close>, the one of \<open>mkdir\<close> included, becomes an \<open>AuditError\<close>.
\<close>

definition open_log :: "env \<Rightarrow> path \<Rightarrow> inode io" where
  "open_log E p = ibind (ask (fault E)) (\<lambda>flt. ibind (iget (\<lambda>w. fs w p)) (\<lambda>f.
     let opened = (case f of Some g \<Rightarrow> g | None \<Rightarrow> fresh_file (Lines 0 [] True)) in
     case flt of
       Fine \<Rightarrow> ibind (set_file p (Some opened)) (\<lambda>_. iret opened)
     | Fail n \<Rightarrow> ibind (iwhen (0 < n) (set_file p (Some opened))) (\<lambda>_. iraise (AuditError ''cannot access audit log''))
     | Kill n \<Rightarrow> ibind (iwhen (0 < n) (set_file p (Some opened))) (\<lambda>_. iraise Killed)))"

definition check_log_file :: "inode \<Rightarrow> unit res" where
  "check_log_file f =
     bind (raise_if (\<not> regular f) (AuditError ''audit path must be a regular file'')) (\<lambda>_.
     bind (raise_if (group_or_other f)
       (AuditError ''audit log permissions must not allow group or other access'')) (\<lambda>_.
     raise_if (MAX_AUDIT_BYTES < body_size (contents f))
       (AuditError ''audit log exceeds the 16 MiB safety limit'')))"

text \<open>The body after \<open>j\<close> bytes of a line of \<open>k\<close> bytes and its newline were written at the end.\<close>

definition appended :: "body \<Rightarrow> nat \<Rightarrow> doc \<Rightarrow> nat \<Rightarrow> body" where
  "appended b k d j = (let (n, ls, nl) = log_of_body b in
     if j = 0 then b
     else if j \<le> k then Lines (n + j) ((if n = 0 then [] else ls) @ [(j, if j = k then d else NotJson)]) False
     else Lines (n + k + 1) ((if n = 0 then [] else ls) @ [(k, d)]) True)"

text \<open>\<open>_write_all\<close> and the syncs: a failure or a death after \<open>j\<close> bytes leaves those bytes.\<close>

definition append_line :: "env \<Rightarrow> path \<Rightarrow> inode \<Rightarrow> nat \<Rightarrow> doc \<Rightarrow> unit io" where
  "append_line E p f k d = ibind (ask (fault E)) (\<lambda>flt.
     let after = (\<lambda>j. set_file p (Some (f\<lparr>contents := appended (contents f) k d j\<rparr>))) in
     case flt of
       Fine \<Rightarrow> after (Suc k)
     | Fail j \<Rightarrow> ibind (after j) (\<lambda>_. iraise (AuditError ''cannot append audit record''))
     | Kill j \<Rightarrow> ibind (after j) (\<lambda>_. iraise Killed))"

section \<open>Appending a record\<close>

record audit_entry =
  ae_input_sequence :: int
  ae_sender_fingerprint :: "str option"
  ae_sender_authenticated :: bool
  ae_decision :: string
  ae_reason :: string
  ae_outcome :: string
  ae_receipt_sha256 :: "str option"
  ae_response_sequence :: "int option"

definition json_opt :: "('a \<Rightarrow> json) \<Rightarrow> 'a option \<Rightarrow> json" where
  "json_opt f x = (case x of None \<Rightarrow> JNull | Some y \<Rightarrow> f y)"

definition audit_payload :: "audit_summary \<Rightarrow> str \<Rightarrow> utc_time \<Rightarrow> audit_entry \<Rightarrow> pairs" where
  "audit_payload summary did observed_at e =
     [(lit ''schema'', JStr (lit AUDIT_SCHEMA)),
      (lit ''audit_sequence'', JInt (int (entries summary) + 1)),
      (lit ''issuer'', JStr did),
      (lit ''observed_at'', JStr (format_timestamp observed_at)),
      (lit ''input_sequence'', JInt (ae_input_sequence e)),
      (lit ''sender_fingerprint'', json_opt JStr (ae_sender_fingerprint e)),
      (lit ''sender_authenticated'', JBool (ae_sender_authenticated e)),
      (lit ''policy_decision'', JStr (lit (ae_decision e))),
      (lit ''policy_reason'', JStr (lit (ae_reason e))),
      (lit ''outcome'', JStr (lit (ae_outcome e))),
      (lit ''receipt_sha256'', json_opt JStr (ae_receipt_sha256 e)),
      (lit ''response_sequence'', json_opt JInt (ae_response_sequence e)),
      (lit ''previous_entry_sha256'', JStr (head_sha256 summary))]"

text \<open>The signed wrapper for a verified log, or the reason there is none.\<close>

definition audit_wrapper ::
  "lib \<Rightarrow> body \<Rightarrow> str \<Rightarrow> bytes \<Rightarrow> utc_time \<Rightarrow> audit_entry \<Rightarrow> json res" where
  "audit_wrapper L b did key observed_at e =
     bind (verify_body L b) (\<lambda>summary.
     bind (raise_if (case issuer summary of None \<Rightarrow> False | Some i \<Rightarrow> i \<noteq> did)
       (AuditError ''audit log already belongs to a different issuer'')) (\<lambda>_.
     let payload = audit_payload summary did observed_at e in
     bind (validate_payload payload) (\<lambda>_.
     let canonical = canonical_json (float_repr L) (JObj payload) in
     bind (sign_detached L key canonical) (\<lambda>sig.
     ret (JObj [(lit ''payload'', JObj payload), (lit ''payload_sha256'', JStr (sha256_hex L canonical)),
       (lit ''signature'', JStr sig)])))))"

definition append_audit ::
  "env \<Rightarrow> lib \<Rightarrow> path \<Rightarrow> str \<Rightarrow> bytes \<Rightarrow> utc_time \<Rightarrow> audit_entry \<Rightarrow> str io" where
  "append_audit E L p issuer_did key observed_at e =
     ibind (lift (audit_did (JStr issuer_did))) (\<lambda>did.
     ibind (lift (did_from_private_key L key)) (\<lambda>own.
     ibind (iraise_if (own \<noteq> did) (AuditError ''audit signing key does not match its issuer DID'')) (\<lambda>_.
     ibind (open_log E p) (\<lambda>f.
     ibind (lift (check_log_file f)) (\<lambda>_.
     ibind (lift (audit_wrapper L (contents f) did key observed_at e)) (\<lambda>wrapper.
     let rendered = canonical_json (float_repr L) wrapper in
     ibind (iraise_if (MAX_AUDIT_LINE_BYTES < length rendered + 1)
       (AuditError ''audit entry exceeds the 16 KiB line limit'')) (\<lambda>_.
     ibind (iraise_if (MAX_AUDIT_BYTES < body_size (contents f) + length rendered + 1)
       (AuditError ''audit log exceeds the 16 MiB safety limit'')) (\<lambda>_.
     ibind (append_line E p f (length rendered) (Doc (sort_keys wrapper))) (\<lambda>_.
     iret (entry_hash L wrapper))))))))))"

definition verify_audit :: "env \<Rightarrow> lib \<Rightarrow> path \<Rightarrow> str option \<Rightarrow> audit_summary io" where
  "verify_audit E L p expected_head = ibind (exists_path p) (\<lambda>there.
     ibind (iraise_if (\<not> there) (AuditError ''audit log does not exist'')) (\<lambda>_.
     ibind (on_error is_OSError (\<lambda>_. iraise (AuditError ''cannot access audit log'')) (read_file E p)) (\<lambda>f.
     ibind (lift (check_log_file f)) (\<lambda>_.
     ibind (lift (verify_body L (contents f))) (\<lambda>summary.
     ibind (case expected_head of None \<Rightarrow> iret () | Some h \<Rightarrow>
         ibind (lift (audit_sha256 (JStr h))) (\<lambda>_.
         iraise_if (head_sha256 summary \<noteq> h)
           (AuditError ''audit head does not match the expected checkpoint''))) (\<lambda>_.
     iret summary))))))"

section \<open>Key order does not matter\<close>

lemma validate_payload_same:
  assumes "same_dict p q"
  shows "validate_payload p = validate_payload q"
proof -
  note d = same_dict_dget [OF assms]
  have "validate_sender p = validate_sender q" "validate_decision p = validate_decision q"
    unfolding validate_sender_def validate_decision_def d by (rule refl)+
  then show ?thesis unfolding validate_payload_def d same_dict_keys_are [OF assms] by simp
qed

lemma verify_wrapper_signature_same:
  assumes "same_dict w w'" and "same_dict p p'"
    and "canonical_json (float_repr L) (JObj p) = canonical_json (float_repr L) (JObj p')"
  shows "verify_wrapper_signature L w p = verify_wrapper_signature L w' p'"
  unfolding verify_wrapper_signature_def assms(3) same_dict_dget [OF assms(1)] same_dict_dget [OF assms(2)]
  by (rule refl)

section \<open>Appending extends a verified log\<close>

lemma verify_lines_append:
  "verify_lines L (ls @ ls') n prev iss =
     bind (verify_lines L ls n prev iss) (\<lambda>(iss', h). verify_lines L ls' (n + length ls) h iss')"
proof (induction ls arbitrary: n prev iss)
  case (Cons l ls)
  show ?case by (cases "verify_line L l n prev iss") (auto simp: Cons.IH split: prod.splits)
qed simp

lemma verify_body_Inr:
  "verify_body L b = Inr s \<longleftrightarrow> (\<exists>n ls nl. log_of_body b = (n, ls, nl) \<and>
     (if n = 0 then s = \<lparr>entries = 0, issuer = None, head_sha256 = GENESIS_HASH\<rparr>
      else nl \<and> entries s = length ls \<and> verify_lines L ls 1 GENESIS_HASH None = Inr (issuer s, head_sha256 s)))"
  by (cases "log_of_body b") (auto simp: verify_body_def res_simps)

lemma audit_payload_dget:
  "dget (audit_payload s did t e) ''audit_sequence'' = JInt (int (entries s) + 1)"
  "dget (audit_payload s did t e) ''previous_entry_sha256'' = JStr (head_sha256 s)"
  "dget (audit_payload s did t e) ''issuer'' = JStr did"
  by (simp_all add: dget_def audit_payload_def)

lemma audit_payload_distinct: "distinct (map fst (audit_payload s did t e))"
  by (simp add: audit_payload_def)

lemma sort_keys_scalar: "sort_keys (JStr s) = JStr s" "sort_keys (json_opt JStr x) = json_opt JStr x"
  "sort_keys (json_opt JInt y) = json_opt JInt y"
  by (simp_all add: json_opt_def split: option.splits)

lemma sort_keys_audit_payload:
  "sort_keys (JObj (audit_payload s did t e)) = JObj (sort_key fst (audit_payload s did t e))"
proof -
  have "map (\<lambda>(k, v). (k, sort_keys v)) (audit_payload s did t e) = audit_payload s did t e"
    by (simp add: audit_payload_def sort_keys_scalar)
  then show ?thesis by simp
qed

lemma no_duplicates_audit_payload: "\<not> has_duplicate_key (JObj (audit_payload s did t e))"
  by (simp add: audit_payload_def json_opt_def split: option.splits)

text \<open>The wrapper \<open>append\<close> writes, read back from its own canonical text, is accepted in its place.\<close>

lemma verify_line_appended:
  assumes "ed25519_ok L" and "length key = 32" and "did_from_private_key L key = Inr did"
    and w: "audit_wrapper L b did key t e = Inr w" and s: "verify_body L b = Inr s"
    and k: "0 < k" "k \<le> MAX_AUDIT_LINE_BYTES"
  shows "verify_line L (k, Doc (sort_keys w)) (Suc (entries s)) (head_sha256 s) (issuer s)
    = Inr (did, entry_hash L w)"
proof -
  let ?p = "audit_payload s did t e"
  let ?c = "canonical_json (float_repr L) (JObj ?p)"
  from w s obtain sig where sig: "sign_detached L key ?c = Inr sig"
    and v: "validate_payload ?p = Inr ()" and iss: "\<And>i. issuer s = Some i \<Longrightarrow> i = did"
    and weq: "w = JObj [(lit ''payload'', JObj ?p), (lit ''payload_sha256'', JStr (sha256_hex L ?c)),
      (lit ''signature'', JStr sig)]"
    by (auto simp: audit_wrapper_def res_simps Let_def split: option.splits)
  let ?q = "sort_key fst ?p"
  let ?ps = "[(lit ''payload'', JObj ?q), (lit ''payload_sha256'', JStr (sha256_hex L ?c)), (lit ''signature'', JStr sig)]"
  let ?w = "sort_key fst ?ps"
  have sw: "sort_keys w = JObj ?w" by (simp add: weq sort_keys_audit_payload [unfolded sort_keys.simps])
  have same: "same_dict ?q ?p" "same_dict ?w ?ps"
    by (rule same_dict_sort, simp add: audit_payload_distinct)+
  note dq = same_dict_dget [OF same(1)] audit_payload_dget and dw = same_dict_dget [OF same(2)]
  have dup: "\<not> has_duplicate_key (sort_keys w)"
    using no_duplicates_audit_payload [of s did t e] unfolding has_duplicate_key_sort_keys weq
    by (simp del: has_duplicate_key.simps(2) add: has_duplicate_key.simps(2) [where kvs = "[_, _, _]"])
  have keys: "keys_are ?w WRAPPER_KEYS"
    unfolding same_dict_keys_are [OF same(2)] by (simp add: keys_are_def WRAPPER_KEYS_def)
  have can: "canonical_json (float_repr L) (JObj ?q) = ?c"
    using canonical_sort_keys [of "float_repr L" "JObj ?p"] unfolding sort_keys_audit_payload .
  have "verify_wrapper_signature L ?w ?q = verify_wrapper_signature L ?ps ?p"
    by (rule verify_wrapper_signature_same) (use same can in auto)
  also have "\<dots> = Inr ()"
    using sign_detached_canonical [OF assms(1,2) sig] signed_verifies [OF assms(1-3) sig]
    by (simp add: verify_wrapper_signature_def Let_def dget_def [of ?ps] audit_payload_dget)
  finally have sg: "verify_wrapper_signature L ?w ?q = Inr ()" .
  have pay: "dget ?w ''payload'' = JObj ?q" unfolding dw by (simp add: dget_def)
  have "entry_hash L (JObj ?w) = entry_hash L w"
    unfolding entry_hash_def sw [symmetric] by (simp add: canonical_sort_keys)
  then show ?thesis
    using k dup keys pay sg v iss
    by (auto simp: verify_line_def decode_audit_line_def loads_strict_def sw dq
        validate_payload_same [OF same(1)] split: option.splits)
qed

lemma verify_body_appended:
  assumes "ed25519_ok L" and "length key = 32" and "did_from_private_key L key = Inr did"
    and w: "audit_wrapper L b did key t e = Inr w" and s: "verify_body L b = Inr s"
    and k: "0 < k" "k \<le> MAX_AUDIT_LINE_BYTES"
  shows "verify_body L (appended b k (Doc (sort_keys w)) (Suc k))
    = Inr \<lparr>entries = Suc (entries s), issuer = Some did, head_sha256 = entry_hash L w\<rparr>"
proof -
  note line = verify_line_appended [OF assms]
  obtain n ls nl where b: "log_of_body b = (n, ls, nl)" by (rule prod_cases3)
  show ?thesis
  proof (cases "n = 0")
    case True
    with s b have "s = \<lparr>entries = 0, issuer = None, head_sha256 = GENESIS_HASH\<rparr>"
      by (auto simp: verify_body_Inr)
    with line True show ?thesis by (simp add: appended_def b verify_body_def)
  next
    case False
    with s b have "nl" "entries s = length ls" "verify_lines L ls 1 GENESIS_HASH None = Inr (issuer s, head_sha256 s)"
      by (auto simp: verify_body_Inr)
    with line False show ?thesis
      by (simp add: appended_def b verify_body_def verify_lines_append)
  qed
qed

text \<open>A line cut short, even by its newline alone, is refused by every later verification.\<close>

lemma verify_body_partial:
  "0 < j \<Longrightarrow> j \<le> k \<Longrightarrow>
   verify_body L (appended b k d j) = Inl (AuditError ''audit log ends with a partial JSONL record'')"
  by (auto simp: appended_def verify_body_def split: prod.splits)

section \<open>What append does to the world\<close>

lemma append_audit_frame:
  "wp (append_audit E L p did key t e) (\<lambda>_ w'. agrees_but p w w') (\<lambda>_ w'. agrees_but p w w') w"
  unfolding append_audit_def open_log_def append_line_def wp_simps
  by (auto simp: wp_simps agrees_but_def Let_def split: io_fault.splits sum.splits option.splits)

end
