(* ===== verification/Audited_Client.thy ===== *)
theory Audited_Client
  imports Protocol
begin

text \<open>
  \<open>pilot.py\<close>, the audited client: it stands between a responder and the room client, refuses a signed
  write whose signature does not verify, and notes every acknowledged write. Reading goes straight
  through. The notes are the field \<open>acks\<close> of the world: sequence, DID, nonce and text. The two rules
  show that a responder may write through either client: one request leaves or none, and through the
  audited one every normal return has its note.
\<close>

definition audited_send ::
  "env \<Rightarrow> lib \<Rightarrow> client \<Rightarrow> str \<Rightarrow> str \<Rightarrow> str \<Rightarrow> str \<Rightarrow> str \<Rightarrow> room_message io" where
  "audited_send E L c room did signature nonce content =
     ibind (lift (encode_utf8 (canonical_message room nonce content))) (\<lambda>canonical.
     ibind (iraise_if (\<not> verify_detached_signature L did canonical signature)
       (PilotError ''pilot refused a signed write with an invalid signature'')) (\<lambda>_.
     ibind (send_signed_message E c room did signature nonce content) (\<lambda>posted.
     ibind (iraise_if (msg_sender posted \<noteq> did \<or> msg_text posted \<noteq> content \<or> msg_nonce posted \<noteq> Some nonce)
       (ResponseError ''pilot signed-write acknowledgement does not match its request'')) (\<lambda>_.
     ibind (imodify (\<lambda>w. w\<lparr>acks := acks w @ [(msg_seq posted, did, nonce, content)]\<rparr>)) (\<lambda>_.
     iret posted)))))"

text \<open>The client of a responder: the room client itself, or the audited one around it.\<close>

datatype writer = Direct | Audited

definition write_through ::
  "writer \<Rightarrow> env \<Rightarrow> lib \<Rightarrow> client \<Rightarrow> str \<Rightarrow> str \<Rightarrow> str \<Rightarrow> str \<Rightarrow> str \<Rightarrow> room_message io" where
  "write_through W E L c room did signature nonce content = (case W of
      Direct \<Rightarrow> send_signed_message E c room did signature nonce content
    | Audited \<Rightarrow> audited_send E L c room did signature nonce content)"

lemma sent_one_acks [simp]: "sent_one r w (w'\<lparr>acks := a\<rparr>) = sent_one r w w'"
  by (simp add: sent_one_def)

lemma write_through_wp:
  assumes unsent: "\<And>e w'. untouched w w' \<Longrightarrow> R e w'"
    and failed: "\<And>url e w'. say_url (base_url c) room did sig nonce content = Inr url \<Longrightarrow>
      length (utf8 url) \<le> 8000 \<Longrightarrow> sent_one (SaySigned url) w w' \<Longrightarrow> R e w'"
    and ok: "\<And>url m w'. say_url (base_url c) room did sig nonce content = Inr url \<Longrightarrow>
      length (utf8 url) \<le> 8000 \<Longrightarrow> posted_matches did nonce content m \<Longrightarrow>
      sent_one (SaySigned url) w w' \<Longrightarrow> Q m w'"
  shows "wp (write_through W E L c room did sig nonce content) Q R w"
proof (cases W)
  case Direct
  then show ?thesis by (simp add: write_through_def) (rule send_wp [OF assms])
next
  case Audited
  have un: "R e w" for e by (rule unsent) (simp add: untouched_def)
  have "wp (send_signed_message E c room did sig nonce content)
      (\<lambda>m w'. posted_matches did nonce content m \<and> Q m (w'\<lparr>acks := acks w' @ [(msg_seq m, did, nonce, content)]\<rparr>)) R w"
    by (rule send_wp) (use assms in auto)
  then show ?thesis
    using un
    by (auto simp: Audited write_through_def audited_send_def wp_simps raise_if_def posted_matches_def
        split: sum.split intro: wp_mono)
qed

text \<open>What the audited client adds to a write that returns: its note.\<close>

lemma acks_send: "wp (send_signed_message E c room did sig nonce content)
    (\<lambda>_ w'. acks w' = acks w) (\<lambda>_ w'. acks w' = acks w) w"
  by (auto simp: send_signed_message_def request_json_def exchange_def record_request_def wp_simps raise_if_def
      split: sum.split io_fault.split)

lemma audited_send_wp:
  assumes "\<And>e w'. R e w'"
    and "\<And>url payload m w'. say_url (base_url c) room did sig nonce content = Inr url \<Longrightarrow>
      encode_utf8 (canonical_message room nonce content) = Inr payload \<Longrightarrow>
      verify_detached_signature L did payload sig \<Longrightarrow>
      posted_matches did nonce content m \<Longrightarrow> sent_one (SaySigned url) w w' \<Longrightarrow>
      acks w' = acks w @ [(msg_seq m, did, nonce, content)] \<Longrightarrow> Q m w'"
  shows "wp (audited_send E L c room did sig nonce content) Q R w"
proof -
  have "wp (send_signed_message E c room did sig nonce content)
      (\<lambda>m w'. (\<exists>url. say_url (base_url c) room did sig nonce content = Inr url \<and> posted_matches did nonce content m
        \<and> sent_one (SaySigned url) w w') \<and> acks w' = acks w) (\<lambda>e w'. True \<and> acks w' = acks w) w"
    by (rule wp_conj [OF send_wp acks_send]) auto
  then have "wp (send_signed_message E c room did sig nonce content)
      (\<lambda>m w'. posted_matches did nonce content m \<and> Q m (w'\<lparr>acks := acks w' @ [(msg_seq m, did, nonce, content)]\<rparr>)) R w"
    if "encode_utf8 (canonical_message room nonce content) = Inr payload" "verify_detached_signature L did payload sig"
    for payload
    by (rule wp_mono) (use assms that in auto)
  then show ?thesis
    using assms(1)
    by (auto simp: audited_send_def wp_simps raise_if_def posted_matches_def split: sum.split intro: wp_mono)
qed

end
