(* ===== verification/Agent.thy ===== *)
theory Agent
  imports Policy Audit_Log Audited_Client
begin

text \<open>
  \<open>agent.py\<close>: the responder. One message goes through the policy, the reply or receipt is sent
  under the delivery journal, the decision is appended to the audit log, and only then the cursor
  moves, is saved, and the journal is cleared. A snapshot is processed message by message; what
  is left of it when a step raises is not processed.
\<close>

record responder =
  r_room :: str
  r_did :: str
  r_key :: bytes
  r_client :: client
  r_policy :: command_policy
  r_state_path :: path
  r_service :: "receipt_service option"
  r_journal :: "path option"
  r_audit :: "path option"
  r_send :: bool
  r_writer :: writer

text \<open>The event of one message: the fields the source's dictionary has, absent ones \<open>None\<close>.\<close>

record event =
  ev_event :: string
  ev_decision :: string
  ev_seq :: int
  ev_sender :: str
  ev_reason :: string
  ev_reply_command :: "str option"
  ev_reply :: "str option"
  ev_reply_seq :: "int option"
  ev_pull_request :: "str option"
  ev_receipt_sha256 :: "str option"
  ev_error :: "(string \<times> int option \<times> rat option) option"   \<comment> \<open>code, status, retry_after\<close>

datatype report =
    MessageEvent event
  | GenerationChanged "int option" int
  | RetentionGap int int
  | CursorAdvanced int int
  | Bootstrapped int bool

definition is_sent :: "event \<Rightarrow> bool" where
  "is_sent e \<longleftrightarrow> ev_event e \<in> {''sent'', ''sent_receipt''}"

section \<open>Sending one text\<close>

definition uncertain :: "(exc \<Rightarrow> bool) \<Rightarrow> string \<Rightarrow> 'a io \<Rightarrow> 'a io" where
  "uncertain p why m = on_error p (\<lambda>_. iraise (UncertainWriteError why)) m"

lemma wp_uncertain [wp_simps]:
  "wp (uncertain p why m) Q R = wp m Q (\<lambda>e w'. if p e then R (UncertainWriteError why) w' else R e w')"
  by (simp add: fun_eq_iff uncertain_def wp_simps)

definition prepare_delivery ::
  "env \<Rightarrow> lib \<Rightarrow> responder \<Rightarrow> int \<Rightarrow> int \<Rightarrow> str \<Rightarrow> str \<Rightarrow> unit io" where
  "prepare_delivery E L r input_sequence nonce swept signature = (case r_journal r of
      None \<Rightarrow> iret ()
    | Some p \<Rightarrow> ibind (lift (create_record L (r_room r) input_sequence (r_did r) nonce swept signature))
        (prepare_journal E p))"

definition send_text :: "env \<Rightarrow> lib \<Rightarrow> responder \<Rightarrow> str \<Rightarrow> int \<Rightarrow> room_message io" where
  "send_text E L r content input_sequence =
     ibind (case r_journal r of None \<Rightarrow> iret () | Some p \<Rightarrow> require_empty E L p) (\<lambda>_.
     ibind (ask (clock_ns E)) (\<lambda>now.
     ibind (update_mem (next_nonce (r_room r) now)) (\<lambda>nonce.
     ibind (lift (sign_room_message L (r_key r) (r_room r) (str_of_int nonce) content)) (\<lambda>(swept, signature).
     ibind (prepare_delivery E L r input_sequence nonce swept signature) (\<lambda>_.
     ibind (uncertain is_wire_error ''signed write did not return a verifiable acknowledgement''
       (write_through (r_writer r) E L (r_client r) (r_room r) (r_did r) signature (str_of_int nonce) swept)) (\<lambda>posted.
     ibind (case r_journal r of None \<Rightarrow> iret () | Some p \<Rightarrow>
         uncertain is_DeliveryError ''delivery evidence could not be persisted''
           (ibind (acknowledge_journal E L p (msg_seq posted)) (\<lambda>_. iret ()))) (\<lambda>_.
     iret posted)))))))"

section \<open>One message\<close>

definition base_event :: "room_message \<Rightarrow> decision \<Rightarrow> event" where
  "base_event m d = \<lparr>ev_event = action d, ev_decision = action d, ev_seq = msg_seq m, ev_sender = msg_sender m,
     ev_reason = reason d, ev_reply_command = None, ev_reply = None, ev_reply_seq = None,
     ev_pull_request = None, ev_receipt_sha256 = None, ev_error = None\<rparr>"

definition reply_event :: "env \<Rightarrow> lib \<Rightarrow> responder \<Rightarrow> event \<Rightarrow> int \<Rightarrow> str \<Rightarrow> str \<Rightarrow> event io" where
  "reply_event E L r e input_sequence command answer =
     (if \<not> r_send r
      then iret (e\<lparr>ev_event := ''would_reply'', ev_reply_command := Some command, ev_reply := Some answer\<rparr>)
      else ibind (send_text E L r answer input_sequence) (\<lambda>posted.
        iret (e\<lparr>ev_event := ''sent'', ev_reply_command := Some command, ev_reply_seq := Some (msg_seq posted)\<rparr>)))"

text \<open>\<open>try: receipt = issue(...) except GitHubReceiptError\<close>, as a value\<close>

definition try_issue :: "env \<Rightarrow> lib \<Rightarrow> receipt_service \<Rightarrow> str \<Rightarrow> (exc + str) io" where
  "try_issue E L svc url = on_error is_GitHubReceiptError (\<lambda>e. iret (Inl e))
     (ibind (issue E L svc url) (\<lambda>s. iret (Inr s)))"

fun error_fields :: "exc \<Rightarrow> (string \<times> int option \<times> rat option) option" where
  "error_fields (GitHubReceiptError code status retry) = Some (code, status, retry)"
| "error_fields _ = None"

definition receipt_event :: "env \<Rightarrow> lib \<Rightarrow> responder \<Rightarrow> event \<Rightarrow> int \<Rightarrow> str \<Rightarrow> event io" where
  "receipt_event E L r e input_sequence pull_request =
     (if \<not> r_send r
      then iret (e\<lparr>ev_event := ''would_issue_receipt'', ev_pull_request := Some pull_request\<rparr>)
      else case r_service r of
          None \<Rightarrow> iraise (ResponseError ''receipt command reached an agent without a receipt service'')
        | Some svc \<Rightarrow> ibind (try_issue E L svc pull_request) (\<lambda>outcome. case outcome of
            Inl err \<Rightarrow> iret (e\<lparr>ev_event := ''receipt_failed'', ev_pull_request := Some pull_request,
              ev_error := error_fields err\<rparr>)
          | Inr receipt \<Rightarrow> ibind (send_text E L r receipt input_sequence) (\<lambda>posted.
              iret (e\<lparr>ev_event := ''sent_receipt'', ev_reply_seq := Some (msg_seq posted),
                ev_pull_request := Some pull_request,
                ev_receipt_sha256 := Some (sha256_hex L (utf8 receipt))\<rparr>))))"

definition event_for_message :: "env \<Rightarrow> lib \<Rightarrow> responder \<Rightarrow> room_message \<Rightarrow> event io" where
  "event_for_message E L r m = ibind (decide E L (r_policy r) m) (\<lambda>d.
     let e = base_event m d in
     if action d = ''reply'' \<and> reply d \<noteq> None
     then reply_event E L r e (msg_seq m) (msg_text m) (the (reply d))
     else if action d = ''receipt'' \<and> target d \<noteq> None
     then receipt_event E L r e (msg_seq m) (the (target d))
     else iret e)"

definition append_audit_record :: "env \<Rightarrow> lib \<Rightarrow> responder \<Rightarrow> path \<Rightarrow> room_message \<Rightarrow> event \<Rightarrow> unit io" where
  "append_audit_record E L r p m e =
     ibind (if is_signed m then lift (map_sum id Some (fingerprint_of_did L (msg_sender m))) else iret None) (\<lambda>fp.
     ibind (ask (clock_utc E)) (\<lambda>now.
     ibind (append_audit E L p (r_did r) (r_key r) now
       \<lparr>ae_input_sequence = msg_seq m, ae_sender_fingerprint = fp, ae_sender_authenticated = is_signed m,
        ae_decision = ev_decision e, ae_reason = ev_reason e, ae_outcome = ev_event e,
        ae_receipt_sha256 = ev_receipt_sha256 e, ae_response_sequence = ev_reply_seq e\<rparr>) (\<lambda>_.
     iret ())))"

definition persist_processed_message :: "env \<Rightarrow> lib \<Rightarrow> responder \<Rightarrow> room_message \<Rightarrow> event \<Rightarrow> unit io" where
  "persist_processed_message E L r m e =
     ibind (if r_send r \<and> r_audit r \<noteq> None then append_audit_record E L r (the (r_audit r)) m e else iret ()) (\<lambda>_.
     ibind (update_mem_unit (advance_cursor (r_room r) (msg_seq m))) (\<lambda>_.
     if \<not> r_send r then iret ()
     else ibind (uncertain (\<lambda>x. is_StateError x \<and> is_sent e) ''reply was acknowledged but its cursor could not be persisted''
            (save_mem E (r_state_path r))) (\<lambda>_.
          if is_sent e \<and> r_journal r \<noteq> None
          then uncertain is_DeliveryError ''the delivery journal could not be cleared''
                 (clear_journal E (the (r_journal r)))
          else iret ())))"

section \<open>One snapshot\<close>

fun process_messages :: "env \<Rightarrow> lib \<Rightarrow> responder \<Rightarrow> int \<Rightarrow> room_message list \<Rightarrow> (int \<times> report list) io" where
  "process_messages E L r cursor [] = iret (cursor, [])"
| "process_messages E L r cursor (m # ms) =
     (if msg_seq m \<le> cursor then process_messages E L r cursor ms
      else ibind (event_for_message E L r m) (\<lambda>e.
           ibind (persist_processed_message E L r m e) (\<lambda>_.
           ibind (process_messages E L r (msg_seq m) ms) (\<lambda>(last, es).
           iret (last, MessageEvent e # es)))))"

definition save_if_sending :: "env \<Rightarrow> responder \<Rightarrow> unit io" where
  "save_if_sending E r = iwhen (r_send r) (save_mem E (r_state_path r))"

definition process_snapshot :: "env \<Rightarrow> lib \<Rightarrow> responder \<Rightarrow> room_snapshot \<Rightarrow> report list io" where
  "process_snapshot E L r snap =
     ibind (iraise_if (snap_room snap \<noteq> r_room r)
       (ResponseError ''agent received a snapshot for a different room'')) (\<lambda>_.
     ibind (iget (\<lambda>w. generation_for (mem w) (r_room r))) (\<lambda>previous.
     ibind (on_error is_StateError (\<lambda>_. iraise (ResponseError ''Technocore room generation moved backwards''))
       (update_mem (observe_generation (r_room r) (generation snap)))) (\<lambda>changed.
     ibind (iget (\<lambda>w. cursor_for (mem w) (r_room r))) (\<lambda>cursor.
     ibind (process_messages E L r cursor (messages snap)) (\<lambda>(cursor', handled).
     ibind (if handled = [] \<and> cursor' < last_seq snap
        then ibind (update_mem_unit (advance_cursor (r_room r) (last_seq snap))) (\<lambda>_.
             ibind (save_if_sending E r) (\<lambda>_. iret [CursorAdvanced cursor' (last_seq snap)]))
        else iret []) (\<lambda>skipped.
     ibind (iwhen ((previous = None \<or> changed) \<and> handled = [] \<and> skipped = []) (save_if_sending E r)) (\<lambda>_.
     iret ((if changed then [GenerationChanged previous (generation snap)] else [])
       @ (if 0 < first_seq snap \<and> cursor + 1 < first_seq snap then [RetentionGap cursor (first_seq snap)] else [])
       @ handled @ skipped))))))))"

definition bootstrap_latest :: "env \<Rightarrow> lib \<Rightarrow> responder \<Rightarrow> report io" where
  "bootstrap_latest E L r =
     ibind (read_room E L (r_client r) (r_room r) 0 (Fin 0) 1 0) (\<lambda>snap.
     ibind (update_mem (observe_generation (r_room r) (generation snap))) (\<lambda>_.
     ibind (update_mem_unit (advance_cursor (r_room r) (last_seq snap))) (\<lambda>_.
     ibind (save_if_sending E r) (\<lambda>_.
     iret (Bootstrapped (last_seq snap) (r_send r))))))"

end
