(* ===== verification/Agent_Safety.thy ===== *)
theory Agent_Safety
  imports Agent
begin

text \<open>
  What the responder guarantees over any run, whatever the environment answers and wherever a
  call fails or the process dies. The history of signed writes is read off the requests the world
  recorded, each with the files as they were when it left: the record then in the journal says
  which input it answers. \<open>safe\<close> is the invariant every operation keeps: the writes are backed
  by their journal records, answer strictly increasing inputs, and what was answered is covered
  by the cursor in memory and on disk, or by the journal while it exists.
\<close>

section \<open>The history of signed writes\<close>

definition in_flight :: "lib \<Rightarrow> path \<Rightarrow> request \<times> filesystem \<Rightarrow> delivery_record option" where
  "in_flight L J x = (case snd x J of None \<Rightarrow> None | Some nd \<Rightarrow>
     (case decode_journal L nd of Inl _ \<Rightarrow> None | Inr d \<Rightarrow> Some d))"

definition carries :: "responder \<Rightarrow> delivery_record \<Rightarrow> request \<Rightarrow> bool" where
  "carries r d q \<longleftrightarrow> (\<exists>url. q = SaySigned url \<and> say_url (base_url (r_client r)) (r_room r) (dr_did d)
     (dr_signature d) (str_of_int (dr_nonce d)) (dr_text d) = Inr url)"

definition backed :: "lib \<Rightarrow> responder \<Rightarrow> path \<Rightarrow> request \<times> filesystem \<Rightarrow> bool" where
  "backed L r J x \<longleftrightarrow> (case in_flight L J x of None \<Rightarrow> False | Some d \<Rightarrow>
     dr_status d = lit ''pending'' \<and> dr_did d = r_did r \<and> verify_for_room L d (r_room r) = Inr ()
     \<and> carries r d (fst x))"

text \<open>The writes, each with the input it answers.\<close>

definition replies :: "lib \<Rightarrow> path \<Rightarrow> world \<Rightarrow> (int \<times> request) list" where
  "replies L J w = map (\<lambda>x. (dr_input_sequence (the (in_flight L J x)), fst x)) (says w)"

definition answered :: "lib \<Rightarrow> path \<Rightarrow> world \<Rightarrow> int list" where
  "answered L J w = map fst (replies L J w)"

text \<open>
  A later write answers a later input; with retries allowed (\<open>z\<close>) it may instead be the same
  envelope again.
\<close>

definition later :: "bool \<Rightarrow> int \<times> request \<Rightarrow> int \<times> request \<Rightarrow> bool" where
  "later z x y \<longleftrightarrow> fst x < fst y \<or> z \<and> x = y"

section \<open>The invariant\<close>

definition covered :: "lib \<Rightarrow> responder \<Rightarrow> path \<Rightarrow> world \<Rightarrow> int \<Rightarrow> bool" where
  "covered L r J w c \<longleftrightarrow> (case fs w J of
      None \<Rightarrow> \<forall>j \<in> set (answered L J w). j \<le> c
    | Some nd \<Rightarrow> (case decode_journal L nd of
          Inl _ \<Rightarrow> True
        | Inr d \<Rightarrow> (\<forall>j \<in> set (answered L J w). j \<le> dr_input_sequence d)
            \<and> (\<forall>x \<in> set (replies L J w). fst x = dr_input_sequence d \<longrightarrow> carries r d (snd x))))"

definition once :: "bool \<Rightarrow> lib \<Rightarrow> responder \<Rightarrow> path \<Rightarrow> world \<Rightarrow> bool" where
  "once z L r J w \<longleftrightarrow> list_all (backed L r J) (says w) \<and> sorted_wrt (later z) (replies L J w)"

definition safe_disk :: "bool \<Rightarrow> lib \<Rightarrow> responder \<Rightarrow> path \<Rightarrow> world \<Rightarrow> bool" where
  "safe_disk z L r J w \<longleftrightarrow> once z L r J w
     \<and> (\<forall>s. disk_state (fs w) (r_state_path r) = Inr s \<longrightarrow> covered L r J w (cursor_for s (r_room r)))"

definition safe :: "bool \<Rightarrow> lib \<Rightarrow> responder \<Rightarrow> path \<Rightarrow> world \<Rightarrow> bool" where
  "safe z L r J w \<longleftrightarrow> safe_disk z L r J w \<and> state_ok (mem w) \<and> covered L r J w (cursor_for (mem w) (r_room r))
     \<and> (\<forall>s. disk_state (fs w) (r_state_path r) = Inr s \<longrightarrow>
          cursor_for s (r_room r) \<le> cursor_for (mem w) (r_room r))"

text \<open>The configuration: a live responder with a journal, on files of its own.\<close>

definition live :: "responder \<Rightarrow> path \<Rightarrow> bool" where
  "live r J \<longleftrightarrow> r_send r \<and> r_journal r = Some J \<and> J \<noteq> r_state_path r
     \<and> (case r_audit r of None \<Rightarrow> True | Some A \<Rightarrow> A \<noteq> J \<and> A \<noteq> r_state_path r)
     \<and> (case rate_limiter (r_policy r) of None \<Rightarrow> True | Some (p, c) \<Rightarrow> p = r_state_path r)
     \<and> match_room (r_room r)"

lemma liveD:
  assumes "live r J"
  shows "r_send r" "r_journal r = Some J" "J \<noteq> r_state_path r" "r_state_path r \<noteq> J" "r_room r \<noteq> []"
    "r_audit r = Some A \<Longrightarrow> A \<noteq> J \<and> A \<noteq> r_state_path r"
    "rate_limiter (r_policy r) = Some (p, c) \<Longrightarrow> p = r_state_path r"
  using assms by (auto simp: live_def match_room_def)

lemma replies_cong: "says w' = says w \<Longrightarrow> replies L J w' = replies L J w"
  by (simp add: replies_def)

lemma answered_cong: "says w' = says w \<Longrightarrow> answered L J w' = answered L J w"
  by (simp add: answered_def replies_def)

lemma covered_mono: "covered L r J w c \<Longrightarrow> c \<le> c' \<Longrightarrow> covered L r J w c'"
  by (fastforce simp: covered_def split: option.splits sum.splits)

lemma covered_cong:
  assumes "says w' = says w" and "fs w' J = fs w J"
  shows "covered L r J w' c = covered L r J w c"
  unfolding covered_def answered_def replies_def assms by (rule refl)

lemma once_cong:
  assumes "says w' = says w"
  shows "once z L r J w' = once z L r J w"
  unfolding once_def replies_def assms by (rule refl)

section \<open>What a step may change\<close>

lemma safeI:
  assumes "once z L r J w" and "state_ok (mem w)" and "covered L r J w (cursor_for (mem w) (r_room r))"
    and "\<And>s. disk_state (fs w) (r_state_path r) = Inr s \<Longrightarrow> covered L r J w (cursor_for s (r_room r))"
    and "\<And>s. disk_state (fs w) (r_state_path r) = Inr s \<Longrightarrow>
      cursor_for s (r_room r) \<le> cursor_for (mem w) (r_room r)"
  shows "safe z L r J w"
  unfolding safe_def safe_disk_def using assms by blast

lemma safeD:
  assumes "safe z L r J w"
  shows "once z L r J w" and "state_ok (mem w)" and "covered L r J w (cursor_for (mem w) (r_room r))"
    and "disk_state (fs w) (r_state_path r) = Inr s \<Longrightarrow> covered L r J w (cursor_for s (r_room r))"
    and "disk_state (fs w) (r_state_path r) = Inr s \<Longrightarrow>
      cursor_for s (r_room r) \<le> cursor_for (mem w) (r_room r)"
  using assms unfolding safe_def safe_disk_def by blast+

lemma safe_frame:
  assumes s: "safe z L r J w" and J: "fs w' J = fs w J"
    and S: "fs w' (r_state_path r) = fs w (r_state_path r)"
    and y: "says w' = says w" and ok: "state_ok (mem w')"
    and c: "cursor_for (mem w) (r_room r) \<le> cursor_for (mem w') (r_room r)"
  shows "safe z L r J w'"
proof -
  have d: "disk_state (fs w') (r_state_path r) = disk_state (fs w) (r_state_path r)"
    using S by (simp add: disk_state_def)
  note cc = covered_cong [OF y J]
  show ?thesis
  proof (rule safeI)
    show "once z L r J w'" using safeD(1) [OF s] once_cong [OF y] by blast
    show "state_ok (mem w')" by (rule ok)
    show "covered L r J w' (cursor_for (mem w') (r_room r))"
      unfolding cc by (rule covered_mono [OF safeD(3) [OF s] c])
    show "covered L r J w' (cursor_for t (r_room r))" if "disk_state (fs w') (r_state_path r) = Inr t" for t
      unfolding cc using safeD(4) [OF s] that d by simp
    show "cursor_for t (r_room r) \<le> cursor_for (mem w') (r_room r)"
      if "disk_state (fs w') (r_state_path r) = Inr t" for t
      using safeD(5) [OF s] that d c by fastforce
  qed
qed

lemma safe_untouched:
  assumes "safe z L r J w" and "untouched w w'"
  shows "safe z L r J w'"
proof (rule safe_frame [OF assms(1)])
  have u: "sent w' = sent w" "fs w' = fs w" "mem w' = mem w" using assms(2) by (simp_all add: untouched_def)
  show "says w' = says w" by (rule says_of_sent [OF u(1)])
  show "state_ok (mem w')" unfolding u by (rule safeD(2) [OF assms(1)])
qed (use assms(2) in \<open>simp_all add: untouched_def\<close>)

lemma safe_tick: "safe z L r J w \<Longrightarrow> safe z L r J (w\<lparr>tick := n\<rparr>)"
  by (erule safe_untouched) (simp add: untouched_def)

text \<open>A saved file has the cursors of the memory it was saved from.\<close>

lemma saved_cursor:
  assumes "state_ok s" and "state_in_file (fresh_file (state_body s)) = Inr t"
  shows "cursor_for t room = cursor_for s room"
proof -
  have ok: "int_dict_ok (cursors s)" using assms(1) by (simp add: state_ok_def)
  have "state_of_json (json_of_state s) = Inr t"
    using assms by (simp add: state_of_json_loads_state)
  then have "nonnegative_int_map (json_of_int_dict (cursors s)) = Inr (cursors t)"
    unfolding state_of_json_def json_of_state_def json.case bind_eq_Inr
    by (auto simp: dget_def)
  then have "cursors t = sort_key fst (cursors s)"
    using nonnegative_int_map_json [OF ok] by simp
  then show ?thesis
    using ok by (simp add: cursor_for_def get_default_def map_of_sort_key int_dict_ok_def)
qed

lemma safe_saved:
  assumes s: "safe z L r J w" and a: "agrees_but (r_state_path r) w w'" and J: "J \<noteq> r_state_path r"
    and f: "fs w' (r_state_path r) = fs w (r_state_path r)
      \<or> fs w' (r_state_path r) = Some (fresh_file (state_body (mem w)))"
  shows "safe z L r J w'"
proof -
  have m: "mem w' = mem w" "says w' = says w" "fs w' J = fs w J"
    using a J says_of_sent unfolding agrees_but_def by blast+
  note c = covered_cong [OF m(2,3)] and ok = safeD(2) [OF s]
  show ?thesis
  proof (cases "fs w' (r_state_path r) = fs w (r_state_path r)")
    case True
    show ?thesis by (rule safe_frame [OF s m(3) True m(2)]) (simp_all add: m(1) ok)
  next
    case False
    with f have "fs w' (r_state_path r) = Some (fresh_file (state_body (mem w)))" by blast
    then have d: "cursor_for t (r_room r) = cursor_for (mem w) (r_room r)"
      if "disk_state (fs w') (r_state_path r) = Inr t" for t
      using that saved_cursor [OF ok] by (simp add: disk_state_def)
    show ?thesis
    proof (rule safeI)
      show "once z L r J w'" unfolding once_cong [OF m(2)] by (rule safeD(1) [OF s])
      show "state_ok (mem w')" unfolding m(1) by (rule ok)
      show "covered L r J w' (cursor_for (mem w') (r_room r))" unfolding c m(1) by (rule safeD(3) [OF s])
    next
      fix t assume t: "disk_state (fs w') (r_state_path r) = Inr t"
      show "covered L r J w' (cursor_for t (r_room r))" unfolding c d [OF t] by (rule safeD(3) [OF s])
      show "cursor_for t (r_room r) \<le> cursor_for (mem w') (r_room r)" unfolding d [OF t] m(1) by (rule order_refl)
    qed
  qed
qed

text \<open>A step inside one message: the invariant, with the cursor and the history as they were.\<close>

definition steady :: "bool \<Rightarrow> lib \<Rightarrow> responder \<Rightarrow> path \<Rightarrow> int \<Rightarrow> (request \<times> filesystem) list \<Rightarrow> world \<Rightarrow> bool" where
  "steady z L r J c y w \<longleftrightarrow> safe z L r J w \<and> cursor_for (mem w) (r_room r) = c \<and> says w = y"

lemma steady_save_mem:
  assumes "steady z L r J c y w" and "J \<noteq> r_state_path r"
  shows "wp (save_mem E (r_state_path r))
    (\<lambda>_ w'. steady z L r J c y w' \<and> fs w' J = fs w J) (\<lambda>_ w'. steady z L r J c y w' \<and> fs w' J = fs w J) w"
proof -
  have st: "steady z L r J c y w' \<and> fs w' J = fs w J"
    if a: "agrees_but (r_state_path r) w w'" and f: "fs w' (r_state_path r) = fs w (r_state_path r)
      \<or> fs w' (r_state_path r) = Some (fresh_file (state_body (mem w)))" for w'
  proof -
    have "mem w' = mem w" "says w' = says w" "fs w' J = fs w J"
      using a assms(2) says_of_sent unfolding agrees_but_def by blast+
    with assms(1) safe_saved [OF _ a assms(2) f] show ?thesis unfolding steady_def by metis
  qed
  show ?thesis by (rule save_mem_wp) (use st in blast)+
qed

lemma steady_still:
  assumes "still.grows m" and "steady z L r J c y w"
  shows "wp m (\<lambda>_. steady z L r J c y) (\<lambda>_. steady z L r J c y) w"
proof -
  have k: "steady z L r J c y w'" if "fs w' = fs w \<and> mem w' = mem w \<and> sent w' = sent w \<and> last_attempt w' = last_attempt w" for w'
  proof -
    have "untouched w w'" using that by (simp add: untouched_def)
    moreover have "says w' = says w" by (rule says_of_sent) (use that in blast)
    ultimately show ?thesis using assms(2) safe_untouched that unfolding steady_def by metis
  qed
  show ?thesis by (rule wp_mono [OF still.wp_grows [OF assms(1)]]) (rule k, assumption)+
qed

section \<open>Deciding\<close>

lemma reserve_keeps_cursor:
  "reserve_capability_request did now win s = Inr s' \<Longrightarrow> cursor_for s' room = cursor_for s room"
  by (auto simp: reserve_capability_request_def res_simps Let_def cursor_for_def
      prune_capability_requests_def)

lemma steady_tick: "steady z L r J c y w \<Longrightarrow> steady z L r J c y (w\<lparr>tick := n\<rparr>)"
  by (simp add: steady_def safe_tick)

lemma steady_reserve:
  assumes s: "steady z L r J c y w" and "match_did did"
    and "reserve_capability_request did now win (mem w) = Inr s'"
  shows "steady z L r J c y (w\<lparr>mem := s'\<rparr>)"
proof -
  have y: "says (w\<lparr>mem := s'\<rparr>) = says w" by (simp add: says_def)
  note k = reserve_keeps_cursor [OF assms(3), of "r_room r"]
  have sf: "safe z L r J w" using s by (simp add: steady_def)
  have "safe z L r J (w\<lparr>mem := s'\<rparr>)"
    by (rule safe_frame [OF sf])
      (simp_all add: y k state_ok_reserve [OF safeD(2) [OF sf] assms(2,3)])
  with s y k show ?thesis by (simp add: steady_def)
qed

lemma limiter_allow_safe:
  assumes s: "steady z L r J c y w" and J: "J \<noteq> r_state_path r"
  shows "wp (limiter_allow E (r_state_path r) consume did limit)
    (\<lambda>_. steady z L r J c y) (\<lambda>_. steady z L r J c y) w"
proof -
  let ?w = "w\<lparr>tick := Suc (tick w)\<rparr>"
  have t: "steady z L r J c y ?w" by (rule steady_tick [OF s])
  have sv: "wp (save_mem E (r_state_path r)) (\<lambda>_. steady z L r J c y) (\<lambda>_. steady z L r J c y) (?w\<lparr>mem := s'\<rparr>)"
    if "reserve_capability_request did now WINDOW_SECONDS (mem w) = Inr s'" "match_did did" for s' now
    by (rule wp_mono [OF steady_save_mem [OF steady_reserve [OF t that(2)] J]]) (use that(1) in auto)
  have m: "steady z L r J c y (?w\<lparr>mem := s'\<rparr>)"
    if "reserve_capability_request did now WINDOW_SECONDS (mem w) = Inr s'" "match_did did" for s' now
    using steady_reserve [OF t that(2)] that(1) by simp
  show ?thesis
  proof (cases "match_did did")
    case True
    show ?thesis
      unfolding limiter_allow_def wp_simps validate_did_def
      using s t True sv [OF _ True] by (simp add: wp_simps raise_if_def split: sum.splits)
  next
    case False
    then show ?thesis unfolding limiter_allow_def wp_simps validate_did_def using s by simp
  qed
qed

lemma still_load_policy: "still.grows (load_policy E p)"
  unfolding load_policy_def by (auto intro!: still.grows_intros)

lemma still_authorize: "still.grows (authorize_sender E p m)"
  unfolding authorize_sender_def policy_grant_def
  by (auto intro!: still.grows_intros still_load_policy split: option.splits)

lemma limiter_admits_safe:
  assumes s: "steady z L r J c y w" and J: "live r J"
  shows "wp (limiter_admits E (r_policy r) did gr) (\<lambda>_. steady z L r J c y) (\<lambda>_. steady z L r J c y) w"
proof (cases "rate_limiter (r_policy r)")
  case None
  then show ?thesis using s by (simp add: limiter_admits_def wp_simps)
next
  case (Some x)
  then obtain p cons where x: "rate_limiter (r_policy r) = Some (p, cons)" by (cases x) auto
  then show ?thesis
    using limiter_allow_safe [OF s liveD(3) [OF J]] liveD(7) [OF J x] by (simp add: limiter_admits_def)
qed

lemma decide_authorized_safe:
  assumes s: "steady z L r J c y w" and J: "live r J"
  shows "wp (decide_authorized_command E L (r_policy r) m g)
    (\<lambda>_. steady z L r J c y) (\<lambda>_. steady z L r J c y) w"
proof -
  have lim: "wp (ibind (limiter_admits E (r_policy r) did gr) (\<lambda>a. if a then iret d else iret d'))
      (\<lambda>_. steady z L r J c y) (\<lambda>_. steady z L r J c y) w" for did gr and d d' :: decision
    unfolding wp_simps
    by (rule wp_mono [OF limiter_admits_safe [OF assms]]) (auto simp: wp_simps)
  show ?thesis
    unfolding decide_authorized_command_def
    using s lim by (simp add: wp_simps split: option.split sum.split)
qed

lemma decide_safe:
  assumes s: "steady z L r J c y w" and J: "live r J"
  shows "wp (decide E L (r_policy r) m)
    (\<lambda>d w'. steady z L r J c y w' \<and> (action d \<noteq> ''ignore'' \<longrightarrow>
       (action d = ''reply'' \<and> reply d \<noteq> None \<or> action d = ''receipt'' \<and> target d \<noteq> None)))
    (\<lambda>_. steady z L r J c y) w"
proof -
  have "wp (decide E L (r_policy r) m) (\<lambda>_. steady z L r J c y) (\<lambda>_. steady z L r J c y) w"
    unfolding decide_def wp_simps
  proof (rule wp_mono [OF steady_still [OF still_authorize s]])
    fix x :: "decision option \<times> grant option" and w1
    assume a: "steady z L r J c y w1"
    obtain denial g where x: "x = (denial, g)" by (cases x)
    show "wp (case x of (denial, g) \<Rightarrow> (case denial of None \<Rightarrow> decide_authorized_command E L (r_policy r) m g
        | Some d \<Rightarrow> iret d)) (\<lambda>_. steady z L r J c y) (\<lambda>_. steady z L r J c y) w1"
      using a decide_authorized_safe [OF a J] by (cases denial) (simp_all add: x wp_simps)
  qed
  moreover have "wp (decide E L (r_policy r) m) (\<lambda>d w'. action d \<noteq> ''ignore'' \<longrightarrow>
       (action d = ''reply'' \<and> reply d \<noteq> None \<or> action d = ''receipt'' \<and> target d \<noteq> None))
      (\<lambda>_ _. True) w"
  proof -
    have "action d = ''reply'' \<and> reply d \<noteq> None \<or> action d = ''receipt'' \<and> target d \<noteq> None"
      if "decide E L (r_policy r) m w = (Inr d, w')" "action d \<noteq> ''ignore''" for d w'
      using decide_Inr [OF that] by (auto simp: command_of_def)
    then show ?thesis by (auto simp: wp_def split: sum.split prod.split)
  qed
  ultimately show ?thesis by (rule wp_mono [OF wp_conj]) auto
qed

section \<open>Issuing a receipt\<close>

lemma asking_request_object: "asking.grows (request_object E p)"
  unfolding request_object_def by (intro asking.grows_intros asking_exchange)

lemma quiet_request_object: "quiet.grows (request_object E p)"
  unfolding request_object_def by (intro quiet.grows_intros quiet_exchange) simp

lemma says_more [simp]: "says (w\<lparr>last_attempt := a\<rparr>) = says w" "says (w\<lparr>mem := s\<rparr>) = says w"
  "says (w\<lparr>fs := g\<rparr>) = says w"
  by (simp_all add: says_def)

lemma grows_last_attempt:
  "asking.grows (imodify (\<lambda>w. w\<lparr>last_attempt := a\<rparr>))" "quiet.grows (imodify (\<lambda>w. w\<lparr>last_attempt := a\<rparr>))"
  by (simp_all add: asking.grows_def quiet.grows_def imodify_def)

lemma grows_reserve_attempt: "asking.grows (reserve_attempt i now)" "quiet.grows (reserve_attempt i now)"
  unfolding reserve_attempt_def
  by (intro asking.grows_intros grows_last_attempt) (intro quiet.grows_intros grows_last_attempt)

lemma asking_issue: "asking.grows (issue E L svc url)"
  unfolding issue_def inspect_def Let_def
  by (intro asking.grows_intros asking_request_object grows_reserve_attempt)

lemma quiet_issue: "quiet.grows (issue E L svc url)"
  unfolding issue_def inspect_def Let_def
  by (intro quiet.grows_intros quiet_request_object grows_reserve_attempt)

lemma grows_try_issue: "asking.grows (try_issue E L svc url)" "quiet.grows (try_issue E L svc url)"
  unfolding try_issue_def
  by (intro asking.grows_intros asking_issue) (intro quiet.grows_intros quiet_issue)

lemma steady_same:
  assumes "steady z L r J c y w" and "fs w' = fs w" and "mem w' = mem w" and "says w' = says w"
  shows "steady z L r J c y w'"
proof -
  have s: "safe z L r J w" using assms(1) by (simp add: steady_def)
  have "safe z L r J w'"
    by (rule safe_frame [OF s]) (use assms safeD(2) [OF s] in auto)
  with assms show ?thesis by (simp add: steady_def)
qed

lemma steady_asking:
  assumes "asking.grows m" and "quiet.grows m" and s: "steady z L r J c y w"
  shows "wp m (\<lambda>_. steady z L r J c y) (\<lambda>_. steady z L r J c y) w"
  by (rule wp_mono [OF wp_conj [OF asking.wp_grows [OF assms(1)] quiet.wp_grows [OF assms(2)]]])
    (use steady_same [OF s] in blast)+

section \<open>Changes of the journal\<close>

lemma safe_journal:
  assumes s: "safe z L r J w" and a: "agrees_but J w w'" and J: "r_state_path r \<noteq> J"
    and m: "covered L r J w' (cursor_for (mem w) (r_room r))"
    and d: "\<And>t. disk_state (fs w) (r_state_path r) = Inr t \<Longrightarrow> covered L r J w' (cursor_for t (r_room r))"
  shows "safe z L r J w'"
proof -
  have e: "fs w' (r_state_path r) = fs w (r_state_path r)" "mem w' = mem w" "says w' = says w"
    using a J says_of_sent unfolding agrees_but_def by blast+
  have dd: "disk_state (fs w') (r_state_path r) = disk_state (fs w) (r_state_path r)"
    by (simp add: disk_state_def e)
  show ?thesis
  proof (rule safeI)
    show "once z L r J w'" unfolding once_cong [OF e(3)] by (rule safeD(1) [OF s])
    show "state_ok (mem w')" unfolding e by (rule safeD(2) [OF s])
    show "covered L r J w' (cursor_for (mem w') (r_room r))" unfolding e by (rule m)
  next
    fix t assume t: "disk_state (fs w') (r_state_path r) = Inr t"
    show "covered L r J w' (cursor_for t (r_room r))" by (rule d) (use t dd in simp)
    show "cursor_for t (r_room r) \<le> cursor_for (mem w') (r_room r)"
      unfolding e by (rule safeD(5) [OF s]) (use t dd in simp)
  qed
qed

lemma replies_agrees: "agrees_but p w w' \<Longrightarrow> replies L J w' = replies L J w"
  unfolding agrees_but_def by (rule replies_cong, rule says_of_sent) blast

lemma answered_agrees: "agrees_but p w w' \<Longrightarrow> answered L J w' = answered L J w"
  unfolding agrees_but_def by (rule answered_cong, rule says_of_sent) blast

definition same_envelope :: "delivery_record \<Rightarrow> delivery_record \<Rightarrow> bool" where
  "same_envelope d d' \<longleftrightarrow> dr_input_sequence d = dr_input_sequence d' \<and> dr_did d = dr_did d'
     \<and> dr_nonce d = dr_nonce d' \<and> dr_text d = dr_text d' \<and> dr_signature d = dr_signature d'"

text \<open>Writing a record over nothing, or over a record of the same input\<close>

lemma safe_record_written:
  assumes s: "safe z L r J w" and a: "agrees_but J w w'" and J: "r_state_path r \<noteq> J"
    and ok: "record_ok L d" and f: "fs w' J = Some (fresh_file (record_body d))"
    and old: "(\<forall>j \<in> set (answered L J w). j < dr_input_sequence d)
      \<or> (\<exists>nd d0. fs w J = Some nd \<and> decode_journal L nd = Inr d0 \<and> same_envelope d0 d)"
  shows "safe z L r J w'"
proof -
  have "covered L r J w' c" if c: "covered L r J w c" for c
  proof -
    have "(\<forall>j \<in> set (answered L J w). j \<le> dr_input_sequence d)
        \<and> (\<forall>x \<in> set (replies L J w). fst x = dr_input_sequence d \<longrightarrow> carries r d (snd x))"
      using old
    proof
      assume "\<forall>j \<in> set (answered L J w). j < dr_input_sequence d"
      then show ?thesis by (fastforce simp: answered_def)
    next
      assume "\<exists>nd d0. fs w J = Some nd \<and> decode_journal L nd = Inr d0 \<and> same_envelope d0 d"
      then obtain nd d0 where o: "fs w J = Some nd" "decode_journal L nd = Inr d0" "same_envelope d0 d" by blast
      have "dr_input_sequence d0 = dr_input_sequence d" "carries r d0 = carries r d"
        using o(3) by (auto simp: same_envelope_def carries_def fun_eq_iff)
      with c o show ?thesis by (simp add: covered_def)
    qed
    then show ?thesis
      unfolding covered_def answered_agrees [OF a] replies_agrees [OF a] f using decode_written_record [OF ok] by simp
  qed
  then show ?thesis using safeD(3,4) [OF s] by (intro safe_journal [OF s a J]) blast+
qed

text \<open>Removing the record once every answered input is behind both cursors\<close>

lemma safe_cleared:
  assumes s: "safe z L r J w" and a: "agrees_but J w w'" and J: "r_state_path r \<noteq> J"
    and f: "fs w' J = None" and c: "\<forall>j \<in> set (answered L J w). j \<le> cursor_for (mem w) (r_room r)"
    and S: "fs w (r_state_path r) = Some (fresh_file (state_body (mem w)))"
  shows "safe z L r J w'"
proof (rule safe_journal [OF s a J])
  have k: "covered L r J w' (cursor_for (mem w) (r_room r))"
    unfolding covered_def answered_agrees [OF a] f using c by simp
  then show "covered L r J w' (cursor_for (mem w) (r_room r))" .
  fix t assume "disk_state (fs w) (r_state_path r) = Inr t"
  then have "cursor_for t (r_room r) = cursor_for (mem w) (r_room r)"
    using S saved_cursor [OF safeD(2) [OF s]] by (simp add: disk_state_def)
  with k show "covered L r J w' (cursor_for t (r_room r))" by simp
qed

text \<open>
  The write itself, under a pending record: of an input above everything answered, or, with
  retries allowed, of any record the invariant covers.
\<close>

lemma safe_said:
  assumes s: "safe z L r J w" and f: "fs w J = Some nd" "decode_journal L nd = Inr d"
    and d: "dr_status d = lit ''pending''" "dr_did d = r_did r" "verify_for_room L d (r_room r) = Inr ()"
    and url: "carries r d (SaySigned url)"
    and new: "z \<or> (\<forall>j \<in> set (answered L J w). j < dr_input_sequence d)"
    and w': "sent_one (SaySigned url) w w'"
  shows "safe z L r J w'" and "replies L J w' = replies L J w @ [(dr_input_sequence d, SaySigned url)]"
proof -
  have e: "fs w' = fs w" "mem w' = mem w" using w' by (simp_all add: sent_one_def)
  have y: "says w' = says w @ [(SaySigned url, fs w)]" using says_sent_one [OF w'] by simp
  have i: "in_flight L J (SaySigned url, fs w) = Some d" by (simp add: in_flight_def f)
  show re: "replies L J w' = replies L J w @ [(dr_input_sequence d, SaySigned url)]"
    by (simp add: replies_def y i)
  have old: "fst x \<le> dr_input_sequence d" "fst x = dr_input_sequence d \<Longrightarrow> x = (dr_input_sequence d, SaySigned url)"
    if "x \<in> set (replies L J w)" for x
    using safeD(3) [OF s] that url by (auto simp: covered_def f answered_def carries_def prod_eq_iff)
  have lt: "later z x (dr_input_sequence d, SaySigned url)" if "x \<in> set (replies L J w)" for x
    using old [OF that] new that by (fastforce simp: later_def answered_def)
  have cov: "covered L r J w' c" for c
    using old url unfolding covered_def answered_def re e f by (fastforce simp: f(2))
  show "safe z L r J w'"
  proof (rule safeI)
    have "backed L r J (SaySigned url, fs w)" unfolding backed_def i using d url by auto
    then show "once z L r J w'"
      using safeD(1) [OF s] lt unfolding once_def y re by (auto simp: sorted_wrt_append)
    show "state_ok (mem w')" unfolding e by (rule safeD(2) [OF s])
    show "covered L r J w' (cursor_for (mem w') (r_room r))" by (rule cov)
  next
    fix t assume t: "disk_state (fs w') (r_state_path r) = Inr t"
    show "covered L r J w' (cursor_for t (r_room r))" by (rule cov)
    show "cursor_for t (r_room r) \<le> cursor_for (mem w') (r_room r)"
      using safeD(5) [OF s] t unfolding e by blast
  qed
qed

section \<open>Sending\<close>

text \<open>Inside a message of sequence \<open>k\<close>: the invariant, the cursor still \<open>c\<close>, nothing above \<open>k\<close> answered.\<close>

definition working :: "bool \<Rightarrow> lib \<Rightarrow> responder \<Rightarrow> path \<Rightarrow> int \<Rightarrow> int \<Rightarrow> world \<Rightarrow> bool" where
  "working z L r J c k w \<longleftrightarrow> safe z L r J w \<and> cursor_for (mem w) (r_room r) = c
     \<and> (\<forall>j \<in> set (answered L J w). j \<le> k)"

lemma working_untouched: "working z L r J c k w \<Longrightarrow> untouched w w' \<Longrightarrow> working z L r J c k w'"
  unfolding working_def using safe_untouched answered_cong says_of_sent
  by (metis untouched_def)

lemma next_nonce_safe:
  assumes s: "safe z L r J w" and J: "live r J" and n: "next_nonce (r_room r) now (mem w) = Inr (s', nonce)"
  shows "safe z L r J (w\<lparr>mem := s'\<rparr>)" and "cursor_for s' (r_room r) = cursor_for (mem w) (r_room r)"
proof -
  have s': "state_ok s'" by (rule state_ok_next_nonce [OF safeD(2) [OF s] liveD(5) [OF J] n])
  show c: "cursor_for s' (r_room r) = cursor_for (mem w) (r_room r)"
    using n by (auto simp: next_nonce_Inr cursor_for_def)
  show "safe z L r J (w\<lparr>mem := s'\<rparr>)"
    by (rule safe_frame [OF s]) (simp_all add: says_def s' c)
qed

lemma acknowledge_safe:
  assumes w: "working z L r J c k w" and J: "live r J"
    and f: "fs w J = Some nd" "decode_journal L nd = Inr d" and ok: "record_ok L d"
  shows "wp (acknowledge_journal E L J i) (\<lambda>_. working z L r J c k) (\<lambda>_. safe z L r J) w"
  unfolding acknowledge_journal_def wp_simps
proof (rule load_journal_wp)
  fix f' d' w1
  assume u: "untouched w w1" and f': "fs w J = Some f'" "decode_journal L f' = Inr d'"
  have d': "d' = d" using f f' by simp
  note w1 = working_untouched [OF w u]
  have s1: "safe z L r J w1" using w1 by (simp add: working_def)
  have j1: "fs w1 J = Some nd" using u f by (simp add: untouched_def)
  have written: "working z L r J c k w2"
    if a: "agrees_but J w1 w2" and g: "fs w2 J = Some (fresh_file (record_body d2))"
      and ack: "acknowledge_record i d = Inr d2" for d2 w2
  proof -
    have ok2: "record_ok L d2" by (rule acknowledge_record_ok [OF ok ack])
    have "same_envelope d d2" using ack by (auto simp: acknowledge_record_Inr same_envelope_def split: if_splits)
    then have "safe z L r J w2"
      using j1 f by (intro safe_record_written [OF s1 a liveD(4) [OF J] ok2 g]) auto
    moreover have "mem w2 = mem w1" using a by (simp add: agrees_but_def)
    ultimately show ?thesis using w1 by (simp add: working_def answered_agrees [OF a])
  qed
  have kept: "safe z L r J w2" if a: "agrees_but J w1 w2" and g: "fs w2 J = fs w1 J" for w2
    by (rule safe_frame [OF s1 g])
      (use a liveD(4) [OF J] safeD(2) [OF s1] in \<open>auto simp: agrees_but_def intro: says_of_sent\<close>)
  show "wp (case Some d' of None \<Rightarrow> iraise (DeliveryError ''cannot acknowledge a missing delivery journal'')
      | Some r \<Rightarrow> ibind (lift (acknowledge_record i r)) (\<lambda>acknowledged.
          ibind (write_record E J acknowledged) (\<lambda>_. iret acknowledged)))
      (\<lambda>_. working z L r J c k) (\<lambda>_. safe z L r J) w1"
    using s1 written kept
    by (auto simp: d' wp_simps working_def split: sum.split intro!: record_written.wpI)
next
  fix e w1 assume "untouched w w1"
  then show "safe z L r J w1" using w safe_untouched by (auto simp: working_def)
qed (use f in simp)

lemma prepared_send_safe:
  assumes s: "safe z L r J w" and c: "cursor_for (mem w) (r_room r) = c" and J: "live r J"
    and L: "sha256_ok L" and d: "create_record L (r_room r) k (r_did r) n tx sg = Inr d"
    and f: "fs w J = Some (fresh_file (record_body d))"
    and new: "\<forall>j \<in> set (answered L J w). j < k"
  shows "wp (write_through (r_writer r) E L (r_client r) (r_room r) (r_did r) sg (str_of_int n) tx)
    (\<lambda>m w'. wp (ibind (acknowledge_journal E L J (msg_seq m)) (\<lambda>_. iret ()))
        (\<lambda>_. working z L r J c k) (\<lambda>_. safe z L r J) w') (\<lambda>_. safe z L r J) w"
proof -
  note dd = create_record_Inr(1) [OF d] and ok = create_record_Inr(2) [OF d L]
  note f' = decode_written_record [OF ok]
  have said: "safe z L r J w'" "working z L r J c k w'" "fs w' J = Some (fresh_file (record_body d))"
    if u: "say_url (base_url (r_client r)) (r_room r) (r_did r) sg (str_of_int n) tx = Inr url"
      and o: "sent_one (SaySigned url) w w'" for url w'
  proof -
    note x = safe_said [OF s f f' _ _ create_record_Inr(3) [OF d] _ _ o]
    show sf: "safe z L r J w'" by (rule x) (use u new in \<open>simp_all add: dd carries_def\<close>)
    have "replies L J w' = replies L J w @ [(k, SaySigned url)]"
      by (subst x) (use u new in \<open>simp_all add: dd carries_def\<close>)
    then have "answered L J w' = answered L J w @ [k]" by (simp add: answered_def)
    moreover have "mem w' = mem w" using o by (simp add: sent_one_def)
    ultimately show "working z L r J c k w'" using sf c new by (auto simp: working_def less_imp_le)
    show "fs w' J = Some (fresh_file (record_body d))" using o f by (simp add: sent_one_def)
  qed
  show ?thesis
  proof (rule write_through_wp)
    show "safe z L r J w'" if "untouched w w'" for w' by (rule safe_untouched [OF s that])
  next
    fix url w' assume "say_url (base_url (r_client r)) (r_room r) (r_did r) sg (str_of_int n) tx = Inr url"
      and "sent_one (SaySigned url) w w'"
    note x = said [OF this]
    show "safe z L r J w'" by (rule x(1))
    show "wp (ibind (acknowledge_journal E L J (msg_seq m)) (\<lambda>_. iret ()))
        (\<lambda>_. working z L r J c k) (\<lambda>_. safe z L r J) w'" for m
      unfolding wp_simps by (rule acknowledge_safe [OF x(2) J x(3) f' ok])
  qed
qed

lemma send_text_safe:
  assumes s: "safe z L r J w" and c: "cursor_for (mem w) (r_room r) = c" and k: "c < k"
    and J: "live r J" and L: "sha256_ok L"
  shows "wp (send_text E L r content k) (\<lambda>_. working z L r J c k) (\<lambda>_. safe z L r J) w"
proof -
  note rest = prepared_send_safe [OF _ _ J L]
  have main: "wp (ibind (prepare_journal E J d) (\<lambda>_. write_through (r_writer r) E L (r_client r) (r_room r) (r_did r) sg (str_of_int n) tx))
      (\<lambda>m w'. wp (ibind (acknowledge_journal E L J (msg_seq m)) (\<lambda>_. iret ()))
        (\<lambda>_. working z L r J c k) (\<lambda>_. safe z L r J) w') (\<lambda>_. safe z L r J) w1"
    if s1: "safe z L r J w1" and c1: "cursor_for (mem w1) (r_room r) = c" and e1: "fs w1 J = None"
      and d: "create_record L (r_room r) k (r_did r) n tx sg = Inr d" for w1 n tx sg d
  proof -
    note ok = create_record_Inr(2) [OF d L]
    have a: "\<forall>j \<in> set (answered L J w1). j < k"
      using safeD(3) [OF s1] c1 e1 k by (auto simp: covered_def)
    have new: "safe z L r J w2" and sent: "wp (write_through (r_writer r) E L (r_client r) (r_room r) (r_did r) sg (str_of_int n) tx)
        (\<lambda>m w'. wp (ibind (acknowledge_journal E L J (msg_seq m)) (\<lambda>_. iret ()))
          (\<lambda>_. working z L r J c k) (\<lambda>_. safe z L r J) w') (\<lambda>_. safe z L r J) w2"
      if g: "agrees_but J w1 w2" and f: "fs w2 J = Some (fresh_file (record_body d))" for w2
    proof -
      show s2: "safe z L r J w2" by (rule safe_record_written [OF s1 g liveD(4) [OF J] ok f]) (use a create_record_Inr(1) [OF d] in simp)
      have c2: "cursor_for (mem w2) (r_room r) = c" using g c1 by (simp add: agrees_but_def)
      have a2: "\<forall>j \<in> set (answered L J w2). j < k" unfolding answered_agrees [OF g] by (rule a)
      show "wp (write_through (r_writer r) E L (r_client r) (r_room r) (r_did r) sg (str_of_int n) tx)
        (\<lambda>m w'. wp (ibind (acknowledge_journal E L J (msg_seq m)) (\<lambda>_. iret ()))
          (\<lambda>_. working z L r J c k) (\<lambda>_. safe z L r J) w') (\<lambda>_. safe z L r J) w2"
        by (rule rest [OF s2 c2 d f a2])
    qed
    have old: "safe z L r J w2" if g: "agrees_but J w1 w2" and f: "fs w2 J = fs w1 J" for w2
      by (rule safe_frame [OF s1 f])
        (use g liveD(4) [OF J] safeD(2) [OF s1] in \<open>auto simp: agrees_but_def intro: says_of_sent\<close>)
    show ?thesis
      unfolding wp_ibind prepare_journal_def wp_exists_path wp_lift e1 raise_if_def
      using sent old new by (simp add: wp_ibind_eta wp_iret_eta) (rule record_written.wpI; blast)
  qed
  show ?thesis
    unfolding send_text_def liveD(2) [OF J] option.case
  proof (subst wp_ibind, rule require_empty_wp)
    fix w1 assume u: "untouched w w1" and e: "fs w J = None"
    have s1: "safe z L r J (w1\<lparr>tick := Suc (tick w1)\<rparr>)" by (rule safe_tick [OF safe_untouched [OF s u]])
    have n: "safe z L r J (w1\<lparr>tick := Suc (tick w1), mem := s'\<rparr>) \<and> cursor_for s' (r_room r) = c \<and> fs w1 J = None"
      if "next_nonce (r_room r) (clock_ns E (tick w1)) (mem w1) = Inr (s', nonce)" for s' nonce
      using next_nonce_safe [OF s1 J] that u e c by (auto simp: untouched_def)
    show "wp (ibind (ask (clock_ns E)) (\<lambda>now.
     ibind (update_mem (next_nonce (r_room r) now)) (\<lambda>nonce.
     ibind (lift (sign_room_message L (r_key r) (r_room r) (str_of_int nonce) content)) (\<lambda>(swept, signature).
     ibind (prepare_delivery E L r k nonce swept signature) (\<lambda>_.
     ibind (uncertain is_wire_error ''signed write did not return a verifiable acknowledgement''
       (write_through (r_writer r) E L (r_client r) (r_room r) (r_did r) signature (str_of_int nonce) swept)) (\<lambda>posted.
     ibind (uncertain is_DeliveryError ''delivery evidence could not be persisted''
           (ibind (acknowledge_journal E L J (msg_seq posted)) (\<lambda>_. iret ()))) (\<lambda>_.
     iret posted))))))) (\<lambda>_. working z L r J c k) (\<lambda>_. safe z L r J) w1"
      using s1 n main [unfolded wp_simps wp_ibind_eta]
      by (simp add: wp_simps wp_ibind_eta prepare_delivery_def liveD(2) [OF J] split: sum.split prod.split)
  qed (use s safe_untouched in blast)
qed

section \<open>What one message leaves\<close>

text \<open>After the event of message \<open>k\<close>: when it was sent, nothing above \<open>k\<close> is answered.\<close>

definition handled :: "bool \<Rightarrow> lib \<Rightarrow> responder \<Rightarrow> path \<Rightarrow> int \<Rightarrow> int \<Rightarrow> event \<Rightarrow> world \<Rightarrow> bool" where
  "handled z L r J c k e w \<longleftrightarrow> safe z L r J w \<and> cursor_for (mem w) (r_room r) = c
     \<and> (is_sent e \<longrightarrow> (\<forall>j \<in> set (answered L J w). j \<le> k))"

lemma steady_start: "safe z L r J w \<Longrightarrow> steady z L r J (cursor_for (mem w) (r_room r)) (says w) w"
  by (simp add: steady_def)

lemma handled_of:
  "steady z L r J c y w \<Longrightarrow> \<not> is_sent e \<Longrightarrow> handled z L r J c k e w"
  "working z L r J c k w \<Longrightarrow> handled z L r J c k e w"
  by (simp_all add: handled_def steady_def working_def)

lemma unsent_events [simp]:
  "\<not> is_sent (e\<lparr>ev_event := ''receipt_failed'', ev_pull_request := p, ev_error := x\<rparr>)"
  by (simp add: is_sent_def)

lemma reply_event_safe:
  assumes s: "steady z L r J c y w" and k: "c < k" and J: "live r J" and L: "sha256_ok L"
  shows "wp (reply_event E L r e k cmd answer) (handled z L r J c k) (\<lambda>_. safe z L r J) w"
  unfolding reply_event_def wp_simps
  using s liveD(1) [OF J]
  by (auto simp: wp_simps steady_def handled_of
      intro!: wp_mono [OF send_text_safe [OF _ _ k J L]])

lemma receipt_event_safe:
  assumes s: "steady z L r J c y w" and k: "c < k" and J: "live r J" and L: "sha256_ok L"
  shows "wp (receipt_event E L r e k url) (handled z L r J c k) (\<lambda>_. safe z L r J) w"
proof (cases "r_service r")
  case None
  then show ?thesis using s liveD(1) [OF J] by (simp add: receipt_event_def wp_simps steady_def)
next
  case (Some svc)
  have st: "wp (send_text E L r rc k) (\<lambda>m w'. handled z L r J c k (e' m) w') (\<lambda>_. safe z L r J) w'"
    if "steady z L r J c y w'" for w' rc and e' :: "room_message \<Rightarrow> event"
    by (rule wp_mono [OF send_text_safe [OF _ _ k J L]])
      (use that in \<open>simp_all add: steady_def handled_of\<close>)
  have "wp (try_issue E L svc url) (\<lambda>out w'. wp (case out of
            Inl err \<Rightarrow> iret (e\<lparr>ev_event := ''receipt_failed'', ev_pull_request := Some url, ev_error := error_fields err\<rparr>)
          | Inr receipt \<Rightarrow> ibind (send_text E L r receipt k) (\<lambda>posted.
              iret (e\<lparr>ev_event := ''sent_receipt'', ev_reply_seq := Some (msg_seq posted),
                ev_pull_request := Some url, ev_receipt_sha256 := Some (sha256_hex L (utf8 receipt))\<rparr>)))
        (handled z L r J c k) (\<lambda>_. safe z L r J) w') (\<lambda>_. safe z L r J) w"
    by (rule wp_mono [OF steady_asking [OF grows_try_issue s]])
      (use st in \<open>auto simp: wp_simps steady_def handled_of split: sum.split\<close>)
  then show ?thesis
    using liveD(1) [OF J] by (simp add: receipt_event_def Some wp_simps)
qed

lemma event_safe:
  assumes s: "safe z L r J w" and c: "cursor_for (mem w) (r_room r) = c" and k: "c < msg_seq m"
    and J: "live r J" and L: "sha256_ok L"
  shows "wp (event_for_message E L r m) (handled z L r J c (msg_seq m)) (\<lambda>_. safe z L r J) w"
  unfolding event_for_message_def wp_ibind
proof (rule wp_mono [OF decide_safe [OF steady_start [OF s] J]])
  fix d :: decision and w'
  assume "steady z L r J (cursor_for (mem w) (r_room r)) (says w) w' \<and> (action d \<noteq> ''ignore'' \<longrightarrow>
       (action d = ''reply'' \<and> reply d \<noteq> None \<or> action d = ''receipt'' \<and> target d \<noteq> None))"
  then have st: "steady z L r J c (says w) w'"
    and a: "action d = ''ignore'' \<or> action d = ''reply'' \<and> reply d \<noteq> None \<or> action d = ''receipt'' \<and> target d \<noteq> None"
    using c by auto
  show "wp (let e = base_event m d in if action d = ''reply'' \<and> reply d \<noteq> None
     then reply_event E L r e (msg_seq m) (msg_text m) (the (reply d))
     else if action d = ''receipt'' \<and> target d \<noteq> None
     then receipt_event E L r e (msg_seq m) (the (target d)) else iret e)
     (handled z L r J c (msg_seq m)) (\<lambda>_. safe z L r J) w'"
    using a reply_event_safe [OF st k J L] receipt_event_safe [OF st k J L] handled_of(1) [OF st]
    by (auto simp: Let_def wp_simps base_event_def is_sent_def)
qed (simp add: steady_def)

lemma agrees_elsewhere:
  assumes s: "safe z L r J w" and a: "agrees_but p w w'" and p: "p \<noteq> J" "p \<noteq> r_state_path r"
  shows "safe z L r J w'" and "cursor_for (mem w') (r_room r) = cursor_for (mem w) (r_room r)"
    and "answered L J w' = answered L J w"
proof -
  have e: "mem w' = mem w" "says w' = says w" "fs w' J = fs w J" "fs w' (r_state_path r) = fs w (r_state_path r)"
    using a p by (auto simp: agrees_but_def intro: says_of_sent)
  show "safe z L r J w'" by (rule safe_frame [OF s e(3,4,2)]) (simp_all add: e(1) safeD(2) [OF s])
  show "cursor_for (mem w') (r_room r) = cursor_for (mem w) (r_room r)" by (simp add: e)
  show "answered L J w' = answered L J w" by (rule answered_agrees [OF a])
qed

lemma advance_safe:
  assumes s: "safe z L r J w" and J: "live r J" and n: "advance_cursor (r_room r) n (mem w) = Inr s'"
  shows "safe z L r J (w\<lparr>mem := s'\<rparr>)" and "cursor_for s' (r_room r) = n"
proof -
  show c: "cursor_for s' (r_room r) = n"
    using n by (simp add: advance_cursor_Inr cursor_for_def get_default_def update_conv')
  show "safe z L r J (w\<lparr>mem := s'\<rparr>)"
    by (rule safe_frame [OF s])
      (use n c state_ok_advance_cursor [OF safeD(2) [OF s] liveD(5) [OF J] n] in \<open>auto simp: advance_cursor_Inr\<close>)
qed

lemma save_safe:
  assumes s: "safe z L r J w" and J: "live r J"
  shows "wp (save_mem E (r_state_path r)) (\<lambda>_ w'. safe z L r J w' \<and> agrees_but (r_state_path r) w w'
      \<and> fs w' (r_state_path r) = Some (fresh_file (state_body (mem w')))) (\<lambda>_. safe z L r J) w"
  by (rule save_mem_wp) (use safe_saved [OF s _ liveD(3) [OF J]] in \<open>auto simp: agrees_but_def\<close>)

lemma clear_safe:
  assumes s: "safe z L r J w" and J: "live r J"
    and c: "\<forall>j \<in> set (answered L J w). j \<le> cursor_for (mem w) (r_room r)"
    and S: "fs w (r_state_path r) = Some (fresh_file (state_body (mem w)))"
  shows "wp (clear_journal E J) (\<lambda>_ w'. safe z L r J w' \<and> mem w' = mem w) (\<lambda>_. safe z L r J) w"
proof (rule journal_cleared.wpI)
  fix w' assume a: "agrees_but J w w'" and f: "fs w' J = None"
  have "safe z L r J w'" by (rule safe_cleared [OF s a liveD(4) [OF J] f c S])
  then show "safe z L r J w' \<and> mem w' = mem w" "safe z L r J w'" using a by (auto simp: agrees_but_def)
next
  fix w' assume a: "agrees_but J w w'" and f: "fs w' J = fs w J"
  show "safe z L r J w'"
    by (rule safe_frame [OF s f])
      (use a liveD(4) [OF J] safeD(2) [OF s] in \<open>auto simp: agrees_but_def intro: says_of_sent\<close>)
qed

lemma save_and_clear_safe:
  assumes s: "safe z L r J w" and J: "live r J"
    and c: "b \<longrightarrow> (\<forall>j \<in> set (answered L J w). j \<le> cursor_for (mem w) (r_room r))"
  shows "wp (ibind (uncertain p why (save_mem E (r_state_path r))) (\<lambda>_.
          if b then uncertain q why' (clear_journal E J) else iret ()))
     (\<lambda>_ w'. safe z L r J w' \<and> mem w' = mem w) (\<lambda>_. safe z L r J) w"
  unfolding wp_simps
proof (rule wp_mono [OF save_safe [OF s J]])
  fix w' assume h: "safe z L r J w' \<and> agrees_but (r_state_path r) w w'
      \<and> fs w' (r_state_path r) = Some (fresh_file (state_body (mem w')))"
  then have m: "mem w' = mem w" by (simp add: agrees_but_def)
  have "wp (clear_journal E J) (\<lambda>_ w''. safe z L r J w'' \<and> mem w'' = mem w') (\<lambda>_. safe z L r J) w'" if b
    by (rule clear_safe [OF _ J]) (use that h c in \<open>simp_all add: m answered_agrees [of "r_state_path r" w]\<close>)
  then show "wp (if b then uncertain q why' (clear_journal E J) else iret ())
      (\<lambda>_ w'. safe z L r J w' \<and> mem w' = mem w) (\<lambda>_. safe z L r J) w'"
    using h by (simp add: wp_simps m)
qed simp

lemma persist_safe:
  assumes h: "handled z L r J c (msg_seq m) e w" and J: "live r J"
  shows "wp (persist_processed_message E L r m e)
    (\<lambda>_ w'. safe z L r J w' \<and> cursor_for (mem w') (r_room r) = msg_seq m) (\<lambda>_. safe z L r J) w"
proof -
  let ?rest = "ibind (update_mem_unit (advance_cursor (r_room r) (msg_seq m))) (\<lambda>_.
     if \<not> r_send r then iret ()
     else ibind (uncertain (\<lambda>x. is_StateError x \<and> is_sent e) ''reply was acknowledged but its cursor could not be persisted''
            (save_mem E (r_state_path r))) (\<lambda>_.
          if is_sent e \<and> r_journal r \<noteq> None
          then uncertain is_DeliveryError ''the delivery journal could not be cleared''
                 (clear_journal E (the (r_journal r)))
          else iret ()))"
  have rest: "wp ?rest (\<lambda>_ w'. safe z L r J w' \<and> cursor_for (mem w') (r_room r) = msg_seq m) (\<lambda>_. safe z L r J) w1"
    if h1: "handled z L r J c (msg_seq m) e w1" for w1
  proof (cases "advance_cursor (r_room r) (msg_seq m) (mem w1)")
    case (Inl x)
    then show ?thesis using h1 by (simp add: wp_simps handled_def)
  next
    case (Inr s')
    have s1: "safe z L r J w1" using h1 by (simp add: handled_def)
    note a = advance_safe [OF s1 J Inr]
    have "is_sent e \<longrightarrow> (\<forall>j \<in> set (answered L J (w1\<lparr>mem := s'\<rparr>)). j \<le> cursor_for (mem (w1\<lparr>mem := s'\<rparr>)) (r_room r))"
      using h1 a(2) by (simp add: handled_def answered_def replies_def)
    note sc = save_and_clear_safe [OF a(1) J this]
    show ?thesis
      unfolding wp_ibind [of "update_mem_unit u" for u] wp_update_mem_unit Inr sum.case
      by (simp only: liveD(1,2) [OF J] not_True_eq_False if_False option.sel option.simps(3)
          not_False_eq_True simp_thms, rule wp_mono [OF sc]) (auto simp: a(2))
  qed
  have audited: "handled z L r J c (msg_seq m) e w1" if "agrees_but A w w1" "r_audit r = Some A" for A w1
    using h agrees_elsewhere [OF _ that(1)] liveD(6) [OF J that(2)] by (auto simp: handled_def)
  have "handled z L r J c (msg_seq m) e (w\<lparr>tick := n\<rparr>)" for n
    using h safe_tick by (auto simp: handled_def answered_def replies_def)
  show ?thesis
    unfolding persist_processed_message_def
  proof (subst wp_ibind, cases "r_audit r")
    case None
    then show "wp (if r_send r \<and> r_audit r \<noteq> None then append_audit_record E L r (the (r_audit r)) m e else iret ())
      (\<lambda>_. wp ?rest (\<lambda>_ w'. safe z L r J w' \<and> cursor_for (mem w') (r_room r) = msg_seq m) (\<lambda>_. safe z L r J))
      (\<lambda>_. safe z L r J) w"
      using rest [OF h] by (simp add: wp_iret)
  next
    case (Some A)
    have "wp (append_audit E L A (r_did r) (r_key r) t x) (\<lambda>_. handled z L r J c (msg_seq m) e)
        (\<lambda>_. handled z L r J c (msg_seq m) e) (w\<lparr>tick := n\<rparr>)" for t x n
      by (rule wp_mono [OF append_audit_frame])
        (use audited [OF _ Some] in \<open>auto simp: agrees_but_def\<close>)
    then have "wp (append_audit_record E L r A m e) (\<lambda>_. handled z L r J c (msg_seq m) e)
        (\<lambda>_. handled z L r J c (msg_seq m) e) w"
      using h by (auto simp: append_audit_record_def wp_simps split: sum.splits)
    then have "wp (append_audit_record E L r A m e)
      (\<lambda>_. wp ?rest (\<lambda>_ w'. safe z L r J w' \<and> cursor_for (mem w') (r_room r) = msg_seq m) (\<lambda>_. safe z L r J))
      (\<lambda>_. safe z L r J) w"
      by (rule wp_mono) (rule rest, assumption, simp add: handled_def)
    then show "wp (if r_send r \<and> r_audit r \<noteq> None then append_audit_record E L r (the (r_audit r)) m e else iret ())
      (\<lambda>_. wp ?rest (\<lambda>_ w'. safe z L r J w' \<and> cursor_for (mem w') (r_room r) = msg_seq m) (\<lambda>_. safe z L r J))
      (\<lambda>_. safe z L r J) w"
      by (simp add: Some liveD(1) [OF J])
  qed
qed

section \<open>A snapshot\<close>

text \<open>A step that keeps an invariant on every path out of it, and how such steps compose\<close>

definition keeps :: "(world \<Rightarrow> bool) \<Rightarrow> 'a io \<Rightarrow> bool" where
  "keeps I m \<longleftrightarrow> (\<forall>w. I w \<longrightarrow> wp m (\<lambda>_. I) (\<lambda>_. I) w)"

lemma keepsD: "keeps I m \<Longrightarrow> I w \<Longrightarrow> wp m (\<lambda>_. I) (\<lambda>_. I) w"
  by (simp add: keeps_def)

lemma keeps_ibind: "keeps I m \<Longrightarrow> (\<And>x. keeps I (f x)) \<Longrightarrow> keeps I (ibind m f)"
  unfolding keeps_def wp_ibind by (blast intro: wp_mono)

lemma keeps_on_error: "keeps I m \<Longrightarrow> (\<And>e. keeps I (h e)) \<Longrightarrow> keeps I (on_error p h m)"
  unfolding keeps_def wp_on_error by (intro allI impI, rule wp_mono [where Q = "\<lambda>_. I" and R = "\<lambda>_. I"]) auto

lemma keeps_pure: "keeps I (iret x)" "keeps I (lift v)" "keeps I (iget g)"
  by (auto simp: keeps_def wp_simps split: sum.split)

lemma keeps_iwhen: "keeps I m \<Longrightarrow> keeps I (iwhen b m)"
  by (simp add: keeps_def wp_simps)

lemma keeps_if: "(b \<Longrightarrow> keeps I m) \<Longrightarrow> (\<not> b \<Longrightarrow> keeps I n) \<Longrightarrow> keeps I (if b then m else n)"
  by simp

lemma keeps_uncertain: "keeps I m \<Longrightarrow> keeps I (uncertain p why m)"
  unfolding uncertain_def by (intro keeps_on_error keeps_pure)

lemmas keeps_intros = keeps_ibind keeps_on_error keeps_pure keeps_iwhen keeps_if keeps_uncertain

lemma process_messages_safe:
  assumes s: "safe z L r J w" and c: "cursor_for (mem w) (r_room r) = c" and J: "live r J" and L: "sha256_ok L"
  shows "wp (process_messages E L r c ms) (\<lambda>_. safe z L r J) (\<lambda>_. safe z L r J) w"
  using s c
proof (induction ms arbitrary: c w)
  case Nil
  then show ?case by (simp add: wp_simps)
next
  case (Cons m ms)
  show ?case
  proof (cases "msg_seq m \<le> c")
    case True
    then show ?thesis using Cons by simp
  next
    case False
    then have k: "c < msg_seq m" by simp
    have tail: "wp (process_messages E L r (msg_seq m) ms) (\<lambda>_. safe z L r J) (\<lambda>_. safe z L r J) w'"
      if "safe z L r J w'" "cursor_for (mem w') (r_room r) = msg_seq m" for w'
      by (rule Cons.IH [OF that])
    have "wp (event_for_message E L r m) (\<lambda>e w'. wp (persist_processed_message E L r m e)
        (\<lambda>_ w'. wp (process_messages E L r (msg_seq m) ms) (\<lambda>_. safe z L r J) (\<lambda>_. safe z L r J) w')
        (\<lambda>_. safe z L r J) w') (\<lambda>_. safe z L r J) w"
      by (rule wp_mono [OF event_safe [OF Cons.prems k J L]], rule wp_mono [OF persist_safe [OF _ J]])
        (auto intro: tail)
    then show ?thesis using False by (simp add: wp_simps wp_ibind_eta split_def)
  qed
qed

lemma observe_safe:
  assumes s: "safe z L r J w" and J: "live r J" and n: "observe_generation (r_room r) g (mem w) = Inr (s', b)"
  shows "safe z L r J (w\<lparr>mem := s'\<rparr>)" and "cursor_for s' (r_room r) = cursor_for (mem w) (r_room r)"
proof -
  show c: "cursor_for s' (r_room r) = cursor_for (mem w) (r_room r)"
    using n by (simp add: observe_generation_Inr cursor_for_def)
  show "safe z L r J (w\<lparr>mem := s'\<rparr>)"
    by (rule safe_frame [OF s])
      (simp_all add: c state_ok_observe_generation [OF safeD(2) [OF s] liveD(5) [OF J] n])
qed

lemma keeps_safe:
  assumes J: "live r J"
  shows "keeps (safe z L r J) (save_if_sending E r)"
    and "keeps (safe z L r J) (update_mem_unit (advance_cursor (r_room r) n))"
    and "keeps (safe z L r J) (update_mem (observe_generation (r_room r) g))"
    and "keeps (safe z L r J) (read_room E L cl (r_room r) since wait limit nn)"
    and "keeps (safe z L r J) (save_mem E (r_state_path r))"
proof -
  show sv: "keeps (safe z L r J) (save_mem E (r_state_path r))"
    unfolding keeps_def by (auto intro!: wp_mono [OF save_safe [OF _ J]])
  show "keeps (safe z L r J) (save_if_sending E r)"
    unfolding save_if_sending_def by (intro keeps_intros sv)
  show "keeps (safe z L r J) (update_mem_unit (advance_cursor (r_room r) n))"
    unfolding keeps_def wp_simps using advance_safe(1) [OF _ J] by (auto split: sum.split)
  show "keeps (safe z L r J) (update_mem (observe_generation (r_room r) g))"
    unfolding keeps_def wp_simps using observe_safe(1) [OF _ J] by (auto split: sum.split)
  have "safe z L r J w \<Longrightarrow> wp (read_room E L cl (r_room r) since wait limit nn)
      (\<lambda>_. safe z L r J) (\<lambda>_. safe z L r J) w" for w
    by (rule wp_mono [OF steady_asking [OF asking_read_room quiet_read_room steady_start]])
      (auto simp: steady_def)
  then show "keeps (safe z L r J) (read_room E L cl (r_room r) since wait limit nn)"
    by (simp add: keeps_def)
qed

lemma process_snapshot_safe:
  assumes J: "live r J" and L: "sha256_ok L"
  shows "keeps (safe z L r J) (process_snapshot E L r snap)"
proof -
  have tail: "keeps (safe z L r J) (ibind (iget (\<lambda>w. cursor_for (mem w) (r_room r))) (\<lambda>cursor.
      ibind (process_messages E L r cursor (messages snap)) (rest cursor)))"
    if "\<And>c x. keeps (safe z L r J) (rest c x)" for rest :: "int \<Rightarrow> int \<times> report list \<Rightarrow> report list io"
    unfolding keeps_def wp_ibind wp_iget
    by (intro allI impI, rule wp_mono [OF process_messages_safe [OF _ _ J L]])
      (use keepsD [OF that] in auto)
  show ?thesis
    unfolding process_snapshot_def split_def
    by (rule keeps_ibind, rule keeps_pure, rule keeps_ibind, rule keeps_pure, rule keeps_ibind,
        rule keeps_on_error, rule keeps_safe(3) [OF J], rule keeps_pure, rule tail)
      (intro keeps_intros keeps_safe [OF J])
qed

lemma bootstrap_safe:
  assumes J: "live r J"
  shows "keeps (safe z L r J) (bootstrap_latest E L r)"
  unfolding bootstrap_latest_def by (intro keeps_intros keeps_safe [OF J])

end
