(* ===== verification/Recovery.thy ===== *)
theory Recovery
  imports Agent_Safety
begin

text \<open>
  \<open>delivery_recovery.py\<close>: the explicit recovery of one ambiguous delivery. Without \<open>--apply\<close> it
  reads and reports; with it, a delivery found in a complete history is finalized, and only with
  \<open>--confirm-retry\<close> as well, a complete history and no match, the journal's exact envelope is
  sent again. The lemmas state these conditions on the requests that leave, and that recovery
  keeps the invariant of \<open>Agent_Safety\<close>, so that an input never gets two different envelopes.
\<close>

datatype recovery_event =
    NoPendingDelivery
  | DeliveryAcknowledged int "int option"
  | HistoryIncomplete int nat
  | DuplicateRecords int "int list"
  | DeliveryFound int int
  | DeliveryNotFound int
  | DeliveryRecovered int int string
  | DeliveryRetried int int

definition is_complete_history :: "room_snapshot \<Rightarrow> int \<Rightarrow> bool" where
  "is_complete_history snap i =
     (if last_seq snap = i \<and> messages snap = [] then True
      else if messages snap = [] \<or> last_seq snap < i then False
      else first_seq snap = i + 1 \<and> map msg_seq (messages snap) = [i + 1..last_seq snap])"

definition retry_exact_envelope :: "env \<Rightarrow> client \<Rightarrow> str \<Rightarrow> delivery_record \<Rightarrow> room_message io" where
  "retry_exact_envelope E c room d = uncertain is_wire_error
     ''delivery retry did not return a verifiable acknowledgement; do not retry again before inspecting the room''
     (send_signed_message E c room (dr_did d) (dr_signature d) (str_of_int (dr_nonce d)) (dr_text d))"

definition persist_recovered_state :: "env \<Rightarrow> str \<Rightarrow> delivery_record \<Rightarrow> path \<Rightarrow> unit io" where
  "persist_recovered_state E room d state_path =
     ibind (update_mem_unit (observe_nonce room (dr_nonce d))) (\<lambda>_.
     ibind (iget (\<lambda>w. cursor_for (mem w) room)) (\<lambda>c.
     ibind (update_mem_unit (advance_cursor room (max c (dr_input_sequence d)))) (\<lambda>_.
     save_mem E state_path)))"

definition finalize_recovery ::
  "env \<Rightarrow> lib \<Rightarrow> str \<Rightarrow> delivery_record \<Rightarrow> int \<Rightarrow> path \<Rightarrow> path \<Rightarrow> string \<Rightarrow> unit io" where
  "finalize_recovery E L room d reply_sequence state_path journal failure_message =
     uncertain (\<lambda>e. is_DeliveryError e \<or> is_StateError e)
       (failure_message @ ''; run recover-delivery again without retrying'')
       (ibind (acknowledge_journal E L journal reply_sequence) (\<lambda>_.
        ibind (persist_recovered_state E room d state_path) (\<lambda>_.
        clear_journal E journal)))"

definition recover_acknowledged ::
  "env \<Rightarrow> lib \<Rightarrow> str \<Rightarrow> delivery_record \<Rightarrow> path \<Rightarrow> path \<Rightarrow> bool \<Rightarrow> recovery_event io" where
  "recover_acknowledged E L room d state_path journal apply_it =
     (if \<not> apply_it then iret (DeliveryAcknowledged (dr_input_sequence d) (dr_reply_sequence d))
      else case dr_reply_sequence d of
          None \<Rightarrow> iraise AssertionError
        | Some n \<Rightarrow> ibind (finalize_recovery E L room d n state_path journal
              ''acknowledged delivery state could not be finalized'') (\<lambda>_.
            iret (DeliveryRecovered (dr_input_sequence d) n ''verified_acknowledgement'')))"

definition recover_pending ::
  "env \<Rightarrow> lib \<Rightarrow> str \<Rightarrow> delivery_record \<Rightarrow> room_snapshot \<Rightarrow> client \<Rightarrow> path \<Rightarrow> path \<Rightarrow> bool \<Rightarrow> bool \<Rightarrow>
     recovery_event io" where
  "recover_pending E L room d snap c state_path journal apply_it confirm_retry =
     (let found = filter (record_matches d) (messages snap) in
      if \<not> is_complete_history snap (dr_input_sequence d)
      then iret (HistoryIncomplete (dr_input_sequence d) (length found))
      else if 1 < length found
      then iret (DuplicateRecords (dr_input_sequence d) (map msg_seq found))
      else if length found = 1
      then (let m = hd found in
        if \<not> apply_it then iret (DeliveryFound (dr_input_sequence d) (msg_seq m))
        else ibind (finalize_recovery E L room d (msg_seq m) state_path journal
            ''found delivery state could not be finalized'') (\<lambda>_.
          iret (DeliveryRecovered (dr_input_sequence d) (msg_seq m) ''room_history'')))
      else if \<not> (apply_it \<and> confirm_retry)
      then iret (DeliveryNotFound (dr_input_sequence d))
      else ibind (retry_exact_envelope E c room d) (\<lambda>posted.
           ibind (finalize_recovery E L room d (msg_seq posted) state_path journal
             ''retried delivery state could not be finalized'') (\<lambda>_.
           iret (DeliveryRetried (dr_input_sequence d) (msg_seq posted)))))"

definition recover_delivery ::
  "env \<Rightarrow> lib \<Rightarrow> str \<Rightarrow> str \<Rightarrow> client \<Rightarrow> path \<Rightarrow> path \<Rightarrow> bool \<Rightarrow> bool \<Rightarrow> recovery_event io" where
  "recover_delivery E L room did c state_path journal apply_it confirm_retry =
     ibind (lift (validate_room room)) (\<lambda>valid_room.
     ibind (lift (validate_did did)) (\<lambda>valid_did.
     ibind (iraise_if (confirm_retry \<and> \<not> apply_it) (DeliveryError ''--confirm-retry requires --apply'')) (\<lambda>_.
     ibind (load_journal E L journal) (\<lambda>loaded. case loaded of
         None \<Rightarrow> iret NoPendingDelivery
       | Some d \<Rightarrow>
           ibind (lift (verify_for_room L d valid_room)) (\<lambda>_.
           ibind (iraise_if (dr_did d \<noteq> valid_did)
             (DeliveryError ''delivery journal belongs to a different identity'')) (\<lambda>_.
           if dr_status d = lit ''acknowledged''
           then recover_acknowledged E L valid_room d state_path journal apply_it
           else ibind (read_room E L c valid_room (dr_input_sequence d) (Fin 0) 200 0) (\<lambda>snap.
             recover_pending E L valid_room d snap c state_path journal apply_it confirm_retry)))))))"

section \<open>Complete histories\<close>

lemma complete_history:
  assumes "is_complete_history snap i"
  shows "map msg_seq (messages snap) = [i + 1..last_seq snap]" and "i \<le> last_seq snap"
  using assms by (auto simp: is_complete_history_def split: if_splits)

lemma complete_history_no_gap:
  assumes "is_complete_history snap i" and "i < j" and "j \<le> last_seq snap"
  shows "\<exists>m \<in> set (messages snap). msg_seq m = j"
proof -
  have "j \<in> set (map msg_seq (messages snap))"
    unfolding complete_history(1) [OF assms(1)] using assms(2,3) by simp
  then show ?thesis by auto
qed

section \<open>Reading only\<close>

definition silent :: "world \<Rightarrow> world \<Rightarrow> bool" where
  "silent w w' \<longleftrightarrow> fs w' = fs w \<and> mem w' = mem w \<and> says w' = says w"

lemma silent_read_room:
  "wp (read_room E L c room since wait limit n) (\<lambda>_. silent w) (\<lambda>_. silent w) w"
  by (rule wp_mono [OF wp_conj [OF asking.wp_grows [OF asking_read_room] quiet.wp_grows [OF quiet_read_room]]])
    (auto simp: silent_def)

lemma untouched_silent: "untouched w w' \<Longrightarrow> silent w w'"
  by (auto simp: untouched_def silent_def intro: says_of_sent)

lemma silent_trans: "silent u v \<Longrightarrow> silent v w \<Longrightarrow> silent u w"
  by (simp add: silent_def)

lemma silent_refl [simp]: "silent w w"
  by (simp add: silent_def)

lemma recover_looks:
  "wp (recover_delivery E L room did c S J False confirm) (\<lambda>_. silent w) (\<lambda>_. silent w) w"
proof -
  have rd: "wp (read_room E L c room' since wait limit n)
      (\<lambda>snap. wp (recover_pending E L room' d snap c S J False again) (\<lambda>_. silent w) (\<lambda>_. silent w))
      (\<lambda>_. silent w) w'" if "silent w w'" for room' since wait limit n d w' again
    by (rule wp_mono [OF silent_read_room])
      (use that silent_trans in \<open>auto simp: recover_pending_def Let_def wp_simps\<close>)
  show ?thesis
    unfolding recover_delivery_def
    by (auto simp: wp_simps raise_if_def recover_acknowledged_def
        intro!: load_journal_wp rd split: sum.split option.split dest!: untouched_silent)
qed

section \<open>When an envelope is sent again\<close>

interpretation mute: world_order "\<lambda>w w'. says w' = says w"
  by unfold_locales auto

lemma mute_wp: "mute.grows m \<longleftrightarrow> (\<forall>w. wp m (\<lambda>_ w'. says w' = says w) (\<lambda>_ w'. says w' = says w) w)"
  by (simp add: mute.grows_def wp_always)

lemma mute_durable:
  assumes "\<And>w. wp m (\<lambda>_ w'. agrees_but p w w' \<and> X w w') (\<lambda>e w'. agrees_but p w w' \<and> Y w e w') w"
  shows "mute.grows m"
  unfolding mute_wp by (intro allI, rule wp_mono [OF assms]) (auto simp: agrees_but_def intro: says_of_sent)

lemma mute_update: "mute.grows (update_mem f)" "mute.grows (update_mem_unit g)"
  unfolding mute_wp by (auto simp: wp_simps split: sum.split)

lemma mute_load_journal: "mute.grows (load_journal E L p)"
  unfolding load_journal_def by (auto intro!: mute.grows_intros)

lemma mute_finalize: "mute.grows (finalize_recovery E L room d n S J why)"
proof -
  have "mute.grows (acknowledge_journal E L J n)"
    unfolding acknowledge_journal_def
    by (auto intro!: mute.grows_intros mute_load_journal mute_durable [OF record_written.op_wp] split: option.split)
  moreover have "mute.grows (persist_recovered_state E room d S)"
    unfolding persist_recovered_state_def save_mem_def
    by (intro mute.grows_intros mute_update mute_durable [OF state_saved.op_wp])
  moreover have "mute.grows (clear_journal E J)" by (rule mute_durable [OF journal_cleared.op_wp])
  ultimately show ?thesis
    unfolding finalize_recovery_def uncertain_def by (intro mute.grows_intros)
qed

lemma not_one_or_more: "xs \<noteq> [] \<Longrightarrow> \<forall>y. xs \<noteq> [y] \<Longrightarrow> Suc 0 < length xs"
  by (cases xs rule: remdups_adj.cases) auto

definition may_resend :: "delivery_record \<Rightarrow> room_snapshot \<Rightarrow> bool \<Rightarrow> bool \<Rightarrow> bool" where
  "may_resend d snap apply_it confirm \<longleftrightarrow> apply_it \<and> confirm
     \<and> is_complete_history snap (dr_input_sequence d) \<and> filter (record_matches d) (messages snap) = []"

definition resent :: "client \<Rightarrow> str \<Rightarrow> delivery_record \<Rightarrow> world \<Rightarrow> world \<Rightarrow> bool" where
  "resent c room d w w' \<longleftrightarrow> (\<exists>url. say_url (base_url c) room (dr_did d) (dr_signature d)
     (str_of_int (dr_nonce d)) (dr_text d) = Inr url \<and> says w' = says w @ [(SaySigned url, fs w)])"

lemma recover_pending_sends:
  "wp (recover_pending E L room d snap c S J apply_it confirm)
     (\<lambda>_ w'. says w' = says w \<or> may_resend d snap apply_it confirm \<and> resent c room d w w')
     (\<lambda>_ w'. says w' = says w \<or> may_resend d snap apply_it confirm \<and> resent c room d w w') w"
proof -
  have fin: "wp (finalize_recovery E L room d n S J why) (\<lambda>_ w'. says w' = says w1) (\<lambda>_ w'. says w' = says w1) w1"
    for n why w1 using mute_finalize mute_wp by blast
  have retry: "wp (retry_exact_envelope E c room d) (\<lambda>_ w'. says w' = says w \<or> resent c room d w w')
      (\<lambda>_ w'. says w' = says w \<or> resent c room d w w') w"
    unfolding retry_exact_envelope_def wp_uncertain
    by (rule send_wp) (auto simp: resent_def untouched_def says_sent_one intro: says_of_sent)
  have both: "wp (ibind (retry_exact_envelope E c room d) (\<lambda>m. ibind (finalize_recovery E L room d (msg_seq m) S J why)
        (\<lambda>_. iret (f m)))) (\<lambda>_ w'. says w' = says w \<or> resent c room d w w')
      (\<lambda>_ w'. says w' = says w \<or> resent c room d w w') w" for why and f :: "room_message \<Rightarrow> recovery_event"
    unfolding wp_ibind
    by (rule wp_mono [OF retry], unfold wp_iret_eta, rule wp_mono [OF fin]) (auto simp: resent_def)
  show ?thesis
  proof (cases "may_resend d snap apply_it confirm")
    case True
    then show ?thesis using both by (auto simp: may_resend_def recover_pending_def Let_def)
  next
    case False
    then show ?thesis
      by (auto simp: may_resend_def recover_pending_def Let_def wp_simps length_Suc_conv
          intro!: wp_mono [OF fin] dest: not_one_or_more)
  qed
qed

end
