(* ===== verification/Recovery_Safety.thy ===== *)
theory Recovery_Safety
  imports Recovery
begin

text \<open>
  Recovery under the invariant of \<open>Agent_Safety\<close>: finalizing settles the journal, the nonce and
  the cursor, and every path through a recovery keeps the invariant in the form that allows a
  retry (an input may get the same envelope again, never another one).
\<close>

section \<open>What finalizing leaves\<close>

definition settled :: "str \<Rightarrow> delivery_record \<Rightarrow> path \<Rightarrow> path \<Rightarrow> world \<Rightarrow> bool" where
  "settled room d S J w \<longleftrightarrow> fs w J = None \<and> fs w S = Some (fresh_file (state_body (mem w)))
     \<and> dr_input_sequence d \<le> cursor_for (mem w) room \<and> dr_nonce d \<le> get_default (nonces (mem w)) room 0"

lemma clear_settles:
  assumes "S \<noteq> J" and "fs w S = Some (fresh_file (state_body (mem w)))"
    and "dr_input_sequence d \<le> cursor_for (mem w) room" and "dr_nonce d \<le> get_default (nonces (mem w)) room 0"
  shows "wp (clear_journal E J) (\<lambda>_. settled room d S J) (\<lambda>_ _. True) w"
  by (rule journal_cleared.wpI) (use assms in \<open>auto simp: settled_def agrees_but_def\<close>)

lemma persist_settles:
  assumes "S \<noteq> J"
  shows "wp (ibind (persist_recovered_state E room d S) (\<lambda>_. clear_journal E J))
    (\<lambda>_. settled room d S J) (\<lambda>_ _. True) w"
proof -
  have saved: "wp (save_mem E S) (\<lambda>_. wp (clear_journal E J) (\<lambda>_. settled room d S J) (\<lambda>_ _. True)) (\<lambda>_ _. True) w'"
    if "dr_input_sequence d \<le> cursor_for (mem w') room" "dr_nonce d \<le> get_default (nonces (mem w')) room 0" for w'
    by (rule save_mem_wp, rule clear_settles) (use that assms in \<open>auto simp: agrees_but_def\<close>)
  show ?thesis
    unfolding persist_recovered_state_def
    by (auto simp: wp_simps wp_ibind_eta observe_nonce_Inr advance_cursor_Inr cursor_for_def get_default_def update_conv'
        split: sum.split intro!: saved)
qed

lemma finalize_settles:
  assumes "S \<noteq> J"
  shows "wp (finalize_recovery E L room d n S J why) (\<lambda>_. settled room d S J) (\<lambda>_ _. True) w"
  unfolding finalize_recovery_def wp_uncertain wp_ibind [of "acknowledge_journal E L J n"]
  by (rule wp_mono [where Q = "\<lambda>_ _. True" and R = "\<lambda>_ _. True"])
    (auto intro!: wp_mono [OF persist_settles [OF assms]])

section \<open>Recovery keeps the invariant\<close>

lemma decoded_ok: "decode_journal L nd = Inr d \<Longrightarrow> record_ok L d"
  by (auto simp: decode_journal_def res_simps dest: record_of_payload_ok)

lemma observe_nonce_safe:
  assumes s: "safe z L r J w" and J: "live r J" and n: "observe_nonce (r_room r) n (mem w) = Inr s'"
  shows "safe z L r J (w\<lparr>mem := s'\<rparr>)" and "cursor_for s' (r_room r) = cursor_for (mem w) (r_room r)"
proof -
  show c: "cursor_for s' (r_room r) = cursor_for (mem w) (r_room r)"
    using n by (simp add: observe_nonce_Inr cursor_for_def)
  show "safe z L r J (w\<lparr>mem := s'\<rparr>)"
    by (rule safe_frame [OF s]) (simp_all add: c state_ok_observe_nonce [OF safeD(2) [OF s] liveD(5) [OF J] n])
qed

lemma persist_clear_safe:
  assumes w: "working z L r J c (dr_input_sequence d) w" and J: "live r J"
  shows "wp (ibind (persist_recovered_state E (r_room r) d (r_state_path r)) (\<lambda>_. clear_journal E J))
    (\<lambda>_. safe z L r J) (\<lambda>_. safe z L r J) w"
proof -
  have s: "safe z L r J w" and a: "\<forall>j \<in> set (answered L J w). j \<le> dr_input_sequence d"
    using w by (simp_all add: working_def)
  have fin: "wp (save_mem E (r_state_path r)) (\<lambda>_. wp (clear_journal E J) (\<lambda>_. safe z L r J) (\<lambda>_. safe z L r J))
      (\<lambda>_. safe z L r J) (w\<lparr>mem := s2\<rparr>)"
    if o: "observe_nonce (r_room r) (dr_nonce d) (mem w) = Inr s1"
      and v: "advance_cursor (r_room r) (max (cursor_for s1 (r_room r)) (dr_input_sequence d)) s1 = Inr s2" for s1 s2
  proof -
    have "advance_cursor (r_room r) (max (cursor_for s1 (r_room r)) (dr_input_sequence d)) (mem (w\<lparr>mem := s1\<rparr>)) = Inr s2"
      using v by simp
    note m = advance_safe [OF observe_nonce_safe(1) [OF s J o] J this]
    show ?thesis
    proof (rule wp_mono [OF save_safe [OF _ J]])
      show "safe z L r J (w\<lparr>mem := s2\<rparr>)" using m(1) by simp
      fix w' assume h: "safe z L r J w' \<and> agrees_but (r_state_path r) (w\<lparr>mem := s2\<rparr>) w'
        \<and> fs w' (r_state_path r) = Some (fresh_file (state_body (mem w')))"
      have "answered L J w' = answered L J w"
        using h answered_agrees [of "r_state_path r" "w\<lparr>mem := s2\<rparr>" w'] by (simp add: answered_def replies_def)
      moreover have "mem w' = s2" using h by (simp add: agrees_but_def)
      ultimately have "\<forall>j \<in> set (answered L J w'). j \<le> cursor_for (mem w') (r_room r)"
        using a m(2) by fastforce
      then show "wp (clear_journal E J) (\<lambda>_. safe z L r J) (\<lambda>_. safe z L r J) w'"
        by (intro wp_mono [OF clear_safe [OF _ J]]) (use h in auto)
    qed
  qed
  show ?thesis
    unfolding persist_recovered_state_def
    using s observe_nonce_safe(1) [OF s J] fin
    by (auto simp: wp_simps wp_ibind_eta split: sum.split)
qed

lemma finalize_safe:
  assumes s: "safe z L r J w" and J: "live r J" and f: "fs w J = Some nd" "decode_journal L nd = Inr d"
  shows "wp (finalize_recovery E L (r_room r) d n (r_state_path r) J why) (\<lambda>_. safe z L r J) (\<lambda>_. safe z L r J) w"
proof -
  have "working z L r J (cursor_for (mem w) (r_room r)) (dr_input_sequence d) w"
    using s safeD(3) [OF s] by (simp add: working_def covered_def f)
  note ack = acknowledge_safe [OF this J f decoded_ok [OF f(2)]]
  show ?thesis
    unfolding finalize_recovery_def wp_uncertain wp_ibind [of "acknowledge_journal E L J n"]
    by (rule wp_mono [OF ack], rule wp_mono [OF persist_clear_safe [OF _ J]]) auto
qed

lemma retry_safe:
  assumes s: "safe True L r J w" and f: "fs w J = Some nd" "decode_journal L nd = Inr d"
    and d: "dr_status d = lit ''pending''" "dr_did d = r_did r" "verify_for_room L d (r_room r) = Inr ()"
  shows "wp (retry_exact_envelope E (r_client r) (r_room r) d)
    (\<lambda>_ w'. safe True L r J w' \<and> fs w' = fs w) (\<lambda>_. safe True L r J) w"
proof -
  have said: "safe True L r J w'" if "carries r d (SaySigned url)" "sent_one (SaySigned url) w w'" for url w'
    by (rule safe_said(1) [OF s f d that(1) _ that(2)]) simp
  show ?thesis
    unfolding retry_exact_envelope_def wp_uncertain
    by (rule send_wp) (auto simp: safe_untouched [OF s] carries_def sent_one_def [THEN iffD1] dest: said
        intro: said sent_one_def [THEN iffD1, THEN conjunct1])
qed

lemma recover_pending_safe:
  assumes s: "safe True L r J w" and J: "live r J" and f: "fs w J = Some nd" "decode_journal L nd = Inr d"
    and d: "dr_status d = lit ''pending''" "dr_did d = r_did r" "verify_for_room L d (r_room r) = Inr ()"
  shows "wp (recover_pending E L (r_room r) d snap (r_client r) (r_state_path r) J apply_it confirm)
    (\<lambda>_. safe True L r J) (\<lambda>_. safe True L r J) w"
proof -
  have fin: "wp (ibind (finalize_recovery E L (r_room r) d n (r_state_path r) J why) (\<lambda>_. iret x))
      (\<lambda>_. safe True L r J) (\<lambda>_. safe True L r J) w'"
    if "safe True L r J w'" "fs w' J = fs w J" for w' n why and x :: recovery_event
    using finalize_safe [OF that(1) J _ f(2)] that(2) f(1) by (simp add: wp_simps)
  have again: "wp (ibind (retry_exact_envelope E (r_client r) (r_room r) d) (\<lambda>m.
       ibind (finalize_recovery E L (r_room r) d (msg_seq m) (r_state_path r) J why) (\<lambda>_. iret (x m))))
      (\<lambda>_. safe True L r J) (\<lambda>_. safe True L r J) w" for why and x :: "room_message \<Rightarrow> recovery_event"
    unfolding wp_ibind [of "retry_exact_envelope E (r_client r) (r_room r) d"]
    by (rule wp_mono [OF retry_safe [OF s f d]]) (auto intro: fin)
  show ?thesis
    unfolding recover_pending_def Let_def
    using s fin [OF s refl] again by (auto simp: wp_iret)
qed

lemma recover_delivery_safe:
  assumes J: "live r J" and did: "match_did (r_did r)"
  shows "keeps (safe True L r J) (recover_delivery E L (r_room r) (r_did r) (r_client r) (r_state_path r) J apply_it confirm)"
  unfolding keeps_def
proof (intro allI impI)
  fix w assume s: "safe True L r J w"
  have rd: "wp (read_room E L (r_client r) (r_room r) (dr_input_sequence d) (Fin 0) 200 0)
      (\<lambda>snap. wp (recover_pending E L (r_room r) d snap (r_client r) (r_state_path r) J do_it again)
        (\<lambda>_. safe True L r J) (\<lambda>_. safe True L r J)) (\<lambda>_. safe True L r J) w1"
    if u: "untouched w w1" and f: "fs w J = Some nd" "decode_journal L nd = Inr d"
      and d: "dr_status d = lit ''pending''" "dr_did d = r_did r" "verify_for_room L d (r_room r) = Inr ()" for w1 nd d do_it again
  proof (rule wp_mono [OF silent_read_room])
    have sf: "safe True L r J w2" if "silent w1 w2" for w2
      by (rule safe_frame [OF safe_untouched [OF s u]])
        (use that safeD(2) [OF safe_untouched [OF s u]] in \<open>auto simp: silent_def\<close>)
    fix snap w2 assume v: "silent w1 w2"
    show "wp (recover_pending E L (r_room r) d snap (r_client r) (r_state_path r) J do_it again)
        (\<lambda>_. safe True L r J) (\<lambda>_. safe True L r J) w2"
      by (rule recover_pending_safe [OF sf [OF v] J _ f(2) d])
        (use u v f in \<open>simp add: silent_def untouched_def\<close>)
    show "safe True L r J w2" by (rule sf [OF v])
  qed
  have ack: "wp (recover_acknowledged E L (r_room r) d (r_state_path r) J do_it)
      (\<lambda>_. safe True L r J) (\<lambda>_. safe True L r J) w1"
    if u: "untouched w w1" and f: "fs w J = Some nd" "decode_journal L nd = Inr d" for w1 nd d do_it
  proof -
    have s1: "safe True L r J w1" by (rule safe_untouched [OF s u])
    have "fs w1 J = Some nd" using u f by (simp add: untouched_def)
    note finalize_safe [OF s1 J this f(2)]
    with s1 show ?thesis by (auto simp: recover_acknowledged_def wp_simps split: option.split)
  qed
  have pending: "dr_status d = lit ''pending''"
    if "decode_journal L nd = Inr d" "dr_status d \<noteq> lit ''acknowledged''" for nd d
    using decoded_ok [OF that(1)] that(2) by (auto simp: record_ok_def)
  have room: "match_room (r_room r)" using J by (simp add: live_def)
  show "wp (recover_delivery E L (r_room r) (r_did r) (r_client r) (r_state_path r) J apply_it confirm)
      (\<lambda>_. safe True L r J) (\<lambda>_. safe True L r J) w"
    unfolding recover_delivery_def
    using s room did
    by (auto simp: wp_simps wp_ibind_eta raise_if_def intro!: load_journal_wp split: sum.split)
      (blast intro: safe_untouched [OF s] ack rd pending)+
qed

end
