(* ===== verification/Config.thy ===== *)
theory Config
  imports Protocol
begin

text \<open>
  \<open>config.py\<close> and \<open>identity.py\<close>: the two local files a run starts from. The configuration is
  checked field by field when it is read and before it is written; a new one never replaces an
  existing file. The public identity names a Keychain item; the key that comes out of it is
  accepted only when it derives the DID of the identity.
\<close>

section \<open>The configuration\<close>

record agent_config =
  cfg_name :: str
  cfg_did :: str
  cfg_fingerprint :: str
  cfg_room :: str
  cfg_base_url :: str
  cfg_status :: str
  cfg_created_at :: str
  cfg_nonce :: json   \<comment> \<open>\<open>validate_nonce\<close> also accepts an integer here\<close>
  cfg_seq :: "int option"

definition CONFIG_SCHEMA :: string where
  "CONFIG_SCHEMA = ''technocore-safe-agent-config-v1''"

definition CONFIG_FIELDS :: "string list" where
  "CONFIG_FIELDS = [''schema'', ''name'', ''did'', ''fingerprint'', ''room'', ''base_url'', ''status'',
     ''created_at'', ''provision_nonce'']"

text \<open>\<open>cls(**payload)\<close> raises \<open>TypeError\<close> on a missing or an unknown field.\<close>

definition config_fields_match :: "pairs \<Rightarrow> bool" where
  "config_fields_match p \<longleftrightarrow> set (map lit CONFIG_FIELDS) \<subseteq> set (map fst p)
     \<and> set (map fst p) \<subseteq> set (map lit (CONFIG_FIELDS @ [''provisioned_seq'']))"

definition match_agent_name :: "str \<Rightarrow> bool" where   \<comment> \<open>\<open>[A-Za-z0-9][A-Za-z0-9_-]{0,47}\<close>\<close>
  "match_agent_name s \<longleftrightarrow> s \<noteq> [] \<and> length s \<le> 48 \<and> is_alnum (hd s) \<and> list_all is_b64url (tl s)"

definition validate_room_value :: "json \<Rightarrow> str res" where
  "validate_room_value v = (case v of JStr s \<Rightarrow> validate_room s
     | _ \<Rightarrow> raise (ProtocolValueError ''room must match ^[a-z0-9][a-z0-9_-]{0,47}$''))"

definition validate_base_url_value :: "lib \<Rightarrow> json \<Rightarrow> str res" where
  "validate_base_url_value L v = (case v of JStr s \<Rightarrow> validate_base_url L s
     | _ \<Rightarrow> raise (ProtocolValueError ''base URL must not contain surrounding whitespace''))"

definition provisioned_seq_of :: "str \<Rightarrow> json \<Rightarrow> int option res" where
  "provisioned_seq_of status v =
     bind (if v = JNull then ret None else map_sum id Some
       (int_at_least 1 (ConfigError ''agent config has an invalid provisioned sequence'') v)) (\<lambda>s.
     bind (raise_if (status = lit ''active'' \<and> s = None)
       (ConfigError ''active agent config is missing the provisioned sequence'')) (\<lambda>_. ret s))"

definition validate_config :: "lib \<Rightarrow> pairs \<Rightarrow> agent_config res" where
  "validate_config L p =
     bind (raise_if (dget p ''schema'' \<noteq> JStr (lit CONFIG_SCHEMA))
       (ConfigError ''agent config has an unsupported schema'')) (\<lambda>_.
     bind (as_str (ConfigError ''agent config has an invalid name'') (dget p ''name'')) (\<lambda>name.
     bind (raise_if (\<not> match_agent_name name) (ConfigError ''agent config has an invalid name'')) (\<lambda>_.
     bind (validate_did_value (dget p ''did'')) (\<lambda>did.
     bind (validate_room_value (dget p ''room'')) (\<lambda>room.
     bind (validate_base_url_value L (dget p ''base_url'')) (\<lambda>_.
     bind (in_str_set (dget p ''status'') [''pending'', ''active'']) (\<lambda>known.
     bind (raise_if (\<not> known) (ConfigError ''agent config has an invalid status'')) (\<lambda>_.
     bind (as_str (ConfigError ''agent config has an invalid status'') (dget p ''status'')) (\<lambda>status.
     bind (fingerprint_of_did L did) (\<lambda>fp.
     bind (raise_if (dget p ''fingerprint'' \<noteq> JStr fp)
       (ConfigError ''agent config fingerprint does not match its DID'')) (\<lambda>_.
     bind (as_str (ConfigError ''agent config is missing created_at'') (dget p ''created_at'')) (\<lambda>created.
     bind (raise_if (created = []) (ConfigError ''agent config is missing created_at'')) (\<lambda>_.
     bind (except_raise is_ValueError (ConfigError ''agent config has an invalid provision nonce'')
       (validate_nonce_value (dget p ''provision_nonce''))) (\<lambda>_.
     bind (provisioned_seq_of status (dget p ''provisioned_seq'')) (\<lambda>s.
     bind (as_str (ProtocolValueError ''base URL must not contain surrounding whitespace'') (dget p ''base_url'')) (\<lambda>url.
     ret \<lparr>cfg_name = name, cfg_did = did, cfg_fingerprint = fp, cfg_room = room, cfg_base_url = url,
       cfg_status = status, cfg_created_at = created, cfg_nonce = dget p ''provision_nonce'', cfg_seq = s\<rparr>))))))))))))))))"

definition config_of_json :: "lib \<Rightarrow> json \<Rightarrow> agent_config res" where
  "config_of_json L v =
     bind (as_obj (ConfigError ''agent config must contain a JSON object'') v) (\<lambda>p.
     bind (raise_if (\<not> config_fields_match p)
       (ConfigError ''agent config fields do not match the supported schema'')) (\<lambda>_.
     validate_config L p))"

text \<open>\<open>asdict(self)\<close>\<close>

definition pairs_of_config :: "agent_config \<Rightarrow> pairs" where
  "pairs_of_config c =
     [(lit ''schema'', JStr (lit CONFIG_SCHEMA)), (lit ''name'', JStr (cfg_name c)), (lit ''did'', JStr (cfg_did c)),
      (lit ''fingerprint'', JStr (cfg_fingerprint c)), (lit ''room'', JStr (cfg_room c)),
      (lit ''base_url'', JStr (cfg_base_url c)), (lit ''status'', JStr (cfg_status c)),
      (lit ''created_at'', JStr (cfg_created_at c)), (lit ''provision_nonce'', cfg_nonce c),
      (lit ''provisioned_seq'', (case cfg_seq c of None \<Rightarrow> JNull | Some i \<Rightarrow> JInt i))]"

section \<open>The configuration file\<close>

definition config_body :: "agent_config \<Rightarrow> body" where
  "config_body c = Text (json_text_size (JObj (pairs_of_config c))) (Doc (JObj (pairs_of_config c)))"

definition decode_config :: "lib \<Rightarrow> inode \<Rightarrow> agent_config res" where
  "decode_config L f =
     bind (parse_text (ConfigError ''cannot read agent config'') (body_doc (contents f))) (config_of_json L)"

definition load_config :: "env \<Rightarrow> lib \<Rightarrow> path \<Rightarrow> agent_config io" where
  "load_config E L p =
     ibind (on_error is_OSError (\<lambda>_. iraise (ConfigError ''cannot read agent config'')) (read_file E p)) (\<lambda>f.
     lift (decode_config L f))"

definition write_config :: "env \<Rightarrow> bool \<Rightarrow> path \<Rightarrow> agent_config \<Rightarrow> unit io" where
  "write_config E replace_it p c = ibind (exists_path p) (\<lambda>there.
     ibind (iraise_if (\<not> replace_it \<and> there) (ConfigError ''refusing to overwrite existing agent config'')) (\<lambda>_.
     atomic_write E (ConfigError ''cannot write agent config'') p (config_body c)))"

definition save_new_config :: "env \<Rightarrow> path \<Rightarrow> agent_config \<Rightarrow> unit io" where
  "save_new_config E p c = ibind (exists_path p) (\<lambda>there.
     ibind (iraise_if there (ConfigError ''refusing to overwrite existing agent config'')) (\<lambda>_.
     write_config E False p c))"

definition save_replacement_config :: "env \<Rightarrow> path \<Rightarrow> agent_config \<Rightarrow> unit io" where
  "save_replacement_config E p c = ibind (exists_path p) (\<lambda>there.
     ibind (iraise_if (\<not> there) (ConfigError ''cannot activate missing agent config'')) (\<lambda>_.
     write_config E True p c))"

section \<open>The public identity\<close>

record identity =
  id_did :: str
  id_fingerprint :: str
  id_service :: str
  id_account :: str

definition identity_of_json :: "lib \<Rightarrow> json \<Rightarrow> identity res" where
  "identity_of_json L v =
     bind (as_obj (IdentityError ''public identity must contain a JSON object'') v) (\<lambda>p.
     bind (as_obj (IdentityError ''public identity must use the macos-keychain custody backend'') (dget p ''custody'')) (\<lambda>custody.
     bind (raise_if (dget custody ''backend'' \<noteq> JStr (lit ''macos-keychain''))
       (IdentityError ''public identity must use the macos-keychain custody backend'')) (\<lambda>_.
     bind (validate_did_value (dget p ''did'')) (\<lambda>did.
     bind (fingerprint_of_did L did) (\<lambda>fp.
     bind (raise_if (dget p ''fingerprint'' \<noteq> JStr fp)
       (IdentityError ''public identity fingerprint does not match its DID'')) (\<lambda>_.
     bind (as_str (IdentityError ''public identity is missing the Keychain service'') (dget custody ''service'')) (\<lambda>service.
     bind (raise_if (service = []) (IdentityError ''public identity is missing the Keychain service'')) (\<lambda>_.
     bind (as_str (IdentityError ''public identity is missing the Keychain account'') (dget custody ''account'')) (\<lambda>account.
     bind (raise_if (account = []) (IdentityError ''public identity is missing the Keychain account'')) (\<lambda>_.
     ret \<lparr>id_did = did, id_fingerprint = fp, id_service = service, id_account = account\<rparr>))))))))))"

definition load_identity :: "env \<Rightarrow> lib \<Rightarrow> path \<Rightarrow> identity io" where
  "load_identity E L p =
     ibind (on_error is_OSError (\<lambda>_. iraise (IdentityError ''cannot read public identity'')) (read_file E p)) (\<lambda>f.
     ibind (lift (parse_text (IdentityError ''cannot read public identity'') (body_doc (contents f)))) (\<lambda>v.
     lift (identity_of_json L v)))"

text \<open>What \<open>/usr/bin/security\<close> answers: no such program, a non-zero exit, or its output.\<close>

datatype keychain = NoSecurityTool | KeychainRefused | KeychainText str

definition load_seed :: "keychain \<Rightarrow> str res" where
  "load_seed k = (case k of
      NoSecurityTool \<Rightarrow> raise (IdentityError ''macOS security command is not available'')
    | KeychainRefused \<Rightarrow> raise (IdentityError ''cannot read Keychain item'')
    | KeychainText out \<Rightarrow> ret (strip out))"

definition load_verified_private_key :: "lib \<Rightarrow> identity \<Rightarrow> keychain \<Rightarrow> bytes res" where
  "load_verified_private_key L i k =
     bind (load_seed k) (\<lambda>seed.
     bind (private_key_from_seed seed) (\<lambda>key.
     bind (did_from_private_key L key) (\<lambda>derived.
     bind (raise_if (derived \<noteq> id_did i)
       (IdentityError ''Keychain key does not match the configured public DID'')) (\<lambda>_. ret key))))"

section \<open>What was read and what is written\<close>

definition config_ok :: "lib \<Rightarrow> agent_config \<Rightarrow> bool" where
  "config_ok L c \<longleftrightarrow> match_agent_name (cfg_name c) \<and> match_did (cfg_did c) \<and> match_room (cfg_room c)
     \<and> (\<exists>u. validate_base_url L (cfg_base_url c) = Inr u) \<and> cfg_status c \<in> {lit ''pending'', lit ''active''}
     \<and> cfg_fingerprint c = take 16 (sha256_hex L (utf8 (cfg_did c))) \<and> cfg_created_at c \<noteq> []
     \<and> (\<exists>n. validate_nonce_value (cfg_nonce c) = Inr n)
     \<and> (\<forall>i. cfg_seq c = Some i \<longrightarrow> 1 \<le> i) \<and> (cfg_status c = lit ''active'' \<longrightarrow> cfg_seq c \<noteq> None)"

lemma value_checks_Inr [simp, res_simps]:
  "validate_did_value v = Inr d \<longleftrightarrow> v = JStr d \<and> match_did d"
  "validate_room_value v = Inr r \<longleftrightarrow> v = JStr r \<and> match_room r"
  "validate_base_url_value L v = Inr u \<longleftrightarrow> (\<exists>s. v = JStr s \<and> validate_base_url L s = Inr u)"
  by (auto simp: validate_did_value_def validate_room_value_def validate_base_url_value_def validate_did_def
      validate_room_def split: json.splits if_splits)

lemma provisioned_seq_Inr [simp, res_simps]:
  "provisioned_seq_of st v = Inr s \<longleftrightarrow> (st = lit ''active'' \<longrightarrow> s \<noteq> None)
     \<and> (case s of None \<Rightarrow> v = JNull | Some i \<Rightarrow> v = JInt i \<and> 1 \<le> i)"
  by (auto simp: provisioned_seq_of_def res_simps map_sum_eq_Inr split: option.splits if_splits)

lemma status_Inr:
  "in_str_set v [''pending'', ''active''] = Inr True \<longleftrightarrow> v = JStr (lit ''pending'') \<or> v = JStr (lit ''active'')"
  by (auto simp: in_str_set_eq_Inr)

lemma fingerprint_of_did_Inr: "fingerprint_of_did L d = Inr fp \<longleftrightarrow> match_did d \<and> fp = take 16 (sha256_hex L (utf8 d))"
  by (auto simp: fingerprint_of_did_def validate_did_def res_simps)

lemma validate_config_ok:
  assumes "validate_config L p = Inr c"
  shows "config_ok L c"
proof -
  from assms obtain name did room u kn st fp cr n sq url where
    f: "dget p ''name'' = JStr name" "match_agent_name name" "validate_did_value (dget p ''did'') = Inr did"
      "validate_room_value (dget p ''room'') = Inr room" "validate_base_url_value L (dget p ''base_url'') = Inr u"
      "in_str_set (dget p ''status'') [''pending'', ''active''] = Inr kn" "kn" "dget p ''status'' = JStr st"
      "fingerprint_of_did L did = Inr fp" "cr \<noteq> []"
      "except_raise is_ValueError (ConfigError ''agent config has an invalid provision nonce'')
         (validate_nonce_value (dget p ''provision_nonce'')) = Inr n"
      "provisioned_seq_of st (dget p ''provisioned_seq'') = Inr sq" "dget p ''base_url'' = JStr url"
    and c: "c = \<lparr>cfg_name = name, cfg_did = did, cfg_fingerprint = fp, cfg_room = room, cfg_base_url = url,
       cfg_status = st, cfg_created_at = cr, cfg_nonce = dget p ''provision_nonce'', cfg_seq = sq\<rparr>"
    unfolding validate_config_def bind_eq_Inr raise_if_eq_Inr as_Inr sum.inject not_not by blast
  have kn: "kn = True" using f(7) by simp
  show ?thesis
    unfolding config_ok_def c using f(1-6,8-13) unfolding kn fingerprint_of_did_Inr status_Inr
    by (auto split: option.splits)
qed

lemma validate_pairs_of_config:
  assumes "config_ok L c"
  shows "validate_config L (pairs_of_config c) = Inr c"
proof -
  have d: "dget (pairs_of_config c) ''schema'' = JStr (lit CONFIG_SCHEMA)"
    "dget (pairs_of_config c) ''name'' = JStr (cfg_name c)" "dget (pairs_of_config c) ''did'' = JStr (cfg_did c)"
    "dget (pairs_of_config c) ''fingerprint'' = JStr (cfg_fingerprint c)"
    "dget (pairs_of_config c) ''room'' = JStr (cfg_room c)" "dget (pairs_of_config c) ''base_url'' = JStr (cfg_base_url c)"
    "dget (pairs_of_config c) ''status'' = JStr (cfg_status c)"
    "dget (pairs_of_config c) ''created_at'' = JStr (cfg_created_at c)"
    "dget (pairs_of_config c) ''provision_nonce'' = cfg_nonce c"
    "dget (pairs_of_config c) ''provisioned_seq'' = (case cfg_seq c of None \<Rightarrow> JNull | Some i \<Rightarrow> JInt i)"
    by (simp_all add: pairs_of_config_def dget_def)
  have "provisioned_seq_of (cfg_status c) (case cfg_seq c of None \<Rightarrow> JNull | Some i \<Rightarrow> JInt i) = Inr (cfg_seq c)"
    using assms by (auto simp: config_ok_def split: option.splits)
  moreover have "fingerprint_of_did L (cfg_did c) = Inr (cfg_fingerprint c)"
    "validate_did_value (JStr (cfg_did c)) = Inr (cfg_did c)" "validate_room_value (JStr (cfg_room c)) = Inr (cfg_room c)"
    "in_str_set (JStr (cfg_status c)) [''pending'', ''active''] = Inr True"
    using assms by (auto simp: config_ok_def fingerprint_of_did_Inr)
  moreover obtain u n where "validate_base_url_value L (JStr (cfg_base_url c)) = Inr u"
    "validate_nonce_value (cfg_nonce c) = Inr n" using assms by (auto simp: config_ok_def)
  moreover have "match_agent_name (cfg_name c)" "cfg_created_at c \<noteq> []" using assms by (simp_all add: config_ok_def)
  ultimately show ?thesis
    by (simp add: validate_config_def d validate_did_value_def validate_did_def
        del: provisioned_seq_Inr value_checks_Inr in_str_set.simps)
qed

lemma config_file_roundtrip:
  assumes "config_ok L c"
  shows "decode_config L (fresh_file (config_body c)) = Inr c"
proof -
  obtain n where "validate_nonce_value (cfg_nonce c) = Inr n" using assms by (auto simp: config_ok_def)
  then have "\<not> has_duplicate_key (cfg_nonce c)" by (auto simp: validate_nonce_value_def split: json.splits)
  then have "\<not> has_duplicate_key (JObj (pairs_of_config c))"
    by (simp add: pairs_of_config_def split: option.splits)
  then have "loads (JObj (pairs_of_config c)) = JObj (pairs_of_config c)" by (rule loads_no_duplicates)
  moreover have "config_fields_match (pairs_of_config c)"
    by (simp add: config_fields_match_def pairs_of_config_def CONFIG_FIELDS_def)
  ultimately show ?thesis
    using validate_pairs_of_config [OF assms]
    by (simp add: decode_config_def config_of_json_def config_body_def fresh_file_def parse_text_def)
qed

lemma write_config_wp:
  assumes "\<And>w'. agrees_but p w w' \<Longrightarrow> fs w' p = Some (fresh_file (config_body c)) \<Longrightarrow> Q () w'"
    and "\<And>e w'. agrees_but p w w' \<Longrightarrow> (fs w' p = fs w p \<or> fs w' p = Some (fresh_file (config_body c))) \<Longrightarrow> R e w'"
  shows "replace_it \<or> fs w p = None \<Longrightarrow> wp (write_config E replace_it p c) Q R w"
    and "fs w p = None \<Longrightarrow> wp (save_new_config E p c) Q R w"
    and "fs w p \<noteq> None \<Longrightarrow> wp (save_replacement_config E p c) Q R w"
  using assms
  by (auto simp: write_config_def save_new_config_def save_replacement_config_def wp_simps raise_if_def
      intro!: replaced.wpI)

lemma save_new_config_refuses:
  "fs w p \<noteq> None \<Longrightarrow> save_new_config E p c w = (Inl (ConfigError ''refusing to overwrite existing agent config''), w)"
  by (auto simp: save_new_config_def ibind_def exists_path_def iget_def lift_def)

lemma still_load_config: "still.grows (load_config E L p)"
  unfolding load_config_def by (intro still.grows_intros)

lemma load_verified_private_key_Inr:
  assumes "load_verified_private_key L i k = Inr key"
  shows "did_from_private_key L key = Inr (id_did i)" and "length key = 32"
proof -
  show "did_from_private_key L key = Inr (id_did i)"
    using assms by (auto simp: load_verified_private_key_def res_simps)
  obtain seed where "private_key_from_seed seed = Inr key"
    using assms by (auto simp: load_verified_private_key_def res_simps)
  then have m: "length seed = 64" and k: "key = bytes_fromhex seed"
    by (auto simp: private_key_from_seed_def match_hex_seed_def split: if_splits)
  have "length (bytes_fromhex s) = length s div 2" for s by (induction s rule: bytes_fromhex.induct) auto
  with m k show "length key = 32" by simp
qed

end
