(* ===== verification/Provision.thy ===== *)
theory Provision
  imports Config Agent
begin

text \<open>
  \<open>provision.py\<close>: the one-time creation of a mailbox. The pending configuration is on disk before
  the signed write leaves; the acknowledged write makes it active and moves the state's cursor
  and nonce. Recovery of a pending mailbox looks for the write first and repeats it only on
  request, when the history shows that it is not there. The random suffix of the room and the
  creation time are arguments.
\<close>

definition online_text :: "str \<Rightarrow> str \<Rightarrow> str" where
  "online_text name did = lit ''safe-responder-online-v1 agent:'' @ name @ lit '' did:'' @ did
     @ lit '' commands:/ping,/status,/about,/help policy:signed-commands-only no-tools''"

text \<open>\<open>str(nonce)\<close> and \<open>int(nonce)\<close> of a validated nonce\<close>

definition nonce_text :: "json \<Rightarrow> str" where
  "nonce_text v = (case v of JInt i \<Rightarrow> str_of_int i | JStr s \<Rightarrow> s | _ \<Rightarrow> [])"

definition nonce_int :: "json \<Rightarrow> int" where
  "nonce_int v = (case v of JInt i \<Rightarrow> i | JStr s \<Rightarrow> int (nat_of_str s) | _ \<Rightarrow> 0)"

definition activate :: "env \<Rightarrow> agent_config \<Rightarrow> int \<Rightarrow> path \<Rightarrow> path \<Rightarrow> unit io" where
  "activate E pending n config_path state_path =
     ibind (save_replacement_config E config_path (pending\<lparr>cfg_status := lit ''active'', cfg_seq := Some n\<rparr>)) (\<lambda>_.
     ibind (load_state E state_path) (\<lambda>s.
     ibind (lift (advance_cursor (cfg_room pending) n s)) (\<lambda>s'.
     uncertain is_StateError ''mailbox is active but its cursor state could not be persisted''
       (save_state E state_path
         (s'\<lparr>nonces := AList.update (cfg_room pending) (nonce_int (cfg_nonce pending)) (nonces s')\<rparr>)))))"

record provisioning =
  pv_identity :: identity
  pv_key :: bytes
  pv_client :: client
  pv_config_path :: path
  pv_state_path :: path

datatype provision_event =
    MailboxProvisioned str int
  | RecoveredFromAcknowledged str int
  | MailboxHistoryIncomplete str
  | MailboxWriteNotFound str
  | RecoveredAfterRetry str int

definition pending_config ::
  "provisioning \<Rightarrow> str \<Rightarrow> str option \<Rightarrow> str \<Rightarrow> str \<Rightarrow> int \<Rightarrow> agent_config" where
  "pending_config P name room token created_at now =
     \<lparr>cfg_name = name, cfg_did = id_did (pv_identity P), cfg_fingerprint = id_fingerprint (pv_identity P),
      cfg_room = (case room of None \<Rightarrow> lit ''mb-p-'' @ token | Some r \<Rightarrow> if r = [] then lit ''mb-p-'' @ token else r),
      cfg_base_url = base_url (pv_client P), cfg_status = lit ''pending'', cfg_created_at = created_at,
      cfg_nonce = JStr (str_of_int now), cfg_seq = None\<rparr>"

text \<open>The signed write of a pending mailbox, first or repeated\<close>

definition announce :: "env \<Rightarrow> lib \<Rightarrow> provisioning \<Rightarrow> agent_config \<Rightarrow> string \<Rightarrow> int io" where
  "announce E L P pending why =
     ibind (lift (sign_room_message L (pv_key P) (cfg_room pending) (nonce_text (cfg_nonce pending))
       (online_text (cfg_name pending) (cfg_did pending)))) (\<lambda>(swept, signature).
     ibind (uncertain is_wire_error why (send_signed_message E (pv_client P) (cfg_room pending) (cfg_did pending)
       signature (nonce_text (cfg_nonce pending)) swept)) (\<lambda>posted.
     ibind (activate E pending (msg_seq posted) (pv_config_path P) (pv_state_path P)) (\<lambda>_.
     iret (msg_seq posted))))"

definition provision_mailbox ::
  "env \<Rightarrow> lib \<Rightarrow> provisioning \<Rightarrow> str \<Rightarrow> str option \<Rightarrow> str \<Rightarrow> str \<Rightarrow> provision_event io" where
  "provision_mailbox E L P name room token created_at =
     ibind (iraise_if (\<not> match_agent_name name)
       (ConfigError ''agent name must contain 1-48 letters, digits, underscores, or hyphens'')) (\<lambda>_.
     ibind (ask (clock_ns E)) (\<lambda>now.
     let pending = pending_config P name room token created_at now in
     ibind (lift (validate_config L (pairs_of_config pending))) (\<lambda>_.
     ibind (save_new_config E (pv_config_path P) pending) (\<lambda>_.
     ibind (announce E L P pending ''mailbox provisioning has an uncertain result'') (\<lambda>n.
     iret (MailboxProvisioned (cfg_room pending) n))))))"

definition provision_matches :: "agent_config \<Rightarrow> room_message \<Rightarrow> bool" where
  "provision_matches c m \<longleftrightarrow> msg_sender m = cfg_did c
     \<and> (case cfg_nonce c of JStr s \<Rightarrow> msg_nonce m = Some s | _ \<Rightarrow> False)
     \<and> msg_text m = online_text (cfg_name c) (cfg_did c)"

definition provision_history_complete :: "room_snapshot \<Rightarrow> bool" where
  "provision_history_complete snap \<longleftrightarrow> last_seq snap = 0
     \<or> (messages snap \<noteq> [] \<and> first_seq snap = 1 \<and> msg_seq (last (messages snap)) = last_seq snap)"

definition recover_pending_mailbox ::
  "env \<Rightarrow> lib \<Rightarrow> provisioning \<Rightarrow> bool \<Rightarrow> provision_event io" where
  "recover_pending_mailbox E L P retry =
     ibind (load_config E L (pv_config_path P)) (\<lambda>pending.
     ibind (iraise_if (cfg_did pending \<noteq> id_did (pv_identity P) \<or> cfg_fingerprint pending \<noteq> id_fingerprint (pv_identity P))
       (ConfigError ''pending config does not belong to the selected identity'')) (\<lambda>_.
     ibind (iraise_if (cfg_status pending \<noteq> lit ''pending'') (ConfigError ''agent config is not pending'')) (\<lambda>_.
     ibind (read_room E L (pv_client P) (cfg_room pending) 0 (Fin 0) 200 0) (\<lambda>snap.
     case find (provision_matches pending) (messages snap) of
       Some m \<Rightarrow> ibind (activate E pending (msg_seq m) (pv_config_path P) (pv_state_path P)) (\<lambda>_.
         iret (RecoveredFromAcknowledged (cfg_room pending) (msg_seq m)))
     | None \<Rightarrow>
         if \<not> provision_history_complete snap then iret (MailboxHistoryIncomplete (cfg_room pending))
         else if \<not> retry then iret (MailboxWriteNotFound (cfg_room pending))
         else ibind (announce E L P pending ''manual mailbox retry has an uncertain result'') (\<lambda>n.
           iret (RecoveredAfterRetry (cfg_room pending) n))))))"

section \<open>What provisioning leaves\<close>

text \<open>The mailbox is active in the file, and the state file has its cursor and its nonce.\<close>

definition mailbox_active :: "lib \<Rightarrow> provisioning \<Rightarrow> agent_config \<Rightarrow> int \<Rightarrow> world \<Rightarrow> bool" where
  "mailbox_active L P c n w \<longleftrightarrow>
     (\<exists>f. fs w (pv_config_path P) = Some f \<and> decode_config L f = Inr (c\<lparr>cfg_status := lit ''active'', cfg_seq := Some n\<rparr>))
     \<and> (\<exists>s. fs w (pv_state_path P) = Some (fresh_file (state_body s)) \<and> cursor_for s (cfg_room c) = n
          \<and> map_of (nonces s) (cfg_room c) = Some (nonce_int (cfg_nonce c)))"

lemma config_ok_active:
  "config_ok L c \<Longrightarrow> 1 \<le> n \<Longrightarrow> config_ok L (c\<lparr>cfg_status := lit ''active'', cfg_seq := Some n\<rparr>)"
  by (simp add: config_ok_def)

lemma activate_wp:
  assumes c: "config_ok L c" and n: "1 \<le> n" and p: "pv_config_path P \<noteq> pv_state_path P"
    and f: "fs w (pv_config_path P) \<noteq> None"
  shows "wp (activate E c n (pv_config_path P) (pv_state_path P))
    (\<lambda>_ w'. mailbox_active L P c n w' \<and> says w' = says w) (\<lambda>_ w'. says w' = says w) w"
proof -
  let ?c = "c\<lparr>cfg_status := lit ''active'', cfg_seq := Some n\<rparr>"
  have state: "wp (ibind (load_state E (pv_state_path P)) (\<lambda>s.
     ibind (lift (advance_cursor (cfg_room c) n s)) (\<lambda>s'.
     uncertain is_StateError why (save_state E (pv_state_path P)
         (s'\<lparr>nonces := AList.update (cfg_room c) (nonce_int (cfg_nonce c)) (nonces s')\<rparr>)))))
     (\<lambda>_ w'. mailbox_active L P c n w' \<and> says w' = says w1) (\<lambda>_ w'. says w' = says w1) w1"
    if g: "fs w1 (pv_config_path P) = Some (fresh_file (config_body ?c))" for w1 why
    unfolding wp_ibind
  proof (rule load_state_wp)
    fix s m
    let ?w = "w1\<lparr>tick := m\<rparr>"
    show "wp (lift (advance_cursor (cfg_room c) n s)) (\<lambda>s'. wp (uncertain is_StateError why (save_state E (pv_state_path P)
         (s'\<lparr>nonces := AList.update (cfg_room c) (nonce_int (cfg_nonce c)) (nonces s')\<rparr>)))
       (\<lambda>_ w'. mailbox_active L P c n w' \<and> says w' = says w1) (\<lambda>_ w'. says w' = says w1)) (\<lambda>_ w'. says w' = says w1) ?w"
    proof (cases "advance_cursor (cfg_room c) n s")
      case (Inr s')
      let ?s = "s'\<lparr>nonces := AList.update (cfg_room c) (nonce_int (cfg_nonce c)) (nonces s')\<rparr>"
      have k: "cursor_for ?s (cfg_room c) = n" "map_of (nonces ?s) (cfg_room c) = Some (nonce_int (cfg_nonce c))"
        using Inr by (auto simp: advance_cursor_Inr cursor_for_def get_default_def update_conv')
      have "wp (uncertain is_StateError why (save_state E (pv_state_path P) ?s))
         (\<lambda>_ w'. mailbox_active L P c n w' \<and> says w' = says w1) (\<lambda>_ w'. says w' = says w1) ?w"
        unfolding uncertain_def wp_on_error wp_lift
      proof (rule state_saved.wpI)
        fix w' assume a: "agrees_but (pv_state_path P) ?w w'" and v: "fs w' (pv_state_path P) = Some (fresh_file (state_body ?s))"
        have y: "says w' = says w1" using a by (auto simp: agrees_but_def says_def)
        have "fs w' (pv_config_path P) = Some (fresh_file (config_body ?c))" using a g p by (simp add: agrees_but_def)
        with v k y config_file_roundtrip [OF config_ok_active [OF c n]]
        show "mailbox_active L P c n w' \<and> says w' = says w1" unfolding mailbox_active_def by blast
      qed (auto simp: agrees_but_def says_def wp_simps)
      then show ?thesis by (simp add: wp_lift Inr)
    qed (simp add: wp_lift)
  qed simp
  show ?thesis
    unfolding activate_def wp_ibind [of "save_replacement_config E x y" for x y]
  proof (rule write_config_wp(3))
    show "fs w (pv_config_path P) \<noteq> None" by (rule f)
    fix w1 assume a: "agrees_but (pv_config_path P) w w1" and g: "fs w1 (pv_config_path P) = Some (fresh_file (config_body ?c))"
    have "says w1 = says w" using a by (auto simp: agrees_but_def says_def)
    with state [OF g] show "wp (ibind (load_state E (pv_state_path P)) (\<lambda>s.
     ibind (lift (advance_cursor (cfg_room c) n s)) (\<lambda>s'.
     uncertain is_StateError ''mailbox is active but its cursor state could not be persisted'' (save_state E (pv_state_path P)
         (s'\<lparr>nonces := AList.update (cfg_room c) (nonce_int (cfg_nonce c)) (nonces s')\<rparr>)))))
     (\<lambda>_ w'. mailbox_active L P c n w' \<and> says w' = says w) (\<lambda>_ w'. says w' = says w) w1" by simp
  qed (auto simp: agrees_but_def says_def)
qed

text \<open>The configuration file of a mailbox: the pending one, or the active one it became\<close>

definition mailbox_file :: "path \<Rightarrow> agent_config \<Rightarrow> filesystem \<Rightarrow> bool" where
  "mailbox_file p c F \<longleftrightarrow> F p = Some (fresh_file (config_body c))
     \<or> (\<exists>n. 1 \<le> n \<and> F p = Some (fresh_file (config_body (c\<lparr>cfg_status := lit ''active'', cfg_seq := Some n\<rparr>))))"

lemma mailbox_file_agrees: "agrees_but q w w' \<Longrightarrow> p \<noteq> q \<Longrightarrow> mailbox_file p c (fs w') = mailbox_file p c (fs w)"
  by (simp add: mailbox_file_def agrees_but_def)

lemma activate_keeps:
  assumes n: "1 \<le> n" and p: "p \<noteq> S" and f: "mailbox_file p c (fs w)"
  shows "wp (activate E c n p S) (\<lambda>_ w'. mailbox_file p c (fs w')) (\<lambda>_ w'. mailbox_file p c (fs w')) w"
proof -
  let ?c = "c\<lparr>cfg_status := lit ''active'', cfg_seq := Some n\<rparr>"
  have state: "wp (ibind (load_state E S) (\<lambda>s. ibind (lift (advance_cursor (cfg_room c) n s)) (\<lambda>s'.
     uncertain is_StateError why (save_state E S (h s'))))) (\<lambda>_ w'. mailbox_file p c (fs w')) (\<lambda>_ w'. mailbox_file p c (fs w')) w1"
    if g: "mailbox_file p c (fs w1)" for w1 why h
  proof -
    have save: "wp (save_state E S (h s')) (\<lambda>_ w'. mailbox_file p c (fs w')) (\<lambda>_ w'. mailbox_file p c (fs w')) (w1\<lparr>tick := m\<rparr>)" for s' m
      by (rule state_saved.wpI) (use g p in \<open>simp_all add: mailbox_file_agrees\<close>)
    show ?thesis
      unfolding wp_ibind
      by (rule load_state_wp) (use g in \<open>auto simp: wp_lift uncertain_def wp_on_error split: sum.split intro!: wp_mono [OF save]\<close>)
  qed
  show ?thesis
    unfolding activate_def wp_ibind [of "save_replacement_config E x y" for x y]
  proof (rule write_config_wp(3))
    show "fs w p \<noteq> None" using f by (auto simp: mailbox_file_def)
    fix w1 :: world assume "fs w1 p = Some (fresh_file (config_body ?c))"
    then have "mailbox_file p c (fs w1)" using n by (auto simp: mailbox_file_def)
    then show "wp (ibind (load_state E S) (\<lambda>s. ibind (lift (advance_cursor (cfg_room c) n s)) (\<lambda>s'.
     uncertain is_StateError ''mailbox is active but its cursor state could not be persisted'' (save_state E S
         (s'\<lparr>nonces := AList.update (cfg_room c) (nonce_int (cfg_nonce c)) (nonces s')\<rparr>)))))
     (\<lambda>_ w'. mailbox_file p c (fs w')) (\<lambda>_ w'. mailbox_file p c (fs w')) w1" by (rule state)
  next
    fix w' :: world assume "fs w' p = fs w p \<or> fs w' p = Some (fresh_file (config_body ?c))"
    then show "mailbox_file p c (fs w')" using f n by (auto simp: mailbox_file_def)
  qed
qed

text \<open>
  The one request that announces a mailbox at a server: the online text of this configuration, under
  its nonce, signed with the mailbox's key. Key, configuration and server determine it.
\<close>

definition announces :: "lib \<Rightarrow> bytes \<Rightarrow> agent_config \<Rightarrow> str \<Rightarrow> str \<Rightarrow> bool" where
  "announces L key c base url \<longleftrightarrow> (\<exists>swept sg.
     sign_room_message L key (cfg_room c) (nonce_text (cfg_nonce c)) (online_text (cfg_name c) (cfg_did c)) = Inr (swept, sg)
     \<and> say_url base (cfg_room c) (cfg_did c) sg (nonce_text (cfg_nonce c)) swept = Inr url)"

lemma announces_unique: "announces L key c base url \<Longrightarrow> announces L key c base url' \<Longrightarrow> url' = url"
  by (auto simp: announces_def)

text \<open>From \<open>w\<close> to \<open>w'\<close> the mailbox was announced once, with its pending configuration on disk.\<close>

definition announced :: "lib \<Rightarrow> provisioning \<Rightarrow> agent_config \<Rightarrow> world \<Rightarrow> world \<Rightarrow> bool" where
  "announced L P c w w' \<longleftrightarrow> (\<exists>url g. announces L (pv_key P) c (base_url (pv_client P)) url
     \<and> says w' = says w @ [(SaySigned url, g)] \<and> g (pv_config_path P) = Some (fresh_file (config_body c)))"

definition told_at_most_once :: "lib \<Rightarrow> provisioning \<Rightarrow> agent_config \<Rightarrow> world \<Rightarrow> world \<Rightarrow> bool" where
  "told_at_most_once L P c w w' \<longleftrightarrow> (says w' = says w \<or> announced L P c w w') \<and> mailbox_file (pv_config_path P) c (fs w')"

lemma announced_after: "says w1 = says w \<Longrightarrow> announced L P c w1 w' = announced L P c w w'"
  by (simp add: announced_def)

lemma announce_wp:
  assumes c: "config_ok L c" and p: "pv_config_path P \<noteq> pv_state_path P"
    and f: "fs w (pv_config_path P) = Some (fresh_file (config_body c))"
  shows "wp (announce E L P c why)
    (\<lambda>n w'. mailbox_active L P c n w' \<and> announced L P c w w' \<and> mailbox_file (pv_config_path P) c (fs w'))
    (\<lambda>_. told_at_most_once L P c w) w"
proof (cases "sign_room_message L (pv_key P) (cfg_room c) (nonce_text (cfg_nonce c)) (online_text (cfg_name c) (cfg_did c))")
  case (Inl e)
  then show ?thesis using f by (simp add: announce_def wp_simps told_at_most_once_def mailbox_file_def)
next
  case (Inr x)
  then obtain swept sg where x: "x = (swept, sg)" by (cases x)
  let ?url = "say_url (base_url (pv_client P)) (cfg_room c) (cfg_did c) sg (nonce_text (cfg_nonce c)) swept"
  have said: "announced L P c w w1" if "?url = Inr url" "says w1 = says w @ [(SaySigned url, fs w)]" for url w1
    using that f Inr x by (auto simp: announced_def announces_def)
  have kept: "mailbox_file (pv_config_path P) c (fs w1)" if "fs w1 = fs w" for w1
    using that f by (simp add: mailbox_file_def)
  have act: "wp (activate E c n (pv_config_path P) (pv_state_path P))
      (\<lambda>_ w'. mailbox_active L P c n w' \<and> announced L P c w w' \<and> mailbox_file (pv_config_path P) c (fs w'))
      (\<lambda>_. told_at_most_once L P c w) w1" if "sent_one (SaySigned url) w w1" "0 < n" "?url = Inr url" for url w1 n
  proof (rule wp_mono [OF wp_conj [OF activate_wp [OF c _ p] activate_keeps [OF _ p kept]]])
    show "1 \<le> n" using that(2) by simp
    show "fs w1 (pv_config_path P) \<noteq> None" "fs w1 = fs w" using f that(1) by (simp_all add: sent_one_def)
  qed (use that said in \<open>auto simp: says_sent_one told_at_most_once_def\<close>)
  show ?thesis
    unfolding announce_def wp_ibind [of "lift y" for y] wp_lift Inr x sum.case prod.case
    unfolding wp_ibind [of "uncertain p w m" for p w m] wp_uncertain
  proof (rule send_wp)
    fix e w' assume "untouched w w'"
    then have "told_at_most_once L P c w w'"
      using kept by (auto simp: untouched_def told_at_most_once_def intro: says_of_sent)
    then show "if is_wire_error e then told_at_most_once L P c w w' else told_at_most_once L P c w w'" by simp
  next
    fix url e w' assume "?url = Inr url" "sent_one (SaySigned url) w w'"
    then have "told_at_most_once L P c w w'"
      using said kept by (auto simp: told_at_most_once_def says_sent_one sent_one_def)
    then show "if is_wire_error e then told_at_most_once L P c w w' else told_at_most_once L P c w w'" by simp
  next
    fix url m w' assume "?url = Inr url" "posted_matches (cfg_did c) (nonce_text (cfg_nonce c)) swept m"
      "sent_one (SaySigned url) w w'"
    then show "wp (ibind (activate E c (msg_seq m) (pv_config_path P) (pv_state_path P)) (\<lambda>_. iret (msg_seq m)))
      (\<lambda>n w'. mailbox_active L P c n w' \<and> announced L P c w w' \<and> mailbox_file (pv_config_path P) c (fs w'))
      (\<lambda>_. told_at_most_once L P c w) w'"
      unfolding wp_ibind wp_iret_eta using act by (simp add: posted_matches_def)
  qed
qed

lemma pending_config_simps [simp]:
  "cfg_status (pending_config P name room token created now) = lit ''pending''"
  "cfg_did (pending_config P name room token created now) = id_did (pv_identity P)"
  "cfg_fingerprint (pending_config P name room token created now) = id_fingerprint (pv_identity P)"
  by (simp_all add: pending_config_def)

text \<open>A valid pending configuration of this identity\<close>

definition own_pending :: "lib \<Rightarrow> provisioning \<Rightarrow> agent_config \<Rightarrow> bool" where
  "own_pending L P c \<longleftrightarrow> config_ok L c \<and> cfg_status c = lit ''pending'' \<and> cfg_did c = id_did (pv_identity P)
     \<and> cfg_fingerprint c = id_fingerprint (pv_identity P)"

text \<open>A path that already holds a file is left alone, and nothing is sent.\<close>

definition first_told :: "lib \<Rightarrow> provisioning \<Rightarrow> world \<Rightarrow> world \<Rightarrow> bool" where
  "first_told L P w w' \<longleftrightarrow> says w' = says w \<and> fs w' (pv_config_path P) = fs w (pv_config_path P)
     \<or> fs w (pv_config_path P) = None \<and> (\<exists>c. own_pending L P c \<and> told_at_most_once L P c w w')"

lemma provision_wp:
  assumes p: "pv_config_path P \<noteq> pv_state_path P"
  shows "wp (provision_mailbox E L P name room token created)
    (\<lambda>ev w'. fs w (pv_config_path P) = None \<and> (\<exists>c n. own_pending L P c \<and> ev = MailboxProvisioned (cfg_room c) n
       \<and> mailbox_active L P c n w' \<and> announced L P c w w' \<and> mailbox_file (pv_config_path P) c (fs w')))
    (\<lambda>_. first_told L P w) w"
proof (cases "match_agent_name name")
  case False
  then show ?thesis by (simp add: provision_mailbox_def wp_simps first_told_def)
next
  case True
  let ?c = "pending_config P name room token created (clock_ns E (tick w))"
  let ?w = "w\<lparr>tick := Suc (tick w)\<rparr>"
  show ?thesis
  proof (cases "validate_config L (pairs_of_config ?c)")
    case (Inl e)
    then show ?thesis using True by (simp add: provision_mailbox_def wp_simps Let_def first_told_def)
  next
    case (Inr c')
    have ok: "config_ok L ?c"
    proof -
      have "c' = ?c" using Inr
        by (auto simp: validate_config_def res_simps pairs_of_config_def pending_config_def dget_def fingerprint_of_did_Inr
            split: option.splits)
      with validate_config_ok [OF Inr] show ?thesis by simp
    qed
    then have own: "own_pending L P ?c" by (simp add: own_pending_def)
    have main: "wp (save_new_config E (pv_config_path P) ?c) (\<lambda>_. wp (ibind (announce E L P ?c why) (\<lambda>n. iret (MailboxProvisioned (cfg_room ?c) n)))
      (\<lambda>ev w'. fs w (pv_config_path P) = None \<and> (\<exists>c n. own_pending L P c \<and> ev = MailboxProvisioned (cfg_room c) n
         \<and> mailbox_active L P c n w' \<and> announced L P c w w' \<and> mailbox_file (pv_config_path P) c (fs w')))
      (\<lambda>_. first_told L P w)) (\<lambda>_. first_told L P w) ?w" for why
    proof (cases "fs w (pv_config_path P)")
      case (Some f)
      then show ?thesis
        using save_new_config_refuses [of ?w "pv_config_path P"] by (simp add: wp_def first_told_def)
    next
      case None
      have told: "first_told L P w w'" if "told_at_most_once L P ?c w w'" for w'
        using own None that by (auto simp: first_told_def)
      show ?thesis
      proof (rule write_config_wp(2))
        show "fs ?w (pv_config_path P) = None" using None by simp
        fix w1 assume a: "agrees_but (pv_config_path P) ?w w1" and g: "fs w1 (pv_config_path P) = Some (fresh_file (config_body ?c))"
        have y: "says w1 = says w" using a by (auto simp: agrees_but_def says_def)
        show "wp (ibind (announce E L P ?c why) (\<lambda>n. iret (MailboxProvisioned (cfg_room ?c) n)))
          (\<lambda>ev w'. fs w (pv_config_path P) = None \<and> (\<exists>c n. own_pending L P c \<and> ev = MailboxProvisioned (cfg_room c) n
             \<and> mailbox_active L P c n w' \<and> announced L P c w w' \<and> mailbox_file (pv_config_path P) c (fs w')))
          (\<lambda>_. first_told L P w) w1"
          unfolding wp_ibind wp_iret_eta
        proof (rule wp_mono [OF announce_wp [OF ok p g]])
          fix e w' assume "told_at_most_once L P ?c w1 w'"
          then have "told_at_most_once L P ?c w w'" by (simp add: told_at_most_once_def y announced_after [OF y])
          then show "first_told L P w w'" by (rule told)
        qed (use None own announced_after [OF y] in blast)
      next
        fix e w1 assume "agrees_but (pv_config_path P) ?w w1"
          and f: "fs w1 (pv_config_path P) = fs ?w (pv_config_path P) \<or> fs w1 (pv_config_path P) = Some (fresh_file (config_body ?c))"
        then have y: "says w1 = says w" by (auto simp: agrees_but_def says_def)
        with f own None show "first_told L P w w1"
          by (auto simp: first_told_def told_at_most_once_def mailbox_file_def)
      qed
    qed
    then show ?thesis using True by (simp add: provision_mailbox_def wp_simps Let_def Inr)
  qed
qed

end
