(* ===== verification/Cli_Run.thy ===== *)
theory Cli_Run
  imports Recovery_Safety Provision
begin

text \<open>
  \<open>cli.py\<close>, the commands that run the agent: \<open>run\<close> with its checks before the loop, the polling
  loop, and the exit code \<open>main\<close> gives an exception. The loop has no end of its own, so it takes
  fuel: with fuel \<open>n\<close> it is the first \<open>n\<close> rounds, and a statement for every fuel is one about every
  moment between two rounds of an endless run. Sleeping is a loop over readings of the monotonic
  clock, with fuel of its own.
\<close>

record run_args =
  ra_send :: bool
  ra_once :: bool
  ra_start_at :: string
  ra_wait :: pyfloat
  ra_limit :: int
  ra_room :: "str option"
  ra_base_url :: "str option"
  ra_timeout :: pyfloat
  ra_github_timeout :: pyfloat
  ra_allow_did :: "str list"
  ra_allow_any_signed :: bool
  ra_capability_policy :: "path option"
  ra_config_path :: path
  ra_state_path :: path
  ra_journal_path :: path
  ra_audit_path :: path

section \<open>Before the loop\<close>

definition load_active_config :: "env \<Rightarrow> lib \<Rightarrow> identity \<Rightarrow> string \<Rightarrow> path \<Rightarrow> agent_config option io" where
  "load_active_config E L i inactive p = ibind (exists_path p) (\<lambda>there.
     if \<not> there then iret None
     else ibind (load_config E L p) (\<lambda>c.
          ibind (iraise_if (cfg_did c \<noteq> id_did i \<or> cfg_fingerprint c \<noteq> id_fingerprint i)
            (ConfigError ''agent config does not belong to the selected public identity'')) (\<lambda>_.
          ibind (iraise_if (cfg_status c \<noteq> lit ''active'')
            (ConfigError inactive)) (\<lambda>_.
          iret (Some c)))))"

text \<open>\<open>a or b\<close> on optional texts: an empty one counts as absent.\<close>

definition str_or :: "str option \<Rightarrow> str \<Rightarrow> str" where
  "str_or x d = (case x of None \<Rightarrow> d | Some s \<Rightarrow> if s = [] then d else s)"

definition resolve_runtime_target :: "run_args \<Rightarrow> agent_config option \<Rightarrow> (str \<times> str) res" where
  "resolve_runtime_target a config =
     bind (case ra_room a of
         Some r \<Rightarrow> if r \<noteq> [] then validate_room r else
           (case config of Some c \<Rightarrow> ret (cfg_room c)
            | None \<Rightarrow> raise (ConfigError ''no provisioned config exists; pass --room or run provision first''))
       | None \<Rightarrow>
           (case config of Some c \<Rightarrow> ret (cfg_room c)
            | None \<Rightarrow> raise (ConfigError ''no provisioned config exists; pass --room or run provision first'')))
       (\<lambda>room. ret (room, str_or (ra_base_url a)
          (case config of Some c \<Rightarrow> cfg_base_url c | None \<Rightarrow> lit ''https://technocore.chat'')))"

definition command_policy_for :: "env \<Rightarrow> lib \<Rightarrow> run_args \<Rightarrow> str \<Rightarrow> command_policy io" where
  "command_policy_for E L a own = (case ra_capability_policy a of
      Some p \<Rightarrow> ibind (load_policy E p) (\<lambda>_.
        lift (check_policy \<lparr>own_did = own, allowed_dids = [], allow_any_signed = False, policy_file = Some p,
          rate_limiter = Some (ra_state_path a, ra_send a)\<rparr>))
    | None \<Rightarrow> ibind (lift (map_res validate_did (ra_allow_did a))) (\<lambda>allowed.
        ibind (iraise_if (ra_send a \<and> allowed = [] \<and> \<not> ra_allow_any_signed a)
          (ProtocolValueError ''--send requires --capability-policy, at least one --allow-did, or the explicit --allow-any-signed flag'')) (\<lambda>_.
        lift (check_policy \<lparr>own_did = own, allowed_dids = allowed, allow_any_signed = ra_allow_any_signed a,
          policy_file = None, rate_limiter = None\<rparr>))))"

definition live_artifacts :: "env \<Rightarrow> lib \<Rightarrow> run_args \<Rightarrow> str \<Rightarrow> (path option \<times> path option) io" where
  "live_artifacts E L a did =
     (if \<not> ra_send a then iret (None, None)
      else ibind (require_empty E L (ra_journal_path a)) (\<lambda>_.
           ibind (exists_path (ra_audit_path a)) (\<lambda>there.
           ibind (if there then ibind (verify_audit E L (ra_audit_path a) None) (\<lambda>summary. iret (issuer summary)) else iret None) (\<lambda>iss.
           ibind (iraise_if (iss \<noteq> None \<and> iss \<noteq> Some did)
             (AuditError ''audit log belongs to a different agent DID'')) (\<lambda>_.
           iret (Some (ra_journal_path a), Some (ra_audit_path a)))))))"

text \<open>\<open>ContributionReceiptService(...)\<close> over \<open>GitHubPublicClient(timeout=...)\<close>\<close>

definition receipt_service_for :: "run_args \<Rightarrow> str \<Rightarrow> bytes \<Rightarrow> receipt_service res" where
  "receipt_service_for a did key =
     bind (raise_if (case float_value (ra_github_timeout a) of None \<Rightarrow> True | Some t \<Rightarrow> \<not> (1 / 10 \<le> t \<and> t \<le> 60))
       (ProtocolValueError ''GitHub timeout must be between 0.1 and 60 seconds'')) (\<lambda>_.
     bind (validate_did did) (\<lambda>issuer_did.
     ret \<lparr>svc_issuer = issuer_did, svc_key = key, svc_interval = 60\<rparr>))"

section \<open>The loop\<close>

datatype run_report =
    Report report
  | ReadRetry rat "int option"

definition initialize_cursor :: "env \<Rightarrow> lib \<Rightarrow> run_args \<Rightarrow> responder \<Rightarrow> (bool \<times> run_report list) io" where
  "initialize_cursor E L a r =
     ibind (iget (\<lambda>w. map_of (cursors (mem w)) (r_room r) = None)) (\<lambda>fresh.
     if \<not> fresh then iret (False, [])
     else ibind (iraise_if (ra_start_at a = ''saved'')
            (StateError ''no saved cursor exists for this room; choose --start-at latest or --start-at zero'')) (\<lambda>_.
          if ra_start_at a = ''latest''
          then ibind (bootstrap_latest E L r) (\<lambda>ev. iret (ra_once a, [Report ev]))
          else iret (False, [])))"

text \<open>The body of the \<open>try\<close>\<close>

definition poll_round :: "env \<Rightarrow> lib \<Rightarrow> run_args \<Rightarrow> responder \<Rightarrow> int \<Rightarrow> report list io" where
  "poll_round E L a r cache_buster =
     ibind (iget (\<lambda>w. cursor_for (mem w) (r_room r))) (\<lambda>requested.
     ibind (read_room E L (r_client r) (r_room r) requested (if ra_once a then Fin 0 else ra_wait a) (ra_limit a)
       cache_buster) (\<lambda>snap.
     ibind (iraise_if (last_seq snap < requested)
       (ResponseError ''room checkpoint is behind the saved cursor; refusing automatic rewind'')) (\<lambda>_.
     process_snapshot E L r snap)))"

fun transport_error :: "exc \<Rightarrow> (int option \<times> rat option) option" where
  "transport_error (TransportError status retry) = Some (status, retry)"
| "transport_error _ = None"

text \<open>\<open>delay = max(error.retry_after if it is not None else backoff, 0.5)\<close>\<close>

definition retry_delay :: "rat option \<Rightarrow> rat \<Rightarrow> rat" where
  "retry_delay retry backoff = max (case retry of Some t \<Rightarrow> t | None \<Rightarrow> backoff) (1 / 2)"

definition next_backoff :: "rat \<Rightarrow> rat" where
  "next_backoff b = min (b * 2) 30"

text \<open>\<open>while (remaining := deadline - monotonic()) > 0: sleep(min(remaining, 30))\<close>\<close>

fun sleep_until :: "env \<Rightarrow> nat \<Rightarrow> rat \<Rightarrow> unit io" where
  "sleep_until E 0 deadline = iraise Killed"
| "sleep_until E (Suc k) deadline = ibind (ask (clock_mono E)) (\<lambda>now.
     if 0 < deadline - now then sleep_until E k deadline else iret ())"

fun poll :: "env \<Rightarrow> lib \<Rightarrow> run_args \<Rightarrow> responder \<Rightarrow> nat \<Rightarrow> nat \<Rightarrow> int \<Rightarrow> rat \<Rightarrow> run_report list io" where
  "poll E L a r sleeps 0 cache_buster backoff = iret []"
| "poll E L a r sleeps (Suc k) cache_buster backoff =
     ibind (on_error (\<lambda>e. transport_error e \<noteq> None \<and> \<not> ra_once a)
        (\<lambda>e. let (status, retry) = the (transport_error e); delay = retry_delay retry backoff in
             ibind (ask (clock_mono E)) (\<lambda>now.
             ibind (sleep_until E sleeps (now + delay)) (\<lambda>_.
             iret ([ReadRetry delay status], next_backoff backoff))))
        (ibind (poll_round E L a r cache_buster) (\<lambda>evs. iret (map Report evs, 1)))) (\<lambda>(evs, backoff').
     if ra_once a then iret evs
     else ibind (poll E L a r sleeps k (cache_buster + 1) backoff') (\<lambda>rest. iret (evs @ rest)))"

section \<open>A whole run\<close>

definition load_mem :: "env \<Rightarrow> path \<Rightarrow> unit io" where
  "load_mem E p = ibind (load_state E p) (\<lambda>s. imodify (\<lambda>w. w\<lparr>mem := s\<rparr>))"

definition build_responder :: "env \<Rightarrow> lib \<Rightarrow> run_args \<Rightarrow> identity \<Rightarrow> bytes \<Rightarrow> str \<Rightarrow> str \<Rightarrow> responder io" where
  "build_responder E L a i key room url =
     ibind (command_policy_for E L a (id_did i)) (\<lambda>pol.
     ibind (live_artifacts E L a (id_did i)) (\<lambda>(journal, audit).
     ibind (lift (technocore_client L url (ra_timeout a))) (\<lambda>cl.
     ibind (lift (receipt_service_for a (id_did i) key)) (\<lambda>svc.
     iret \<lparr>r_room = room, r_did = id_did i, r_key = key, r_client = cl, r_policy = pol,
       r_state_path = ra_state_path a, r_service = Some svc, r_journal = journal, r_audit = audit,
       r_send = ra_send a, r_writer = Direct\<rparr>))))"

definition serve :: "env \<Rightarrow> lib \<Rightarrow> run_args \<Rightarrow> responder \<Rightarrow> nat \<Rightarrow> nat \<Rightarrow> run_report list io" where
  "serve E L a r sleeps rounds =
     ibind (initialize_cursor E L a r) (\<lambda>(finished, evs).
     if finished then iret evs
     else ibind (poll E L a r sleeps rounds 1 1) (\<lambda>rest. iret (evs @ rest)))"

definition run_with_identity ::
  "env \<Rightarrow> lib \<Rightarrow> run_args \<Rightarrow> identity \<Rightarrow> bytes \<Rightarrow> nat \<Rightarrow> nat \<Rightarrow> run_report list io" where
  "run_with_identity E L a i key sleeps rounds =
     ibind (load_active_config E L i ''agent config is pending; inspect provisioning before running''
       (ra_config_path a)) (\<lambda>config.
     ibind (lift (resolve_runtime_target a config)) (\<lambda>(room, url).
     ibind (load_mem E (ra_state_path a)) (\<lambda>_.
     ibind (build_responder E L a i key room url) (\<lambda>r.
     serve E L a r sleeps rounds))))"

text \<open>\<open>recover-delivery\<close>, after the identity is read; \<open>Cli_Commands\<close> adds the process lock\<close>

definition recovery_target :: "run_args \<Rightarrow> agent_config option \<Rightarrow> (str \<times> str) res" where
  "recovery_target a config =
     bind (if ra_room a \<noteq> None \<and> ra_room a \<noteq> Some [] then validate_room (the (ra_room a))
       else case config of Some c \<Rightarrow> ret (cfg_room c)
         | None \<Rightarrow> raise (ConfigError ''no active config exists; pass --room or select the provisioned config''))
       (\<lambda>room. ret (room, str_or (ra_base_url a)
          (case config of Some c \<Rightarrow> cfg_base_url c | None \<Rightarrow> lit ''https://technocore.chat'')))"

definition recover_delivery_command ::
  "env \<Rightarrow> lib \<Rightarrow> run_args \<Rightarrow> identity \<Rightarrow> bool \<Rightarrow> bool \<Rightarrow> recovery_event io" where
  "recover_delivery_command E L a i apply_it confirm_retry =
     ibind (load_active_config E L i ''agent config must be active for delivery recovery''
       (ra_config_path a)) (\<lambda>config.
     ibind (lift (recovery_target a config)) (\<lambda>(room, url).
     ibind (load_mem E (ra_state_path a)) (\<lambda>_.
     ibind (lift (technocore_client L url (ra_timeout a))) (\<lambda>cl.
     recover_delivery E L room (id_did i) cl (ra_state_path a) (ra_journal_path a) apply_it confirm_retry))))"

text \<open>A process starts with nothing in memory.\<close>

definition restart :: "world \<Rightarrow> world" where
  "restart w = w\<lparr>mem := empty_state, last_attempt := None, held := (\<lambda>p. False), acks := []\<rparr>"

section \<open>Exit codes\<close>

text \<open>\<open>main\<close>: 130 when interrupted, 3 for an uncertain write, 2 for the errors it names, and a traceback (1) for any other.\<close>

fun exit_code :: "exc \<Rightarrow> nat" where
  "exit_code KeyboardInterrupt = 130"
| "exit_code (UncertainWriteError _) = 3"
| "exit_code (AuditError _) = 2"
| "exit_code (BeadsTasksError _) = 2"
| "exit_code (CapabilityError _) = 2"
| "exit_code (ConfigError _) = 2"
| "exit_code (ControllerError _) = 2"
| "exit_code (DeliveryError _) = 2"
| "exit_code (IdentityError _) = 2"
| "exit_code (LaunchAgentError _) = 2"
| "exit_code (GitHubReceiptError _ _ _) = 2"
| "exit_code (ProtocolValueError _) = 2"
| "exit_code (ProcessLockError _) = 2"
| "exit_code (ResponseError _) = 2"
| "exit_code (StateError _) = 2"
| "exit_code (TransportError _ _) = 2"
| "exit_code (WorkReceiptError _) = 2"
| "exit_code _ = 1"

end
