(* ===== verification/Sessions.thy ===== *)
theory Sessions
  imports Cli_Run
begin

text \<open>
  Any number of commands one after the other on the same files: live runs, dry runs and
  recoveries, each with its own environment, each ending where it may (a normal return, an
  exception, the death of the process at any primitive). What lasts between two of them is the
  disk and what was sent; \<open>safe_disk\<close> is the part of the invariant that lasts.
\<close>

section \<open>One live run keeps the invariant\<close>

lemma keeps_safe_ask: "keeps (safe z L r J) (ask q)"
  by (simp add: keeps_def wp_simps safe_tick)

lemma sleep_safe: "keeps (safe z L r J) (sleep_until E n deadline)"
  by (induction n) (auto intro!: keeps_intros keeps_safe_ask)

lemma poll_round_safe:
  assumes "live r J" and "sha256_ok L"
  shows "keeps (safe z L r J) (poll_round E L a r n)"
  unfolding poll_round_def
  by (intro keeps_intros keeps_safe [OF assms(1)] process_snapshot_safe [OF assms])

lemma poll_safe:
  assumes "live r J" and "sha256_ok L"
  shows "keeps (safe z L r J) (poll E L a r sleeps k n b)"
  by (induction k arbitrary: n b)
    (auto simp: Let_def split_def intro!: keeps_intros keeps_safe_ask sleep_safe poll_round_safe [OF assms])

lemma serve_safe:
  assumes "live r J" and "sha256_ok L"
  shows "keeps (safe z L r J) (serve E L a r sleeps rounds)"
  unfolding serve_def initialize_cursor_def split_def
  by (intro keeps_intros bootstrap_safe [OF assms(1)] poll_safe [OF assms])

section \<open>What lasts between commands\<close>

lemma safe_disk_frame:
  assumes "safe_disk z L r J w" and "fs w' = fs w" and "says w' = says w"
  shows "safe_disk z L r J w'"
proof -
  have "fs w' J = fs w J" using assms(2) by simp
  then show ?thesis
    using assms(1) once_cong [OF assms(3)] covered_cong [OF assms(3)] unfolding safe_disk_def assms(2) by blast
qed

lemma safe_disk_restart: "safe_disk z L r J w \<Longrightarrow> safe_disk z L r J (restart w)"
  by (erule safe_disk_frame) (simp_all add: restart_def says_def)

lemma safe_lasts: "safe z L r J w \<Longrightarrow> safe_disk z L r J w"
  by (simp add: safe_def)

lemma safe_disk_still:
  assumes "still.grows m" and "safe_disk z L r J w"
  shows "wp m (\<lambda>_. safe_disk z L r J) (\<lambda>_. safe_disk z L r J) w"
  by (rule wp_mono [OF still.wp_grows [OF assms(1)]])
    (auto intro: safe_disk_frame [OF assms(2)] says_of_sent)

lemma safe_disk_quiet:
  assumes "quiet.grows m" and "safe_disk z L r J w"
  shows "safe_disk z L r J (snd (m w))"
  using safe_disk_frame [OF assms(2)] quiet.growsD [OF assms(1), of w] by blast

lemma load_mem_safe:
  assumes "safe_disk z L r J w" and "p = r_state_path r"
  shows "wp (load_mem E p) (\<lambda>_. safe z L r J) (\<lambda>_. safe_disk z L r J) w"
  unfolding load_mem_def wp_ibind
proof (rule load_state_wp)
  fix s n assume s: "disk_state (fs w) p = Inr s"
  let ?w = "w\<lparr>tick := n, mem := s\<rparr>"
  have d: "safe_disk z L r J ?w" by (rule safe_disk_frame [OF assms(1)]) simp_all
  have "disk_state (fs ?w) (r_state_path r) = Inr s" using s assms(2) by simp
  with d have "safe z L r J ?w"
    unfolding safe_def using disk_state_ok [OF s] by (auto simp: safe_disk_def)
  then show "wp (imodify (\<lambda>w. w\<lparr>mem := s\<rparr>)) (\<lambda>_. safe z L r J) (\<lambda>_. safe_disk z L r J) (w\<lparr>tick := n\<rparr>)"
    by (simp add: wp_imodify)
next
  show "safe_disk z L r J (w\<lparr>tick := n\<rparr>)" for n by (rule safe_disk_frame [OF assms(1)]) simp_all
qed

text \<open>The invariant speaks of the mailbox, not of the policy or the service of one run.\<close>

definition same_mailbox :: "responder \<Rightarrow> responder \<Rightarrow> bool" where
  "same_mailbox r r' \<longleftrightarrow> r_room r = r_room r' \<and> r_did r = r_did r' \<and> r_state_path r = r_state_path r'
     \<and> base_url (r_client r) = base_url (r_client r')"

lemma same_mailbox_safe:
  assumes "same_mailbox r r'"
  shows "safe z L r J = safe z L r' J" and "safe_disk z L r J = safe_disk z L r' J"
proof -
  have e: "r_room r = r_room r'" "r_did r = r_did r'" "r_state_path r = r_state_path r'"
    "base_url (r_client r) = base_url (r_client r')" using assms by (simp_all add: same_mailbox_def)
  have c: "carries r = carries r'" by (simp add: fun_eq_iff carries_def e)
  have b: "backed L r J = backed L r' J" unfolding backed_def fun_eq_iff e c by blast
  have o: "once z L r J = once z L r' J" by (simp add: fun_eq_iff once_def b)
  have v: "covered L r J = covered L r' J" unfolding covered_def fun_eq_iff c by blast
  show d: "safe_disk z L r J = safe_disk z L r' J" by (simp add: fun_eq_iff safe_disk_def o v e)
  show "safe z L r J = safe z L r' J" by (simp add: fun_eq_iff safe_def d v e)
qed

section \<open>The start of a run\<close>

lemma still_load_active_config: "still.grows (load_active_config E L i why p)"
  unfolding load_active_config_def by (intro still.grows_intros still_load_config) (auto intro: still.grows_intros still_load_config)

lemma still_verify_audit: "still.grows (verify_audit E L p h)"
  unfolding verify_audit_def by (auto intro!: still.grows_intros split: option.split)

lemma still_build_responder: "still.grows (build_responder E L a i key room url)"
  unfolding build_responder_def command_policy_for_def live_artifacts_def require_empty_def split_def
  by (auto intro!: still.grows_intros still_load_policy still_load_journal still_verify_audit split: option.split)

text \<open>Files of their own: journal, state and audit log are three different paths.\<close>

definition own_files :: "run_args \<Rightarrow> bool" where
  "own_files a \<longleftrightarrow> ra_journal_path a \<noteq> ra_state_path a \<and> ra_audit_path a \<noteq> ra_journal_path a
     \<and> ra_audit_path a \<noteq> ra_state_path a"

lemma build_responder_wp:
  "wp (build_responder E L a i key room url)
    (\<lambda>r _. r_room r = room \<and> r_did r = id_did i \<and> r_state_path r = ra_state_path a \<and> r_send r = ra_send a
       \<and> (\<exists>cl. technocore_client L url (ra_timeout a) = Inr cl \<and> r_client r = cl)
       \<and> r_journal r = (if ra_send a then Some (ra_journal_path a) else None)
       \<and> r_audit r = (if ra_send a then Some (ra_audit_path a) else None)
       \<and> (case rate_limiter (r_policy r) of None \<Rightarrow> True | Some (p, c) \<Rightarrow> p = ra_state_path a \<and> c = ra_send a))
    (\<lambda>_ _. True) w"
proof -
  have pol: "wp (command_policy_for E L a (id_did i))
      (\<lambda>pol _. case rate_limiter pol of None \<Rightarrow> True | Some (p, c) \<Rightarrow> p = ra_state_path a \<and> c = ra_send a) (\<lambda>_ _. True) w" for w
  proof (cases "ra_capability_policy a")
    case None
    then show ?thesis
      by (auto simp: command_policy_for_def wp_simps check_policy_def res_simps split: sum.split)
  next
    case (Some p)
    show ?thesis
      unfolding command_policy_for_def Some option.case wp_ibind
      by (rule wp_mono [OF wp_True]) (auto simp: wp_simps check_policy_def res_simps split: sum.split)
  qed
  have art: "wp (live_artifacts E L a (id_did i))
      (\<lambda>x _. x = (if ra_send a then (Some (ra_journal_path a), Some (ra_audit_path a)) else (None, None))) (\<lambda>_ _. True) w" for w
    unfolding live_artifacts_def
    by (auto simp: wp_simps raise_if_def wp_ibind_eta intro!: wp_mono [OF wp_True [of "require_empty E L p" for p]]
        wp_mono [OF wp_True [of "verify_audit E L p h" for p h]])
  show ?thesis
    unfolding build_responder_def split_def wp_ibind
    by (rule wp_mono [OF pol], rule wp_mono [OF art]) (auto simp: wp_simps split: sum.split option.splits)
qed

definition mailbox_live :: "run_args \<Rightarrow> responder \<Rightarrow> responder \<Rightarrow> bool" where
  "mailbox_live a R r \<longleftrightarrow> same_mailbox r R \<and> live r (ra_journal_path a)"

text \<open>The arguments of a command aim at the mailbox \<open>R\<close>, whatever the configuration file holds.\<close>

definition aims :: "lib \<Rightarrow> run_args \<Rightarrow> identity \<Rightarrow> responder \<Rightarrow> path \<Rightarrow> bool" where
  "aims L a i R J \<longleftrightarrow> id_did i = r_did R \<and> ra_state_path a = r_state_path R \<and> ra_journal_path a = J \<and> own_files a
     \<and> ra_room a = Some (r_room R)
     \<and> (\<exists>u. ra_base_url a = Some u \<and> u \<noteq> []
          \<and> (\<forall>cl. technocore_client L u (ra_timeout a) = Inr cl \<longrightarrow> base_url cl = base_url (r_client R)))"

lemma aims_target:
  assumes "aims L a i R J" and "resolve_runtime_target a config = Inr (room, url) \<or> recovery_target a config = Inr (room, url)"
    and "match_room (r_room R)"
  shows "room = r_room R" and "technocore_client L url (ra_timeout a) = Inr cl \<Longrightarrow> base_url cl = base_url (r_client R)"
proof -
  have "r_room R \<noteq> []" using assms(3) by (simp add: match_room_def)
  then have "room = r_room R \<and> Some url = ra_base_url a"
    using assms by (auto simp: aims_def resolve_runtime_target_def recovery_target_def str_or_def validate_room_def split: if_splits)
  then show "room = r_room R" "technocore_client L url (ra_timeout a) = Inr cl \<Longrightarrow> base_url cl = base_url (r_client R)"
    using assms(1) by (auto simp: aims_def)
qed

lemma built_live:
  assumes a: "aims L a i R J" and m: "match_room (r_room R)" and snd: "ra_send a"
    and t: "resolve_runtime_target a config = Inr (room, url)"
  shows "wp (build_responder E L a i key room url) (\<lambda>r _. same_mailbox r R \<and> live r J) (\<lambda>_ _. True) w"
proof (rule wp_mono [OF build_responder_wp])
  fix r :: responder and w' :: world
  assume h: "r_room r = room \<and> r_did r = id_did i \<and> r_state_path r = ra_state_path a \<and> r_send r = ra_send a
       \<and> (\<exists>cl. technocore_client L url (ra_timeout a) = Inr cl \<and> r_client r = cl)
       \<and> r_journal r = (if ra_send a then Some (ra_journal_path a) else None)
       \<and> r_audit r = (if ra_send a then Some (ra_audit_path a) else None)
       \<and> (case rate_limiter (r_policy r) of None \<Rightarrow> True | Some (p, c) \<Rightarrow> p = ra_state_path a \<and> c = ra_send a)"
  have room: "room = r_room R" by (rule aims_target(1) [OF a disjI1 [OF t] m])
  have "base_url (r_client r) = base_url (r_client R)" using h aims_target(2) [OF a disjI1 [OF t] m] by blast
  moreover have "id_did i = r_did R" "ra_state_path a = r_state_path R" "ra_journal_path a = J" "own_files a"
    using a by (simp_all add: aims_def)
  moreover have "case rate_limiter (r_policy r) of None \<Rightarrow> True | Some (p, c) \<Rightarrow> p = ra_state_path a"
    using h by (auto split: option.splits)
  ultimately show "same_mailbox r R \<and> live r J"
    using h room m snd by (auto simp: same_mailbox_def live_def own_files_def split: option.splits)
qed simp

lemma run_live_safe:
  assumes a: "aims L a i R J" and m: "match_room (r_room R)" and snd: "ra_send a" and L: "sha256_ok L"
    and s: "safe_disk z L R J w"
  shows "safe_disk z L R J (snd (run_with_identity E L a i key sleeps rounds w))"
proof -
  have srv: "wp (serve E L a r sleeps rounds) (\<lambda>_. safe_disk z L R J) (\<lambda>_. safe_disk z L R J) w'"
    if "same_mailbox r R" "live r J" "safe z L R J w'" for r w'
  proof -
    have "safe z L r J w'" using that same_mailbox_safe [OF that(1), of z L J] by simp
    note k = keepsD [OF serve_safe [OF that(2) L] this]
    show ?thesis by (rule wp_mono [OF k]) (simp_all add: same_mailbox_safe [OF that(1)] safe_lasts)
  qed
  have built: "wp (build_responder E L a i key room url)
      (\<lambda>r. wp (serve E L a r sleeps rounds) (\<lambda>_. safe_disk z L R J) (\<lambda>_. safe_disk z L R J)) (\<lambda>_. safe_disk z L R J) w'"
    if t: "resolve_runtime_target a config = Inr (room, url)" and sf: "safe z L R J w'" for config room url w'
  proof (rule wp_mono [OF wp_conj [OF built_live [OF a m snd t] still.wp_grows [OF still_build_responder]]])
    have st: "safe z L R J w''" if "fs w'' = fs w' \<and> mem w'' = mem w' \<and> sent w'' = sent w' \<and> last_attempt w'' = last_attempt w'" for w''
      by (rule safe_untouched [OF sf]) (use that in \<open>simp add: untouched_def\<close>)
    fix r :: responder and w'' :: world assume "(same_mailbox r R \<and> live r J) \<and>
       fs w'' = fs w' \<and> mem w'' = mem w' \<and> sent w'' = sent w' \<and> last_attempt w'' = last_attempt w'"
    then show "wp (serve E L a r sleeps rounds) (\<lambda>_. safe_disk z L R J) (\<lambda>_. safe_disk z L R J) w''"
      by (intro srv st) auto
  next
    fix e and w'' :: world assume "True \<and> fs w'' = fs w' \<and> mem w'' = mem w' \<and> sent w'' = sent w' \<and> last_attempt w'' = last_attempt w'"
    then have "untouched w' w''" by (simp add: untouched_def)
    then show "safe_disk z L R J w''" by (intro safe_lasts safe_untouched [OF sf])
  qed
  have p: "ra_state_path a = r_state_path R" using a by (simp add: aims_def)
  have "wp (run_with_identity E L a i key sleeps rounds) (\<lambda>_. safe_disk z L R J) (\<lambda>_. safe_disk z L R J) w"
    unfolding run_with_identity_def split_def wp_ibind
  proof (rule wp_mono [OF safe_disk_still [OF still_load_active_config s]])
    fix config w1 assume s1: "safe_disk z L R J w1"
    show "wp (lift (resolve_runtime_target a config)) (\<lambda>x. wp (load_mem E (ra_state_path a))
        (\<lambda>_. wp (build_responder E L a i key (fst x) (Product_Type.snd x))
          (\<lambda>r. wp (serve E L a r sleeps rounds) (\<lambda>_. safe_disk z L R J) (\<lambda>_. safe_disk z L R J)) (\<lambda>_. safe_disk z L R J))
        (\<lambda>_. safe_disk z L R J)) (\<lambda>_. safe_disk z L R J) w1"
    proof (cases "resolve_runtime_target a config")
      case (Inl e)
      then show ?thesis using s1 by (simp add: wp_lift)
    next
      case (Inr x)
      show ?thesis
        unfolding wp_lift Inr sum.case
        by (rule wp_mono [OF load_mem_safe [OF s1 p]]) (use built Inr in \<open>auto simp: prod_eq_iff\<close>)
    qed
  qed
  then show ?thesis by (simp add: wp_always)
qed

lemma recovery_safe:
  assumes a: "aims L a i R J" and m: "match_room (r_room R)" and did: "match_did (r_did R)"
    and lv: "live R J" and s: "safe_disk True L R J w"
  shows "safe_disk True L R J (snd (recover_delivery_command E L a i apply_it confirm w))"
proof -
  have p: "ra_state_path a = r_state_path R" "ra_journal_path a = J" "id_did i = r_did R"
    using a by (simp_all add: aims_def)
  have rec: "wp (recover_delivery E L room (r_did R) cl (r_state_path R) J apply_it confirm)
      (\<lambda>_. safe_disk True L R J) (\<lambda>_. safe_disk True L R J) w'"
    if t: "recovery_target a config = Inr (room, url)" and c: "technocore_client L url (ra_timeout a) = Inr cl"
      and sf: "safe True L R J w'" for config room url cl w'
  proof -
    let ?R = "R\<lparr>r_client := cl\<rparr>"
    have "same_mailbox ?R R"
      using aims_target(2) [OF a disjI2 [OF t] m c] by (simp add: same_mailbox_def)
    note e = same_mailbox_safe [OF this, of True L J]
    have "live ?R J" using lv by (simp add: live_def cong: option.case_cong prod.case_cong)
    note k = recover_delivery_safe [OF this, of L E apply_it confirm]
    have "room = r_room R" by (rule aims_target(1) [OF a disjI2 [OF t] m])
    then have "wp (recover_delivery E L room (r_did R) cl (r_state_path R) J apply_it confirm)
        (\<lambda>_. safe True L R J) (\<lambda>_. safe True L R J) w'"
      using keepsD [OF k, of w'] did sf by (simp add: e)
    then show ?thesis by (rule wp_mono) (simp_all add: safe_lasts)
  qed
  have "wp (recover_delivery_command E L a i apply_it confirm) (\<lambda>_. safe_disk True L R J) (\<lambda>_. safe_disk True L R J) w"
    unfolding recover_delivery_command_def split_def wp_ibind p
  proof (rule wp_mono [OF safe_disk_still [OF still_load_active_config s]])
    fix config w1 assume s1: "safe_disk True L R J w1"
    show "wp (lift (recovery_target a config)) (\<lambda>x. wp (load_mem E (r_state_path R))
        (\<lambda>_. wp (lift (technocore_client L (Product_Type.snd x) (ra_timeout a)))
          (\<lambda>cl. wp (recover_delivery E L (fst x) (r_did R) cl (r_state_path R) J apply_it confirm)
             (\<lambda>_. safe_disk True L R J) (\<lambda>_. safe_disk True L R J)) (\<lambda>_. safe_disk True L R J))
        (\<lambda>_. safe_disk True L R J)) (\<lambda>_. safe_disk True L R J) w1"
    proof (cases "recovery_target a config")
      case (Inl e)
      then show ?thesis using s1 by (simp add: wp_lift)
    next
      case (Inr x)
      then obtain room url where t: "recovery_target a config = Inr (room, url)" by (cases x) auto
      show ?thesis
        unfolding t wp_lift [of "Inr (room, url)"] sum.case
        by (rule wp_mono [OF load_mem_safe [OF s1 refl]])
          (use rec [OF t] in \<open>auto simp: wp_lift safe_lasts split: sum.split\<close>)
    qed
  qed
  then show ?thesis by (simp add: wp_always)
qed

section \<open>Dry runs\<close>

lemma quiet_update: "quiet.grows (update_mem f)" "quiet.grows (update_mem_unit g)"
proof -
  have "wp (update_mem f) (\<lambda>_ w'. fs w' = fs w \<and> says w' = says w) (\<lambda>_ w'. fs w' = fs w \<and> says w' = says w) w" for w
    by (auto simp: wp_simps split: sum.split)
  then show "quiet.grows (update_mem f)" unfolding quiet.grows_def wp_always by blast
  have "wp (update_mem_unit g) (\<lambda>_ w'. fs w' = fs w \<and> says w' = says w) (\<lambda>_ w'. fs w' = fs w \<and> says w' = says w) w" for w
    by (auto simp: wp_simps split: sum.split)
  then show "quiet.grows (update_mem_unit g)" unfolding quiet.grows_def wp_always by blast
qed

text \<open>A responder that may not send, and whose limiter only counts\<close>

definition dry :: "responder \<Rightarrow> bool" where
  "dry r \<longleftrightarrow> \<not> r_send r \<and> (case rate_limiter (r_policy r) of None \<Rightarrow> True | Some (p, c) \<Rightarrow> \<not> c)"

lemma quiet_if: "(b \<Longrightarrow> quiet.grows m) \<Longrightarrow> (\<not> b \<Longrightarrow> quiet.grows n) \<Longrightarrow> quiet.grows (if b then m else n)"
  by simp

lemma quiet_load_policy: "quiet.grows (load_policy E p)"
  unfolding load_policy_def by (intro quiet.grows_intros)

lemma quiet_limiter: "quiet.grows (limiter_allow E p False did n)"
  unfolding limiter_allow_def iwhen_def by (auto intro!: quiet.grows_intros)

lemma quiet_decide:
  assumes "dry r"
  shows "quiet.grows (decide E L (r_policy r) m)"
  unfolding decide_def authorize_sender_def policy_grant_def decide_authorized_command_def limiter_admits_def split_def
  using assms
  by (auto simp: dry_def intro!: quiet.grows_intros quiet_load_policy quiet_limiter split: option.split)

lemma quiet_event:
  assumes "dry r"
  shows "quiet.grows (event_for_message E L r m)"
  unfolding event_for_message_def reply_event_def receipt_event_def Let_def
  using assms by (auto simp: dry_def intro!: quiet.grows_intros quiet_decide)

lemma quiet_process:
  assumes "dry r"
  shows "quiet.grows (process_messages E L r c ms)"
proof -
  have p: "quiet.grows (persist_processed_message E L r m e)" for m e
    unfolding persist_processed_message_def using assms
    by (auto simp: dry_def intro!: quiet.grows_intros quiet_update)
  show ?thesis
    by (induction ms arbitrary: c) (auto simp: split_def intro!: quiet.grows_intros quiet_event [OF assms] p)
qed

lemma quiet_save: "dry r \<Longrightarrow> quiet.grows (save_if_sending E r)"
  by (simp add: save_if_sending_def iwhen_def dry_def quiet.grows_iret)

lemma quiet_serve:
  assumes "dry r"
  shows "quiet.grows (serve E L a r sleeps rounds)"
proof -
  have sl: "quiet.grows (sleep_until E n deadline)" for n deadline
    by (induction n) (auto intro!: quiet.grows_intros)
  have sn: "quiet.grows (process_snapshot E L r snap)" for snap
    unfolding process_snapshot_def split_def
    by (intro quiet.grows_intros quiet_process [OF assms] quiet_save [OF assms] quiet_update quiet_if)
  have po: "quiet.grows (poll E L a r sleeps k n b)" for k n b
    by (induction k arbitrary: n b)
      (auto simp: Let_def split_def poll_round_def intro!: quiet.grows_intros quiet_read_room sn sl)
  show ?thesis
    unfolding serve_def initialize_cursor_def bootstrap_latest_def split_def
    by (intro quiet.grows_intros quiet_if po quiet_read_room quiet_update quiet_save [OF assms])
qed

lemma quiet_still: "still.grows m \<Longrightarrow> quiet.grows m"
  unfolding still.grows_def quiet.grows_def by (simp add: says_def)

lemma quiet_load_mem: "quiet.grows (load_mem E p)"
proof -
  have "quiet.grows (imodify (\<lambda>w. w\<lparr>mem := s\<rparr>))" for s by (simp add: quiet.grows_def imodify_def)
  then show ?thesis unfolding load_mem_def by (intro quiet.grows_intros quiet_still [OF still_load_state])
qed

lemma dry_run_quiet:
  assumes "\<not> ra_send a"
  shows "quiet.grows (run_with_identity E L a i key sleeps rounds)"
proof -
  have built: "fs (snd (ibind (build_responder E L a i key room url) (\<lambda>r. serve E L a r sleeps rounds) w)) = fs w
      \<and> says (snd (ibind (build_responder E L a i key room url) (\<lambda>r. serve E L a r sleeps rounds) w)) = says w" for room url w
  proof -
    have "wp (build_responder E L a i key room url)
      (\<lambda>r. wp (serve E L a r sleeps rounds) (\<lambda>_ w'. fs w' = fs w \<and> says w' = says w) (\<lambda>_ w'. fs w' = fs w \<and> says w' = says w))
      (\<lambda>_ w'. fs w' = fs w \<and> says w' = says w) w"
    proof (rule wp_mono [OF wp_conj [OF build_responder_wp quiet.wp_grows [OF quiet_still [OF still_build_responder]]]])
      fix r :: responder and w' :: world
      assume h: "(r_room r = room \<and> r_did r = id_did i \<and> r_state_path r = ra_state_path a \<and> r_send r = ra_send a
       \<and> (\<exists>cl. technocore_client L url (ra_timeout a) = Inr cl \<and> r_client r = cl)
       \<and> r_journal r = (if ra_send a then Some (ra_journal_path a) else None)
       \<and> r_audit r = (if ra_send a then Some (ra_audit_path a) else None)
       \<and> (case rate_limiter (r_policy r) of None \<Rightarrow> True | Some (p, c) \<Rightarrow> p = ra_state_path a \<and> c = ra_send a))
       \<and> fs w' = fs w \<and> says w' = says w"
      then have "dry r" using assms by (auto simp: dry_def split: option.splits)
      show "wp (serve E L a r sleeps rounds) (\<lambda>_ w'. fs w' = fs w \<and> says w' = says w) (\<lambda>_ w'. fs w' = fs w \<and> says w' = says w) w'"
        by (rule wp_mono [OF quiet.wp_grows [OF quiet_serve [OF \<open>dry r\<close>]]]) (use h in auto)
    qed simp
    then show ?thesis unfolding wp_ibind [symmetric] wp_always by blast
  qed
  then have b: "quiet.grows (ibind (build_responder E L a i key room url) (\<lambda>r. serve E L a r sleeps rounds))" for room url
    by (simp add: quiet.grows_def)
  show ?thesis
    unfolding run_with_identity_def split_def
    by (rule quiet.grows_ibind [OF quiet_still [OF still_load_active_config]], rule quiet.grows_ibind [OF quiet.grows_lift],
        rule quiet.grows_ibind [OF quiet_load_mem]) (rule b)
qed

section \<open>A journal left behind\<close>

lemma require_empty_blocked:
  assumes "fs w p \<noteq> None"
  shows "wp (require_empty E L p) (\<lambda>_ _. False) (\<lambda>_. untouched w) w"
  by (rule require_empty_wp) (use assms in auto)

lemma still_command_policy: "still.grows (command_policy_for E L a did)"
  unfolding command_policy_for_def by (auto intro!: still.grows_intros still_load_policy split: option.split)

lemma build_blocked:
  assumes "ra_send a" and "fs w (ra_journal_path a) \<noteq> None"
  shows "wp (build_responder E L a i key room url) (\<lambda>_ _. False) (\<lambda>_ w'. says w' = says w) w"
  unfolding build_responder_def split_def wp_ibind [of "command_policy_for E L a d" for d]
proof (rule wp_mono [OF still.wp_grows [OF still_command_policy]])
  fix pol :: command_policy and w1 :: world
  assume w1: "fs w1 = fs w \<and> mem w1 = mem w \<and> sent w1 = sent w \<and> last_attempt w1 = last_attempt w"
  then have "wp (require_empty E L (ra_journal_path a)) (\<lambda>_ _. False) (\<lambda>_. untouched w1) w1"
    using assms(2) by (intro require_empty_blocked) simp
  then show "wp (ibind (live_artifacts E L a (id_did i)) f) (\<lambda>_ _. False) (\<lambda>_ w'. says w' = says w) w1" for f
    unfolding live_artifacts_def using assms(1) w1
    by (auto simp: wp_ibind says_def untouched_def intro: wp_mono)
qed (auto simp: says_def)

lemma run_blocked:
  assumes "ra_send a" and "fs w (ra_journal_path a) \<noteq> None"
  shows "wp (run_with_identity E L a i key sleeps rounds) (\<lambda>_ _. False) (\<lambda>_ w'. says w' = says w) w"
proof -
  have b: "wp (build_responder E L a i key room url) (\<lambda>r. wp (f r) (\<lambda>_ _. False) (\<lambda>_ w'. says w' = says w))
      (\<lambda>_ w'. says w' = says w) w1" if "fs w1 = fs w" "says w1 = says w" for room url w1 and f :: "responder \<Rightarrow> 'b io"
    by (rule wp_mono [OF build_blocked]) (use that assms in auto)
  have m: "wp (load_mem E p) (\<lambda>_ w'. fs w' = fs w \<and> says w' = says w) (\<lambda>_ w'. says w' = says w) w1"
    if "fs w1 = fs w" "says w1 = says w" for p w1
    by (rule wp_mono [OF quiet.wp_grows [OF quiet_load_mem]]) (use that in auto)
  show ?thesis
    unfolding run_with_identity_def split_def wp_ibind
    by (rule wp_mono [OF quiet.wp_grows [OF quiet_still [OF still_load_active_config]]])
      (auto simp: wp_lift split: sum.split intro!: wp_mono [OF m] b)
qed

section \<open>Looking without \<open>--apply\<close>\<close>

lemma looking_quiet: "quiet.grows (recover_delivery_command E L a i False confirm)"
proof -
  have "quiet.grows (recover_delivery E L room did c S J False confirm)" for room did c S J
    using recover_looks unfolding quiet.grows_def by (simp add: wp_always silent_def)
  then show ?thesis
    unfolding recover_delivery_command_def split_def
    by (intro quiet.grows_intros quiet_still [OF still_load_active_config] quiet_load_mem)
qed

section \<open>Histories\<close>

datatype command =
    RunCommand env run_args identity bytes nat nat
  | RecoverCommand env run_args identity bool bool

fun execute :: "lib \<Rightarrow> command \<Rightarrow> world \<Rightarrow> world" where
  "execute L (RunCommand E a i key sleeps rounds) w = snd (run_with_identity E L a i key sleeps rounds (restart w))"
| "execute L (RecoverCommand E a i apply_it confirm) w =
     snd (recover_delivery_command E L a i apply_it confirm (restart w))"

definition history_of :: "lib \<Rightarrow> command list \<Rightarrow> world \<Rightarrow> world" where
  "history_of L cs w = foldl (\<lambda>w c. execute L c w) w cs"

fun command_aims :: "lib \<Rightarrow> responder \<Rightarrow> path \<Rightarrow> command \<Rightarrow> bool" where
  "command_aims L R J (RunCommand E a i key sleeps rounds) = aims L a i R J"
| "command_aims L R J (RecoverCommand E a i apply_it confirm) = aims L a i R J"

fun is_run :: "command \<Rightarrow> bool" where
  "is_run (RunCommand E a i key sleeps rounds) = True"
| "is_run (RecoverCommand E a i apply_it confirm) = False"

lemma execute_safe:
  assumes "sha256_ok L" and "live R J" and "match_did (r_did R)" and "command_aims L R J c"
    and "z \<or> is_run c" and "safe_disk z L R J w"
  shows "safe_disk z L R J (execute L c w)"
proof (cases c)
  case (RunCommand E a i key sleeps rounds)
  have m: "match_room (r_room R)" using assms(2) by (simp add: live_def)
  note d = safe_disk_restart [OF assms(6)]
  have "aims L a i R J" using assms(4) RunCommand by simp
  note live_run = run_live_safe [OF this m _ assms(1) d]
  show ?thesis
    unfolding RunCommand execute.simps
    by (cases "ra_send a") (simp_all add: live_run safe_disk_quiet [OF dry_run_quiet d])
next
  case (RecoverCommand E a i ap cf)
  have m: "match_room (r_room R)" using assms(2) by (simp add: live_def)
  have z: "z" using assms(5) RecoverCommand by simp
  then have d: "safe_disk True L R J (restart w)" using safe_disk_restart assms(6) by simp
  have "aims L a i R J" using assms(4) RecoverCommand by simp
  from recovery_safe [OF this m assms(3,2) d] z show ?thesis unfolding RecoverCommand execute.simps by simp
qed

lemma history_safe:
  assumes "sha256_ok L" and "live R J" and "match_did (r_did R)" and "list_all (command_aims L R J) cs"
    and "z \<or> list_all is_run cs" and "safe_disk z L R J w"
  shows "safe_disk z L R J (history_of L cs w)"
  using assms(4-)
proof (induction cs arbitrary: w)
  case Nil
  then show ?case by (simp add: history_of_def)
next
  case (Cons c cs)
  then have "safe_disk z L R J (execute L c w)" by (intro execute_safe [OF assms(1-3)]) auto
  with Cons show ?case by (auto simp: history_of_def)
qed

lemma safe_disk_start: "says w = [] \<Longrightarrow> safe_disk z L R J w"
  by (auto simp: safe_disk_def once_def covered_def answered_def replies_def split: option.splits sum.splits)

end
