(* ===== verification/Liveness.thy ===== *)
theory Liveness
  imports Sessions
begin

text \<open>
  That the program gets something done: when no call fails and the peer posts what it is sent, a
  reply is sent, acknowledged and recorded. The safety theorems hold of an agent that never
  answers; these lemmas exclude it.
\<close>

text \<open>The peer answers the write at \<open>url\<close> by a snapshot that contains the posted record.\<close>

definition posts :: "env \<Rightarrow> str \<Rightarrow> str \<Rightarrow> room_message \<Rightarrow> bool" where
  "posts E url room m \<longleftrightarrow> (\<forall>t. \<exists>p snap. payload_of_response (wire E t (SaySigned url)) = Inr p
     \<and> parse_snapshot p room = Inr snap \<and> parse_message (dget p ''posted'') = Inr m
     \<and> msg_seq m \<in> set (map msg_seq (messages snap)))"

section \<open>The URL of a write\<close>

lemma length_quote_bytes: "length (quote_bytes bs) \<le> 3 * length bs"
proof -
  have "length (quote_byte b) \<le> 3" for b by (simp add: quote_byte_def)
  then show ?thesis unfolding quote_bytes_def by (induction bs) (auto intro: order_trans [OF add_mono])
qed

lemma ascii_quote_bytes: "is_bytes bs \<Longrightarrow> is_ascii (quote_bytes bs)"
proof -
  have "is_ascii (quote_byte b)" if "b < 256" for b
  proof -
    have "b div 16 < 16" using that by auto
    then show ?thesis by (auto simp: quote_byte_def hex_upper_def is_ascii_def is_unreserved_def char_class_defs)
  qed
  moreover assume "is_bytes bs"
  ultimately show ?thesis unfolding quote_bytes_def by (auto simp: is_bytes_def is_ascii_def list_all_iff)
qed

lemma ascii_no_surrogate: "is_ascii s \<Longrightarrow> \<not> list_ex is_surrogate s"
  by (auto simp: is_ascii_def list_all_iff list_ex_iff is_surrogate_def)

lemma is_ascii_append [simp]: "is_ascii (s @ t) \<longleftrightarrow> is_ascii s \<and> is_ascii t"
  by (simp add: is_ascii_def)

lemma ascii_text: "is_ascii s \<Longrightarrow> is_text s"
  by (auto simp: is_ascii_def is_text_def list_all_iff)

lemma ascii_bytes: "is_ascii s \<Longrightarrow> is_bytes s"
  by (auto simp: is_ascii_def is_bytes_def list_all_iff)

lemma say_url_short:
  assumes a: "list_all is_ascii [base, room, did, sig, nonce, txt]"
    and n: "length base + 3 * length (room @ did @ sig @ nonce @ txt) \<le> 7900"
  shows "\<exists>url. say_url base room did sig nonce txt = Inr url \<and> is_ascii url \<and> length url \<le> 8000"
proof -
  have q: "quote s = Inr (quote_bytes s)" if "is_ascii s" for s
    using that by (simp add: quote_Inr ascii_no_surrogate utf8_ascii)
  have ar: "is_ascii room" "is_ascii did" "is_ascii sig" "is_ascii nonce" "is_ascii txt" "is_ascii base" using a by simp_all
  let ?url = "base @ lit ''/r/'' @ quote_bytes room @ lit ''/say-signed/''
     @ join 47 (map quote_bytes [did, sig, nonce, txt]) @ lit ''?format=json''"
  have "\<exists>url. say_url base room did sig nonce txt = Inr url"
    unfolding say_url_def using ar by (simp add: q split_def Let_def)
  then obtain url where url: "say_url base room did sig nonce txt = Inr url" by blast
  have e: "url = ?url" using say_url_Inr [OF ascii_text [OF ar(1)] url] ar by (simp add: utf8_ascii)
  have "is_ascii ?url" using ascii_quote_bytes ascii_bytes ar by (simp add: is_ascii_def lit_simps)
  moreover have "length ?url \<le> 8000"
    using n length_quote_bytes [of room] length_quote_bytes [of did] length_quote_bytes [of sig]
      length_quote_bytes [of nonce] length_quote_bytes [of "txt"] by simp
  ultimately show ?thesis using url e by blast
qed

section \<open>A reply is sent\<close>

text \<open>Running a program on a given world\<close>

lemmas run_simps = ibind_def iret_def lift_def iget_def imodify_def ask_def on_error_def iwhen_def exists_path_def
  set_file_def read_file_def atomic_write_def unlink_synced_def update_mem_def update_mem_unit_def

lemma send_delivers:
  assumes "calm E" and "match_room room" "match_did did" "match_nonce nonce" "match_canonical_signature sig"
    and "say_url (base_url c) room did sig nonce content = Inr url" "is_ascii url" "length url \<le> 8000"
    and "posts E url room m" and "posted_matches did nonce content m"
  shows "send_signed_message E c room did sig nonce content w
    = (Inr m, w\<lparr>tick := Suc (Suc (tick w)), sent := sent w @ [(SaySigned url, fs w)]\<rparr>)"
proof -
  obtain p snap where p: "payload_of_response (wire E (Suc (tick w)) (SaySigned url)) = Inr p"
    "parse_snapshot p room = Inr snap" "parse_message (dget p ''posted'') = Inr m" "msg_seq m \<in> msg_seq ` set (messages snap)"
    using assms(9) unfolding posts_def by fastforce
  then show ?thesis
    using assms(1-8,10)
    by (simp add: send_signed_message_def run_simps validate_room_def validate_did_def validate_nonce_def raise_if_def
        encode_utf8_def ascii_no_surrogate utf8_ascii request_json_def exchange_def record_request_def calm_def
        posted_matches_def)
qed

definition note_of :: "writer \<Rightarrow> room_message \<Rightarrow> str \<Rightarrow> str \<Rightarrow> str \<Rightarrow> (int \<times> str \<times> str \<times> str) list" where
  "note_of W m did nonce content = (case W of Direct \<Rightarrow> [] | Audited \<Rightarrow> [(msg_seq m, did, nonce, content)])"

lemma write_through_delivers:
  assumes "calm E" and "match_room room" "match_did did" "match_nonce nonce" "match_canonical_signature sig"
    and "say_url (base_url c) room did sig nonce content = Inr url" "is_ascii url" "length url \<le> 8000"
    and "posts E url room m" and "posted_matches did nonce content m"
    and "encode_utf8 (canonical_message room nonce content) = Inr payload"
    and "verify_detached_signature L did payload sig"
  shows "write_through W E L c room did sig nonce content w
    = (Inr m, w\<lparr>tick := Suc (Suc (tick w)), sent := sent w @ [(SaySigned url, fs w)],
        acks := acks w @ note_of W m did nonce content\<rparr>)"
proof (cases W)
  case Direct
  then show ?thesis
    by (cases w) (simp add: write_through_def send_delivers [OF assms(1-10)] note_of_def)
next
  case Audited
  then show ?thesis
    using assms(10-12)
    by (simp add: write_through_def audited_send_def run_simps send_delivers [OF assms(1-10)] note_of_def
        raise_if_def posted_matches_def)
qed

lemma create_record_total:
  assumes "ed25519_ok L" "length key = 32" "did_from_private_key L key = Inr did"
    and s: "sign_room_message L key room (str_of_int n) content = Inr (swept, sig)" and i: "1 \<le> i" and n: "0 \<le> n"
  shows "\<exists>d. create_record L room i did n swept sig = Inr d"
proof -
  note s = s [unfolded sign_room_message_Inr]
  have sg: "match_signature sig" using s sign_detached_Inr by blast
  have did: "match_did did" using assms(3) by (auto simp: did_from_private_key_def validate_did_def Let_def split: if_splits)
  have v: "verify_detached_signature L did (utf8 (canonical_message room (str_of_int n) swept)) sig"
    using signed_verifies [OF assms(1-3)] s by blast
  have swept: "sweep_text swept = Inr swept"
    using s swept_visible sweep_fixed unfolding sweep_text_def by blast
  have "encode_utf8 (canonical_message room (str_of_int n) swept) = Inr (utf8 (canonical_message room (str_of_int n) swept))"
    by (rule encode_canonical) (use s in blast)+
  with v sg did swept s i n show ?thesis
    by (simp add: create_record_def Let_def res_simps validate_room_def validate_did_def verify_for_room_def)
qed

lemma send_text_delivers:
  assumes calm: "calm E" and lib: "ed25519_ok L" "sha256_ok L" and key: "length (r_key r) = 32"
      "did_from_private_key L (r_key r) = Inr (r_did r)"
    and J: "r_journal r = Some J" "fs w J = None" and room: "match_room (r_room r)"
    and n: "next_nonce (r_room r) (clock_ns E (tick w)) (mem w) = Inr (s, n)"
    and sw: "sweep_text content = Inr swept" and i: "1 \<le> i"
    and sig: "sign_room_message L (r_key r) (r_room r) (str_of_int n) content = Inr (swept, sig)"
    and url: "say_url (base_url (r_client r)) (r_room r) (r_did r) sig (str_of_int n) swept = Inr url"
      "is_ascii url" "length url \<le> 8000"
    and m: "posts E url (r_room r) m" "posted_matches (r_did r) (str_of_int n) swept m" "i < msg_seq m"
  obtains d w' where "send_text E L r content i w = (Inr m, w')"
    and "create_record L (r_room r) i (r_did r) n swept sig = Inr d"
    and "sent w' = sent w @ [(SaySigned url, (fs w)(J := Some (fresh_file (record_body d))))]"
    and "fs w' = (fs w)(J := Some (fresh_file (record_body (d\<lparr>dr_status := lit ''acknowledged'', dr_reply_sequence := Some (msg_seq m)\<rparr>))))"
    and "mem w' = s"
proof -
  have n0: "0 \<le> n" "n = max (clock_ns E (tick w)) (get_default (nonces (mem w)) (r_room r) 0 + 1)"
    using n by (auto simp: next_nonce_Inr)
  obtain d where d: "create_record L (r_room r) i (r_did r) n swept sig = Inr d"
    using create_record_total [OF lib(1) key sig i n0(1)] by blast
  note dd = create_record_Inr(1) [OF d]
  let ?a = "d\<lparr>dr_status := lit ''acknowledged'', dr_reply_sequence := Some (msg_seq m)\<rparr>"
  have a: "acknowledge_record (msg_seq m) d = Inr ?a"
    unfolding acknowledge_record_Inr using m(3) i by (simp add: dd)
  have read: "decode_journal L (fresh_file (record_body d)) = Inr d"
    by (rule decode_written_record) (rule create_record_Inr(2) [OF d lib(2)])
  have did: "match_did (r_did r)" using key(2) by (auto simp: did_from_private_key_def validate_did_def Let_def split: if_splits)
  have sg: "match_canonical_signature sig" "match_nonce (str_of_int n)"
    using sig sign_detached_canonical [OF lib(1) key(1)] unfolding sign_room_message_Inr by blast+
  have v: "verify_detached_signature L (r_did r) (utf8 (canonical_message (r_room r) (str_of_int n) swept)) sig"
    using signed_verifies [OF lib(1) key] sig unfolding sign_room_message_Inr by blast
  have enc: "encode_utf8 (canonical_message (r_room r) (str_of_int n) swept)
      = Inr (utf8 (canonical_message (r_room r) (str_of_int n) swept))"
    by (rule encode_canonical) (use sig in \<open>unfold sign_room_message_Inr, blast\<close>)+
  note send = write_through_delivers [OF calm room did sg(2,1) url m(1,2) enc v]
  show thesis
    by (rule that [OF _ d])
      (use calm J n sig in \<open>simp add: send_text_def run_simps load_journal_def require_empty_def calm_def raise_if_def
        prepare_delivery_def d prepare_journal_def write_record_def uncertain_def send acknowledge_journal_def read a\<close>, simp_all)
qed

end
