(* ===== verification/Demo.thy ===== *)
theory Demo
  imports Liveness
begin

text \<open>
  A concrete environment, world and mailbox for the witnesses: nothing fails, the clocks stand
  still, the room holds one signed ping that arrived as record 4, and a signed write is posted as
  record 5. They are inputs of the model, not models of the peer.
\<close>

definition demo_did :: str where
  "demo_did = (case did_from_private_key demo_lib demo_key of Inr d \<Rightarrow> d | Inl _ \<Rightarrow> [])"

definition demo_peer :: str where
  "demo_peer = (case did_from_private_key demo_lib (replicate 32 9) of Inr d \<Rightarrow> d | Inl _ \<Rightarrow> [])"

definition demo_room :: str where "demo_room = lit ''mb-p-x''"

definition demo_base :: str where "demo_base = lit ''https://t''"

definition demo_message :: "int \<Rightarrow> str \<Rightarrow> str \<Rightarrow> str \<Rightarrow> json" where
  "demo_message n sender content nonce = JObj [(lit ''seq'', JInt n), (lit ''from'', JStr sender),
     (lit ''text'', JStr content), (lit ''nonce'', JStr nonce)]"

definition demo_snapshot :: "json list \<Rightarrow> int \<Rightarrow> pairs" where
  "demo_snapshot ms n = [(lit ''room'', JStr demo_room), (lit ''last_seq'', JInt n),
     (lit ''first_seq'', JInt 4), (lit ''messages'', JArr ms), (lit ''generation'', JInt 0)]"

definition demo_ping :: json where
  "demo_ping = demo_message 4 demo_peer (lit ''/ping'') (lit ''8'')"

fun demo_wire :: "nat \<Rightarrow> request \<Rightarrow> response" where
  "demo_wire n (SaySigned url) = Payload 300 (Doc (JObj (demo_snapshot [demo_ping, demo_message 5 demo_did (lit ''pong'') (lit ''7'')] 5
      @ [(lit ''posted'', demo_message 5 demo_did (lit ''pong'') (lit ''7''))])))"
| "demo_wire n q = Payload 200 (Doc (JObj (demo_snapshot [demo_ping] 4)))"

definition demo_env :: env where
  "demo_env = \<lparr>fault = (\<lambda>n. Fine), clock_ns = (\<lambda>n. 7), clock_s = (\<lambda>n. Fin 100), clock_mono = (\<lambda>n. 10),
     clock_utc = (\<lambda>n. \<lparr>year = 2026, month = 5, day = 4, hour = 3, minute = 2, sec = 1\<rparr>),
     wire = demo_wire, github = (\<lambda>n q. GitHubFailure)\<rparr>"

definition demo_world :: world where
  "demo_world = \<lparr>tick = 0, fs = (\<lambda>p. None), sent = [], mem = empty_state, last_attempt = None,
     seeds = (\<lambda>k. None), outdir = (\<lambda>p. None), held = (\<lambda>p. False), acks = []\<rparr>"

definition demo_identity :: identity where
  "demo_identity = \<lparr>id_did = demo_did, id_fingerprint = take 16 (sha256_hex demo_lib (utf8 demo_did)),
     id_service = lit ''s'', id_account = lit ''a''\<rparr>"

definition demo_args :: "bool \<Rightarrow> run_args" where
  "demo_args live_run = \<lparr>ra_send = live_run, ra_once = True, ra_start_at = ''zero'', ra_wait = Fin 0, ra_limit = 50,
     ra_room = Some demo_room, ra_base_url = Some demo_base, ra_timeout = Fin 20, ra_github_timeout = Fin 10,
     ra_allow_did = [demo_peer], ra_allow_any_signed = False, ra_capability_policy = None,
     ra_config_path = ''c'', ra_state_path = ''s'', ra_journal_path = ''j'', ra_audit_path = ''a''\<rparr>"

definition demo_client :: client where
  "demo_client = \<lparr>base_url = demo_base, timeout = Fin 20\<rparr>"

definition demo_responder :: responder where
  "demo_responder = \<lparr>r_room = demo_room, r_did = demo_did, r_key = demo_key, r_client = demo_client,
     r_policy = \<lparr>own_did = demo_did, allowed_dids = [demo_peer], allow_any_signed = False, policy_file = None,
       rate_limiter = None\<rparr>,
     r_state_path = ''s'', r_service = None, r_journal = Some ''j'', r_audit = Some ''a'', r_send = True, r_writer = Direct\<rparr>"

definition demo_provisioning :: provisioning where
  "demo_provisioning = \<lparr>pv_identity = demo_identity, pv_key = demo_key, pv_client = demo_client,
     pv_config_path = ''c'', pv_state_path = ''s''\<rparr>"

definition demo_seed :: str where
  "demo_seed = lit ''0707070707070707070707070707070707070707070707070707070707070707''"

lemma demo_did: "did_from_private_key demo_lib demo_key = Inr demo_did" "match_did demo_did"
proof -
  obtain d where d: "did_from_private_key demo_lib demo_key = Inr d"
    using did_from_private_key_total [OF demo_lib_ok(1,3)] by blast
  then show "did_from_private_key demo_lib demo_key = Inr demo_did" by (simp add: demo_did_def)
  have "d = demo_did" using d by (simp add: demo_did_def)
  then show "match_did demo_did" using d by (auto simp: did_from_private_key_def validate_did_def Let_def split: if_splits)
qed

lemma replicate_numeral_Cons: "replicate (numeral k) x = x # replicate (pred_numeral k) x"
  by (simp add: numeral_eq_Suc)

lemma demo_peer: "match_did demo_peer" "demo_peer \<noteq> demo_did"
proof -
  have len: "length (replicate 32 (9::nat)) = 32" by simp
  obtain d where d: "did_from_private_key demo_lib (replicate 32 9) = Inr d"
    using did_from_private_key_total [OF demo_lib_ok(1) len] by blast
  then have e: "did_from_private_key demo_lib (replicate 32 9) = Inr demo_peer" by (simp add: demo_peer_def)
  then show "match_did demo_peer" by (auto simp: did_from_private_key_def validate_did_def Let_def split: if_splits)
  have "public_key_from_did demo_peer = Inr (ed_public demo_lib (replicate 32 9))"
    by (rule public_key_of_own_did [OF demo_lib_ok(1) len e])
  moreover have "public_key_from_did demo_did = Inr (ed_public demo_lib demo_key)"
    by (rule public_key_of_own_did [OF demo_lib_ok(1,3) demo_did(1)])
  ultimately show "demo_peer \<noteq> demo_did" by (auto simp: demo_lib_def demo_key_def replicate_numeral_Cons)
qed

lemma demo_did_nonempty [simp]: "demo_did \<noteq> []"
  using demo_did(2) by (auto simp: match_did_def)

lemma demo_room: "match_room demo_room"
  by (simp add: demo_room_def lit_simps match_room_def char_class_defs)

lemma demo_base_url: "validate_base_url demo_lib demo_base = Inr demo_base"
  by (simp add: validate_base_url_def demo_base_def lit_simps strip_def lstrip_def rstrip_def is_space_def
      urlsplit_def url_cleaned_def split_scheme_def partition_at_def is_scheme_char_def char_class_defs fold_char_def
      split_netloc_def netloc_error_def is_ascii_def has_credentials_def userinfo_of_def raise_if_def)

lemma demo_client: "technocore_client demo_lib demo_base (Fin 20) = Inr demo_client"
  by (simp add: technocore_client_def demo_base_url bounded_float_def demo_client_def)

lemma demo_live: "live demo_responder ''j''"
  by (simp add: live_def demo_responder_def demo_room)

lemma demo_aims: "aims demo_lib (demo_args b) demo_identity demo_responder ''j''"
  by (simp add: aims_def own_files_def demo_args_def demo_identity_def demo_responder_def demo_client demo_client_def)
    (simp add: demo_base_def)

lemma demo_start: "says demo_world = []"
  by (simp add: demo_world_def says_def)

definition demo_policy_doc :: json where
  "demo_policy_doc = JObj [(lit ''schema'', JStr (lit CAPABILITY_SCHEMA)), (lit ''principals'', JObj [(demo_peer,
     JObj [(lit ''enabled'', JBool True), (lit ''commands'', JArr [JStr (lit ''/ping'')]), (lit ''repositories'', JArr []),
       (lit ''max_requests_per_hour'', JInt 3)])])]"

text \<open>The pong, signed, as the delivery journal holds it\<close>

definition demo_signature :: str where
  "demo_signature = b64_encode (ed_sign demo_lib demo_key (utf8 (canonical_message demo_room (lit ''7'') (lit ''pong''))))"

definition demo_record :: delivery_record where
  "demo_record = \<lparr>dr_status = lit ''pending'', dr_room_sha256 = sha256_of_text demo_lib demo_room, dr_input_sequence = 4,
     dr_did = demo_did, dr_nonce = 7, dr_text = lit ''pong'', dr_text_sha256 = sha256_of_text demo_lib (lit ''pong''),
     dr_signature = demo_signature, dr_reply_sequence = None\<rparr>"

lemma demo_nonce: "str_of_int 7 = lit ''7''" "match_nonce (lit ''7'')"
  by (simp_all add: str_of_int_def str_of_nat.simps [of 7] lit_simps match_nonce_def char_class_defs)

lemma demo_sweep: "sweep_text (lit ''pong'') = Inr (lit ''pong'')"
  by (simp add: sweep_text_def sweep_text_limit_def lit_simps is_invisible_def in_ranges_def cat_Cc_def
      cat_Cf_def cat_Cs_def cat_Co_def cat_Zl_Zp_def strip_def lstrip_def rstrip_def is_space_def)

lemma demo_signed:
  "sign_room_message demo_lib demo_key demo_room (lit ''7'') (lit ''pong'') = Inr (lit ''pong'', demo_signature)"
  unfolding sign_room_message_Inr demo_signature_def
  using demo_room demo_nonce demo_sweep sign_detached_total [OF demo_lib_ok(1,3)] by blast

lemma demo_record: "create_record demo_lib demo_room 4 demo_did 7 (lit ''pong'') demo_signature = Inr demo_record"
proof -
  note s = demo_signed [unfolded sign_room_message_Inr]
  have sg: "match_signature demo_signature" using s sign_detached_Inr by blast
  have "verify_detached_signature demo_lib demo_did (utf8 (canonical_message demo_room (lit ''7'') (lit ''pong''))) demo_signature"
    using signed_verifies [OF demo_lib_ok(1,3) demo_did(1)] s by blast
  moreover have "\<not> list_ex is_surrogate (canonical_message demo_room (lit ''7'') (lit ''pong''))"
    by (simp add: canonical_message_def demo_room_def lit_simps is_surrogate_def)
  ultimately have "verify_for_room demo_lib demo_record demo_room = Inr ()"
    by (simp add: verify_for_room_def demo_record_def validate_room_def demo_room encode_utf8_def demo_nonce raise_if_def)
  then show ?thesis
    unfolding create_record_def Let_def
    by (simp add: res_simps validate_room_def demo_room validate_did_def demo_did demo_nonce demo_sweep sg
        demo_record_def)
qed

lemma demo_record_ok: "record_ok demo_lib demo_record"
  using create_record_Inr(2) [OF demo_record] demo_lib_ok(2) by blast

lemma demo_seed: "load_verified_private_key demo_lib demo_identity (KeychainText demo_seed) = Inr demo_key"
proof -
  have "load_seed (KeychainText demo_seed) = Inr demo_seed"
    by (simp add: load_seed_def demo_seed_def lit_simps strip_def lstrip_def rstrip_def is_space_def)
  moreover have "private_key_from_seed demo_seed = Inr demo_key"
    by (simp add: private_key_from_seed_def match_hex_seed_def demo_seed_def lit_simps demo_key_def replicate_numeral_Cons
        fold_char_def char_class_defs hex_value_def)
  ultimately show ?thesis
    by (simp add: load_verified_private_key_def demo_did demo_identity_def raise_if_def)
qed

text \<open>The same environment, but the process dies right after the signed write left\<close>

definition demo_url :: str where
  "demo_url = (case say_url demo_base demo_room demo_did demo_signature (lit ''7'') (lit ''pong'') of Inr u \<Rightarrow> u | Inl _ \<Rightarrow> [])"

definition demo_crash :: env where
  "demo_crash = demo_env\<lparr>fault := (\<lambda>n. if n = 4 then Kill 1 else Fine)\<rparr>"

lemma demo_ascii: "is_ascii demo_did" "is_ascii demo_signature" "length demo_did = 56" "length demo_signature = 86"
proof -
  have "take 12 demo_did = lit ''did:key:z6Mk''" "list_all (\<lambda>c. c \<in> set BASE58BTC_ALPHABET) (drop 12 demo_did)"
    using demo_did(2) by (auto simp: match_did_def startswith_def eval_nat_numeral)
  moreover have "is_ascii BASE58BTC_ALPHABET" by (simp add: is_ascii_def BASE58BTC_ALPHABET_def lit_simps)
  ultimately have "is_ascii (take 12 demo_did @ drop 12 demo_did)"
    unfolding is_ascii_append by (auto simp: is_ascii_def lit_simps list_all_iff)
  then show "is_ascii demo_did" by simp
  have "match_signature demo_signature" using demo_signed sign_detached_Inr unfolding sign_room_message_Inr by blast
  then show "is_ascii demo_signature" "length demo_signature = 86"
    by (auto simp: match_signature_def is_ascii_def list_all_iff char_class_defs is_b64url_def)
  show "length demo_did = 56" using demo_did(2) by (simp add: match_did_def)
qed

lemma demo_url: "say_url demo_base demo_room demo_did demo_signature (lit ''7'') (lit ''pong'') = Inr demo_url"
  "is_ascii demo_url" "length demo_url \<le> 8000"
proof -
  have "\<exists>url. say_url demo_base demo_room demo_did demo_signature (lit ''7'') (lit ''pong'') = Inr url
      \<and> is_ascii url \<and> length url \<le> 8000"
    by (rule say_url_short)
      (simp_all add: demo_ascii, simp_all add: demo_base_def demo_room_def is_ascii_def lit_simps)
  then show "say_url demo_base demo_room demo_did demo_signature (lit ''7'') (lit ''pong'') = Inr demo_url"
    "is_ascii demo_url" "length demo_url \<le> 8000" by (auto simp: demo_url_def)
qed

definition demo_running :: responder where
  "demo_running = demo_responder\<lparr>r_service := Some \<lparr>svc_issuer = demo_did, svc_key = demo_key, svc_interval = 60\<rparr>\<rparr>"

lemma demo_built:
  assumes "fs w = (\<lambda>p. None)"
  shows "build_responder E demo_lib (demo_args True) demo_identity demo_key demo_room demo_base w = (Inr demo_running, w)"
proof -
  have p: "command_policy_for E demo_lib (demo_args True) demo_did = iret (r_policy demo_responder)"
    by (simp add: command_policy_for_def run_simps demo_args_def validate_did_def demo_did demo_peer demo_responder_def
        check_policy_def raise_if_def)
  have l: "live_artifacts E demo_lib (demo_args True) demo_did w = (Inr (Some ''j'', Some ''a''), w)"
    using assms by (simp add: live_artifacts_def run_simps demo_args_def require_empty_def load_journal_def raise_if_def)
  have s: "receipt_service_for (demo_args True) demo_did demo_key
      = Inr \<lparr>svc_issuer = demo_did, svc_key = demo_key, svc_interval = 60\<rparr>"
    by (simp add: receipt_service_for_def validate_did_def demo_did demo_args_def raise_if_def)
  have i: "id_did demo_identity = demo_did" "ra_timeout (demo_args True) = Fin 20"
    by (simp_all add: demo_identity_def demo_args_def)
  show ?thesis
    unfolding build_responder_def i p
    by (simp add: ibind_def iret_def lift_def l demo_client s demo_running_def demo_responder_def)
      (simp add: demo_args_def)
qed

section \<open>A run that dies after its write left\<close>

lemma demo_running_fields:
  "r_journal demo_running = Some ''j''" "r_room demo_running = demo_room" "r_key demo_running = demo_key"
  "r_did demo_running = demo_did" "r_client demo_running = demo_client" "base_url demo_client = demo_base"
  "r_send demo_running" "r_writer demo_running = Direct" "r_policy demo_running = r_policy demo_responder" "r_state_path demo_running = ''s''"
  by (simp_all add: demo_running_def demo_responder_def demo_client_def)

lemma demo_send_crash:
  assumes "fs w = (\<lambda>p. None)" and "tick w = 2" and "nonces (mem w) = []"
  shows "send_text demo_crash demo_lib demo_running (lit ''pong'') 4 w =
     (Inl Killed, w\<lparr>tick := 5, mem := (mem w)\<lparr>nonces := [(demo_room, 7)]\<rparr>,
        fs := (\<lambda>p. None)(''j'' := Some (fresh_file (record_body demo_record))),
        sent := sent w @ [(SaySigned demo_url, (\<lambda>p. None)(''j'' := Some (fresh_file (record_body demo_record))))]\<rparr>)"
proof -
  have n: "next_nonce demo_room 7 (mem w) = Inr ((mem w)\<lparr>nonces := [(demo_room, 7)]\<rparr>, 7)"
    using assms(3) by (simp add: next_nonce_def get_default_def require_nonnegative_int_def NONCE_LIMIT_def raise_if_def)
  have sg: "match_canonical_signature demo_signature"
    using sign_detached_canonical [OF demo_lib_ok(1,3)] demo_signed unfolding sign_room_message_Inr by blast
  have c: "fault demo_crash = (\<lambda>n. if n = 4 then Kill 1 else Fine)" "clock_ns demo_crash n = 7" for n
    by (simp_all add: demo_crash_def demo_env_def)
  show ?thesis
    using assms(1,2) n
    by (simp add: send_text_def run_simps demo_running_fields c require_empty_def load_journal_def raise_if_def demo_nonce
        demo_signed prepare_delivery_def demo_record prepare_journal_def write_record_def uncertain_def
        write_through_def send_signed_message_def validate_room_def demo_room validate_did_def demo_did validate_nonce_def sg demo_url
        demo_url(3) [THEN leD] encode_utf8_def ascii_no_surrogate utf8_ascii request_json_def exchange_def record_request_def)
qed

definition demo_ping_message :: room_message where
  "demo_ping_message = \<lparr>msg_seq = 4, msg_sender = demo_peer, msg_text = lit ''/ping'', msg_nonce = Some (lit ''8'')\<rparr>"

definition demo_room_snapshot :: room_snapshot where
  "demo_room_snapshot = \<lparr>snap_room = demo_room, first_seq = 4, last_seq = 4, messages = [demo_ping_message], generation = 0\<rparr>"

lemma demo_parsed: "parse_snapshot (dict_of_pairs (demo_snapshot [demo_ping] 4)) demo_room = Inr demo_room_snapshot"
  by (simp add: parse_snapshot_def demo_snapshot_def dget_def int_at_least_def parse_first_seq_def dget_default_def
      demo_ping_def demo_message_def parse_message_def parse_nonce_def validate_nonce_value_def validate_nonce_def
      match_nonce_def lit_simps char_class_defs except_raise_def dict_of_pairs_def raise_if_def demo_room_snapshot_def
      demo_ping_message_def)

lemma demo_payload: "payload_of_response (Payload 200 (Doc (JObj (demo_snapshot [demo_ping] 4)))) = Inr (dict_of_pairs (demo_snapshot [demo_ping] 4))"
  by (simp add: payload_of_response_def MAX_RESPONSE_BYTES_def raise_if_def parse_bytes_def demo_snapshot_def demo_ping_def
      demo_message_def dict_of_pairs_def lit_simps)

lemma demo_read:
  assumes "fault E (tick w) = Fine" and "wire E = demo_wire"
  shows "read_room E demo_lib demo_client demo_room 0 (Fin 0) 50 1 w = (Inr demo_room_snapshot,
     w\<lparr>tick := Suc (Suc (tick w)), sent := sent w @ [(ReadRoom (read_url demo_lib demo_base demo_room 0 (Fin 0) 50 1), fs w)]\<rparr>)"
  using assms
  by (simp add: read_room_def run_simps validate_room_def demo_room bounded_float_def raise_if_def demo_client_def
      request_json_def exchange_def record_request_def demo_payload demo_parsed)

lemma demo_decides:
  "decide E demo_lib (r_policy demo_responder) demo_ping_message w
    = (Inr \<lparr>action = ''reply'', reason = ''allowed_command'', reply = Some (lit ''pong''), target = None\<rparr>, w)"
  by (simp add: decide_def authorize_sender_def demo_responder_def demo_peer is_signed_def validate_did_def policy_grant_def
      decide_authorized_command_def command_name_def reply_for_def REPLIES_def parse_command_def run_simps
      demo_ping_message_def)

lemma demo_crash_run:
  "says (snd (run_with_identity demo_crash demo_lib (demo_args True) demo_identity demo_key 3 2 demo_world))
    = [(SaySigned demo_url, (\<lambda>p. None)(''j'' := Some (fresh_file (record_body demo_record))))]"
proof -
  let ?w = "demo_world\<lparr>tick := 2, mem := empty_state\<lparr>generations := [(demo_room, 0)]\<rparr>,
     sent := [(ReadRoom (read_url demo_lib demo_base demo_room 0 (Fin 0) 50 1), \<lambda>p. None)]\<rparr>"
  have w: "fs ?w = (\<lambda>p. None)" "tick ?w = 2" "nonces (mem ?w) = []" by (simp_all add: demo_world_def empty_state_def)
  have c: "fault demo_crash 0 = Fine" "wire demo_crash = demo_wire" by (simp_all add: demo_crash_def demo_env_def)
  have a: "ra_once (demo_args True)" "ra_limit (demo_args True) = 50" "ra_start_at (demo_args True) = ''zero''"
    "ra_config_path (demo_args True) = ''c''" "ra_state_path (demo_args True) = ''s''"
    "resolve_runtime_target (demo_args True) None = Inr (demo_room, demo_base)"
    by (simp_all add: demo_args_def resolve_runtime_target_def validate_room_def demo_room str_or_def)
      (simp_all add: demo_room_def demo_base_def)
  have m: "msg_seq demo_ping_message = 4" "snap_room demo_room_snapshot = demo_room" "generation demo_room_snapshot = 0"
    "messages demo_room_snapshot = [demo_ping_message]" "last_seq demo_room_snapshot = 4"
    by (simp_all add: demo_ping_message_def demo_room_snapshot_def)
  have e: "event_for_message demo_crash demo_lib demo_running demo_ping_message ?w
      = (Inl Killed, snd (send_text demo_crash demo_lib demo_running (lit ''pong'') 4 ?w))"
    using demo_send_crash [OF w]
    by (simp add: event_for_message_def run_simps demo_running_fields demo_decides base_event_def reply_event_def m)
  have k: "serve demo_crash demo_lib (demo_args True) demo_running 3 2 demo_world
      = (Inl Killed, snd (send_text demo_crash demo_lib demo_running (lit ''pong'') 4 ?w))"
    using e [unfolded demo_world_def] c a
    by (simp add: serve_def initialize_cursor_def run_simps eval_nat_numeral poll_round_def demo_running_fields demo_read
        demo_world_def m process_snapshot_def observe_generation_def
        cursor_for_def generation_for_def empty_state_def get_default_def raise_if_def require_nonnegative_int_def)
  show ?thesis
    using k demo_send_crash [OF w] a
    by (simp add: run_with_identity_def run_simps load_active_config_def load_mem_def load_state_def demo_world_def
        empty_state_def demo_built says_def)
qed

lemma demo_crash_history:
  "replies demo_lib ''j'' (execute demo_lib (RunCommand demo_crash (demo_args True) demo_identity demo_key 3 2) demo_world)
    = [(4, SaySigned demo_url)]"
proof -
  have r: "restart demo_world = demo_world" by (simp add: restart_def demo_world_def)
  show ?thesis
    using decode_written_record [OF demo_record_ok]
    by (simp add: replies_def r demo_crash_run in_flight_def) (simp add: demo_record_def)
qed

text \<open>The write of \<open>demo_env\<close>, as posted\<close>

definition demo_posted :: room_message where
  "demo_posted = \<lparr>msg_seq = 5, msg_sender = demo_did, msg_text = lit ''pong'', msg_nonce = Some (lit ''7'')\<rparr>"

lemma demo_posts: "posts demo_env url demo_room demo_posted"
proof -
  let ?p = "demo_snapshot [demo_ping, demo_message 5 demo_did (lit ''pong'') (lit ''7'')] 5
      @ [(lit ''posted'', demo_message 5 demo_did (lit ''pong'') (lit ''7''))]"
  let ?s = "\<lparr>snap_room = demo_room, first_seq = 4, last_seq = 5, messages = [demo_ping_message, demo_posted], generation = 0\<rparr>"
  have p: "payload_of_response (wire demo_env t (SaySigned url)) = Inr ?p" for t
    by (simp add: payload_of_response_def demo_env_def MAX_RESPONSE_BYTES_def raise_if_def parse_bytes_def demo_snapshot_def
        demo_ping_def demo_message_def dict_of_pairs_def lit_simps)
  moreover have "parse_snapshot ?p demo_room = Inr ?s" "parse_message (dget ?p ''posted'') = Inr demo_posted"
    by (simp_all add: parse_snapshot_def demo_snapshot_def dget_def int_at_least_def parse_first_seq_def dget_default_def
      demo_ping_def demo_message_def parse_message_def parse_nonce_def validate_nonce_value_def validate_nonce_def
      match_nonce_def lit_simps char_class_defs except_raise_def raise_if_def demo_posted_def demo_ping_message_def)
  ultimately show ?thesis unfolding posts_def by (auto simp: demo_posted_def)
qed

lemma demo_calm: "calm demo_env"
  by (simp add: calm_def demo_env_def)

end
