(* ===== verification/Guarantees.thy ===== *)
theory Guarantees
  imports Demo
begin

text \<open>
  What each component promises on its own: the policy and its file, the limiter, the state file,
  the journal, the audit log, the protocol client, receipts and the configuration. The promises
  that hold across components and over whole runs are in the root theory.
\<close>

section \<open>Who is answered\<close>

text \<open>C4. A message is answered only if it is signed, not the agent's own, is exactly one of the fixed
  commands or names a valid pull request, and its sender is allowed it: by the configured list, or by
  an enabled grant of the capability file as it is at this moment, with the command and, for a pull
  request, its repository in it.\<close>

theorem only_granted_commands_are_answered:
  assumes "decide E L p m w = (Inr d, w')" and "action d \<noteq> ''ignore''"
  shows "msg_sender m \<noteq> own_did p \<and> is_signed m \<and>
    (\<exists>repo. command_of L (msg_text m) d repo \<and>
       granted E p w (msg_sender m) (if action d = ''reply'' then msg_text m else lit ''/pr'') repo)"
  by (rule decide_Inr [OF assms])

theorem only_granted_commands_are_answered_witness:
  "\<exists>d w'. decide demo_env demo_lib (r_policy demo_responder)
      \<lparr>msg_seq = 4, msg_sender = demo_peer, msg_text = lit ''/ping'', msg_nonce = Some (lit ''8'')\<rparr> demo_world = (Inr d, w')
    \<and> action d = ''reply'' \<and> demo_peer \<noteq> own_did (r_policy demo_responder)"
proof -
  let ?m = "\<lparr>msg_seq = 4, msg_sender = demo_peer, msg_text = lit ''/ping'', msg_nonce = Some (lit ''8'')\<rparr>"
  obtain d where d: "decide demo_env demo_lib (r_policy demo_responder) ?m demo_world = (Inr d, demo_world)" "action d = ''reply''"
    by (simp add: decide_def authorize_sender_def demo_responder_def demo_peer is_signed_def validate_did_def policy_grant_def
        decide_authorized_command_def command_name_def reply_for_def REPLIES_def parse_command_def run_simps)
  from only_granted_commands_are_answered [OF d(1)] d show ?thesis by auto
qed

text \<open>What a loaded capability file guarantees: it was a regular file of the user, closed to others and
  of bounded size, its JSON had no repeated key, and every grant in it is within the documented bounds.\<close>

lemma decode_policy_Inr: "decode_policy d = Inr v \<longleftrightarrow> (\<exists>u. d = Doc u \<and> \<not> has_duplicate_key u \<and> v = u)"
  by (auto simp: decode_policy_def parse_bytes_def loads_strict_def split: doc.splits if_splits)

lemma loaded_policy_is_checked:
  assumes "load_policy E path w = (Inr pol, w')"
  shows "(\<exists>f v. fs w path = Some f \<and> regular f \<and> owned f \<and> \<not> group_or_other f \<and> body_size (contents f) \<le> 64 * 1024
      \<and> body_doc (contents f) = Doc v \<and> \<not> has_duplicate_key v \<and> parse_policy v = Inr pol)
    \<and> length pol \<le> 128 \<and> list_all (\<lambda>(did, g). match_did did \<and> grant_ok g) pol \<and> fs w' = fs w"
proof -
  have "\<exists>f v. fs w path = Some f \<and> regular f \<and> owned f \<and> \<not> group_or_other f \<and> body_size (contents f) \<le> MAX_POLICY_BYTES
      \<and> body_doc (contents f) = Doc v \<and> \<not> has_duplicate_key v \<and> parse_policy v = Inr pol \<and> fs w' = fs w"
    using assms
    by (auto simp: load_policy_def run_simps raise_if_def decode_policy_Inr not_less
        split: prod.splits sum.splits io_fault.splits option.splits if_splits)
  then show ?thesis using parse_policy_ok by (fastforce simp: MAX_POLICY_BYTES_def MAX_PRINCIPALS_def)
qed

text \<open>A repository is in a scope of the policy exactly when owner and name are the scope's, up to
  case, the name being \<open>*\<close> in a scope for a whole owner: no owner or name that merely starts alike.\<close>

lemma scope_is_exact:
  assumes "match_owner own" and "match_repository repo" and "match_owner own'" and "rest = lit ''*'' \<or> match_repository rest"
  shows "scope_matches (casefold (own @ [47] @ repo)) (casefold (own' @ [47] @ rest)) \<longleftrightarrow>
    casefold own = casefold own' \<and> (rest = lit ''*'' \<or> casefold repo = casefold rest)"
  by (rule scope_matches_name [OF assms(1,3,2,4)])

section \<open>How often\<close>

text \<open>C20. Over any sequence of requests of any senders, no window of an hour holds more admitted requests
  of a sender than its quota, as long as the clock does not go back.\<close>

theorem rate_is_bounded_in_every_window:
  assumes "limiter_run quota rs empty_state = Inr admitted"
    and "list_all (\<lambda>(did, now). match_did did \<and> 0 \<le> now) rs" and "sorted (map snd rs)"
  shows "length (filter (\<lambda>x. t - 3600 < x \<and> x \<le> t) (times_of did admitted)) \<le> nat (quota did)"
proof -
  have "in_window t ([] @ times_of did admitted) \<le> nat (quota did)"
    by (rule limiter_run_bound [OF assms(1) _ assms(2,3)])
      (simp_all add: state_ok_def empty_state_def int_dict_ok_def remembers_def history_def in_window_def get_default_def)
  then show ?thesis by (simp add: in_window_def WINDOW_SECONDS_def)
qed

theorem rate_is_bounded_in_every_window_witness:
  "limiter_run (\<lambda>_. 1) [(demo_did, 10), (demo_did, 20), (demo_did, 4000)] empty_state = Inr [(demo_did, 10), (demo_did, 4000)]
   \<and> length (filter (\<lambda>x. 20 - 3600 < x \<and> x \<le> 20) (times_of demo_did [(demo_did, 10), (demo_did, 4000)])) \<le> nat 1"
proof -
  have r: "limiter_run (\<lambda>_. 1) [(demo_did, 10), (demo_did, 20), (demo_did, 4000)] empty_state = Inr [(demo_did, 10), (demo_did, 4000)]"
    by (simp add: capability_request_count_def reserve_capability_request_def prune_capability_requests_def
        validate_did_def demo_did empty_state_def history_def get_default_def effective_now_def WINDOW_SECONDS_def
        require_nonnegative_int_def require_positive_int_def raise_if_def)
  from rate_is_bounded_in_every_window [OF this, of 20 demo_did] r show ?thesis by (simp add: demo_did)
qed

text \<open>C25. A call of the limiter is one step of \<open>limiter_run\<close> at the time its clock read, and what it
  admits is in the state file before it answers.\<close>

theorem limiter_call_is_a_step:
  assumes "limiter_allow E path True did quota w = (Inr admitted, w')"
  shows "\<exists>now. clock_seconds (clock_s E (tick w)) = Inr now \<and>
    limiter_run (\<lambda>_. quota) ((did, now) # rs) (mem w) =
      (if admitted then bind (limiter_run (\<lambda>_. quota) rs (mem w')) (\<lambda>later. ret ((did, now) # later))
       else limiter_run (\<lambda>_. quota) rs (mem w')) \<and>
    (if admitted then fs w' path = Some (fresh_file (state_body (mem w'))) else fs w' = fs w)"
proof -
  let ?w = "w\<lparr>tick := Suc (tick w)\<rparr>"
  have saved: "fs w' path = Some (fresh_file (state_body s')) \<and> mem w' = s'"
    if "save_mem E path (?w\<lparr>mem := s'\<rparr>) = (Inr (), w')" for s'
  proof -
    have "wp (save_mem E path) (\<lambda>_ w'. fs w' path = Some (fresh_file (state_body s')) \<and> mem w' = s') (\<lambda>_ _. True) (?w\<lparr>mem := s'\<rparr>)"
      by (rule save_mem_wp) (auto simp: agrees_but_def)
    from wp_Inr [OF this that] show ?thesis .
  qed
  from assms show ?thesis
    by (auto simp: limiter_allow_def run_simps map_sum_eq_Inr validate_did_def except_raise_def saved
        split: sum.splits prod.splits if_splits dest!: saved)
qed

theorem limiter_call_is_a_step_witness:
  "\<exists>w'. limiter_allow demo_env ''s'' True demo_did 3 demo_world = (Inr True, w')
    \<and> fs w' ''s'' = Some (fresh_file (state_body (mem w')))"
proof -
  obtain w' where "limiter_allow demo_env ''s'' True demo_did 3 demo_world = (Inr True, w')"
    by (simp add: limiter_allow_def run_simps demo_env_def demo_world_def except_raise_def validate_did_def demo_did
        MAX_REQUESTS_PER_HOUR_def clock_seconds_def capability_request_count_def empty_state_def history_def get_default_def
        require_nonnegative_int_def require_positive_int_def WINDOW_SECONDS_def raise_if_def
        reserve_capability_request_def prune_capability_requests_def Let_def save_mem_def save_state_def)
  from limiter_call_is_a_step [OF this] this show ?thesis by auto
qed

section \<open>State that survives\<close>

text \<open>C33. Saving the state is atomic: after a failure or a death at any point the file holds what it held
  or the whole new state, which reads back with every cursor, nonce, generation and request history;
  no other file changes.\<close>

theorem save_state_is_atomic:
  assumes "state_loadable s"
  shows "let w' = snd (save_state E path s w) in
    (\<forall>q. q \<noteq> path \<longrightarrow> fs w' q = fs w q) \<and>
    (fs w' path = fs w path \<or>
     (\<exists>f s'. fs w' path = Some f \<and> state_in_file f = Inr s'
        \<and> cursor_for s' room = cursor_for s room \<and> generation_for s' room = generation_for s room
        \<and> get_default (nonces s') room d = get_default (nonces s) room d \<and> history s' did = history s did))"
proof -
  have ok: "state_ok s" using assms by (simp add: state_loadable_def)
  have "wp (save_state E path s) (\<lambda>_ w'. agrees_but path w w' \<and> fs w' path \<in> {fs w path, Some (fresh_file (state_body s))})
      (\<lambda>_ w'. agrees_but path w w' \<and> fs w' path \<in> {fs w path, Some (fresh_file (state_body s))}) w"
    by (rule wp_mono [OF state_saved.op_wp]) auto
  then show ?thesis
    unfolding wp_always Let_def
    using state_in_saved_file [OF assms] sort_state_lookups [OF ok, of room] sort_state_lookups(4) [OF ok]
    by (auto simp: agrees_but_def)
qed

theorem save_state_is_atomic_witness:
  "let w' = snd (save_state demo_env ''s'' empty_state demo_world) in
    fs w' ''s'' = fs demo_world ''s'' \<or> (\<exists>f s'. fs w' ''s'' = Some f \<and> state_in_file f = Inr s')"
proof -
  have "state_loadable empty_state"
    by (simp add: state_loadable_def state_ok_def empty_state_def int_dict_ok_def)
  from save_state_is_atomic [OF this, of demo_env "''s''" demo_world] show ?thesis unfolding Let_def by blast
qed

text \<open>C34. Whatever parses as a state file is within every bound of the state, so what the program goes on
  with after a restart is as good as what it had.\<close>

theorem loaded_state_is_well_formed:
  assumes "load_state E path w = (Inr s, w')"
  shows "state_loadable s"
proof -
  have "wp (load_state E path) (\<lambda>s _. state_loadable s) (\<lambda>_ _. True) w"
    by (rule load_state_wp) (auto intro: disk_state_loadable)
  from wp_Inr [OF this assms] show ?thesis .
qed

lemma demo_stored: "load_state demo_env ''s'' (demo_world\<lparr>fs := (\<lambda>p. None)(''s'' := Some (fresh_file (Text 90 (Doc (JObj
     [(lit ''schema'', JStr (lit STATE_SCHEMA)), (lit ''cursors'', JObj [(demo_room, JInt 4), (demo_room, JInt 6)]),
      (lit ''nonces'', JObj [])])))))\<rparr>)
   = (Inr (empty_state\<lparr>cursors := [(demo_room, 6)]\<rparr>),
      demo_world\<lparr>tick := 1, fs := (\<lambda>p. None)(''s'' := Some (fresh_file (Text 90 (Doc (JObj
     [(lit ''schema'', JStr (lit STATE_SCHEMA)), (lit ''cursors'', JObj [(demo_room, JInt 4), (demo_room, JInt 6)]),
      (lit ''nonces'', JObj [])])))))\<rparr>)"
  by (simp add: load_state_def run_simps demo_env_def demo_world_def fresh_file_def parse_text_def dict_of_pairs_def
      state_of_json_def dget_def dget_default_def nonnegative_int_map_def nonnegative_int_of_def demo_room_def
      empty_state_def capability_request_map_def raise_if_def)

theorem loaded_state_is_well_formed_witness: "state_loadable (empty_state\<lparr>cursors := [(demo_room, 6)]\<rparr>)"
  by (rule loaded_state_is_well_formed [OF demo_stored])

text \<open>Nonces never repeat: whatever the clock reads, even going back, the nonces issued for a room
  strictly increase, stay above every nonce remembered for it, and stay below the protocol's limit.\<close>

lemma nonces_strictly_increase:
  assumes "issue_nonces room clock s = Inr (s', ns)"
  shows "sorted_wrt (<) ns
    \<and> list_all (\<lambda>n. get_default (nonces s) room 0 < n \<and> n \<le> NONCE_LIMIT \<and> n \<le> get_default (nonces s') room 0) ns"
  using assms
proof (induction clock arbitrary: s ns)
  case (Cons c cs)
  from Cons.prems obtain s1 n ms where n: "next_nonce room c s = Inr (s1, n)"
    and ms: "issue_nonces room cs s1 = Inr (s', ms)" "ns = n # ms" by (auto simp: res_simps)
  have k: "get_default (nonces s) room 0 < n" "n \<le> NONCE_LIMIT" "get_default (nonces s1) room 0 = n"
    using n by (auto simp: next_nonce_Inr get_default_def update_conv')
  have "get_default (nonces s1) room 0 \<le> get_default (nonces s') room 0"
    using ms(1) by (rule issue_nonces_keep)
  with Cons.IH [OF ms(1)] k show ?case by (auto simp: ms(2) list_all_iff)
qed simp

section \<open>Evidence of what was done\<close>

text \<open>C9. Appending to a verified audit log leaves the log as it was, or one verified record longer with
  the returned head, or, when the write was cut short, a log every later verification refuses: no
  failure or death leaves a damaged log that passes.\<close>

theorem audit_append_is_whole_or_refused:
  assumes "ed25519_ok L" and "length key = 32" and "did_from_private_key L key = Inr did"
    and "fs w path = Some f" and "verify_body L (contents f) = Inr s"
    and "append_audit E L path did key t e w = (res, w')"
  shows "\<exists>g. fs w' path = Some g \<and>
    (contents g = contents f
     \<or> verify_body L (contents g) = Inl (AuditError ''audit log ends with a partial JSONL record'')
     \<or> (\<exists>h. verify_body L (contents g) = Inr \<lparr>entries = Suc (entries s), issuer = Some did, head_sha256 = h\<rparr>)) \<and>
    (case res of Inl _ \<Rightarrow> True
     | Inr h \<Rightarrow> verify_body L (contents g) = Inr \<lparr>entries = Suc (entries s), issuer = Some did, head_sha256 = h\<rparr>)"
proof -
  let ?whole = "\<lambda>b h. verify_body L b = Inr \<lparr>entries = Suc (entries s), issuer = Some did, head_sha256 = h\<rparr>"
  let ?good = "\<lambda>w'. \<exists>g. fs w' path = Some g \<and> (contents g = contents f
     \<or> verify_body L (contents g) = Inl (AuditError ''audit log ends with a partial JSONL record'') \<or> (\<exists>h. ?whole (contents g) h))"
  have line: "wp (append_line E path f k (Doc (sort_keys wr)))
      (\<lambda>_ w'. \<exists>g. fs w' path = Some g \<and> ?whole (contents g) (entry_hash L wr)) (\<lambda>_. ?good) w1"
    if "audit_wrapper L (contents f) did key t e = Inr wr" "0 < k" "k < MAX_AUDIT_LINE_BYTES" for k wr w1
  proof -
    have full: "?whole (appended (contents f) k (Doc (sort_keys wr)) (Suc k)) (entry_hash L wr)"
      using verify_body_appended [OF assms(1-3) that(1) assms(5) that(2)] that(3) by simp
    have more: "appended (contents f) k d j = appended (contents f) k d (Suc k)" if "k < j" for d j
      using that by (auto simp: appended_def split: prod.split)
    have part: "?good (w2\<lparr>fs := (fs w2)(path := Some (f\<lparr>contents := appended (contents f) k (Doc (sort_keys wr)) j\<rparr>))\<rparr>)"
      for j and w2 :: world
    proof (cases "j = 0")
      case False
      then show ?thesis
        using verify_body_partial [of j k] more [of j] full that(2) by (cases "j \<le> k") auto
    qed (simp add: appended_def split: prod.split)
    show ?thesis
      unfolding append_line_def using full part by (auto simp: wp_simps Let_def split: io_fault.split)
  qed
  have size: "0 < length (canonical_json fr v)" if "audit_wrapper L (contents f) did key t e = Inr v" for fr v
    using that dumps_obj_ends by (force simp: audit_wrapper_def canonical_json_def Let_def res_simps)
  have "wp (append_audit E L path did key t e)
      (\<lambda>h w'. \<exists>g. fs w' path = Some g \<and> ?whole (contents g) h) (\<lambda>_. ?good) w"
    unfolding append_audit_def open_log_def
    using assms(3,4) size
    by (auto simp: wp_simps Let_def raise_if_def split: io_fault.split sum.split intro!: wp_mono [OF line])
  then show ?thesis using assms(6) by (cases res) (auto dest: wp_Inl wp_Inr)
qed

theorem audit_append_is_whole_or_refused_witness:
  "\<exists>res w' g. append_audit demo_env demo_lib ''a'' demo_did demo_key (clock_utc demo_env 0)
      \<lparr>ae_input_sequence = 4, ae_sender_fingerprint = None, ae_sender_authenticated = False, ae_decision = ''ignore'',
        ae_reason = ''unsigned_message'', ae_outcome = ''ignore'', ae_receipt_sha256 = None, ae_response_sequence = None\<rparr>
      (demo_world\<lparr>fs := (\<lambda>p. None)(''a'' := Some (fresh_file (Lines 0 [] True)))\<rparr>) = (res, w') \<and> fs w' ''a'' = Some g"
proof -
  let ?f = "fresh_file (Lines 0 [] True)" and ?s = "\<lparr>entries = 0, issuer = None, head_sha256 = GENESIS_HASH\<rparr>"
  let ?w = "demo_world\<lparr>fs := (\<lambda>p. None)(''a'' := Some ?f)\<rparr>"
  have f: "fs ?w ''a'' = Some ?f" "verify_body demo_lib (contents ?f) = Inr ?s"
    by (simp_all add: fresh_file_def verify_body_def)
  let ?a = "append_audit demo_env demo_lib ''a'' demo_did demo_key (clock_utc demo_env 0)
      \<lparr>ae_input_sequence = 4, ae_sender_fingerprint = None, ae_sender_authenticated = False, ae_decision = ''ignore'',
        ae_reason = ''unsigned_message'', ae_outcome = ''ignore'', ae_receipt_sha256 = None, ae_response_sequence = None\<rparr> ?w"
  obtain res w' where a: "?a = (res, w')" by (rule prod.exhaust)
  from audit_append_is_whole_or_refused [OF demo_lib_ok(1,3) demo_did(1) f a] a show ?thesis by blast
qed

text \<open>C40. A delivery record read back from the journal is the record that was written, and one that is
  read at all is well formed: pending without a reply, or acknowledged with a later reply.\<close>

theorem journal_roundtrip:
  "decode_journal L (fresh_file (record_body r)) = Inr r \<longleftrightarrow> record_ok L r"
  using decode_written_record record_of_payload_ok by (auto simp: decode_journal_def res_simps)

text \<open>Acknowledging is idempotent and final: a second acknowledgement with the same reply changes
  nothing, one with another reply is refused, and the envelope stays what it was.\<close>

lemma acknowledgement_is_final:
  assumes "acknowledge_record i r = Inr r'"
  shows "(acknowledge_record j r' = Inr r'' \<longleftrightarrow> j = i \<and> r'' = r') \<and> dr_reply_sequence r' = Some i
    \<and> r'\<lparr>dr_status := dr_status r, dr_reply_sequence := dr_reply_sequence r\<rparr> = r"
  using assms unfolding acknowledge_record_Inr by (auto split: if_splits)

lemma demo_acknowledged: "acknowledge_record 5 demo_record
    = Inr (demo_record\<lparr>dr_status := lit ''acknowledged'', dr_reply_sequence := Some 5\<rparr>)"
  unfolding acknowledge_record_Inr by (simp add: demo_record_def)

section \<open>What the peer says\<close>

text \<open>A room snapshot that is accepted is for the room asked for, its records are strictly ordered and
  inside the advertised range, and every nonce in it is one the protocol allows.\<close>

lemma accepted_snapshot_is_ordered:
  assumes "read_room E L c room since wait limit n w = (Inr snap, w')"
  shows "snap_room snap = room \<and> sorted_wrt (<) (map msg_seq (messages snap))
    \<and> list_all (\<lambda>m. 0 < msg_seq m \<and> first_seq snap \<le> msg_seq m \<and> msg_seq m \<le> last_seq snap
        \<and> (case msg_nonce m of None \<Rightarrow> True | Some nonce \<Rightarrow> match_nonce nonce)) (messages snap)
    \<and> 0 \<le> generation snap \<and> fs w' = fs w"
proof -
  have "snapshot_ok room snap" by (rule wp_Inr [OF read_room_ok assms])
  moreover have "fs w' = fs w" using quiet.growsD [OF quiet_read_room, of E L c room since wait limit n w] assms by simp
  ultimately show ?thesis by (auto simp: snapshot_ok_def message_ok_def list_all_iff)
qed

text \<open>C37. A write that is acknowledged was one request with the envelope's own URL, within the length
  limit, and the record the peer posted is the envelope: same sender, same text, same nonce.\<close>

theorem acknowledged_write_is_the_envelope:
  assumes "send_signed_message E c room did sig nonce content w = (Inr m, w')"
  shows "msg_sender m = did \<and> msg_text m = content \<and> msg_nonce m = Some nonce \<and> fs w' = fs w
    \<and> (\<exists>url. say_url (base_url c) room did sig nonce content = Inr url \<and> length (utf8 url) \<le> 8000
         \<and> says w' = says w @ [(SaySigned url, fs w)])"
proof -
  have "wp (send_signed_message E c room did sig nonce content)
     (\<lambda>m w'. posted_matches did nonce content m \<and> (\<exists>url. say_url (base_url c) room did sig nonce content = Inr url
        \<and> length (utf8 url) \<le> 8000 \<and> sent_one (SaySigned url) w w')) (\<lambda>_ _. True) w"
    by (rule send_wp) auto
  from wp_Inr [OF this assms] show ?thesis
    by (auto simp: posted_matches_def says_sent_one sent_one_def)
qed

lemma demo_sent: "send_signed_message demo_env demo_client demo_room demo_did demo_signature (lit ''7'') (lit ''pong'') demo_world
   = (Inr demo_posted, demo_world\<lparr>tick := Suc (Suc (tick demo_world)), sent := sent demo_world @ [(SaySigned demo_url, fs demo_world)]\<rparr>)"
proof (rule send_delivers [OF demo_calm demo_room demo_did(2) demo_nonce(2)])
  show "match_canonical_signature demo_signature"
    using sign_detached_canonical [OF demo_lib_ok(1,3)] demo_signed unfolding sign_room_message_Inr by blast
qed (simp_all add: demo_running_fields demo_url demo_posts posted_matches_def, simp_all add: demo_posted_def)

theorem acknowledged_write_is_the_envelope_witness:
  "msg_sender demo_posted = demo_did \<and> msg_text demo_posted = lit ''pong''"
  using acknowledged_write_is_the_envelope [OF demo_sent] by blast

section \<open>Configuration and waiting\<close>

text \<open>A configuration that passes the checks is read back from its file as it was written, and
  whatever is read from a configuration file passes them.\<close>

lemma configuration_roundtrip:
  "decode_config L (fresh_file (config_body c)) = Inr c \<longleftrightarrow> config_ok L c"
  using config_file_roundtrip [of L c] validate_config_ok
  by (auto simp: decode_config_def config_of_json_def res_simps)

text \<open>Waiting for a retry never ends early and ends as soon as the clock allows: with readings for
  \<open>k\<close> checks it returns exactly when one of them has reached the deadline, and nothing is sent meanwhile.\<close>

lemma waiting_ends_at_the_deadline:
  "(fst (sleep_until E k deadline w) = Inr () \<longleftrightarrow> (\<exists>j < k. deadline \<le> clock_mono E (tick w + j)))
   \<and> fs (snd (sleep_until E k deadline w)) = fs w \<and> sent (snd (sleep_until E k deadline w)) = sent w"
proof (induction k arbitrary: w)
  case (Suc k)
  have e: "(\<exists>j < Suc k. P (tick w + j)) \<longleftrightarrow> P (tick w) \<or> (\<exists>j < k. P (Suc (tick w) + j))" for P
    by (auto simp: less_Suc_eq_0_disj)
  show ?case
    using Suc.IH [of "w\<lparr>tick := Suc (tick w)\<rparr>"] unfolding e [of "\<lambda>n. deadline \<le> clock_mono E n"]
    by (auto simp: run_simps not_less)
qed (simp add: run_simps)

text \<open>The pause after a failed read is at least half a second, at least what the peer asked for, and
  without such a request it doubles from one second up to thirty.\<close>

lemma retry_pause_bounds:
  "1 / 2 \<le> retry_delay retry b \<and> (case retry of Some t \<Rightarrow> retry_delay retry b = max t (1 / 2) | None \<Rightarrow> retry_delay retry b = max b (1 / 2))
    \<and> (next_backoff ^^ n) 1 = min (2 ^ n) 30"
proof -
  have "(next_backoff ^^ n) 1 = min (2 ^ n) 30"
    by (induction n) (auto simp: next_backoff_def min_def)
  then show ?thesis by (auto simp: retry_delay_def split: option.split)
qed

end
