(* ===== verification/Receipt_Guarantees.thy ===== *)
theory Receipt_Guarantees
  imports Demo
begin

text \<open>
  What a contribution receipt says and what its service does: the verdict on the continuous
  integration, the receipt that is signed, sent and verified, the pull request it names, and the
  pause between two attempts. The demonstration input is a merged pull request with one passed
  check.
\<close>

section \<open>Demonstration input\<close>

definition demo_ref :: pr_ref where
  "demo_ref = \<lparr>ref_owner = lit ''o'', ref_repository = lit ''r'', ref_number = 1\<rparr>"

definition demo_sha :: str where "demo_sha = replicate 40 97"

definition demo_time :: str where "demo_time = lit ''2026-05-04T03:02:01Z''"

definition demo_pull :: pairs where
  "demo_pull = [(lit ''number'', JInt 1), (lit ''html_url'', JStr (ref_url demo_ref)),
     (lit ''user'', JObj [(lit ''login'', JStr (lit ''u''))]), (lit ''state'', JStr (lit ''open'')),
     (lit ''merged'', JBool False), (lit ''draft'', JBool False), (lit ''merge_commit_sha'', JNull),
     (lit ''updated_at'', JStr demo_time), (lit ''head'', JObj [(lit ''sha'', JStr demo_sha)]),
     (lit ''base'', JObj [(lit ''sha'', JStr demo_sha),
        (lit ''repo'', JObj [(lit ''private'', JBool False), (lit ''full_name'', JStr (full_name demo_ref))])])]"

definition demo_run :: "string \<Rightarrow> json" where
  "demo_run conclusion = JObj [(lit ''head_sha'', JStr demo_sha), (lit ''status'', JStr (lit ''completed'')),
     (lit ''conclusion'', JStr (lit conclusion))]"

definition demo_checks :: pairs where
  "demo_checks = [(lit ''total_count'', JInt 1), (lit ''check_runs'', JArr [demo_run ''success''])]"

definition demo_statuses :: pairs where
  "demo_statuses = [(lit ''sha'', JStr demo_sha), (lit ''state'', JStr (lit ''success'')), (lit ''total_count'', JInt 1),
     (lit ''statuses'', JArr [JNull])]"

definition demo_github :: env where
  "demo_github = demo_env\<lparr>github := (\<lambda>n q. GitHubReply 200 NoHeader False 900 (Doc (JObj
     (if n = 2 then demo_pull else if n = 4 then demo_checks else demo_statuses))))\<rparr>"

section \<open>The verdict\<close>

definition run_passed :: "str \<Rightarrow> json \<Rightarrow> bool" where
  "run_passed sha raw \<longleftrightarrow> (\<exists>run c. raw = JObj run \<and> dget run ''head_sha'' = JStr sha
     \<and> dget run ''status'' = JStr (lit ''completed'') \<and> dget run ''conclusion'' = JStr (lit c)
     \<and> c \<in> {''neutral'', ''skipped'', ''success''})"

lemma classify_passed: "classify_run sha raw = Inr RunPassed \<Longrightarrow> run_passed sha raw"
  by (auto simp: classify_run_def res_simps in_str_set_eq_Inr CHECK_NON_FAILURES_def run_passed_def split: if_splits)

text \<open>C22. The verdict \<open>success\<close> is only given when nothing is missing and nothing failed: every check run and
  every status there is was seen, there is at least one, every run is of the pull request's head commit
  and completed without failure, and the combined status is \<open>success\<close>.\<close>

theorem success_is_earned:
  assumes "parse_checks p sha = Inr c" and "parse_statuses q sha = Inr s" and "ci_state c s = lit ''success''"
  shows "(\<exists>runs. dget p ''check_runs'' = JArr runs \<and> dget p ''total_count'' = JInt (int (length runs)) \<and> list_all (run_passed sha) runs)
    \<and> (\<exists>statuses. dget q ''statuses'' = JArr statuses \<and> dget q ''total_count'' = JInt (int (length statuses))
         \<and> dget q ''sha'' = JStr sha \<and> dget q ''state'' = JStr (lit ''success''))
    \<and> 0 < ck_total c + st_total s"
proof -
  note v = ci_state_cases(4,5) [of c s] assms(3)
  obtain runs kinds where r: "dget p ''check_runs'' = JArr runs" "dget p ''total_count'' = JInt (ck_total c)"
    "list_all2 (\<lambda>x k. classify_run sha x = Inr k) runs kinds" "ck_complete c = (int (length runs) = ck_total c)"
    "ck_failure c = (RunFailed \<in> set kinds)" "ck_pending c = (RunPending \<in> set kinds)"
    using assms(1) by (auto simp: parse_checks_def res_simps map_res_eq_Inr)
  have "k = RunPassed" if "k \<in> set kinds" for k
    using v r(5,6) that by (cases k) auto
  then have "list_all (run_passed sha) runs"
    using r(3) classify_passed by (fastforce simp: list_all2_conv_all_nth list_all_length in_set_conv_nth)
  moreover have "st_state s \<in> set (map lit COMBINED_STATUS_STATES)" using parse_statuses_ok [OF assms(2)] by blast
  then have "st_state s = lit ''success''" using v by (auto simp: COMBINED_STATUS_STATES_def)
  ultimately show ?thesis
    using v r(1,2,4) assms(2) by (auto simp: parse_statuses_def res_simps)
qed

lemma demo_verdict:
  "parse_checks demo_checks demo_sha = Inr \<lparr>ck_observed = 1, ck_total = 1, ck_complete = True, ck_failure = False, ck_pending = False\<rparr>"
  "parse_statuses demo_statuses demo_sha = Inr \<lparr>st_observed = 1, st_total = 1, st_complete = True, st_state = lit ''success''\<rparr>"
proof -
  have "match_sha demo_sha" by (simp add: match_sha_def demo_sha_def is_hex_lower_def list_all_iff)
  then show "parse_checks demo_checks demo_sha = Inr \<lparr>ck_observed = 1, ck_total = 1, ck_complete = True, ck_failure = False, ck_pending = False\<rparr>"
    "parse_statuses demo_statuses demo_sha = Inr \<lparr>st_observed = 1, st_total = 1, st_complete = True, st_state = lit ''success''\<rparr>"
    by (auto simp: parse_checks_def parse_statuses_def demo_checks_def demo_statuses_def dget_def require_count_def int_at_least_def
      demo_run_def classify_run_def require_sha_def require_member_def CHECK_STATUSES_def CHECK_FAILURES_def CHECK_NON_FAILURES_def
      COMBINED_STATUS_STATES_def raise_if_def)
qed

theorem success_is_earned_witness: "list_all (run_passed demo_sha) [demo_run ''success'']"
proof -
  have "ci_state \<lparr>ck_observed = 1, ck_total = 1, ck_complete = True, ck_failure = False, ck_pending = False\<rparr>
      \<lparr>st_observed = 1, st_total = 1, st_complete = True, st_state = lit ''success''\<rparr> = lit ''success''"
    by (simp add: ci_state_def)
  from success_is_earned [OF demo_verdict this] show ?thesis by (auto simp: demo_checks_def dget_def)
qed

section \<open>The length of a JSON text\<close>

definition plain :: "str \<Rightarrow> bool" where   \<comment> \<open>characters JSON writes as they are\<close>
  "plain s \<longleftrightarrow> list_all (\<lambda>c. 32 \<le> c \<and> c \<le> 126 \<and> c \<noteq> 34 \<and> c \<noteq> 92) s"

definition string_weight :: "str \<Rightarrow> nat" where
  "string_weight s = (if plain s then length s + 2 else 12 * length s + 2)"

fun text_weight :: "json \<Rightarrow> nat" where
  "text_weight (JInt i) = length (str_of_int i)"
| "text_weight (JStr s) = string_weight s"
| "text_weight (JArr xs) = 2 + sum_list (map (\<lambda>x. text_weight x + 1) xs)"
| "text_weight (JObj kvs) = 2 + sum_list (map (\<lambda>(k, v). string_weight k + 2 + text_weight v) kvs)"
| "text_weight v = 5"

lemma length_join: "length (join c ts) \<le> sum_list (map (\<lambda>t. length t + 1) ts)"
  by (induction c ts rule: join.induct) simp_all

lemma length_quote_json: "length (quote_json s) \<le> string_weight s"
proof -
  have "length (concat (map escape_char s)) = length s" if "plain s"
    using that by (induction s) (simp_all add: plain_def escape_char_def)
  moreover have "length (escape_char c) \<le> 12" for c by (simp add: escape_char_def hex4_def)
  then have "length (concat (map escape_char s)) \<le> 12 * length s"
    by (induction s) (auto intro: order_trans [OF add_mono])
  ultimately show ?thesis by (simp add: quote_json_def string_weight_def)
qed

lemma sum_list_sort_key: "sum_list (map f (sort_key g xs)) = sum_list (map f xs :: nat list)"
  by (metis mset_map mset_sort sum_mset_sum_list)

lemma length_dumps: "float_free v \<Longrightarrow> length (dumps_with srt fr v) \<le> text_weight v"
proof (induction v)
  case (JArr xs)
  then have "sum_list (map (\<lambda>x. length (dumps_with srt fr x) + 1) xs) \<le> sum_list (map (\<lambda>x. text_weight x + 1) xs)"
    by (intro sum_list_mono) (auto simp: list_all_iff)
  with length_join [of 44 "map (dumps_with srt fr) xs"] show ?case by (simp add: comp_def)
next
  case (JObj kvs)
  let ?texts = "map (\<lambda>(k, v). (k, dumps_with srt fr v)) kvs"
  have "sum_list (map (\<lambda>t. length (member_text t) + 1) ?texts)
      \<le> sum_list (map (\<lambda>(k, v). string_weight k + 2 + text_weight v) kvs)"
    using JObj unfolding map_map
    by (intro sum_list_mono) (fastforce simp: list_all_iff member_text_def intro: add_mono length_quote_json)
  moreover have "sum_list (map (\<lambda>t. length (member_text t) + 1) (if srt then sort_key fst ?texts else ?texts))
      = sum_list (map (\<lambda>t. length (member_text t) + 1) ?texts)" by (simp only: sum_list_sort_key if_distrib [of "map f" for f] if_distrib [of sum_list] if_cancel)
  ultimately show ?case
    using length_join [of 44 "map member_text (if srt then sort_key fst ?texts else ?texts)"]
    by (simp add: Let_def comp_def)
qed (auto simp: length_quote_json lit_simps)

section \<open>The receipt\<close>

text \<open>C21. A receipt the service returns is about the pull request asked for: its payload names that
  repository and number and the agent as issuer, it verifies as a signed receipt, it is the text that is
  sent (the sweep leaves it as it is), and at most 4096 characters long.\<close>

theorem issued_receipt_verifies:
  assumes "ed25519_ok L" and "length (svc_key svc) = 32"
    and "issue E L svc url w = (Inr content, w')"
  shows "\<exists>ref receipt payload repository. parse_github_pull_request_url L (JStr url) = Inr ref
    \<and> content = canonical_json (float_repr L) receipt \<and> verify_signed_receipt L receipt = Inr payload
    \<and> dget payload ''pull_number'' = JInt (int (ref_number ref)) \<and> dget payload ''issuer'' = JStr (svc_issuer svc)
    \<and> dget payload ''repository'' = JStr repository \<and> casefold repository = casefold (full_name ref)
    \<and> sweep_text content = Inr content \<and> length content \<le> 4096"
proof -
  from assms(3) obtain ref ev t v w1 w2 where i: "parse_github_pull_request_url L (JStr url) = Inr ref"
      "inspect E L ref w1 = (Inr ev, w2)" "build_signed_receipt L ev (svc_issuer svc) (svc_key svc) t = Inr v"
      "render_signed_receipt L v = Inr content"
    by (auto simp: issue_def run_simps split: sum.splits prod.splits)
  let ?p = "receipt_payload (svc_issuer svc) ev t"
  note b = build_signed_receipt_Inr [OF i(3)]
  have v: "verify_signed_receipt L v = Inr ?p"
    unfolding b(3) by (rule verify_signed_wrapper [OF assms(1,2) b(1,2)]) (simp add: receipt_dget)
  obtain pull raw_checks raw_statuses details where d: "parse_pull L pull ref = Inr details" "ev_details ev = details"
    using inspect_Inr [OF i(2)] by auto
  note n = parse_pull_ok(2,3) [OF d(1) parse_url_ok [OF i(1)]]
  have c: "content = canonical_json (float_repr L) v" "length content \<le> 4096"
    using i(4) by (auto simp: render_signed_receipt_def Let_def res_simps not_less)
  have "sweep_text content = Inr content"
    using c sweep_object_text receipt_float_free unfolding b(3) canonical_json_def signed_wrapper_def Let_def by metis
  with i(1) v n c d(2) show ?thesis by (auto simp: receipt_dget)
qed

lemma demo_ref: "ref_ok demo_ref" "parse_github_pull_request_url L (JStr (ref_url demo_ref)) = Inr demo_ref"
proof -
  show "ref_ok demo_ref"
    by (simp add: ref_ok_def demo_ref_def match_owner_def valid_repository_def match_repository_def lit_simps char_class_defs
        endswith_def)
  then show "parse_github_pull_request_url L (JStr (ref_url demo_ref)) = Inr demo_ref" by (rule parse_ref_url)
qed

lemma demo_sha: "match_sha demo_sha"
  by (simp add: match_sha_def demo_sha_def is_hex_lower_def list_all_iff)

lemma demo_timestamp: "match_timestamp demo_time" "iso_accepts demo_time"
proof -
  let ?t = "\<lparr>year = 2026, month = 5, day = 4, hour = 3, minute = 2, sec = 1\<rparr>"
  have "valid_time ?t" by (simp add: valid_time_def days_in_month_def)
  moreover have "format_timestamp ?t = demo_time" by (simp add: format_timestamp_list demo_time_def lit_simps)
  ultimately show "match_timestamp demo_time" "iso_accepts demo_time" using format_timestamp_accepted [of ?t] by simp_all
qed

definition demo_evidence :: evidence where
  "demo_evidence = \<lparr>ev_details = \<lparr>pd_repository = full_name demo_ref, pd_number = 1, pd_url = ref_url demo_ref,
       pd_author = lit ''u'', pd_state = lit ''open'', pd_merged = False, pd_draft = False, pd_head_sha = demo_sha,
       pd_base_sha = demo_sha, pd_merge_commit_sha = None, pd_source_updated_at = demo_time\<rparr>,
     ev_ci = lit ''success'', ev_complete = True, ev_checks_observed = 1, ev_checks_total = 1, ev_statuses_observed = 1,
     ev_statuses_total = 1\<rparr>"

lemma demo_pull_parsed: "parse_pull demo_lib demo_pull demo_ref = Inr (ev_details demo_evidence)"
proof -
  have u: "parse_github_pull_request_url demo_lib (JStr (lit ''https://github.com/'' @ full_name demo_ref @ lit ''/pull/'' @ str_of_int 1))
      = Inr demo_ref"
    using demo_ref(2) by (simp add: ref_url_def demo_ref_def full_name_def str_of_int_def)
  have r: "parse_repository (JStr (full_name demo_ref)) = Inr (full_name demo_ref)"
    using demo_ref(1) unfolding parse_repository_Inr by (auto simp: ref_ok_def full_name_def)
  have c: "require_count (JInt 1) = Inr 1" "require_author bad_response (JStr (lit ''u'')) = Inr (lit ''u'')"
    "require_member bad_response [''open'', ''closed''] (JStr (lit ''open'')) = Inr (lit ''open'')"
    "require_sha (JStr demo_sha) = Inr demo_sha" "require_timestamp (JStr demo_time) = Inr demo_time" "ref_number demo_ref = 1"
    using demo_sha demo_timestamp by (auto simp: match_author_def match_login_def lit_simps char_class_defs demo_ref_def)
  have d: "dget demo_pull ''number'' = JInt 1" "dget demo_pull ''html_url'' = JStr (ref_url demo_ref)"
    "dget demo_pull ''user'' = JObj [(lit ''login'', JStr (lit ''u''))]" "dget demo_pull ''state'' = JStr (lit ''open'')"
    "dget demo_pull ''merged'' = JBool False" "dget demo_pull ''draft'' = JBool False" "dget demo_pull ''merge_commit_sha'' = JNull"
    "dget demo_pull ''updated_at'' = JStr demo_time" "dget demo_pull ''head'' = JObj [(lit ''sha'', JStr demo_sha)]"
    "dget demo_pull ''base'' = JObj [(lit ''sha'', JStr demo_sha),
        (lit ''repo'', JObj [(lit ''private'', JBool False), (lit ''full_name'', JStr (full_name demo_ref))])]"
    by (simp_all add: demo_pull_def dget_def)
  have g: "dget ((lit k, v) # p) k' = (if k = k' then v else dget p k')" for k v p k'
    by (simp add: dget_def)
  show ?thesis
    using u r c
    by (simp add: parse_pull_def res_simps d g demo_ref demo_evidence_def)
qed

lemma demo_evidence_ok: "evidence_ok demo_evidence" "\<not> claims_unseen_failure demo_evidence"
proof -
  have "ref_ok demo_ref \<and> full_name demo_ref = full_name demo_ref \<and> int (ref_number demo_ref) = 1 \<and> ref_url demo_ref = ref_url demo_ref"
    using demo_ref(1) by (simp add: demo_ref_def)
  then have "details_ok (ev_details demo_evidence)"
    unfolding details_ok_def demo_evidence_def
    using demo_sha demo_timestamp by (auto simp: match_author_def match_login_def lit_simps char_class_defs)
  then show "evidence_ok demo_evidence" by (simp add: evidence_ok_def) (simp add: demo_evidence_def CI_STATES_def)
  show "\<not> claims_unseen_failure demo_evidence" by (simp add: claims_unseen_failure_def demo_evidence_def)
qed

lemma demo_request:
  assumes "startswith path (lit ''/repos/'')" and "\<not> has_double_slash path"
  shows "request_object demo_github path w =
    (Inr (if tick w = 1 then demo_pull else if tick w = 3 then demo_checks else demo_statuses),
     w\<lparr>tick := Suc (Suc (tick w)), sent := sent w @ [(GitHubGet path, fs w)]\<rparr>)"
proof -
  have l: "loads (JObj demo_pull) = JObj demo_pull" "loads (JObj demo_checks) = JObj demo_checks"
    "loads (JObj demo_statuses) = JObj demo_statuses"
    by (rule loads_no_duplicates, simp add: demo_pull_def demo_checks_def demo_statuses_def demo_run_def)+
  have o: "object_of_reply (GitHubReply 200 NoHeader False 900 (Doc (JObj p))) = Inr p" if "loads (JObj p) = JObj p" for p
    using that by (simp add: object_of_reply_def MAX_GITHUB_RESPONSE_BYTES_def raise_if_def parse_bytes_def del: loads.simps)
  show ?thesis
    using assms
    by (simp add: request_object_def run_simps raise_if_def exchange_def record_request_def demo_github_def demo_env_def o [OF l(1)] o [OF l(2)]
        o [OF l(3)])
qed

lemma demo_paths:
  "startswith (lit ''/repos/'' @ x) (lit ''/repos/'')"
  "\<not> has_double_slash (lit ''/repos/'' @ lit ''o'' @ 47 # lit ''r'' @ lit ''/pulls/1'')"
  "\<not> has_double_slash (lit ''/repos/'' @ lit ''o'' @ 47 # lit ''r'' @ lit ''/commits/'' @ demo_sha @ lit ''/check-runs?per_page=100&filter=latest'')"
  "\<not> has_double_slash (lit ''/repos/'' @ lit ''o'' @ 47 # lit ''r'' @ lit ''/commits/'' @ demo_sha @ lit ''/status?per_page=100'')"
  by (simp add: startswith_def, simp_all add: lit_simps demo_sha_def replicate_numeral_Cons)

lemma demo_inspected:
  assumes "tick w = 1"
  shows "\<exists>w'. inspect demo_github demo_lib demo_ref w = (Inr demo_evidence, w')"
proof -
  have r: "ref_owner demo_ref = lit ''o''" "ref_repository demo_ref = lit ''r''" "lit ''/pulls/'' @ str_of_nat (ref_number demo_ref) = lit ''/pulls/1''"
    by (simp_all add: demo_ref_def str_of_nat.simps [of "Suc 0"] lit_simps)
  have h: "pd_head_sha (ev_details demo_evidence) = demo_sha" by (simp add: demo_evidence_def)
  have e: "ci_state \<lparr>ck_observed = 1, ck_total = 1, ck_complete = True, ck_failure = False, ck_pending = False\<rparr>
      \<lparr>st_observed = 1, st_total = 1, st_complete = True, st_state = lit ''success''\<rparr> = lit ''success''" by (simp add: ci_state_def)
  show ?thesis
    using assms
    by (simp add: inspect_def Let_def r demo_paths run_simps demo_request demo_pull_parsed h demo_verdict [simplified] e [simplified])
      (simp add: demo_evidence_def)
qed

lemma demo_plain: "plain demo_did"
proof -
  have "take 12 demo_did = lit ''did:key:z6Mk''" "list_all (\<lambda>c. c \<in> set BASE58BTC_ALPHABET) (drop 12 demo_did)"
    using demo_did(2) by (auto simp: match_did_def startswith_def eval_nat_numeral)
  moreover have "plain BASE58BTC_ALPHABET" by (simp add: plain_def BASE58BTC_ALPHABET_def lit_simps)
  ultimately have "plain (take 12 demo_did @ drop 12 demo_did)" by (auto simp: plain_def lit_simps list_all_iff)
  then show ?thesis by simp
qed

lemma demo_issued:
  "\<exists>content w'. issue demo_github demo_lib \<lparr>svc_issuer = demo_did, svc_key = demo_key, svc_interval = 60\<rparr>
     (ref_url demo_ref) demo_world = (Inr content, w')"
proof -
  let ?t = "\<lparr>year = 2026, month = 5, day = 4, hour = 3, minute = 2, sec = 1\<rparr>"
  let ?v = "signed_wrapper demo_lib demo_key (receipt_payload demo_did demo_evidence ?t)"
  have t: "valid_time ?t" by (simp add: valid_time_def days_in_month_def)
  note b = build_signed_receipt_total [OF demo_lib_ok(1,3) demo_did(1) demo_evidence_ok t]
  have plain: "plain s" if "list_all is_b64url s" for s
    using that by (auto simp: plain_def list_all_iff char_class_defs)
  have did: "string_weight demo_did = 58"
    using demo_did(2) demo_ascii(3) by (simp add: string_weight_def demo_plain)
  have sig: "string_weight (b64_encode (ed_sign demo_lib demo_key m)) = 88" for m
  proof -
    have "match_signature (b64_encode (ed_sign demo_lib demo_key m))"
      using sign_detached_total [OF demo_lib_ok(1,3)] sign_detached_Inr by blast
    then show ?thesis by (auto simp: match_signature_def string_weight_def intro!: plain)
  qed
  have sha: "string_weight (sha256_hex demo_lib m) = 66" for m
  proof -
    have "48 + sum_list m mod 10 \<le> 126 \<and> 48 + sum_list m mod 10 \<noteq> 92" by auto
    then show ?thesis by (simp add: demo_lib_def string_weight_def plain_def list_all_iff)
  qed
  have time: "format_timestamp ?t = demo_time" by (simp add: format_timestamp_list demo_time_def lit_simps)
  have sha1: "string_weight demo_sha = 42" by (simp add: string_weight_def plain_def demo_sha_def list_all_iff)
  have "text_weight ?v \<le> 4096"
    unfolding signed_wrapper_def Let_def receipt_payload_def demo_evidence_def time
    by (simp add: did sig sha sha1 RECEIPT_SCHEMA_def RECEIPT_SOURCE_def GITHUB_API_VERSION_def demo_time_def full_name_def
        ref_url_def demo_ref_def str_of_int_def str_of_nat.simps [of "Suc 0"] string_weight_def [of "c # s" for c s] plain_def lit_simps)
  then have "length (canonical_json (float_repr demo_lib) ?v) \<le> 4096"
    unfolding canonical_json_def by (rule order_trans [OF length_dumps [OF receipt_float_free]])
  then have r: "render_signed_receipt demo_lib ?v = Inr (canonical_json (float_repr demo_lib) ?v)"
    unfolding render_signed_receipt_def b(2) by (simp add: raise_if_def Let_def)
  let ?w = "demo_world\<lparr>tick := 1, last_attempt := Some 10\<rparr>"
  obtain w' where i: "inspect demo_github demo_lib demo_ref ?w = (Inr demo_evidence, w')"
    using demo_inspected [of ?w] by auto
  have c: "clock_mono demo_github n = 10" "clock_utc demo_github n = ?t" for n by (simp_all add: demo_github_def demo_env_def)
  show ?thesis
    using i b(1) r
    by (simp add: issue_def run_simps demo_ref(2) c reserve_attempt_def demo_world_def)
qed

theorem issued_receipt_verifies_witness:
  "\<exists>content w'. issue demo_github demo_lib \<lparr>svc_issuer = demo_did, svc_key = demo_key, svc_interval = 60\<rparr>
     (ref_url demo_ref) demo_world = (Inr content, w') \<and> sweep_text content = Inr content"
proof -
  have k: "length (svc_key \<lparr>svc_issuer = demo_did, svc_key = demo_key, svc_interval = 60\<rparr>) = 32"
    by (simp add: demo_key_def)
  obtain content w' where i: "issue demo_github demo_lib \<lparr>svc_issuer = demo_did, svc_key = demo_key, svc_interval = 60\<rparr>
     (ref_url demo_ref) demo_world = (Inr content, w')" using demo_issued by blast
  from issued_receipt_verifies [OF demo_lib_ok(1) k i] i show ?thesis by blast
qed

text \<open>A pull request URL that is accepted has a canonical form, which names the same pull request and is
  itself accepted: what a receipt prints can be looked up again.\<close>

lemma accepted_url_has_canonical_form:
  assumes "parse_github_pull_request_url L v = Inr ref"
  shows "parse_github_pull_request_url L (JStr (ref_url ref)) = Inr ref \<and> ref_ok ref"
  using parse_url_ok [OF assms] parse_ref_url by blast

text \<open>Between two attempts of the receipt service lies its whole interval: an earlier one raises the
  local rate limit with the time still to wait, asks GitHub nothing and changes nothing.\<close>

lemma receipt_attempts_are_spaced:
  assumes "parse_github_pull_request_url L (JStr url) = Inr ref" and "last_attempt w = Some t"
    and "t \<le> clock_mono E (tick w)" and "clock_mono E (tick w) < t + svc_interval svc"
  shows "issue E L svc url w = (Inl (GitHubReceiptError ''local_receipt_rate_limited'' None
      (Some (t + svc_interval svc - clock_mono E (tick w)))), w\<lparr>tick := Suc (tick w)\<rparr>)"
  using assms
  by (simp add: issue_def run_simps reserve_attempt_def Let_def max_def algebra_simps)

end
