(* ===== verification/Work_Receipt.thy ===== *)
theory Work_Receipt
  imports Receipt Delivery
begin

text \<open>
  \<open>work_receipt_verifier.py\<close>: the offline check of a work receipt. A receipt is an envelope of one
  signed execution claim and up to sixteen countersignatures over it. The second part is the
  declarative reading of the same contract, \<open>work_receipt_ok\<close>, and the proof that the code's
  sequence of checks accepts exactly what it describes.
\<close>

abbreviation work_error :: "string \<Rightarrow> exc" where
  "work_error \<equiv> WorkReceiptError"

section \<open>Constants\<close>

definition WORK_RECEIPT_SCHEMA :: string where "WORK_RECEIPT_SCHEMA = ''work-receipt-v1''"
definition WORK_RECEIPT_ENVELOPE_SCHEMA :: string where
  "WORK_RECEIPT_ENVELOPE_SCHEMA = ''work-receipt-envelope-v1''"
definition WORK_COUNTERSIGNATURE_SCHEMA :: string where
  "WORK_COUNTERSIGNATURE_SCHEMA = ''work-receipt-countersignature-v1''"
definition MAX_COMMAND_ARGUMENTS :: nat where "MAX_COMMAND_ARGUMENTS = 64"
definition MAX_COMMAND_ARGUMENT_BYTES :: nat where "MAX_COMMAND_ARGUMENT_BYTES = 4096"
definition MAX_COMMAND_BYTES :: nat where "MAX_COMMAND_BYTES = 16 * 1024"
definition MAX_OUTPUT_BYTES :: nat where "MAX_OUTPUT_BYTES = 16 * 1024 * 1024"
definition MAX_RECEIPT_BYTES :: nat where "MAX_RECEIPT_BYTES = 128 * 1024"
definition MAX_COUNTERSIGNATURES :: nat where "MAX_COUNTERSIGNATURES = 16"

definition WORK_PAYLOAD_KEYS :: "string list" where
  "WORK_PAYLOAD_KEYS = [''schema'', ''issuer'', ''repository'', ''commit'', ''command'', ''timeout_ms'',
     ''result'', ''exit_code'', ''stdout_sha256'', ''stdout_bytes'', ''stderr_sha256'', ''stderr_bytes'',
     ''started_at'', ''completed_at'', ''duration_ms'']"

definition EXECUTION_KEYS :: "string list" where
  "EXECUTION_KEYS = [''repository'', ''commit'', ''command'', ''timeout_ms'', ''result'', ''exit_code'',
     ''stdout_sha256'', ''stdout_bytes'', ''stderr_sha256'', ''stderr_bytes'']"

definition COUNTERSIGNATURE_PAYLOAD_KEYS :: "string list" where
  "COUNTERSIGNATURE_PAYLOAD_KEYS =
     [''schema'', ''verifier'', ''receipt_payload_sha256'', ''execution_sha256'', ''observed_at'']"

definition SIGNED_WRAPPER_KEYS :: "string list" where
  "SIGNED_WRAPPER_KEYS = [''payload'', ''payload_sha256'', ''signature'']"

definition ENVELOPE_KEYS :: "string list" where
  "ENVELOPE_KEYS = [''schema'', ''receipt'', ''countersignatures'']"

record work_summary =
  ws_payload :: pairs
  ws_countersignatures :: nat
  ws_matching :: nat

section \<open>Checked values\<close>

definition work_timestamp :: "json \<Rightarrow> utc_time res" where   \<comment> \<open>\<open>_parse_timestamp\<close>\<close>
  "work_timestamp v =
     bind (as_str (work_error ''work receipt contains an invalid timestamp'') v) (\<lambda>s.
     bind (raise_if (\<not> match_timestamp s \<or> \<not> iso_accepts s)
       (work_error ''work receipt contains an invalid timestamp'')) (\<lambda>_.
     ret (time_of_text s)))"

text \<open>Both times are in UTC, so \<open><\<close> on datetimes is the order of the fields, most significant first.\<close>

definition time_rank :: "utc_time \<Rightarrow> nat" where
  "time_rank t = ((((year t * 13 + month t) * 32 + day t) * 24 + hour t) * 60 + minute t) * 60 + sec t"

definition earlier :: "utc_time \<Rightarrow> utc_time \<Rightarrow> bool" where
  "earlier a b \<longleftrightarrow> time_rank a < time_rank b"

definition work_sha256 :: "json \<Rightarrow> str res" where   \<comment> \<open>\<open>_require_sha256\<close>\<close>
  "work_sha256 v =
     bind (as_str (work_error ''work receipt contains an invalid hash'') v) (\<lambda>s.
     bind (raise_if (\<not> match_sha256 s) (work_error ''work receipt contains an invalid hash'')) (\<lambda>_. ret s))"

definition work_nonnegative_int :: "json \<Rightarrow> int \<Rightarrow> int res" where   \<comment> \<open>\<open>_require_nonnegative_int\<close>\<close>
  "work_nonnegative_int v maximum =
     bind (int_at_least 0 (work_error ''work receipt contains an invalid number'') v) (\<lambda>i.
     bind (raise_if (maximum < i) (work_error ''work receipt contains an invalid number'')) (\<lambda>_. ret i))"

definition work_repository :: "json \<Rightarrow> str res" where   \<comment> \<open>\<open>_validate_repository\<close>\<close>
  "work_repository v =
     bind (as_str (work_error ''work receipt contains an invalid repository'') v) (\<lambda>s.
     bind (raise_if (count_char s 47 \<noteq> 1) (work_error ''work receipt contains an invalid repository'')) (\<lambda>_.
     let (own, _, repo) = partition_at 47 s in
     bind (raise_if (\<not> match_owner own \<or> \<not> valid_repository repo)
       (work_error ''work receipt contains an invalid repository'')) (\<lambda>_. ret s)))"

definition argument_size :: "bool \<Rightarrow> json \<Rightarrow> nat res" where   \<comment> \<open>the body of the loop, \<open>index == 0\<close> first\<close>
  "argument_size is_first v =
     bind (as_str (work_error ''command arguments must be safe strings'') v) (\<lambda>argument.
     bind (raise_if (0 \<in> set argument) (work_error ''command arguments must be safe strings'')) (\<lambda>_.
     bind (except_raise (\<lambda>e. e = UnicodeEncodeError) (work_error ''command arguments must be valid UTF-8'')
       (encode_utf8 argument)) (\<lambda>encoded.
     bind (raise_if (MAX_COMMAND_ARGUMENT_BYTES < length encoded \<or> is_first \<and> length encoded = 0)
       (work_error ''command contains an invalid argument'')) (\<lambda>_. ret (length encoded)))))"

fun arguments_size :: "bool \<Rightarrow> json list \<Rightarrow> nat res" where
  "arguments_size is_first [] = ret 0"
| "arguments_size is_first (v # vs) =
     bind (argument_size is_first v) (\<lambda>n. bind (arguments_size False vs) (\<lambda>m. ret (n + m)))"

definition validate_command :: "json \<Rightarrow> json list res" where
  "validate_command v =
     bind (as_arr (work_error ''command must be an argv sequence'') v) (\<lambda>normalized.
     bind (raise_if (normalized = [] \<or> MAX_COMMAND_ARGUMENTS < length normalized)
       (work_error ''command must contain 1-64 arguments'')) (\<lambda>_.
     bind (arguments_size True normalized) (\<lambda>total.
     bind (raise_if (MAX_COMMAND_BYTES < total)
       (work_error ''command exceeds the work receipt size limit'')) (\<lambda>_.
     ret normalized))))"

definition execution_claim :: "pairs \<Rightarrow> pairs" where
  "execution_claim payload = map (\<lambda>k. (lit k, dget payload k)) EXECUTION_KEYS"

definition execution_sha256 :: "lib \<Rightarrow> pairs \<Rightarrow> str" where
  "execution_sha256 L payload = sha256_hex L (canonical_json (float_repr L) (JObj (execution_claim payload)))"

section \<open>Payloads\<close>

definition work_did :: "string \<Rightarrow> json \<Rightarrow> str res" where
  "work_did msg v = except_raise is_ProtocolValueError (work_error msg) (validate_did_value v)"

definition verify_wrapper :: "lib \<Rightarrow> string \<Rightarrow> json \<Rightarrow> pairs res" where   \<comment> \<open>\<open>_verify_signed_wrapper\<close>\<close>
  "verify_wrapper L signer_key v =
     bind (as_obj (work_error ''signed work receipt wrapper has unexpected fields'') v) (\<lambda>value.
     bind (raise_if (\<not> keys_are value SIGNED_WRAPPER_KEYS)
       (work_error ''signed work receipt wrapper has unexpected fields'')) (\<lambda>_.
     bind (as_obj (work_error ''signed work receipt payload must be an object'') (dget value ''payload'')) (\<lambda>payload.
     let canonical = canonical_json (float_repr L) (JObj payload) in
     bind (raise_if (dget value ''payload_sha256'' \<noteq> JStr (sha256_hex L canonical))
       (work_error ''work receipt payload hash does not match'')) (\<lambda>_.
     bind (work_did ''signed work receipt contains an invalid DID'' (dget payload signer_key)) (\<lambda>signer.
     bind (raise_if (\<not> verify_signature_value L (JStr signer) canonical (dget value ''signature''))
       (work_error ''work receipt signature does not match its signer'')) (\<lambda>_.
     ret payload))))))"

definition validate_outcome_of_work :: "json \<Rightarrow> json \<Rightarrow> unit res" where
  "validate_outcome_of_work result exit_code =
     (if result = JStr (lit ''passed'') then
        raise_if (\<not> equals_zero exit_code) (work_error ''passed work receipt must have exit code zero'')
      else if result = JStr (lit ''failed'') then
        (case exit_code of
           JInt i \<Rightarrow> bind (raise_if (i = 0) (work_error ''failed work receipt must have a nonzero exit code''))
             (\<lambda>_. raise_if (\<not> (-255 \<le> i \<and> i \<le> 255))
                    (work_error ''failed work receipt exit code is outside bounds''))
         | _ \<Rightarrow> raise (work_error ''failed work receipt must have a nonzero exit code''))
      else if result = JStr (lit ''timed_out'') then
        raise_if (exit_code \<noteq> JNull) (work_error ''timed-out work receipt must not claim an exit code'')
      else raise (work_error ''work receipt contains an invalid result''))"

definition work_commit :: "json \<Rightarrow> str res" where
  "work_commit v =
     bind (as_str (work_error ''work receipt contains an invalid commit SHA'') v) (\<lambda>s.
     bind (raise_if (\<not> match_sha s) (work_error ''work receipt contains an invalid commit SHA'')) (\<lambda>_. ret s))"

definition validate_work_payload :: "pairs \<Rightarrow> unit res" where
  "validate_work_payload p =
     bind (raise_if (\<not> keys_are p WORK_PAYLOAD_KEYS \<or> dget p ''schema'' \<noteq> JStr (lit WORK_RECEIPT_SCHEMA))
       (work_error ''work receipt payload uses an unsupported schema'')) (\<lambda>_.
     bind (work_did ''work receipt contains an invalid issuer DID'' (dget p ''issuer'')) (\<lambda>_.
     bind (work_repository (dget p ''repository'')) (\<lambda>_.
     bind (work_commit (dget p ''commit'')) (\<lambda>_.
     bind (validate_command (dget p ''command'')) (\<lambda>_.
     bind (work_nonnegative_int (dget p ''timeout_ms'') 3600000) (\<lambda>timeout_ms.
     bind (raise_if (timeout_ms = 0) (work_error ''work receipt timeout must be positive'')) (\<lambda>_.
     bind (validate_outcome_of_work (dget p ''result'') (dget p ''exit_code'')) (\<lambda>_.
     bind (work_sha256 (dget p ''stdout_sha256'')) (\<lambda>_.
     bind (work_sha256 (dget p ''stderr_sha256'')) (\<lambda>_.
     bind (work_nonnegative_int (dget p ''stdout_bytes'') (int MAX_OUTPUT_BYTES)) (\<lambda>_.
     bind (work_nonnegative_int (dget p ''stderr_bytes'') (int MAX_OUTPUT_BYTES)) (\<lambda>_.
     bind (work_timestamp (dget p ''started_at'')) (\<lambda>started.
     bind (work_timestamp (dget p ''completed_at'')) (\<lambda>completed.
     bind (raise_if (earlier completed started) (work_error ''work receipt completes before it starts'')) (\<lambda>_.
     bind (work_nonnegative_int (dget p ''duration_ms'') 3700000) (\<lambda>_. ret ()))))))))))))))))"

definition validate_countersignature :: "pairs \<Rightarrow> unit res" where
  "validate_countersignature p =
     bind (raise_if (\<not> keys_are p COUNTERSIGNATURE_PAYLOAD_KEYS
         \<or> dget p ''schema'' \<noteq> JStr (lit WORK_COUNTERSIGNATURE_SCHEMA))
       (work_error ''countersignature payload uses an unsupported schema'')) (\<lambda>_.
     bind (work_did ''countersignature contains an invalid verifier DID'' (dget p ''verifier'')) (\<lambda>_.
     bind (work_sha256 (dget p ''receipt_payload_sha256'')) (\<lambda>_.
     bind (work_sha256 (dget p ''execution_sha256'')) (\<lambda>_.
     bind (work_timestamp (dget p ''observed_at'')) (\<lambda>_. ret ())))))"

section \<open>The envelope\<close>

text \<open>
  A receipt is given as a text (its length in UTF-8 bytes and what it parses to; \<open>NotUtf8\<close> is a
  text with a lone surrogate, which \<open>encode\<close> refuses before anything else) or as a value.
\<close>

datatype work_source = ReceiptText nat doc | ReceiptValue json

definition decode_source :: "work_source \<Rightarrow> json res" where
  "decode_source src = (case src of
      ReceiptValue v \<Rightarrow> ret v
    | ReceiptText n d \<Rightarrow>
        bind (raise_if (d = NotUtf8) UnicodeEncodeError) (\<lambda>_.
        bind (raise_if (MAX_RECEIPT_BYTES < n) (work_error ''work receipt exceeds the artifact size limit'')) (\<lambda>_.
        (case d of
           Doc v \<Rightarrow> ret (loads v)
         | TooDeep \<Rightarrow> raise RecursionError
         | _ \<Rightarrow> raise (work_error ''work receipt is not valid JSON'')))))"

definition decode_work :: "work_source \<Rightarrow> pairs res" where   \<comment> \<open>\<open>_decode\<close>\<close>
  "decode_work src = bind (decode_source src) (\<lambda>decoded.
     as_obj (work_error ''work receipt must contain a JSON object'') decoded)"

text \<open>The loop over the countersignatures; \<open>seen\<close> is the set \<open>verifiers\<close>.\<close>

definition check_countersignature ::
  "lib \<Rightarrow> json \<Rightarrow> json \<Rightarrow> str \<Rightarrow> utc_time \<Rightarrow> json list \<Rightarrow> json \<Rightarrow> json res" where
  "check_countersignature L issuer receipt_hash execution_hash completed_at seen signed_counter =
     bind (verify_wrapper L ''verifier'' signed_counter) (\<lambda>counter.
     bind (validate_countersignature counter) (\<lambda>_.
     let verifier = dget counter ''verifier'' in
     bind (raise_if (verifier = issuer) (work_error ''worker cannot countersign its own receipt'')) (\<lambda>_.
     bind (raise_if (verifier \<in> set seen) (work_error ''work receipt contains a duplicate countersigner'')) (\<lambda>_.
     bind (raise_if (dget counter ''receipt_payload_sha256'' \<noteq> receipt_hash)
       (work_error ''countersignature refers to a different receipt'')) (\<lambda>_.
     bind (raise_if (dget counter ''execution_sha256'' \<noteq> JStr execution_hash)
       (work_error ''countersignature refers to different execution evidence'')) (\<lambda>_.
     bind (work_timestamp (dget counter ''observed_at'')) (\<lambda>observed_at.
     bind (raise_if (earlier observed_at completed_at)
       (work_error ''countersignature predates the primary execution'')) (\<lambda>_.
     ret verifier))))))))"

fun check_countersignatures ::
  "lib \<Rightarrow> json \<Rightarrow> json \<Rightarrow> str \<Rightarrow> utc_time \<Rightarrow> json list \<Rightarrow> json list \<Rightarrow> unit res" where
  "check_countersignatures L issuer rh eh completed seen [] = ret ()"
| "check_countersignatures L issuer rh eh completed seen (c # cs) =
     bind (check_countersignature L issuer rh eh completed seen c) (\<lambda>verifier.
     check_countersignatures L issuer rh eh completed (verifier # seen) cs)"

definition verify_and_decode :: "lib \<Rightarrow> work_source \<Rightarrow> (work_summary \<times> pairs) res" where
  "verify_and_decode L src =
     bind (decode_work src) (\<lambda>envelope.
     bind (raise_if (\<not> keys_are envelope ENVELOPE_KEYS
         \<or> dget envelope ''schema'' \<noteq> JStr (lit WORK_RECEIPT_ENVELOPE_SCHEMA))
       (work_error ''work receipt envelope uses an unsupported schema'')) (\<lambda>_.
     let signed_receipt = dget envelope ''receipt'' in
     bind (verify_wrapper L ''issuer'' signed_receipt) (\<lambda>payload.
     bind (validate_work_payload payload) (\<lambda>_.
     bind (as_arr (work_error ''work receipt contains invalid countersignatures'')
       (dget envelope ''countersignatures'')) (\<lambda>countersignatures.
     bind (raise_if (MAX_COUNTERSIGNATURES < length countersignatures)
       (work_error ''work receipt contains invalid countersignatures'')) (\<lambda>_.
     bind (as_obj AssertionError signed_receipt) (\<lambda>wrapper.
     bind (work_timestamp (dget payload ''completed_at'')) (\<lambda>completed_at.
     bind (check_countersignatures L (dget payload ''issuer'') (dget wrapper ''payload_sha256'')
       (execution_sha256 L payload) completed_at [] countersignatures) (\<lambda>_.
     ret (\<lparr>ws_payload = payload, ws_countersignatures = length countersignatures,
            ws_matching = length countersignatures\<rparr>, envelope))))))))))"

definition verify_work_receipt :: "lib \<Rightarrow> work_source \<Rightarrow> work_summary res" where
  "verify_work_receipt L src = bind (verify_and_decode L src) (\<lambda>(summary, _). ret summary)"

definition render_work_receipt :: "lib \<Rightarrow> work_source \<Rightarrow> str res" where
  "render_work_receipt L src =
     bind (verify_and_decode L src) (\<lambda>(_, envelope).
     let rendered = canonical_json (float_repr L) (JObj envelope) in
     bind (raise_if (MAX_RECEIPT_BYTES < length rendered)
       (work_error ''work receipt exceeds the artifact size limit'')) (\<lambda>_. ret rendered))"

section \<open>What a receipt has to be\<close>

text \<open>A wrapper of the payload \<open>p\<close>, signed under the DID that \<open>p\<close> names at \<open>key\<close>\<close>

definition signed_by :: "lib \<Rightarrow> string \<Rightarrow> json \<Rightarrow> pairs \<Rightarrow> bool" where
  "signed_by L key v p \<longleftrightarrow> (\<exists>w did sg. v = JObj w \<and> keys_are w SIGNED_WRAPPER_KEYS
     \<and> dget w ''payload'' = JObj p
     \<and> dget w ''payload_sha256'' = JStr (sha256_hex L (canonical_json (float_repr L) (JObj p)))
     \<and> dget w ''signature'' = JStr sg \<and> dget p key = JStr did \<and> match_did did
     \<and> verify_detached_signature L did (canonical_json (float_repr L) (JObj p)) sg)"

definition repository_ok :: "json \<Rightarrow> bool" where
  "repository_ok v \<longleftrightarrow> (\<exists>own repo. v = JStr (own @ 47 # repo) \<and> match_owner own \<and> valid_repository repo)"

definition argument_ok :: "str \<Rightarrow> bool" where
  "argument_ok a \<longleftrightarrow> 0 \<notin> set a \<and> \<not> list_ex is_surrogate a \<and> length (utf8 a) \<le> MAX_COMMAND_ARGUMENT_BYTES"

definition command_ok :: "str list \<Rightarrow> bool" where
  "command_ok argv \<longleftrightarrow> argv \<noteq> [] \<and> hd argv \<noteq> [] \<and> length argv \<le> MAX_COMMAND_ARGUMENTS
     \<and> list_all argument_ok argv \<and> sum_list (map (\<lambda>a. length (utf8 a)) argv) \<le> MAX_COMMAND_BYTES"

definition outcome_ok :: "json \<Rightarrow> json \<Rightarrow> bool" where
  "outcome_ok result exit_code \<longleftrightarrow>
     result = JStr (lit ''passed'') \<and> equals_zero exit_code
   \<or> result = JStr (lit ''failed'') \<and> (\<exists>i. exit_code = JInt i \<and> i \<noteq> 0 \<and> -255 \<le> i \<and> i \<le> 255)
   \<or> result = JStr (lit ''timed_out'') \<and> exit_code = JNull"

definition hash_ok :: "json \<Rightarrow> bool" where
  "hash_ok v \<longleftrightarrow> (\<exists>s. v = JStr s \<and> match_sha256 s)"

definition number_ok :: "json \<Rightarrow> int \<Rightarrow> int \<Rightarrow> bool" where
  "number_ok v lo hi \<longleftrightarrow> (\<exists>i. v = JInt i \<and> lo \<le> i \<and> i \<le> hi)"

definition denotes_time :: "json \<Rightarrow> utc_time \<Rightarrow> bool" where
  "denotes_time v t \<longleftrightarrow> (\<exists>s. v = JStr s \<and> match_timestamp s \<and> iso_accepts s \<and> t = time_of_text s)"

definition work_payload_ok :: "pairs \<Rightarrow> bool" where
  "work_payload_ok p \<longleftrightarrow> keys_are p WORK_PAYLOAD_KEYS \<and> dget p ''schema'' = JStr (lit WORK_RECEIPT_SCHEMA)
     \<and> (\<exists>did. dget p ''issuer'' = JStr did \<and> match_did did)
     \<and> repository_ok (dget p ''repository'')
     \<and> (\<exists>sha. dget p ''commit'' = JStr sha \<and> match_sha sha)
     \<and> (\<exists>argv. dget p ''command'' = JArr (map JStr argv) \<and> command_ok argv)
     \<and> number_ok (dget p ''timeout_ms'') 1 3600000
     \<and> outcome_ok (dget p ''result'') (dget p ''exit_code'')
     \<and> hash_ok (dget p ''stdout_sha256'') \<and> hash_ok (dget p ''stderr_sha256'')
     \<and> number_ok (dget p ''stdout_bytes'') 0 (int MAX_OUTPUT_BYTES)
     \<and> number_ok (dget p ''stderr_bytes'') 0 (int MAX_OUTPUT_BYTES)
     \<and> (\<exists>t u. denotes_time (dget p ''started_at'') t \<and> denotes_time (dget p ''completed_at'') u
          \<and> \<not> earlier u t)
     \<and> number_ok (dget p ''duration_ms'') 0 3700000"

text \<open>\<open>v\<close> is a countersignature with payload \<open>q\<close> of the execution that the receipt payload \<open>p\<close> claims\<close>

definition countersigns :: "lib \<Rightarrow> pairs \<Rightarrow> json \<Rightarrow> pairs \<Rightarrow> bool" where
  "countersigns L p v q \<longleftrightarrow> signed_by L ''verifier'' v q \<and> keys_are q COUNTERSIGNATURE_PAYLOAD_KEYS
     \<and> dget q ''schema'' = JStr (lit WORK_COUNTERSIGNATURE_SCHEMA)
     \<and> hash_ok (dget q ''receipt_payload_sha256'') \<and> hash_ok (dget q ''execution_sha256'')
     \<and> dget q ''receipt_payload_sha256'' = JStr (sha256_hex L (canonical_json (float_repr L) (JObj p)))
     \<and> dget q ''execution_sha256'' = JStr (execution_sha256 L p)
     \<and> (\<exists>t u. denotes_time (dget q ''observed_at'') t \<and> denotes_time (dget p ''completed_at'') u
          \<and> \<not> earlier t u)"

text \<open>
  The contract of an envelope with execution payload \<open>p\<close> and countersignature payloads \<open>qs\<close>: the
  countersigners are pairwise different, and none of them is the issuer.
\<close>

definition work_receipt_ok :: "lib \<Rightarrow> pairs \<Rightarrow> pairs \<Rightarrow> pairs list \<Rightarrow> bool" where
  "work_receipt_ok L env p qs \<longleftrightarrow> keys_are env ENVELOPE_KEYS
     \<and> dget env ''schema'' = JStr (lit WORK_RECEIPT_ENVELOPE_SCHEMA)
     \<and> signed_by L ''issuer'' (dget env ''receipt'') p \<and> work_payload_ok p
     \<and> (\<exists>cs. dget env ''countersignatures'' = JArr cs \<and> list_all2 (countersigns L p) cs qs)
     \<and> length qs \<le> MAX_COUNTERSIGNATURES
     \<and> distinct (dget p ''issuer'' # map (\<lambda>q. dget q ''verifier'') qs)"

section \<open>The checks decide the contract\<close>

named_theorems work_iff \<open>what a successful check of a work receipt says\<close>

lemma work_timestamp_iff [work_iff]: "work_timestamp v = Inr t \<longleftrightarrow> denotes_time v t"
  by (auto simp: work_timestamp_def denotes_time_def res_simps)

lemma work_sha256_iff [work_iff]: "work_sha256 v = Inr s \<longleftrightarrow> v = JStr s \<and> match_sha256 s"
  by (auto simp: work_sha256_def res_simps)

lemma work_commit_iff [work_iff]: "work_commit v = Inr s \<longleftrightarrow> v = JStr s \<and> match_sha s"
  by (auto simp: work_commit_def res_simps)

lemma work_nonnegative_int_iff [work_iff]:
  "work_nonnegative_int v m = Inr i \<longleftrightarrow> v = JInt i \<and> 0 \<le> i \<and> i \<le> m"
  by (auto simp: work_nonnegative_int_def res_simps)

lemma work_did_iff [work_iff]: "work_did msg v = Inr s \<longleftrightarrow> v = JStr s \<and> match_did s"
  by (simp add: work_did_def)

lemma count_one_found: "count_char s c = 1 \<Longrightarrow> c \<in> set s"
  by (metis count_char_def count_list_0_iff zero_neq_one)

lemma work_repository_iff [work_iff]:
  "work_repository v = Inr s \<longleftrightarrow> v = JStr s \<and> repository_ok v"
proof -
  have split: "partition_at 47 (own @ 47 # repo) = (own, True, repo)" "count_char (own @ 47 # repo) 47 = 1"
    if "match_owner own" "valid_repository repo" for own repo
    using that owner_raw_no_slash repository_raw_no_slash by (simp_all add: count_char_def)
  have join: "\<exists>own repo. s = own @ 47 # repo \<and> match_owner own \<and> valid_repository repo"
    if "count_char s 47 = Suc 0" "partition_at 47 s = (own, b, repo)" "match_owner own" "valid_repository repo"
    for own b repo
    using that partition_at_found [OF count_one_found, of s 47 own b repo] by auto
  obtain own b repo where pa: "partition_at 47 s = (own, b, repo)" by (rule prod_cases3)
  have "work_repository (JStr s) = Inr s \<longleftrightarrow> repository_ok (JStr s)"
    unfolding work_repository_def repository_ok_def
    using join [OF _ pa] pa by (auto simp: res_simps split)
  moreover have "work_repository v = Inr s \<Longrightarrow> v = JStr s"
    unfolding work_repository_def by (auto simp: res_simps case_prod_unfold Let_def)
  ultimately show ?thesis by blast
qed

lemma repository_ok_str: "repository_ok v \<Longrightarrow> \<exists>s. v = JStr s"
  by (auto simp: repository_ok_def)

text \<open>Commands\<close>

lemma map_JStr_eq [simp]: "map JStr a = map JStr b \<longleftrightarrow> a = b"
  by (simp add: inj_map_eq_map inj_def)

lemma argument_size_iff:
  "argument_size b v = Inr n \<longleftrightarrow>
     (\<exists>a. v = JStr a \<and> argument_ok a \<and> (b \<longrightarrow> a \<noteq> []) \<and> n = length (utf8 a))"
proof -
  have "length (utf8 a) = 0 \<longleftrightarrow> a = []" for a by (cases a) (simp_all add: utf8_Cons)
  then show ?thesis
    by (auto simp: argument_size_def argument_ok_def res_simps encode_utf8_def not_less)
qed

lemma arguments_size_iff:
  "arguments_size b vs = Inr n \<longleftrightarrow>
     (\<exists>argv. vs = map JStr argv \<and> list_all argument_ok argv \<and> (b \<and> argv \<noteq> [] \<longrightarrow> hd argv \<noteq> [])
        \<and> n = sum_list (map (\<lambda>a. length (utf8 a)) argv))"
proof (induction vs arbitrary: b n)
  case (Cons v vs)
  show ?case
  proof
    assume "arguments_size b (v # vs) = Inr n"
    then obtain a argv where "v = JStr a" "argument_ok a" "b \<longrightarrow> a \<noteq> []" "vs = map JStr argv"
      "list_all argument_ok argv" "n = length (utf8 a) + sum_list (map (\<lambda>a. length (utf8 a)) argv)"
      by (auto simp: res_simps argument_size_iff Cons.IH)
    then show "\<exists>argv. v # vs = map JStr argv \<and> list_all argument_ok argv
        \<and> (b \<and> argv \<noteq> [] \<longrightarrow> hd argv \<noteq> []) \<and> n = sum_list (map (\<lambda>a. length (utf8 a)) argv)"
      by (intro exI [of _ "a # argv"]) simp
  qed (auto simp: res_simps argument_size_iff Cons.IH Cons_eq_map_conv)
qed auto

lemma validate_command_iff [work_iff]:
  "validate_command v = Inr xs \<longleftrightarrow> v = JArr xs \<and> (\<exists>argv. xs = map JStr argv \<and> command_ok argv)"
  by (auto simp: validate_command_def command_ok_def res_simps arguments_size_iff)

lemma validate_outcome_iff [work_iff]:
  "validate_outcome_of_work r e = Inr u \<longleftrightarrow> outcome_ok r e"
  by (cases e) (auto simp: validate_outcome_of_work_def outcome_ok_def res_simps)

lemma earlier_unique: "denotes_time v t \<Longrightarrow> denotes_time v u \<Longrightarrow> t = u"
  by (auto simp: denotes_time_def)

lemma number_positive: "(\<exists>i. v = JInt i \<and> 0 \<le> i \<and> i \<le> m \<and> i \<noteq> 0) \<longleftrightarrow> number_ok v 1 m"
  by (auto simp: number_ok_def)

lemma validate_work_payload_iff [work_iff]: "validate_work_payload p = Inr u \<longleftrightarrow> work_payload_ok p"
  unfolding validate_work_payload_def work_payload_ok_def hash_ok_def number_positive [symmetric]
  unfolding number_ok_def bind_eq_Inr raise_if_eq_Inr work_iff not_not de_Morgan_disj not_less
  using repository_ok_str [of "dget p ''repository''"] by (cases u) (simp; blast)

lemma validate_countersignature_iff [work_iff]:
  "validate_countersignature q = Inr u \<longleftrightarrow> keys_are q COUNTERSIGNATURE_PAYLOAD_KEYS
     \<and> dget q ''schema'' = JStr (lit WORK_COUNTERSIGNATURE_SCHEMA)
     \<and> (\<exists>did. dget q ''verifier'' = JStr did \<and> match_did did)
     \<and> hash_ok (dget q ''receipt_payload_sha256'') \<and> hash_ok (dget q ''execution_sha256'')
     \<and> (\<exists>t. denotes_time (dget q ''observed_at'') t)"
  unfolding validate_countersignature_def hash_ok_def by (auto simp: res_simps work_iff)

lemma verify_wrapper_iff [work_iff]: "verify_wrapper L key v = Inr p \<longleftrightarrow> signed_by L key v p"
  unfolding verify_wrapper_def signed_by_def
  by (cases "dget (case v of JObj w \<Rightarrow> w | _ \<Rightarrow> []) ''signature''")
    (auto simp: res_simps work_iff Let_def verify_signature_value_def)

abbreviation payload_sha256 :: "lib \<Rightarrow> pairs \<Rightarrow> str" where
  "payload_sha256 L p \<equiv> sha256_hex L (canonical_json (float_repr L) (JObj p))"

abbreviation verifiers :: "pairs list \<Rightarrow> json list" where
  "verifiers qs \<equiv> map (\<lambda>q. dget q ''verifier'') qs"

lemma check_countersignature_iff:
  assumes "denotes_time (dget p ''completed_at'') u"
  shows "check_countersignature L iss (JStr (payload_sha256 L p)) (execution_sha256 L p) u seen c = Inr w
    \<longleftrightarrow> (\<exists>q. countersigns L p c q \<and> w = dget q ''verifier'' \<and> w \<noteq> iss \<and> w \<notin> set seen)"
    (is "?code = Inr w \<longleftrightarrow> ?spec")
proof
  assume "?code = Inr w"
  then obtain q t where "signed_by L ''verifier'' c q" "validate_countersignature q = Inr ()"
    "dget q ''verifier'' \<noteq> iss" "dget q ''verifier'' \<notin> set seen"
    "dget q ''receipt_payload_sha256'' = JStr (payload_sha256 L p)"
    "dget q ''execution_sha256'' = JStr (execution_sha256 L p)"
    "denotes_time (dget q ''observed_at'') t" "\<not> earlier t u" "w = dget q ''verifier''"
    unfolding check_countersignature_def by (auto simp: res_simps Let_def verify_wrapper_iff work_timestamp_iff)
  with assms show ?spec unfolding countersigns_def validate_countersignature_iff by blast
next
  assume ?spec
  then obtain q t u' did where q: "signed_by L ''verifier'' c q" "keys_are q COUNTERSIGNATURE_PAYLOAD_KEYS"
    "dget q ''schema'' = JStr (lit WORK_COUNTERSIGNATURE_SCHEMA)" "hash_ok (dget q ''receipt_payload_sha256'')"
    "hash_ok (dget q ''execution_sha256'')" "dget q ''receipt_payload_sha256'' = JStr (payload_sha256 L p)"
    "dget q ''execution_sha256'' = JStr (execution_sha256 L p)" "denotes_time (dget q ''observed_at'') t"
    "denotes_time (dget p ''completed_at'') u'" "\<not> earlier t u'" "dget q ''verifier'' = JStr did" "match_did did"
    "w = dget q ''verifier''" "w \<noteq> iss" "w \<notin> set seen"
    unfolding countersigns_def signed_by_def by blast
  then have "validate_countersignature q = Inr ()" unfolding validate_countersignature_iff by blast
  moreover have "u' = u" using q(9) assms by (rule earlier_unique)
  moreover have "verify_wrapper L ''verifier'' c = Inr q" "work_timestamp (dget q ''observed_at'') = Inr t"
    using q by (simp_all add: verify_wrapper_iff work_timestamp_iff)
  ultimately show "?code = Inr w" using q by (simp add: check_countersignature_def Let_def)
qed

lemma check_countersignatures_iff:
  assumes "denotes_time (dget p ''completed_at'') u"
  shows "check_countersignatures L iss (JStr (payload_sha256 L p)) (execution_sha256 L p) u seen cs = Inr ()
    \<longleftrightarrow> (\<exists>qs. list_all2 (countersigns L p) cs qs \<and> distinct (iss # verifiers qs)
           \<and> set (verifiers qs) \<inter> set seen = {})"
proof (induction cs arbitrary: seen)
  case (Cons c cs)
  show ?case (is "?code \<longleftrightarrow> (\<exists>qs. ?spec qs)")
  proof
    assume ?code
    then obtain q qs where "countersigns L p c q" "dget q ''verifier'' \<noteq> iss" "dget q ''verifier'' \<notin> set seen"
      "list_all2 (countersigns L p) cs qs" "distinct (iss # verifiers qs)"
      "set (verifiers qs) \<inter> set (dget q ''verifier'' # seen) = {}"
      by (auto simp: res_simps check_countersignature_iff [OF assms] Cons.IH)
    then have "?spec (q # qs)" by auto
    then show "\<exists>qs. ?spec qs" ..
  next
    assume "\<exists>qs. ?spec qs"
    then obtain q qs where "countersigns L p c q" "list_all2 (countersigns L p) cs qs"
      "distinct (iss # verifiers (q # qs))" "set (verifiers (q # qs)) \<inter> set seen = {}"
      by (metis list_all2_Cons1)
    then show ?code
      by (auto simp: res_simps check_countersignature_iff [OF assms] Cons.IH intro!: exI [of _ q] exI [of _ qs])
  qed
qed simp

lemma verify_and_decode_iff:
  "verify_and_decode L src = Inr (summary, env) \<longleftrightarrow>
     decode_work src = Inr env \<and> (\<exists>p qs. work_receipt_ok L env p qs
       \<and> summary = \<lparr>ws_payload = p, ws_countersignatures = length qs, ws_matching = length qs\<rparr>)"
    (is "?code \<longleftrightarrow> ?spec")
proof
  assume ?code
  then obtain p cs w u where env: "decode_work src = Inr env" "keys_are env ENVELOPE_KEYS"
    "dget env ''schema'' = JStr (lit WORK_RECEIPT_ENVELOPE_SCHEMA)" "signed_by L ''issuer'' (dget env ''receipt'') p"
    "work_payload_ok p" "dget env ''countersignatures'' = JArr cs" "length cs \<le> MAX_COUNTERSIGNATURES"
    "dget env ''receipt'' = JObj w" "denotes_time (dget p ''completed_at'') u"
    "check_countersignatures L (dget p ''issuer'') (dget w ''payload_sha256'') (execution_sha256 L p) u [] cs = Inr ()"
    "summary = \<lparr>ws_payload = p, ws_countersignatures = length cs, ws_matching = length cs\<rparr>"
    unfolding verify_and_decode_def by (auto simp: res_simps Let_def work_iff not_less)
  have "dget w ''payload_sha256'' = JStr (payload_sha256 L p)" using env(4,8) by (auto simp: signed_by_def)
  with env(10) obtain qs where qs: "list_all2 (countersigns L p) cs qs" "distinct (dget p ''issuer'' # verifiers qs)"
    using check_countersignatures_iff [OF env(9)] by auto
  then have "length cs = length qs" by (simp add: list_all2_lengthD)
  with env qs show ?spec unfolding work_receipt_ok_def by metis
next
  assume ?spec
  then obtain p qs cs where env: "decode_work src = Inr env" "keys_are env ENVELOPE_KEYS"
    "dget env ''schema'' = JStr (lit WORK_RECEIPT_ENVELOPE_SCHEMA)" "signed_by L ''issuer'' (dget env ''receipt'') p"
    "work_payload_ok p" "dget env ''countersignatures'' = JArr cs" "list_all2 (countersigns L p) cs qs"
    "length qs \<le> MAX_COUNTERSIGNATURES" "distinct (dget p ''issuer'' # verifiers qs)"
    "summary = \<lparr>ws_payload = p, ws_countersignatures = length qs, ws_matching = length qs\<rparr>"
    unfolding work_receipt_ok_def by blast
  obtain u where u: "denotes_time (dget p ''completed_at'') u" using env(5) unfolding work_payload_ok_def by blast
  obtain w where w: "dget env ''receipt'' = JObj w" "dget w ''payload_sha256'' = JStr (payload_sha256 L p)"
    using env(4) unfolding signed_by_def by blast
  have "check_countersignatures L (dget p ''issuer'') (dget w ''payload_sha256'') (execution_sha256 L p) u [] cs = Inr ()"
    unfolding w(2) check_countersignatures_iff [OF u] using env(7,9) by auto
  moreover have "verify_wrapper L ''issuer'' (JObj w) = Inr p" "validate_work_payload p = Inr ()"
    "work_timestamp (dget p ''completed_at'') = Inr u" using env(4,5) u w(1) by (simp_all add: work_iff)
  moreover have "length cs = length qs" using env(7) by (rule list_all2_lengthD)
  ultimately show ?code using env(1-3,6,8,10) w(1) by (simp add: verify_and_decode_def Let_def)
qed

end
