(* ===== verification/Work_Evidence.thy ===== *)
theory Work_Evidence
  imports Work_Receipt
begin

text \<open>
  \<open>work_evidence.py\<close>: the comparison of a receipt and of saved outputs with what the operator
  expects. Reading a file is what the five system calls on it answer; everything after is a
  function of the bytes and of what they parse to. The last section is the declarative reading of
  the report's status.
\<close>

abbreviation evidence_error :: "string \<Rightarrow> exc" where
  "evidence_error \<equiv> EvidenceInputError"

definition MAX_EXPECTATION_BYTES :: nat where "MAX_EXPECTATION_BYTES = 32 * 1024"
definition EXPECTATION_SCHEMA :: string where "EXPECTATION_SCHEMA = ''work-evidence-expectation-v1''"

definition COMPARISON_FIELDS :: "string list" where
  "COMPARISON_FIELDS = [''repository'', ''commit'', ''command'', ''timeout_ms'', ''issuer'']"

definition CHECK_NAMES :: "string list" where
  "CHECK_NAMES = [''receipt''] @ COMPARISON_FIELDS @ [''required_verifiers'', ''execution'', ''stdout'', ''stderr'']"

section \<open>Reading a file\<close>

record file_meta =
  fm_regular :: bool
  fm_inode :: "nat \<times> nat"     \<comment> \<open>\<open>st_dev\<close>, \<open>st_ino\<close>\<close>
  fm_size :: nat
  fm_times :: "int \<times> int"      \<comment> \<open>\<open>st_mtime_ns\<close>, \<open>st_ctime_ns\<close>\<close>

text \<open>
  What \<open>lstat\<close>, \<open>open\<close> with \<open>fstat\<close>, \<open>read\<close> and the last \<open>fstat\<close> give (\<open>None\<close> is an \<open>OSError\<close>),
  what the bytes parse to, and whether the text has one of the constants \<open>NaN\<close> and \<open>Infinity\<close>.
\<close>

record file_read =
  fr_before :: "file_meta option"
  fr_opened :: "file_meta option"
  fr_data :: "bytes option"
  fr_after :: "file_meta option"
  fr_doc :: doc
  fr_constants :: bool

definition file_answer :: "'a option \<Rightarrow> 'a res" where
  "file_answer x = some_or (evidence_error ''file_unreadable'') x"

definition read_bounded :: "file_read \<Rightarrow> nat \<Rightarrow> bytes res" where
  "read_bounded f maximum =
     bind (file_answer (fr_before f)) (\<lambda>lstat.
     bind (raise_if (\<not> fm_regular lstat) (evidence_error ''regular_file_required'')) (\<lambda>_.
     bind (file_answer (fr_opened f)) (\<lambda>opened.
     bind (raise_if (\<not> fm_regular opened \<or> fm_inode lstat \<noteq> fm_inode opened)
       (evidence_error ''file_changed'')) (\<lambda>_.
     bind (raise_if (maximum < fm_size opened) (evidence_error ''file_too_large'')) (\<lambda>_.
     bind (file_answer (fr_data f)) (\<lambda>content.
     let data = take (maximum + 1) content in
     bind (file_answer (fr_after f)) (\<lambda>after_read.
     bind (raise_if (maximum < length data) (evidence_error ''file_too_large'')) (\<lambda>_.
     bind (raise_if (fm_size opened \<noteq> fm_size after_read \<or> fm_times opened \<noteq> fm_times after_read
         \<or> length data \<noteq> fm_size after_read) (evidence_error ''file_changed'')) (\<lambda>_.
     ret data)))))))))"

definition strict_json :: "file_read \<Rightarrow> pairs res" where
  "strict_json f =
     bind (case fr_doc f of
         Doc v \<Rightarrow> if has_duplicate_key v \<or> fr_constants f then raise (evidence_error ''invalid_json'') else ret v
       | _ \<Rightarrow> raise (evidence_error ''invalid_json'')) (\<lambda>value.
     as_obj (evidence_error ''object_required'') value)"

section \<open>The expectation\<close>

definition expected_repository :: "json \<Rightarrow> unit res" where
  "expected_repository v = (case (case v of JStr s \<Rightarrow> split_all 47 s | _ \<Rightarrow> []) of
      [own, repo] \<Rightarrow> raise_if (\<not> match_owner own \<or> \<not> valid_repository repo) (evidence_error ''invalid_repository'')
    | _ \<Rightarrow> raise (evidence_error ''invalid_repository''))"

definition expected_commit :: "json \<Rightarrow> unit res" where
  "expected_commit v = bind (as_str (evidence_error ''invalid_commit'') v) (\<lambda>s.
     raise_if (\<not> match_sha s) (evidence_error ''invalid_commit''))"

definition expected_timeout :: "json \<Rightarrow> unit res" where
  "expected_timeout v = bind (int_at_least 1 (evidence_error ''invalid_timeout'') v) (\<lambda>i.
     raise_if (3600000 < i) (evidence_error ''invalid_timeout''))"

definition expected_argument :: "bool \<Rightarrow> json \<Rightarrow> nat res" where
  "expected_argument is_first v =
     bind (as_str (evidence_error ''invalid_command'') v) (\<lambda>argument.
     bind (raise_if (0 \<in> set argument) (evidence_error ''invalid_command'')) (\<lambda>_.
     bind (except_raise (\<lambda>e. e = UnicodeEncodeError) (evidence_error ''invalid_command'')
       (encode_utf8 argument)) (\<lambda>encoded.
     bind (raise_if (MAX_COMMAND_ARGUMENT_BYTES < length encoded \<or> is_first \<and> length encoded = 0)
       (evidence_error ''invalid_command'')) (\<lambda>_. ret (length encoded)))))"

fun expected_arguments :: "bool \<Rightarrow> json list \<Rightarrow> nat res" where
  "expected_arguments is_first [] = ret 0"
| "expected_arguments is_first (v # vs) =
     bind (expected_argument is_first v) (\<lambda>n. bind (expected_arguments False vs) (\<lambda>m. ret (n + m)))"

definition expected_command :: "json \<Rightarrow> unit res" where
  "expected_command v =
     bind (as_arr (evidence_error ''invalid_command'') v) (\<lambda>command.
     bind (raise_if (command = [] \<or> MAX_COMMAND_ARGUMENTS < length command) (evidence_error ''invalid_command'')) (\<lambda>_.
     bind (expected_arguments True command) (\<lambda>total.
     raise_if (MAX_COMMAND_BYTES < total) (evidence_error ''invalid_command''))))"

definition expected_did :: "json \<Rightarrow> str res" where
  "expected_did v = except_raise is_ProtocolValueError (evidence_error ''invalid_identity'') (validate_did_value v)"

definition expected_verifiers :: "json \<Rightarrow> json \<Rightarrow> unit res" where
  "expected_verifiers issuer_value v =
     bind (as_arr (evidence_error ''invalid_verifiers'') v) (\<lambda>required.
     bind (raise_if (MAX_COUNTERSIGNATURES < length required) (evidence_error ''invalid_verifiers'')) (\<lambda>_.
     bind (expected_did issuer_value) (\<lambda>_.
     bind (map_res expected_did required) (\<lambda>_.
     raise_if (\<not> distinct required \<or> issuer_value \<in> set required) (evidence_error ''invalid_verifiers'')))))"

definition expectation :: "file_read \<Rightarrow> pairs res" where
  "expectation f =
     bind (read_bounded f MAX_EXPECTATION_BYTES) (\<lambda>_.
     bind (strict_json f) (\<lambda>value.
     bind (raise_if (\<not> keys_are value (''schema'' # COMPARISON_FIELDS @ [''required_verifiers''])
         \<or> dget value ''schema'' \<noteq> JStr (lit EXPECTATION_SCHEMA)) (evidence_error ''invalid_expectation_schema'')) (\<lambda>_.
     bind (expected_repository (dget value ''repository'')) (\<lambda>_.
     bind (expected_commit (dget value ''commit'')) (\<lambda>_.
     bind (expected_timeout (dget value ''timeout_ms'')) (\<lambda>_.
     bind (expected_command (dget value ''command'')) (\<lambda>_.
     bind (expected_verifiers (dget value ''issuer'') (dget value ''required_verifiers'')) (\<lambda>_.
     ret value))))))))"

section \<open>The report\<close>

record evidence_report =
  er_status :: string
  er_checks :: "(string \<times> str) list"

abbreviation set_check :: "string \<Rightarrow> string \<Rightarrow> (string \<times> str) list \<Rightarrow> (string \<times> str) list" where
  "set_check name result \<equiv> AList.update name (lit result)"

definition nothing_checked :: "(string \<times> str) list" where   \<comment> \<open>\<open>dict.fromkeys(CHECK_NAMES, "not_checked")\<close>\<close>
  "nothing_checked = map (\<lambda>name. (name, lit ''not_checked'')) CHECK_NAMES"

definition compare_fields :: "pairs \<Rightarrow> pairs \<Rightarrow> (string \<times> str) list \<Rightarrow> (string \<times> str) list" where
  "compare_fields payload expected checks = foldl (\<lambda>c field.
     set_check field (if dget payload field = dget expected field then ''matched'' else ''mismatch'') c) checks COMPARISON_FIELDS"

definition item_verifier :: "json \<Rightarrow> json" where   \<comment> \<open>\<open>item["payload"]["verifier"]\<close>\<close>
  "item_verifier item = (case item of
      JObj w \<Rightarrow> (case dget w ''payload'' of JObj q \<Rightarrow> dget q ''verifier'' | _ \<Rightarrow> JNull) | _ \<Rightarrow> JNull)"

definition json_items :: "json \<Rightarrow> json list" where
  "json_items v = (case v of JArr xs \<Rightarrow> xs | _ \<Rightarrow> [])"

definition verifier_check :: "pairs \<Rightarrow> pairs \<Rightarrow> string" where
  "verifier_check envelope expected =
     (let required = json_items (dget expected ''required_verifiers'');
          found = map item_verifier (json_items (dget envelope ''countersignatures'')) in
      if required = [] then ''not_requested''
      else if set required \<subseteq> set found then ''matched'' else ''missing'')"

definition output_check :: "lib \<Rightarrow> pairs \<Rightarrow> string \<Rightarrow> file_read option \<Rightarrow> string res" where
  "output_check L payload name file_option = (case file_option of
      None \<Rightarrow> ret ''not_provided''
    | Some f \<Rightarrow> bind (read_bounded f MAX_OUTPUT_BYTES) (\<lambda>data.
        ret (if JInt (int (length data)) = dget payload (name @ ''_bytes'')
               \<and> JStr (sha256_hex L data) = dget payload (name @ ''_sha256'') then ''matched'' else ''mismatch'')))"

definition evidence_status :: "(string \<times> str) list \<Rightarrow> string" where
  "evidence_status checks =
     (if lit ''mismatch'' \<in> set (map snd checks) \<or> map_of checks ''execution'' \<noteq> Some (lit ''passed'') then ''does_not_match''
      else if lit ''missing'' \<in> set (map snd checks) \<or> lit ''not_provided'' \<in> set (map snd checks) then ''incomplete''
      else ''matches_local_expectations'')"

definition evidence_error_caught :: "exc \<Rightarrow> bool" where
  "evidence_error_caught e \<longleftrightarrow> is_ValueError e \<or> is_WorkReceiptError e \<or> e = RecursionError"

text \<open>\<open>try: envelope = _strict_json(raw); summary = verify_work_receipt(envelope) except ...\<close>\<close>

definition checked_receipt :: "lib \<Rightarrow> file_read \<Rightarrow> (pairs \<times> work_summary) option res" where
  "checked_receipt L f =
     (case bind (strict_json f) (\<lambda>envelope.
           bind (verify_work_receipt L (ReceiptValue (JObj envelope))) (\<lambda>summary. ret (envelope, summary))) of
        Inl e \<Rightarrow> if evidence_error_caught e then ret None else raise e
      | Inr x \<Rightarrow> ret (Some x))"

definition result_text :: "json \<Rightarrow> str" where
  "result_text v = (case v of JStr s \<Rightarrow> s | _ \<Rightarrow> [])"

definition inspect_work_evidence ::
  "lib \<Rightarrow> file_read \<Rightarrow> file_read option \<Rightarrow> file_read option \<Rightarrow> file_read option \<Rightarrow> evidence_report res" where
  "inspect_work_evidence L expectation_file receipt_file stdout_file stderr_file =
     bind (expectation expectation_file) (\<lambda>expected.
     case receipt_file of
       None \<Rightarrow> ret \<lparr>er_status = ''incomplete'', er_checks = set_check ''receipt'' ''not_provided'' nothing_checked\<rparr>
     | Some f \<Rightarrow>
         bind (read_bounded f MAX_RECEIPT_BYTES) (\<lambda>_.
         bind (checked_receipt L f) (\<lambda>checked. case checked of
             None \<Rightarrow> ret \<lparr>er_status = ''invalid_receipt'', er_checks = set_check ''receipt'' ''invalid'' nothing_checked\<rparr>
           | Some (envelope, summary) \<Rightarrow>
               let payload = ws_payload summary;
                   checks = compare_fields payload expected (set_check ''receipt'' ''valid'' nothing_checked);
                   checks = set_check ''required_verifiers'' (verifier_check envelope expected) checks;
                   checks = AList.update ''execution'' (result_text (dget payload ''result'')) checks in
               bind (output_check L payload ''stdout'' stdout_file) (\<lambda>out.
               bind (output_check L payload ''stderr'' stderr_file) (\<lambda>err.
               let checks = set_check ''stderr'' err (set_check ''stdout'' out checks) in
               ret \<lparr>er_status = evidence_status checks, er_checks = checks\<rparr>)))))"

definition check_line :: "evidence_report \<Rightarrow> string \<Rightarrow> str" where
  "check_line report name = lit ''| '' @ lit name @ lit '' | `'' @ get_default (er_checks report) name [] @ lit ''` |''"

fun join_lines :: "str list \<Rightarrow> str" where   \<comment> \<open>\<open>"\n".join(lines) + "\n"\<close>\<close>
  "join_lines [] = [10]"
| "join_lines (l # ls) = l @ [10] @ (if ls = [] then [] else join_lines ls)"

definition render_evidence_markdown :: "evidence_report \<Rightarrow> str" where
  "render_evidence_markdown report = join_lines
     ([lit ''# Local Work Evidence'', [], lit ''Status: `'' @ lit (er_status report) @ lit ''`'', [],
       lit ''| Check | Result |'', lit ''| --- | --- |'']
      @ map (check_line report) CHECK_NAMES
      @ [[], lit ''Agreement: `not_assessed`. Payment: `not_assessed`.'',
         lit ''Independent execution: `not_established`.'', [],
         lit ''Local expectations are operator supplied, not an authenticated agreement.'',
         lit ''This check does not execute work, establish its quality, or verify payment.''])"

section \<open>What the status says\<close>

definition evidence_agrees ::
  "lib \<Rightarrow> file_read \<Rightarrow> file_read option \<Rightarrow> file_read option \<Rightarrow> file_read option \<Rightarrow> bool" where
  "evidence_agrees L ef rf sf tf \<longleftrightarrow> (\<exists>expected f raw env p qs.
     expectation ef = Inr expected \<and> rf = Some f \<and> read_bounded f MAX_RECEIPT_BYTES = Inr raw
     \<and> strict_json f = Inr env \<and> work_receipt_ok L env p qs
     \<and> (\<forall>field \<in> set COMPARISON_FIELDS. dget p field = dget expected field)
     \<and> dget p ''result'' = JStr (lit ''passed'')
     \<and> set (json_items (dget expected ''required_verifiers'')) \<subseteq> (\<lambda>q. dget q ''verifier'') ` set qs
     \<and> (\<exists>s out. sf = Some s \<and> read_bounded s MAX_OUTPUT_BYTES = Inr out
          \<and> dget p ''stdout_bytes'' = JInt (int (length out)) \<and> dget p ''stdout_sha256'' = JStr (sha256_hex L out))
     \<and> (\<exists>t err. tf = Some t \<and> read_bounded t MAX_OUTPUT_BYTES = Inr err
          \<and> dget p ''stderr_bytes'' = JInt (int (length err)) \<and> dget p ''stderr_sha256'' = JStr (sha256_hex L err)))"

lemma item_verifiers:
  "list_all2 (countersigns L p) cs qs \<Longrightarrow> map item_verifier cs = map (\<lambda>q. dget q ''verifier'') qs"
proof (induction cs arbitrary: qs)
  case (Cons c cs)
  then obtain q r where "qs = q # r" "countersigns L p c q" "list_all2 (countersigns L p) cs r"
    by (auto simp: list_all2_Cons1)
  moreover from this have "item_verifier c = dget q ''verifier''"
    by (auto simp: countersigns_def signed_by_def item_verifier_def)
  ultimately show ?case using Cons.IH by simp
qed simp

lemma checked_receipt_iff:
  "checked_receipt L f = Inr (Some (env, summary)) \<longleftrightarrow> strict_json f = Inr env \<and>
     (\<exists>p qs. work_receipt_ok L env p qs
        \<and> summary = \<lparr>ws_payload = p, ws_countersignatures = length qs, ws_matching = length qs\<rparr>)"
proof -
  have "verify_work_receipt L (ReceiptValue (JObj env)) = Inr summary \<longleftrightarrow>
     (\<exists>p qs. work_receipt_ok L env p qs
        \<and> summary = \<lparr>ws_payload = p, ws_countersignatures = length qs, ws_matching = length qs\<rparr>)"
    unfolding verify_work_receipt_def bind_eq_Inr
    by (auto simp: verify_and_decode_iff decode_work_def decode_source_def split: prod.split)
  then show ?thesis
    unfolding checked_receipt_def by (auto simp: res_simps split: sum.split if_splits)
qed

lemma status_of_checks:
  "evidence_status (set_check ''stderr'' e (set_check ''stdout'' d (AList.update ''execution'' x
      (set_check ''required_verifiers'' v (compare_fields p expected (set_check ''receipt'' ''valid'' nothing_checked))))))
    = ''matches_local_expectations'' \<longleftrightarrow>
   (\<forall>field \<in> set COMPARISON_FIELDS. dget p field = dget expected field) \<and> x = lit ''passed''
   \<and> v \<notin> {''mismatch'', ''missing'', ''not_provided''} \<and> d \<notin> {''mismatch'', ''missing'', ''not_provided''}
   \<and> e \<notin> {''mismatch'', ''missing'', ''not_provided''}"
proof -
  define m where "m field = (if dget p field = dget expected field then ''matched'' else ''mismatch'')" for field
  have m: "''mismatch'' = m field \<longleftrightarrow> dget p field \<noteq> dget expected field"
    "''missing'' \<noteq> m field" "''not_provided'' \<noteq> m field" for field
    by (simp_all add: m_def)
  have checks: "set_check ''stderr'' e (set_check ''stdout'' d (AList.update ''execution'' x
      (set_check ''required_verifiers'' v (compare_fields p expected (set_check ''receipt'' ''valid'' nothing_checked)))))
    = [(''receipt'', lit ''valid''), (''repository'', lit (m ''repository'')), (''commit'', lit (m ''commit'')),
       (''command'', lit (m ''command'')), (''timeout_ms'', lit (m ''timeout_ms'')), (''issuer'', lit (m ''issuer'')),
       (''required_verifiers'', lit v), (''execution'', x), (''stdout'', lit d), (''stderr'', lit e)]"
    unfolding compare_fields_def m_def [symmetric]
    by (simp add: nothing_checked_def CHECK_NAMES_def COMPARISON_FIELDS_def)
  show ?thesis
    unfolding evidence_status_def checks COMPARISON_FIELDS_def
    by (cases "x = lit ''passed''") (simp add: m, blast, simp)
qed

lemma output_check_matched:
  "(\<exists>r. output_check L p name f = Inr r \<and> r \<notin> {''mismatch'', ''missing'', ''not_provided''}) \<longleftrightarrow>
     (\<exists>s data. f = Some s \<and> read_bounded s MAX_OUTPUT_BYTES = Inr data
        \<and> dget p (name @ ''_bytes'') = JInt (int (length data)) \<and> dget p (name @ ''_sha256'') = JStr (sha256_hex L data))"
proof (cases f)
  case (Some s)
  show ?thesis by (cases "read_bounded s MAX_OUTPUT_BYTES") (auto simp: output_check_def Some)
qed (simp add: output_check_def)

lemma verifier_check_fine:
  assumes "work_receipt_ok L env p qs"
  shows "verifier_check env expected \<notin> {''mismatch'', ''missing'', ''not_provided''} \<longleftrightarrow>
     set (json_items (dget expected ''required_verifiers'')) \<subseteq> (\<lambda>q. dget q ''verifier'') ` set qs"
proof -
  obtain cs where cs: "dget env ''countersignatures'' = JArr cs" "list_all2 (countersigns L p) cs qs"
    using assms by (auto simp: work_receipt_ok_def)
  have "set (map item_verifier cs) = (\<lambda>q. dget q ''verifier'') ` set qs"
    unfolding item_verifiers [OF cs(2)] by simp
  then show ?thesis by (auto simp: verifier_check_def Let_def json_items_def cs(1) split: json.splits)
qed

lemma passed_result:
  assumes "work_receipt_ok L env p qs"
  shows "result_text (dget p ''result'') = lit ''passed'' \<longleftrightarrow> dget p ''result'' = JStr (lit ''passed'')"
  using assms by (auto simp: work_receipt_ok_def work_payload_ok_def outcome_ok_def result_text_def)

lemma er_status_of: "(\<exists>r. ret \<lparr>er_status = st, er_checks = cs\<rparr> = Inr r \<and> er_status r = x) \<longleftrightarrow> st = x"
  by simp

lemma bind_ret: "bind (ret a) f = f a"
  by simp

lemma only_value: "(\<exists>r. Inr a = Inr r \<and> P r) \<longleftrightarrow> P a"
  by auto

text \<open>The status of a report over a receipt that was accepted\<close>

lemma matching_report_iff:
  assumes ok: "work_receipt_ok L env p qs"
  shows "(\<exists>r. bind (output_check L p ''stdout'' sf) (\<lambda>out. bind (output_check L p ''stderr'' tf) (\<lambda>err.
       ret \<lparr>er_status = evidence_status (set_check ''stderr'' err (set_check ''stdout'' out
           (AList.update ''execution'' (result_text (dget p ''result'')) (set_check ''required_verifiers'' (verifier_check env expected)
             (compare_fields p expected (set_check ''receipt'' ''valid'' nothing_checked)))))),
         er_checks = set_check ''stderr'' err (set_check ''stdout'' out
           (AList.update ''execution'' (result_text (dget p ''result'')) (set_check ''required_verifiers'' (verifier_check env expected)
             (compare_fields p expected (set_check ''receipt'' ''valid'' nothing_checked)))))\<rparr>)) = Inr r
         \<and> er_status r = ''matches_local_expectations'') \<longleftrightarrow>
     (\<forall>field \<in> set COMPARISON_FIELDS. dget p field = dget expected field)
     \<and> dget p ''result'' = JStr (lit ''passed'')
     \<and> set (json_items (dget expected ''required_verifiers'')) \<subseteq> (\<lambda>q. dget q ''verifier'') ` set qs
     \<and> (\<exists>r. output_check L p ''stdout'' sf = Inr r \<and> r \<notin> {''mismatch'', ''missing'', ''not_provided''})
     \<and> (\<exists>r. output_check L p ''stderr'' tf = Inr r \<and> r \<notin> {''mismatch'', ''missing'', ''not_provided''})"
proof (cases "output_check L p ''stdout'' sf")
  case (Inr d)
  show ?thesis
  proof (cases "output_check L p ''stderr'' tf")
    case err: (Inr e)
    show ?thesis
      unfolding Inr err bind_ret er_status_of status_of_checks verifier_check_fine [OF ok] passed_result [OF ok] only_value
      by blast
  qed (simp add: Inr)
qed simp

text \<open>The declarative reading, where the inputs are known\<close>

lemma agrees_at:
  assumes "expectation ef = Inr expected" "rf = Some f" "read_bounded f MAX_RECEIPT_BYTES = Inr raw"
    and "strict_json f = Inr env" and ok: "work_receipt_ok L env p qs"
    and v: "\<And>p' qs'. work_receipt_ok L env p' qs' \<Longrightarrow>
      p' = p \<and> (\<lambda>q. dget q ''verifier'') ` set qs' = (\<lambda>q. dget q ''verifier'') ` set qs"
  shows "evidence_agrees L ef rf sf tf \<longleftrightarrow>
     (\<forall>field \<in> set COMPARISON_FIELDS. dget p field = dget expected field)
     \<and> dget p ''result'' = JStr (lit ''passed'')
     \<and> set (json_items (dget expected ''required_verifiers'')) \<subseteq> (\<lambda>q. dget q ''verifier'') ` set qs
     \<and> (\<exists>s out. sf = Some s \<and> read_bounded s MAX_OUTPUT_BYTES = Inr out
          \<and> dget p (''stdout'' @ ''_bytes'') = JInt (int (length out)) \<and> dget p (''stdout'' @ ''_sha256'') = JStr (sha256_hex L out))
     \<and> (\<exists>t err. tf = Some t \<and> read_bounded t MAX_OUTPUT_BYTES = Inr err
          \<and> dget p (''stderr'' @ ''_bytes'') = JInt (int (length err)) \<and> dget p (''stderr'' @ ''_sha256'') = JStr (sha256_hex L err))"
    (is "_ \<longleftrightarrow> ?R")
proof
  assume "evidence_agrees L ef rf sf tf"
  then obtain p' qs' where "work_receipt_ok L env p' qs'"
     "\<forall>field \<in> set COMPARISON_FIELDS. dget p' field = dget expected field"
     "dget p' ''result'' = JStr (lit ''passed'')"
     "set (json_items (dget expected ''required_verifiers'')) \<subseteq> (\<lambda>q. dget q ''verifier'') ` set qs'"
     "\<exists>s out. sf = Some s \<and> read_bounded s MAX_OUTPUT_BYTES = Inr out
          \<and> dget p' ''stdout_bytes'' = JInt (int (length out)) \<and> dget p' ''stdout_sha256'' = JStr (sha256_hex L out)"
     "\<exists>t err. tf = Some t \<and> read_bounded t MAX_OUTPUT_BYTES = Inr err
          \<and> dget p' ''stderr_bytes'' = JInt (int (length err)) \<and> dget p' ''stderr_sha256'' = JStr (sha256_hex L err)"
    using assms(1-4) unfolding evidence_agrees_def by force
  then show ?R using v [OF \<open>work_receipt_ok L env p' qs'\<close>] by simp
next
  assume ?R
  then show "evidence_agrees L ef rf sf tf"
    unfolding evidence_agrees_def append.simps using assms(1-4) ok by blast
qed

text \<open>C19. The report says that the evidence matches the local expectations exactly when all of it agrees:
  expectation and receipt are readable within their bounds, the receipt meets the contract of the
  offline verifier, every compared field is the expected one, the result is \<open>passed\<close>, every required
  verifier countersigned, and both outputs were supplied and have the signed sizes and hashes.\<close>

theorem evidence_status_is_agreement:
  "(\<exists>r. inspect_work_evidence L ef rf sf tf = Inr r \<and> er_status r = ''matches_local_expectations'')
    \<longleftrightarrow> evidence_agrees L ef rf sf tf"
proof (cases "expectation ef")
  case (Inl e)
  then show ?thesis by (simp add: inspect_work_evidence_def evidence_agrees_def)
next
  case (Inr expected)
  show ?thesis
  proof (cases rf)
    case None
    with Inr show ?thesis by (simp add: inspect_work_evidence_def evidence_agrees_def)
  next
    case (Some f)
    show ?thesis
    proof (cases "read_bounded f MAX_RECEIPT_BYTES")
      case (Inl e)
      with Inr Some show ?thesis by (simp add: inspect_work_evidence_def evidence_agrees_def)
    next
      case raw: (Inr raw)
      show ?thesis
      proof (cases "\<exists>env p qs. strict_json f = Inr env \<and> work_receipt_ok L env p qs")
        case False
        then have "checked_receipt L f \<noteq> Inr (Some x)" for x
          using checked_receipt_iff by (cases x) blast
        then show ?thesis using False Inr Some raw
          by (auto simp: inspect_work_evidence_def evidence_agrees_def res_simps split: option.splits)
      next
        case True
        then obtain env p qs where env: "strict_json f = Inr env" and ok: "work_receipt_ok L env p qs" by blast
        have uniq: "p' = p \<and> map (\<lambda>q. dget q ''verifier'') qs' = map (\<lambda>q. dget q ''verifier'') qs"
          if o: "work_receipt_ok L env p' qs'" for p' qs'
        proof -
          have "p' = p" using o ok by (auto simp: work_receipt_ok_def signed_by_def)
          moreover obtain cs where "list_all2 (countersigns L p) cs qs" "list_all2 (countersigns L p') cs qs'"
            using o ok by (auto simp: work_receipt_ok_def)
          ultimately show ?thesis using item_verifiers by metis
        qed
        have "checked_receipt L f = Inr (Some (env,
            \<lparr>ws_payload = p, ws_countersignatures = length qs, ws_matching = length qs\<rparr>))"
          unfolding checked_receipt_iff using env ok by blast
        then have "(\<exists>r. inspect_work_evidence L ef rf sf tf = Inr r \<and> er_status r = ''matches_local_expectations'') \<longleftrightarrow>
           (\<forall>field \<in> set COMPARISON_FIELDS. dget p field = dget expected field)
           \<and> dget p ''result'' = JStr (lit ''passed'')
           \<and> set (json_items (dget expected ''required_verifiers'')) \<subseteq> (\<lambda>q. dget q ''verifier'') ` set qs
           \<and> (\<exists>r. output_check L p ''stdout'' sf = Inr r \<and> r \<notin> {''mismatch'', ''missing'', ''not_provided''})
           \<and> (\<exists>r. output_check L p ''stderr'' tf = Inr r \<and> r \<notin> {''mismatch'', ''missing'', ''not_provided''})"
          using Inr Some raw unfolding matching_report_iff [OF ok, of sf tf expected, symmetric]
          by (simp add: inspect_work_evidence_def Let_def)
        also have "\<dots> \<longleftrightarrow> evidence_agrees L ef rf sf tf"
        proof -
          have v: "p' = p \<and> (\<lambda>q. dget q ''verifier'') ` set qs' = (\<lambda>q. dget q ''verifier'') ` set qs"
            if "work_receipt_ok L env p' qs'" for p' qs'
            using uniq [OF that] by (metis image_set)
          show ?thesis
            unfolding output_check_matched by (rule agrees_at [OF Inr Some raw env ok v, symmetric])
        qed
        finally show ?thesis .
      qed
    qed
  qed
qed

end
