(* ===== verification/Work_Run.thy ===== *)
theory Work_Run
  imports Work_Receipt
begin

text \<open>
  \<open>work_receipt.py\<close>, the part that looks at a checkout and runs the command. What \<open>git\<close>, the
  command and the path resolution answer is the record \<open>workshop\<close>, an argument; each call of
  either program is a request of the world, so that a statement about the requests of a run says
  which programs ran, in which order, and that nothing else left the process.
\<close>

section \<open>The programs around the receipt\<close>

datatype git_reply =
    GitMissing | GitTimedOut | GitFailed str | GitBroken | GitNotUtf8 | GitOutput str

text \<open>
  The command: it could not be started; the wait was interrupted; or it ended, by itself with a
  return code or (\<open>None\<close>) killed at its timeout, with what it had written.
\<close>

datatype command_reply = CannotStart | Interrupted | Ended "int option" bytes bytes

record workshop =
  git_answer :: "nat \<Rightarrow> request \<Rightarrow> git_reply"
  command_answer :: "nat \<Rightarrow> request \<Rightarrow> command_reply"
  resolve_path :: "path \<Rightarrow> path"            \<comment> \<open>\<open>path.expanduser().resolve()\<close>\<close>
  resolve_text :: "str \<Rightarrow> path"             \<comment> \<open>\<open>Path(text).resolve()\<close>\<close>
  times_1000 :: "rat \<Rightarrow> rat"                \<comment> \<open>the double nearest to \<open>x * 1000\<close>\<close>
  parent_of :: "nat \<Rightarrow> path \<Rightarrow> (path \<times> nat \<times> bool) option"
    \<comment> \<open>resolved parent with mode and ownership, if it can be resolved and inspected\<close>
  file_name :: "path \<Rightarrow> string"
  rm_keeps :: "nat \<Rightarrow> string \<Rightarrow> bool"       \<comment> \<open>what a failed \<open>rmtree\<close> leaves\<close>

record checkout =
  co_root :: path
  co_repository :: str
  co_commit :: str

record execution =
  ex_result :: string
  ex_exit_code :: "int option"
  ex_stdout_sha256 :: str
  ex_stdout_bytes :: nat
  ex_stderr_sha256 :: str
  ex_stderr_bytes :: nat
  ex_started_at :: str
  ex_completed_at :: str
  ex_duration_ms :: int

section \<open>The checkout\<close>

definition repository_from_remote :: "lib \<Rightarrow> str \<Rightarrow> str res" where
  "repository_from_remote L remote =
     (let value = strip remote in
      bind (if startswith value (lit ''git@github.com:'') then ret (removeprefix value (lit ''git@github.com:''))
            else if startswith value (lit ''ssh://git@github.com/'') then
              ret (removeprefix value (lit ''ssh://git@github.com/''))
            else bind (urlsplit L value) (\<lambda>parsed.
              bind (raise_if (scheme parsed \<noteq> lit ''https'' \<or> netloc parsed \<noteq> lit ''github.com''
                  \<or> query parsed \<noteq> [] \<or> fragment parsed \<noteq> [])
                (work_error ''origin must be a canonical github.com repository URL'')) (\<lambda>_.
              ret (removeprefix (upath parsed) [47])))) (\<lambda>p.
      let p' = (if endswith p (lit ''.git'') then take (length p - 4) p else p) in
      bind (raise_if (count_char p' 47 \<noteq> 1 \<or> endswith p' [47])
        (work_error ''origin must identify exactly one GitHub repository'')) (\<lambda>_.
      work_repository (JStr p'))))"

definition output_of_git :: "git_reply \<Rightarrow> str res" where
  "output_of_git r = (case r of
      GitMissing \<Rightarrow> raise (work_error ''git is required to inspect the checkout'')
    | GitTimedOut \<Rightarrow> raise (work_error ''git checkout inspection timed out'')
    | GitFailed detail \<Rightarrow> raise (work_error ''cannot inspect Git checkout'')
    | GitBroken \<Rightarrow> raise OSError
    | GitNotUtf8 \<Rightarrow> raise UnicodeDecodeError
    | GitOutput out \<Rightarrow> ret (strip out))"

definition run_git :: "env \<Rightarrow> workshop \<Rightarrow> path \<Rightarrow> string list \<Rightarrow> str io" where   \<comment> \<open>\<open>_git\<close>\<close>
  "run_git E B directory arguments =
     ibind (exchange (git_answer B) E (RunGit directory arguments)) (\<lambda>r. lift (output_of_git r))"

definition inspect_checkout :: "env \<Rightarrow> workshop \<Rightarrow> lib \<Rightarrow> path \<Rightarrow> str option \<Rightarrow> checkout io" where
  "inspect_checkout E B L repository expected_commit =
     ibind (run_git E B (resolve_path B repository) [''rev-parse'', ''--show-toplevel'']) (\<lambda>root_text.
     let topdir = resolve_text B root_text in
     ibind (run_git E B topdir [''status'', ''--porcelain'', ''--untracked-files=all'']) (\<lambda>status.
     ibind (iraise_if (status \<noteq> []) (work_error ''work receipts require a clean checkout'')) (\<lambda>_.
     ibind (run_git E B topdir [''rev-parse'', ''--verify'', ''HEAD^{commit}'']) (\<lambda>commit.
     ibind (iraise_if (\<not> match_sha commit) (work_error ''git returned an invalid commit SHA'')) (\<lambda>_.
     ibind (iraise_if (case expected_commit of None \<Rightarrow> False | Some c \<Rightarrow> commit \<noteq> c)
       (work_error ''checkout is at a different commit than the receipt'')) (\<lambda>_.
     ibind (run_git E B topdir [''remote'', ''get-url'', ''origin'']) (\<lambda>remote.
     ibind (lift (repository_from_remote L remote)) (\<lambda>repo.
     iret \<lparr>co_root = topdir, co_repository = repo, co_commit = commit\<rparr>))))))))"

section \<open>Numbers\<close>

text \<open>\<open>round\<close>: halves go to the even neighbour\<close>

definition round_half_even :: "rat \<Rightarrow> int" where
  "round_half_even x = (let n = \<lfloor>x\<rfloor>; d = x - of_int n in
     if d < 1 / 2 then n else if 1 / 2 < d then n + 1 else if even n then n else n + 1)"

definition timeout_milliseconds :: "workshop \<Rightarrow> pyfloat \<Rightarrow> int res" where
  "timeout_milliseconds B seconds = (case float_value seconds of
      None \<Rightarrow> raise (work_error ''timeout must be between 0.001 and 3600 seconds'')
    | Some t \<Rightarrow> bind (raise_if (\<not> (1 / 1000 \<le> t \<and> t \<le> 3600))
          (work_error ''timeout must be between 0.001 and 3600 seconds'')) (\<lambda>_.
        ret (max 1 (round_half_even (times_1000 B t)))))"

section \<open>The command\<close>

text \<open>\<open>while chunk := handle.read(64 * 1024)\<close>: the chunks, and the hash taken chunk by chunk\<close>

function chunks :: "nat \<Rightarrow> bytes \<Rightarrow> bytes list" where
  "chunks n bs = (if n = 0 \<or> bs = [] then [] else take n bs # chunks n (drop n bs))"
  by pat_completeness auto
termination by (relation "measure (length \<circ> snd)") auto

declare chunks.simps [simp del]

fun hash_chunks :: "lib \<Rightarrow> nat \<Rightarrow> bytes \<Rightarrow> bytes list \<Rightarrow> (str \<times> nat) res" where
  "hash_chunks L n digest [] = ret (sha256_hex L digest, n)"
| "hash_chunks L n digest (c # cs) =
     bind (raise_if (MAX_OUTPUT_BYTES < n + length c)
       (work_error ''output exceeds the work receipt output limit'')) (\<lambda>_.
     hash_chunks L (n + length c) (digest @ c) cs)"

definition hash_file :: "lib \<Rightarrow> bytes \<Rightarrow> (str \<times> nat) res" where
  "hash_file L data = hash_chunks L 0 [] (chunks (64 * 1024) data)"

definition execute ::
  "env \<Rightarrow> workshop \<Rightarrow> lib \<Rightarrow> checkout \<Rightarrow> json \<Rightarrow> int \<Rightarrow> (bytes \<Rightarrow> bytes \<Rightarrow> unit io) \<Rightarrow> execution io" where
  "execute E B L co command timeout_ms capture =
     ibind (lift (validate_command command)) (\<lambda>argv.
     ibind (ask (clock_utc E)) (\<lambda>started_at.
     ibind (ask (clock_mono E)) (\<lambda>started.
     ibind (lift (map_res (as_str AssertionError) argv)) (\<lambda>args.
     ibind (exchange (command_answer B) E (ExecCommand (co_root co) args (nat timeout_ms))) (\<lambda>r. case r of
         CannotStart \<Rightarrow> iraise (work_error ''cannot start work command'')
       | Interrupted \<Rightarrow> iraise KeyboardInterrupt
       | Ended return_code out err \<Rightarrow>
           ibind (ask (clock_mono E)) (\<lambda>ended.
           ibind (ask (clock_utc E)) (\<lambda>completed_at.
           ibind (lift (hash_file L out)) (\<lambda>(out_hash, out_size).
           ibind (lift (hash_file L err)) (\<lambda>(err_hash, err_size).
           ibind (capture out err) (\<lambda>_.
           iret \<lparr>ex_result = (case return_code of None \<Rightarrow> ''timed_out''
                   | Some code \<Rightarrow> if code = 0 then ''passed'' else ''failed''),
                 ex_exit_code = return_code, ex_stdout_sha256 = out_hash, ex_stdout_bytes = out_size,
                 ex_stderr_sha256 = err_hash, ex_stderr_bytes = err_size,
                 ex_started_at = format_timestamp started_at, ex_completed_at = format_timestamp completed_at,
                 ex_duration_ms = max 0 (round_half_even (times_1000 B (ended - started)))\<rparr>))))))))))"

section \<open>The chunked hash is the hash\<close>

lemma concat_chunks: "0 < n \<Longrightarrow> concat (chunks n bs) = bs"
  by (induction n bs rule: chunks.induct) (simp add: chunks.simps)

lemma hash_chunks_eq:
  "hash_chunks L n d cs = (if MAX_OUTPUT_BYTES < n + length (concat cs) \<and> cs \<noteq> []
     then raise (work_error ''output exceeds the work receipt output limit'')
     else ret (sha256_hex L (d @ concat cs), n + length (concat cs)))"
proof (induction cs arbitrary: n d)
  case (Cons c cs)
  then show ?case by (auto simp: raise_if_def)
qed simp

lemma hash_file_eq:
  "hash_file L data = (if MAX_OUTPUT_BYTES < length data
     then raise (work_error ''output exceeds the work receipt output limit'')
     else ret (sha256_hex L data, length data))"
proof -
  have "chunks (64 * 1024) data \<noteq> []" if "MAX_OUTPUT_BYTES < length data"
    using that by (subst chunks.simps) auto
  then show ?thesis using concat_chunks [of "64 * 1024" data]
    unfolding hash_file_def hash_chunks_eq by auto
qed

section \<open>Which programs ran\<close>

text \<open>From \<open>w\<close> to \<open>w'\<close> exactly the requests \<open>rs\<close> left, and no file and no state changed.\<close>

definition asked :: "request list \<Rightarrow> world \<Rightarrow> world \<Rightarrow> bool" where
  "asked rs w w' \<longleftrightarrow> fs w' = fs w \<and> mem w' = mem w \<and> map fst (sent w') = map fst (sent w) @ rs"

fun is_git :: "request \<Rightarrow> bool" where
  "is_git (RunGit d arguments) = True"
| "is_git (CloneGit d e) = True"
| "is_git (SetOrigin d url) = True"
| "is_git _ = False"

definition only_git :: "world \<Rightarrow> world \<Rightarrow> bool" where
  "only_git w w' \<longleftrightarrow> (\<exists>rs. list_all is_git rs \<and> asked rs w w')"

text \<open>From \<open>w\<close> to \<open>w'\<close> no program was asked; time went by.\<close>

definition elapsed :: "world \<Rightarrow> world \<Rightarrow> bool" where
  "elapsed w w' \<longleftrightarrow> asked [] w w' \<and> tick w \<le> tick w'"

text \<open>From \<open>w\<close> to \<open>w'\<close> exactly one program was asked, \<open>r\<close>, and what it answered in this time is \<open>a\<close>.\<close>

definition one_answer :: "(nat \<Rightarrow> request \<Rightarrow> 'a) \<Rightarrow> request \<Rightarrow> 'a \<Rightarrow> world \<Rightarrow> world \<Rightarrow> bool" where
  "one_answer answers r a w w' \<longleftrightarrow> asked [r] w w' \<and> (\<exists>t. tick w \<le> t \<and> t < tick w' \<and> answers t r = a)"

definition git_said :: "workshop \<Rightarrow> path \<Rightarrow> string list \<Rightarrow> str \<Rightarrow> world \<Rightarrow> world \<Rightarrow> bool" where
  "git_said B d xs out w w' \<longleftrightarrow> (\<exists>raw. one_answer (git_answer B) (RunGit d xs) (GitOutput raw) w w' \<and> strip raw = out)"

text \<open>
  A complete look at the directory \<open>d\<close>: four questions to git, one after the other and nothing else,
  and its answers say that \<open>co\<close> is a checkout without any change.
\<close>

definition saw_checkout :: "lib \<Rightarrow> workshop \<Rightarrow> path \<Rightarrow> checkout \<Rightarrow> world \<Rightarrow> world \<Rightarrow> bool" where
  "saw_checkout L B d co w w' \<longleftrightarrow> (\<exists>w1 w2 w3 root_text remote.
     git_said B d [''rev-parse'', ''--show-toplevel''] root_text w w1 \<and> co_root co = resolve_text B root_text
     \<and> git_said B (co_root co) [''status'', ''--porcelain'', ''--untracked-files=all''] [] w1 w2
     \<and> git_said B (co_root co) [''rev-parse'', ''--verify'', ''HEAD^{commit}''] (co_commit co) w2 w3 \<and> match_sha (co_commit co)
     \<and> git_said B (co_root co) [''remote'', ''get-url'', ''origin''] remote w3 w'
     \<and> repository_from_remote L remote = Inr (co_repository co))"

lemma asked_refl: "asked [] w w"
  by (simp add: asked_def)

lemma asked_trans: "asked rs u v \<Longrightarrow> asked qs v w \<Longrightarrow> asked (rs @ qs) u w"
  by (simp add: asked_def)

lemma asked_tick [simp]:
  "asked rs w (w'\<lparr>tick := n\<rparr>) \<longleftrightarrow> asked rs w w'" "asked rs (w\<lparr>tick := n\<rparr>) w' \<longleftrightarrow> asked rs w w'"
  by (simp_all add: asked_def)

lemma asked_sent_one: "sent_one r w w' \<Longrightarrow> asked [r] w w'"
  by (simp add: asked_def sent_one_def)

lemma asked_untouched: "untouched w w' \<Longrightarrow> asked [] w w'"
  by (simp add: asked_def untouched_def)

lemma elapsed_refl: "elapsed w w"
  by (simp add: elapsed_def asked_refl)

lemma elapsed_trans: "elapsed u v \<Longrightarrow> elapsed v w \<Longrightarrow> elapsed u w"
  using asked_trans [of "[]" u v "[]" w] by (auto simp: elapsed_def)

lemma elapsed_tick: "tick w \<le> n \<Longrightarrow> elapsed w (w\<lparr>tick := n\<rparr>)"
  by (simp add: elapsed_def asked_refl)

lemma one_answer_later: "elapsed u v \<Longrightarrow> one_answer f r a v w \<Longrightarrow> one_answer f r a u w"
  unfolding elapsed_def one_answer_def using asked_trans [of "[]" u v "[r]" w] order_trans by auto

lemma one_answer_then: "one_answer f r a u v \<Longrightarrow> elapsed v w \<Longrightarrow> one_answer f r a u w"
  unfolding elapsed_def one_answer_def using asked_trans [of "[r]" u v "[]" w] less_le_trans by auto

lemma git_said_later: "elapsed u v \<Longrightarrow> git_said B d xs out v w \<Longrightarrow> git_said B d xs out u w"
  unfolding git_said_def by (auto intro: one_answer_later)

lemma git_said_then: "git_said B d xs out u v \<Longrightarrow> elapsed v w \<Longrightarrow> git_said B d xs out u w"
  unfolding git_said_def by (auto intro: one_answer_then)

lemma saw_checkout_later: "elapsed u v \<Longrightarrow> saw_checkout L B d co v w \<Longrightarrow> saw_checkout L B d co u w"
  unfolding saw_checkout_def using git_said_later by blast

lemma saw_checkout_then: "saw_checkout L B d co u v \<Longrightarrow> elapsed v w \<Longrightarrow> saw_checkout L B d co u w"
  unfolding saw_checkout_def using git_said_then by blast

lemma only_git_refl: "only_git w w"
  unfolding only_git_def using asked_refl by (metis list.pred_inject(1))

lemma only_git_trans: "only_git u v \<Longrightarrow> only_git v w \<Longrightarrow> only_git u w"
  unfolding only_git_def using asked_trans by (metis list_all_append)

lemma only_git_asked: "asked [] u v \<Longrightarrow> only_git u v"
  unfolding only_git_def by (metis list.pred_inject(1))

lemma git_said_git: "git_said B d xs out u v \<Longrightarrow> only_git u v"
  unfolding git_said_def one_answer_def only_git_def by (intro exI [of _ "[RunGit d xs]"]) auto

lemma saw_checkout_git: "saw_checkout L B d co u v \<Longrightarrow> only_git u v"
  unfolding saw_checkout_def by (blast dest: git_said_git intro: only_git_trans)

lemma exchange_answered_wp:
  assumes "\<And>a w'. one_answer answers r a w w' \<Longrightarrow> Q a w'"
    and "\<And>w'. elapsed w w' \<Longrightarrow> R Killed w'"
    and "\<And>w'. asked [r] w w' \<Longrightarrow> R Killed w'"
  shows "wp (exchange answers E r) Q R w"
proof -
  have "Q (answers (Suc (tick w)) r) (w\<lparr>sent := sent w @ [(r, fs w)], tick := Suc (Suc (tick w))\<rparr>)"
    by (rule assms(1)) (auto simp: one_answer_def asked_def intro!: exI [of _ "Suc (tick w)"])
  then show ?thesis
    using assms(2,3) by (auto simp: exchange_def wp_simps elapsed_def asked_def split: io_fault.split)
qed

lemma run_git_wp:
  assumes "\<And>out w'. git_said B d xs out w w' \<Longrightarrow> Q out w'"
    and "\<And>e w'. only_git w w' \<Longrightarrow> R e w'"
  shows "wp (run_git E B d xs) Q R w"
proof -
  have sent: "R e w'" if "asked [RunGit d xs] w w'" for e w'
    by (rule assms(2)) (use that in \<open>auto simp: only_git_def intro: exI [of _ "[RunGit d xs]"]\<close>)
  have said: "wp (lift (output_of_git r)) Q R w'" if a: "one_answer (git_answer B) (RunGit d xs) r w w'" for r w'
  proof -
    have "asked [RunGit d xs] w w'" using a by (simp add: one_answer_def)
    then show ?thesis
      using a by (cases r) (auto simp: output_of_git_def wp_lift intro: sent intro!: assms(1) simp: git_said_def)
  qed
  show ?thesis
    unfolding run_git_def wp_ibind
    by (rule exchange_answered_wp) (auto intro: said sent assms(2) only_git_asked simp: elapsed_def)
qed

lemma iraise_if_wp: "(c \<Longrightarrow> R e w) \<Longrightarrow> (\<not> c \<Longrightarrow> Q () w) \<Longrightarrow> wp (iraise_if c e) Q R w"
  by (simp add: wp_lift raise_if_def)

lemma repository_from_remote_ok: "repository_from_remote L remote = Inr r \<Longrightarrow> repository_ok (JStr r)"
  by (auto simp: repository_from_remote_def res_simps Let_def work_repository_iff)

definition checkout_ok :: "checkout \<Rightarrow> bool" where
  "checkout_ok co \<longleftrightarrow> match_sha (co_commit co) \<and> repository_ok (JStr (co_repository co))"

lemma inspect_checkout_wp:
  assumes Q: "\<And>co w'. saw_checkout L B (resolve_path B r) co w w' \<Longrightarrow>
        expected = None \<or> expected = Some (co_commit co) \<Longrightarrow> Q co w'"
    and R: "\<And>e w'. only_git w w' \<Longrightarrow> R e w'"
  shows "wp (inspect_checkout E B L r expected) Q R w"
  unfolding inspect_checkout_def wp_ibind Let_def
proof (rule run_git_wp)
  fix root_text w1
  let ?d = "resolve_text B root_text"
  assume g1: "git_said B (resolve_path B r) [''rev-parse'', ''--show-toplevel''] root_text w w1"
  note n1 = git_said_git [OF g1]
  have last: "wp (lift (repository_from_remote L remote))
      (\<lambda>repo. wp (iret \<lparr>co_root = ?d, co_repository = repo, co_commit = commit\<rparr>) Q R) R w4"
    if "git_said B ?d [''status'', ''--porcelain'', ''--untracked-files=all''] [] w1 w2"
      "git_said B ?d [''rev-parse'', ''--verify'', ''HEAD^{commit}''] commit w2 w3" "match_sha commit"
      "expected = None \<or> expected = Some commit" "git_said B ?d [''remote'', ''get-url'', ''origin''] remote w3 w4"
    for w2 w3 w4 commit remote
  proof -
    have "only_git w w4"
      using n1 that(1,2,5) by (blast intro: only_git_trans git_said_git)
    moreover have "saw_checkout L B (resolve_path B r) \<lparr>co_root = ?d, co_repository = repo, co_commit = commit\<rparr> w w4"
      if "repository_from_remote L remote = Inr repo" for repo
      unfolding saw_checkout_def checkout.simps using g1 \<open>match_sha commit\<close> that
        \<open>git_said B ?d [''status'', ''--porcelain'', ''--untracked-files=all''] [] w1 w2\<close>
        \<open>git_said B ?d [''rev-parse'', ''--verify'', ''HEAD^{commit}''] commit w2 w3\<close>
        \<open>git_said B ?d [''remote'', ''get-url'', ''origin''] remote w3 w4\<close> by blast
    ultimately show ?thesis using that(4) by (auto simp: wp_simps intro: R Q split: sum.split)
  qed
  have later: "R e w'" if "git_said B ?d xs out w1 w2" "only_git w2 w'" for e xs out w2 w'
    by (rule R) (use n1 that in \<open>blast intro: only_git_trans git_said_git\<close>)
  show "wp (run_git E B ?d [''status'', ''--porcelain'', ''--untracked-files=all''])
     (\<lambda>status. wp (iraise_if (status \<noteq> []) (work_error ''work receipts require a clean checkout'')) (\<lambda>_.
      wp (run_git E B ?d [''rev-parse'', ''--verify'', ''HEAD^{commit}'']) (\<lambda>commit.
      wp (iraise_if (\<not> match_sha commit) (work_error ''git returned an invalid commit SHA'')) (\<lambda>_.
      wp (iraise_if (case expected of None \<Rightarrow> False | Some c \<Rightarrow> commit \<noteq> c)
        (work_error ''checkout is at a different commit than the receipt'')) (\<lambda>_.
      wp (run_git E B ?d [''remote'', ''get-url'', ''origin'']) (\<lambda>remote.
      wp (lift (repository_from_remote L remote)) (\<lambda>repo.
      wp (iret \<lparr>co_root = ?d, co_repository = repo, co_commit = commit\<rparr>) Q R) R) R) R) R) R) R) R w1"
  proof (rule run_git_wp)
    fix status w2
    assume g2: "git_said B ?d [''status'', ''--porcelain'', ''--untracked-files=all''] status w1 w2"
    show "wp (iraise_if (status \<noteq> []) (work_error ''work receipts require a clean checkout'')) (\<lambda>_.
      wp (run_git E B ?d [''rev-parse'', ''--verify'', ''HEAD^{commit}'']) (\<lambda>commit.
      wp (iraise_if (\<not> match_sha commit) (work_error ''git returned an invalid commit SHA'')) (\<lambda>_.
      wp (iraise_if (case expected of None \<Rightarrow> False | Some c \<Rightarrow> commit \<noteq> c)
        (work_error ''checkout is at a different commit than the receipt'')) (\<lambda>_.
      wp (run_git E B ?d [''remote'', ''get-url'', ''origin'']) (\<lambda>remote.
      wp (lift (repository_from_remote L remote)) (\<lambda>repo.
      wp (iret \<lparr>co_root = ?d, co_repository = repo, co_commit = commit\<rparr>) Q R) R) R) R) R) R) R w2"
      using g2 by (auto intro!: iraise_if_wp run_git_wp last later intro: only_git_refl only_git_trans git_said_git
          split: option.splits)
  qed (use n1 R only_git_trans in blast)
qed (rule R)

text \<open>What an execution records of the reply it measured\<close>

definition result_of :: "int option \<Rightarrow> string" where
  "result_of code = (case code of None \<Rightarrow> ''timed_out'' | Some i \<Rightarrow> if i = 0 then ''passed'' else ''failed'')"

definition measured :: "lib \<Rightarrow> execution \<Rightarrow> command_reply \<Rightarrow> bool" where
  "measured L ex r \<longleftrightarrow> (\<exists>code out err. r = Ended code out err \<and> ex_result ex = result_of code \<and> ex_exit_code ex = code
     \<and> ex_stdout_sha256 ex = sha256_hex L out \<and> ex_stdout_bytes ex = length out \<and> length out \<le> MAX_OUTPUT_BYTES
     \<and> ex_stderr_sha256 ex = sha256_hex L err \<and> ex_stderr_bytes ex = length err \<and> length err \<le> MAX_OUTPUT_BYTES)"

lemma map_res_as_str: "map_res (as_str e) (map JStr args) = Inr args"
  by (induction args) simp_all

lemma execute_wp:
  assumes cap: "\<And>out err w0. wp (capture out err) (\<lambda>_. elapsed w0) (\<lambda>_. elapsed w0) w0"
    and Q: "\<And>args r ex w'. command = JArr (map JStr args) \<Longrightarrow> command_ok args \<Longrightarrow> measured L ex r \<Longrightarrow>
        one_answer (command_answer B) (ExecCommand (co_root co) args (nat ms)) r w w' \<Longrightarrow> Q ex w'"
    and R0: "\<And>e w'. asked [] w w' \<Longrightarrow> R e w'"
    and R1: "\<And>e args w'. command = JArr (map JStr args) \<Longrightarrow>
        asked [ExecCommand (co_root co) args (nat ms)] w w' \<Longrightarrow> R e w'"
  shows "wp (execute E B L co command ms capture) Q R w"
proof (cases "validate_command command")
  case (Inl e)
  then show ?thesis by (simp add: execute_def wp_simps R0 asked_refl)
next
  case (Inr argv)
  then obtain args where a: "command = JArr (map JStr args)" "argv = map JStr args" "command_ok args"
    unfolding work_iff by blast
  let ?cmd = "ExecCommand (co_root co) args (nat ms)"
  note R1 = R1 [OF a(1)]
  have R1': "R e w'" if "one_answer (command_answer B) ?cmd r w w'" for e r w'
    using that by (auto simp: one_answer_def intro: R1)
  have finish: "wp (capture out err) (\<lambda>_. wp (iret ex) Q R) R w'"
    if "one_answer (command_answer B) ?cmd r w w'" "measured L ex r" for w' r out err ex
  proof (rule wp_mono [OF cap])
    fix w1 assume "elapsed w' w1"
    with that(1) have "one_answer (command_answer B) ?cmd r w w1" by (rule one_answer_then)
    then show "wp (iret ex) Q R w1" "R e w1" for e
      using a that(2) by (auto simp: wp_iret intro!: Q [where args = args and r = r] intro: R1')
  qed
  have after: "wp (ask f) (\<lambda>x. P x) R w'" if "one_answer (command_answer B) ?cmd r w w'"
     "\<And>x w1. one_answer (command_answer B) ?cmd r w w1 \<Longrightarrow> P x w1" for f :: "nat \<Rightarrow> 'b" and P r w'
    unfolding wp_ask by (intro that(2) one_answer_then [OF that(1)] elapsed_tick) simp
  have reply: "wp (case r of
        CannotStart \<Rightarrow> iraise (work_error ''cannot start work command'')
      | Interrupted \<Rightarrow> iraise KeyboardInterrupt
      | Ended return_code out err \<Rightarrow>
           ibind (ask (clock_mono E)) (\<lambda>ended.
           ibind (ask (clock_utc E)) (\<lambda>completed_at.
           ibind (lift (hash_file L out)) (\<lambda>(out_hash, out_size).
           ibind (lift (hash_file L err)) (\<lambda>(err_hash, err_size).
           ibind (capture out err) (\<lambda>_.
           iret \<lparr>ex_result = (case return_code of None \<Rightarrow> ''timed_out''
                   | Some code \<Rightarrow> if code = 0 then ''passed'' else ''failed''),
                 ex_exit_code = return_code, ex_stdout_sha256 = out_hash, ex_stdout_bytes = out_size,
                 ex_stderr_sha256 = err_hash, ex_stderr_bytes = err_size,
                 ex_started_at = format_timestamp started_at, ex_completed_at = format_timestamp completed_at,
                 ex_duration_ms = max 0 (round_half_even (times_1000 B (ended - started)))\<rparr>)))))) Q R w'"
    if r: "one_answer (command_answer B) ?cmd r w w'" for r w' started_at started
  proof (cases r)
    case (Ended code out err)
    show ?thesis
      unfolding Ended command_reply.case wp_ibind
      by (rule after [OF r], rule after, assumption)
        (auto simp: wp_lift wp_ibind hash_file_eq not_less measured_def Ended result_of_def [symmetric]
          intro!: finish intro: R1')
  qed (use R1' [OF r] in \<open>simp_all add: wp_lift\<close>)
  have first: "elapsed w (w\<lparr>tick := Suc (Suc (tick w))\<rparr>)" by (rule elapsed_tick) simp
  show ?thesis
    unfolding execute_def a(1) wp_ibind wp_ask
    using Inr a(2)
    apply (simp add: a(1) wp_lift map_res_as_str)
    apply (rule exchange_answered_wp)
      apply (rule reply [OF one_answer_later [OF first]], assumption)
     apply (rule R0, simp add: elapsed_def)
    apply (rule R1, simp)
    done
qed

end
