(* ===== verification/Work_Output.thy ===== *)
theory Work_Output
  imports Work_Run
begin

text \<open>
  \<open>work_output.py\<close>: the private directory that keeps the output of one measured execution. It is
  reserved before the command runs, filled with the two outputs, completed by publishing the
  receipt with a link, and removed again on every way out that did not complete it. A directory
  the program made is an entry of \<open>outdir\<close>: its files and their bytes.
\<close>

section \<open>File operations in the bundle\<close>

definition set_bundle :: "path \<Rightarrow> (string \<Rightarrow> bytes option) option \<Rightarrow> unit io" where
  "set_bundle p d = imodify (\<lambda>w. w\<lparr>outdir := (outdir w)(p := d)\<rparr>)"

definition bundle_files :: "path \<Rightarrow> (string \<Rightarrow> bytes option) io" where
  "bundle_files p = ibind (iget (\<lambda>w. outdir w p)) (\<lambda>d. case d of None \<Rightarrow> iraise OSError | Some m \<Rightarrow> iret m)"

text \<open>
  Create a file that must not exist, write it and sync it: a failure at stage 0 comes before the
  file exists, at stage \<open>n + 1\<close> it leaves the first \<open>n\<close> bytes.
\<close>

definition write_new :: "env \<Rightarrow> path \<Rightarrow> string \<Rightarrow> bytes \<Rightarrow> unit io" where
  "write_new E p name data =
     ibind (bundle_files p) (\<lambda>m.
     ibind (iraise_if (m name \<noteq> None) OSError) (\<lambda>_.
     ibind (ask (fault E)) (\<lambda>flt. case flt of
         Fine \<Rightarrow> set_bundle p (Some (m(name \<mapsto> data)))
       | Fail n \<Rightarrow> if n = 0 then iraise OSError
           else ibind (set_bundle p (Some (m(name \<mapsto> take (n - 1) data)))) (\<lambda>_. iraise OSError)
       | Kill n \<Rightarrow> if n = 0 then iraise Killed
           else ibind (set_bundle p (Some (m(name \<mapsto> take (n - 1) data)))) (\<lambda>_. iraise Killed))))"

text \<open>A call that changes one directory entry or nothing: \<open>link\<close>, \<open>unlink\<close>; and a sync\<close>

definition change_entry :: "env \<Rightarrow> path \<Rightarrow> string \<Rightarrow> bytes option \<Rightarrow> unit io" where
  "change_entry E p name v =
     ibind (bundle_files p) (\<lambda>m.
     ibind (ask (fault E)) (\<lambda>flt. case flt of
         Fine \<Rightarrow> set_bundle p (Some (m(name := v)))
       | Fail n \<Rightarrow> iraise OSError
       | Kill n \<Rightarrow> if n = 0 then iraise Killed
           else ibind (set_bundle p (Some (m(name := v)))) (\<lambda>_. iraise Killed)))"

definition sync_directory :: "env \<Rightarrow> path \<Rightarrow> unit io" where
  "sync_directory E p = ibind (bundle_files p) (\<lambda>_. ibind (ask (fault E)) (\<lambda>flt. case flt of
      Fine \<Rightarrow> iret () | Fail n \<Rightarrow> iraise OSError | Kill n \<Rightarrow> iraise Killed))"

definition read_bundle :: "env \<Rightarrow> path \<Rightarrow> string \<Rightarrow> bytes io" where
  "read_bundle E p name =
     ibind (bundle_files p) (\<lambda>m. ibind (ask (fault E)) (\<lambda>flt. case flt of
         Fine \<Rightarrow> (case m name of None \<Rightarrow> iraise OSError | Some data \<Rightarrow> iret data)
       | Fail n \<Rightarrow> iraise OSError
       | Kill n \<Rightarrow> iraise Killed))"

section \<open>The bundle\<close>

definition join_path :: "path \<Rightarrow> string \<Rightarrow> path" where
  "join_path d name = (if d = ''/'' then ''/'' @ name else d @ ''/'' @ name)"

definition is_relative_to :: "path \<Rightarrow> path \<Rightarrow> bool" where
  "is_relative_to p d \<longleftrightarrow> p = d \<or> d = ''/'' \<or> take (length d + 1) p = d @ ''/''"

definition new_bundle :: "workshop \<Rightarrow> path \<Rightarrow> path \<Rightarrow> path io" where   \<comment> \<open>\<open>OutputBundle.__init__\<close>\<close>
  "new_bundle B destination checkout_root =
     ibind (ask (\<lambda>t. parent_of B t destination)) (\<lambda>r. case r of
         None \<Rightarrow> iraise (work_error ''output parent must be an existing accessible directory'')
       | Some (parent, mode_bits, own) \<Rightarrow>
           let p = join_path parent (file_name B destination) in
           ibind (iraise_if (file_name B destination = [] \<or> is_relative_to p checkout_root)
             (work_error ''output directory must be outside the checkout'')) (\<lambda>_.
           ibind (iraise_if (\<not> own \<or> and mode_bits 18 \<noteq> 0)
             (work_error ''output parent must be owned by you and not writable by others'')) (\<lambda>_.
           iret p)))"

definition enter_bundle :: "env \<Rightarrow> path \<Rightarrow> unit io" where   \<comment> \<open>\<open>__enter__\<close>: stage 1 is \<open>chmod\<close>, 2 the \<open>rmdir\<close> after it\<close>
  "enter_bundle E p =
     ibind (iget (\<lambda>w. outdir w p \<noteq> None \<or> fs w p \<noteq> None)) (\<lambda>taken.
     ibind (iraise_if taken (work_error ''output directory must be new and writable'')) (\<lambda>_.
     ibind (ask (fault E)) (\<lambda>flt. case flt of
         Fine \<Rightarrow> set_bundle p (Some (\<lambda>_. None))
       | Fail n \<Rightarrow> if n = 0 then iraise (work_error ''output directory must be new and writable'')
           else if n = 1 then iraise (work_error ''cannot secure output directory permissions'')
           else ibind (set_bundle p (Some (\<lambda>_. None))) (\<lambda>_. iraise OSError)
       | Kill n \<Rightarrow> if n = 0 then iraise Killed
           else ibind (set_bundle p (Some (\<lambda>_. None))) (\<lambda>_. iraise Killed))))"

definition remove_bundle :: "env \<Rightarrow> workshop \<Rightarrow> path \<Rightarrow> unit io" where   \<comment> \<open>\<open>shutil.rmtree\<close>\<close>
  "remove_bundle E B p =
     ibind (bundle_files p) (\<lambda>m.
     ibind (iget tick) (\<lambda>t.
     ibind (ask (fault E)) (\<lambda>flt. let left = Some (\<lambda>name. if rm_keeps B t name then m name else None) in
       case flt of
         Fine \<Rightarrow> set_bundle p None
       | Fail n \<Rightarrow> ibind (set_bundle p left) (\<lambda>_. iraise OSError)
       | Kill n \<Rightarrow> ibind (set_bundle p left) (\<lambda>_. iraise Killed))))"

text \<open>\<open>with bundle: m\<close>: \<open>__exit__\<close> removes an incomplete bundle unless the process has died.\<close>

abbreviation bundle_remains :: exc where
  "bundle_remains \<equiv> work_error ''incomplete output bundle remains; inspect the chosen directory manually''"

definition with_bundle :: "env \<Rightarrow> workshop \<Rightarrow> path \<Rightarrow> 'a io \<Rightarrow> 'a io" where
  "with_bundle E B p m =
     ibind (enter_bundle E p) (\<lambda>_.
     on_error (\<lambda>e. e \<noteq> Killed)
       (\<lambda>e. ibind (on_error is_OSError (\<lambda>_. iraise bundle_remains) (remove_bundle E B p)) (\<lambda>_. iraise e)) m)"

definition save_output :: "env \<Rightarrow> path \<Rightarrow> string \<Rightarrow> bytes \<Rightarrow> unit io" where
  "save_output E p name data =
     ibind (iraise_if (MAX_OUTPUT_BYTES < length data) (work_error ''captured output exceeds the receipt limit'')) (\<lambda>_.
     write_new E p name data)"

definition capture_outputs :: "env \<Rightarrow> path \<Rightarrow> bytes \<Rightarrow> bytes \<Rightarrow> unit io" where   \<comment> \<open>\<open>capture\<close>\<close>
  "capture_outputs E p out err =
     on_error is_OSError (\<lambda>_. iraise (work_error ''cannot preserve work output''))
       (ibind (save_output E p ''stdout.bin'' out) (\<lambda>_. save_output E p ''stderr.bin'' err))"

definition check_saved :: "env \<Rightarrow> lib \<Rightarrow> path \<Rightarrow> string \<Rightarrow> json \<Rightarrow> json \<Rightarrow> unit io" where
  "check_saved E L p name expected_hash expected_bytes =
     ibind (read_bundle E p name) (\<lambda>data.
     ibind (lift (hash_file L data)) (\<lambda>(digest, n).
     iraise_if (JStr digest \<noteq> expected_hash \<or> JInt (int n) \<noteq> expected_bytes)
       (work_error ''preserved output does not match the same execution'')))"

definition finish_bundle :: "env \<Rightarrow> lib \<Rightarrow> path \<Rightarrow> pairs \<Rightarrow> json \<Rightarrow> unit io" where   \<comment> \<open>\<open>finish\<close>\<close>
  "finish_bundle E L p payload receipt =
     on_error is_OSError (\<lambda>_. iraise (work_error ''cannot complete work output bundle''))
       (ibind (check_saved E L p ''stdout.bin'' (dget payload ''stdout_sha256'') (dget payload ''stdout_bytes'')) (\<lambda>_.
        ibind (check_saved E L p ''stderr.bin'' (dget payload ''stderr_sha256'') (dget payload ''stderr_bytes'')) (\<lambda>_.
        ibind (lift (render_work_receipt L (ReceiptValue receipt))) (\<lambda>rendered.
        let data = utf8 (rendered @ [10]) in
        ibind (write_new E p ''receipt.pending'' data) (\<lambda>_.
        ibind (sync_directory E p) (\<lambda>_.
        ibind (bundle_files p) (\<lambda>m.
        ibind (iraise_if (m ''receipt.json'' \<noteq> None) OSError) (\<lambda>_.
        ibind (change_entry E p ''receipt.json'' (m ''receipt.pending'')) (\<lambda>_.
        ibind (change_entry E p ''receipt.pending'' None) (\<lambda>_.
        sync_directory E p))))))))))"

section \<open>The bundle touches nothing else\<close>

interpretation apart: world_order elapsed
  by unfold_locales (auto intro: elapsed_refl elapsed_trans elapsed_tick)

lemma apart_set_bundle: "apart.grows (set_bundle p d)"
  by (simp add: apart.grows_def set_bundle_def imodify_def elapsed_def asked_def)

lemma apart_bundle_files: "apart.grows (bundle_files p)"
  unfolding bundle_files_def by (auto intro!: apart.grows_intros split: option.split)

lemmas apart_intros = apart.grows_intros apart_set_bundle apart_bundle_files

lemma apart_file_operations:
  "apart.grows (write_new E p name data)" "apart.grows (change_entry E p name v)"
  "apart.grows (sync_directory E p)" "apart.grows (read_bundle E p name)"
  unfolding write_new_def change_entry_def sync_directory_def read_bundle_def
  by (auto intro!: apart_intros split: io_fault.split option.split)

lemma apart_new_bundle: "apart.grows (new_bundle B destination r)"
  unfolding new_bundle_def Let_def by (auto intro!: apart_intros split: option.split prod.split)

lemma apart_enter_bundle: "apart.grows (enter_bundle E p)"
  unfolding enter_bundle_def by (auto intro!: apart_intros split: io_fault.split)

lemma apart_remove_bundle: "apart.grows (remove_bundle E B p)"
  unfolding remove_bundle_def Let_def by (auto intro!: apart_intros split: io_fault.split)

lemma apart_capture: "apart.grows (capture_outputs E p out err)"
  unfolding capture_outputs_def save_output_def by (intro apart_intros apart_file_operations)

lemma apart_finish: "apart.grows (finish_bundle E L p payload receipt)"
  unfolding finish_bundle_def check_saved_def Let_def
  by (auto intro!: apart_intros apart_file_operations split: prod.split)

end
