(* ===== verification/Work_Create.thy ===== *)
theory Work_Create
  imports Work_Output
begin

text \<open>
  \<open>work_receipt.py\<close>: issuing a work receipt and countersigning one. Both look at the checkout,
  run the command once, look at the checkout again, and only then sign; both verify their own
  result before they return it.
\<close>

section \<open>Issuing\<close>

definition work_payload :: "str \<Rightarrow> checkout \<Rightarrow> json list \<Rightarrow> int \<Rightarrow> execution \<Rightarrow> pairs" where
  "work_payload issuer_did co argv timeout_ms ex =
     [(lit ''schema'', JStr (lit WORK_RECEIPT_SCHEMA)),
      (lit ''issuer'', JStr issuer_did),
      (lit ''repository'', JStr (co_repository co)),
      (lit ''commit'', JStr (co_commit co)),
      (lit ''command'', JArr argv),
      (lit ''timeout_ms'', JInt timeout_ms),
      (lit ''result'', JStr (lit (ex_result ex))),
      (lit ''exit_code'', (case ex_exit_code ex of None \<Rightarrow> JNull | Some code \<Rightarrow> JInt code)),
      (lit ''stdout_sha256'', JStr (ex_stdout_sha256 ex)),
      (lit ''stdout_bytes'', JInt (int (ex_stdout_bytes ex))),
      (lit ''stderr_sha256'', JStr (ex_stderr_sha256 ex)),
      (lit ''stderr_bytes'', JInt (int (ex_stderr_bytes ex))),
      (lit ''started_at'', JStr (ex_started_at ex)),
      (lit ''completed_at'', JStr (ex_completed_at ex)),
      (lit ''duration_ms'', JInt (ex_duration_ms ex))]"

text \<open>\<open>_signed_wrapper\<close>\<close>

definition sign_payload :: "lib \<Rightarrow> bytes \<Rightarrow> pairs \<Rightarrow> json res" where
  "sign_payload L key payload =
     (let canonical = canonical_json (float_repr L) (JObj payload) in
      bind (sign_detached L key canonical) (\<lambda>signature.
      ret (JObj [(lit ''payload'', JObj payload), (lit ''payload_sha256'', JStr (sha256_hex L canonical)),
        (lit ''signature'', JStr signature)])))"

definition work_envelope :: "json \<Rightarrow> json list \<Rightarrow> json" where
  "work_envelope signed_receipt countersignatures =
     JObj [(lit ''schema'', JStr (lit WORK_RECEIPT_ENVELOPE_SCHEMA)), (lit ''receipt'', signed_receipt),
       (lit ''countersignatures'', JArr countersignatures)]"

definition check_signer :: "lib \<Rightarrow> string \<Rightarrow> string \<Rightarrow> bytes \<Rightarrow> str \<Rightarrow> unit res" where
  "check_signer L bad_did other_key key did =
     bind (except_raise is_ProtocolValueError (work_error bad_did) (validate_did did)) (\<lambda>_.
     bind (did_from_private_key L key) (\<lambda>own. raise_if (own \<noteq> did) (work_error other_key)))"

text \<open>Run the command between two looks at the checkout.\<close>

definition run_in_checkout ::
  "env \<Rightarrow> workshop \<Rightarrow> lib \<Rightarrow> checkout \<Rightarrow> json \<Rightarrow> int \<Rightarrow> (bytes \<Rightarrow> bytes \<Rightarrow> unit io) \<Rightarrow> execution io" where
  "run_in_checkout E B L co command timeout_ms capture =
     ibind (execute E B L co command timeout_ms capture) (\<lambda>ex.
     ibind (inspect_checkout E B L (co_root co) (Some (co_commit co))) (\<lambda>after_run.
     ibind (iraise_if (co_repository after_run \<noteq> co_repository co)
       (work_error ''checkout origin changed while the command was running'')) (\<lambda>_. iret ex)))"

definition measure_and_sign ::
  "env \<Rightarrow> workshop \<Rightarrow> lib \<Rightarrow> checkout \<Rightarrow> json \<Rightarrow> str \<Rightarrow> bytes \<Rightarrow> int \<Rightarrow> path option \<Rightarrow> json io" where
  "measure_and_sign E B L co command issuer_did key timeout_ms bundle =
     ibind (run_in_checkout E B L co command timeout_ms
       (case bundle of None \<Rightarrow> (\<lambda>out err. iret ()) | Some p \<Rightarrow> capture_outputs E p)) (\<lambda>ex.
     ibind (lift (validate_command command)) (\<lambda>argv.
     let payload = work_payload issuer_did co argv timeout_ms ex in
     ibind (lift (validate_work_payload payload)) (\<lambda>_.
     ibind (lift (sign_payload L key payload)) (\<lambda>signed.
     let envelope = work_envelope signed [] in
     ibind (lift (verify_work_receipt L (ReceiptValue envelope))) (\<lambda>_.
     ibind (case bundle of None \<Rightarrow> iret () | Some p \<Rightarrow> finish_bundle E L p payload envelope) (\<lambda>_.
     iret envelope))))))"

definition create_work_receipt ::
  "env \<Rightarrow> workshop \<Rightarrow> lib \<Rightarrow> path \<Rightarrow> str list \<Rightarrow> str \<Rightarrow> bytes \<Rightarrow> pyfloat \<Rightarrow> path option \<Rightarrow> json io" where
  "create_work_receipt E B L repository command issuer_did key seconds output_directory =
     ibind (lift (check_signer L ''worker DID is invalid''
       ''work receipt signing key does not match its issuer DID'' key issuer_did)) (\<lambda>_.
     ibind (inspect_checkout E B L repository None) (\<lambda>co.
     ibind (lift (timeout_milliseconds B seconds)) (\<lambda>timeout_ms.
     let argv = JArr (map JStr command) in
     case output_directory of
       None \<Rightarrow> measure_and_sign E B L co argv issuer_did key timeout_ms None
     | Some destination \<Rightarrow>
         ibind (new_bundle B destination (co_root co)) (\<lambda>p.
         with_bundle E B p (measure_and_sign E B L co argv issuer_did key timeout_ms (Some p))))))"

section \<open>Countersigning\<close>

text \<open>
  \<open>observed != _execution_claim(payload)\<close>: the four fields of the request are the receipt's own,
  the six of the result are compared. Python compares the exit code by value, and a claim of
  \<open>passed\<close> may hold \<open>false\<close> or \<open>0.0\<close> there.
\<close>

definition same_exit_code :: "int option \<Rightarrow> json \<Rightarrow> bool" where
  "same_exit_code code v = (case code of None \<Rightarrow> v = JNull
     | Some i \<Rightarrow> v = JInt i \<or> i = 0 \<and> equals_zero v \<or> i = 1 \<and> v = JBool True \<or> v = JFloat (Fin (of_int i)))"

definition execution_matches :: "pairs \<Rightarrow> execution \<Rightarrow> bool" where
  "execution_matches payload ex \<longleftrightarrow> dget payload ''result'' = JStr (lit (ex_result ex))
     \<and> same_exit_code (ex_exit_code ex) (dget payload ''exit_code'')
     \<and> dget payload ''stdout_sha256'' = JStr (ex_stdout_sha256 ex)
     \<and> dget payload ''stdout_bytes'' = JInt (int (ex_stdout_bytes ex))
     \<and> dget payload ''stderr_sha256'' = JStr (ex_stderr_sha256 ex)
     \<and> dget payload ''stderr_bytes'' = JInt (int (ex_stderr_bytes ex))"

definition counter_payload :: "lib \<Rightarrow> str \<Rightarrow> json \<Rightarrow> pairs \<Rightarrow> utc_time \<Rightarrow> pairs" where
  "counter_payload L verifier_did receipt_hash payload observed_at =
     [(lit ''schema'', JStr (lit WORK_COUNTERSIGNATURE_SCHEMA)),
      (lit ''verifier'', JStr verifier_did),
      (lit ''receipt_payload_sha256'', receipt_hash),
      (lit ''execution_sha256'', JStr (execution_sha256 L payload)),
      (lit ''observed_at'', JStr (format_timestamp observed_at))]"

definition json_int :: "json \<Rightarrow> int res" where
  "json_int v = (case v of JInt i \<Rightarrow> ret i | _ \<Rightarrow> raise AssertionError)"

text \<open>\<open>item["payload"]["verifier"]\<close> for each countersignature of a verified envelope\<close>

definition verifier_of :: "json \<Rightarrow> json" where
  "verifier_of item = (case item of
      JObj w \<Rightarrow> (case dget w ''payload'' of JObj q \<Rightarrow> dget q ''verifier'' | _ \<Rightarrow> JNull) | _ \<Rightarrow> JNull)"

text \<open>The run of the second checkout, the comparison and the signature\<close>

definition countersign_checkout ::
  "env \<Rightarrow> workshop \<Rightarrow> lib \<Rightarrow> str \<Rightarrow> bytes \<Rightarrow> pairs \<Rightarrow> pairs \<Rightarrow> json list \<Rightarrow> int \<Rightarrow> checkout \<Rightarrow> json io" where
  "countersign_checkout E B L verifier_did key envelope payload items expected_timeout_ms co =
     ibind (run_in_checkout E B L co (dget payload ''command'') expected_timeout_ms (\<lambda>out err. iret ())) (\<lambda>ex.
     ibind (iraise_if (\<not> execution_matches payload ex)
       (work_error ''independent execution does not match the work receipt'')) (\<lambda>_.
     ibind (lift (as_obj AssertionError (dget envelope ''receipt''))) (\<lambda>wrapper.
     ibind (ask (clock_utc E)) (\<lambda>observed_at.
     ibind (lift (sign_payload L key (counter_payload L verifier_did (dget wrapper ''payload_sha256'') payload observed_at)))
       (\<lambda>signed.
     let updated = work_envelope (dget envelope ''receipt'') (items @ [signed]) in
     ibind (lift (verify_work_receipt L (ReceiptValue updated))) (\<lambda>_.
     iret updated))))))"

definition countersign_work_receipt ::
  "env \<Rightarrow> workshop \<Rightarrow> lib \<Rightarrow> work_source \<Rightarrow> path \<Rightarrow> str \<Rightarrow> bytes \<Rightarrow> pyfloat option \<Rightarrow> json io" where
  "countersign_work_receipt E B L receipt repository verifier_did key seconds =
     ibind (lift (verify_and_decode L receipt)) (\<lambda>(summary, envelope).
     ibind (lift (check_signer L ''verifier DID is invalid''
       ''work receipt signing key does not match its verifier DID'' key verifier_did)) (\<lambda>_.
     let payload = ws_payload summary in
     ibind (iraise_if (JStr verifier_did = dget payload ''issuer'')
       (work_error ''countersignature requires a different identity'')) (\<lambda>_.
     ibind (lift (as_arr AssertionError (dget envelope ''countersignatures''))) (\<lambda>items.
     ibind (iraise_if (JStr verifier_did \<in> set (map verifier_of items))
       (work_error ''this verifier already countersigned the receipt'')) (\<lambda>_.
     ibind (lift (json_int (dget payload ''timeout_ms''))) (\<lambda>expected_timeout_ms.
     ibind (lift (case seconds of None \<Rightarrow> ret () | Some s \<Rightarrow> bind (timeout_milliseconds B s) (\<lambda>ms.
         raise_if (ms \<noteq> expected_timeout_ms)
           (work_error ''countersign timeout must match the original receipt'')))) (\<lambda>_.
     ibind (lift (as_str AssertionError (dget payload ''commit''))) (\<lambda>commit.
     ibind (inspect_checkout E B L repository (Some commit)) (\<lambda>co.
     ibind (iraise_if (JStr (co_repository co) \<noteq> dget payload ''repository'')
       (work_error ''checkout repository does not match the receipt'')) (\<lambda>_.
     countersign_checkout E B L verifier_did key envelope payload items expected_timeout_ms co))))))))))"

section \<open>What a run of either leaves\<close>

text \<open>
  From \<open>w\<close> to \<open>w'\<close>, and nothing else: a complete look at \<open>d\<close> that finds the clean checkout \<open>co\<close>, the
  command in its root, answered by \<open>r\<close>, and then a complete look at that root, which finds a clean
  checkout at the same commit of the same repository.
\<close>

definition run_between_looks ::
  "lib \<Rightarrow> workshop \<Rightarrow> path \<Rightarrow> checkout \<Rightarrow> str list \<Rightarrow> int \<Rightarrow> command_reply \<Rightarrow> world \<Rightarrow> world \<Rightarrow> bool" where
  "run_between_looks L B d co args ms r w w' \<longleftrightarrow> (\<exists>u v co'. saw_checkout L B d co w u
     \<and> one_answer (command_answer B) (ExecCommand (co_root co) args (nat ms)) r u v
     \<and> saw_checkout L B (resolve_path B (co_root co)) co' v w'
     \<and> co_commit co' = co_commit co \<and> co_repository co' = co_repository co)"

text \<open>
  What an exception leaves: only git was asked; or the command ran once, after a complete look that
  found a clean checkout, as \<open>P\<close> allows it there, and only git was asked after it.
\<close>

definition stopped_run ::
  "lib \<Rightarrow> workshop \<Rightarrow> path \<Rightarrow> (checkout \<Rightarrow> str list \<Rightarrow> int \<Rightarrow> bool) \<Rightarrow> world \<Rightarrow> world \<Rightarrow> bool" where
  "stopped_run L B d P w w' \<longleftrightarrow> only_git w w'
     \<or> (\<exists>co args ms u v. P co args ms \<and> saw_checkout L B d co w u
          \<and> asked [ExecCommand (co_root co) args (nat ms)] u v \<and> only_git v w')"

lemma run_between_looks_then:
  "run_between_looks L B d co args ms r u v \<Longrightarrow> elapsed v w \<Longrightarrow> run_between_looks L B d co args ms r u w"
  unfolding run_between_looks_def using saw_checkout_then by blast

lemma stopped_run_then: "stopped_run L B d P u v \<Longrightarrow> only_git v w \<Longrightarrow> stopped_run L B d P u w"
  unfolding stopped_run_def using only_git_trans by blast

lemma stopped_looking: "only_git w w' \<Longrightarrow> stopped_run L B d P w w'"
  by (simp add: stopped_run_def)

lemma stopped_running:
  assumes "P co args ms" "saw_checkout L B d co w u" "asked [ExecCommand (co_root co) args (nat ms)] u v" "only_git v w'"
  shows "stopped_run L B d P w w'"
  using assms unfolding stopped_run_def by blast

lemma stopped_after_run: "run_between_looks L B d co args ms r w w' \<Longrightarrow> P co args ms \<Longrightarrow> stopped_run L B d P w w'"
  unfolding run_between_looks_def one_answer_def by (blast intro: stopped_running saw_checkout_git)

lemma elapsed_git: "elapsed w w' \<Longrightarrow> only_git w w'"
  by (simp add: elapsed_def only_git_asked)

lemma run_in_checkout_wp:
  assumes look: "saw_checkout L B d co u w" and P: "\<And>args. command = JArr (map JStr args) \<Longrightarrow> P co args ms"
    and cap: "\<And>out err w0. wp (capture out err) (\<lambda>_. elapsed w0) (\<lambda>_. elapsed w0) w0"
    and Q: "\<And>args r ex w'. command = JArr (map JStr args) \<Longrightarrow> command_ok args \<Longrightarrow> measured L ex r \<Longrightarrow>
        run_between_looks L B d co args ms r u w' \<Longrightarrow> Q ex w'"
    and R: "\<And>e w'. stopped_run L B d P u w' \<Longrightarrow> R e w'"
  shows "wp (run_in_checkout E B L co command ms capture) Q R w"
  unfolding run_in_checkout_def wp_ibind
proof (rule execute_wp [OF cap])
  fix args r ex w1
  assume a: "command = JArr (map JStr args)" "command_ok args" "measured L ex r"
    and run: "one_answer (command_answer B) (ExecCommand (co_root co) args (nat ms)) r w w1"
  have ran: "asked [ExecCommand (co_root co) args (nat ms)] w w1" using run by (simp add: one_answer_def)
  have R': "R e w'" if "only_git w1 w'" for e w'
    by (rule R) (rule stopped_running [where P = P, OF P [OF a(1)] look ran that])
  show "wp (inspect_checkout E B L (co_root co) (Some (co_commit co)))
     (\<lambda>x. wp (iraise_if (co_repository x \<noteq> co_repository co)
        (work_error ''checkout origin changed while the command was running'')) (\<lambda>y. wp (iret ex) Q R) R) R w1"
  proof (rule inspect_checkout_wp)
    fix co' w'
    assume again: "saw_checkout L B (resolve_path B (co_root co)) co' w1 w'"
      and c: "Some (co_commit co) = None \<or> Some (co_commit co) = Some (co_commit co')"
    have "Q ex w'" if "co_repository co' = co_repository co"
      by (rule Q [OF a]) (use look run again c that in \<open>auto simp: run_between_looks_def\<close>)
    then show "wp (iraise_if (co_repository co' \<noteq> co_repository co)
        (work_error ''checkout origin changed while the command was running'')) (\<lambda>y. wp (iret ex) Q R) R w'"
      using R' saw_checkout_git [OF again] by (auto intro!: iraise_if_wp simp: wp_iret)
  qed (rule R')
next
  fix e w' assume "asked [] w w'"
  then show "R e w'" by (intro R stopped_looking only_git_trans [OF saw_checkout_git [OF look]] only_git_asked)
next
  fix e args w' assume a: "command = JArr (map JStr args)" "asked [ExecCommand (co_root co) args (nat ms)] w w'"
  show "R e w'" by (rule R [OF stopped_running [where P = P, OF P [OF a(1)] look a(2) only_git_refl]])
qed

section \<open>What is issued\<close>

lemma envelope_dget:
  "dget [(lit ''schema'', a), (lit ''receipt'', r), (lit ''countersignatures'', c)] ''schema'' = a"
  "dget [(lit ''schema'', a), (lit ''receipt'', r), (lit ''countersignatures'', c)] ''receipt'' = r"
  "dget [(lit ''schema'', a), (lit ''receipt'', r), (lit ''countersignatures'', c)] ''countersignatures'' = c"
  by (simp_all add: dget_def)

lemma wrapper_dget:
  "dget [(lit ''payload'', a), (lit ''payload_sha256'', h), (lit ''signature'', g)] ''payload'' = a"
  "dget [(lit ''payload'', a), (lit ''payload_sha256'', h), (lit ''signature'', g)] ''payload_sha256'' = h"
  "dget [(lit ''payload'', a), (lit ''payload_sha256'', h), (lit ''signature'', g)] ''signature'' = g"
  by (simp_all add: dget_def)

definition envelope_pairs :: "json \<Rightarrow> json list \<Rightarrow> pairs" where
  "envelope_pairs r cs = [(lit ''schema'', JStr (lit WORK_RECEIPT_ENVELOPE_SCHEMA)), (lit ''receipt'', r),
     (lit ''countersignatures'', JArr cs)]"

lemma work_envelope_pairs: "work_envelope r cs = JObj (envelope_pairs r cs)"
  by (simp add: work_envelope_def envelope_pairs_def)

lemma sign_payload_payload:
  assumes "sign_payload L key p = Inr v" and "signed_by L k v q" shows "q = p"
  using assms by (auto simp: sign_payload_def Let_def res_simps signed_by_def wrapper_dget)

lemma verify_envelope_iff:
  "verify_work_receipt L (ReceiptValue (work_envelope r cs)) = Inr s \<longleftrightarrow>
     (\<exists>p qs. work_receipt_ok L (envelope_pairs r cs) p qs
       \<and> s = \<lparr>ws_payload = p, ws_countersignatures = length qs, ws_matching = length qs\<rparr>)"
proof -
  have "decode_work (ReceiptValue (work_envelope r cs)) = Inr (envelope_pairs r cs)"
    by (simp add: decode_work_def decode_source_def work_envelope_pairs)
  then show ?thesis
    unfolding verify_work_receipt_def bind_eq_Inr
    by (auto simp: verify_and_decode_iff split: prod.split)
qed

lemma issued_envelope:
  assumes "sign_payload L key p = Inr v" and "verify_work_receipt L (ReceiptValue (work_envelope v [])) = Inr s"
  shows "work_receipt_ok L (envelope_pairs v []) p []"
proof -
  obtain q qs where ok: "work_receipt_ok L (envelope_pairs v []) q qs"
    using assms(2) unfolding verify_envelope_iff by blast
  then have "signed_by L ''issuer'' v q" "qs = []"
    by (auto simp: work_receipt_ok_def envelope_pairs_def envelope_dget)
  with ok sign_payload_payload [OF assms(1)] show ?thesis by blast
qed

text \<open>The run a receipt asks for: its command and timeout, in a checkout of its repository at its commit.\<close>

definition asks_for :: "pairs \<Rightarrow> checkout \<Rightarrow> str list \<Rightarrow> int \<Rightarrow> bool" where
  "asks_for p co args ms \<longleftrightarrow> dget p ''command'' = JArr (map JStr args) \<and> dget p ''timeout_ms'' = JInt ms
     \<and> dget p ''repository'' = JStr (co_repository co) \<and> dget p ''commit'' = JStr (co_commit co)"

text \<open>
  The exit code a receipt claims is the one that was seen, by value: Python holds \<open>False\<close>, \<open>0\<close>, \<open>0.0\<close>
  and \<open>-0.0\<close> for one number.
\<close>

fun number_of :: "json \<Rightarrow> rat option" where
  "number_of (JInt i) = Some (of_int i)"
| "number_of (JBool b) = Some (if b then 1 else 0)"
| "number_of (JFloat f) = float_value f"
| "number_of v = None"

definition claims_exit :: "json \<Rightarrow> int option \<Rightarrow> bool" where
  "claims_exit v code \<longleftrightarrow> (case code of None \<Rightarrow> v = JNull | Some i \<Rightarrow> number_of v = Some (of_int i))"

text \<open>The result, the exit code, the hashes and the sizes a receipt claims are those of this answer.\<close>

definition claims_reply :: "lib \<Rightarrow> pairs \<Rightarrow> command_reply \<Rightarrow> bool" where
  "claims_reply L p r \<longleftrightarrow> (case r of
      Ended code out err \<Rightarrow>
        dget p ''result'' = JStr (lit (case code of None \<Rightarrow> ''timed_out'' | Some i \<Rightarrow> if i = 0 then ''passed'' else ''failed''))
        \<and> claims_exit (dget p ''exit_code'') code
        \<and> dget p ''stdout_sha256'' = JStr (sha256_hex L out) \<and> dget p ''stdout_bytes'' = JInt (int (length out))
        \<and> dget p ''stderr_sha256'' = JStr (sha256_hex L err) \<and> dget p ''stderr_bytes'' = JInt (int (length err))
    | _ \<Rightarrow> False)"

text \<open>The receipt \<open>v\<close> names the run that was asked for and what it answered, signed over the payload the code builds.\<close>

definition names_run :: "lib \<Rightarrow> str \<Rightarrow> checkout \<Rightarrow> str list \<Rightarrow> int \<Rightarrow> command_reply \<Rightarrow> json \<Rightarrow> bool" where
  "names_run L did co args ms r v \<longleftrightarrow> (\<exists>env p ex. v = JObj env \<and> work_receipt_ok L env p []
     \<and> dget p ''issuer'' = JStr did \<and> asks_for p co args ms \<and> claims_reply L p r
     \<and> measured L ex r \<and> p = work_payload did co (map JStr args) ms ex)"

lemma names_run_payload:
  assumes "measured L ex r" "work_receipt_ok L env (work_payload did co (map JStr args) ms ex) []"
  shows "names_run L did co args ms r (JObj env)"
proof -
  let ?p = "work_payload did co (map JStr args) ms ex"
  have "dget ?p ''issuer'' = JStr did" "asks_for ?p co args ms"
    by (simp_all add: work_payload_def dget_def asks_for_def)
  moreover have "claims_reply L ?p r"
    using assms(1) by (auto simp: measured_def claims_reply_def claims_exit_def work_payload_def dget_def result_of_def split: option.split)
  ultimately show ?thesis unfolding names_run_def using assms by blast
qed

lemma measure_and_sign_wp:
  assumes look: "saw_checkout L B d co u w" and P: "\<And>args. command = JArr (map JStr args) \<Longrightarrow> P co args ms"
    and Q: "\<And>args r v w'. command = JArr (map JStr args) \<Longrightarrow> names_run L did co args ms r v \<Longrightarrow>
        run_between_looks L B d co args ms r u w' \<Longrightarrow> Q v w'"
    and R: "\<And>e w'. stopped_run L B d P u w' \<Longrightarrow> R e w'"
  shows "wp (measure_and_sign E B L co command did key ms bundle) Q R w"
  unfolding measure_and_sign_def wp_ibind
proof (rule run_in_checkout_wp [where P = P, OF look P])
  show "wp ((case bundle of None \<Rightarrow> \<lambda>out err. iret () | Some p \<Rightarrow> capture_outputs E p) out err)
      (\<lambda>_. elapsed w0) (\<lambda>_. elapsed w0) w0" for out err w0
    using apart.wp_grows [OF apart_capture]
    by (cases "bundle") (simp_all add: wp_iret elapsed_refl)
next
  fix args r ex w'
  assume c: "command = JArr (map JStr args)" "command_ok args"
    and m: "measured L ex r" and i: "run_between_looks L B d co args ms r u w'"
  let ?p = "work_payload did co (map JStr args) ms ex"
  have e: "R e w2" if "elapsed w' w2" for e w2
    by (rule R) (rule stopped_after_run [where P = P, OF run_between_looks_then [OF i that] P [OF c(1)]])
  have fin: "wp (case bundle of None \<Rightarrow> iret () | Some p \<Rightarrow> finish_bundle E L p ?p (work_envelope v []))
      (\<lambda>_. wp (iret (work_envelope v [])) Q R) R w'"
    if "work_receipt_ok L (envelope_pairs v []) ?p []" for v
  proof -
    have q: "Q (work_envelope v []) w2" if "elapsed w' w2" for w2
      by (rule Q [OF c(1) _ run_between_looks_then [OF i that]])
        (use names_run_payload [OF m \<open>work_receipt_ok L (envelope_pairs v []) ?p []\<close>] in \<open>simp add: work_envelope_pairs\<close>)
    show ?thesis
    proof (cases "bundle")
      case (Some p)
      show ?thesis unfolding Some option.case
        by (rule wp_mono [OF apart.wp_grows [OF apart_finish]]) (simp_all add: wp_iret q e)
    qed (simp add: wp_iret q elapsed_refl)
  qed
  have v: "validate_command command = Inr (map JStr args)" unfolding work_iff using c by blast
  show "wp (lift (validate_command command))
     (\<lambda>argv. wp (let payload = work_payload did co argv ms ex in
        ibind (lift (validate_work_payload payload)) (\<lambda>_.
        ibind (lift (sign_payload L key payload)) (\<lambda>signed.
        let envelope = work_envelope signed [] in
        ibind (lift (verify_work_receipt L (ReceiptValue envelope))) (\<lambda>_.
        ibind (case bundle of None \<Rightarrow> iret () | Some p \<Rightarrow> finish_bundle E L p payload envelope) (\<lambda>_.
        iret envelope))))) Q R) R w'"
    unfolding v by (auto simp: wp_lift wp_ibind Let_def elapsed_refl
      intro!: fin e issued_envelope split: sum.split)
qed (assumption | rule R)+

definition run_as_asked :: "workshop \<Rightarrow> str list \<Rightarrow> pyfloat \<Rightarrow> checkout \<Rightarrow> str list \<Rightarrow> int \<Rightarrow> bool" where
  "run_as_asked B command seconds co args ms \<longleftrightarrow> args = command \<and> timeout_milliseconds B seconds = Inr ms"

theorem create_work_receipt_wp:
  "wp (create_work_receipt E B L repository command did key seconds target)
     (\<lambda>v w'. \<exists>co ms r. run_as_asked B command seconds co command ms \<and> names_run L did co command ms r v
        \<and> run_between_looks L B (resolve_path B repository) co command ms r w w')
     (\<lambda>e w'. stopped_run L B (resolve_path B repository) (run_as_asked B command seconds) w w') w"
  (is "wp _ ?Q (\<lambda>e w'. ?S w w') w")
proof -
  let ?c = "JArr (map JStr command)" and ?d = "resolve_path B repository"
  note stop = stopped_run_then [of L B ?d "run_as_asked B command seconds" w]
  have m: "wp (measure_and_sign E B L co ?c did key ms b) ?Q (\<lambda>_. ?S w) w1"
    if "saw_checkout L B ?d co w w1" "timeout_milliseconds B seconds = Inr ms" for w1 co ms b
    by (rule measure_and_sign_wp [OF that(1)]) (use that(2) in \<open>auto simp: run_as_asked_def\<close>)
  have clean: "wp (ibind (on_error is_OSError (\<lambda>_. iraise bundle_remains) (remove_bundle E B p)) (\<lambda>_. iraise e)) ?Q (\<lambda>_. ?S w) w'"
    if s: "?S w w'" for p e w'
  proof -
    have "apart.grows (on_error is_OSError (\<lambda>_. iraise bundle_remains) (remove_bundle E B p))"
      by (intro apart_intros apart_remove_bundle)
    from apart.wp_grows [OF this] show ?thesis
      unfolding wp_ibind wp_lift sum.case by (rule wp_mono) (rule stop [OF s elapsed_git], assumption)+
  qed
  have r0: "?S w w'" if "saw_checkout L B ?d co w w1" "elapsed w1 w'" for co w1 w'
    using only_git_trans [OF saw_checkout_git [OF that(1)] elapsed_git [OF that(2)]] by (rule stopped_looking)
  have run: "wp (case target of
        None \<Rightarrow> measure_and_sign E B L co ?c did key ms None
      | Some destination \<Rightarrow> ibind (new_bundle B destination (co_root co)) (\<lambda>p.
          with_bundle E B p (measure_and_sign E B L co ?c did key ms (Some p)))) ?Q (\<lambda>_. ?S w) w1"
    if k: "saw_checkout L B ?d co w w1" "timeout_milliseconds B seconds = Inr ms" for w1 co ms
  proof (cases target)
    case (Some destination)
    have inside: "wp (with_bundle E B p (measure_and_sign E B L co ?c did key ms (Some p))) ?Q (\<lambda>_. ?S w) w2"
      if a: "elapsed w1 w2" for p w2
      unfolding with_bundle_def wp_ibind
    proof (rule wp_mono [OF apart.wp_grows [OF apart_enter_bundle]])
      fix w3 assume b: "elapsed w2 w3"
      have "saw_checkout L B ?d co w w3" using k(1) a b by (blast intro: saw_checkout_then)
      from m [OF this k(2)] show "wp (on_error (\<lambda>e. e \<noteq> Killed)
          (\<lambda>e. ibind (on_error is_OSError (\<lambda>_. iraise bundle_remains) (remove_bundle E B p)) (\<lambda>_. iraise e))
          (measure_and_sign E B L co ?c did key ms (Some p))) ?Q (\<lambda>_. ?S w) w3"
        unfolding wp_on_error by (rule wp_mono) (use clean in auto)
    next
      fix w3 assume "elapsed w2 w3"
      then show "?S w w3" using r0 [OF k(1)] a elapsed_trans by blast
    qed
    show ?thesis unfolding Some option.case wp_ibind
      by (rule wp_mono [OF apart.wp_grows [OF apart_new_bundle]]) (use inside r0 [OF k(1)] in blast)+
  qed (use m [OF k] in simp)
  show ?thesis
    unfolding create_work_receipt_def wp_ibind
  proof (rule wp_lift [THEN iffD2], split sum.split, intro conjI allI impI, goal_cases)
    case 2
    show ?case
    proof (rule inspect_checkout_wp)
      fix co w' assume "saw_checkout L B ?d co w w'"
      then show "wp (lift (timeout_milliseconds B seconds)) (\<lambda>ms. wp (let argv = ?c in case target of
            None \<Rightarrow> measure_and_sign E B L co argv did key ms None
          | Some destination \<Rightarrow> ibind (new_bundle B destination (co_root co)) (\<lambda>p.
              with_bundle E B p (measure_and_sign E B L co argv did key ms (Some p)))) ?Q (\<lambda>_. ?S w)) (\<lambda>_. ?S w) w'"
        unfolding wp_lift Let_def
        by (cases "timeout_milliseconds B seconds") (use run r0 [OF _ elapsed_refl] in auto)
    qed (rule stopped_looking)
  qed (rule stopped_looking [OF only_git_refl])
qed

end
