(* ===== verification/Work_Bundle.thy ===== *)
theory Work_Bundle
  imports Work_Create
begin

text \<open>
  What an output bundle holds at the end of an issued receipt: the two outputs, the receipt that
  names their hashes, and nothing else; and that a run that fails leaves no bundle, unless it says
  that it could not remove it.
\<close>

interpretation dirs: world_order "\<lambda>w w'. outdir w' = outdir w"
  by unfold_locales auto

lemma dirs_exchange: "dirs.grows (exchange answers E r)"
proof -
  have "wp (exchange answers E r) (\<lambda>_ w'. outdir w' = outdir w) (\<lambda>_ w'. outdir w' = outdir w) w" for w
    by (auto simp: exchange_def wp_simps split: io_fault.split)
  then show ?thesis unfolding dirs.grows_def wp_always by blast
qed

lemma dirs_inspect: "dirs.grows (inspect_checkout E B L r expected)"
  unfolding inspect_checkout_def run_git_def Let_def by (intro dirs.grows_intros dirs_exchange)

lemma dirs_new_bundle: "dirs.grows (new_bundle B destination r)"
  unfolding new_bundle_def Let_def by (auto intro!: dirs.grows_intros split: option.split prod.split)

lemma wp_set_bundle [wp_simps]: "wp (set_bundle p d) Q R w = Q () (w\<lparr>outdir := (outdir w)(p := d)\<rparr>)"
  by (simp add: set_bundle_def wp_simps)

lemma wp_bundle_files [wp_simps]:
  "wp (bundle_files p) Q R w = (case outdir w p of None \<Rightarrow> R OSError w | Some m \<Rightarrow> Q m w)"
  by (simp add: bundle_files_def wp_simps split: option.split)

text \<open>Elsewhere nothing changes.\<close>

definition elsewhere :: "path \<Rightarrow> (path \<Rightarrow> 'b) \<Rightarrow> (path \<Rightarrow> 'b) \<Rightarrow> bool" where
  "elsewhere p D D' \<longleftrightarrow> (\<forall>q. q \<noteq> p \<longrightarrow> D' q = D q)"

lemma elsewhere_simps [simp]: "elsewhere p D D" "elsewhere p D (D'(p := d)) = elsewhere p D D'"
  by (auto simp: elsewhere_def)

lemma elsewhere_restore: "elsewhere p D D' \<Longrightarrow> D p = None \<Longrightarrow> D'(p := None) = D"
  by (auto simp: elsewhere_def fun_eq_iff)

text \<open>\<open>op\<close> takes the bundle's files from \<open>m\<close> to \<open>m'\<close>; when it raises, it has changed nothing elsewhere.\<close>

definition fills :: "path \<Rightarrow> (string \<Rightarrow> bytes option) \<Rightarrow> (string \<Rightarrow> bytes option) \<Rightarrow> 'a io \<Rightarrow> bool" where
  "fills p m m' op \<longleftrightarrow> (\<forall>w. outdir w p = Some m \<longrightarrow>
     wp op (\<lambda>_ w'. outdir w' = (outdir w)(p := Some m')) (\<lambda>_ w'. elsewhere p (outdir w) (outdir w')) w)"

lemma fills_ibind:
  assumes "fills p m m1 a" and "\<And>x. fills p m1 m2 (b x)" shows "fills p m m2 (ibind a b)"
  unfolding fills_def wp_ibind
proof (intro allI impI)
  fix w :: world assume "outdir w p = Some m"
  with assms(1) have "wp a (\<lambda>_ w'. outdir w' = (outdir w)(p := Some m1))
      (\<lambda>_ w'. elsewhere p (outdir w) (outdir w')) w" by (simp add: fills_def)
  then show "wp a (\<lambda>x. wp (b x) (\<lambda>_ w'. outdir w' = (outdir w)(p := Some m2))
      (\<lambda>_ w'. elsewhere p (outdir w) (outdir w'))) (\<lambda>_ w'. elsewhere p (outdir w) (outdir w')) w"
  proof (rule wp_mono)
    fix x and w1 :: world assume w1: "outdir w1 = (outdir w)(p := Some m1)"
    then have "wp (b x) (\<lambda>_ w'. outdir w' = (outdir w1)(p := Some m2)) (\<lambda>_ w'. elsewhere p (outdir w1) (outdir w')) w1"
      by (intro assms(2) [unfolded fills_def, rule_format]) (simp add: w1)
    then show "wp (b x) (\<lambda>_ w'. outdir w' = (outdir w)(p := Some m2)) (\<lambda>_ w'. elsewhere p (outdir w) (outdir w')) w1"
      by (rule wp_mono) (simp_all add: w1 elsewhere_def)
  qed
qed

lemma fills_bundle_files: "fills p m m' (f m) \<Longrightarrow> fills p m m' (ibind (bundle_files p) f)"
  by (simp add: fills_def wp_simps)

lemma fills_raise_if: "fills p m m (iraise_if c e)"
  by (auto simp: fills_def wp_simps raise_if_def fun_upd_idem)

lemma fills_on_error: "fills p m m' a \<Longrightarrow> fills p m m' (on_error c (\<lambda>_. iraise e) a)"
  unfolding fills_def wp_on_error wp_lift by (auto elim!: wp_mono)

lemma fills_write_new: "fills p m (m(name \<mapsto> data)) (write_new E p name data)"
  unfolding write_new_def by (intro fills_bundle_files fills_ibind [OF fills_raise_if])
    (auto simp: fills_def wp_simps split: io_fault.split)

lemma fills_change_entry: "fills p m (m(name := v)) (change_entry E p name v)"
  unfolding change_entry_def by (intro fills_bundle_files) (auto simp: fills_def wp_simps split: io_fault.split)

lemma fills_sync: "fills p m m (sync_directory E p)"
  unfolding sync_directory_def
  by (intro fills_bundle_files) (auto simp: fills_def wp_simps fun_upd_idem split: io_fault.split)

section \<open>Filling the bundle\<close>

definition saved_outputs :: "bytes \<Rightarrow> bytes \<Rightarrow> string \<Rightarrow> bytes option" where
  "saved_outputs out err = (\<lambda>_. None)(''stdout.bin'' \<mapsto> out, ''stderr.bin'' \<mapsto> err)"

lemma fills_save_output: "fills p m (m(name \<mapsto> data)) (save_output E p name data)"
  unfolding save_output_def by (intro fills_ibind [OF fills_raise_if] fills_write_new)

lemma fills_capture: "fills p (\<lambda>_. None) (saved_outputs out err) (capture_outputs E p out err)"
  unfolding capture_outputs_def saved_outputs_def
  by (intro fills_on_error fills_ibind [OF fills_save_output] fills_save_output)

definition complete_bundle :: "lib \<Rightarrow> pairs \<Rightarrow> json \<Rightarrow> (string \<Rightarrow> bytes option) \<Rightarrow> bool" where
  "complete_bundle L payload v m \<longleftrightarrow> (\<exists>out err r. m = (saved_outputs out err)(''receipt.json'' \<mapsto> utf8 (r @ [10]))
     \<and> render_work_receipt L (ReceiptValue v) = Inr r
     \<and> dget payload ''stdout_sha256'' = JStr (sha256_hex L out) \<and> dget payload ''stdout_bytes'' = JInt (int (length out))
     \<and> dget payload ''stderr_sha256'' = JStr (sha256_hex L err) \<and> dget payload ''stderr_bytes'' = JInt (int (length err)))"

text \<open>The three steps of \<open>finish\<close> after the checks\<close>

definition publish_receipt :: "env \<Rightarrow> path \<Rightarrow> bytes \<Rightarrow> unit io" where
  "publish_receipt E p data =
     ibind (write_new E p ''receipt.pending'' data) (\<lambda>_.
     ibind (sync_directory E p) (\<lambda>_.
     ibind (bundle_files p) (\<lambda>m.
     ibind (iraise_if (m ''receipt.json'' \<noteq> None) OSError) (\<lambda>_.
     ibind (change_entry E p ''receipt.json'' (m ''receipt.pending'')) (\<lambda>_.
     ibind (change_entry E p ''receipt.pending'' None) (\<lambda>_.
     sync_directory E p))))))"

lemma fills_publish:
  assumes "m ''receipt.pending'' = None"
  shows "fills p m (m(''receipt.json'' \<mapsto> data)) (publish_receipt E p data)"
proof -
  let ?m1 = "m(''receipt.pending'' \<mapsto> data)" and ?m3 = "m(''receipt.json'' \<mapsto> data)"
  have "?m1(''receipt.json'' := ?m1 ''receipt.pending'', ''receipt.pending'' := None) = ?m3"
    using assms by (auto simp: fun_eq_iff)
  then have "fills p (?m1(''receipt.json'' := ?m1 ''receipt.pending'')) ?m3 (change_entry E p ''receipt.pending'' None)"
    using fills_change_entry [of p "?m1(''receipt.json'' := ?m1 ''receipt.pending'')" "''receipt.pending''" None E] by simp
  then show ?thesis unfolding publish_receipt_def
    by (intro fills_ibind [OF fills_write_new] fills_ibind [OF fills_sync] fills_bundle_files
        fills_ibind [OF fills_raise_if] fills_ibind [OF fills_change_entry] fills_ibind [OF _ fills_sync])
qed

lemma check_saved_wp:
  assumes "outdir w p = Some m" and "m name = Some data"
    and "\<And>w'. outdir w' = outdir w \<Longrightarrow> h = JStr (sha256_hex L data) \<Longrightarrow> n = JInt (int (length data)) \<Longrightarrow> Q () w'"
    and "\<And>e w'. outdir w' = outdir w \<Longrightarrow> R e w'"
  shows "wp (check_saved E L p name h n) Q R w"
  unfolding check_saved_def read_bundle_def using assms
  by (auto simp: wp_simps raise_if_def hash_file_eq split: io_fault.split)

lemma finish_wp:
  assumes w: "outdir w p = Some (saved_outputs out err)"
  shows "wp (finish_bundle E L p payload v)
     (\<lambda>_ w'. \<exists>m. complete_bundle L payload v m \<and> outdir w' = (outdir w)(p := Some m))
     (\<lambda>_ w'. elsewhere p (outdir w) (outdir w')) w"
  (is "wp _ ?Q ?R w")
proof -
  have names: "saved_outputs out err ''stdout.bin'' = Some out" "saved_outputs out err ''stderr.bin'' = Some err"
    "saved_outputs out err ''receipt.pending'' = None"
    by (simp_all add: saved_outputs_def)
  have publish: "wp (publish_receipt E p (utf8 (r @ [10]))) ?Q ?R w2"
    if "outdir w2 = outdir w" "complete_bundle L payload v ((saved_outputs out err)(''receipt.json'' \<mapsto> utf8 (r @ [10])))" for r w2
    using fills_publish [where m = "saved_outputs out err" and p = p and data = "utf8 (r @ [10])" and E = E, OF names(3)] w that
    unfolding fills_def by (auto elim!: allE [of _ w2] wp_mono)
  have "wp (ibind (check_saved E L p ''stdout.bin'' (dget payload ''stdout_sha256'') (dget payload ''stdout_bytes'')) (\<lambda>_.
        ibind (check_saved E L p ''stderr.bin'' (dget payload ''stderr_sha256'') (dget payload ''stderr_bytes'')) (\<lambda>_.
        ibind (lift (render_work_receipt L (ReceiptValue v))) (\<lambda>rendered. publish_receipt E p (utf8 (rendered @ [10])))))) ?Q ?R w"
    unfolding wp_ibind
    by (rule check_saved_wp [OF w, where name = "''stdout.bin''", OF names(1)],
      rule check_saved_wp [where name = "''stderr.bin''" and m = "saved_outputs out err", OF _ names(2)])
      (auto simp: w wp_lift split: sum.split intro!: publish, auto simp: complete_bundle_def)
  then show ?thesis
    unfolding finish_bundle_def wp_on_error publish_receipt_def Let_def
    by (rule wp_mono) (auto simp: wp_lift)
qed

section \<open>A whole run\<close>

lemma dirs_wp:
  assumes "dirs.grows m" and "\<And>x w'. outdir w' = outdir w \<Longrightarrow> Q x w'" and "\<And>e w'. outdir w' = outdir w \<Longrightarrow> R e w'"
  shows "wp m Q R w"
  by (rule wp_mono [OF dirs.wp_grows [OF assms(1)]]) (use assms(2,3) in blast)+

lemma execute_dirs:
  assumes w: "outdir w p = Some (\<lambda>_. None)"
  shows "wp (execute E B L co command ms (capture_outputs E p))
     (\<lambda>_ w'. \<exists>out err. outdir w' = (outdir w)(p := Some (saved_outputs out err)))
     (\<lambda>_ w'. elsewhere p (outdir w) (outdir w')) w" (is "wp _ ?Q ?R w")
proof -
  have cap: "wp (capture_outputs E p out err) (\<lambda>_. wp (iret x) ?Q ?R) ?R w1" if "outdir w1 = outdir w" for out err w1 x
    using fills_capture [of p out err E] w that
    unfolding fills_def by (fastforce simp: wp_iret elim!: allE [of _ w1] wp_mono)
  show ?thesis
    unfolding execute_def wp_ibind
    by (auto simp: wp_simps intro!: dirs_wp [OF dirs_exchange] cap
        split: sum.split command_reply.split simp del: wp_iret wp_iret_eta)
qed

text \<open>\<open>p\<close> now holds the complete bundle of the receipt \<open>v\<close>, and no other directory has changed.\<close>

definition holds_bundle ::
  "lib \<Rightarrow> path \<Rightarrow> json \<Rightarrow> (path \<Rightarrow> (string \<Rightarrow> bytes option) option) \<Rightarrow> (path \<Rightarrow> (string \<Rightarrow> bytes option) option) \<Rightarrow> bool" where
  "holds_bundle L p v D D' \<longleftrightarrow> (\<exists>env pl m. v = JObj env \<and> work_receipt_ok L env pl []
     \<and> complete_bundle L pl v m \<and> D' = D(p := Some m))"

lemma measure_and_sign_dirs:
  assumes w: "outdir w p = Some (\<lambda>_. None)"
  shows "wp (measure_and_sign E B L co command did key ms (Some p))
     (\<lambda>v w'. holds_bundle L p v (outdir w) (outdir w'))
     (\<lambda>_ w'. elsewhere p (outdir w) (outdir w')) w" (is "wp _ ?Q ?R w")
proof -
  have fin: "wp (finish_bundle E L p pl (work_envelope v [])) (\<lambda>_. wp (iret (work_envelope v [])) ?Q ?R) ?R w1"
    if "outdir w1 = (outdir w)(p := Some (saved_outputs out err))" "work_receipt_ok L (envelope_pairs v []) pl []"
    for pl v w1 out err
  proof (rule wp_mono [OF finish_wp])
    show "outdir w1 p = Some (saved_outputs out err)" using that(1) by simp
  qed (use that in \<open>auto simp: wp_iret work_envelope_pairs elsewhere_def holds_bundle_def\<close>)
  show ?thesis
    unfolding measure_and_sign_def run_in_checkout_def wp_ibind option.case Let_def wp_iret
  proof (rule wp_mono [OF execute_dirs [OF w]], goal_cases)
    case (1 ex w1)
    then obtain out err where w1: "outdir w1 = (outdir w)(p := Some (saved_outputs out err))" by blast
    show ?case
      by (rule dirs_wp [OF dirs_inspect])
        (auto simp: wp_lift w1 raise_if_def split: sum.split
          intro!: fin [unfolded wp_iret_eta] issued_envelope)
  qed
qed

text \<open>
  Every exception but three leaves the directories as they were: death, an \<open>OSError\<close> of the
  \<open>rmdir\<close> that follows a failed \<open>chmod\<close> (no other leaves the context manager with a bundle), and
  the one that says that the bundle could not be removed.
\<close>

lemma with_bundle_wp:
  assumes m: "\<And>w1. outdir w1 = (outdir w)(p := Some (\<lambda>_. None)) \<Longrightarrow>
      wp m Q (\<lambda>_ w'. elsewhere p (outdir w) (outdir w')) w1"
    and R: "\<And>e w'. outdir w' = outdir w \<Longrightarrow> R e w'"
    and R': "\<And>e w'. e \<in> {Killed, OSError, bundle_remains} \<Longrightarrow> R e w'"
  shows "wp (with_bundle E B p m) Q R w"
proof -
  have clean: "wp (on_error is_OSError (\<lambda>_. iraise bundle_remains) (remove_bundle E B p)) (\<lambda>_. wp (iraise e) Q R) R w1"
    if "elsewhere p (outdir w) (outdir w1)" "outdir w p = None" for e w1
    using elsewhere_restore [OF that]
    by (auto simp: remove_bundle_def wp_simps Let_def R R' split: io_fault.split option.split)
  have body: "wp (on_error (\<lambda>e. e \<noteq> Killed) (\<lambda>e. ibind (on_error is_OSError (\<lambda>_. iraise bundle_remains)
      (remove_bundle E B p)) (\<lambda>_. iraise e)) m) Q R w1"
    if "outdir w1 = (outdir w)(p := Some (\<lambda>_. None))" "outdir w p = None" for w1
    unfolding wp_on_error
    by (rule wp_mono [OF m [OF that(1)]]) (use clean that(2) R' in \<open>auto simp: wp_ibind\<close>)
  show ?thesis
    unfolding with_bundle_def enter_bundle_def
    by (auto simp: wp_simps raise_if_def R R' split: io_fault.split intro!: body simp del: wp_on_error)
qed

definition new_bundle_of ::
  "lib \<Rightarrow> json \<Rightarrow> (path \<Rightarrow> (string \<Rightarrow> bytes option) option) \<Rightarrow> (path \<Rightarrow> (string \<Rightarrow> bytes option) option) \<Rightarrow> bool" where
  "new_bundle_of L v D D' \<longleftrightarrow> (\<exists>p. D p = None \<and> holds_bundle L p v D D')"

definition removed_or_told :: "exc \<Rightarrow> (path \<Rightarrow> 'b) \<Rightarrow> (path \<Rightarrow> 'b) \<Rightarrow> bool" where
  "removed_or_told e D D' \<longleftrightarrow> D' = D \<or> e \<in> {Killed, OSError, bundle_remains}"

lemma create_work_receipt_dirs:
  "wp (create_work_receipt E B L repository command did key seconds (Some target))
     (\<lambda>v w'. new_bundle_of L v (outdir w) (outdir w')) (\<lambda>e w'. removed_or_told e (outdir w) (outdir w')) w" (is "wp _ ?Q ?R w")
proof -
  have inside: "wp (with_bundle E B p (measure_and_sign E B L co c did key ms (Some p))) ?Q ?R w1"
    if "outdir w1 = outdir w" for p co c ms w1
  proof (cases "outdir w p")
    case None
    show ?thesis
    proof (rule with_bundle_wp)
      fix w2 :: world assume w2: "outdir w2 = (outdir w1)(p := Some (\<lambda>_. None))"
      show "wp (measure_and_sign E B L co c did key ms (Some p)) ?Q (\<lambda>_ w'. elsewhere p (outdir w1) (outdir w')) w2"
        by (rule wp_mono [OF measure_and_sign_dirs])
          (use w2 that None in \<open>auto simp: elsewhere_def new_bundle_of_def holds_bundle_def\<close>)
    qed (use that in \<open>auto simp: removed_or_told_def\<close>)
  next
    case (Some d)
    then show ?thesis
      using that by (simp add: with_bundle_def enter_bundle_def wp_simps removed_or_told_def)
  qed
  show ?thesis
    unfolding create_work_receipt_def wp_ibind option.case Let_def
    by (auto simp: wp_lift split: sum.split intro!: dirs_wp [OF dirs_inspect] dirs_wp [OF dirs_new_bundle] inside)
      (auto simp: removed_or_told_def)
qed

end
