(* ===== verification/Work_Counter.thy ===== *)
theory Work_Counter
  imports Work_Bundle
begin

text \<open>
  What a countersigned receipt is: the receipt it came from with one countersignature more, by a
  new DID, over an execution of the receipt's own command that gave the receipt's own result.
\<close>

lemma signed_by_unique: "signed_by L k v p \<Longrightarrow> signed_by L k v q \<Longrightarrow> p = q"
  by (auto simp: signed_by_def)

lemma countersigns_unique:
  "list_all2 (countersigns L p) cs qs \<Longrightarrow> list_all2 (countersigns L p) cs qs' \<Longrightarrow> qs = qs'"
proof (induction cs arbitrary: qs qs')
  case (Cons c cs)
  obtain q r q' r' where e: "qs = q # r" "countersigns L p c q" "list_all2 (countersigns L p) cs r"
    "qs' = q' # r'" "countersigns L p c q'" "list_all2 (countersigns L p) cs r'"
    using Cons.prems by (auto simp: list_all2_Cons1)
  have "q = q'" using e(2,5) signed_by_unique unfolding countersigns_def by blast
  then show ?case using Cons.IH [OF e(3,6)] e(1,4) by simp
qed simp

lemma signed_value_payload:
  assumes "sign_payload L key q = Inr v" and "signed_by L k v q'" shows "q' = q"
  using sign_payload_payload [OF assms] .

lemma one_more_countersignature:
  assumes old: "work_receipt_ok L env p qs" and items: "dget env ''countersignatures'' = JArr items"
    and new: "sign_payload L key q = Inr v"
    and ok: "verify_work_receipt L (ReceiptValue (work_envelope (dget env ''receipt'') (items @ [v]))) = Inr s"
  shows "work_receipt_ok L (envelope_pairs (dget env ''receipt'') (items @ [v])) p (qs @ [q])"
proof -
  let ?env = "envelope_pairs (dget env ''receipt'') (items @ [v])"
  obtain p' qs' where ok': "work_receipt_ok L ?env p' qs'" using ok unfolding verify_envelope_iff by blast
  have "p' = p" using ok' old signed_by_unique by (auto simp: work_receipt_ok_def envelope_pairs_def envelope_dget)
  moreover have "list_all2 (countersigns L p') (items @ [v]) qs'"
    using ok' by (auto simp: work_receipt_ok_def envelope_pairs_def envelope_dget)
  ultimately obtain qs1 q1 where q: "qs' = qs1 @ [q1]" "list_all2 (countersigns L p) items qs1" "countersigns L p v q1"
    by (auto simp: list_all2_append1 list_all2_Cons1)
  have "q1 = q" using sign_payload_payload [OF new] q(3) by (auto simp: countersigns_def)
  moreover have "qs1 = qs" using q(2) old items countersigns_unique by (auto simp: work_receipt_ok_def)
  ultimately show ?thesis using ok' \<open>p' = p\<close> q(1) by simp
qed

lemma json_int_iff [simp]: "json_int v = Inr i \<longleftrightarrow> v = JInt i"
  by (simp add: json_int_def split: json.splits)

lemma matching_execution:
  assumes "measured L ex r" "execution_matches p ex" shows "claims_reply L p r"
proof -
  obtain code out err where r: "r = Ended code out err" "ex_result ex = result_of code" "ex_exit_code ex = code"
     "ex_stdout_sha256 ex = sha256_hex L out" "ex_stdout_bytes ex = length out"
     "ex_stderr_sha256 ex = sha256_hex L err" "ex_stderr_bytes ex = length err"
    using assms(1) by (auto simp: measured_def)
  have "claims_exit v code" if "same_exit_code code v" for v
    using that by (cases v) (auto simp: same_exit_code_def claims_exit_def split: option.splits)
  then show ?thesis using assms(2) r by (simp add: claims_reply_def execution_matches_def result_of_def)
qed

definition countersigned_by :: "lib \<Rightarrow> str \<Rightarrow> work_source \<Rightarrow> pairs \<Rightarrow> json \<Rightarrow> bool" where
  "countersigned_by L did src p v \<longleftrightarrow> (\<exists>env env' qs q. decode_work src = Inr env \<and> work_receipt_ok L env p qs
     \<and> v = JObj env' \<and> work_receipt_ok L env' p (qs @ [q]) \<and> dget q ''verifier'' = JStr did
     \<and> dget env' ''receipt'' = dget env ''receipt'')"

definition countersign_done ::
  "lib \<Rightarrow> workshop \<Rightarrow> path \<Rightarrow> str \<Rightarrow> work_source \<Rightarrow> world \<Rightarrow> json \<Rightarrow> world \<Rightarrow> bool" where
  "countersign_done L B d did src w v w' \<longleftrightarrow> (\<exists>p co args ms r. countersigned_by L did src p v
     \<and> asks_for p co args ms \<and> claims_reply L p r \<and> run_between_looks L B d co args ms r w w')"

text \<open>A run some verified receipt of this source asks for\<close>

definition asked_in :: "lib \<Rightarrow> work_source \<Rightarrow> checkout \<Rightarrow> str list \<Rightarrow> int \<Rightarrow> bool" where
  "asked_in L src co args ms \<longleftrightarrow> (\<exists>env p qs. decode_work src = Inr env \<and> work_receipt_ok L env p qs \<and> asks_for p co args ms)"

lemma verifier_of_counter: "dget (counter_payload L did h p t) ''verifier'' = JStr did"
  by (simp add: counter_payload_def dget_def)

lemma countersign_wp:
  "wp (countersign_work_receipt E B L src repository did key seconds)
     (countersign_done L B (resolve_path B repository) did src w)
     (\<lambda>_. stopped_run L B (resolve_path B repository) (asked_in L src) w) w"
  (is "wp _ ?Q (\<lambda>_. ?R) w")
proof (cases "verify_and_decode L src")
  case (Inl e)
  then show ?thesis
    using stopped_looking [OF only_git_refl]
    by (simp add: countersign_work_receipt_def wp_simps)
next
  case (Inr sp)
  let ?d = "resolve_path B repository"
  obtain summary env where sp: "sp = (summary, env)" by (cases sp) auto
  obtain p qs where env: "decode_work src = Inr env" "work_receipt_ok L env p qs" "ws_payload summary = p"
    using Inr unfolding sp verify_and_decode_iff by auto
  obtain items where items: "dget env ''countersignatures'' = JArr items"
    using env(2) by (auto simp: work_receipt_ok_def)
  obtain wrapper where wr: "dget env ''receipt'' = JObj wrapper" using env(2) by (auto simp: work_receipt_ok_def signed_by_def)
  obtain ms where ms: "dget p ''timeout_ms'' = JInt ms" using env(2) by (auto simp: work_receipt_ok_def work_payload_ok_def number_ok_def)
  obtain sha where sha: "dget p ''commit'' = JStr sha" using env(2) by (auto simp: work_receipt_ok_def work_payload_ok_def)
  have r0: "?R w" by (rule stopped_looking [OF only_git_refl])
  let ?env = "\<lambda>v. work_envelope (dget env ''receipt'') (items @ [v])"
  have signed: "countersigned_by L did src p (?env v)"
    if v: "sign_payload L key (counter_payload L did (dget wrapper ''payload_sha256'') p t) = Inr v"
        "verify_work_receipt L (ReceiptValue (?env v)) = Inr s" for v s t
  proof -
    have "work_receipt_ok L (envelope_pairs (dget env ''receipt'') (items @ [v])) p
        (qs @ [counter_payload L did (dget wrapper ''payload_sha256'') p t])"
      by (rule one_more_countersignature [OF env(2) items v])
    then show ?thesis
      unfolding countersigned_by_def using env(1,2)
      by (intro exI [of _ env] exI [of _ "envelope_pairs (dget env ''receipt'') (items @ [v])"] exI [of _ qs]
          exI [of _ "counter_payload L did (dget wrapper ''payload_sha256'') p t"] conjI)
        (simp_all add: work_envelope_pairs verifier_of_counter, simp add: envelope_pairs_def envelope_dget)
  qed
  have run: "wp (countersign_checkout E B L did key env p items ms co) ?Q (\<lambda>_. ?R) w'"
    if k: "saw_checkout L B ?d co w w'" "JStr (co_repository co) = dget p ''repository''" "sha = co_commit co" for w' co
    unfolding countersign_checkout_def wp_ibind
  proof (rule run_in_checkout_wp [where P = "asked_in L src", OF k(1)], goal_cases)
    case (1 args)
    then show ?case using env(1,2) k(2,3) ms sha by (auto simp: asked_in_def asks_for_def)
  next
    case (3 args r ex w1)
    have a: "asks_for p co args ms" using 3(1) k(2,3) ms sha by (simp add: asks_for_def)
    then have "asked_in L src co args ms" using env(1,2) by (auto simp: asked_in_def)
    then have R: "?R w2" if "elapsed w1 w2" for w2
      by (rule stopped_after_run [where P = "asked_in L src", OF run_between_looks_then [OF 3(4) that]])
    have "elapsed w1 (w1\<lparr>tick := Suc (tick w1)\<rparr>)" by (rule elapsed_tick) simp
    note later = run_between_looks_then [OF 3(4) this] R [OF this] R [OF elapsed_refl]
    have "?Q v (w1\<lparr>tick := Suc (tick w1)\<rparr>)" if "execution_matches p ex" "countersigned_by L did src p v" for v
      unfolding countersign_done_def using that later(1) matching_execution [OF 3(3)] a by blast
    then show ?case
      using later(2,3) signed by (auto simp: wp_simps wr raise_if_def Let_def split: sum.split)
  qed (auto simp: wp_iret elapsed_refl)
  show ?thesis
    unfolding countersign_work_receipt_def wp_ibind Inr sp
    by (auto simp: wp_lift wp_ibind env(3) items ms sha Let_def split: sum.split
        intro!: iraise_if_wp inspect_checkout_wp run r0 stopped_looking intro: saw_checkout_git)
qed

end
