(* ===== verification/Work_Honest.thy ===== *)
theory Work_Honest
  imports Work_Counter
begin

text \<open>
  An honest run is issued: in a clean checkout of a GitHub repository, with a command within the
  bounds that ends or times out and writes no more than the limit, with clocks that do not go
  back and no failing call, a receipt comes out, and it verifies.
\<close>

lemma sign_payload_signs:
  assumes "ed25519_ok L" and "length key = 32" and "did_from_private_key L key = Inr did"
    and "dget p k = JStr did"
  obtains v where "sign_payload L key p = Inr v" and "signed_by L k v p"
proof -
  let ?c = "canonical_json (float_repr L) (JObj p)"
  obtain sg where sg: "sign_detached L key ?c = Inr sg"
    using sign_detached_total [OF assms(1,2)] by blast
  have did: "match_did did" using assms(3) by (auto simp: did_from_private_key_def Let_def split: if_splits)
  have ver: "verify_detached_signature L did ?c sg" by (rule signed_verifies [OF assms(1-3) sg])
  let ?w = "[(lit ''payload'', JObj p), (lit ''payload_sha256'', JStr (sha256_hex L ?c)), (lit ''signature'', JStr sg)]"
  have "sign_payload L key p = Inr (JObj ?w)" unfolding sign_payload_def Let_def sg by simp
  moreover have "signed_by L k (JObj ?w) p"
    unfolding signed_by_def using did ver assms(4)
    by (intro exI [of _ ?w] exI [of _ did] exI [of _ sg]) (simp add: wrapper_dget keys_are_def SIGNED_WRAPPER_KEYS_def)
  ultimately show ?thesis by (rule that)
qed

lemma work_payload_dget:
  "dget (work_payload did co argv ms ex) ''schema'' = JStr (lit WORK_RECEIPT_SCHEMA)"
  "dget (work_payload did co argv ms ex) ''issuer'' = JStr did"
  "dget (work_payload did co argv ms ex) ''repository'' = JStr (co_repository co)"
  "dget (work_payload did co argv ms ex) ''commit'' = JStr (co_commit co)"
  "dget (work_payload did co argv ms ex) ''command'' = JArr argv"
  "dget (work_payload did co argv ms ex) ''timeout_ms'' = JInt ms"
  "dget (work_payload did co argv ms ex) ''result'' = JStr (lit (ex_result ex))"
  "dget (work_payload did co argv ms ex) ''exit_code'' = (case ex_exit_code ex of None \<Rightarrow> JNull | Some code \<Rightarrow> JInt code)"
  "dget (work_payload did co argv ms ex) ''stdout_sha256'' = JStr (ex_stdout_sha256 ex)"
  "dget (work_payload did co argv ms ex) ''stdout_bytes'' = JInt (int (ex_stdout_bytes ex))"
  "dget (work_payload did co argv ms ex) ''stderr_sha256'' = JStr (ex_stderr_sha256 ex)"
  "dget (work_payload did co argv ms ex) ''stderr_bytes'' = JInt (int (ex_stderr_bytes ex))"
  "dget (work_payload did co argv ms ex) ''started_at'' = JStr (ex_started_at ex)"
  "dget (work_payload did co argv ms ex) ''completed_at'' = JStr (ex_completed_at ex)"
  "dget (work_payload did co argv ms ex) ''duration_ms'' = JInt (ex_duration_ms ex)"
  by (simp_all add: work_payload_def dget_def)

definition ordered_times :: "str \<Rightarrow> str \<Rightarrow> bool" where
  "ordered_times a b \<longleftrightarrow> (\<exists>t u. valid_time t \<and> valid_time u \<and> \<not> earlier u t \<and> a = format_timestamp t \<and> b = format_timestamp u)"

text \<open>An execution within the bounds of a receipt\<close>

definition execution_ok :: "execution \<Rightarrow> bool" where
  "execution_ok ex \<longleftrightarrow>
     (case ex_exit_code ex of None \<Rightarrow> ex_result ex = ''timed_out''
      | Some i \<Rightarrow> -255 \<le> i \<and> i \<le> 255 \<and> ex_result ex = (if i = 0 then ''passed'' else ''failed''))
     \<and> match_sha256 (ex_stdout_sha256 ex) \<and> match_sha256 (ex_stderr_sha256 ex)
     \<and> ex_stdout_bytes ex \<le> MAX_OUTPUT_BYTES \<and> ex_stderr_bytes ex \<le> MAX_OUTPUT_BYTES
     \<and> ordered_times (ex_started_at ex) (ex_completed_at ex)
     \<and> 0 \<le> ex_duration_ms ex \<and> ex_duration_ms ex \<le> 3700000"

lemma denotes_format: "valid_time t \<Longrightarrow> denotes_time (JStr (format_timestamp t)) t"
  by (simp add: denotes_time_def format_timestamp_accepted time_of_format)

lemma honest_payload_ok:
  assumes "match_did did" and "checkout_ok co" and "command_ok args" and "1 \<le> ms" "ms \<le> 3600000" and "execution_ok ex"
  shows "work_payload_ok (work_payload did co (map JStr args) ms ex)"
proof -
  obtain t u where tu: "valid_time t" "valid_time u" "\<not> earlier u t" "ex_started_at ex = format_timestamp t"
    "ex_completed_at ex = format_timestamp u" using assms(6) by (auto simp: execution_ok_def ordered_times_def)
  have "keys_are (work_payload did co (map JStr args) ms ex) WORK_PAYLOAD_KEYS"
    by (simp add: keys_are_def work_payload_def WORK_PAYLOAD_KEYS_def)
  moreover have "\<exists>t u. denotes_time (JStr (ex_started_at ex)) t \<and> denotes_time (JStr (ex_completed_at ex)) u \<and> \<not> earlier u t"
    using tu denotes_format by metis
  moreover have "outcome_ok (JStr (lit (ex_result ex))) (case ex_exit_code ex of None \<Rightarrow> JNull | Some code \<Rightarrow> JInt code)"
    using assms(6) by (auto simp: execution_ok_def outcome_ok_def split: option.splits)
  ultimately show ?thesis
    using assms unfolding work_payload_ok_def work_payload_dget
    by (auto simp: checkout_ok_def hash_ok_def number_ok_def execution_ok_def)
qed

lemma honest_envelope:
  assumes "ed25519_ok L" and "length key = 32" and "did_from_private_key L key = Inr did"
    and "work_payload_ok p" and "dget p ''issuer'' = JStr did"
  obtains v s where "sign_payload L key p = Inr v"
    and "verify_work_receipt L (ReceiptValue (work_envelope v [])) = Inr s"
proof -
  obtain v where v: "sign_payload L key p = Inr v" "signed_by L ''issuer'' v p"
    using sign_payload_signs [OF assms(1-3,5)] .
  have "work_receipt_ok L (envelope_pairs v []) p []"
    using v(2) assms(4) by (simp add: work_receipt_ok_def envelope_pairs_def envelope_dget keys_are_def ENVELOPE_KEYS_def)
  then show ?thesis using v(1) that verify_envelope_iff by blast
qed

section \<open>The honest environment\<close>

definition undisturbed :: "env \<Rightarrow> bool" where
  "undisturbed E \<longleftrightarrow> (\<forall>t. fault E t = Fine) \<and> (\<forall>t. valid_time (clock_utc E t))
     \<and> (\<forall>t u. t \<le> u \<longrightarrow> \<not> earlier (clock_utc E u) (clock_utc E t))"

text \<open>Git describes one clean checkout at \<open>co\<close>, whenever it is asked.\<close>

definition describes :: "lib \<Rightarrow> workshop \<Rightarrow> checkout \<Rightarrow> bool" where
  "describes L B co \<longleftrightarrow> (\<forall>t d. \<exists>a b c r.
     git_answer B t (RunGit d [''rev-parse'', ''--show-toplevel'']) = GitOutput a \<and> resolve_text B (strip a) = co_root co
   \<and> git_answer B t (RunGit d [''status'', ''--porcelain'', ''--untracked-files=all'']) = GitOutput b \<and> strip b = []
   \<and> git_answer B t (RunGit d [''rev-parse'', ''--verify'', ''HEAD^{commit}'']) = GitOutput c \<and> strip c = co_commit co
   \<and> git_answer B t (RunGit d [''remote'', ''get-url'', ''origin'']) = GitOutput r
   \<and> repository_from_remote L (strip r) = Inr (co_repository co)) \<and> match_sha (co_commit co)"

lemma calm_exchange:
  assumes "undisturbed E" and "\<And>t w'. tick w \<le> tick w' \<Longrightarrow> Q (answers t r) w'"
  shows "wp (exchange answers E r) Q R w"
  using assms by (simp add: exchange_def undisturbed_def wp_simps)

lemma calm_git:
  assumes "undisturbed E" and "\<And>t. \<exists>out. git_answer B t (RunGit d xs) = GitOutput out \<and> P (strip out)"
    and "\<And>out w'. P out \<Longrightarrow> Q out w'"
  shows "wp (run_git E B d xs) Q R w"
  unfolding run_git_def wp_ibind
proof (rule calm_exchange [OF assms(1)])
  fix t w'
  show "wp (lift (output_of_git (git_answer B t (RunGit d xs)))) Q R w'"
    using assms(2) [of t] assms(3) by (auto simp: wp_lift output_of_git_def)
qed

lemma honest_inspect:
  assumes c: "undisturbed E" and d: "describes L B co" and x: "expected = None \<or> expected = Some (co_commit co)"
    and Q: "\<And>w'. Q co w'"
  shows "wp (inspect_checkout E B L dir expected) Q R w"
proof -
  have git: "\<exists>out. git_answer B t (RunGit d [''rev-parse'', ''--show-toplevel'']) = GitOutput out \<and> resolve_text B (strip out) = co_root co"
    "\<exists>out. git_answer B t (RunGit d [''status'', ''--porcelain'', ''--untracked-files=all'']) = GitOutput out \<and> strip out = []"
    "\<exists>out. git_answer B t (RunGit d [''rev-parse'', ''--verify'', ''HEAD^{commit}'']) = GitOutput out \<and> strip out = co_commit co"
    "\<exists>out. git_answer B t (RunGit d [''remote'', ''get-url'', ''origin'']) = GitOutput out
       \<and> repository_from_remote L (strip out) = Inr (co_repository co)" for t d
    using d unfolding describes_def by blast+
  have sha: "match_sha (co_commit co)" using d by (simp add: describes_def)
  have Q': "Q \<lparr>co_root = co_root co, co_repository = co_repository co, co_commit = co_commit co\<rparr> w'" for w'
    using Q by (cases co) simp
  show ?thesis
    unfolding inspect_checkout_def wp_ibind Let_def
  proof (rule calm_git [OF c git(1)], goal_cases)
    case (1 top w1)
    show ?case unfolding 1
    proof (rule calm_git [OF c git(2)], goal_cases)
      case (1 status w2)
      have "wp (run_git E B (co_root co) [''rev-parse'', ''--verify'', ''HEAD^{commit}''])
          (\<lambda>commit. wp (iraise_if (\<not> match_sha commit) (work_error ''git returned an invalid commit SHA'')) (\<lambda>_.
             wp (iraise_if (case expected of None \<Rightarrow> False | Some c \<Rightarrow> commit \<noteq> c)
               (work_error ''checkout is at a different commit than the receipt'')) (\<lambda>_.
             wp (run_git E B (co_root co) [''remote'', ''get-url'', ''origin'']) (\<lambda>remote.
             wp (lift (repository_from_remote L remote)) (\<lambda>repo.
             wp (iret \<lparr>co_root = co_root co, co_repository = repo, co_commit = commit\<rparr>) Q R) R) R) R) R) R w2"
      proof (rule calm_git [OF c git(3)], goal_cases)
        case (1 commit w3)
        show ?case unfolding 1
          by (use x sha in \<open>auto simp: wp_simps Q' intro!: iraise_if_wp calm_git [OF c git(4)]\<close>)
      qed
      with 1 show ?case by (simp add: wp_lift)
    qed
  qed
qed

section \<open>The honest run\<close>

lemma honest_execute:
  assumes c: "undisturbed E" and a: "command_ok args" and d: "0 < ms"
    and reply: "\<And>t. command_answer B t (ExecCommand (co_root co) args (nat ms)) = Ended code out err"
    and size: "length out \<le> MAX_OUTPUT_BYTES" "length err \<le> MAX_OUTPUT_BYTES"
    and code: "case code of None \<Rightarrow> True | Some i \<Rightarrow> -255 \<le> i \<and> i \<le> 255"
    and time: "\<And>t u. round_half_even (times_1000 B (clock_mono E u - clock_mono E t)) \<le> 3700000"
    and hash: "sha256_ok L"
    and Q: "\<And>ex w'. execution_ok ex \<Longrightarrow> ex_exit_code ex = code \<Longrightarrow> ex_stdout_sha256 ex = sha256_hex L out \<Longrightarrow> Q ex w'"
  shows "wp (execute E B L co (JArr (map JStr args)) ms (\<lambda>out err. iret ())) Q R w"
proof -
  have v: "validate_command (JArr (map JStr args)) = Inr (map JStr args)" using a by (simp add: work_iff)
  have h: "match_sha256 (sha256_hex L m)" for m using hash by (simp add: sha256_ok_def match_sha256_def)
  have ended: "wp (case command_answer B t (ExecCommand (co_root co) args (nat ms)) of
        CannotStart \<Rightarrow> iraise (work_error ''cannot start work command'')
      | Interrupted \<Rightarrow> iraise KeyboardInterrupt
      | Ended return_code out err \<Rightarrow> ibind (ask (clock_mono E)) (\<lambda>ended. ibind (ask (clock_utc E)) (\<lambda>completed_at.
          ibind (lift (hash_file L out)) (\<lambda>(out_hash, out_size). ibind (lift (hash_file L err)) (\<lambda>(err_hash, err_size).
          ibind (iret ()) (\<lambda>_.
          iret \<lparr>ex_result = (case return_code of None \<Rightarrow> ''timed_out''
                   | Some code \<Rightarrow> if code = 0 then ''passed'' else ''failed''),
                 ex_exit_code = return_code, ex_stdout_sha256 = out_hash, ex_stdout_bytes = out_size,
                 ex_stderr_sha256 = err_hash, ex_stderr_bytes = err_size,
                 ex_started_at = format_timestamp (clock_utc E t0), ex_completed_at = format_timestamp completed_at,
                 ex_duration_ms = max 0 (round_half_even (times_1000 B (ended - clock_mono E t1)))\<rparr>)))))) Q R w'"
    if "t0 \<le> tick w'" for t t0 t1 w'
  proof -
    have "valid_time (clock_utc E u)" for u using c by (simp add: undisturbed_def)
    moreover have "\<not> earlier (clock_utc E (Suc (tick w'))) (clock_utc E t0)" using c that by (simp add: undisturbed_def)
    ultimately have "ordered_times (format_timestamp (clock_utc E t0)) (format_timestamp (clock_utc E (Suc (tick w'))))"
      unfolding ordered_times_def by blast
    then show ?thesis
      using size code time h
      by (auto simp: wp_simps reply hash_file_eq execution_ok_def intro!: Q split: option.splits)
  qed
  show ?thesis
    unfolding execute_def wp_ibind v wp_lift sum.case wp_ask map_res_as_str
    by (rule calm_exchange [OF c]) (rule ended, simp)
qed

lemma honest_create:
  assumes c: "undisturbed E" and d: "describes L B co" and a: "command_ok command"
    and key: "ed25519_ok L" "sha256_ok L" "length key = 32" "did_from_private_key L key = Inr did"
    and ms: "timeout_milliseconds B seconds = Inr ms" "ms \<le> 3600000"
    and reply: "\<And>t. command_answer B t (ExecCommand (co_root co) command (nat ms)) = Ended code out err"
    and size: "length out \<le> MAX_OUTPUT_BYTES" "length err \<le> MAX_OUTPUT_BYTES"
    and code: "case code of None \<Rightarrow> True | Some i \<Rightarrow> -255 \<le> i \<and> i \<le> 255"
    and time: "\<And>t u. round_half_even (times_1000 B (clock_mono E u - clock_mono E t)) \<le> 3700000"
  shows "wp (create_work_receipt E B L dir command did key seconds None)
     (\<lambda>v w'. \<exists>s. verify_work_receipt L (ReceiptValue v) = Inr s
        \<and> dget (ws_payload s) ''commit'' = JStr (co_commit co)
        \<and> dget (ws_payload s) ''result'' = JStr (lit (result_of code))) (\<lambda>_ _. False) w"
    (is "wp _ ?Q ?R w")
proof -
  have did: "match_did did" using key(4) by (auto simp: did_from_private_key_def Let_def split: if_splits)
  have "1 \<le> ms" using ms(1) by (auto simp: timeout_milliseconds_def res_simps split: option.splits)
  have repo: "repository_ok (JStr (co_repository co))"
    using d repository_from_remote_ok unfolding describes_def by blast
  have co: "checkout_ok co" using d repo by (simp add: checkout_ok_def describes_def)
  have signer: "check_signer L e1 e2 key did = Inr ()" for e1 e2
    using did key(4) by (simp add: check_signer_def)
  have sign: "wp (ibind (lift (validate_work_payload p)) (\<lambda>_. ibind (lift (sign_payload L key p)) (\<lambda>signed.
        ibind (lift (verify_work_receipt L (ReceiptValue (work_envelope signed [])))) (\<lambda>_.
        ibind (iret ()) (\<lambda>_. iret (work_envelope signed [])))))) ?Q ?R w'"
    if "execution_ok ex" "ex_exit_code ex = code" and p: "p = work_payload did co (map JStr command) ms ex" for p ex w'
  proof -
    have ok: "work_payload_ok p" unfolding p by (rule honest_payload_ok [OF did co a \<open>1 \<le> ms\<close> ms(2) that(1)])
    obtain v s where v: "sign_payload L key p = Inr v" "verify_work_receipt L (ReceiptValue (work_envelope v [])) = Inr s"
      by (rule honest_envelope [OF key(1,3,4) ok]) (simp add: p work_payload_dget)
    have "work_receipt_ok L (envelope_pairs v []) p []" by (rule issued_envelope [OF v])
    then have s: "verify_work_receipt L (ReceiptValue (work_envelope v []))
        = Inr \<lparr>ws_payload = p, ws_countersignatures = 0, ws_matching = 0\<rparr>"
      unfolding verify_envelope_iff by force
    have "ex_result ex = result_of code"
      using that(1,2) by (auto simp: execution_ok_def result_of_def split: option.splits)
    moreover have "validate_work_payload p = Inr ()" using ok by (simp add: work_iff)
    ultimately show ?thesis using v(1) s by (simp add: wp_simps p work_payload_dget)
  qed
  have command: "validate_command (JArr (map JStr command)) = Inr (map JStr command)" using a by (simp add: work_iff)
  have again: "wp (inspect_checkout E B L (co_root co) (Some (co_commit co))) P R' w'"
    if "\<And>w'. P co w'" for P R' w'
    by (rule honest_inspect [OF c d]) (use that in auto)
  have run: "wp (measure_and_sign E B L co (JArr (map JStr command)) did key ms None) ?Q ?R w'" for w'
    unfolding measure_and_sign_def run_in_checkout_def wp_ibind option.case
  proof (rule honest_execute [OF c a _ reply size code time key(2)], goal_cases)
    case (2 ex w1)
    show ?case
      by (rule again) (simp add: wp_lift wp_iret command Let_def, rule sign [OF 2(1,2) refl])
  qed (use \<open>1 \<le> ms\<close> in simp)
  show ?thesis
    unfolding create_work_receipt_def wp_ibind signer
    by (simp add: wp_lift, rule honest_inspect [OF c d]) (simp_all add: wp_lift ms Let_def run)
qed

end
