(* ===== verification/Work_Guarantees.thy ===== *)
theory Work_Guarantees
  imports Work_Honest Demo
begin

text \<open>
  The properties of work receipts, over every environment: what the verifier accepts, what an
  issued receipt and a countersignature say about the run they come from, what an output bundle
  holds, and that an honest run is issued.
\<close>

section \<open>A concrete workshop\<close>

definition demo_commit :: str where "demo_commit = replicate 40 97"

fun demo_git :: "nat \<Rightarrow> request \<Rightarrow> git_reply" where
  "demo_git t (RunGit d arguments) = GitOutput
     (if arguments = [''rev-parse'', ''--verify'', ''HEAD^{commit}''] then demo_commit
      else if arguments = [''remote'', ''get-url'', ''origin''] then lit ''git@github.com:o/r.git''
      else [])"
| "demo_git t q = GitMissing"

definition demo_shop :: workshop where
  "demo_shop = \<lparr>git_answer = demo_git, command_answer = (\<lambda>t q. Ended (Some 0) [104, 105] []),
     resolve_path = (\<lambda>p. p), resolve_text = (\<lambda>s. ''/w''), times_1000 = (\<lambda>x. x * 1000),
     parent_of = (\<lambda>t p. Some (''/o'', 448, True)), file_name = (\<lambda>p. ''b''), rm_keeps = (\<lambda>t n. False)\<rparr>"

definition demo_checkout :: checkout where
  "demo_checkout = \<lparr>co_root = ''/w'', co_repository = lit ''o/r'', co_commit = demo_commit\<rparr>"

lemma demo_undisturbed: "undisturbed demo_env"
  by (simp add: undisturbed_def demo_env_def valid_time_def days_in_month_def earlier_def)

lemma demo_remote: "repository_from_remote L (strip (lit ''git@github.com:o/r.git'')) = Inr (lit ''o/r'')"
proof -
  have "strip (lit ''git@github.com:o/r.git'') = lit ''git@github.com:o/r.git''"
    by (rule strip_id) (simp add: lit_simps is_space_def)
  moreover have "work_repository (JStr (lit ''o/r'')) = Inr (lit ''o/r'')"
    unfolding work_iff repository_ok_def
    by (intro conjI refl exI [of _ "lit ''o''"] exI [of _ "lit ''r''"])
      (simp_all add: lit_simps match_owner_def valid_repository_def match_repository_def char_class_defs
        endswith_def)
  ultimately show ?thesis
    by (simp add: repository_from_remote_def lit_simps startswith_def removeprefix_def endswith_def count_char_def)
qed

lemma demo_describes: "describes L demo_shop demo_checkout"
proof -
  have "strip [] = []" by (simp add: strip_def lstrip_def rstrip_def)
  moreover have "strip demo_commit = demo_commit"
    by (rule strip_id) (simp add: demo_commit_def is_space_def)
  moreover have "match_sha demo_commit"
    by (simp add: match_sha_def demo_commit_def is_hex_lower_def list_all_iff)
  ultimately show ?thesis
    by (simp add: describes_def demo_shop_def demo_checkout_def demo_remote)
qed

lemma demo_command: "command_ok [lit ''make'']"
  by (simp add: command_ok_def argument_ok_def MAX_COMMAND_ARGUMENTS_def MAX_COMMAND_BYTES_def
      MAX_COMMAND_ARGUMENT_BYTES_def lit_simps utf8_def utf8_char_def is_surrogate_def)

lemma demo_seconds: "timeout_milliseconds demo_shop (Fin 60) = Inr 60000"
  by (simp add: timeout_milliseconds_def demo_shop_def round_half_even_def)

lemma demo_duration:
  "round_half_even (times_1000 demo_shop (clock_mono demo_env u - clock_mono demo_env t)) \<le> 3700000"
  by (simp add: demo_shop_def demo_env_def round_half_even_def)

section \<open>Verification\<close>

text \<open>C6. The offline verifier accepts a work receipt exactly when it meets the declarative contract: an
  envelope with the three fields, a signed execution payload within every bound, at most sixteen
  countersignatures over this payload and this execution, none older than the execution, by pairwise
  different DIDs that also differ from the issuer. The summary counts them all.\<close>

theorem work_receipt_contract:
  "verify_work_receipt L src = Inr s \<longleftrightarrow>
     (\<exists>env p qs. decode_work src = Inr env \<and> work_receipt_ok L env p qs
        \<and> s = \<lparr>ws_payload = p, ws_countersignatures = length qs, ws_matching = length qs\<rparr>)"
  unfolding verify_work_receipt_def bind_eq_Inr by (auto simp: verify_and_decode_iff split: prod.split)

section \<open>Issuing\<close>

text \<open>C23. A receipt comes out of \<open>create_work_receipt\<close> only after this and nothing else: a complete look at
  the given directory, in which git named the top of a checkout without changes, its commit and its
  repository; one run of the requested command there with the requested timeout; and a complete
  look at that checkout, again without changes and at the same commit and repository. The receipt meets the contract, with no
  countersignature, and its payload is that repository and commit, the requested command, and the
  result, the hashes and the sizes of what this one run answered. Every exception leaves that only
  git was asked, or that the command ran once after a complete look that found a clean checkout.\<close>

theorem issued_work_names_the_run:
  "wp (create_work_receipt E B L repository command did key seconds directory)
     (\<lambda>v w'. \<exists>co ms r. run_as_asked B command seconds co command ms \<and> names_run L did co command ms r v
        \<and> run_between_looks L B (resolve_path B repository) co command ms r w w')
     (\<lambda>e w'. stopped_run L B (resolve_path B repository) (run_as_asked B command seconds) w w') w"
  by (rule create_work_receipt_wp)

text \<open>C18. An honest run is issued: when git describes one clean checkout, the command is within its bounds
  and ends (or is killed at its timeout) within the output limit, clocks do not go back and no call
  fails, \<open>create_work_receipt\<close> returns a receipt the verifier accepts, for this commit and this result.\<close>

theorem honest_work_is_issued:
  assumes "undisturbed E" and "describes L B co" and "command_ok command"
    and "ed25519_ok L" and "sha256_ok L" and "length key = 32" and "did_from_private_key L key = Inr did"
    and "timeout_milliseconds B seconds = Inr ms" and "ms \<le> 3600000"
    and "\<And>t. command_answer B t (ExecCommand (co_root co) command (nat ms)) = Ended code out err"
    and "length out \<le> MAX_OUTPUT_BYTES" and "length err \<le> MAX_OUTPUT_BYTES"
    and "case code of None \<Rightarrow> True | Some i \<Rightarrow> -255 \<le> i \<and> i \<le> 255"
    and "\<And>t u. round_half_even (times_1000 B (clock_mono E u - clock_mono E t)) \<le> 3700000"
  shows "wp (create_work_receipt E B L dir command did key seconds None)
     (\<lambda>v w'. \<exists>s. verify_work_receipt L (ReceiptValue v) = Inr s
        \<and> dget (ws_payload s) ''commit'' = JStr (co_commit co)
        \<and> dget (ws_payload s) ''result'' = JStr (lit (result_of code))) (\<lambda>_ _. False) w"
  by (rule honest_create [OF assms])

theorem honest_work_is_issued_witness:
  "\<exists>v s. fst (create_work_receipt demo_env demo_shop demo_lib ''/w'' [lit ''make''] demo_did demo_key (Fin 60) None demo_world) = Inr v
     \<and> verify_work_receipt demo_lib (ReceiptValue v) = Inr s
     \<and> dget (ws_payload s) ''result'' = JStr (lit ''passed'')"
proof -
  have "wp (create_work_receipt demo_env demo_shop demo_lib ''/w'' [lit ''make''] demo_did demo_key (Fin 60) None)
     (\<lambda>v w'. \<exists>s. verify_work_receipt demo_lib (ReceiptValue v) = Inr s
        \<and> dget (ws_payload s) ''commit'' = JStr (co_commit demo_checkout)
        \<and> dget (ws_payload s) ''result'' = JStr (lit (result_of (Some 0)))) (\<lambda>_ _. False) demo_world"
    by (rule honest_work_is_issued [OF demo_undisturbed demo_describes demo_command demo_lib_ok(1,2,3) demo_did(1) demo_seconds,
          where out = "[104, 105]" and err = "[]"])
      (use demo_duration in \<open>simp_all add: demo_shop_def MAX_OUTPUT_BYTES_def\<close>)
  then show ?thesis by (auto simp: wp_def result_of_def split: sum.splits prod.splits)
qed

section \<open>Countersigning\<close>

text \<open>C11. A countersigned receipt is the receipt it came from with exactly one countersignature more, by the
  given DID, which is neither the issuer nor an earlier countersigner; and it comes out only after
  one run of the receipt's own command with its own timeout, between two complete looks at a clean
  checkout of its repository at its commit, whose answer has the result, the exit code, the hashes
  and the sizes of both outputs that the receipt claims. Every exception leaves that only git was
  asked, or that a command the receipt asks for ran once after a complete look at such a checkout.\<close>

theorem countersignature_is_reproduced:
  "wp (countersign_work_receipt E B L src repository did key seconds)
     (\<lambda>v w'. \<exists>p co args ms r. countersigned_by L did src p v \<and> asks_for p co args ms \<and> claims_reply L p r
        \<and> run_between_looks L B (resolve_path B repository) co args ms r w w')
     (\<lambda>_ w'. stopped_run L B (resolve_path B repository) (asked_in L src) w w') w"
  by (rule wp_mono [OF countersign_wp]) (simp_all add: countersign_done_def)

section \<open>The output bundle\<close>

text \<open>C24. With an output directory, a returned receipt leaves one new directory with exactly three files:
  the two outputs, whose hashes and sizes are the receipt's, and the rendered receipt. Every
  exception leaves the directories as they were, except death, the \<open>OSError\<close> of the cleanup of a
  failed reservation, and the error that tells the operator the bundle could not be removed.\<close>

theorem bundle_is_complete_or_gone:
  "wp (create_work_receipt E B L repository command did key seconds (Some directory))
     (\<lambda>v w'. new_bundle_of L v (outdir w) (outdir w'))
     (\<lambda>e w'. removed_or_told e (outdir w) (outdir w')) w"
  by (rule create_work_receipt_dirs)

end
