(* ===== verification/Keychain_Prompt.thy ===== *)
theory Keychain_Prompt
  imports Crypto
begin

text \<open>
  \<open>controller.py\<close>, \<open>_run_hidden_keychain_prompt\<close>: the dialogue with \<open>/usr/bin/security -w\<close> on a
  private terminal. What the system answers in one turn of the loop is a \<open>turn\<close>; the endless loop
  takes fuel, and \<open>None\<close> is a session that has not returned yet. The log of what went over the
  terminal and to the child is not in the program: it is what the theorems speak of.
\<close>

abbreviation controller_error :: "string \<Rightarrow> exc" where
  "controller_error \<equiv> ControllerError"

definition KEYCHAIN_PASSWORD_PROMPTS :: "bytes list" where
  "KEYCHAIN_PASSWORD_PROMPTS = [lit ''password data for new item:'', lit ''retype password for new item:'']"

definition KEYCHAIN_PROMPT_BUFFER_BYTES :: nat where "KEYCHAIN_PROMPT_BUFFER_BYTES = 512"

section \<open>The answers of the system\<close>

datatype read_answer = ReadChunk bytes | ReadEIO | ReadError

record turn =
  tn_now :: rat                           \<comment> \<open>\<open>time.monotonic()\<close>\<close>
  tn_select :: "bool option"              \<comment> \<open>\<open>select\<close>: readable or not; \<open>None\<close> is an \<open>OSError\<close>\<close>
  tn_read :: read_answer
  tn_echo_off :: bool                     \<comment> \<open>\<open>tcsetattr\<close> succeeded\<close>
  tn_writes :: "nat \<Rightarrow> int option"        \<comment> \<open>what the calls of \<open>os.write\<close> return\<close>
  tn_wait :: "(bool \<times> int) option"        \<comment> \<open>\<open>waitpid\<close>: was it our child, and its exit code\<close>

datatype event =
    Shown bytes      \<comment> \<open>the terminal was read\<close>
  | EchoOff
  | Answered bytes   \<comment> \<open>written to the terminal\<close>
  | Reaped int
  | KilledChild

record session =
  prompt_index :: nat
  wait_status :: "int option"
  prompt_buffer :: bytes
  secret_line :: bytes
  dialogue :: "event list"

type_synonym 'a turn_result = "'a res \<times> session"

section \<open>One turn\<close>

fun contains_bytes :: "bytes \<Rightarrow> bytes \<Rightarrow> bool" where   \<comment> \<open>\<open>needle in buffer\<close>\<close>
  "contains_bytes needle [] \<longleftrightarrow> needle = []"
| "contains_bytes needle (b # bs) \<longleftrightarrow> take (length needle) (b # bs) = needle \<or> contains_bytes needle bs"

text \<open>\<open>_write_all\<close>: what was written, and how it ended\<close>

function write_all :: "(nat \<Rightarrow> int option) \<Rightarrow> nat \<Rightarrow> bytes \<Rightarrow> bytes \<times> unit res" where
  "write_all answers k remaining =
     (if remaining = [] then ([], ret ())
      else case answers k of
          None \<Rightarrow> ([], raise (controller_error ''cannot answer the Keychain prompt''))
        | Some n \<Rightarrow> if n \<le> 0 then ([], raise (controller_error ''cannot answer the Keychain prompt''))
            else let (rest, r) = write_all answers (Suc k) (drop (nat n) remaining) in (take (nat n) remaining @ rest, r))"
  by pat_completeness auto
termination by (relation "measure (\<lambda>(a, k, r). length r)") auto

declare write_all.simps [simp del]

definition say_event :: "event \<Rightarrow> session \<Rightarrow> session" where
  "say_event e s = s\<lparr>dialogue := dialogue s @ [e]\<rparr>"

definition extend_buffer :: "bytes \<Rightarrow> bytes \<Rightarrow> bytes" where
  "extend_buffer chunk buffer =
     (let buffer = buffer @ chunk in
      if KEYCHAIN_PROMPT_BUFFER_BYTES < length buffer then drop (length buffer - KEYCHAIN_PROMPT_BUFFER_BYTES) buffer
      else buffer)"

definition respond_to_prompt :: "turn \<Rightarrow> bytes \<Rightarrow> session \<Rightarrow> unit turn_result" where
  "respond_to_prompt a chunk s =
     (if chunk = [] then (ret (), s)
      else let s = s\<lparr>prompt_buffer := extend_buffer chunk (prompt_buffer s)\<rparr> in
        if length KEYCHAIN_PASSWORD_PROMPTS \<le> prompt_index s then (ret (), s)
        else if \<not> contains_bytes (KEYCHAIN_PASSWORD_PROMPTS ! prompt_index s) (prompt_buffer s) then (ret (), s)
        else if \<not> tn_echo_off a then (raise (controller_error ''cannot disable Keychain prompt echo''), s)
        else case write_all (tn_writes a) 0 (secret_line s) of (written, r) \<Rightarrow>
          let s = say_event (Answered written) (say_event EchoOff s) in
          (case r of
             Inl e \<Rightarrow> (Inl e, s)
           | Inr u \<Rightarrow> (ret (), s\<lparr>prompt_index := Suc (prompt_index s), prompt_buffer := []\<rparr>)))"

text \<open>\<open>_read_keychain_prompt\<close>: an \<open>EIO\<close> is the end of the terminal, an empty chunk\<close>

definition read_keychain_prompt :: "turn \<Rightarrow> bytes res" where
  "read_keychain_prompt a = (case tn_read a of
      ReadChunk bs \<Rightarrow> ret (take 1024 bs)
    | ReadEIO \<Rightarrow> ret []
    | ReadError \<Rightarrow> raise (controller_error ''cannot read the Keychain prompt''))"

definition answer_if_ready :: "turn \<Rightarrow> session \<Rightarrow> unit turn_result" where
  "answer_if_ready a s = (case tn_select a of
      None \<Rightarrow> (raise (controller_error ''controller Keychain prompt failed''), s)
    | Some False \<Rightarrow> (ret (), s)
    | Some True \<Rightarrow> (case read_keychain_prompt a of
          Inl e \<Rightarrow> (Inl e, s)
        | Inr chunk \<Rightarrow> respond_to_prompt a chunk (say_event (Shown chunk) s)))"

definition session_step :: "rat \<Rightarrow> turn \<Rightarrow> session \<Rightarrow> unit turn_result" where
  "session_step deadline a s =
     (if deadline - tn_now a \<le> 0 then (raise (controller_error ''controller Keychain prompt timed out''), s)
      else case answer_if_ready a s of
          (Inl e, s) \<Rightarrow> (Inl e, s)
        | (Inr u, s) \<Rightarrow> (case tn_wait a of
              None \<Rightarrow> (raise (controller_error ''cannot monitor the Keychain prompt''), s)
            | Some (reaped, code) \<Rightarrow>
                (ret (), if reaped then say_event (Reaped code) (s\<lparr>wait_status := Some code\<rparr>) else s)))"

section \<open>The whole dialogue\<close>

definition session_end :: "session \<Rightarrow> unit res" where
  "session_end s =
     raise_if (wait_status s \<noteq> Some 0 \<or> prompt_index s \<noteq> length KEYCHAIN_PASSWORD_PROMPTS)
       (controller_error ''cannot create the controller Keychain item'')"

fun session_run :: "nat \<Rightarrow> rat \<Rightarrow> (nat \<Rightarrow> turn) \<Rightarrow> nat \<Rightarrow> session \<Rightarrow> unit turn_result option" where
  "session_run 0 deadline turns k s = None"
| "session_run (Suc fuel) deadline turns k s =
     (if wait_status s \<noteq> None then Some (session_end s, s)
      else case session_step deadline (turns k) s of
          (Inl e, s) \<Rightarrow> Some (Inl e, s)
        | (Inr u, s) \<Rightarrow> session_run fuel deadline turns (Suc k) s)"

definition open_session :: "bytes \<Rightarrow> session" where
  "open_session secret =
     \<lparr>prompt_index = 0, wait_status = None, prompt_buffer = [], secret_line = secret @ [10], dialogue = []\<rparr>"

text \<open>\<open>_wipe_bytearray\<close>: every byte is zeroed, then the array is emptied\<close>

definition wipe_bytearray :: "bytes \<Rightarrow> bytes" where
  "wipe_bytearray v = drop (length v) (map (\<lambda>_. 0) v)"

definition close_session :: "unit turn_result \<Rightarrow> unit turn_result" where
  "close_session rs = (case rs of (r, s) \<Rightarrow>
     let s = (case r of Inl e \<Rightarrow> if wait_status s = None then say_event KilledChild s else s | Inr u \<Rightarrow> s) in
     (r, s\<lparr>secret_line := wipe_bytearray (secret_line s), prompt_buffer := wipe_bytearray (prompt_buffer s)\<rparr>))"

text \<open>\<open>spawned\<close> is whether \<open>pty.fork\<close> succeeded, the first turn's clock minus the timeout the start.\<close>

definition run_hidden_keychain_prompt ::
  "nat \<Rightarrow> bool \<Rightarrow> (nat \<Rightarrow> turn) \<Rightarrow> bytes \<Rightarrow> rat \<Rightarrow> unit turn_result option" where
  "run_hidden_keychain_prompt fuel spawned turns secret deadline =
     (if \<not> spawned
      then Some (raise (controller_error ''cannot create a private Keychain prompt''),
        (open_session secret)\<lparr>secret_line := wipe_bytearray (secret @ [10])\<rparr>)
      else map_option close_session (session_run fuel deadline turns 0 (open_session secret)))"

section \<open>What goes over the terminal\<close>

text \<open>
  The text the terminal showed since the last answer, and the rule of the dialogue: every answer is
  at most the secret line, follows the switching off of the echo, and follows a text that holds the
  prompt whose turn it is.
\<close>

fun shown_since :: "bytes \<Rightarrow> event list \<Rightarrow> bytes" where
  "shown_since acc [] = acc"
| "shown_since acc (Shown bs # es) = shown_since (acc @ bs) es"
| "shown_since acc (Answered bs # es) = shown_since [] es"
| "shown_since acc (_ # es) = shown_since acc es"

fun answers_in :: "event list \<Rightarrow> bytes list" where
  "answers_in [] = []"
| "answers_in (Answered bs # es) = bs # answers_in es"
| "answers_in (_ # es) = answers_in es"

definition may_answer :: "bytes \<Rightarrow> event list \<Rightarrow> bytes \<Rightarrow> bool" where
  "may_answer line es bs \<longleftrightarrow> take (length bs) line = bs \<and> (\<exists>earlier. es = earlier @ [EchoOff])
     \<and> length (answers_in es) < length KEYCHAIN_PASSWORD_PROMPTS \<and> (\<forall>done \<in> set (answers_in es). done = line)
     \<and> contains_bytes (KEYCHAIN_PASSWORD_PROMPTS ! length (answers_in es)) (shown_since [] es)"

definition obeys_prompts :: "bytes \<Rightarrow> event list \<Rightarrow> bool" where
  "obeys_prompts line es \<longleftrightarrow> (\<forall>earlier bs rest. es = earlier @ [Answered bs] @ rest \<longrightarrow> may_answer line earlier bs)"

lemma obeys_Nil [simp]: "obeys_prompts line []"
  by (simp add: obeys_prompts_def)

lemma obeys_snoc:
  "obeys_prompts line (es @ [e]) \<longleftrightarrow> obeys_prompts line es \<and> (\<forall>bs. e = Answered bs \<longrightarrow> may_answer line es bs)"
proof -
  have "es @ [e] = earlier @ [Answered bs] @ rest \<longleftrightarrow>
      rest = [] \<and> earlier = es \<and> e = Answered bs \<or> (\<exists>rest'. rest = rest' @ [e] \<and> es = earlier @ [Answered bs] @ rest')"
    for earlier bs rest
    by (cases rest rule: rev_cases) auto
  then show ?thesis unfolding obeys_prompts_def by auto
qed

lemma answers_in_append [simp]: "answers_in (es @ es') = answers_in es @ answers_in es'"
  by (induction es rule: answers_in.induct) simp_all

lemma shown_since_append: "shown_since acc (es @ es') = shown_since (shown_since acc es) es'"
  by (induction acc es rule: shown_since.induct) simp_all

lemma contains_bytes_append: "contains_bytes n hay \<Longrightarrow> contains_bytes n (pre @ hay)"
proof (induction pre)
  case (Cons b pre)
  then show ?case by simp
qed simp

lemma extend_buffer_suffix: "\<exists>pre. buffer @ chunk = pre @ extend_buffer chunk buffer"
proof (cases "KEYCHAIN_PROMPT_BUFFER_BYTES < length (buffer @ chunk)")
  case True
  then have "buffer @ chunk = take (length (buffer @ chunk) - KEYCHAIN_PROMPT_BUFFER_BYTES) (buffer @ chunk)
      @ extend_buffer chunk buffer"
    by (simp only: extend_buffer_def Let_def if_True append_take_drop_id)
  then show ?thesis by blast
qed (simp add: extend_buffer_def)

lemma write_all_prefix:
  "write_all answers k line = (out, r) \<Longrightarrow> take (length out) line = out \<and> (r = Inr () \<longrightarrow> out = line)"
proof (induction answers k line arbitrary: out r rule: write_all.induct)
  case (1 answers k line)
  show ?case
  proof (cases "line = []")
    case True
    with "1.prems" show ?thesis by (simp add: write_all.simps)
  next
    case False
    show ?thesis
    proof (cases "\<exists>n. answers k = Some n \<and> 0 < n")
      case True
      then obtain n where n: "answers k = Some n" "0 < n" by blast
      obtain rest r' where rest: "write_all answers (Suc k) (drop (nat n) line) = (rest, r')" by fastforce
      have out: "out = take (nat n) line @ rest" "r = r'"
        using "1.prems" False n rest by (auto simp: write_all.simps [of answers k line])
      have IH: "take (length rest) (drop (nat n) line) = rest" "r' = Inr () \<longrightarrow> rest = drop (nat n) line"
        using "1.IH" [OF False n(1) _ rest] n(2) by auto
      have "rest = []" if "length line < nat n" using IH(1) that by simp
      then have "take (length out) line = out"
        using IH(1) out(1) by (cases "length line < nat n") (auto simp: take_add min_def)
      then show ?thesis using IH(2) out by auto
    next
      case no: False
      with "1.prems" False show ?thesis by (auto simp: write_all.simps [of answers k line] split: option.splits if_splits)
    qed
  qed
qed

text \<open>What holds between two turns\<close>

definition session_inv :: "bytes \<Rightarrow> session \<Rightarrow> bool" where
  "session_inv line s \<longleftrightarrow> secret_line s = line \<and> obeys_prompts line (dialogue s)
     \<and> length (answers_in (dialogue s)) = prompt_index s \<and> (\<forall>done \<in> set (answers_in (dialogue s)). done = line)
     \<and> prompt_index s \<le> length KEYCHAIN_PASSWORD_PROMPTS
     \<and> (\<exists>pre. shown_since [] (dialogue s) = pre @ prompt_buffer s)
     \<and> (\<forall>code. wait_status s = Some code \<longrightarrow> Reaped code \<in> set (dialogue s))"

lemma session_inv_open: "session_inv (secret @ [10]) (open_session secret)"
  by (simp add: session_inv_def open_session_def)

lemma session_inv_event:
  "session_inv line s \<Longrightarrow> e \<in> {EchoOff, KilledChild} \<union> range Reaped \<Longrightarrow> session_inv line (say_event e s)"
  by (auto simp: session_inv_def say_event_def obeys_snoc shown_since_append)

lemma respond_inv:
  assumes inv: "session_inv line s"
    and run: "respond_to_prompt a chunk (say_event (Shown chunk) s) = (r, s')"
  shows "obeys_prompts line (dialogue s') \<and> wait_status s' = wait_status s
     \<and> (\<forall>code. wait_status s' = Some code \<longrightarrow> Reaped code \<in> set (dialogue s')) \<and> (r = Inr () \<longrightarrow> session_inv line s')"
proof -
  define t where "t = (say_event (Shown chunk) s)\<lparr>prompt_buffer := extend_buffer chunk (prompt_buffer s)\<rparr>"
  obtain pre where "shown_since [] (dialogue s) = pre @ prompt_buffer s" using inv by (auto simp: session_inv_def)
  moreover obtain pre' where "prompt_buffer s @ chunk = pre' @ extend_buffer chunk (prompt_buffer s)"
    using extend_buffer_suffix by blast
  ultimately have shown: "shown_since [] (dialogue t) = (pre @ pre') @ prompt_buffer t"
    by (simp add: t_def say_event_def shown_since_append)
  have t: "session_inv line t"
    using inv shown by (auto simp: session_inv_def t_def say_event_def obeys_snoc)
  have nothing_shown: "session_inv line (say_event (Shown chunk) s)" if "chunk = []"
    using inv that by (auto simp: session_inv_def say_event_def obeys_snoc shown_since_append)
  show ?thesis
  proof (cases "chunk \<noteq> [] \<and> prompt_index t < length KEYCHAIN_PASSWORD_PROMPTS
      \<and> contains_bytes (KEYCHAIN_PASSWORD_PROMPTS ! prompt_index t) (prompt_buffer t) \<and> tn_echo_off a")
    case True
    obtain written w where w: "write_all (tn_writes a) 0 line = (written, w)" by fastforce
    have line: "secret_line t = line" using t by (simp add: session_inv_def)
    have "may_answer line (dialogue t @ [EchoOff]) written"
      using t True write_all_prefix [OF w] shown contains_bytes_append
      by (auto simp: may_answer_def session_inv_def shown_since_append)
    then have said: "session_inv line t \<Longrightarrow> obeys_prompts line (dialogue (say_event (Answered written) (say_event EchoOff t)))"
      using obeys_snoc [of line "dialogue t @ [EchoOff]" "Answered written"] obeys_snoc [of line "dialogue t" EchoOff]
      by (simp add: session_inv_def say_event_def)
    have result: "(r, s') = (let u = say_event (Answered written) (say_event EchoOff t) in case w of
         Inl e \<Rightarrow> (Inl e, u) | Inr _ \<Rightarrow> (Inr (), u\<lparr>prompt_index := Suc (prompt_index u), prompt_buffer := []\<rparr>))"
      using run True w line unfolding respond_to_prompt_def t_def by (cases w) (auto simp: Let_def say_event_def)
    have waited: "wait_status t = wait_status s" "\<forall>code. wait_status t = Some code \<longrightarrow> Reaped code \<in> set (dialogue t)"
      using t by (auto simp: t_def say_event_def session_inv_def)
    show ?thesis
    proof (cases w)
      case (Inl e)
      then show ?thesis using result said [OF t] waited by (simp add: Let_def say_event_def)
    next
      case (Inr u)
      then have "written = line" using write_all_prefix [OF w] by simp
      then show ?thesis using Inr result said [OF t] waited t True
        by (auto simp: Let_def say_event_def session_inv_def shown_since_append)
    qed
  next
    case False
    have waited: "wait_status t = wait_status s" "wait_status (say_event (Shown chunk) s) = wait_status s"
      by (simp_all add: t_def say_event_def)
    have "s' = t \<or> chunk = [] \<and> s' = say_event (Shown chunk) s"
      using run False unfolding respond_to_prompt_def t_def by (auto simp: Let_def say_event_def split: if_splits)
    then have inv': "session_inv line s'" using t nothing_shown by blast
    have "wait_status s' = wait_status s"
      using \<open>s' = t \<or> _\<close> waited by auto
    with inv' show ?thesis by (simp add: session_inv_def)
  qed
qed

lemma step_inv:
  assumes inv: "session_inv line s" and run: "session_step deadline a s = (r, s')"
  shows "obeys_prompts line (dialogue s') \<and> (r = Inr () \<longrightarrow> session_inv line s')
     \<and> (r \<noteq> Inr () \<longrightarrow> wait_status s' = wait_status s)"
proof -
  obtain q t where q: "answer_if_ready a s = (q, t)" by fastforce
  have mid: "obeys_prompts line (dialogue t) \<and> wait_status t = wait_status s \<and> (q = Inr () \<longrightarrow> session_inv line t)"
    using q inv respond_inv [OF inv]
    by (auto simp: answer_if_ready_def session_inv_def read_keychain_prompt_def split: option.splits bool.splits read_answer.splits)
  show ?thesis
    using run mid q inv unfolding session_step_def
    by (auto simp: session_inv_def say_event_def obeys_snoc shown_since_append split: if_splits sum.splits option.splits)
qed

lemma run_inv:
  assumes "session_inv line s" "session_run fuel deadline turns k s = Some (r, s')"
  shows "obeys_prompts line (dialogue s') \<and> (wait_status s' = None \<longrightarrow> r \<noteq> Inr ())
     \<and> (wait_status s' \<noteq> None \<longrightarrow> session_inv line s' \<and> r = session_end s')"
  using assms
proof (induction fuel arbitrary: k s)
  case (Suc fuel)
  show ?case
  proof (cases "wait_status s")
    case None
    obtain q t where q: "session_step deadline (turns k) s = (q, t)" by fastforce
    note step = step_inv [OF Suc.prems(1) q]
    show ?thesis
    proof (cases q)
      case (Inl e)
      then show ?thesis using Suc.prems(2) None q step by auto
    next
      case (Inr u)
      then have "session_inv line t" "session_run fuel deadline turns (Suc k) t = Some (r, s')"
        using Suc.prems(2) None q step by auto
      then show ?thesis by (rule Suc.IH)
    qed
  qed (use Suc.prems in \<open>auto simp: session_inv_def\<close>)
qed simp

text \<open>The clock ends every dialogue.\<close>

lemma run_ends:
  assumes "deadline \<le> tn_now (turns (k + n))" "n + 2 \<le> fuel"
  shows "\<exists>r. session_run fuel deadline turns k s = Some r"
  using assms
proof (induction n arbitrary: fuel k s)
  case 0
  then obtain f where "fuel = Suc f" by (cases fuel) auto
  with 0 show ?case by (simp add: session_step_def)
next
  case (Suc n)
  then obtain f where f: "fuel = Suc f" by (cases fuel) auto
  have IH: "\<exists>r. session_run f deadline turns (Suc k) t = Some r" for t
    using Suc.IH [of "Suc k" f t] Suc.prems f by simp
  obtain q t where "session_step deadline (turns k) s = (q, t)" by fastforce
  then show ?case using IH f by (cases q) auto
qed

definition reaped_or_killed :: "session \<Rightarrow> bool" where
  "reaped_or_killed s \<longleftrightarrow> (\<exists>code. Reaped code \<in> set (dialogue s)) \<or> last (dialogue s) = KilledChild"

lemma wipe_empties [simp]: "wipe_bytearray v = []"
  by (simp add: wipe_bytearray_def)

lemma closed_dialogue:
  assumes "run_hidden_keychain_prompt fuel spawned turns secret deadline = Some (r, s)"
  shows "obeys_prompts (secret @ [10]) (dialogue s) \<and> secret_line s = [] \<and> prompt_buffer s = []
     \<and> (if spawned then reaped_or_killed s else dialogue s = [])
     \<and> (r = Inr () \<longrightarrow> answers_in (dialogue s) = [secret @ [10], secret @ [10]] \<and> Reaped 0 \<in> set (dialogue s))"
proof (cases spawned)
  case True
  then obtain r' t where run: "session_run fuel deadline turns 0 (open_session secret) = Some (r', t)"
      and rs: "(r, s) = close_session (r', t)"
    using assms by (auto simp: run_hidden_keychain_prompt_def)
  note inv = run_inv [OF session_inv_open run]
  show ?thesis
  proof (cases "wait_status t")
    case None
    with inv obtain e where e: "r' = Inl e" by (cases r') auto
    then show ?thesis using rs None inv True
      by (auto simp: close_session_def Let_def say_event_def obeys_snoc reaped_or_killed_def)
  next
    case (Some code)
    then have t: "session_inv (secret @ [10]) t" "r' = session_end t" using inv by auto
    then have code: "Reaped code \<in> set (dialogue t)" using Some by (auto simp: session_inv_def)
    have s: "dialogue s = dialogue t" "secret_line s = []" "prompt_buffer s = []" "r = r'"
      using rs Some by (auto simp: close_session_def Let_def split: sum.splits)
    have finished: "code = 0 \<and> answers_in (dialogue t) = [secret @ [10], secret @ [10]]" if "r = Inr ()"
    proof -
      have "session_end t = Inr ()" using that s(4) t(2) by simp
      then have "code = 0" "length (answers_in (dialogue t)) = 2"
        using t(1) Some by (auto simp: session_end_def raise_if_def session_inv_def KEYCHAIN_PASSWORD_PROMPTS_def split: if_splits)
      moreover have "\<forall>done \<in> set (answers_in (dialogue t)). done = secret @ [10]" using t(1) by (simp add: session_inv_def)
      ultimately have "answers_in (dialogue t) = replicate 2 (secret @ [10])" by (intro replicate_eqI) auto
      then show ?thesis using \<open>code = 0\<close> by (simp add: numeral_2_eq_2)
    qed
    have "obeys_prompts (secret @ [10]) (dialogue t)" using t(1) by (simp add: session_inv_def)
    then show ?thesis using s True code finished by (auto simp: reaped_or_killed_def)
  qed
qed (use assms in \<open>auto simp: run_hidden_keychain_prompt_def open_session_def\<close>)

end
