(* ===== verification/Private_Files.thy ===== *)
theory Private_Files
  imports State_File
begin

text \<open>
  What \<open>health.py\<close> and \<open>controller.py\<close> have in common: \<open>lstat\<close> and the demand that a file is
  regular, owner-only and the user's own. The second half is a calculus for code that only looks at
  files: what it once returned, it returns again on the same files when no system call fails.
\<close>

section \<open>Looking at a path\<close>

text \<open>\<open>lstat\<close> with the exception its \<open>OSError\<close> becomes; a missing file is the answer \<open>None\<close>.\<close>

definition lstat_file :: "env \<Rightarrow> exc \<Rightarrow> path \<Rightarrow> inode option io" where
  "lstat_file E e p = ibind (ask (fault E)) (\<lambda>flt. case flt of
      Fine \<Rightarrow> iget (\<lambda>w. fs w p)
    | Fail n \<Rightarrow> iraise e
    | Kill n \<Rightarrow> iraise Killed)"

definition present_or :: "env \<Rightarrow> exc \<Rightarrow> path \<Rightarrow> bool io" where
  "present_or E e p = ibind (lstat_file E e p) (\<lambda>f. iret (f \<noteq> None))"

definition private_metadata :: "(string \<Rightarrow> exc) \<Rightarrow> inode \<Rightarrow> unit res" where
  "private_metadata e f =
     bind (raise_if (\<not> regular f) (e ''must be a regular file'')) (\<lambda>_.
     bind (raise_if (group_or_other f) (e ''permissions are unsafe'')) (\<lambda>_.
     raise_if (\<not> owned f) (e ''must be owned by the current user'')))"

definition private_file_or :: "env \<Rightarrow> (string \<Rightarrow> exc) \<Rightarrow> path \<Rightarrow> unit io" where
  "private_file_or E e p = ibind (lstat_file E (e ''cannot be inspected'') p) (\<lambda>f. case f of
      None \<Rightarrow> iraise (e ''cannot be inspected'')
    | Some g \<Rightarrow> lift (private_metadata e g))"

definition private_inode :: "inode \<Rightarrow> bool" where
  "private_inode f \<longleftrightarrow> regular f \<and> \<not> group_or_other f \<and> owned f"

lemma private_metadata_Inr [simp, res_simps]: "private_metadata e f = Inr () \<longleftrightarrow> private_inode f"
  by (simp add: private_metadata_def private_inode_def res_simps)

lemma private_fresh_file [simp]: "private_inode (fresh_file b)"
  by (simp add: private_inode_def fresh_file_def group_or_other_def)

text \<open>\<open>try: m except p: ...\<close> where the handler only decides what comes next\<close>

definition attempt :: "(exc \<Rightarrow> bool) \<Rightarrow> 'a io \<Rightarrow> 'a option io" where
  "attempt p m = on_error p (\<lambda>_. iret None) (ibind m (\<lambda>x. iret (Some x)))"

section \<open>Code that only lets time go by\<close>

definition waited :: "world \<Rightarrow> world \<Rightarrow> bool" where
  "waited w w' \<longleftrightarrow> (\<exists>t. w' = w\<lparr>tick := t\<rparr>)"

interpretation idle: world_order waited
proof unfold_locales
  show "waited w w" for w by (auto simp: waited_def intro!: exI [of _ "tick w"])
  show "waited w (w\<lparr>tick := n\<rparr>)" for w n by (auto simp: waited_def)
  show "waited u w" if "waited u v" "waited v w" for u v w using that by (auto simp: waited_def)
qed

lemma waited_tick: "waited w (w\<lparr>tick := n\<rparr>)"
  by (auto simp: waited_def)

lemma waited_same: "waited w w' \<Longrightarrow> fs w' = fs w \<and> mem w' = mem w \<and> sent w' = sent w \<and> held w' = held w"
  by (auto simp: waited_def)

context world_order
begin

lemma grows_lstat_file: "grows (lstat_file E e p)"
  unfolding lstat_file_def by (intro grows_intros) (auto split: io_fault.split intro!: grows_intros)

lemma grows_present_or: "grows (present_or E e p)"
  unfolding present_or_def by (intro grows_intros grows_lstat_file)

lemma grows_private_file_or: "grows (private_file_or E e p)"
  unfolding private_file_or_def
  by (intro grows_intros grows_lstat_file) (auto split: option.split intro!: grows_intros)

lemma grows_attempt: "grows m \<Longrightarrow> grows (attempt p m)"
  unfolding attempt_def by (intro grows_intros)

end

section \<open>What a look repeats\<close>

text \<open>\<open>m\<close> gave \<open>x\<close> on the files \<open>F\<close>, under some schedule of faults.\<close>

definition gave :: "(env \<Rightarrow> 'a io) \<Rightarrow> filesystem \<Rightarrow> 'a \<Rightarrow> bool" where
  "gave m F x \<longleftrightarrow> (\<exists>E w w1. fs w = F \<and> m E w = (Inr x, w1))"

definition repeats :: "(env \<Rightarrow> 'a io) \<Rightarrow> bool" where
  "repeats m \<longleftrightarrow> (\<forall>E w x w1. m E w = (Inr x, w1) \<longrightarrow> waited w w1
     \<and> (\<forall>E' w2. calm E' \<longrightarrow> fs w2 = fs w \<longrightarrow> (\<exists>w3. m E' w2 = (Inr x, w3) \<and> waited w2 w3)))"

lemma repeatsD:
  assumes "repeats m" "gave m (fs w2) x" "calm E"
  shows "\<exists>w3. m E w2 = (Inr x, w3) \<and> waited w2 w3"
  using assms unfolding repeats_def gave_def by metis

lemma gaveI: "m E w = (Inr x, w1) \<Longrightarrow> gave m (fs w) x"
  unfolding gave_def by blast

lemma repeats_lift: "repeats (\<lambda>E. lift r)"
  by (auto simp: repeats_def lift_def idle.refl)

lemma repeats_iret: "repeats (\<lambda>E. iret x)"
  by (auto simp: repeats_def iret_def idle.refl)

lemma repeats_exists_path: "repeats (\<lambda>E. exists_path p)"
  by (auto simp: repeats_def exists_path_def iget_def idle.refl)

lemma repeats_read_file: "repeats (\<lambda>E. read_file E p)"
  unfolding repeats_def calm_def
  by (auto simp: read_file_def ibind_def ask_def iget_def lift_def iret_def waited_tick split: io_fault.splits option.splits)

lemma repeats_ibind:
  assumes m: "repeats m" and f: "\<And>x. repeats (f x)"
  shows "repeats (\<lambda>E. ibind (m E) (\<lambda>x. f x E))"
  unfolding repeats_def
proof (intro allI impI)
  fix E w y w2
  assume "ibind (m E) (\<lambda>x. f x E) w = (Inr y, w2)"
  then obtain x w1 where run: "m E w = (Inr x, w1)" "f x E w1 = (Inr y, w2)"
    by (auto simp: ibind_def split: sum.splits prod.splits)
  have w1: "waited w w1" using m run(1) unfolding repeats_def by blast
  have w2: "waited w1 w2" using f run(2) unfolding repeats_def by blast
  have again: "\<exists>w5. ibind (m E') (\<lambda>x. f x E') w3 = (Inr y, w5) \<and> waited w3 w5" if E': "calm E'" and w3: "fs w3 = fs w" for E' w3
  proof -
    obtain w4 where w4: "m E' w3 = (Inr x, w4)" "waited w3 w4"
      using m run(1) E' w3 unfolding repeats_def by blast
    then have "fs w4 = fs w1" using w1 w3 by (metis waited_same)
    then obtain w5 where "f x E' w4 = (Inr y, w5)" "waited w4 w5"
      using f [unfolded repeats_def, rule_format, OF run(2)] E' by blast
    then show ?thesis using w4 idle.trans by (auto simp: ibind_def)
  qed
  show "waited w w2 \<and> (\<forall>E' w3. calm E' \<longrightarrow> fs w3 = fs w
      \<longrightarrow> (\<exists>w5. ibind (m E') (\<lambda>x. f x E') w3 = (Inr y, w5) \<and> waited w3 w5))"
    using w1 w2 idle.trans again by blast
qed

lemma repeats_rethrow: "repeats m \<Longrightarrow> repeats (\<lambda>E. on_error q (\<lambda>e. iraise (h e)) (m E))"
  unfolding repeats_def on_error_def lift_def by (auto split: sum.splits prod.splits if_splits; fastforce)

lemma repeats_if: "repeats m \<Longrightarrow> repeats m' \<Longrightarrow> repeats (\<lambda>E. if b then m E else m' E)"
  by (cases b) simp_all

lemmas repeats_intros = repeats_ibind repeats_rethrow repeats_if repeats_lift repeats_iret repeats_exists_path
  repeats_read_file

lemma repeats_load_state: "repeats (\<lambda>E. load_state E p)"
  unfolding load_state_def by (intro repeats_intros)

section \<open>What a look depends on\<close>

text \<open>An answer \<open>m\<close> gave depends on one file.\<close>

definition looks_at :: "path \<Rightarrow> (env \<Rightarrow> 'a io) \<Rightarrow> bool" where
  "looks_at p m \<longleftrightarrow> (\<forall>E w x w1 G. m E w = (Inr x, w1) \<longrightarrow> G p = fs w p \<longrightarrow>
     fs w1 = fs w \<and> m E (w\<lparr>fs := G\<rparr>) = (Inr x, w1\<lparr>fs := G\<rparr>))"

lemma gave_elsewhere:
  assumes "looks_at p m" "gave m F x" "G p = F p"
  shows "gave m G x"
proof -
  obtain E w w1 where "fs w = F" "m E w = (Inr x, w1)" using assms(2) by (auto simp: gave_def)
  then have "m E (w\<lparr>fs := G\<rparr>) = (Inr x, w1\<lparr>fs := G\<rparr>)" using assms(1,3) unfolding looks_at_def by blast
  then show ?thesis using gaveI [of m E "w\<lparr>fs := G\<rparr>" x "w1\<lparr>fs := G\<rparr>"] by simp
qed

lemma looks_at_lift: "looks_at p (\<lambda>E. lift r)"
  by (auto simp: looks_at_def lift_def)

lemma looks_at_iret: "looks_at p (\<lambda>E. iret x)"
  by (auto simp: looks_at_def iret_def)

lemma looks_at_exists: "looks_at p (\<lambda>E. exists_path p)"
  by (auto simp: looks_at_def exists_path_def iget_def)

lemma looks_at_read: "looks_at p (\<lambda>E. read_file E p)"
  by (auto simp: looks_at_def read_file_def ibind_def ask_def iget_def lift_def iret_def split: io_fault.splits option.splits)

lemma looks_at_ibind:
  assumes "looks_at p m" "\<And>x. looks_at p (f x)"
  shows "looks_at p (\<lambda>E. ibind (m E) (\<lambda>x. f x E))"
  unfolding looks_at_def
proof (intro allI impI)
  fix E w y w2 G
  assume "ibind (m E) (\<lambda>x. f x E) w = (Inr y, w2)" and G: "G p = fs w p"
  then obtain x w1 where run: "m E w = (Inr x, w1)" "f x E w1 = (Inr y, w2)"
    by (auto simp: ibind_def split: sum.splits prod.splits)
  have one: "fs w1 = fs w \<and> m E (w\<lparr>fs := G\<rparr>) = (Inr x, w1\<lparr>fs := G\<rparr>)"
    using assms(1) run(1) G unfolding looks_at_def by blast
  then have "fs w2 = fs w1 \<and> f x E (w1\<lparr>fs := G\<rparr>) = (Inr y, w2\<lparr>fs := G\<rparr>)"
    using assms(2) [unfolded looks_at_def] run(2) G by metis
  with one show "fs w2 = fs w \<and> ibind (m E) (\<lambda>x. f x E) (w\<lparr>fs := G\<rparr>) = (Inr y, w2\<lparr>fs := G\<rparr>)"
    by (simp add: ibind_def)
qed

lemma looks_at_rethrow: "looks_at p m \<Longrightarrow> looks_at p (\<lambda>E. on_error q (\<lambda>e. iraise (h e)) (m E))"
  unfolding looks_at_def on_error_def lift_def by (auto split: sum.splits prod.splits if_splits; fastforce)

lemma looks_at_if: "looks_at p m \<Longrightarrow> looks_at p m' \<Longrightarrow> looks_at p (\<lambda>E. if b then m E else m' E)"
  by (cases b) simp_all

lemmas looks_at_intros = looks_at_ibind looks_at_rethrow looks_at_if looks_at_lift looks_at_iret looks_at_exists
  looks_at_read

lemma looks_at_load_state: "looks_at p (\<lambda>E. load_state E p)"
  unfolding load_state_def by (intro looks_at_intros)

end
