(* ===== verification/Controller.thy ===== *)
theory Controller
  imports Keychain_Prompt Private_Files Capabilities Provision
begin

text \<open>
  \<open>controller.py\<close>: a second identity that may send four fixed commands. Its creation stores a new
  seed in the Keychain through the dialogue of \<open>Keychain_Prompt\<close> and then the public record; the
  grant replaces an empty capability policy; a command is sent after its nonce is on disk. What
  the system answers about directories, about the dialogue and about the deletion of an item is the
  record \<open>desk\<close>; the seed and the time of creation are arguments.
\<close>

definition CONTROLLER_COMMANDS :: "string list" where
  "CONTROLLER_COMMANDS = [''/ping'', ''/status'', ''/about'', ''/help'']"

definition CONTROLLER_RATE_LIMIT :: int where "CONTROLLER_RATE_LIMIT = 10"

definition KEYCHAIN_ITEM_NOT_FOUND_EXIT_CODE :: int where "KEYCHAIN_ITEM_NOT_FOUND_EXIT_CODE = 44"

record dir_meta =
  dm_directory :: bool
  dm_mode :: nat
  dm_owned :: bool

datatype delete_answer = ItemDeleted | NoDeleteTool | DeleteExit int | DeleteTimeout

record desk =
  dk_parent :: "path \<Rightarrow> path"
  dk_dir :: "nat \<Rightarrow> path \<Rightarrow> dir_meta option"   \<comment> \<open>\<open>lstat\<close> of a directory, \<open>None\<close> for an \<open>OSError\<close>\<close>
  dk_spawned :: bool
  dk_turns :: "nat \<Rightarrow> turn"
  dk_deadline :: rat
  dk_added :: bool                          \<comment> \<open>did the tool add the item\<close>
  dk_delete :: delete_answer

record seed_writer =
  sw_service :: str
  sw_account :: str

section \<open>Paths\<close>

definition path_is_there :: "env \<Rightarrow> path \<Rightarrow> bool io" where   \<comment> \<open>\<open>_path_exists\<close>\<close>
  "path_is_there E p = present_or E (controller_error ''controller path cannot be inspected safely'') p"

definition require_private_directory :: "desk \<Rightarrow> path \<Rightarrow> unit io" where
  "require_private_directory D p = ibind (ask (\<lambda>t. dk_dir D t p)) (\<lambda>m. case m of
      None \<Rightarrow> iraise (controller_error ''controller directory cannot be inspected'')
    | Some m \<Rightarrow> lift (
        bind (raise_if (\<not> dm_directory m) (controller_error ''controller directory must be a real directory'')) (\<lambda>_.
        bind (raise_if (and (dm_mode m) 63 \<noteq> 0) (controller_error ''controller directory must be owner-only'')) (\<lambda>_.
        raise_if (\<not> dm_owned m) (controller_error ''controller directory must be owned by this user'')))))"

definition require_private_file :: "env \<Rightarrow> path \<Rightarrow> unit io" where   \<comment> \<open>\<open>_require_private_regular_file\<close>\<close>
  "require_private_file E p = private_file_or E controller_error p"

text \<open>Its own errors are swallowed.\<close>

definition unlink_if_present :: "env \<Rightarrow> path \<Rightarrow> unit io" where
  "unlink_if_present E p = ibind (ask (fault E)) (\<lambda>flt. case flt of
      Fine \<Rightarrow> set_file p None
    | Fail n \<Rightarrow> iret ()
    | Kill n \<Rightarrow> ibind (iwhen (0 < n) (set_file p None)) (\<lambda>_. iraise Killed))"

definition private_json_body :: "pairs \<Rightarrow> body" where
  "private_json_body payload = Text (json_text_size (JObj payload)) (Doc (JObj payload))"

text \<open>
  Stage 0 is the exclusive \<open>os.open\<close>, stage 1 the write, a later stage comes after it. An existing
  file makes the open fail, and the handler unlinks the path whatever is there.
\<close>

definition write_new_private_json :: "env \<Rightarrow> path \<Rightarrow> pairs \<Rightarrow> unit io" where
  "write_new_private_json E p payload = ibind (ask (fault E)) (\<lambda>flt. ibind (exists_path p) (\<lambda>there.
     let failed = ibind (unlink_if_present E p) (\<lambda>_. iraise (controller_error ''cannot write the controller identity''));
         whole = Some (fresh_file (private_json_body payload));
         upto = (\<lambda>n. if n = 0 \<or> there then iret () else set_file p (if n = 1 then Some (fresh_file (Text 0 NotJson)) else whole)) in
     case flt of
       Fine \<Rightarrow> if there then failed else set_file p whole
     | Fail n \<Rightarrow> ibind (upto n) (\<lambda>_. failed)
     | Kill n \<Rightarrow> ibind (upto n) (\<lambda>_. iraise Killed)))"

text \<open>Stages 0 and 1 come before \<open>os.replace\<close>, a later stage is \<open>os.chmod\<close>.\<close>

definition replace_private_json :: "env \<Rightarrow> path \<Rightarrow> pairs \<Rightarrow> unit io" where
  "replace_private_json E p payload = ibind (ask (fault E)) (\<lambda>flt.
     let whole = Some (fresh_file (private_json_body payload));
         e = controller_error ''cannot update the capability policy'' in
     case flt of
       Fine \<Rightarrow> set_file p whole
     | Fail n \<Rightarrow> ibind (iwhen (1 < n) (set_file p whole)) (\<lambda>_. iraise e)
     | Kill n \<Rightarrow> ibind (iwhen (1 < n) (set_file p whole)) (\<lambda>_. iraise Killed))"

section \<open>The Keychain item\<close>

definition validate_keychain_selector :: "str \<Rightarrow> unit res" where
  "validate_keychain_selector v =
     raise_if (v = [] \<or> 128 < length v \<or> list_ex (\<lambda>c. c < 32 \<or> c = 127) v)
       (controller_error ''controller Keychain selector is invalid'')"

definition seed_writer_for :: "str \<Rightarrow> str \<Rightarrow> seed_writer res" where   \<comment> \<open>\<open>__post_init__\<close>\<close>
  "seed_writer_for service account =
     bind (validate_keychain_selector service) (\<lambda>_.
     bind (validate_keychain_selector account) (\<lambda>_.
     ret \<lparr>sw_service = service, sw_account = account\<rparr>))"

abbreviation item_of :: "seed_writer \<Rightarrow> str \<times> str" where
  "item_of W \<equiv> (sw_service W, sw_account W)"

definition set_item :: "str \<times> str \<Rightarrow> str option \<Rightarrow> unit io" where
  "set_item k x = imodify (\<lambda>w. w\<lparr>seeds := (seeds w)(k := x)\<rparr>)"

text \<open>A dialogue that has not returned is a process that is still there: nothing after it runs.\<close>

definition store_seed :: "desk \<Rightarrow> nat \<Rightarrow> seed_writer \<Rightarrow> str \<Rightarrow> unit io" where
  "store_seed D fuel W seed =
     ibind (lift (private_key_from_seed seed)) (\<lambda>_.
     case run_hidden_keychain_prompt fuel (dk_spawned D) (dk_turns D) seed (dk_deadline D) of
       None \<Rightarrow> iraise Killed
     | Some (r, s) \<Rightarrow> ibind (iwhen (dk_spawned D \<and> dk_added D) (set_item (item_of W) (Some seed))) (\<lambda>_. lift r))"

definition delete_seed :: "desk \<Rightarrow> seed_writer \<Rightarrow> unit io" where
  "delete_seed D W = (case dk_delete D of
      ItemDeleted \<Rightarrow> set_item (item_of W) None
    | NoDeleteTool \<Rightarrow> iraise (controller_error ''macOS security command is not available'')
    | DeleteExit code \<Rightarrow> if code = KEYCHAIN_ITEM_NOT_FOUND_EXIT_CODE then iret ()
        else iraise (controller_error ''cannot delete the controller Keychain item'')
    | DeleteTimeout \<Rightarrow> iraise (controller_error ''controller Keychain cleanup timed out''))"

section \<open>Creation\<close>

definition is_Exception :: "exc \<Rightarrow> bool" where   \<comment> \<open>\<open>except Exception\<close>\<close>
  "is_Exception e \<longleftrightarrow> e \<noteq> Killed \<and> e \<noteq> KeyboardInterrupt"

definition load_controller_identity :: "env \<Rightarrow> lib \<Rightarrow> path \<Rightarrow> identity io" where
  "load_controller_identity E L p = ibind (require_private_file E p) (\<lambda>_. load_identity E L p)"

definition controller_record :: "str \<Rightarrow> str \<Rightarrow> str \<Rightarrow> seed_writer \<Rightarrow> pairs" where
  "controller_record created_at did fingerprint W =
     [(lit ''schema'', JStr (lit ''technocore-local-identity-v1'')), (lit ''created_at'', JStr created_at),
      (lit ''did'', JStr did), (lit ''fingerprint'', JStr fingerprint),
      (lit ''custody'', JObj [(lit ''backend'', JStr (lit ''macos-keychain'')),
         (lit ''service'', JStr (sw_service W)), (lit ''account'', JStr (sw_account W))])]"

definition write_and_verify :: "env \<Rightarrow> lib \<Rightarrow> path \<Rightarrow> pairs \<Rightarrow> str \<Rightarrow> seed_writer \<Rightarrow> identity io" where
  "write_and_verify E L p payload did W =
     ibind (write_new_private_json E p payload) (\<lambda>_.
     ibind (load_controller_identity E L p) (\<lambda>i.
     ibind (iraise_if (id_did i \<noteq> did \<or> id_service i \<noteq> sw_service W \<or> id_account i \<noteq> sw_account W)
       (controller_error ''created controller identity failed verification'')) (\<lambda>_. iret i)))"

text \<open>The \<open>try\<close> block with its cleanup\<close>

definition write_or_undo :: "env \<Rightarrow> lib \<Rightarrow> desk \<Rightarrow> path \<Rightarrow> seed_writer \<Rightarrow> pairs \<Rightarrow> str \<Rightarrow> identity io" where
  "write_or_undo E L D p W payload did =
     on_error is_Exception (\<lambda>e.
         ibind (unlink_if_present E p) (\<lambda>_.
         ibind (on_error is_Exception
             (\<lambda>_. iraise (controller_error ''controller creation failed and Keychain cleanup also failed''))
             (delete_seed D W)) (\<lambda>_. iraise e)))
       (write_and_verify E L p payload did W)"

definition create_controller_identity ::
  "env \<Rightarrow> lib \<Rightarrow> desk \<Rightarrow> nat \<Rightarrow> path \<Rightarrow> seed_writer \<Rightarrow> str \<Rightarrow> str \<Rightarrow> identity io" where
  "create_controller_identity E L D fuel p W seed created_at =
     ibind (require_private_directory D (dk_parent D p)) (\<lambda>_.
     ibind (path_is_there E p) (\<lambda>there.
     ibind (iraise_if there (controller_error ''refusing to overwrite an existing controller identity'')) (\<lambda>_.
     ibind (lift (private_key_from_seed seed)) (\<lambda>key.
     ibind (lift (did_from_private_key L key)) (\<lambda>did.
     ibind (lift (fingerprint_of_did L did)) (\<lambda>fp.
     ibind (store_seed D fuel W seed) (\<lambda>_.
     write_or_undo E L D p W (controller_record created_at did fp W) did)))))))"

section \<open>The grant\<close>

definition controller_policy :: "str \<Rightarrow> pairs" where
  "controller_policy did =
     [(lit ''schema'', JStr (lit CAPABILITY_SCHEMA)),
      (lit ''principals'', JObj [(did, JObj [(lit ''enabled'', JBool True),
         (lit ''commands'', JArr (map (\<lambda>c. JStr (lit c)) CONTROLLER_COMMANDS)), (lit ''repositories'', JArr []),
         (lit ''max_requests_per_hour'', JInt CONTROLLER_RATE_LIMIT)])])]"

definition is_controller_grant :: "grant option \<Rightarrow> bool" where
  "is_controller_grant g \<longleftrightarrow> (case g of None \<Rightarrow> False | Some g \<Rightarrow> enabled g
     \<and> set (commands g) = set (map lit CONTROLLER_COMMANDS) \<and> repositories g = [] \<and> max_requests g = CONTROLLER_RATE_LIMIT)"

definition grant_controller_to_empty_policy :: "env \<Rightarrow> lib \<Rightarrow> desk \<Rightarrow> path \<Rightarrow> path \<Rightarrow> unit io" where
  "grant_controller_to_empty_policy E L D identity_path policy_path =
     ibind (load_controller_identity E L identity_path) (\<lambda>i.
     ibind (require_private_directory D (dk_parent D policy_path)) (\<lambda>_.
     ibind (load_policy E policy_path) (\<lambda>pol.
     ibind (iraise_if (pol \<noteq> []) (controller_error ''controller grant requires an empty policy'')) (\<lambda>_.
     ibind (replace_private_json E policy_path (controller_policy (id_did i))) (\<lambda>_.
     ibind (load_policy E policy_path) (\<lambda>pol.
     iraise_if (\<not> is_controller_grant (grant_for pol (id_did i)))
       (controller_error ''controller policy failed post-write validation'')))))))"

section \<open>A command\<close>

text \<open>From the nonce on disk to the write\<close>

definition say_command ::
  "env \<Rightarrow> lib \<Rightarrow> str \<Rightarrow> bytes \<Rightarrow> str \<Rightarrow> client \<Rightarrow> int \<Rightarrow> str \<Rightarrow> (string \<times> str) io" where
  "say_command E L did key room cl nonce cmd =
     ibind (lift (sign_room_message L key room (str_of_int nonce) cmd)) (\<lambda>(swept, signature).
     ibind (send_signed_message E cl room did signature (str_of_int nonce) swept) (\<lambda>_.
     iret (''acknowledged'', cmd)))"

definition command_with_new_nonce ::
  "env \<Rightarrow> lib \<Rightarrow> str \<Rightarrow> bytes \<Rightarrow> str \<Rightarrow> path \<Rightarrow> str \<Rightarrow> client \<Rightarrow> agent_state \<Rightarrow> (string \<times> str) io" where
  "command_with_new_nonce E L did key room state_path cmd cl s =
     ibind (ask (clock_ns E)) (\<lambda>now.
     ibind (lift (next_nonce room now s)) (\<lambda>(s, nonce).
     ibind (save_state E state_path s) (\<lambda>_.
     say_command E L did key room cl nonce cmd)))"

definition send_controller_command ::
  "env \<Rightarrow> lib \<Rightarrow> desk \<Rightarrow> str \<Rightarrow> bytes \<Rightarrow> agent_config \<Rightarrow> path \<Rightarrow> str \<Rightarrow> client \<Rightarrow> (string \<times> str) io" where
  "send_controller_command E L D did key config state_path cmd cl =
     ibind (lift (validate_did did)) (\<lambda>valid_did.
     ibind (iraise_if (cmd \<notin> set (map lit CONTROLLER_COMMANDS))
       (controller_error ''controller accepts only an exact read-only command'')) (\<lambda>_.
     ibind (lift (validate_config L (pairs_of_config config))) (\<lambda>_.
     ibind (iraise_if (cfg_status config \<noteq> lit ''active'')
       (controller_error ''controller requires an active agent config'')) (\<lambda>_.
     ibind (iraise_if (base_url cl \<noteq> cfg_base_url config)
       (controller_error ''controller client does not match the agent config'')) (\<lambda>_.
     ibind (lift (did_from_private_key L key)) (\<lambda>derived.
     ibind (iraise_if (derived \<noteq> valid_did) (controller_error ''controller key does not match its public DID'')) (\<lambda>_.
     ibind (require_private_directory D (dk_parent D state_path)) (\<lambda>_.
     ibind (path_is_there E state_path) (\<lambda>there.
     ibind (if there then require_private_file E state_path else iret ()) (\<lambda>_.
     ibind (load_state E state_path) (\<lambda>s.
     command_with_new_nonce E L valid_did key (cfg_room config) state_path cmd cl s)))))))))))"

end
