(* ===== verification/Process_Lock.thy ===== *)
theory Process_Lock
  imports State_File
begin

text \<open>
  \<open>process_lock.py\<close>: the advisory lock a live run, a delivery recovery and a controller command
  take. A process has one \<open>AgentProcessLock\<close> per path, and \<open>held w p\<close> says that its descriptor is
  not \<open>None\<close>. What other processes hold is a table indexed by the tick, an argument like the other
  answers of the system. The lock file keeps its place: a process that is refused has at most set
  its mode.
\<close>

type_synonym lock_table = "nat \<Rightarrow> path \<Rightarrow> bool"

definition lock_body :: "int \<Rightarrow> body" where   \<comment> \<open>\<open>f"{os.getpid()}\n"\<close>\<close>
  "lock_body pid = Text (length (str_of_int pid) + 1) (Doc (JInt pid))"

definition emptied :: "inode \<Rightarrow> inode" where
  "emptied f = f\<lparr>contents := Text 0 NotJson\<rparr>"

section \<open>The operations\<close>

definition hold :: "path \<Rightarrow> bool \<Rightarrow> unit io" where
  "hold p b = imodify (\<lambda>w. w\<lparr>held := (held w)(p := b)\<rparr>)"

text \<open>A failing \<open>flock\<close> leaves with its \<open>OSError\<close>; the descriptor is closed either way.\<close>

definition release_lock :: "env \<Rightarrow> path \<Rightarrow> unit io" where
  "release_lock E p = ibind (iget (\<lambda>w. held w p)) (\<lambda>mine.
     if \<not> mine then iret ()
     else ibind (hold p False) (\<lambda>_. ibind (ask (fault E)) (\<lambda>flt. case flt of
         Fine \<Rightarrow> iret () | Fail n \<Rightarrow> iraise OSError | Kill n \<Rightarrow> iraise Killed)))"

text \<open>\<open>os.open(O_CREAT | O_RDWR, 0o600)\<close> and \<open>os.fchmod\<close>\<close>

definition opened_lock :: "inode option \<Rightarrow> inode" where
  "opened_lock f = (case f of Some g \<Rightarrow> g\<lparr>mode := 384\<rparr> | None \<Rightarrow> fresh_file (Text 0 NotJson))"

definition flock_exclusive :: "env \<Rightarrow> lock_table \<Rightarrow> path \<Rightarrow> unit io" where
  "flock_exclusive E H p = ibind (ask (fault E)) (\<lambda>flt. ibind (iget (\<lambda>w. opened_lock (fs w p))) (\<lambda>f.
     case flt of
       Fine \<Rightarrow> ibind (set_file p (Some f)) (\<lambda>_. ibind (ask H) (\<lambda>others.
           iraise_if (others p) (ProcessLockError ''another live agent or recovery process is already running'')))
     | Fail n \<Rightarrow> ibind (iwhen (0 < n) (set_file p (Some f))) (\<lambda>_. iraise (ProcessLockError ''cannot acquire process lock''))
     | Kill n \<Rightarrow> ibind (iwhen (0 < n) (set_file p (Some f))) (\<lambda>_. iraise Killed)))"

text \<open>\<open>os.ftruncate\<close> (stage 0), \<open>os.write\<close> (stage 1), \<open>os.fsync\<close>\<close>

definition write_pid :: "env \<Rightarrow> int \<Rightarrow> path \<Rightarrow> unit io" where
  "write_pid E pid p = ibind (ask (fault E)) (\<lambda>flt. ibind (iget (\<lambda>w. opened_lock (fs w p))) (\<lambda>f.
     let written = f\<lparr>contents := lock_body pid\<rparr>;
         upto = (\<lambda>n. if n = 0 then f else if n = 1 then emptied f else written) in
     case flt of
       Fine \<Rightarrow> set_file p (Some written)
     | Fail n \<Rightarrow> ibind (set_file p (Some (upto n))) (\<lambda>_. iraise OSError)
     | Kill n \<Rightarrow> ibind (set_file p (Some (upto n))) (\<lambda>_. iraise Killed)))"

definition acquire_lock :: "env \<Rightarrow> lock_table \<Rightarrow> int \<Rightarrow> path \<Rightarrow> unit io" where
  "acquire_lock E H pid p =
     ibind (iget (\<lambda>w. held w p)) (\<lambda>mine.
     ibind (iraise_if mine (ProcessLockError ''agent process lock is already held'')) (\<lambda>_.
     ibind (ask (fault E)) (\<lambda>made. case made of
         Fail n \<Rightarrow> iraise OSError
       | Kill n \<Rightarrow> iraise Killed
       | Fine \<Rightarrow>
           ibind (flock_exclusive E H p) (\<lambda>_.
           ibind (hold p True) (\<lambda>_.
           on_error is_OSError (\<lambda>_. ibind (release_lock E p) (\<lambda>_.
               iraise (ProcessLockError ''cannot initialize process lock''))) (write_pid E pid p))))))"

text \<open>\<open>with lock: m\<close>. A process that dies runs no \<open>__exit__\<close>; the system drops its lock.\<close>

definition with_lock_held :: "env \<Rightarrow> path \<Rightarrow> 'a io \<Rightarrow> 'a io" where
  "with_lock_held E p m = (\<lambda>w. case m w of
       (Inl e, w1) \<Rightarrow> if e = Killed then (Inl e, w1) else ibind (release_lock E p) (\<lambda>_. iraise e) w1
     | (Inr x, w1) \<Rightarrow> ibind (release_lock E p) (\<lambda>_. iret x) w1)"

definition with_process_lock :: "env \<Rightarrow> lock_table \<Rightarrow> int \<Rightarrow> path \<Rightarrow> 'a io \<Rightarrow> 'a io" where
  "with_process_lock E H pid p m = ibind (acquire_lock E H pid p) (\<lambda>_. with_lock_held E p m)"

section \<open>What they promise\<close>

lemma wp_hold [wp_simps]: "wp (hold p b) Q R w = Q () (w\<lparr>held := (held w)(p := b)\<rparr>)"
  by (simp add: hold_def wp_simps)

lemma release_wp:
  "wp (release_lock E p) (\<lambda>_ w'. untouched w w' \<and> held w' = (held w)(p := False))
     (\<lambda>_ w'. untouched w w' \<and> held w' = (held w)(p := False)) w"
  by (auto simp: release_lock_def wp_simps untouched_def fun_upd_idem split: io_fault.splits)

text \<open>A lock is had only when no other process has it, and is never kept by a process that was refused.\<close>

lemma acquire_wp:
  "wp (acquire_lock E H pid p)
     (\<lambda>_ w'. agrees_but p w w' \<and> \<not> held w p \<and> held w' = (held w)(p := True)
        \<and> (\<exists>t. tick w \<le> t \<and> t < tick w' \<and> \<not> H t p))
     (\<lambda>e w'. agrees_but p w w' \<and> (e = Killed \<or> held w' = held w)) w"
  unfolding acquire_lock_def flock_exclusive_def write_pid_def release_lock_def
  by (auto simp: wp_simps agrees_but_def raise_if_def Let_def fun_upd_idem is_OSError_def split: io_fault.splits
      intro!: exI [of _ "Suc (Suc (tick w))"])

lemma wp_with_process_lock:
  "wp (with_process_lock E H pid p m) Q R w =
     wp (acquire_lock E H pid p) (\<lambda>_. wp m
         (\<lambda>x. wp (release_lock E p) (\<lambda>_. Q x) R)
         (\<lambda>e w1. if e = Killed then R e w1 else wp (release_lock E p) (\<lambda>_. R e) R w1)) R w"
proof -
  have "wp (with_lock_held E p m) Q R
    = wp m (\<lambda>x. wp (release_lock E p) (\<lambda>_. Q x) R)
         (\<lambda>e w1. if e = Killed then R e w1 else wp (release_lock E p) (\<lambda>_. R e) R w1)"
    by (auto simp: fun_eq_iff wp_def ibind_def iret_def lift_def with_lock_held_def split: sum.splits prod.splits)
  then show ?thesis by (simp add: with_process_lock_def wp_ibind)
qed

text \<open>A free lock is had.\<close>

lemma free_lock:
  assumes "calm E" "\<And>t. \<not> H t p" "\<not> held w p"
  shows "\<exists>w1. agrees_but p w w1 \<and> held w1 = (held w)(p := True)
     \<and> (\<forall>m. with_process_lock E H pid p m w = with_lock_held E p m w1)"
proof -
  have "\<exists>w1. acquire_lock E H pid p w = (Inr (), w1)"
    using assms
    by (auto simp: acquire_lock_def flock_exclusive_def write_pid_def ibind_def ask_def iget_def lift_def
        hold_def set_file_def imodify_def raise_if_def on_error_def calm_def iret_def Let_def)
  then obtain w1 where w1: "acquire_lock E H pid p w = (Inr (), w1)" ..
  then have "agrees_but p w w1 \<and> held w1 = (held w)(p := True)"
    using acquire_wp [of E H pid p w] by (simp add: wp_def)
  with w1 show ?thesis by (auto simp: with_process_lock_def ibind_def)
qed

text \<open>The body runs with the lock, and what the block leaves is what the body left, the lock gone.\<close>

lemma with_lock_wp:
  assumes "\<And>w1 t. agrees_but p w w1 \<Longrightarrow> held w1 = (held w)(p := True) \<Longrightarrow> tick w \<le> t \<Longrightarrow> t < tick w1
        \<Longrightarrow> \<not> H t p \<Longrightarrow> wp m (\<lambda>x w2. \<forall>w3. untouched w2 w3 \<longrightarrow> held w3 = (held w2)(p := False) \<longrightarrow> Q x w3 \<and> (\<forall>e. R e w3))
          (\<lambda>e w2. if e = Killed then R e w2
             else \<forall>w3. untouched w2 w3 \<longrightarrow> held w3 = (held w2)(p := False) \<longrightarrow> (\<forall>e. R e w3)) w1"
    and "\<And>e w1. agrees_but p w w1 \<Longrightarrow> R e w1"
  shows "wp (with_process_lock E H pid p m) Q R w"
proof -
  have rel: "wp (release_lock E p) (\<lambda>_. Q') (\<lambda>_. R') w2"
    if "\<And>w3. untouched w2 w3 \<Longrightarrow> held w3 = (held w2)(p := False) \<Longrightarrow> Q' w3 \<and> R' w3" for Q' R' w2
    by (rule wp_mono [OF release_wp]) (use that in auto)
  show ?thesis
    unfolding wp_with_process_lock
  proof (rule wp_mono [OF acquire_wp])
    fix u :: unit and w1
    assume "agrees_but p w w1 \<and> \<not> held w p \<and> held w1 = (held w)(p := True) \<and> (\<exists>t. tick w \<le> t \<and> t < tick w1 \<and> \<not> H t p)"
    then obtain t where "wp m (\<lambda>x w2. \<forall>w3. untouched w2 w3 \<longrightarrow> held w3 = (held w2)(p := False) \<longrightarrow> Q x w3 \<and> (\<forall>e. R e w3))
          (\<lambda>e w2. if e = Killed then R e w2
             else \<forall>w3. untouched w2 w3 \<longrightarrow> held w3 = (held w2)(p := False) \<longrightarrow> (\<forall>e. R e w3)) w1"
      using assms(1) by blast
    then show "wp m (\<lambda>x. wp (release_lock E p) (\<lambda>_. Q x) R)
         (\<lambda>e w1. if e = Killed then R e w1 else wp (release_lock E p) (\<lambda>_. R e) R w1) w1"
      by (rule wp_mono) (auto intro!: wp_mono [OF release_wp] split: if_splits)
  qed (use assms(2) in auto)
qed

text \<open>
  Nothing is had or sent, no other file changes, and the lock file keeps what it holds: at most its
  mode is set, or an empty one is made where there was none.
\<close>

definition lock_untouched :: "path \<Rightarrow> world \<Rightarrow> world \<Rightarrow> bool" where
  "lock_untouched p w w' \<longleftrightarrow> agrees_but p w w' \<and> held w' = held w \<and> (case fs w p of
      None \<Rightarrow> fs w' p = None \<or> fs w' p = Some (fresh_file (Text 0 NotJson))
    | Some f \<Rightarrow> fs w' p = Some f \<or> fs w' p = Some (f\<lparr>mode := 384\<rparr>))"

lemma busy_acquire_wp:
  assumes "\<And>t. H t p"
  shows "wp (acquire_lock E H pid p) (\<lambda>_ _. False) (\<lambda>_. lock_untouched p w) w"
  unfolding acquire_lock_def flock_exclusive_def
  by (auto simp: wp_simps raise_if_def assms lock_untouched_def agrees_but_def opened_lock_def split: io_fault.splits option.splits)

text \<open>While another process has the lock, the body is never reached.\<close>

lemma busy_lock_wp:
  assumes "\<And>t. H t p"
  shows "wp (with_process_lock E H pid p m) (\<lambda>_ _. False) (\<lambda>_. lock_untouched p w) w"
  unfolding with_process_lock_def wp_ibind by (rule wp_mono [OF busy_acquire_wp [where H = H]]) (use assms in auto)

end
