(* ===== verification/Health.thy ===== *)
theory Health
  imports Process_Lock Private_Files Audit_Log Provision Capabilities
begin

text \<open>
  \<open>health.py\<close>: the checks of the local files an agent needs, without the Keychain and without the
  network. The dictionary \<open>checks\<close> and the list \<open>problems\<close> are threaded through the checks as one
  value; the last step is the verdict. A check of the lock file takes the lock for a moment.
\<close>

abbreviation health_error :: "string \<Rightarrow> exc" where
  "health_error \<equiv> HealthError"

record health_paths =
  hp_identity :: path
  hp_config :: path
  hp_state :: path
  hp_capability_policy :: path
  hp_journal :: path
  hp_audit :: path
  hp_lock :: path

record health_report =
  hr_status :: string
  hr_exit_code :: nat
  hr_checks :: "(string \<times> str) list"
  hr_problems :: "string list"
  hr_private_key_checked :: bool
  hr_network_checked :: bool

definition health_event :: "health_report \<Rightarrow> pairs" where   \<comment> \<open>\<open>to_event\<close>\<close>
  "health_event r =
     [(lit ''status'', JStr (lit (hr_status r))),
      (lit ''checks'', JObj (map (\<lambda>(k, v). (lit k, JStr v)) (hr_checks r))),
      (lit ''problems'', JArr (map (\<lambda>p. JStr (lit p)) (hr_problems r))),
      (lit ''private_key_checked'', JBool (hr_private_key_checked r)),
      (lit ''network_checked'', JBool (hr_network_checked r))]"

record memo =
  n_checks :: "(string \<times> str) list"
  n_problems :: "string list"

definition noted :: "string \<Rightarrow> str \<Rightarrow> memo \<Rightarrow> memo" where   \<comment> \<open>\<open>checks[name] = value\<close>\<close>
  "noted name v n = n\<lparr>n_checks := AList.update name v (n_checks n)\<rparr>"

definition add_problems :: "string list \<Rightarrow> memo \<Rightarrow> memo" where   \<comment> \<open>\<open>problems.extend(ps)\<close>\<close>
  "add_problems ps n = n\<lparr>n_problems := n_problems n @ ps\<rparr>"

definition flag :: "string \<Rightarrow> string \<Rightarrow> string \<Rightarrow> memo \<Rightarrow> memo" where
  "flag name v problem n = add_problems [problem] (noted name (lit v) n)"

section \<open>The files\<close>

definition path_present :: "env \<Rightarrow> path \<Rightarrow> bool io" where
  "path_present E p = present_or E (health_error ''runtime path cannot be inspected'') p"

definition require_private_regular_file :: "env \<Rightarrow> path \<Rightarrow> unit io" where
  "require_private_regular_file E p = private_file_or E health_error p"

text \<open>The exceptions each check catches\<close>

definition identity_unfit :: "exc \<Rightarrow> bool" where
  "identity_unfit e \<longleftrightarrow> (case e of IdentityError m \<Rightarrow> True | ProtocolValueError m \<Rightarrow> True | OSError \<Rightarrow> True | _ \<Rightarrow> False)"

definition is_HealthError :: "exc \<Rightarrow> bool" where
  "is_HealthError e \<longleftrightarrow> (case e of HealthError m \<Rightarrow> True | _ \<Rightarrow> False)"

definition config_unfit :: "exc \<Rightarrow> bool" where
  "config_unfit e \<longleftrightarrow> (case e of ConfigError m \<Rightarrow> True | HealthError m \<Rightarrow> True | ProtocolValueError m \<Rightarrow> True | _ \<Rightarrow> False)"

definition state_unfit :: "exc \<Rightarrow> bool" where
  "state_unfit e \<longleftrightarrow> (case e of StateError m \<Rightarrow> True | HealthError m \<Rightarrow> True | _ \<Rightarrow> False)"

definition is_CapabilityError :: "exc \<Rightarrow> bool" where
  "is_CapabilityError e \<longleftrightarrow> (case e of CapabilityError m \<Rightarrow> True | _ \<Rightarrow> False)"

definition delivery_unfit :: "exc \<Rightarrow> bool" where
  "delivery_unfit e \<longleftrightarrow> is_DeliveryError e \<or> is_HealthError e"

definition audit_unfit :: "exc \<Rightarrow> bool" where
  "audit_unfit e \<longleftrightarrow> (case e of AuditError m \<Rightarrow> True | HealthError m \<Rightarrow> True | _ \<Rightarrow> False)"

section \<open>The checks\<close>

definition identity_check :: "env \<Rightarrow> lib \<Rightarrow> path \<Rightarrow> memo \<Rightarrow> (identity option \<times> memo) io" where
  "identity_check E L p n = ibind (attempt identity_unfit (load_identity E L p)) (\<lambda>i. iret (i, case i of
      None \<Rightarrow> flag ''identity'' ''invalid'' ''identity_invalid'' n
    | Some _ \<Rightarrow> noted ''identity'' (lit ''valid'') n))"

definition judge_config :: "identity option \<Rightarrow> agent_config \<Rightarrow> memo \<Rightarrow> agent_config option \<times> memo" where
  "judge_config identity c n =
     (if cfg_status c \<noteq> lit ''active'' then (None, add_problems [''config_not_active''] (noted ''config'' (cfg_status c) n))
      else if (case identity of None \<Rightarrow> True | Some i \<Rightarrow> cfg_did c \<noteq> id_did i \<or> cfg_fingerprint c \<noteq> id_fingerprint i)
      then (None, flag ''config'' ''identity_mismatch'' ''config_identity_mismatch'' n)
      else (Some c, noted ''config'' (lit ''active'') n))"

definition config_check ::
  "env \<Rightarrow> lib \<Rightarrow> path \<Rightarrow> identity option \<Rightarrow> memo \<Rightarrow> (agent_config option \<times> memo) io" where
  "config_check E L p identity n =
     ibind (attempt is_HealthError (path_present E p)) (\<lambda>present. case present of
       None \<Rightarrow> iret (None, flag ''config'' ''invalid'' ''config_invalid'' n)
     | Some False \<Rightarrow> iret (None, flag ''config'' ''missing'' ''config_missing'' n)
     | Some True \<Rightarrow>
         ibind (attempt config_unfit (ibind (require_private_regular_file E p) (\<lambda>_. load_config E L p))) (\<lambda>c.
         iret (case c of None \<Rightarrow> (None, flag ''config'' ''invalid'' ''config_invalid'' n) | Some c \<Rightarrow> judge_config identity c n)))"

definition state_problems :: "agent_config \<Rightarrow> agent_state \<Rightarrow> string list" where
  "state_problems c s =
     (case map_of (cursors s) (cfg_room c) of
        None \<Rightarrow> [''state_cursor_missing'']
      | Some cursor \<Rightarrow> (case cfg_seq c of Some q \<Rightarrow> if cursor < q then [''state_cursor_behind_config''] else [] | None \<Rightarrow> []))
     @ (case map_of (nonces s) (cfg_room c) of
        None \<Rightarrow> [''state_nonce_missing'']
      | Some nonce \<Rightarrow> if nonce < nonce_int (cfg_nonce c) then [''state_nonce_behind_config''] else [])"

definition judge_state :: "agent_config option \<Rightarrow> agent_state \<Rightarrow> memo \<Rightarrow> memo" where
  "judge_state config s n = (case config of
      None \<Rightarrow> noted ''state'' (lit ''valid_unbound'') n
    | Some c \<Rightarrow> let ps = state_problems c s in
        if ps \<noteq> [] then add_problems ps (noted ''state'' (lit ''invalid'') n) else noted ''state'' (lit ''valid'') n)"

definition state_check :: "env \<Rightarrow> path \<Rightarrow> agent_config option \<Rightarrow> memo \<Rightarrow> memo io" where
  "state_check E p config n =
     ibind (attempt is_HealthError (path_present E p)) (\<lambda>present. case present of
       None \<Rightarrow> iret (flag ''state'' ''invalid'' ''state_invalid'' n)
     | Some False \<Rightarrow> iret (flag ''state'' ''missing'' ''state_missing'' n)
     | Some True \<Rightarrow>
         ibind (attempt state_unfit (ibind (require_private_regular_file E p) (\<lambda>_. load_state E p))) (\<lambda>s.
         iret (case s of None \<Rightarrow> flag ''state'' ''invalid'' ''state_invalid'' n | Some s \<Rightarrow> judge_state config s n)))"

definition capability_check :: "env \<Rightarrow> path \<Rightarrow> memo \<Rightarrow> memo io" where
  "capability_check E p n = ibind (attempt is_CapabilityError (load_policy E p)) (\<lambda>pol. iret (case pol of
      None \<Rightarrow> flag ''capability_policy'' ''invalid'' ''capability_policy_invalid'' n
    | Some pol \<Rightarrow> noted ''capability_policy''
        (if list_ex (\<lambda>(d, g). enabled g) pol then lit ''valid'' else lit ''valid_no_enabled_grants'') n))"

definition bound_delivery ::
  "env \<Rightarrow> lib \<Rightarrow> path \<Rightarrow> identity option \<Rightarrow> agent_config option \<Rightarrow> delivery_record option io" where
  "bound_delivery E L p identity config =
     ibind (require_private_regular_file E p) (\<lambda>_.
     ibind (load_journal E L p) (\<lambda>r. case r of
       None \<Rightarrow> iret None
     | Some d \<Rightarrow> (case (identity, config) of
           (Some i, Some c) \<Rightarrow>
             ibind (iraise_if (dr_did d \<noteq> id_did i) (DeliveryError ''delivery journal is not bound to this agent'')) (\<lambda>_.
             ibind (lift (verify_for_room L d (cfg_room c))) (\<lambda>_. iret (Some d)))
         | _ \<Rightarrow> iraise (DeliveryError ''delivery journal is not bound to this agent''))))"

definition delivery_check ::
  "env \<Rightarrow> lib \<Rightarrow> path \<Rightarrow> identity option \<Rightarrow> agent_config option \<Rightarrow> memo \<Rightarrow> (delivery_record option \<times> memo) io" where
  "delivery_check E L p identity config n =
     ibind (attempt is_HealthError (path_present E p)) (\<lambda>present. case present of
       None \<Rightarrow> iret (None, flag ''delivery'' ''invalid'' ''delivery_invalid'' n)
     | Some False \<Rightarrow> iret (None, noted ''delivery'' (lit ''clear'') n)
     | Some True \<Rightarrow> ibind (attempt delivery_unfit (bound_delivery E L p identity config)) (\<lambda>d. iret (case d of
           None \<Rightarrow> (None, flag ''delivery'' ''invalid'' ''delivery_invalid'' n)
         | Some None \<Rightarrow> (None, noted ''delivery'' (lit ''clear'') n)
         | Some (Some d) \<Rightarrow> (Some d, noted ''delivery'' (dr_status d) n))))"

definition bound_audit :: "env \<Rightarrow> lib \<Rightarrow> path \<Rightarrow> identity option \<Rightarrow> str option \<Rightarrow> unit io" where
  "bound_audit E L p identity expected_head =
     ibind (require_private_regular_file E p) (\<lambda>_.
     ibind (verify_audit E L p expected_head) (\<lambda>summary.
     iraise_if (case identity of None \<Rightarrow> True | Some i \<Rightarrow> issuer summary \<notin> {None, Some (id_did i)})
       (AuditError ''audit issuer does not match this agent'')))"

definition audit_check :: "env \<Rightarrow> lib \<Rightarrow> path \<Rightarrow> identity option \<Rightarrow> str option \<Rightarrow> memo \<Rightarrow> memo io" where
  "audit_check E L p identity expected_head n =
     ibind (attempt is_HealthError (path_present E p)) (\<lambda>present. case present of
       None \<Rightarrow> iret (flag ''audit'' ''invalid'' ''audit_invalid'' n)
     | Some False \<Rightarrow> iret (if expected_head = None then noted ''audit'' (lit ''not_created'') n
         else flag ''audit'' ''missing'' ''audit_missing'' n)
     | Some True \<Rightarrow> ibind (attempt audit_unfit (bound_audit E L p identity expected_head)) (\<lambda>a. iret (case a of
           None \<Rightarrow> flag ''audit'' ''invalid'' ''audit_invalid'' n
         | Some _ \<Rightarrow> noted ''audit'' (lit (if expected_head \<noteq> None then ''valid_checkpoint'' else ''valid'')) n)))"

text \<open>Stage 0 is \<open>os.open\<close>, stage 1 \<open>fstat\<close> and \<open>flock\<close>; the unlock of a later stage is in the \<open>finally\<close>.\<close>

definition process_lock_status :: "env \<Rightarrow> lock_table \<Rightarrow> path \<Rightarrow> string io" where
  "process_lock_status E H p =
     ibind (path_present E p) (\<lambda>present.
     if \<not> present then iret ''stopped''
     else ibind (ask (fault E)) (\<lambda>flt. ibind (iget (\<lambda>w. fs w p)) (\<lambda>f.
       case (flt, f) of
         (Kill k, _) \<Rightarrow> iraise Killed
       | (_, None) \<Rightarrow> iraise (health_error ''process lock cannot be inspected'')
       | (Fine, Some g) \<Rightarrow> ibind (lift (private_metadata health_error g)) (\<lambda>_.
           ibind (ask H) (\<lambda>others. ibind (iget (\<lambda>w. held w p)) (\<lambda>own.
           iret (if others p \<or> own then ''running'' else ''stopped''))))
       | (Fail k, Some g) \<Rightarrow>
           if k = 0 then iraise (health_error ''process lock cannot be inspected'')
           else ibind (lift (private_metadata health_error g)) (\<lambda>_.
             iraise (if k = 1 then health_error ''process lock cannot be inspected'' else OSError)))))"

definition process_check :: "env \<Rightarrow> lock_table \<Rightarrow> path \<Rightarrow> memo \<Rightarrow> (string \<times> memo) io" where
  "process_check E H p n = ibind (attempt is_HealthError (process_lock_status E H p)) (\<lambda>s. iret (case s of
      None \<Rightarrow> (''invalid'', flag ''process'' ''invalid'' ''process_lock_invalid'' n)
    | Some s \<Rightarrow> (s, noted ''process'' (lit s) n)))"

section \<open>The verdict\<close>

definition verdict :: "string list \<Rightarrow> string \<Rightarrow> string \<times> nat" where
  "verdict problems process =
     (if filter (\<lambda>p. p \<noteq> ''delivery_recovery_required'') problems \<noteq> [] then (''unhealthy'', 2)
      else if ''delivery_recovery_required'' \<in> set problems then (''recovery_required'', 3)
      else if process = ''running'' then (''running'', 0)
      else (''ready'', 0))"

definition last_problems :: "bool \<Rightarrow> delivery_record option \<Rightarrow> string \<Rightarrow> string list" where
  "last_problems expect_running delivery process =
     (if expect_running \<and> process = ''stopped'' then [''process_not_running''] else [])
     @ (if delivery \<noteq> None \<and> process = ''stopped'' then [''delivery_recovery_required''] else [])"

definition health_of :: "bool \<Rightarrow> delivery_record option \<Rightarrow> string \<Rightarrow> memo \<Rightarrow> health_report" where
  "health_of expect_running delivery process n =
     (let n = add_problems (last_problems expect_running delivery process) n;
          (status, code) = verdict (n_problems n) process in
      \<lparr>hr_status = status, hr_exit_code = code, hr_checks = n_checks n, hr_problems = n_problems n,
        hr_private_key_checked = False, hr_network_checked = False\<rparr>)"

definition inspect_operational_health ::
  "env \<Rightarrow> lib \<Rightarrow> lock_table \<Rightarrow> health_paths \<Rightarrow> str option \<Rightarrow> bool \<Rightarrow> health_report io" where
  "inspect_operational_health E L H paths expected_audit_head expect_running =
     ibind (identity_check E L (hp_identity paths) \<lparr>n_checks = [], n_problems = []\<rparr>) (\<lambda>(identity, n).
     ibind (config_check E L (hp_config paths) identity n) (\<lambda>(config, n).
     ibind (state_check E (hp_state paths) config n) (\<lambda>n.
     ibind (capability_check E (hp_capability_policy paths) n) (\<lambda>n.
     ibind (delivery_check E L (hp_journal paths) identity config n) (\<lambda>(delivery, n).
     ibind (audit_check E L (hp_audit paths) identity expected_audit_head n) (\<lambda>n.
     ibind (process_check E H (hp_lock paths) n) (\<lambda>(process, n).
     iret (health_of expect_running delivery process n))))))))"

end
