(* ===== verification/Health_Safety.thy ===== *)
theory Health_Safety
  imports Health Cli_Run
begin

text \<open>
  The health check looks and does nothing else; what its verdict says of the files; and that the
  checks a live run makes before its loop are among those of a verdict \<open>ready\<close>.
\<close>

section \<open>Looking only\<close>

context world_order
begin

lemma grows_load_identity: "grows (load_identity E L p)"
  unfolding load_identity_def by (intro grows_intros)

lemma grows_load_config: "grows (load_config E L p)"
  unfolding load_config_def by (intro grows_intros)

lemma grows_load_state: "grows (load_state E p)"
  unfolding load_state_def by (intro grows_intros) (auto intro!: grows_intros)

lemma grows_load_policy: "grows (load_policy E p)"
  unfolding load_policy_def by (intro grows_intros)

lemma grows_load_journal: "grows (load_journal E L p)"
  unfolding load_journal_def by (intro grows_intros) (auto intro!: grows_intros)

lemma grows_verify_audit: "grows (verify_audit E L p head)"
  unfolding verify_audit_def by (intro grows_intros) (auto split: option.split intro!: grows_intros)

lemmas grows_loads = grows_load_identity grows_load_config grows_load_state grows_load_policy grows_load_journal
  grows_verify_audit

lemma grows_path_present: "grows (path_present E p)"
  unfolding path_present_def by (rule grows_present_or)

lemma grows_require_private: "grows (require_private_regular_file E p)"
  unfolding require_private_regular_file_def by (rule grows_private_file_or)

lemma grows_bound_delivery: "grows (bound_delivery E L p i c)"
  unfolding bound_delivery_def
  by (intro grows_ibind grows_require_private grows_load_journal)
    (auto split: option.split intro!: grows_intros)

lemma grows_bound_audit: "grows (bound_audit E L p i head)"
  unfolding bound_audit_def by (intro grows_ibind grows_require_private grows_verify_audit grows_lift)

lemma grows_process_lock_status: "grows (process_lock_status E H p)"
  unfolding process_lock_status_def
  by (intro grows_intros grows_path_present) (auto split: io_fault.split option.split intro!: grows_intros grows_path_present)

lemmas grows_looks = grows_attempt grows_loads grows_path_present grows_require_private grows_bound_delivery
  grows_bound_audit grows_process_lock_status grows_intros

lemma grows_checks:
  "grows (identity_check E L p n)" "grows (config_check E L p i n)" "grows (state_check E p c n)"
  "grows (capability_check E p n)" "grows (delivery_check E L p i c n)" "grows (audit_check E L p i head n)"
  "grows (process_check E H p n)"
  unfolding identity_check_def config_check_def state_check_def capability_check_def delivery_check_def audit_check_def
    process_check_def
  by ((intro grows_looks)?; auto split: option.split bool.split prod.split intro!: grows_looks)+

lemma grows_health: "grows (inspect_operational_health E L H paths head expect_running)"
  unfolding inspect_operational_health_def case_prod_unfold by (intro grows_looks grows_checks)

end

section \<open>The verdict\<close>

lemma verdict_cases:
  "verdict ps process = (st, code) \<longleftrightarrow>
     (\<exists>p \<in> set ps. p \<noteq> ''delivery_recovery_required'') \<and> st = ''unhealthy'' \<and> code = 2
   \<or> ps \<noteq> [] \<and> (\<forall>p \<in> set ps. p = ''delivery_recovery_required'') \<and> st = ''recovery_required'' \<and> code = 3
   \<or> ps = [] \<and> process = ''running'' \<and> st = ''running'' \<and> code = 0
   \<or> ps = [] \<and> process \<noteq> ''running'' \<and> st = ''ready'' \<and> code = 0"
  by (cases ps) (auto simp: verdict_def filter_empty_conv)

section \<open>What a check without a problem has seen\<close>

text \<open>A step of the check appended problems, or \<open>P\<close> holds.\<close>

definition clean :: "memo \<Rightarrow> memo \<Rightarrow> bool \<Rightarrow> bool" where
  "clean n n' P \<longleftrightarrow> (\<exists>ps. n_problems n' = n_problems n @ ps \<and> (ps = [] \<longrightarrow> P))"

lemma clean_trans: "clean n n' P \<Longrightarrow> clean n' n'' Q \<Longrightarrow> clean n n'' (P \<and> Q)"
  unfolding clean_def by force

lemma clean_noted [simp]: "clean n (noted k v n) P = P"
  by (auto simp: clean_def noted_def)

lemma clean_problem [simp]: "ps \<noteq> [] \<Longrightarrow> clean n (add_problems ps (noted k v n)) P"
  "clean n (flag k s p n) P"
  by (auto simp: clean_def noted_def add_problems_def flag_def)

lemma attempt_wp:
  assumes "idle.grows (m E)"
    and "\<And>x w'. gave m (fs w) x \<Longrightarrow> waited w w' \<Longrightarrow> Q (Some x) w'"
    and "\<And>w'. waited w w' \<Longrightarrow> Q None w'"
  shows "wp (attempt q (m E)) Q (\<lambda>_ _. True) w"
proof (cases "m E w")
  case (Pair r w')
  then have "waited w w'" using idle.growsD [OF assms(1), of w] by simp
  with Pair assms(2,3) gaveI [of m E w] show ?thesis
    by (cases r) (auto simp: attempt_def wp_def on_error_def ibind_def iret_def)
qed

lemma path_present_gave: "gave (\<lambda>E. path_present E p) F b \<Longrightarrow> b \<longleftrightarrow> F p \<noteq> None"
proof -
  have "path_present E p w = (Inr b, w') \<Longrightarrow> b \<longleftrightarrow> fs w p \<noteq> None" for E and w w' :: world
    by (cases "fault E (tick w)")
      (auto simp: path_present_def present_or_def lstat_file_def ibind_def ask_def iget_def lift_def iret_def)
  then show "gave (\<lambda>E. path_present E p) F b \<Longrightarrow> b \<longleftrightarrow> F p \<noteq> None" unfolding gave_def by blast
qed

text \<open>The part of an answer a later step of the same action gave.\<close>

lemma gave_ibind:
  assumes "repeats m" "gave (\<lambda>E. ibind (m E) (\<lambda>x. f x E)) F y"
  shows "\<exists>x. gave m F x \<and> gave (f x) F y"
proof -
  from assms(2) obtain E w w2 where F: "fs w = F" and run: "ibind (m E) (\<lambda>x. f x E) w = (Inr y, w2)"
    unfolding gave_def by blast
  then obtain x w1 where x: "m E w = (Inr x, w1)" "f x E w1 = (Inr y, w2)"
    by (auto simp: ibind_def split: sum.splits prod.splits)
  then have "fs w1 = F" using assms(1) F unfolding repeats_def by (metis waited_same)
  then show ?thesis using x F gaveI [of m E w x w1] gaveI [of "f x" E w1 y w2] by auto
qed

lemma gave_lift [simp]: "gave (\<lambda>E. lift r) F x \<longleftrightarrow> r = Inr x"
proof -
  have "\<exists>w. fs w = F" by (rule exI [of _ "undefined\<lparr>fs := F\<rparr>"]) simp
  then show ?thesis by (auto simp: gave_def lift_def)
qed

lemma gave_iret [simp]: "gave (\<lambda>E. iret y) F x \<longleftrightarrow> y = x"
  using gave_lift [of "Inr y"] by (simp add: iret_def lift_def)

lemma repeats_lstat_file: "repeats (\<lambda>E. lstat_file E e p)"
  unfolding repeats_def calm_def
  by (auto simp: lstat_file_def ibind_def ask_def iget_def lift_def waited_tick split: io_fault.splits)

lemma repeats_require_private: "repeats (\<lambda>E. require_private_regular_file E p)"
  unfolding require_private_regular_file_def private_file_or_def
  by (intro repeats_ibind repeats_lstat_file) (auto split: option.split intro!: repeats_lift)

lemma repeats_load_identity: "repeats (\<lambda>E. load_identity E L p)"
  unfolding load_identity_def by (intro repeats_intros)

lemma repeats_load_config: "repeats (\<lambda>E. load_config E L p)"
  unfolding load_config_def by (intro repeats_intros)

lemma repeats_load_policy: "repeats (\<lambda>E. load_policy E p)"
  unfolding load_policy_def by (intro repeats_intros)

lemma repeats_load_journal: "repeats (\<lambda>E. load_journal E L p)"
  unfolding load_journal_def by (intro repeats_intros)

lemma repeats_verify_audit: "repeats (\<lambda>E. verify_audit E L p head)"
  unfolding verify_audit_def
  by (intro repeats_intros) (auto split: option.split intro!: repeats_intros)

lemmas repeats_looks = repeats_load_identity repeats_load_config repeats_load_policy repeats_load_journal
  repeats_verify_audit repeats_load_state repeats_require_private repeats_intros

text \<open>The checkpoint is one more check: without it the log is accepted as well.\<close>

lemma verify_audit_without_head:
  assumes "gave (\<lambda>E. verify_audit E L p head) F summary"
  shows "gave (\<lambda>E. verify_audit E L p None) F summary"
proof -
  obtain E w w1 where F: "fs w = F" "verify_audit E L p head w = (Inr summary, w1)"
    using assms unfolding gave_def by blast
  then have "\<exists>w2. verify_audit E L p None w = (Inr summary, w2)"
    unfolding verify_audit_def
    by (cases head) (auto simp: ibind_def iret_def lift_def split: sum.splits prod.splits)
  then show ?thesis using F unfolding gave_def by blast
qed

text \<open>Each check: no problem means that the run's own reading of the file succeeds.\<close>

definition own_config :: "identity \<Rightarrow> agent_config \<Rightarrow> bool" where
  "own_config i c \<longleftrightarrow> cfg_status c = lit ''active'' \<and> cfg_did c = id_did i \<and> cfg_fingerprint c = id_fingerprint i"

definition config_fit :: "lib \<Rightarrow> path \<Rightarrow> filesystem \<Rightarrow> identity option \<Rightarrow> agent_config option \<Rightarrow> bool" where
  "config_fit L p F identity config \<longleftrightarrow> F p \<noteq> None \<and> (\<exists>i c. identity = Some i \<and> config = Some c
     \<and> gave (\<lambda>E. load_config E L p) F c \<and> own_config i c)"

definition state_fit :: "path \<Rightarrow> filesystem \<Rightarrow> agent_config option \<Rightarrow> bool" where
  "state_fit p F config \<longleftrightarrow> (\<forall>c. config = Some c \<longrightarrow> (\<exists>s. gave (\<lambda>E. load_state E p) F s \<and> state_problems c s = []))"

definition audit_fit :: "lib \<Rightarrow> path \<Rightarrow> filesystem \<Rightarrow> identity option \<Rightarrow> bool" where
  "audit_fit L p F identity \<longleftrightarrow> F p = None \<or> (\<exists>i summary. identity = Some i
     \<and> gave (\<lambda>E. verify_audit E L p None) F summary \<and> issuer summary \<in> {None, Some (id_did i)})"

lemma identity_check_seen:
  "wp (identity_check E L p n) (\<lambda>(i, n') w'. waited w w' \<and> clean n n' (\<exists>x. i = Some x \<and> gave (\<lambda>E. load_identity E L p) (fs w) x))
     (\<lambda>_ _. True) w"
  unfolding identity_check_def wp_ibind by (rule attempt_wp [OF idle.grows_load_identity]) (simp_all add: wp_simps)

lemma gave_judged:
  assumes "gave (\<lambda>E. ibind (require_private_regular_file E p) (\<lambda>_. m E)) F x"
  shows "gave m F x"
  using gave_ibind [OF repeats_require_private assms] by blast

lemma config_check_seen:
  "wp (config_check E L p identity n) (\<lambda>(c, n') w'. waited w w' \<and> clean n n' (config_fit L p (fs w) identity c)) (\<lambda>_ _. True) w"
  unfolding config_check_def wp_ibind
proof (rule attempt_wp [OF idle.grows_path_present])
  fix present w1
  assume seen: "gave (\<lambda>E. path_present E p) (fs w) present" and w1: "waited w w1"
  note present = path_present_gave [OF seen]
  have fs: "fs w1 = fs w" using w1 waited_same by blast
  show "wp (case Some present of None \<Rightarrow> iret (None, flag ''config'' ''invalid'' ''config_invalid'' n)
     | Some False \<Rightarrow> iret (None, flag ''config'' ''missing'' ''config_missing'' n)
     | Some True \<Rightarrow>
         ibind (attempt config_unfit (ibind (require_private_regular_file E p) (\<lambda>_. load_config E L p))) (\<lambda>c.
         iret (case c of None \<Rightarrow> (None, flag ''config'' ''invalid'' ''config_invalid'' n) | Some c \<Rightarrow> judge_config identity c n)))
     (\<lambda>(c, n') w'. waited w w' \<and> clean n n' (config_fit L p (fs w) identity c)) (\<lambda>_ _. True) w1"
  proof (cases present)
    case True
    have "wp (attempt config_unfit (ibind (require_private_regular_file E p) (\<lambda>_. load_config E L p)))
       (\<lambda>r w'. waited w w' \<and> clean n (snd (case r of None \<Rightarrow> (None, flag ''config'' ''invalid'' ''config_invalid'' n)
            | Some c \<Rightarrow> judge_config identity c n))
          (config_fit L p (fs w) identity (fst (case r of None \<Rightarrow> (None, flag ''config'' ''invalid'' ''config_invalid'' n)
            | Some c \<Rightarrow> judge_config identity c n)))) (\<lambda>_ _. True) w1"
      by (rule attempt_wp, intro idle.grows_looks)
        (use True present w1 idle.trans in \<open>auto simp: judge_config_def config_fit_def own_config_def fs
          dest!: gave_judged split: option.splits\<close>)
    then show ?thesis using True by (simp add: wp_simps case_prod_unfold)
  qed (use present w1 in \<open>simp_all add: wp_simps\<close>)
qed (simp add: wp_simps)

lemma state_check_seen:
  "wp (state_check E p config n) (\<lambda>n' w'. waited w w' \<and> clean n n' (state_fit p (fs w) config)) (\<lambda>_ _. True) w"
  unfolding state_check_def wp_ibind
proof (rule attempt_wp [OF idle.grows_path_present])
  fix present w1
  assume "gave (\<lambda>E. path_present E p) (fs w) present" and w1: "waited w w1"
  have fs: "fs w1 = fs w" using w1 waited_same by blast
  have "wp (attempt state_unfit (ibind (require_private_regular_file E p) (\<lambda>_. load_state E p)))
     (\<lambda>s w'. waited w w' \<and> clean n (case s of None \<Rightarrow> flag ''state'' ''invalid'' ''state_invalid'' n
        | Some s \<Rightarrow> judge_state config s n) (state_fit p (fs w) config)) (\<lambda>_ _. True) w1"
    by (rule attempt_wp, intro idle.grows_looks)
      (use w1 idle.trans in \<open>auto simp: judge_state_def state_fit_def fs Let_def dest!: gave_judged split: option.splits\<close>)
  then show "wp (case Some present of None \<Rightarrow> iret (flag ''state'' ''invalid'' ''state_invalid'' n)
     | Some False \<Rightarrow> iret (flag ''state'' ''missing'' ''state_missing'' n)
     | Some True \<Rightarrow>
         ibind (attempt state_unfit (ibind (require_private_regular_file E p) (\<lambda>_. load_state E p))) (\<lambda>s.
         iret (case s of None \<Rightarrow> flag ''state'' ''invalid'' ''state_invalid'' n | Some s \<Rightarrow> judge_state config s n)))
     (\<lambda>n' w'. waited w w' \<and> clean n n' (state_fit p (fs w) config)) (\<lambda>_ _. True) w1"
    using w1 by (cases present) (simp_all add: wp_simps)
qed (simp add: wp_simps)

lemma capability_check_seen:
  "wp (capability_check E p n) (\<lambda>n' w'. waited w w' \<and> clean n n' (\<exists>pol. gave (\<lambda>E. load_policy E p) (fs w) pol)) (\<lambda>_ _. True) w"
  unfolding capability_check_def wp_ibind
  by (rule attempt_wp [OF idle.grows_load_policy]) (auto simp: wp_simps)

lemma load_journal_None: "gave (\<lambda>E. load_journal E L p) F None \<Longrightarrow> F p = None"
  by (cases "F p") (auto simp: gave_def load_journal_def exists_path_def ibind_def iget_def iret_def lift_def
      split: sum.splits prod.splits)

lemma bound_delivery_None:
  assumes "gave (\<lambda>E. bound_delivery E L p i c) F None"
  shows "F p = None"
proof -
  define k where "k r = (\<lambda>E::env. case r of
       None \<Rightarrow> iret None
     | Some d \<Rightarrow> (case (i, c) of
           (Some i, Some c) \<Rightarrow>
             ibind (iraise_if (dr_did d \<noteq> id_did i) (DeliveryError ''delivery journal is not bound to this agent'')) (\<lambda>_.
             ibind (lift (verify_for_room L d (cfg_room c))) (\<lambda>_. iret (Some d)))
         | _ \<Rightarrow> iraise (DeliveryError ''delivery journal is not bound to this agent'')))" for r
  have "gave (\<lambda>E. ibind (load_journal E L p) (\<lambda>r. k r E)) F None"
    unfolding k_def by (rule gave_judged [OF assms [unfolded bound_delivery_def]])
  from gave_ibind [OF repeats_load_journal this]
  obtain r where r: "gave (\<lambda>E. load_journal E L p) F r" "gave (k r) F None" by blast
  have "r = None"
    using r(2) by (auto simp: k_def gave_def ibind_def iret_def lift_def split: option.splits sum.splits prod.splits)
  with r(1) load_journal_None show ?thesis by blast
qed

lemma delivery_check_seen:
  "wp (delivery_check E L p i c n) (\<lambda>(d, n') w'. waited w w' \<and> clean n n' (d = None \<longrightarrow> fs w p = None)) (\<lambda>_ _. True) w"
  unfolding delivery_check_def wp_ibind
proof (rule attempt_wp [OF idle.grows_path_present])
  fix present w1
  assume seen: "gave (\<lambda>E. path_present E p) (fs w) present" and w1: "waited w w1"
  note present = path_present_gave [OF seen]
  have fs: "fs w1 = fs w" using w1 waited_same by blast
  have "wp (attempt delivery_unfit (bound_delivery E L p i c))
     (\<lambda>d w'. waited w w' \<and> (case case d of
           None \<Rightarrow> (None, flag ''delivery'' ''invalid'' ''delivery_invalid'' n)
         | Some None \<Rightarrow> (None, noted ''delivery'' (lit ''clear'') n)
         | Some (Some d) \<Rightarrow> (Some d, noted ''delivery'' (dr_status d) n) of (d, n') \<Rightarrow> clean n n' (d = None \<longrightarrow> fs w p = None)))
     (\<lambda>_ _. True) w1"
    by (rule attempt_wp, intro idle.grows_looks)
      (use w1 idle.trans in \<open>auto simp: fs dest!: bound_delivery_None split: option.splits\<close>)
  then show "wp (case Some present of None \<Rightarrow> iret (None, flag ''delivery'' ''invalid'' ''delivery_invalid'' n)
     | Some False \<Rightarrow> iret (None, noted ''delivery'' (lit ''clear'') n)
     | Some True \<Rightarrow> ibind (attempt delivery_unfit (bound_delivery E L p i c)) (\<lambda>d. iret (case d of
           None \<Rightarrow> (None, flag ''delivery'' ''invalid'' ''delivery_invalid'' n)
         | Some None \<Rightarrow> (None, noted ''delivery'' (lit ''clear'') n)
         | Some (Some d) \<Rightarrow> (Some d, noted ''delivery'' (dr_status d) n))))
     (\<lambda>(d, n') w'. waited w w' \<and> clean n n' (d = None \<longrightarrow> fs w p = None)) (\<lambda>_ _. True) w1"
    using w1 present by (cases present) (simp_all add: wp_simps case_prod_unfold)
qed (simp add: wp_simps)

lemma audit_check_seen:
  "wp (audit_check E L p identity head n) (\<lambda>n' w'. waited w w' \<and> clean n n' (audit_fit L p (fs w) identity)) (\<lambda>_ _. True) w"
  unfolding audit_check_def wp_ibind
proof (rule attempt_wp [OF idle.grows_path_present])
  fix present w1
  assume seen: "gave (\<lambda>E. path_present E p) (fs w) present" and w1: "waited w w1"
  note present = path_present_gave [OF seen]
  have fs: "fs w1 = fs w" using w1 waited_same by blast
  have bound: "audit_fit L p F identity" if "gave (\<lambda>E. bound_audit E L p identity head) F x" for F x
  proof -
    have "gave (\<lambda>E. ibind (verify_audit E L p head) (\<lambda>summary.
        iraise_if (case identity of None \<Rightarrow> True | Some i \<Rightarrow> issuer summary \<notin> {None, Some (id_did i)})
         (AuditError ''audit issuer does not match this agent''))) F x"
      by (rule gave_judged [OF that [unfolded bound_audit_def]])
    from gave_ibind [OF repeats_verify_audit this] obtain summary where
      "gave (\<lambda>E. verify_audit E L p head) F summary"
      "\<not> (case identity of None \<Rightarrow> True | Some i \<Rightarrow> issuer summary \<notin> {None, Some (id_did i)})"
      by (auto simp: raise_if_def split: if_splits)
    then show ?thesis using verify_audit_without_head
      by (fastforce simp: audit_fit_def split: option.splits)
  qed
  have "wp (attempt audit_unfit (bound_audit E L p identity head))
     (\<lambda>a w'. waited w w' \<and> clean n (case a of None \<Rightarrow> flag ''audit'' ''invalid'' ''audit_invalid'' n
         | Some _ \<Rightarrow> noted ''audit'' (lit (if head \<noteq> None then ''valid_checkpoint'' else ''valid'')) n)
        (audit_fit L p (fs w) identity)) (\<lambda>_ _. True) w1"
    by (rule attempt_wp, intro idle.grows_looks) (use w1 idle.trans bound in \<open>auto simp: fs\<close>)
  then show "wp (case Some present of None \<Rightarrow> iret (flag ''audit'' ''invalid'' ''audit_invalid'' n)
     | Some False \<Rightarrow> iret (if head = None then noted ''audit'' (lit ''not_created'') n
         else flag ''audit'' ''missing'' ''audit_missing'' n)
     | Some True \<Rightarrow> ibind (attempt audit_unfit (bound_audit E L p identity head)) (\<lambda>a. iret (case a of
           None \<Rightarrow> flag ''audit'' ''invalid'' ''audit_invalid'' n
         | Some _ \<Rightarrow> noted ''audit'' (lit (if head \<noteq> None then ''valid_checkpoint'' else ''valid'')) n)))
     (\<lambda>n' w'. waited w w' \<and> clean n n' (audit_fit L p (fs w) identity)) (\<lambda>_ _. True) w1"
    using w1 present by (cases present) (simp_all add: wp_simps audit_fit_def)
qed (simp add: wp_simps)

lemma process_check_seen:
  "wp (process_check E H p n) (\<lambda>(s, n') w'. waited w w' \<and> clean n n' (s = ''running'' \<or> s = ''stopped'')) (\<lambda>_ _. True) w"
proof -
  have status: "s = ''running'' \<or> s = ''stopped''" if "gave (\<lambda>E. process_lock_status E H p) F s" for F s
  proof -
    obtain E w and w1 :: world where run: "process_lock_status E H p w = (Inr s, w1)" using \<open>gave _ _ _\<close> unfolding gave_def by blast
    have "wp (process_lock_status E H p) (\<lambda>s _. s = ''running'' \<or> s = ''stopped'') (\<lambda>_ _. True) w"
      unfolding process_lock_status_def path_present_def present_or_def lstat_file_def
      by (auto simp: wp_simps split: io_fault.split option.split sum.split)
    from wp_Inr [OF this run] show ?thesis .
  qed
  show ?thesis unfolding process_check_def wp_ibind
    by (rule attempt_wp [OF idle.grows_process_lock_status]) (use status in \<open>auto simp: wp_simps\<close>)
qed

section \<open>The whole check\<close>

text \<open>All a run needs of the local files, the key in the Keychain apart.\<close>

definition fit_to_run :: "lib \<Rightarrow> health_paths \<Rightarrow> filesystem \<Rightarrow> bool" where
  "fit_to_run L P F \<longleftrightarrow> (\<exists>i c pol. gave (\<lambda>E. load_identity E L (hp_identity P)) F i
     \<and> config_fit L (hp_config P) F (Some i) (Some c) \<and> state_fit (hp_state P) F (Some c)
     \<and> gave (\<lambda>E. load_policy E (hp_capability_policy P)) F pol
     \<and> F (hp_journal P) = None \<and> audit_fit L (hp_audit P) F (Some i))"

lemma ready_verdict:
  assumes "hr_status (health_of e d s n) = ''ready''" and "clean \<lparr>n_checks = [], n_problems = []\<rparr> n P"
    and "P \<Longrightarrow> s = ''running'' \<or> s = ''stopped''"
  shows "P \<and> d = None"
proof -
  obtain st code where v: "verdict (n_problems n @ last_problems e d s) s = (st, code)" by fastforce
  then have "st = ''ready''" using assms(1) by (simp add: health_of_def Let_def add_problems_def)
  then have none: "n_problems n @ last_problems e d s = []" "s \<noteq> ''running''" using v by (auto simp: verdict_cases)
  moreover have P using assms(2) none(1) by (auto simp: clean_def)
  ultimately show ?thesis using assms(3) by (auto simp: last_problems_def split: if_splits)
qed

lemma health_seen:
  "wp (inspect_operational_health E L H P head e)
     (\<lambda>r w'. hr_status r = ''ready'' \<longrightarrow> fit_to_run L P (fs w)) (\<lambda>_ _. True) w"
  unfolding inspect_operational_health_def wp_ibind case_prod_unfold
proof (rule wp_mono [OF identity_check_seen]; clarsimp simp: wp_ibind case_prod_unfold)
  let ?n0 = "\<lparr>n_checks = [], n_problems = []\<rparr>"
  fix i n1 w1
  assume w1: "waited w w1" and c1: "clean ?n0 n1 (\<exists>x. i = Some x \<and> gave (\<lambda>E. load_identity E L (hp_identity P)) (fs w) x)"
  show "wp (config_check E L (hp_config P) i n1) (\<lambda>x. wp (state_check E (hp_state P) (fst x) (snd x))
      (\<lambda>n. wp (capability_check E (hp_capability_policy P) n)
      (\<lambda>n. wp (delivery_check E L (hp_journal P) i (fst x) n)
      (\<lambda>y. wp (audit_check E L (hp_audit P) i head (snd y))
      (\<lambda>n. wp (process_check E H (hp_lock P) n)
      (\<lambda>z. wp (iret (health_of e (fst y) (fst z) (snd z)))
         (\<lambda>r w'. hr_status r = ''ready'' \<longrightarrow> fit_to_run L P (fs w)) (\<lambda>_ _. True)) (\<lambda>_ _. True)) (\<lambda>_ _. True))
         (\<lambda>_ _. True)) (\<lambda>_ _. True)) (\<lambda>_ _. True)) (\<lambda>_ _. True) w1"
  proof (rule wp_mono [OF config_check_seen]; clarsimp)
    fix c n2 w2
    assume w2: "waited w1 w2" and c2: "clean n1 n2 (config_fit L (hp_config P) (fs w1) i c)"
    show "wp (state_check E (hp_state P) c n2)
      (\<lambda>n. wp (capability_check E (hp_capability_policy P) n)
      (\<lambda>n. wp (delivery_check E L (hp_journal P) i c n)
      (\<lambda>y. wp (audit_check E L (hp_audit P) i head (snd y))
      (\<lambda>n. wp (process_check E H (hp_lock P) n)
      (\<lambda>z. wp (iret (health_of e (fst y) (fst z) (snd z)))
         (\<lambda>r w'. hr_status r = ''ready'' \<longrightarrow> fit_to_run L P (fs w)) (\<lambda>_ _. True)) (\<lambda>_ _. True)) (\<lambda>_ _. True))
         (\<lambda>_ _. True)) (\<lambda>_ _. True)) (\<lambda>_ _. True) w2"
    proof (rule wp_mono [OF state_check_seen], rule wp_mono [OF capability_check_seen],
        rule wp_mono [OF delivery_check_seen], rule wp_mono [OF audit_check_seen], rule wp_mono [OF process_check_seen];
        (rule TrueI)?)
      fix n3 w3 n4 w4 and y :: "delivery_record option \<times> memo" and w5 n6 w6 and z :: "string \<times> memo" and w7
      assume s3: "waited w2 w3 \<and> clean n2 n3 (state_fit (hp_state P) (fs w2) c)"
        and s4: "waited w3 w4 \<and> clean n3 n4 (\<exists>pol. gave (\<lambda>E. load_policy E (hp_capability_policy P)) (fs w3) pol)"
        and s5: "(case y of (d, n5) \<Rightarrow> \<lambda>w5. waited w4 w5 \<and> clean n4 n5 (d = None \<longrightarrow> fs w4 (hp_journal P) = None)) w5"
        and s6: "waited w5 w6 \<and> clean (snd y) n6 (audit_fit L (hp_audit P) (fs w5) i)"
        and s7: "(case z of (s, n7) \<Rightarrow> \<lambda>w7. waited w6 w7 \<and> clean n6 n7 (s = ''running'' \<or> s = ''stopped'')) w7"
      have F: "fs w1 = fs w" "fs w2 = fs w" "fs w3 = fs w" "fs w4 = fs w" "fs w5 = fs w"
        using w1 w2 s3 s4 s5 waited_same by (auto simp: case_prod_unfold)
      note steps = s3 s4 s5 s6 s7
      have all: "clean ?n0 (snd z) ((((((((\<exists>x. i = Some x \<and> gave (\<lambda>E. load_identity E L (hp_identity P)) (fs w) x)
          \<and> config_fit L (hp_config P) (fs w) i c) \<and> state_fit (hp_state P) (fs w) c)
          \<and> (\<exists>pol. gave (\<lambda>E. load_policy E (hp_capability_policy P)) (fs w) pol))
          \<and> (fst y = None \<longrightarrow> fs w (hp_journal P) = None)) \<and> audit_fit L (hp_audit P) (fs w) i)
          \<and> (fst z = ''running'' \<or> fst z = ''stopped'')))"
        using steps c1 c2 by (intro clean_trans) (auto simp: F case_prod_unfold)
      show "wp (iret (health_of e (fst y) (fst z) (snd z)))
         (\<lambda>r w'. hr_status r = ''ready'' \<longrightarrow> fit_to_run L P (fs w)) (\<lambda>_ _. True) w7"
        unfolding wp_iret
      proof
        assume "hr_status (health_of e (fst y) (fst z) (snd z)) = ''ready''"
        from ready_verdict [OF this all] show "fit_to_run L P (fs w)"
          by (auto simp: fit_to_run_def config_fit_def)
      qed
    qed
  qed
qed

section \<open>A live run on files that are fit\<close>

definition runs_on :: "health_paths \<Rightarrow> run_args \<Rightarrow> bool" where
  "runs_on P a \<longleftrightarrow> ra_send a \<and> ra_room a = None \<and> ra_base_url a = None
     \<and> ra_capability_policy a = Some (hp_capability_policy P) \<and> ra_config_path a = hp_config P
     \<and> ra_state_path a = hp_state P \<and> ra_journal_path a = hp_journal P \<and> ra_audit_path a = hp_audit P"

definition timeouts_ok :: "run_args \<Rightarrow> bool" where
  "timeouts_ok a \<longleftrightarrow> (\<exists>t. float_value (ra_timeout a) = Some t \<and> 1 / 10 \<le> t \<and> t \<le> 120)
     \<and> (\<exists>t. float_value (ra_github_timeout a) = Some t \<and> 1 / 10 \<le> t \<and> t \<le> 60)"

lemma ibind_iret_id [simp]: "ibind m (\<lambda>x. iret x) = m"
  by (auto simp: fun_eq_iff ibind_def iret_def split: sum.split prod.split)

lemma gave_config_ok:
  assumes "gave (\<lambda>E. load_config E L p) F c"
  shows "config_ok L c"
proof -
  from assms obtain f where "decode_config L f = Inr c"
    unfolding load_config_def by (auto dest!: gave_ibind [rotated] intro!: repeats_intros)
  then show ?thesis by (auto simp: decode_config_def config_of_json_def bind_eq_Inr dest!: validate_config_ok)
qed

lemma gave_identity_did:
  assumes "gave (\<lambda>E. load_identity E L p) F i"
  shows "match_did (id_did i)"
proof -
  from assms obtain v where "identity_of_json L v = Inr i"
    unfolding load_identity_def by (auto dest!: gave_ibind [rotated] intro!: repeats_intros)
  then show ?thesis by (auto simp: identity_of_json_def bind_eq_Inr)
qed

lemma active_config_at:
  assumes "config_fit L p (fs w) (Some i) (Some c)" "calm E"
  shows "\<exists>w1. load_active_config E L i message p w = (Inr (Some c), w1) \<and> waited w w1"
proof -
  obtain w1 where "load_config E L p w = (Inr c, w1)" "waited w w1"
    using repeatsD [OF repeats_load_config] assms unfolding config_fit_def by blast
  then show ?thesis using assms(1)
    by (auto simp: load_active_config_def config_fit_def own_config_def ibind_def exists_path_def iget_def lift_def
        iret_def raise_if_def)
qed

lemma live_artifacts_at:
  assumes "runs_on P a" "fs w (hp_journal P) = None" "audit_fit L (hp_audit P) (fs w) (Some i)" "calm E"
  shows "\<exists>w1. live_artifacts E L a (id_did i) w = (Inr (Some (hp_journal P), Some (hp_audit P)), w1) \<and> waited w w1"
proof (cases "fs w (hp_audit P)")
  case None
  then show ?thesis using assms(1,2)
    by (auto simp: live_artifacts_def runs_on_def require_empty_def load_journal_def ibind_def exists_path_def iget_def
        iret_def lift_def raise_if_def idle.refl)
next
  case (Some f)
  then obtain summary where "gave (\<lambda>E. verify_audit E L (hp_audit P) None) (fs w) summary" "issuer summary \<in> {None, Some (id_did i)}"
    using assms(3) by (auto simp: audit_fit_def)
  moreover from this obtain w1 where "verify_audit E L (hp_audit P) None w = (Inr summary, w1)" "waited w w1"
    using repeatsD [OF repeats_verify_audit] assms(4) by blast
  ultimately show ?thesis using assms(1,2) Some
    by (auto simp: live_artifacts_def runs_on_def require_empty_def load_journal_def ibind_def exists_path_def iget_def
        iret_def lift_def raise_if_def)
qed

lemma responder_at:
  assumes a: "runs_on P a" "timeouts_ok a" and F: "fs w (hp_journal P) = None" "audit_fit L (hp_audit P) (fs w) (Some i)"
    and pol: "gave (\<lambda>E. load_policy E (hp_capability_policy P)) (fs w) pol"
    and i: "match_did (id_did i)" and url: "validate_base_url L url = Inr u" and E: "calm E"
  shows "\<exists>r w1. build_responder E L a i key room url w = (Inr r, w1) \<and> waited w w1 \<and> r_room r = room
     \<and> r_send r \<and> r_did r = id_did i \<and> r_key r = key"
proof -
  obtain w1 where w1: "load_policy E (hp_capability_policy P) w = (Inr pol, w1)" "waited w w1"
    using repeatsD [OF repeats_load_policy pol E] by blast
  have "\<exists>cp. command_policy_for E L a (id_did i) w = (Inr cp, w1)"
    using a(1) w1(1) by (auto simp: command_policy_for_def runs_on_def ibind_def lift_def check_policy_def raise_if_def)
  then obtain cp where cp: "command_policy_for E L a (id_did i) w = (Inr cp, w1)" ..
  have same: "fs w1 = fs w" using w1(2) waited_same by blast
  obtain w2 where w2: "live_artifacts E L a (id_did i) w1 = (Inr (Some (hp_journal P), Some (hp_audit P)), w2)" "waited w1 w2"
    using live_artifacts_at [OF a(1) _ _ E, of w1 L i] F same by auto
  obtain cl where cl: "technocore_client L url (ra_timeout a) = Inr cl"
    using a(2) url by (auto simp: technocore_client_def timeouts_ok_def bounded_float_def)
  obtain svc where svc: "receipt_service_for a (id_did i) key = Inr svc"
    using a(2) i by (auto simp: receipt_service_for_def timeouts_ok_def validate_did_def raise_if_def)
  show ?thesis
    using a(1) idle.trans [OF w1(2) w2(2)]
    by (simp add: build_responder_def ibind_def cp w2(1) cl svc lift_def iret_def runs_on_def)
qed

lemma fit_run_reaches_loop:
  assumes fit: "config_fit L (hp_config P) (fs w) (Some i) (Some c)" "state_fit (hp_state P) (fs w) (Some c)"
      "gave (\<lambda>E. load_policy E (hp_capability_policy P)) (fs w) pol"
      "fs w (hp_journal P) = None" "audit_fit L (hp_audit P) (fs w) (Some i)" "match_did (id_did i)"
    and a: "runs_on P a" "timeouts_ok a" and E: "calm E"
  shows "\<exists>r w'. fs w' = fs w \<and> sent w' = sent w \<and> held w' = held w \<and> r_room r = cfg_room c \<and> r_send r \<and> r_did r = id_did i \<and> r_key r = key
     \<and> (\<forall>n. run_with_identity E L a i key sleeps n w = poll E L a r sleeps n 1 1 w')"
proof -
  obtain w1 where w1: "load_active_config E L i ''agent config is pending; inspect provisioning before running''
       (ra_config_path a) w = (Inr (Some c), w1)" "waited w w1"
    using active_config_at [OF fit(1) E] a(1) by (auto simp: runs_on_def)
  have fs1: "fs w1 = fs w" "sent w1 = sent w" "held w1 = held w" using w1(2) waited_same by auto
  have c: "config_ok L c" "gave (\<lambda>E. load_config E L (hp_config P)) (fs w) c"
    using fit(1) gave_config_ok by (auto simp: config_fit_def)
  then obtain u where u: "validate_base_url L (cfg_base_url c) = Inr u" by (auto simp: config_ok_def)
  obtain s where s: "gave (\<lambda>E. load_state E (hp_state P)) (fs w1) s" "state_problems c s = []"
    using fit(2) fs1 by (auto simp: state_fit_def)
  obtain w2 where w2: "load_state E (ra_state_path a) w1 = (Inr s, w2)" "waited w1 w2"
    using repeatsD [OF repeats_load_state s(1) E] a(1) by (auto simp: runs_on_def)
  have target: "resolve_runtime_target a (Some c) = Inr (cfg_room c, cfg_base_url c)"
    using a(1) by (simp add: resolve_runtime_target_def runs_on_def str_or_def)
  have loaded: "load_mem E (ra_state_path a) w1 = (Inr (), w2\<lparr>mem := s\<rparr>)"
    by (simp add: load_mem_def ibind_def w2(1) imodify_def)
  have fs2: "fs (w2\<lparr>mem := s\<rparr>) = fs w" "sent (w2\<lparr>mem := s\<rparr>) = sent w" "held (w2\<lparr>mem := s\<rparr>) = held w"
    using w2(2) fs1 waited_same by auto
  obtain r w3 where r: "build_responder E L a i key (cfg_room c) (cfg_base_url c) (w2\<lparr>mem := s\<rparr>) = (Inr r, w3)"
      "waited (w2\<lparr>mem := s\<rparr>) w3" "r_room r = cfg_room c" "r_send r" "r_did r = id_did i" "r_key r = key"
    using responder_at [OF a _ _ _ fit(6) u E, where w = "w2\<lparr>mem := s\<rparr>" and pol = pol
        and key = key and room = "cfg_room c"] fit(3,4,5) fs2 by auto
  have "map_of (cursors (mem w3)) (r_room r) \<noteq> None"
    using s(2) r(2,3) waited_same [OF r(2)] by (auto simp: state_problems_def split: option.splits)
  then have init: "initialize_cursor E L a r w3 = (Inr (False, []), w3)"
    by (simp add: initialize_cursor_def ibind_def iget_def iret_def)
  have "run_with_identity E L a i key sleeps n w = poll E L a r sleeps n 1 1 w3" for n
    unfolding run_with_identity_def serve_def
    by (subst ibind_def, simp add: w1(1), subst ibind_def, simp add: lift_def target, subst ibind_def, simp add: loaded,
      subst ibind_def, simp add: r(1), subst ibind_def, simp add: init)
  moreover have "fs w3 = fs w" "sent w3 = sent w" "held w3 = held w" using waited_same [OF r(2)] fs2 by auto
  ultimately show ?thesis using r(3-) by blast
qed

end
