(* ===== verification/Launchd.thy ===== *)
theory Launchd
  imports Health_Safety
begin

text \<open>
  \<open>launchd.py\<close>: a property list for a LaunchAgent, rendered only after the health check let the
  agent start. The dictionary is a value; \<open>plist_text\<close> is the XML \<open>plistlib\<close> writes for it. Paths are
  ASCII; \<open>resolve\<close>, the parent of a path and the metadata of directories are answers.
\<close>

abbreviation launch_error :: "string \<Rightarrow> exc" where
  "launch_error \<equiv> LaunchAgentError"

record launch_agent_spec =
  la_label :: str
  la_executable :: path
  la_health_paths :: health_paths
  la_stdout_path :: path
  la_stderr_path :: path
  la_expected_audit_head :: "str option"

record launch_answers =
  lx_resolve :: "path \<Rightarrow> path option"                       \<comment> \<open>\<open>None\<close>: \<open>OSError\<close> or \<open>RuntimeError\<close>\<close>
  lx_parent :: "path \<Rightarrow> path"
  lx_directory :: "nat \<Rightarrow> path \<Rightarrow> (bool \<times> nat \<times> bool) option" \<comment> \<open>is a directory, mode, own\<close>

section \<open>The checks\<close>

definition match_label :: "str \<Rightarrow> bool" where   \<comment> \<open>\<open>[A-Za-z0-9](?:[A-Za-z0-9.-]{0,126}[A-Za-z0-9])?\Z\<close>\<close>
  "match_label s \<longleftrightarrow> s \<noteq> [] \<and> length s \<le> 128 \<and> is_alnum (hd s) \<and> is_alnum (last s)
     \<and> list_all (\<lambda>c. is_alnum c \<or> c = 46 \<or> c = 45) s"

fun has_double_dot :: "str \<Rightarrow> bool" where   \<comment> \<open>\<open>".." in label\<close>\<close>
  "has_double_dot (a # b # s) \<longleftrightarrow> a = 46 \<and> b = 46 \<or> has_double_dot (b # s)"
| "has_double_dot _ \<longleftrightarrow> False"

definition is_absolute :: "path \<Rightarrow> bool" where
  "is_absolute p \<longleftrightarrow> p \<noteq> [] \<and> hd p = CHR ''/''"

definition runtime_artifacts :: "launch_agent_spec \<Rightarrow> path list" where
  "runtime_artifacts s = (let p = la_health_paths s in
     [la_executable s, hp_identity p, hp_config p, hp_state p, hp_capability_policy p, hp_journal p, hp_audit p, hp_lock p])"

definition require_absolute_paths :: "launch_agent_spec \<Rightarrow> unit res" where
  "require_absolute_paths s =
     raise_if (list_ex (\<lambda>p. \<not> is_absolute p) (runtime_artifacts s @ [la_stdout_path s, la_stderr_path s]))
       (launch_error ''all LaunchAgent paths must be absolute'')"

definition validate_log_destinations :: "launch_answers \<Rightarrow> launch_agent_spec \<Rightarrow> unit res" where
  "validate_log_destinations A s =
     bind (some_or (launch_error ''LaunchAgent paths cannot be resolved safely'') (lx_resolve A (la_stdout_path s))) (\<lambda>out.
     bind (some_or (launch_error ''LaunchAgent paths cannot be resolved safely'') (lx_resolve A (la_stderr_path s))) (\<lambda>err.
     bind (map_res (\<lambda>p. some_or (launch_error ''LaunchAgent paths cannot be resolved safely'') (lx_resolve A p))
       (runtime_artifacts s)) (\<lambda>protected.
     bind (raise_if (out = err) (launch_error ''stdout and stderr log paths must be different'')) (\<lambda>_.
     raise_if (out \<in> set protected \<or> err \<in> set protected)
       (launch_error ''LaunchAgent logs must not overwrite a runtime artifact'')))))"

definition validate_executable :: "env \<Rightarrow> path \<Rightarrow> unit io" where
  "validate_executable E p = ibind (lstat_file E (launch_error ''LaunchAgent executable cannot be inspected'') p) (\<lambda>f. case f of
      None \<Rightarrow> iraise (launch_error ''LaunchAgent executable cannot be inspected'')
    | Some f \<Rightarrow> lift (
        bind (raise_if (\<not> regular f) (launch_error ''LaunchAgent executable must be a regular file'')) (\<lambda>_.
        bind (raise_if (and (mode f) 64 = 0) (launch_error ''LaunchAgent executable is not owner-executable'')) (\<lambda>_.
        bind (raise_if (and (mode f) 18 \<noteq> 0) (launch_error ''LaunchAgent executable must not be group/other writable'')) (\<lambda>_.
        raise_if (\<not> owned f) (launch_error ''LaunchAgent executable must be owned by this user'')))))) "

definition validate_log_directory :: "launch_answers \<Rightarrow> path \<Rightarrow> unit io" where
  "validate_log_directory A p = ibind (ask (\<lambda>t. lx_directory A t p)) (\<lambda>m. case m of
      None \<Rightarrow> iraise (launch_error ''LaunchAgent log directory cannot be inspected'')
    | Some (is_dir, md, own) \<Rightarrow> lift (
        bind (raise_if (\<not> is_dir) (launch_error ''LaunchAgent log directory must be a real directory'')) (\<lambda>_.
        bind (raise_if (and md 63 \<noteq> 0) (launch_error ''LaunchAgent log directory must be owner-only'')) (\<lambda>_.
        raise_if (\<not> own) (launch_error ''LaunchAgent log directory must be owned by this user'')))))"

definition validate_existing_log :: "env \<Rightarrow> path \<Rightarrow> unit io" where
  "validate_existing_log E p = ibind (lstat_file E (launch_error ''LaunchAgent log path cannot be inspected'') p) (\<lambda>f. case f of
      None \<Rightarrow> iret ()
    | Some f \<Rightarrow> lift (
        bind (raise_if (\<not> regular f) (launch_error ''LaunchAgent log path must be a regular file'')) (\<lambda>_.
        bind (raise_if (group_or_other f) (launch_error ''LaunchAgent log permissions must be owner-only'')) (\<lambda>_.
        bind (raise_if (and (mode f) 128 = 0) (launch_error ''LaunchAgent log must be owner-writable'')) (\<lambda>_.
        raise_if (\<not> owned f) (launch_error ''LaunchAgent log must be owned by this user''))))))"

definition validate_log_path :: "env \<Rightarrow> launch_answers \<Rightarrow> path \<Rightarrow> unit io" where
  "validate_log_path E A p =
     ibind (validate_log_directory A (lx_parent A p)) (\<lambda>_. validate_existing_log E p)"

definition validate_spec :: "env \<Rightarrow> launch_answers \<Rightarrow> launch_agent_spec \<Rightarrow> unit io" where
  "validate_spec E A s =
     ibind (iraise_if (\<not> match_label (la_label s) \<or> 46 \<notin> set (la_label s) \<or> has_double_dot (la_label s))
       (launch_error ''LaunchAgent label must be a reverse-DNS token'')) (\<lambda>_.
     ibind (lift (require_absolute_paths s)) (\<lambda>_.
     ibind (validate_executable E (la_executable s)) (\<lambda>_.
     ibind (lift (validate_log_destinations A s)) (\<lambda>_.
     ibind (validate_log_path E A (la_stdout_path s)) (\<lambda>_.
     validate_log_path E A (la_stderr_path s))))))"

section \<open>The property list\<close>

datatype plist = PString str | PInteger int | PTrue | PArray "plist list" | PDict "(string \<times> plist) list"

definition program_arguments :: "launch_agent_spec \<Rightarrow> string list" where
  "program_arguments s = (let p = la_health_paths s in
     [la_executable s, ''run'', ''--identity'', hp_identity p, ''--config'', hp_config p, ''--state'', hp_state p,
      ''--journal'', hp_journal p, ''--lock'', hp_lock p, ''--audit-log'', hp_audit p,
      ''--capability-policy'', hp_capability_policy p, ''--start-at'', ''saved'', ''--send''])"

definition agent_plist :: "launch_agent_spec \<Rightarrow> plist" where
  "agent_plist s = PDict
     [(''Label'', PString (la_label s)), (''Program'', PString (lit (la_executable s))),
      (''ProgramArguments'', PArray (map (\<lambda>a. PString (lit a)) (program_arguments s))),
      (''RunAtLoad'', PTrue), (''KeepAlive'', PDict [(''Crashed'', PTrue)]), (''ThrottleInterval'', PInteger 30),
      (''ExitTimeOut'', PInteger 20), (''ProcessType'', PString (lit ''Background'')), (''LowPriorityIO'', PTrue),
      (''LimitLoadToSessionType'', PString (lit ''Aqua'')), (''Umask'', PString (lit ''077'')),
      (''StandardOutPath'', PString (lit (la_stdout_path s))), (''StandardErrorPath'', PString (lit (la_stderr_path s)))]"

text \<open>\<open>plistlib\<close>: text with a control character is refused, line ends become newlines, then the escapes\<close>

fun newlines :: "str \<Rightarrow> str" where
  "newlines [] = []"
| "newlines [c] = [if c = 13 then 10 else c]"
| "newlines (c # d # s) = (if c = 13 \<and> d = 10 then 10 # newlines s else (if c = 13 then 10 else c) # newlines (d # s))"

definition escape_char :: "nat \<Rightarrow> str" where
  "escape_char c = (if c = 38 then lit ''&amp;'' else if c = 60 then lit ''&lt;'' else if c = 62 then lit ''&gt;'' else [c])"

definition plist_escape :: "str \<Rightarrow> str res" where
  "plist_escape s =
     bind (raise_if (list_ex (\<lambda>c. c < 32 \<and> c \<notin> {9, 10, 13}) s) (ValueError ''strings can't contain control characters''))
       (\<lambda>_. ret (concat (map escape_char (newlines s))))"

definition plist_line :: "nat \<Rightarrow> str \<Rightarrow> str" where
  "plist_line indent s = replicate indent 9 @ s @ [10]"

definition plist_element :: "string \<Rightarrow> str \<Rightarrow> str" where
  "plist_element name s = lit ''<'' @ lit name @ lit ''>'' @ s @ lit ''</'' @ lit name @ lit ''>''"

lemma map_res_cong [fundef_cong]:
  "xs = ys \<Longrightarrow> (\<And>x. x \<in> set ys \<Longrightarrow> f x = g x) \<Longrightarrow> map_res f xs = map_res g ys"
  by (induction xs arbitrary: ys) auto

fun plist_value :: "nat \<Rightarrow> plist \<Rightarrow> str res" where
  "plist_value indent (PString s) = bind (plist_escape s) (\<lambda>t. ret (plist_line indent (plist_element ''string'' t)))"
| "plist_value indent (PInteger i) = ret (plist_line indent (plist_element ''integer'' (str_of_int i)))"
| "plist_value indent PTrue = ret (plist_line indent (lit ''<true/>''))"
| "plist_value indent (PArray vs) =
     (if vs = [] then ret (plist_line indent (lit ''<array/>''))
      else bind (map_res (plist_value (Suc indent)) vs) (\<lambda>ts.
        ret (plist_line indent (lit ''<array>'') @ concat ts @ plist_line indent (lit ''</array>''))))"
| "plist_value indent (PDict kvs) =
     (if kvs = [] then ret (plist_line indent (lit ''<dict/>''))
      else bind (map_res (\<lambda>(k, v). bind (plist_value (Suc indent) v) (\<lambda>t.
          ret (plist_line (Suc indent) (plist_element ''key'' (lit k)) @ t))) kvs) (\<lambda>ts.
        ret (plist_line indent (lit ''<dict>'') @ concat ts @ plist_line indent (lit ''</dict>''))))"

definition plist_text :: "plist \<Rightarrow> str res" where
  "plist_text v = bind (plist_value 0 v) (\<lambda>t. ret
     (plist_line 0 (lit ''<?xml version=\"1.0\" encoding=\"UTF-8\"?>'')
      @ plist_line 0 (lit ''<!DOCTYPE plist PUBLIC \"-//Apple//DTD PLIST 1.0//EN\" \"http://www.apple.com/DTDs/PropertyList-1.0.dtd\">'')
      @ plist_line 0 (lit ''<plist version=\"1.0\">'') @ t @ plist_line 0 (lit ''</plist>'')))"

definition render_launch_agent :: "env \<Rightarrow> lib \<Rightarrow> lock_table \<Rightarrow> launch_answers \<Rightarrow> launch_agent_spec \<Rightarrow> str io" where
  "render_launch_agent E L H A s =
     ibind (validate_spec E A s) (\<lambda>_.
     ibind (inspect_operational_health E L H (la_health_paths s) (la_expected_audit_head s) False) (\<lambda>health.
     ibind (iraise_if (hr_exit_code health \<noteq> 0) (launch_error ''health preflight failed'')) (\<lambda>_.
     lift (plist_text (agent_plist s)))))"

end
