(* ===== verification/Mcp_Server.thy ===== *)
theory Mcp_Server
  imports Health_Safety Work_Evidence
begin

text \<open>
  \<open>mcp_server.py\<close>: three read-only verification tools over functions of other modules. The MCP SDK
  is not modelled; what it does here is to dispatch a call to the handler registered under its
  name. The fixed paths are those of the start; what reading a path of the work evidence gives is
  an answer of the environment.
\<close>

definition MAX_RECEIPT_INPUT_BYTES :: nat where "MAX_RECEIPT_INPUT_BYTES = 4096"

section \<open>The two verifications\<close>

record receipt_verification =
  rv_valid :: bool
  rv_error_code :: "string option"
  rv_receipt_schema :: json
  rv_issuer :: json
  rv_repository :: json
  rv_pull_number :: json
  rv_payload_sha256 :: json

record audit_verification =
  av_valid :: bool
  av_error_code :: "string option"
  av_entries :: "nat option"
  av_issuer :: "str option"
  av_head_sha256 :: "str option"
  av_expected_head_matched :: bool

definition invalid_receipt :: "string \<Rightarrow> receipt_verification" where
  "invalid_receipt code = \<lparr>rv_valid = False, rv_error_code = Some code, rv_receipt_schema = JNull, rv_issuer = JNull,
     rv_repository = JNull, rv_pull_number = JNull, rv_payload_sha256 = JNull\<rparr>"

text \<open>
  The argument: \<open>None\<close> when it is not a string, else its UTF-8 size and what it parses to;
  \<open>NotUtf8\<close> stands for a string that cannot be encoded.
\<close>

definition verify_receipt_content :: "lib \<Rightarrow> (nat \<times> doc) option \<Rightarrow> receipt_verification res" where
  "verify_receipt_content L receipt_json = (case receipt_json of
      None \<Rightarrow> ret (invalid_receipt ''invalid_receipt'')
    | Some (n, d) \<Rightarrow>
        if d = NotUtf8 then ret (invalid_receipt ''invalid_receipt'')
        else if MAX_RECEIPT_INPUT_BYTES < n then ret (invalid_receipt ''receipt_too_large'')
        else (case verify_receipt_text L d of
            Inl (GitHubReceiptError code status retry) \<Rightarrow> ret (invalid_receipt code)
          | Inl e \<Rightarrow> raise e
          | Inr payload \<Rightarrow>
              let wrapper = (case d of Doc v \<Rightarrow> (case loads v of JObj w \<Rightarrow> w | _ \<Rightarrow> []) | _ \<Rightarrow> []) in
              ret \<lparr>rv_valid = True, rv_error_code = None, rv_receipt_schema = dget payload ''schema'',
                rv_issuer = dget payload ''issuer'', rv_repository = dget payload ''repository'',
                rv_pull_number = dget payload ''pull_number'', rv_payload_sha256 = dget wrapper ''payload_sha256''\<rparr>))"

definition is_AuditError :: "exc \<Rightarrow> bool" where
  "is_AuditError e \<longleftrightarrow> (case e of AuditError m \<Rightarrow> True | _ \<Rightarrow> False)"

definition verify_audit_path :: "env \<Rightarrow> lib \<Rightarrow> path \<Rightarrow> str option \<Rightarrow> audit_verification io" where
  "verify_audit_path E L p expected_head =
     ibind (attempt is_AuditError (verify_audit E L p expected_head)) (\<lambda>a. iret (case a of
       None \<Rightarrow> \<lparr>av_valid = False, av_error_code = Some ''audit_verification_failed'', av_entries = None, av_issuer = None,
         av_head_sha256 = None, av_expected_head_matched = False\<rparr>
     | Some summary \<Rightarrow> \<lparr>av_valid = True, av_error_code = None, av_entries = Some (entries summary), av_issuer = issuer summary,
         av_head_sha256 = Some (head_sha256 summary), av_expected_head_matched = expected_head \<noteq> None\<rparr>))"

section \<open>The server\<close>

record mcp_server =
  mcp_audit :: "path option"
  mcp_expectation :: "path option"
  mcp_receipt :: "path option"
  mcp_stdout :: "path option"
  mcp_stderr :: "path option"

definition build_mcp_server :: "(path \<Rightarrow> path) \<Rightarrow> mcp_server \<Rightarrow> mcp_server res" where
  "build_mcp_server absolute s =
     bind (raise_if (mcp_expectation s = None \<and> (mcp_receipt s \<noteq> None \<or> mcp_stdout s \<noteq> None \<or> mcp_stderr s \<noteq> None))
       (ValueError ''work evidence inputs require an expectation'')) (\<lambda>_.
     ret \<lparr>mcp_audit = map_option absolute (mcp_audit s), mcp_expectation = map_option absolute (mcp_expectation s),
       mcp_receipt = map_option absolute (mcp_receipt s), mcp_stdout = map_option absolute (mcp_stdout s),
       mcp_stderr = map_option absolute (mcp_stderr s)\<rparr>)"

definition mcp_tools :: "mcp_server \<Rightarrow> string list" where
  "mcp_tools s = [''verify_contribution_receipt'']
     @ (if mcp_audit s \<noteq> None then [''inspect_audit_integrity''] else [])
     @ (if mcp_expectation s \<noteq> None then [''inspect_work_evidence''] else [])"

datatype tool_call =
    VerifyContributionReceipt "(nat \<times> doc) option"
  | InspectAuditIntegrity "str option"
  | InspectWorkEvidence bool        \<comment> \<open>were there any arguments\<close>

datatype tool_answer =
    ReceiptAnswer receipt_verification
  | AuditAnswer audit_verification
  | EvidenceAnswer evidence_report
  | EvidenceInput                    \<comment> \<open>\<open>work_evidence_input_error\<close>\<close>
  | ToolRefused string
  | UnknownTool

definition read_answer_of :: "(nat \<Rightarrow> path \<Rightarrow> file_read) \<Rightarrow> path option \<Rightarrow> file_read option io" where
  "read_answer_of F p = (case p of None \<Rightarrow> iret None | Some p \<Rightarrow> ask (\<lambda>t. Some (F t p)))"

definition is_EvidenceInputError :: "exc \<Rightarrow> bool" where
  "is_EvidenceInputError e \<longleftrightarrow> (case e of EvidenceInputError m \<Rightarrow> True | _ \<Rightarrow> False)"

definition inspect_configured_evidence :: "lib \<Rightarrow> (nat \<Rightarrow> path \<Rightarrow> file_read) \<Rightarrow> mcp_server \<Rightarrow> path \<Rightarrow> evidence_report io" where
  "inspect_configured_evidence L F s expectation_path =
     ibind (ask (\<lambda>t. F t expectation_path)) (\<lambda>ef.
     ibind (read_answer_of F (mcp_receipt s)) (\<lambda>rf.
     ibind (read_answer_of F (mcp_stdout s)) (\<lambda>sf.
     ibind (read_answer_of F (mcp_stderr s)) (\<lambda>tf.
     lift (inspect_work_evidence L ef rf sf tf)))))"

definition call_tool :: "env \<Rightarrow> lib \<Rightarrow> (nat \<Rightarrow> path \<Rightarrow> file_read) \<Rightarrow> mcp_server \<Rightarrow> tool_call \<Rightarrow> tool_answer io" where
  "call_tool E L F s call = (case call of
      VerifyContributionReceipt receipt_json \<Rightarrow>
        ibind (lift (verify_receipt_content L receipt_json)) (\<lambda>v. iret (ReceiptAnswer v))
    | InspectAuditIntegrity expected_head \<Rightarrow> (case mcp_audit s of
          None \<Rightarrow> iret UnknownTool
        | Some p \<Rightarrow> ibind (verify_audit_path E L p expected_head) (\<lambda>v. iret (AuditAnswer v)))
    | InspectWorkEvidence has_arguments \<Rightarrow> (case mcp_expectation s of
          None \<Rightarrow> iret UnknownTool
        | Some p \<Rightarrow>
            if has_arguments then iret (ToolRefused ''inspect_work_evidence accepts no arguments'')
            else ibind (attempt is_EvidenceInputError (inspect_configured_evidence L F s p)) (\<lambda>r. iret (case r of
                None \<Rightarrow> EvidenceInput
              | Some report \<Rightarrow> EvidenceAnswer report))))"

section \<open>What a client can reach\<close>

lemma idle_call_tool: "idle.grows (call_tool E L F s call)"
  unfolding call_tool_def verify_audit_path_def inspect_configured_evidence_def read_answer_of_def
  by (auto split: tool_call.split option.split intro!: idle.grows_looks)

lemma valid_receipt_answer:
  "verify_receipt_content L (Some (n, d)) = Inr v \<and> rv_valid v \<longleftrightarrow>
     n \<le> MAX_RECEIPT_INPUT_BYTES \<and> d \<noteq> NotUtf8 \<and> (\<exists>payload. verify_receipt_text L d = Inr payload
       \<and> v = \<lparr>rv_valid = True, rv_error_code = None, rv_receipt_schema = dget payload ''schema'',
          rv_issuer = dget payload ''issuer'', rv_repository = dget payload ''repository'',
          rv_pull_number = dget payload ''pull_number'',
          rv_payload_sha256 = dget (case d of Doc v \<Rightarrow> (case loads v of JObj w \<Rightarrow> w | _ \<Rightarrow> []) | _ \<Rightarrow> []) ''payload_sha256''\<rparr>)"
  by (auto simp: verify_receipt_content_def Let_def invalid_receipt_def split: sum.splits exc.splits if_splits)

end
