(* ===== verification/Beads_Tasks.thy ===== *)
theory Beads_Tasks
  imports State_File Receipt
begin

text \<open>
  \<open>beads_tasks.py\<close>: the list of ready tasks of a local Beads database. What \<open>lstat\<close>, the metadata
  file, \<open>bd\<close> and the two pipes answer is an argument; the loop over the pipes takes fuel and
  \<open>None\<close> is a loop that has not ended. The environment handed to \<open>bd\<close> is not modelled.
\<close>

abbreviation tasks_error :: "string \<Rightarrow> exc" where
  "tasks_error \<equiv> BeadsTasksError"

definition MAX_READY_TASKS :: int where "MAX_READY_TASKS = 10"
definition MAX_METADATA_BYTES :: nat where "MAX_METADATA_BYTES = 16384"
definition MAX_RESULT_BYTES :: nat where "MAX_RESULT_BYTES = 65536"
definition MAX_STDERR_BYTES :: nat where "MAX_STDERR_BYTES = 4096"

definition match_task_id :: "str \<Rightarrow> bool" where   \<comment> \<open>\<open>[A-Za-z0-9][A-Za-z0-9._-]{0,63}\Z\<close>\<close>
  "match_task_id s \<longleftrightarrow> s \<noteq> [] \<and> length s \<le> 64 \<and> is_alnum (hd s)
     \<and> list_all (\<lambda>c. is_alnum c \<or> c \<in> {46, 95, 45}) (tl s)"

record ready_task =
  rt_id :: str
  rt_title :: str
  rt_priority :: int

section \<open>The database\<close>

record database_meta =
  db_is_directory :: bool
  db_metadata_regular :: bool
  db_mode :: nat
  db_owned :: bool

text \<open>
  \<open>well_placed\<close>: \<open>path.is_absolute()\<close> and the name is \<open>.beads\<close>. \<open>None\<close> is an \<open>OSError\<close> of \<open>lstat\<close>,
  or of reading the metadata.
\<close>

definition check_local_database :: "bool \<Rightarrow> database_meta option \<Rightarrow> (nat \<times> doc) option \<Rightarrow> unit res" where
  "check_local_database well_placed meta metadata =
     bind (raise_if (\<not> well_placed) (tasks_error ''select an absolute local .beads directory'')) (\<lambda>_.
     bind (some_or (tasks_error ''local Beads database is not available'') meta) (\<lambda>m.
     bind (raise_if (\<not> db_is_directory m \<or> \<not> db_metadata_regular m) (tasks_error ''local Beads database is not available'')) (\<lambda>_.
     bind (raise_if (and (db_mode m) 63 \<noteq> 0) (tasks_error ''Beads directory must be owner-only'')) (\<lambda>_.
     bind (raise_if (\<not> db_owned m) (tasks_error ''Beads directory must belong to this user'')) (\<lambda>_.
     bind (some_or (tasks_error ''local Beads database is not available'') metadata) (\<lambda>(length_read, d).
     bind (raise_if (MAX_METADATA_BYTES < length_read) (tasks_error ''Beads metadata is too large'')) (\<lambda>_.
     bind (case d of Doc v \<Rightarrow> ret (loads v) | TooDeep \<Rightarrow> raise RecursionError
       | _ \<Rightarrow> raise (tasks_error ''Beads metadata is invalid'')) (\<lambda>v.
     bind (as_obj (tasks_error ''only local embedded Beads databases are supported'') v) (\<lambda>p.
     raise_if (dget p ''backend'' \<noteq> JStr (lit ''dolt'') \<or> dget p ''dolt_mode'' \<noteq> JStr (lit ''embedded''))
       (tasks_error ''only local embedded Beads databases are supported''))))))))))"

section \<open>The query\<close>

datatype pipe_read = Blocked | PipeChunk bytes | PipeFailed

record pipe_turn =
  pt_now :: rat
  pt_events :: "(bool \<times> pipe_read) list"     \<comment> \<open>readable pipes: \<open>True\<close> is \<open>stdout\<close>\<close>

record pipes =
  out_open :: bool
  err_open :: bool
  out_size :: nat
  err_size :: nat
  collected :: bytes

datatype query_failure = QueryTimeout | QueryNoProgram | QueryOSError | QueryNotUtf8 | QueryTooLarge

type_synonym 'a query = "query_failure + 'a"

definition no_output :: pipes where
  "no_output = \<lparr>out_open = True, err_open = True, out_size = 0, err_size = 0, collected = []\<rparr>"

definition read_out :: "bytes \<Rightarrow> pipes \<Rightarrow> pipes query" where
  "read_out bs p =
     (let chunk = take (min 8192 (MAX_RESULT_BYTES - out_size p + 1)) bs in
      if chunk = [] then Inr (p\<lparr>out_open := False\<rparr>)
      else let p = p\<lparr>out_size := out_size p + length chunk\<rparr> in
        if MAX_RESULT_BYTES < out_size p then Inl QueryTooLarge
        else Inr (p\<lparr>collected := collected p @ chunk\<rparr>))"

definition read_err :: "bytes \<Rightarrow> pipes \<Rightarrow> pipes query" where
  "read_err bs p =
     (let chunk = take (min 8192 (MAX_STDERR_BYTES - err_size p + 1)) bs in
      if chunk = [] then Inr (p\<lparr>err_open := False\<rparr>)
      else let p = p\<lparr>err_size := err_size p + length chunk\<rparr> in
        if MAX_STDERR_BYTES < err_size p then Inl QueryTooLarge else Inr p)"

text \<open>The selector reports registered pipes only.\<close>

definition pipe_event :: "bool \<times> pipe_read \<Rightarrow> pipes \<Rightarrow> pipes query" where
  "pipe_event e p = (case e of
      (True, PipeChunk bs) \<Rightarrow> if out_open p then read_out bs p else Inr p
    | (False, PipeChunk bs) \<Rightarrow> if err_open p then read_err bs p else Inr p
    | (_, Blocked) \<Rightarrow> Inr p
    | (_, PipeFailed) \<Rightarrow> Inl QueryOSError)"

fun pipe_events :: "(bool \<times> pipe_read) list \<Rightarrow> pipes \<Rightarrow> pipes query" where
  "pipe_events [] p = Inr p"
| "pipe_events (e # es) p = (case pipe_event e p of Inl f \<Rightarrow> Inl f | Inr p \<Rightarrow> pipe_events es p)"

fun read_pipes :: "nat \<Rightarrow> rat \<Rightarrow> (nat \<Rightarrow> pipe_turn) \<Rightarrow> nat \<Rightarrow> pipes \<Rightarrow> pipes query option" where
  "read_pipes 0 deadline turns k p = None"
| "read_pipes (Suc fuel) deadline turns k p =
     (if \<not> out_open p \<and> \<not> err_open p then Some (Inr p)
      else if deadline - pt_now (turns k) \<le> 0 then Some (Inl QueryTimeout)
      else case pipe_events (pt_events (turns k)) p of
          Inl f \<Rightarrow> Some (Inl f)
        | Inr p \<Rightarrow> read_pipes fuel deadline turns (Suc k) p)"

text \<open>\<open>subprocess.Popen\<close>: it starts, raises \<open>FileNotFoundError\<close>, or another \<open>OSError\<close>.\<close>

datatype started = Started | NoProgram | NotStarted

record bd_answers =
  bd_installed :: bool
  bd_started :: started
  bd_deadline :: rat
  bd_turns :: "nat \<Rightarrow> pipe_turn"
  bd_exit :: "int option"          \<comment> \<open>\<open>process.wait\<close>: \<open>None\<close> is a timeout\<close>
  bd_parse :: "bytes \<Rightarrow> doc"

definition run_query :: "nat \<Rightarrow> bd_answers \<Rightarrow> (int \<times> bytes) query option" where   \<comment> \<open>\<open>_query\<close>\<close>
  "run_query fuel A =
     (case bd_started A of
        NoProgram \<Rightarrow> Some (Inl QueryNoProgram)
      | NotStarted \<Rightarrow> Some (Inl QueryOSError)
      | Started \<Rightarrow> map_option (\<lambda>r. case r of
          Inl f \<Rightarrow> Inl f
        | Inr p \<Rightarrow> (case bd_exit A of
              None \<Rightarrow> Inl QueryTimeout
            | Some code \<Rightarrow> if bd_parse A (collected p) = NotUtf8 then Inl QueryNotUtf8 else Inr (code, collected p)))
        (read_pipes fuel (bd_deadline A) (bd_turns A) 0 no_output))"

section \<open>The tasks\<close>

definition task_from_row :: "json \<Rightarrow> ready_task res" where
  "task_from_row row =
     bind (as_obj (tasks_error ''Beads returned an invalid task'') row) (\<lambda>p.
     bind (as_str (tasks_error ''Beads returned an invalid task'') (dget p ''id'')) (\<lambda>task_id.
     bind (raise_if (\<not> match_task_id task_id) (tasks_error ''Beads returned an invalid task'')) (\<lambda>_.
     bind (as_str (tasks_error ''Beads returned an invalid task'') (dget p ''title'')) (\<lambda>title.
     bind (raise_if (title = [] \<or> 200 < length title \<or> strip title = []
         \<or> list_ex (\<lambda>c. in_ranges cat_Cc c \<or> in_ranges cat_Cf c) title)
       (tasks_error ''Beads returned an invalid task'')) (\<lambda>_.
     bind (int_at_least 0 (tasks_error ''Beads returned an invalid task'') (dget p ''priority'')) (\<lambda>priority.
     bind (raise_if (4 < priority \<or> dget p ''status'' \<noteq> JStr (lit ''open''))
       (tasks_error ''Beads returned an invalid task'')) (\<lambda>_.
     ret \<lparr>rt_id = task_id, rt_title = title, rt_priority = priority\<rparr>)))))))"

definition rows_of :: "doc \<Rightarrow> json res" where
  "rows_of d = (case d of Doc v \<Rightarrow> ret (loads v) | TooDeep \<Rightarrow> raise RecursionError
     | _ \<Rightarrow> raise (tasks_error ''Beads returned invalid JSON''))"

definition query_error :: "query_failure \<Rightarrow> exc" where
  "query_error f = (case f of
      QueryNoProgram \<Rightarrow> tasks_error ''Beads CLI (bd) is not available''
    | QueryTimeout \<Rightarrow> tasks_error ''Beads query timed out''
    | QueryTooLarge \<Rightarrow> tasks_error ''Beads result is too large''
    | _ \<Rightarrow> tasks_error ''Beads query failed'')"

definition list_ready_tasks ::
  "nat \<Rightarrow> bool \<Rightarrow> database_meta option \<Rightarrow> (nat \<times> doc) option \<Rightarrow> bd_answers \<Rightarrow> int \<Rightarrow> ready_task list res option" where
  "list_ready_tasks fuel well_placed meta metadata A limit =
     (case bind (raise_if (\<not> (1 \<le> limit \<and> limit \<le> MAX_READY_TASKS)) (tasks_error ''task limit must be between 1 and 10'')) (\<lambda>_.
           bind (check_local_database well_placed meta metadata) (\<lambda>_.
           raise_if (\<not> bd_installed A) (tasks_error ''Beads CLI (bd) is not installed''))) of
        Inl e \<Rightarrow> Some (Inl e)
      | Inr _ \<Rightarrow> map_option (\<lambda>q. case q of
            Inl f \<Rightarrow> raise (query_error f)
          | Inr (code, out) \<Rightarrow>
              bind (raise_if (code \<noteq> 0) (tasks_error ''Beads query failed'')) (\<lambda>_.
              bind (raise_if (MAX_RESULT_BYTES < length out) (tasks_error ''Beads result is too large'')) (\<lambda>_.
              bind (rows_of (bd_parse A out)) (\<lambda>v.
              bind (as_arr (tasks_error ''Beads returned an invalid task list'') v) (\<lambda>rows.
              bind (raise_if (limit < int (length rows)) (tasks_error ''Beads returned an invalid task list'')) (\<lambda>_.
              map_res task_from_row rows)))))) (run_query fuel A))"

section \<open>What is listed, and that the list comes\<close>

definition task_ok :: "ready_task \<Rightarrow> bool" where
  "task_ok t \<longleftrightarrow> match_task_id (rt_id t) \<and> rt_title t \<noteq> [] \<and> length (rt_title t) \<le> 200
     \<and> (\<forall>c \<in> set (rt_title t). \<not> in_ranges cat_Cc c \<and> \<not> in_ranges cat_Cf c) \<and> 0 \<le> rt_priority t \<and> rt_priority t \<le> 4"

lemma task_from_row_ok: "task_from_row v = Inr t \<Longrightarrow> task_ok t"
  by (auto simp: task_from_row_def res_simps task_ok_def list_ex_iff)

lemma map_res_all: "map_res f xs = Inr ys \<Longrightarrow> (\<And>x y. f x = Inr y \<Longrightarrow> P y) \<Longrightarrow> length ys = length xs \<and> list_all P ys"
  by (induction xs arbitrary: ys) (auto simp: res_simps)

definition pipes_ok :: "pipes \<Rightarrow> bool" where
  "pipes_ok p \<longleftrightarrow> length (collected p) = out_size p \<and> out_size p \<le> MAX_RESULT_BYTES \<and> err_size p \<le> MAX_STDERR_BYTES"

lemma pipe_event_ok: "pipes_ok p \<Longrightarrow> pipe_event e p = Inr p' \<Longrightarrow> pipes_ok p'"
  by (auto simp: pipes_ok_def pipe_event_def read_out_def read_err_def Let_def split: prod.splits bool.splits
      pipe_read.splits if_splits)

lemma pipe_events_ok: "pipes_ok p \<Longrightarrow> pipe_events es p = Inr p' \<Longrightarrow> pipes_ok p'"
proof (induction es arbitrary: p)
  case (Cons e es)
  then obtain q where "pipe_event e p = Inr q" "pipe_events es q = Inr p'" by (auto split: sum.splits)
  with Cons pipe_event_ok show ?case by blast
qed simp

lemma read_pipes_ok: "pipes_ok p \<Longrightarrow> read_pipes fuel d turns k p = Some (Inr p') \<Longrightarrow> pipes_ok p'"
  by (induction fuel arbitrary: k p) (auto split: if_splits sum.splits dest: pipe_events_ok)

lemma read_pipes_ends:
  assumes "d \<le> pt_now (turns (k + n))" "n + 1 \<le> fuel"
  shows "read_pipes fuel d turns k p \<noteq> None"
  using assms
proof (induction n arbitrary: fuel k p)
  case 0
  then show ?case by (cases fuel) auto
next
  case (Suc n)
  then obtain f where f: "fuel = Suc f" by (cases fuel) auto
  have "read_pipes f d turns (Suc k) q \<noteq> None" for q
    using Suc.IH [of "Suc k" f q] Suc.prems f by simp
  then show ?case using f by (auto split: sum.split)
qed

end
