(* ===== verification/Cli_Commands.thy ===== *)
theory Cli_Commands
  imports Controller Launchd Mcp_Server Beads_Tasks Work_Create
begin

text \<open>
  \<open>cli.py\<close>, the handlers: each resolves its paths, takes the process lock where the code does, calls
  one modelled function and prints. What is printed is the value of the handler, with the exit
  status. The options arrive parsed; \<open>Cli_Parser\<close> has the parser and \<open>main\<close>.
\<close>

section \<open>The machine a command runs on\<close>

record path_ops =
  po_resolve :: "path \<Rightarrow> path"             \<comment> \<open>\<open>expanduser().resolve()\<close>\<close>
  po_absolute :: "path \<Rightarrow> path"            \<comment> \<open>\<open>expanduser().absolute()\<close>\<close>
  po_with_name :: "path \<Rightarrow> string \<Rightarrow> path"

record machine =
  mc_env :: env
  mc_lib :: lib
  mc_locks :: lock_table
  mc_pid :: int
  mc_keychain :: "nat \<Rightarrow> str \<times> str \<Rightarrow> keychain"
  mc_paths :: path_ops
  mc_shop :: workshop
  mc_desk :: desk
  mc_launch :: launch_answers
  mc_reads :: "nat \<Rightarrow> path \<Rightarrow> file_read"

datatype printed =
    EventLine pairs
  | TextOut str
  | ProvisionLine provision_event
  | RecoveryLine recovery_event
  | RunLines "run_report list"
  | EvidenceLine evidence_report

type_synonym handled = "(printed \<times> nat) io"

definition health_path :: "machine \<Rightarrow> path option \<Rightarrow> path \<Rightarrow> string \<Rightarrow> path" where
  "health_path M selected identity_path default_name = (case selected of
      Some p \<Rightarrow> po_absolute (mc_paths M) p
    | None \<Rightarrow> po_with_name (mc_paths M) identity_path default_name)"

definition path_beside_identity :: "machine \<Rightarrow> path option \<Rightarrow> path \<Rightarrow> string \<Rightarrow> path" where
  "path_beside_identity M selected identity_path default_name = (case selected of
      Some p \<Rightarrow> po_resolve (mc_paths M) p
    | None \<Rightarrow> po_with_name (mc_paths M) identity_path default_name)"

definition paths_beside_identity :: "machine \<Rightarrow> path \<Rightarrow> path option \<Rightarrow> path option \<Rightarrow> path \<times> path \<times> path" where
  "paths_beside_identity M identity config state_file =
     (let identity_path = po_resolve (mc_paths M) identity in
      (identity_path, path_beside_identity M config identity_path ''safe-agent-config.json'',
       path_beside_identity M state_file identity_path ''safe-agent-state.json''))"

definition load_identity_and_key :: "machine \<Rightarrow> path \<Rightarrow> (identity \<times> bytes) io" where   \<comment> \<open>\<open>_load_identity\<close>\<close>
  "load_identity_and_key M p =
     ibind (load_identity (mc_env M) (mc_lib M) p) (\<lambda>i.
     ibind (ask (\<lambda>t. mc_keychain M t (id_service i, id_account i))) (\<lambda>k.
     ibind (lift (load_verified_private_key (mc_lib M) i k)) (\<lambda>key. iret (i, key))))"

section \<open>Identity, health, controller\<close>

definition doctor :: "machine \<Rightarrow> path \<Rightarrow> handled" where
  "doctor M identity =
     ibind (load_identity_and_key M identity) (\<lambda>(i, key).
     iret (EventLine [(lit ''status'', JStr (lit ''ok'')), (lit ''did'', JStr (id_did i)),
       (lit ''fingerprint'', JStr (id_fingerprint i)), (lit ''custody'', JStr (lit ''macos-keychain'')),
       (lit ''service'', JStr (id_service i)), (lit ''account'', JStr (id_account i)),
       (lit ''private_key_exported'', JBool False)], 0))"

record health_options =
  ho_identity :: path
  ho_config :: "path option"
  ho_state :: "path option"
  ho_capability_policy :: path
  ho_journal :: "path option"
  ho_audit_log :: "path option"
  ho_lock :: "path option"
  ho_expected_audit_head :: "str option"

definition health_paths_of :: "machine \<Rightarrow> path \<Rightarrow> health_options \<Rightarrow> health_paths" where
  "health_paths_of M policy_path h = (let identity_path = po_absolute (mc_paths M) (ho_identity h) in
     \<lparr>hp_identity = identity_path, hp_config = health_path M (ho_config h) identity_path ''safe-agent-config.json'',
      hp_state = health_path M (ho_state h) identity_path ''safe-agent-state.json'',
      hp_capability_policy = policy_path,
      hp_journal = health_path M (ho_journal h) identity_path ''safe-agent-delivery.json'',
      hp_audit = health_path M (ho_audit_log h) identity_path ''safe-agent-audit.jsonl'',
      hp_lock = health_path M (ho_lock h) identity_path ''safe-agent.lock''\<rparr>)"

definition health_command :: "machine \<Rightarrow> health_options \<Rightarrow> bool \<Rightarrow> handled" where
  "health_command M h expect_running =
     ibind (inspect_operational_health (mc_env M) (mc_lib M) (mc_locks M)
       (health_paths_of M (ho_capability_policy h) h) (ho_expected_audit_head h) expect_running) (\<lambda>report.
     iret (EventLine (health_event report), hr_exit_code report))"

definition controller_create :: "machine \<Rightarrow> nat \<Rightarrow> path \<Rightarrow> str \<Rightarrow> str \<Rightarrow> str \<Rightarrow> str \<Rightarrow> handled" where
  "controller_create M fuel identity service account seed created_at =
     ibind (lift (seed_writer_for service account)) (\<lambda>W.
     ibind (create_controller_identity (mc_env M) (mc_lib M) (mc_desk M) fuel (po_absolute (mc_paths M) identity) W seed
       created_at) (\<lambda>i.
     iret (EventLine [(lit ''status'', JStr (lit ''created'')), (lit ''did'', JStr (id_did i)),
       (lit ''fingerprint'', JStr (id_fingerprint i)), (lit ''private_key_exported'', JBool False)], 0)))"

definition controller_grant_command :: "machine \<Rightarrow> path \<Rightarrow> path \<Rightarrow> handled" where
  "controller_grant_command M identity policy_path =
     ibind (grant_controller_to_empty_policy (mc_env M) (mc_lib M) (mc_desk M) (po_absolute (mc_paths M) identity)
       (po_absolute (mc_paths M) policy_path)) (\<lambda>_.
     iret (EventLine [(lit ''status'', JStr (lit ''granted'')),
       (lit ''commands'', JArr (map (\<lambda>c. JStr (lit c)) CONTROLLER_COMMANDS)),
       (lit ''max_requests_per_hour'', JInt CONTROLLER_RATE_LIMIT), (lit ''pr_enabled'', JBool False)], 0))"

definition controller_send_command ::
  "machine \<Rightarrow> path \<Rightarrow> path option \<Rightarrow> path option \<Rightarrow> path option \<Rightarrow> str \<Rightarrow> pyfloat \<Rightarrow> handled" where
  "controller_send_command M identity config_file state_file lock_file controller_text seconds =
     (let E = mc_env M; L = mc_lib M; identity_path = po_absolute (mc_paths M) identity in
     ibind (load_controller_identity E L identity_path) (\<lambda>i.
     ibind (ask (\<lambda>t. mc_keychain M t (id_service i, id_account i))) (\<lambda>k.
     ibind (lift (load_verified_private_key L i k)) (\<lambda>key.
     ibind (load_config E L (health_path M config_file identity_path ''safe-agent-config.json'')) (\<lambda>config.
     ibind (with_process_lock E (mc_locks M) (mc_pid M) (health_path M lock_file identity_path ''controller.lock'')
       (ibind (lift (technocore_client L (cfg_base_url config) seconds)) (\<lambda>cl.
        send_controller_command E L (mc_desk M) (id_did i) key config
          (health_path M state_file identity_path ''controller-state.json'') controller_text cl))) (\<lambda>(status, sent_text).
     iret (EventLine [(lit ''status'', JStr (lit status)), (lit ''command'', JStr sent_text)], 0)))))))"

definition launchd_command :: "machine \<Rightarrow> health_options \<Rightarrow> str \<Rightarrow> path \<Rightarrow> path option \<Rightarrow> path option \<Rightarrow> handled" where
  "launchd_command M h label executable stdout_file stderr_file =
     (let identity_path = po_absolute (mc_paths M) (ho_identity h) in
     ibind (render_launch_agent (mc_env M) (mc_lib M) (mc_locks M) (mc_launch M)
       \<lparr>la_label = label, la_executable = po_absolute (mc_paths M) executable,
        la_health_paths = health_paths_of M (po_absolute (mc_paths M) (ho_capability_policy h)) h,
        la_stdout_path = health_path M stdout_file identity_path ''safe-agent.stdout.log'',
        la_stderr_path = health_path M stderr_file identity_path ''safe-agent.stderr.log'',
        la_expected_audit_head = ho_expected_audit_head h\<rparr>) (\<lambda>rendered.
     iret (TextOut rendered, 0)))"

section \<open>Mailbox and delivery\<close>

definition provision_command ::
  "machine \<Rightarrow> path \<Rightarrow> path option \<Rightarrow> path option \<Rightarrow> str \<Rightarrow> pyfloat \<Rightarrow> str \<Rightarrow> str \<Rightarrow> str \<Rightarrow> handled" where
  "provision_command M identity config_file state_file url seconds name token created_at =
     ibind (load_identity_and_key M identity) (\<lambda>(i, key).
     let (_, config_path, state_path) = paths_beside_identity M identity config_file state_file in
     ibind (lift (technocore_client (mc_lib M) url seconds)) (\<lambda>cl.
     ibind (provision_mailbox (mc_env M) (mc_lib M) \<lparr>pv_identity = i, pv_key = key, pv_client = cl,
       pv_config_path = config_path, pv_state_path = state_path\<rparr> name None token created_at) (\<lambda>ev.
     iret (ProvisionLine ev, 0))))"

definition recover_command ::
  "machine \<Rightarrow> path \<Rightarrow> path option \<Rightarrow> path option \<Rightarrow> str \<Rightarrow> pyfloat \<Rightarrow> bool \<Rightarrow> handled" where
  "recover_command M identity config_file state_file url seconds retry =
     ibind (load_identity_and_key M identity) (\<lambda>(i, key).
     let (_, config_path, state_path) = paths_beside_identity M identity config_file state_file in
     ibind (lift (technocore_client (mc_lib M) url seconds)) (\<lambda>cl.
     ibind (recover_pending_mailbox (mc_env M) (mc_lib M) \<lparr>pv_identity = i, pv_key = key, pv_client = cl,
       pv_config_path = config_path, pv_state_path = state_path\<rparr> retry) (\<lambda>ev.
     iret (ProvisionLine ev, 0))))"

text \<open>\<open>a\<close> has the resolved paths: \<open>run\<close> and \<open>recover-delivery\<close> derive them the same way.\<close>

definition recover_delivery_locked :: "machine \<Rightarrow> run_args \<Rightarrow> path \<Rightarrow> path \<Rightarrow> bool \<Rightarrow> bool \<Rightarrow> handled" where
  "recover_delivery_locked M a identity_path lock_path apply_it confirm_retry = (let E = mc_env M; L = mc_lib M in
     ibind (load_identity E L identity_path) (\<lambda>i.
     ibind (load_active_config E L i ''agent config must be active for delivery recovery'' (ra_config_path a)) (\<lambda>config.
     ibind (lift (recovery_target a config)) (\<lambda>(room, url).
     ibind (with_process_lock E (mc_locks M) (mc_pid M) lock_path
       (ibind (load_mem E (ra_state_path a)) (\<lambda>_.
        ibind (lift (technocore_client L url (ra_timeout a))) (\<lambda>cl.
        recover_delivery E L room (id_did i) cl (ra_state_path a) (ra_journal_path a) apply_it confirm_retry)))) (\<lambda>ev.
     iret (RecoveryLine ev, 0))))))"

section \<open>Receipts, evidence, audit, tasks\<close>

definition receipt_command :: "machine \<Rightarrow> path \<Rightarrow> run_args \<Rightarrow> str \<Rightarrow> handled" where
  "receipt_command M identity a pull_request =
     ibind (load_identity_and_key M identity) (\<lambda>(i, key).
     ibind (lift (receipt_service_for a (id_did i) key)) (\<lambda>svc.
     ibind (issue (mc_env M) (mc_lib M) svc pull_request) (\<lambda>text.
     iret (TextOut text, 0))))"

definition verify_receipt_command :: "machine \<Rightarrow> path \<Rightarrow> handled" where
  "verify_receipt_command M p =
     ibind (on_error is_OSError (\<lambda>_. iraise (GitHubReceiptError ''receipt_read_error'' None None))
       (read_file (mc_env M) (po_resolve (mc_paths M) p))) (\<lambda>f.
     let d = body_doc (contents f) in
     ibind (iraise_if (d = NotUtf8) UnicodeDecodeError) (\<lambda>_.
     ibind (lift (verify_receipt_text (mc_lib M) d)) (\<lambda>payload.
     let wrapper = (case d of Doc v \<Rightarrow> (case loads v of JObj w \<Rightarrow> w | _ \<Rightarrow> []) | _ \<Rightarrow> []) in
     iret (EventLine [(lit ''status'', JStr (lit ''valid'')), (lit ''schema'', dget payload ''schema''),
       (lit ''issuer'', dget payload ''issuer''), (lit ''repository'', dget payload ''repository''),
       (lit ''pull_number'', dget payload ''pull_number''), (lit ''payload_sha256'', dget wrapper ''payload_sha256'')], 0))))"

definition read_text_artifact :: "machine \<Rightarrow> path \<Rightarrow> nat \<Rightarrow> work_source io" where
  "read_text_artifact M p maximum_bytes =
     ibind (on_error is_OSError (\<lambda>_. iraise (work_error ''cannot read work receipt''))
       (read_file (mc_env M) (po_resolve (mc_paths M) p))) (\<lambda>f.
     ibind (iraise_if (maximum_bytes < body_size (contents f)) (work_error ''work receipt exceeds the artifact size limit'')) (\<lambda>_.
     ibind (iraise_if (body_doc (contents f) = NotUtf8) (work_error ''work receipt must be UTF-8 JSON'')) (\<lambda>_.
     iret (ReceiptText (body_size (contents f)) (body_doc (contents f))))))"

definition work_receipt_create ::
  "machine \<Rightarrow> path \<Rightarrow> path \<Rightarrow> str list \<Rightarrow> pyfloat \<Rightarrow> path option \<Rightarrow> handled" where
  "work_receipt_create M identity repository work_command seconds output_directory =
     (let command = (if take 1 work_command = [lit ''--''] then drop 1 work_command else work_command) in
     ibind (load_identity_and_key M identity) (\<lambda>(i, key).
     ibind (create_work_receipt (mc_env M) (mc_shop M) (mc_lib M) repository command (id_did i) key seconds output_directory) (\<lambda>r.
     ibind (lift (render_work_receipt (mc_lib M) (ReceiptValue r))) (\<lambda>text.
     iret (TextOut text, 0)))))"

definition work_receipt_verify :: "machine \<Rightarrow> path \<Rightarrow> handled" where
  "work_receipt_verify M p =
     ibind (read_text_artifact M p (128 * 1024)) (\<lambda>raw.
     ibind (lift (verify_work_receipt (mc_lib M) raw)) (\<lambda>summary.
     iret (EventLine [(lit ''status'', JStr (lit ''valid'')), (lit ''schema'', dget (ws_payload summary) ''schema''),
       (lit ''repository'', dget (ws_payload summary) ''repository''), (lit ''commit'', dget (ws_payload summary) ''commit''),
       (lit ''result'', dget (ws_payload summary) ''result''),
       (lit ''countersignatures'', JInt (int (ws_countersignatures summary)))], 0)))"

definition work_receipt_countersign :: "machine \<Rightarrow> path \<Rightarrow> path \<Rightarrow> path \<Rightarrow> handled" where
  "work_receipt_countersign M identity repository p =
     ibind (read_text_artifact M p (128 * 1024)) (\<lambda>raw.
     ibind (load_identity_and_key M identity) (\<lambda>(i, key).
     ibind (countersign_work_receipt (mc_env M) (mc_shop M) (mc_lib M) raw repository (id_did i) key None) (\<lambda>updated.
     ibind (lift (render_work_receipt (mc_lib M) (ReceiptValue updated))) (\<lambda>text.
     iret (TextOut text, 0)))))"

definition work_evidence_command ::
  "machine \<Rightarrow> path \<Rightarrow> path option \<Rightarrow> path option \<Rightarrow> path option \<Rightarrow> bool \<Rightarrow> handled" where
  "work_evidence_command M expectation_file receipt_file stdout_file stderr_file markdown =
     on_error is_EvidenceInputError (\<lambda>e. iret (EventLine [(lit ''status'', JStr (lit ''input_error'')),
         (lit ''reason'', JStr (lit (case e of EvidenceInputError m \<Rightarrow> m | _ \<Rightarrow> [])))], 2))
       (ibind (ask (\<lambda>t. mc_reads M t expectation_file)) (\<lambda>ef.
        ibind (read_answer_of (mc_reads M) receipt_file) (\<lambda>rf.
        ibind (read_answer_of (mc_reads M) stdout_file) (\<lambda>sf.
        ibind (read_answer_of (mc_reads M) stderr_file) (\<lambda>tf.
        ibind (lift (inspect_work_evidence (mc_lib M) ef rf sf tf)) (\<lambda>report.
        iret (if markdown then TextOut (render_evidence_markdown report) else EvidenceLine report,
          if er_status report = ''matches_local_expectations'' then 0 else 1)))))))"

definition audit_command :: "machine \<Rightarrow> path \<Rightarrow> str option \<Rightarrow> handled" where
  "audit_command M p expected_head =
     ibind (verify_audit (mc_env M) (mc_lib M) p expected_head) (\<lambda>summary.
     iret (EventLine [(lit ''status'', JStr (lit ''valid'')), (lit ''entries'', JInt (int (entries summary))),
       (lit ''issuer'', (case issuer summary of None \<Rightarrow> JNull | Some d \<Rightarrow> JStr d)),
       (lit ''head_sha256'', JStr (head_sha256 summary)), (lit ''expected_head_matched'', JBool (expected_head \<noteq> None))], 0))"

definition task_event :: "ready_task list \<Rightarrow> pairs" where
  "task_event ts = [(lit ''status'', JStr (lit ''ready'')), (lit ''tasks'', JArr (map (\<lambda>t. JObj
     [(lit ''id'', JStr (rt_id t)), (lit ''title'', JStr (rt_title t)), (lit ''priority'', JInt (rt_priority t))]) ts))]"

definition task_lines :: "ready_task list \<Rightarrow> str" where
  "task_lines ts = (if ts = [] then lit ''No ready tasks.'' @ [10]
     else concat (map (\<lambda>t. lit ''P'' @ str_of_int (rt_priority t) @ [32] @ rt_id t @ [32] @ rt_title t @ [10]) ts))"

text \<open>A query that has not ended is a process that is still there.\<close>

definition tasks_command ::
  "nat \<Rightarrow> bool \<Rightarrow> database_meta option \<Rightarrow> (nat \<times> doc) option \<Rightarrow> bd_answers \<Rightarrow> int \<Rightarrow> bool \<Rightarrow> handled" where
  "tasks_command fuel well_placed meta metadata A limit as_json =
     (case list_ready_tasks fuel well_placed meta metadata A limit of
        None \<Rightarrow> iraise Killed
      | Some r \<Rightarrow> ibind (lift r) (\<lambda>ts. iret (if as_json then EventLine (task_event ts) else TextOut (task_lines ts), 0)))"

section \<open>run\<close>

record run_options =
  ro_identity :: path
  ro_room :: "str option"
  ro_config :: "path option"
  ro_base_url :: "str option"
  ro_timeout :: pyfloat
  ro_github_timeout :: pyfloat
  ro_wait :: pyfloat
  ro_limit :: int
  ro_once :: bool
  ro_start_at :: string
  ro_state :: "path option"
  ro_journal :: "path option"
  ro_lock :: "path option"
  ro_audit_log :: "path option"
  ro_allow_did :: "str list"
  ro_allow_any_signed :: bool
  ro_capability_policy :: "path option"
  ro_send :: bool

definition run_args_of :: "machine \<Rightarrow> run_options \<Rightarrow> run_args" where
  "run_args_of M opts =
     (let (identity_path, config_path, state_path) = paths_beside_identity M (ro_identity opts) (ro_config opts) (ro_state opts) in
      \<lparr>ra_send = ro_send opts, ra_once = ro_once opts, ra_start_at = ro_start_at opts, ra_wait = ro_wait opts, ra_limit = ro_limit opts,
       ra_room = ro_room opts, ra_base_url = ro_base_url opts, ra_timeout = ro_timeout opts, ra_github_timeout = ro_github_timeout opts,
       ra_allow_did = ro_allow_did opts, ra_allow_any_signed = ro_allow_any_signed opts,
       ra_capability_policy = ro_capability_policy opts, ra_config_path = config_path, ra_state_path = state_path,
       ra_journal_path = path_beside_identity M (ro_journal opts) identity_path ''safe-agent-delivery.json'',
       ra_audit_path = path_beside_identity M (ro_audit_log opts) identity_path ''safe-agent-audit.jsonl''\<rparr>)"

definition run_command :: "machine \<Rightarrow> run_options \<Rightarrow> nat \<Rightarrow> nat \<Rightarrow> handled" where
  "run_command M opts sleeps rounds =
     ibind (load_identity_and_key M (ro_identity opts)) (\<lambda>(i, key).
     let lock_path = path_beside_identity M (ro_lock opts) (po_resolve (mc_paths M) (ro_identity opts)) ''safe-agent.lock'';
         m = run_with_identity (mc_env M) (mc_lib M) (run_args_of M opts) i key sleeps rounds in
     ibind (if ro_send opts then with_process_lock (mc_env M) (mc_locks M) (mc_pid M) lock_path m else m) (\<lambda>evs.
     iret (RunLines evs, 0)))"

text \<open>\<open>main\<close>: the handler's status, or that of the exception\<close>

definition main_status :: "handled \<Rightarrow> world \<Rightarrow> nat" where
  "main_status m w = (case fst (m w) of Inr (_, code) \<Rightarrow> code | Inl e \<Rightarrow> exit_code e)"

end
