(* ===== verification/Cli_Parser.thy ===== *)
theory Cli_Parser
  imports Cli_Commands
begin

text \<open>
  \<open>cli.py\<close>, \<open>build_parser\<close> and \<open>main\<close>. The parser is a table of commands, each with its options and its
  positional argument, and \<open>argparse\<close> an interpreter of that table: how it tells an option from a plain
  word, abbreviations and \<open>--option=value\<close> included, how options take their values, what it refuses.
  Parsing does nothing but end in a usage error, in a help text, or in a command with its namespace.
  Converting a word to a float or an integer is an argument. A \<open>--\<close> is taken where it precedes the
  positional argument or the measured command.
\<close>

section \<open>What argparse is told\<close>

datatype conversion = AsWord | AsFloat | AsInt | OneOf "string list" | ReadyTaskLimit

datatype action_kind = Store conversion | StoreTrue | Append

datatype arg_value = Missing | Flag bool | Word string | Real pyfloat | Integer int | Words "string list"

record option_spec =
  os_flag :: string
  os_action :: action_kind
  os_required :: bool
  os_default :: arg_value

record command_spec =
  cs_options :: "option_spec list"
  cs_exclusive :: "string list"
  cs_positional :: "(string \<times> conversion) option"
  cs_remainder :: "string option"

type_synonym namespace = "(string \<times> arg_value) list"

datatype parsed = Refused | Shown | Selected "string list" namespace

section \<open>Telling options from plain words\<close>

datatype word_kind = Plain | Given string "string option" | Ambiguous | Unknown

definition split_equals :: "string \<Rightarrow> string \<times> string option" where
  "split_equals w = (let front = takeWhile (\<lambda>c. c \<noteq> CHR ''='') w in
     (front, if front = w then None else Some (drop (Suc (length front)) w)))"

definition has_prefix :: "string \<Rightarrow> string \<Rightarrow> bool" where
  "has_prefix p s \<longleftrightarrow> take (length p) s = p"

text \<open>\<open>-\d+\<close> or \<open>-\d*.\d+\<close>\<close>

definition is_digit_char :: "char \<Rightarrow> bool" where
  "is_digit_char c \<longleftrightarrow> c \<in> set ''0123456789''"

definition negative_number :: "string \<Rightarrow> bool" where
  "negative_number w = (let digits = dropWhile is_digit_char (tl w) in
     take 1 w = ''-'' \<and> (w \<noteq> ''-'' \<and> digits = []
       \<or> (take 1 digits = ''.'' \<and> tl digits \<noteq> [] \<and> list_all is_digit_char (tl digits))))"

definition option_tuples :: "string list \<Rightarrow> string \<Rightarrow> (string \<times> string option) list" where
  "option_tuples names w =
     (if take 2 w = ''--'' then (let (front, v) = split_equals w in map (\<lambda>n. (n, v)) (filter (has_prefix front) names))
      else if take 2 w \<in> set names   \<comment> \<open>a letter joined to \<open>-h\<close>\<close>
      then [(take 2 w, if hd (drop 2 w) = CHR ''-'' then Some (drop 2 w) else None)] else [])"

definition classify :: "string list \<Rightarrow> string \<Rightarrow> word_kind" where
  "classify names w =
     (if w = [] \<or> hd w \<noteq> CHR ''-'' then Plain
      else if w \<in> set names then Given w None
      else if length w = 1 then Plain
      else case split_equals w of (front, v) \<Rightarrow>
        if v \<noteq> None \<and> front \<in> set names then Given front v
        else (case option_tuples names w of
            [(n, v)] \<Rightarrow> Given n v
          | _ # _ \<Rightarrow> Ambiguous
          | [] \<Rightarrow> if negative_number w \<or> CHR '' '' \<in> set w then Plain else Unknown))"

section \<open>One command\<close>

definition command_flags :: "command_spec \<Rightarrow> string list" where
  "command_flags c = ''-h'' # ''--help'' # map os_flag (cs_options c)"

fun convert ::
  "(string \<Rightarrow> pyfloat option) \<Rightarrow> (string \<Rightarrow> int option) \<Rightarrow> conversion \<Rightarrow> string \<Rightarrow> arg_value option" where
  "convert to_float to_int AsWord w = Some (Word w)"
| "convert to_float to_int AsFloat w = map_option Real (to_float w)"
| "convert to_float to_int AsInt w = map_option Integer (to_int w)"
| "convert to_float to_int (OneOf choices) w = (if w \<in> set choices then Some (Word w) else None)"
| "convert to_float to_int ReadyTaskLimit w = (case to_int w of
      None \<Rightarrow> None | Some n \<Rightarrow> if 1 \<le> n \<and> n \<le> 10 then Some (Integer n) else None)"

definition arg :: "namespace \<Rightarrow> string \<Rightarrow> arg_value" where
  "arg ns key = (case map_of ns key of None \<Rightarrow> Missing | Some v \<Rightarrow> v)"

fun stored :: "action_kind \<Rightarrow> arg_value \<Rightarrow> arg_value \<Rightarrow> arg_value" where
  "stored Append (Words ws) (Word w) = Words (ws @ [w])"
| "stored a previous v = v"

text \<open>
  The state of a scan: the namespace, the options seen (for the required and the exclusive ones), and
  whether a word was left over. An option outside the exclusive group, or the only one of it, is stored.
\<close>

record scan =
  sc_values :: namespace
  sc_seen :: "string list"
  sc_left_over :: bool

definition store_option :: "command_spec \<Rightarrow> option_spec \<Rightarrow> arg_value \<Rightarrow> scan \<Rightarrow> scan option" where
  "store_option c q v s =
     (if os_flag q \<in> set (cs_exclusive c) \<and> (\<exists>n \<in> set (sc_seen s). n \<in> set (cs_exclusive c) \<and> n \<noteq> os_flag q) then None
      else Some (s\<lparr>sc_values := AList.update (os_flag q) (stored (os_action q) (arg (sc_values s) (os_flag q)) v) (sc_values s),
        sc_seen := os_flag q # sc_seen s\<rparr>))"

definition store_positional ::
  "(string \<Rightarrow> pyfloat option) \<Rightarrow> (string \<Rightarrow> int option) \<Rightarrow> command_spec \<Rightarrow> string \<Rightarrow> scan \<Rightarrow> scan option" where
  "store_positional to_float to_int c w s = (case cs_positional c of
      None \<Rightarrow> Some (s\<lparr>sc_left_over := True\<rparr>)
    | Some (name, conv) \<Rightarrow> if name \<in> set (sc_seen s) then Some (s\<lparr>sc_left_over := True\<rparr>)
        else map_option (\<lambda>v. s\<lparr>sc_values := AList.update name v (sc_values s), sc_seen := name # sc_seen s\<rparr>)
          (convert to_float to_int conv w))"

datatype scanned = Stopped parsed | Done scan

fun scan_words ::
  "(string \<Rightarrow> pyfloat option) \<Rightarrow> (string \<Rightarrow> int option) \<Rightarrow> command_spec \<Rightarrow> string list \<Rightarrow> scan \<Rightarrow> scanned" where
  "scan_words to_float to_int c [] s = Done s"
| "scan_words to_float to_int c (w # ws) s =
     (if cs_remainder c \<noteq> None \<and> (w = ''--'' \<or> classify (command_flags c) w = Plain)
      then Done (s\<lparr>sc_values := AList.update (the (cs_remainder c)) (Words (w # ws)) (sc_values s)\<rparr>)
      else if w = ''--''
      then (case ws of
          [v] \<Rightarrow> (case store_positional to_float to_int c v s of None \<Rightarrow> Stopped Refused | Some s' \<Rightarrow> Done s')
        | _ \<Rightarrow> Done (s\<lparr>sc_left_over := True\<rparr>))
      else (case classify (command_flags c) w of
          Plain \<Rightarrow> (case store_positional to_float to_int c w s of
              None \<Rightarrow> Stopped Refused | Some s' \<Rightarrow> scan_words to_float to_int c ws s')
        | Unknown \<Rightarrow> scan_words to_float to_int c ws (s\<lparr>sc_left_over := True\<rparr>)
        | Ambiguous \<Rightarrow> Stopped Refused
        | Given n v \<Rightarrow> (case find (\<lambda>q. os_flag q = n) (cs_options c) of
              None \<Rightarrow> Stopped (if v = None then Shown else Refused)   \<comment> \<open>\<open>-h\<close>, \<open>--help\<close>\<close>
            | Some q \<Rightarrow> if os_action q = StoreTrue
                then (if v \<noteq> None then Stopped Refused
                      else (case store_option c q (Flag True) s of
                          None \<Rightarrow> Stopped Refused | Some s' \<Rightarrow> scan_words to_float to_int c ws s'))
                else (let conv = (case os_action q of Store k \<Rightarrow> k | _ \<Rightarrow> AsWord) in
                  case v of
                    Some x \<Rightarrow> (case Option.bind (convert to_float to_int conv x) (\<lambda>y. store_option c q y s) of
                        None \<Rightarrow> Stopped Refused | Some s' \<Rightarrow> scan_words to_float to_int c ws s')
                  | None \<Rightarrow> (case ws of
                        [] \<Rightarrow> Stopped Refused
                      | x # rest \<Rightarrow> if x = ''--'' \<or> classify (command_flags c) x \<noteq> Plain then Stopped Refused
                          else (case Option.bind (convert to_float to_int conv x) (\<lambda>y. store_option c q y s) of
                              None \<Rightarrow> Stopped Refused | Some s' \<Rightarrow> scan_words to_float to_int c rest s'))))))"

definition defaults_of :: "command_spec \<Rightarrow> namespace" where
  "defaults_of c = map (\<lambda>q. (os_flag q, os_default q)) (cs_options c)
     @ (case cs_remainder c of None \<Rightarrow> [] | Some name \<Rightarrow> [(name, Words [])])"

definition parse_command ::
  "(string \<Rightarrow> pyfloat option) \<Rightarrow> (string \<Rightarrow> int option) \<Rightarrow> string list \<Rightarrow> command_spec \<Rightarrow> string list \<Rightarrow> parsed" where
  "parse_command to_float to_int where_from c words =
     (case scan_words to_float to_int c words \<lparr>sc_values = defaults_of c, sc_seen = [], sc_left_over = False\<rparr> of
        Stopped p \<Rightarrow> p
      | Done s \<Rightarrow>
          if sc_left_over s \<or> (\<exists>q \<in> set (cs_options c). os_required q \<and> os_flag q \<notin> set (sc_seen s))
              \<or> (case cs_positional c of None \<Rightarrow> False | Some (name, _) \<Rightarrow> name \<notin> set (sc_seen s))
            then Refused else Selected where_from (sc_values s))"

section \<open>The commands\<close>

text \<open>\<open>add_argument(name, type=..., default=..., required=...)\<close>\<close>

definition option_of :: "string \<Rightarrow> conversion \<Rightarrow> arg_value \<Rightarrow> option_spec" where
  "option_of name conv v = \<lparr>os_flag = name, os_action = Store conv, os_required = False, os_default = v\<rparr>"

definition path_option :: "string \<Rightarrow> option_spec" where
  "path_option name = option_of name AsWord Missing"

definition required_option :: "string \<Rightarrow> option_spec" where
  "required_option name = (path_option name)\<lparr>os_required := True\<rparr>"

definition switch :: "string \<Rightarrow> option_spec" where
  "switch name = \<lparr>os_flag = name, os_action = StoreTrue, os_required = False, os_default = Flag False\<rparr>"

definition plain_command :: "option_spec list \<Rightarrow> command_spec" where
  "plain_command os = \<lparr>cs_options = os, cs_exclusive = [], cs_positional = None, cs_remainder = None\<rparr>"

definition shared_identity_option :: "path \<Rightarrow> option_spec" where
  "shared_identity_option d = option_of ''--identity'' AsWord (Word d)"

definition doctor_parser :: "path \<Rightarrow> command_spec" where
  "doctor_parser d = plain_command [shared_identity_option d]"

definition health_parser :: "path \<Rightarrow> command_spec" where
  "health_parser d = plain_command [shared_identity_option d, path_option ''--config'', path_option ''--state'',
     required_option ''--capability-policy'', path_option ''--journal'', path_option ''--lock'', path_option ''--audit-log'',
     path_option ''--expected-audit-head'', switch ''--expect-running'']"

definition controller_create_parser :: "path \<Rightarrow> command_spec" where
  "controller_create_parser d = plain_command [shared_identity_option d,
     option_of ''--service'' AsWord (Word ''technocore.safe-agent.controller''),
     option_of ''--account'' AsWord (Word ''safe-agent-controller'')]"

definition controller_grant_parser :: "path \<Rightarrow> command_spec" where
  "controller_grant_parser d = plain_command [shared_identity_option d, required_option ''--capability-policy'']"

definition controller_send_parser :: "path \<Rightarrow> command_spec" where
  "controller_send_parser d = (plain_command [shared_identity_option d, path_option ''--config'', path_option ''--state'',
     path_option ''--lock'', option_of ''--timeout'' AsFloat (Real (Fin 20))])
     \<lparr>cs_positional := Some (''controller_text'', OneOf CONTROLLER_COMMANDS)\<rparr>"

definition launchd_render_parser :: "path \<Rightarrow> command_spec" where
  "launchd_render_parser d = plain_command [shared_identity_option d, path_option ''--config'', path_option ''--state'',
     required_option ''--capability-policy'', path_option ''--journal'', path_option ''--lock'', path_option ''--audit-log'',
     path_option ''--expected-audit-head'', option_of ''--label'' AsWord (Word ''com.technocore.safe-agent''),
     required_option ''--executable'', path_option ''--stdout-path'', path_option ''--stderr-path'']"

definition provision_parser :: "path \<Rightarrow> command_spec" where
  "provision_parser d = plain_command [shared_identity_option d, option_of ''--name'' AsWord (Word ''SafeAgent''),
     option_of ''--base-url'' AsWord (Word ''https://technocore.chat''), option_of ''--timeout'' AsFloat (Real (Fin 20)),
     path_option ''--config'', path_option ''--state'']"

definition recover_parser :: "path \<Rightarrow> command_spec" where
  "recover_parser d = plain_command [shared_identity_option d,
     option_of ''--base-url'' AsWord (Word ''https://technocore.chat''), option_of ''--timeout'' AsFloat (Real (Fin 20)),
     path_option ''--config'', path_option ''--state'', switch ''--retry'']"

definition recover_delivery_parser :: "path \<Rightarrow> command_spec" where
  "recover_delivery_parser d = plain_command [shared_identity_option d, path_option ''--room'', path_option ''--config'',
     path_option ''--state'', path_option ''--journal'', path_option ''--lock'', path_option ''--base-url'',
     option_of ''--timeout'' AsFloat (Real (Fin 20)), switch ''--apply'', switch ''--confirm-retry'']"

definition receipt_parser :: "path \<Rightarrow> command_spec" where
  "receipt_parser d = (plain_command [shared_identity_option d, option_of ''--timeout'' AsFloat (Real (Fin 15))])
     \<lparr>cs_positional := Some (''pull_request'', AsWord)\<rparr>"

definition path_parser :: "option_spec list \<Rightarrow> command_spec" where
  "path_parser os = (plain_command os)\<lparr>cs_positional := Some (''path'', AsWord)\<rparr>"

definition work_create_parser :: "path \<Rightarrow> command_spec" where
  "work_create_parser d = (plain_command [shared_identity_option d, option_of ''--repository'' AsWord (Word ''.''),
     option_of ''--timeout'' AsFloat (Real (Fin 300)), path_option ''--output-directory''])
     \<lparr>cs_remainder := Some ''work_command''\<rparr>"

definition work_countersign_parser :: "path \<Rightarrow> command_spec" where
  "work_countersign_parser d = path_parser [shared_identity_option d, option_of ''--repository'' AsWord (Word ''.'')]"

definition work_evidence_parser :: command_spec where
  "work_evidence_parser = plain_command [required_option ''--expectation'', path_option ''--receipt'', path_option ''--stdout'',
     path_option ''--stderr'', option_of ''--format'' (OneOf [''json'', ''markdown'']) (Word ''json'')]"

definition audit_verify_parser :: command_spec where
  "audit_verify_parser = path_parser [path_option ''--expected-head'']"

definition task_ready_parser :: command_spec where
  "task_ready_parser = plain_command [required_option ''--beads-dir'', option_of ''--limit'' ReadyTaskLimit (Integer 10),
     option_of ''--format'' (OneOf [''text'', ''json'']) (Word ''text'')]"

definition run_parser :: "path \<Rightarrow> command_spec" where
  "run_parser d = (plain_command [shared_identity_option d, path_option ''--room'', path_option ''--config'',
     path_option ''--base-url'', option_of ''--timeout'' AsFloat (Real (Fin 20)),
     option_of ''--github-timeout'' AsFloat (Real (Fin 15)), option_of ''--wait'' AsFloat (Real (Fin 10)),
     option_of ''--limit'' AsInt (Integer 50), switch ''--once'',
     option_of ''--start-at'' (OneOf [''latest'', ''saved'', ''zero'']) (Word ''latest''), path_option ''--state'',
     path_option ''--journal'', path_option ''--lock'', path_option ''--audit-log'',
     \<lparr>os_flag = ''--allow-did'', os_action = Append, os_required = False, os_default = Words []\<rparr>,
     switch ''--allow-any-signed'', path_option ''--capability-policy'', switch ''--send''])
     \<lparr>cs_exclusive := [''--allow-did'', ''--allow-any-signed'', ''--capability-policy'']\<rparr>"

text \<open>The default identity and the default controller identity lie in the home directory.\<close>

definition commands_of :: "path \<Rightarrow> (string \<times> command_spec) list" where
  "commands_of d = [(''doctor'', doctor_parser d), (''health'', health_parser d), (''provision'', provision_parser d),
     (''recover'', recover_parser d), (''recover-delivery'', recover_delivery_parser d), (''receipt'', receipt_parser d),
     (''verify-receipt'', path_parser []), (''work-evidence'', work_evidence_parser), (''run'', run_parser d)]"

definition groups_of :: "path \<Rightarrow> path \<Rightarrow> (string \<times> (string \<times> command_spec) list) list" where
  "groups_of d cd = [(''controller'', [(''create'', controller_create_parser cd), (''grant'', controller_grant_parser cd),
       (''send'', controller_send_parser cd)]),
     (''launchd'', [(''render'', launchd_render_parser d)]),
     (''work-receipt'', [(''create'', work_create_parser d), (''verify'', path_parser []),
       (''countersign'', work_countersign_parser cd)]),
     (''audit'', [(''verify'', audit_verify_parser)]), (''tasks'', [(''ready'', task_ready_parser)])]"

section \<open>A command line\<close>

text \<open>The word that selects a command; the words after it belong to that command's parser.\<close>

fun first_word :: "string list \<Rightarrow> string list \<Rightarrow> bool \<Rightarrow> parsed + (string \<times> string list \<times> bool)" where
  "first_word flags [] left_over = Inl Refused"
| "first_word flags (w # ws) left_over =
     (if w = ''--'' then Inl Refused
      else case classify flags w of
          Plain \<Rightarrow> Inr (w, ws, left_over)
        | Unknown \<Rightarrow> first_word flags ws True
        | Ambiguous \<Rightarrow> Inl Refused
        | Given n v \<Rightarrow> Inl (if v = None then Shown else Refused))"

definition withheld :: "bool \<Rightarrow> parsed \<Rightarrow> parsed" where
  "withheld left_over p = (case p of Selected path ns \<Rightarrow> if left_over then Refused else p | _ \<Rightarrow> p)"

definition subcommand ::
  "string list \<Rightarrow> string list \<Rightarrow> (string \<Rightarrow> string list \<Rightarrow> parsed) \<Rightarrow> parsed" where
  "subcommand flags words next_parser =
     (case first_word flags words False of
        Inl p \<Rightarrow> p
      | Inr (w, ws, left_over) \<Rightarrow> withheld left_over (next_parser w ws))"

definition parse_args ::
  "(string \<Rightarrow> pyfloat option) \<Rightarrow> (string \<Rightarrow> int option) \<Rightarrow> path \<Rightarrow> path \<Rightarrow> string list \<Rightarrow> parsed" where
  "parse_args to_float to_int d cd words =
     subcommand [''-h'', ''--help'', ''--version''] words (\<lambda>w ws. case map_of (commands_of d) w of
         Some c \<Rightarrow> parse_command to_float to_int [w] c ws
       | None \<Rightarrow> (case map_of (groups_of d cd) w of
             None \<Rightarrow> Refused
           | Some subcommands \<Rightarrow> subcommand [''-h'', ''--help''] ws (\<lambda>v vs. case map_of subcommands v of
                 None \<Rightarrow> Refused
               | Some c \<Rightarrow> parse_command to_float to_int [w, v] c vs)))"

section \<open>From the namespace to the handler\<close>

definition opt_path :: "namespace \<Rightarrow> string \<Rightarrow> path option" where
  "opt_path ns key = (case arg ns key of Word w \<Rightarrow> Some w | _ \<Rightarrow> None)"

definition opt_text :: "namespace \<Rightarrow> string \<Rightarrow> str option" where
  "opt_text ns key = map_option lit (opt_path ns key)"

definition word_of :: "namespace \<Rightarrow> string \<Rightarrow> string" where
  "word_of ns key = (case arg ns key of Word w \<Rightarrow> w | _ \<Rightarrow> [])"

definition words_of :: "namespace \<Rightarrow> string \<Rightarrow> string list" where
  "words_of ns key = (case arg ns key of Words ws \<Rightarrow> ws | _ \<Rightarrow> [])"

definition real_of_arg :: "namespace \<Rightarrow> string \<Rightarrow> pyfloat" where
  "real_of_arg ns key = (case arg ns key of Real f \<Rightarrow> f | _ \<Rightarrow> Fin 0)"

definition int_of_arg :: "namespace \<Rightarrow> string \<Rightarrow> int" where
  "int_of_arg ns key = (case arg ns key of Integer i \<Rightarrow> i | _ \<Rightarrow> 0)"

definition is_set :: "namespace \<Rightarrow> string \<Rightarrow> bool" where
  "is_set ns key \<longleftrightarrow> arg ns key = Flag True"

definition run_options_of :: "namespace \<Rightarrow> run_options" where
  "run_options_of ns = \<lparr>ro_identity = word_of ns ''--identity'', ro_room = opt_text ns ''--room'', ro_config = opt_path ns ''--config'',
     ro_base_url = opt_text ns ''--base-url'', ro_timeout = real_of_arg ns ''--timeout'',
     ro_github_timeout = real_of_arg ns ''--github-timeout'', ro_wait = real_of_arg ns ''--wait'',
     ro_limit = int_of_arg ns ''--limit'', ro_once = is_set ns ''--once'', ro_start_at = word_of ns ''--start-at'',
     ro_state = opt_path ns ''--state'', ro_journal = opt_path ns ''--journal'', ro_lock = opt_path ns ''--lock'',
     ro_audit_log = opt_path ns ''--audit-log'', ro_allow_did = map lit (words_of ns ''--allow-did''),
     ro_allow_any_signed = is_set ns ''--allow-any-signed'', ro_capability_policy = opt_path ns ''--capability-policy'',
     ro_send = is_set ns ''--send''\<rparr>"

definition parse_run ::
  "(string \<Rightarrow> pyfloat option) \<Rightarrow> (string \<Rightarrow> int option) \<Rightarrow> path \<Rightarrow> path \<Rightarrow> string list \<Rightarrow> run_options option" where
  "parse_run to_float to_int d cd words = (case parse_args to_float to_int d cd words of
      Selected path ns \<Rightarrow> if path = [''run''] then Some (run_options_of ns) else None
    | _ \<Rightarrow> None)"

definition health_options_of :: "namespace \<Rightarrow> health_options" where
  "health_options_of ns = \<lparr>ho_identity = word_of ns ''--identity'', ho_config = opt_path ns ''--config'',
     ho_state = opt_path ns ''--state'', ho_capability_policy = word_of ns ''--capability-policy'',
     ho_journal = opt_path ns ''--journal'', ho_audit_log = opt_path ns ''--audit-log'', ho_lock = opt_path ns ''--lock'',
     ho_expected_audit_head = opt_text ns ''--expected-audit-head''\<rparr>"

text \<open>What a command takes from outside its command line: random values, times, fuel, and what \<open>bd\<close> answers.\<close>

record occasion =
  oc_seed :: str
  oc_token :: str
  oc_created_at :: str
  oc_fuel :: nat
  oc_sleeps :: nat
  oc_rounds :: nat
  oc_well_placed :: "path \<Rightarrow> bool"
  oc_database :: "path \<Rightarrow> database_meta option"
  oc_metadata :: "path \<Rightarrow> (nat \<times> doc) option"
  oc_bd :: "path \<Rightarrow> bd_answers"

text \<open>The options of \<open>recover-delivery\<close> and \<open>receipt\<close> that \<open>run\<close> has as well\<close>

definition delivery_options_of :: "namespace \<Rightarrow> run_options" where
  "delivery_options_of ns = \<lparr>ro_identity = word_of ns ''--identity'', ro_room = opt_text ns ''--room'', ro_config = opt_path ns ''--config'',
     ro_base_url = opt_text ns ''--base-url'', ro_timeout = real_of_arg ns ''--timeout'',
     ro_github_timeout = real_of_arg ns ''--timeout'', ro_wait = Fin 10, ro_limit = 50, ro_once = False, ro_start_at = ''latest'',
     ro_state = opt_path ns ''--state'', ro_journal = opt_path ns ''--journal'', ro_lock = opt_path ns ''--lock'',
     ro_audit_log = None, ro_allow_did = [], ro_allow_any_signed = False, ro_capability_policy = None, ro_send = False\<rparr>"

definition identity_arg :: "namespace \<Rightarrow> path" where
  "identity_arg ns = word_of ns ''--identity''"

definition recover_delivery_handler :: "machine \<Rightarrow> namespace \<Rightarrow> handled" where
  "recover_delivery_handler M ns = (let opts = delivery_options_of ns; identity_path = po_resolve (mc_paths M) (ro_identity opts) in
     recover_delivery_locked M (run_args_of M opts) identity_path
       (path_beside_identity M (ro_lock opts) identity_path ''safe-agent.lock'') (is_set ns ''--apply'') (is_set ns ''--confirm-retry''))"

definition tasks_handler :: "occasion \<Rightarrow> namespace \<Rightarrow> handled" where
  "tasks_handler Oc ns = (let p = word_of ns ''--beads-dir'' in
     tasks_command (oc_fuel Oc) (oc_well_placed Oc p) (oc_database Oc p) (oc_metadata Oc p) (oc_bd Oc p) (int_of_arg ns ''--limit'')
       (word_of ns ''--format'' = ''json''))"

definition handlers :: "machine \<Rightarrow> occasion \<Rightarrow> namespace \<Rightarrow> (string list \<times> handled) list" where
  "handlers M Oc ns = (let i = identity_arg ns in
    [([''doctor''], doctor M i),
     ([''health''], health_command M (health_options_of ns) (is_set ns ''--expect-running'')),
     ([''controller'', ''create''], controller_create M (oc_fuel Oc) i (lit (word_of ns ''--service'')) (lit (word_of ns ''--account''))
        (oc_seed Oc) (oc_created_at Oc)),
     ([''controller'', ''grant''], controller_grant_command M i (word_of ns ''--capability-policy'')),
     ([''controller'', ''send''], controller_send_command M i (opt_path ns ''--config'') (opt_path ns ''--state'')
        (opt_path ns ''--lock'') (lit (word_of ns ''controller_text'')) (real_of_arg ns ''--timeout'')),
     ([''launchd'', ''render''], launchd_command M (health_options_of ns) (lit (word_of ns ''--label''))
        (word_of ns ''--executable'') (opt_path ns ''--stdout-path'') (opt_path ns ''--stderr-path'')),
     ([''provision''], provision_command M i (opt_path ns ''--config'') (opt_path ns ''--state'')
        (lit (word_of ns ''--base-url'')) (real_of_arg ns ''--timeout'') (lit (word_of ns ''--name'')) (oc_token Oc) (oc_created_at Oc)),
     ([''recover''], recover_command M i (opt_path ns ''--config'') (opt_path ns ''--state'')
        (lit (word_of ns ''--base-url'')) (real_of_arg ns ''--timeout'') (is_set ns ''--retry'')),
     ([''recover-delivery''], recover_delivery_handler M ns),
     ([''receipt''], receipt_command M i (run_args_of M (delivery_options_of ns)) (lit (word_of ns ''pull_request''))),
     ([''verify-receipt''], verify_receipt_command M (word_of ns ''path'')),
     ([''work-receipt'', ''create''], work_receipt_create M i (word_of ns ''--repository'') (map lit (words_of ns ''work_command''))
        (real_of_arg ns ''--timeout'') (opt_path ns ''--output-directory'')),
     ([''work-receipt'', ''verify''], work_receipt_verify M (word_of ns ''path'')),
     ([''work-receipt'', ''countersign''], work_receipt_countersign M i (word_of ns ''--repository'') (word_of ns ''path'')),
     ([''work-evidence''], work_evidence_command M (word_of ns ''--expectation'') (opt_path ns ''--receipt'')
        (opt_path ns ''--stdout'') (opt_path ns ''--stderr'') (word_of ns ''--format'' = ''markdown'')),
     ([''audit'', ''verify''], audit_command M (word_of ns ''path'') (opt_text ns ''--expected-head'')),
     ([''tasks'', ''ready''], tasks_handler Oc ns),
     ([''run''], run_command M (run_options_of ns) (oc_sleeps Oc) (oc_rounds Oc))])"

section \<open>main\<close>

text \<open>The status of the process and the world it leaves\<close>

definition main_program ::
  "machine \<Rightarrow> occasion \<Rightarrow> (string \<Rightarrow> pyfloat option) \<Rightarrow> (string \<Rightarrow> int option) \<Rightarrow> path \<Rightarrow> path \<Rightarrow> string list
    \<Rightarrow> world \<Rightarrow> nat \<times> world" where
  "main_program M Oc to_float to_int d cd words w = (case parse_args to_float to_int d cd words of
      Refused \<Rightarrow> (2, w)
    | Shown \<Rightarrow> (0, w)
    | Selected path ns \<Rightarrow> (case map_of (handlers M Oc ns) path of
          None \<Rightarrow> (1, w)
        | Some h \<Rightarrow> (main_status h w, Product_Type.snd (h w))))"

end
