(* ===== verification/Controller_Safety.thy ===== *)
theory Controller_Safety
  imports Controller Health_Safety
begin

text \<open>
  What the three controller operations promise: creation replaces no file and no Keychain item, the
  grant gives four commands to one identity and nothing else, and a command leaves only after its
  nonce is on disk.
\<close>

section \<open>Creation\<close>

text \<open>Only the file \<open>p\<close> and the item \<open>k\<close> may change.\<close>

definition only_at :: "path \<Rightarrow> str \<times> str \<Rightarrow> world \<Rightarrow> world \<Rightarrow> bool" where
  "only_at p k w w' \<longleftrightarrow> (\<forall>q. q \<noteq> p \<longrightarrow> fs w' q = fs w q) \<and> (\<forall>j. j \<noteq> k \<longrightarrow> seeds w' j = seeds w j)
     \<and> mem w' = mem w \<and> sent w' = sent w \<and> held w' = held w"

interpretation local: world_order "only_at p k" for p k
  by unfold_locales (auto simp: only_at_def)

lemma local_set_file: "local.grows p k (set_file p f)"
  by (simp add: local.grows_def set_file_def imodify_def only_at_def)

lemma local_set_item: "local.grows p k (set_item k x)"
  by (simp add: local.grows_def set_item_def imodify_def only_at_def)

lemma local_unlink: "local.grows p k (unlink_if_present E p)"
  unfolding unlink_if_present_def
  by (intro local.grows_intros) (auto split: io_fault.split intro!: local.grows_intros local_set_file)

lemma local_write_new: "local.grows p k (write_new_private_json E p payload)"
  unfolding write_new_private_json_def Let_def
  by (intro local.grows_intros) (auto split: io_fault.split intro!: local.grows_intros local_set_file local_unlink)

context world_order
begin

lemma grows_load_controller_identity: "grows (load_controller_identity E L p)"
  unfolding load_controller_identity_def require_private_file_def
  by (intro grows_ibind grows_private_file_or grows_load_identity)

lemma grows_require_private_directory: "grows (require_private_directory D p)"
  unfolding require_private_directory_def
  by (intro grows_ibind grows_ask) (auto split: option.split intro!: grows_lift)

lemma grows_path_is_there: "grows (path_is_there E p)"
  unfolding path_is_there_def by (rule grows_present_or)

end

lemma local_write_and_verify: "local.grows p k (write_and_verify E L p payload did W)"
  unfolding write_and_verify_def
  by (intro local.grows_intros local_write_new local.grows_load_controller_identity)

lemma local_store_seed: "local.grows p (item_of W) (store_seed D fuel W seed)"
  unfolding store_seed_def
  by (intro local.grows_intros) (auto split: option.split intro!: local.grows_intros local_set_item)

lemma local_delete_seed: "local.grows p (item_of W) (delete_seed D W)"
  unfolding delete_seed_def
  by (auto split: delete_answer.split intro!: local.grows_intros local_set_item)

text \<open>What is documented of \<open>/usr/bin/security\<close>: it adds no second item, and exit code 0 means it added one.\<close>

definition keychain_law :: "desk \<Rightarrow> nat \<Rightarrow> seed_writer \<Rightarrow> str \<Rightarrow> world \<Rightarrow> bool" where
  "keychain_law D fuel W seed w \<longleftrightarrow> (dk_spawned D \<and> dk_added D \<longrightarrow> seeds w (item_of W) = None)
     \<and> ((\<exists>s. run_hidden_keychain_prompt fuel (dk_spawned D) (dk_turns D) seed (dk_deadline D) = Some (Inr (), s))
         \<longrightarrow> dk_spawned D \<and> dk_added D)"

lemma store_seed_wp:
  assumes law: "keychain_law D fuel W seed w"
    and added: "match_hex_seed seed \<Longrightarrow> seeds w (item_of W) = None \<Longrightarrow>
       (\<exists>s. run_hidden_keychain_prompt fuel (dk_spawned D) (dk_turns D) seed (dk_deadline D) = Some (Inr (), s)) \<Longrightarrow>
       Q () (w\<lparr>seeds := (seeds w)(item_of W := Some seed)\<rparr>)"
    and failed: "\<And>e x. (seeds w (item_of W) \<noteq> None \<longrightarrow> x = seeds w (item_of W)) \<Longrightarrow>
       R e (w\<lparr>seeds := (seeds w)(item_of W := x)\<rparr>)"
  shows "wp (store_seed D fuel W seed) Q R w"
proof -
  have keep: "R e w" for e using failed [of "seeds w (item_of W)" e] by simp
  show ?thesis
  proof (cases "run_hidden_keychain_prompt fuel (dk_spawned D) (dk_turns D) seed (dk_deadline D)")
    case None
    then show ?thesis using keep by (auto simp: store_seed_def wp_simps private_key_from_seed_def)
  next
    case (Some rs)
    obtain r s where rs: "rs = (r, s)" by fastforce
    show ?thesis
    proof (cases r)
      case (Inl e)
      then show ?thesis using Some rs keep failed [of "Some seed"] law
        by (auto simp: store_seed_def wp_simps private_key_from_seed_def set_item_def keychain_law_def)
    next
      case (Inr u)
      then show ?thesis using Some rs keep added law
        by (auto simp: store_seed_def wp_simps private_key_from_seed_def set_item_def keychain_law_def)
    qed
  qed
qed

text \<open>What a verified file says\<close>

definition controller_created :: "lib \<Rightarrow> path \<Rightarrow> seed_writer \<Rightarrow> str \<Rightarrow> world \<Rightarrow> identity \<Rightarrow> bool" where
  "controller_created L p W seed w i \<longleftrightarrow> gave (\<lambda>E. load_controller_identity E L p) (fs w) i
     \<and> item_of W = (id_service i, id_account i) \<and> seeds w (item_of W) = Some seed
     \<and> load_verified_private_key L i (KeychainText seed) = Inr (bytes_fromhex seed)"

lemma hex_seed_is_stripped:
  assumes "match_hex_seed seed"
  shows "strip seed = seed"
proof -
  have "\<not> is_space c" if "c \<in> set seed" for c
    using assms that by (auto simp: match_hex_seed_def list_all_iff is_hex_lower_def fold_char_def is_space_def is_digit_def
        is_upper_def split: if_splits)
  then have "dropWhile is_space xs = xs" if "set xs \<subseteq> set seed" for xs
    using that by (cases xs) auto
  then show ?thesis by (simp add: strip_def lstrip_def rstrip_def)
qed

interpretation seedless: world_order "\<lambda>w w'. seeds w' = seeds w"
  by unfold_locales auto

lemma seedless_write_and_verify: "seedless.grows (write_and_verify E L p payload did W)"
proof -
  have set: "seedless.grows (set_file p f)" for p f
    by (simp add: seedless.grows_def set_file_def imodify_def)
  then have "seedless.grows (unlink_if_present E p)" for E p
    unfolding unlink_if_present_def
    by (intro seedless.grows_intros) (auto split: io_fault.split intro!: seedless.grows_intros)
  then show ?thesis
    unfolding write_and_verify_def write_new_private_json_def Let_def
    by (intro seedless.grows_intros seedless.grows_load_controller_identity)
      (auto split: io_fault.split intro!: seedless.grows_intros set)
qed

lemma wp_idle:
  assumes "idle.grows m" "\<And>x w'. waited w w' \<Longrightarrow> Q x w'" "\<And>e w'. waited w w' \<Longrightarrow> R e w'"
  shows "wp m Q R w"
  using idle.wp_grows [OF assms(1), of w] by (rule wp_mono) (use assms(2,3) in auto)

lemma path_is_there_wp:
  assumes "\<And>w'. waited w w' \<Longrightarrow> Q (fs w p \<noteq> None) w'" "\<And>e w'. waited w w' \<Longrightarrow> R e w'"
  shows "wp (path_is_there E p) Q R w"
  using assms waited_tick
  by (auto simp: path_is_there_def present_or_def lstat_file_def wp_simps split: io_fault.split)

lemma write_and_verify_wp:
  "wp (write_and_verify E L p payload did W)
     (\<lambda>i w'. seeds w' = seeds w \<and> only_at p k w w' \<and> gave (\<lambda>E. load_controller_identity E L p) (fs w') i
        \<and> id_did i = did \<and> item_of W = (id_service i, id_account i))
     (\<lambda>e w'. seeds w' = seeds w \<and> only_at p k w w') w"
proof -
  have verified: "wp (write_and_verify E L p payload did W)
     (\<lambda>i w'. gave (\<lambda>E. load_controller_identity E L p) (fs w') i \<and> id_did i = did \<and> item_of W = (id_service i, id_account i))
     (\<lambda>e w'. True) w"
  proof -
    have load: "wp (load_controller_identity E L p)
       (\<lambda>i w2. gave (\<lambda>E. load_controller_identity E L p) (fs w2) i) (\<lambda>e w'. True) w1" for w1
    proof (cases "load_controller_identity E L p w1")
      case (Pair r w2)
      then have "fs w2 = fs w1"
        using idle.growsD [OF idle.grows_load_controller_identity, of w1 E L p] waited_same by fastforce
      with Pair gaveI [of "\<lambda>E. load_controller_identity E L p" E w1] show ?thesis by (cases r) (auto simp: wp_def)
    qed
    show ?thesis
      unfolding write_and_verify_def wp_ibind
      by (rule wp_mono [OF wp_True]) (auto intro!: wp_mono [OF load] simp: wp_simps raise_if_def)
  qed
  show ?thesis
    by (rule wp_mono [OF wp_conj [OF verified wp_conj [OF seedless.wp_grows [OF seedless_write_and_verify]
        local.wp_grows [OF local_write_and_verify]]]]) auto
qed

text \<open>What was there stays, whatever happens; what is reported as created is there, file and item.\<close>

definition kept_all :: "world \<Rightarrow> world \<Rightarrow> bool" where
  "kept_all w w' \<longleftrightarrow> (\<forall>q. fs w q \<noteq> None \<longrightarrow> fs w' q = fs w q) \<and> (\<forall>j. seeds w j \<noteq> None \<longrightarrow> seeds w' j = seeds w j)
     \<and> sent w' = sent w \<and> mem w' = mem w"

lemma kept_allI:
  "only_at p k w w' \<Longrightarrow> (fs w p \<noteq> None \<Longrightarrow> fs w' p = fs w p) \<Longrightarrow> (seeds w k \<noteq> None \<Longrightarrow> seeds w' k = seeds w k)
    \<Longrightarrow> kept_all w w'"
  unfolding only_at_def kept_all_def by metis

lemma kept_waited: "waited w w' \<Longrightarrow> kept_all w w'"
  by (auto simp: waited_def kept_all_def)

lemma wp_iraise_eta: "wp (iraise e) Q R = R e"
  by (simp add: fun_eq_iff wp_lift)

lemma never_returns:
  "wp (ibind (unlink_if_present E p) (\<lambda>_. ibind (on_error q h (delete_seed D W)) (\<lambda>_. iraise e))) (\<lambda>_ _. False) (\<lambda>_ _. True) w"
proof -
  have "wp m (\<lambda>_ _. True) (\<lambda>_ _. True) = (\<lambda>_. True)" for m :: "unit io"
    by (simp add: fun_eq_iff)
  then show ?thesis by (simp add: wp_ibind wp_ibind_eta wp_iraise_eta)
qed

lemma wp_bind_liftI:
  "(\<And>x. r = Inr x \<Longrightarrow> wp (f x) Q R w) \<Longrightarrow> (\<And>e. R e w) \<Longrightarrow> wp (ibind (lift r) f) Q R w"
  by (cases r) (simp_all add: wp_simps)

lemma wp_bind_idleI:
  "idle.grows m \<Longrightarrow> (\<And>x w'. waited w w' \<Longrightarrow> wp (f x) Q R w') \<Longrightarrow> (\<And>e w'. waited w w' \<Longrightarrow> R e w') \<Longrightarrow> wp (ibind m f) Q R w"
  unfolding wp_ibind by (rule wp_idle)

text \<open>The end of a creation that found its path and its item free\<close>

definition creation_done ::
  "lib \<Rightarrow> path \<Rightarrow> seed_writer \<Rightarrow> str \<Rightarrow> world \<Rightarrow> identity \<Rightarrow> world \<Rightarrow> bool" where
  "creation_done L p W seed w i w' \<longleftrightarrow>
     kept_all w w' \<and> fs w p = None \<and> seeds w (item_of W) = None \<and> controller_created L p W seed w' i"

lemma write_or_undo_wp:
  assumes w2: "waited w w2" and free: "fs w p = None" "seeds w (item_of W) = None"
    and key: "private_key_from_seed seed = Inr key" "did_from_private_key L key = Inr did"
    and hex: "match_hex_seed seed"
  shows "wp (write_or_undo E L D p W (controller_record created_at did fp W) did)
     (creation_done L p W seed w) (\<lambda>_. kept_all w) (w2\<lparr>seeds := (seeds w2)(item_of W := Some seed)\<rparr>)"
    (is "wp _ _ _ ?w3")
  unfolding write_or_undo_def wp_on_error
proof (rule wp_mono [OF write_and_verify_wp [where k = "item_of W"]])
  have at3: "only_at p (item_of W) w ?w3" using w2 by (auto simp: waited_def only_at_def)
  have kept: "kept_all w w'" if "only_at p (item_of W) ?w3 w'" for w'
    using kept_allI [OF local.trans [OF at3 that]] free by auto
  {
    fix i w4
    assume "seeds w4 = seeds ?w3 \<and> only_at p (item_of W) ?w3 w4 \<and> gave (\<lambda>E. load_controller_identity E L p) (fs w4) i
       \<and> id_did i = did \<and> item_of W = (id_service i, id_account i)"
    moreover have "key = bytes_fromhex seed" using key(1) hex by (simp add: private_key_from_seed_def)
    ultimately show "creation_done L p W seed w i w4"
      using kept free hex key
      by (auto simp: creation_done_def controller_created_def load_verified_private_key_def load_seed_def hex_seed_is_stripped
          private_key_from_seed_def raise_if_def)
  next
    fix e w4
    assume w4: "seeds w4 = seeds ?w3 \<and> only_at p (item_of W) ?w3 w4"
    have "wp (ibind (unlink_if_present E p) (\<lambda>_. ibind (on_error is_Exception
         (\<lambda>_. iraise (controller_error ''controller creation failed and Keychain cleanup also failed''))
         (delete_seed D W)) (\<lambda>_. iraise e))) (\<lambda>_ w'. False) (\<lambda>_ w'. only_at p (item_of W) w4 w') w4"
      by (rule wp_mono [OF wp_conj [OF never_returns local.wp_grows]])
        (auto intro!: local.grows_intros local_unlink local_delete_seed)
    then show "if is_Exception e then wp (ibind (unlink_if_present E p) (\<lambda>_. ibind (on_error is_Exception
         (\<lambda>_. iraise (controller_error ''controller creation failed and Keychain cleanup also failed''))
         (delete_seed D W)) (\<lambda>_. iraise e))) (creation_done L p W seed w) (\<lambda>_. kept_all w) w4 else kept_all w w4"
      using w4 kept local.trans by (auto intro: wp_mono)
  }
qed

lemma stored_wp:
  assumes law: "keychain_law D fuel W seed w" and w2: "waited w w2" and free: "fs w p = None"
    and key: "private_key_from_seed seed = Inr key" "did_from_private_key L key = Inr did"
  shows "wp (ibind (store_seed D fuel W seed) (\<lambda>_. write_or_undo E L D p W (controller_record created_at did fp W) did))
     (creation_done L p W seed w) (\<lambda>_. kept_all w) w2"
  unfolding wp_ibind
proof (rule store_seed_wp)
  have s: "seeds w2 = seeds w" using w2 by (auto simp: waited_def)
  show "keychain_law D fuel W seed w2" using law unfolding keychain_law_def s .
  show "wp (write_or_undo E L D p W (controller_record created_at did fp W) did) (creation_done L p W seed w) (\<lambda>_. kept_all w)
      (w2\<lparr>seeds := (seeds w2)(item_of W := Some seed)\<rparr>)"
    if "match_hex_seed seed" "seeds w2 (item_of W) = None"
    using that s by (intro write_or_undo_wp [OF w2 free _ key]) simp_all
  show "kept_all w (w2\<lparr>seeds := (seeds w2)(item_of W := x)\<rparr>)"
    if "seeds w2 (item_of W) \<noteq> None \<longrightarrow> x = seeds w2 (item_of W)" for x
    using w2 that by (auto simp: waited_def kept_all_def)
qed

lemma create_wp:
  assumes law: "keychain_law D fuel W seed w"
  shows "wp (create_controller_identity E L D fuel p W seed created_at)
     (\<lambda>i w'. kept_all w w' \<and> fs w p = None \<and> seeds w (item_of W) = None \<and> controller_created L p W seed w' i)
     (\<lambda>e w'. kept_all w w') w"
  unfolding create_controller_identity_def creation_done_def [symmetric]
proof (rule wp_bind_idleI [OF idle.grows_require_private_directory])
  fix x w1
  assume w1: "waited w w1"
  have fs1: "fs w1 = fs w" using w1 by (auto simp: waited_def)
  show "wp (ibind (path_is_there E p) (\<lambda>there.
     ibind (iraise_if there (controller_error ''refusing to overwrite an existing controller identity'')) (\<lambda>_.
     ibind (lift (private_key_from_seed seed)) (\<lambda>key.
     ibind (lift (did_from_private_key L key)) (\<lambda>did.
     ibind (lift (fingerprint_of_did L did)) (\<lambda>fp.
     ibind (store_seed D fuel W seed) (\<lambda>_. write_or_undo E L D p W (controller_record created_at did fp W) did)))))))
     (creation_done L p W seed w) (\<lambda>_. kept_all w) w1"
    unfolding wp_ibind [of "path_is_there E p"]
  proof (rule path_is_there_wp, goal_cases)
    case (1 w2)
    have w2: "waited w w2" using idle.trans w1 1 .
    show ?case
      using stored_wp [OF law w2] fs1 kept_waited [OF w2]
      by (auto simp: wp_ibind wp_lift raise_if_def split: sum.split)
  qed (use kept_waited idle.trans w1 in blast)
qed (use kept_waited in auto)

text \<open>Two ways in which creation leaves less, or more, than it found\<close>

lemma failed_open_unlinks:
  assumes "calm E" "fs w p \<noteq> None"
  shows "\<exists>w'. write_new_private_json E p payload w
     = (Inl (controller_error ''cannot write the controller identity''), w') \<and> fs w' p = None"
  using assms
  by (auto simp: write_new_private_json_def unlink_if_present_def Let_def ibind_def ask_def exists_path_def iget_def
      set_file_def imodify_def lift_def calm_def)

lemma failed_dialogue_keeps_item:
  assumes "run_hidden_keychain_prompt fuel True (dk_turns D) seed (dk_deadline D) = Some (Inl e, s)"
    and "dk_spawned D" "dk_added D" "match_hex_seed seed"
  shows "store_seed D fuel W seed w = (Inl e, w\<lparr>seeds := (seeds w)(item_of W := Some seed)\<rparr>)"
  using assms by (simp add: store_seed_def ibind_def lift_def private_key_from_seed_def iwhen_def set_item_def imodify_def)

section \<open>The grant\<close>

interpretation private_replaced: durable "replace_private_json E p payload" p
  "Some (fresh_file (private_json_body payload))" "{controller_error ''cannot update the capability policy'', Killed}" for E p payload
  by unfold_locales (auto simp: replace_private_json_def Let_def wp_simps agrees_but_def split: io_fault.splits)

definition controller_grant :: grant where
  "controller_grant = \<lparr>enabled = True, commands = map lit CONTROLLER_COMMANDS, repositories = [],
     max_requests = CONTROLLER_RATE_LIMIT\<rparr>"

definition controller_grant_json :: json where
  "controller_grant_json = JObj [(lit ''enabled'', JBool True),
     (lit ''commands'', JArr (map (\<lambda>c. JStr (lit c)) CONTROLLER_COMMANDS)), (lit ''repositories'', JArr []),
     (lit ''max_requests_per_hour'', JInt CONTROLLER_RATE_LIMIT)]"

lemma parse_controller_grant: "parse_grant controller_grant_json = Inr controller_grant"
proof -
  have "parse_commands (JArr (map (\<lambda>c. JStr (lit c)) CONTROLLER_COMMANDS)) = Inr (map lit CONTROLLER_COMMANDS)"
    by (simp add: parse_commands_def CONTROLLER_COMMANDS_def SUPPORTED_COMMANDS_def raise_if_def)
  moreover have "lit ''/pr'' \<notin> set (map lit CONTROLLER_COMMANDS)" "map lit CONTROLLER_COMMANDS \<noteq> []"
    by (simp_all add: CONTROLLER_COMMANDS_def)
  ultimately show ?thesis
    by (simp add: parse_grant_def controller_grant_json_def keys_are_def dget_def repository_scopes_def parse_rate_def
        int_at_least_def MAX_REQUESTS_PER_HOUR_def CONTROLLER_RATE_LIMIT_def controller_grant_def raise_if_def)
qed

lemma parse_controller_policy:
  assumes "decode_policy (Doc (JObj (controller_policy did))) = Inr v" "parse_policy v = Inr pol"
  shows "pol = [(did, controller_grant)]"
proof -
  have v: "v = JObj (controller_policy did)"
    using assms(1) by (simp add: decode_policy_def parse_bytes_def loads_strict_def split: if_splits)
  have p: "dget (controller_policy did) ''principals'' = JObj [(did, controller_grant_json)]"
    by (simp add: controller_policy_def dget_def controller_grant_json_def)
  show ?thesis
    using assms(2) unfolding v parse_policy_def p
    by (auto simp: bind_eq_Inr parse_principal_def parse_controller_grant p except_raise_eq_Inr)
qed

lemma load_written_policy:
  assumes "gave (\<lambda>E. load_policy E p) F pol" "F p = Some (fresh_file (private_json_body (controller_policy did)))"
  shows "pol = [(did, controller_grant)]"
proof -
  have "\<exists>v. decode_policy (body_doc (contents f)) = Inr v \<and> parse_policy v = Inr pol"
    if g: "gave (\<lambda>E. load_policy E p) F pol" and f: "F p = Some f" for f
  proof -
    obtain E w and w' :: world where w: "fs w = F" "load_policy E p w = (Inr pol, w')"
      using g unfolding gave_def by blast
    show ?thesis
      using w f
      by (auto simp: load_policy_def read_file_def on_error_def ibind_def ask_def iget_def lift_def iret_def
          split: io_fault.splits sum.splits option.splits prod.splits if_splits)
  qed
  from this [OF assms] show ?thesis
    using parse_controller_policy by (auto simp: fresh_file_def private_json_body_def)
qed

definition granted :: "lib \<Rightarrow> path \<Rightarrow> path \<Rightarrow> world \<Rightarrow> world \<Rightarrow> bool" where
  "granted L identity_path policy_path w w' \<longleftrightarrow> agrees_but policy_path w w'
     \<and> (fs w' policy_path = fs w policy_path \<or>
        (\<exists>i. gave (\<lambda>E. load_controller_identity E L identity_path) (fs w) i \<and> gave (\<lambda>E. load_policy E policy_path) (fs w) []
           \<and> fs w' policy_path = Some (fresh_file (private_json_body (controller_policy (id_did i))))))"

lemma idle_gave_wp:
  assumes "idle.grows (m E)" "\<And>x w'. gave m (fs w) x \<Longrightarrow> waited w w' \<Longrightarrow> Q x w'" "\<And>e w'. waited w w' \<Longrightarrow> R e w'"
  shows "wp (m E) Q R w"
proof (cases "m E w")
  case (Pair r w')
  then have "waited w w'" using idle.growsD [OF assms(1), of w] by simp
  with Pair assms(2,3) gaveI [of m E w] show ?thesis by (cases r) (auto simp: wp_def)
qed

lemma granted_waited: "waited w w' \<Longrightarrow> granted L i p w w'"
  by (auto simp: waited_def granted_def agrees_but_def)

lemma grant_wp:
  "wp (grant_controller_to_empty_policy E L D identity_path p)
     (\<lambda>_ w'. granted L identity_path p w w' \<and> (\<exists>i. gave (\<lambda>E. load_controller_identity E L identity_path) (fs w) i
         \<and> gave (\<lambda>E. load_policy E p) (fs w) [] \<and> gave (\<lambda>E. load_policy E p) (fs w') [(id_did i, controller_grant)]))
     (\<lambda>e w'. granted L identity_path p w w') w" (is "wp _ ?Q ?R w")
  unfolding grant_controller_to_empty_policy_def wp_ibind
proof (rule idle_gave_wp [OF idle.grows_load_controller_identity], rule wp_idle [OF idle.grows_require_private_directory],
    rule idle_gave_wp [OF idle.grows_load_policy])
  fix i w1 u w2 pol w3
  assume i: "gave (\<lambda>E. load_controller_identity E L identity_path) (fs w) i" and w: "waited w w1" "waited w1 w2" "waited w2 w3"
    and pol: "gave (\<lambda>E. load_policy E p) (fs w2) pol"
  have w3: "waited w w3" using w idle.trans by blast
  have fs2: "fs w2 = fs w" "fs w3 = fs w" using w waited_same by metis+
  have stored: "wp (replace_private_json E p (controller_policy (id_did i))) (\<lambda>_. wp (load_policy E p)
        (\<lambda>pol. wp (iraise_if (\<not> is_controller_grant (grant_for pol (id_did i)))
       (controller_error ''controller policy failed post-write validation'')) ?Q ?R) ?R) ?R w3"
    if empty: "pol = []"
  proof (rule private_replaced.wpI)
    fix w4
    assume w4: "agrees_but p w3 w4" "fs w4 p = Some (fresh_file (private_json_body (controller_policy (id_did i))))"
    have g4: "granted L identity_path p w w5" if "waited w4 w5" for w5
      using w3 w4 i pol empty that fs2 by (auto simp: waited_def granted_def agrees_but_def)
    show "wp (load_policy E p) (\<lambda>pol. wp (iraise_if (\<not> is_controller_grant (grant_for pol (id_did i)))
       (controller_error ''controller policy failed post-write validation'')) ?Q ?R) ?R w4"
    proof (rule idle_gave_wp [OF idle.grows_load_policy])
      fix pol' w5
      assume pol': "gave (\<lambda>E. load_policy E p) (fs w4) pol'" and w5: "waited w4 w5"
      have "pol' = [(id_did i, controller_grant)]" by (rule load_written_policy [OF pol' w4(2)])
      then show "wp (iraise_if (\<not> is_controller_grant (grant_for pol' (id_did i)))
         (controller_error ''controller policy failed post-write validation'')) ?Q ?R w5"
        using g4 [OF w5] i pol empty fs2 pol' waited_same [OF w5] by (auto simp: wp_lift raise_if_def)
    qed (use g4 in blast)
  next
    fix e w4
    assume "agrees_but p w3 w4" "fs w4 p = fs w3 p"
    then show "granted L identity_path p w w4" using w3 fs2 by (auto simp: waited_def granted_def agrees_but_def)
  next
    fix e w4
    assume "agrees_but p w3 w4" "fs w4 p = Some (fresh_file (private_json_body (controller_policy (id_did i))))"
    then show "granted L identity_path p w w4" using w3 i pol empty fs2 by (auto simp: waited_def granted_def agrees_but_def)
  qed
  show "wp (iraise_if (pol \<noteq> []) (controller_error ''controller grant requires an empty policy''))
     (\<lambda>_. wp (replace_private_json E p (controller_policy (id_did i))) (\<lambda>_. wp (load_policy E p)
        (\<lambda>pol. wp (iraise_if (\<not> is_controller_grant (grant_for pol (id_did i)))
       (controller_error ''controller policy failed post-write validation'')) ?Q ?R) ?R) ?R) ?R w3"
    using stored granted_waited [OF w3] by (simp add: wp_lift raise_if_def)
qed (use granted_waited idle.trans in blast)+

section \<open>A command\<close>

text \<open>The highest nonce the state file records for a room\<close>

definition recorded :: "path \<Rightarrow> str \<Rightarrow> filesystem \<Rightarrow> int \<Rightarrow> bool" where
  "recorded p room F n \<longleftrightarrow> (\<exists>s. disk_state F p = Inr s \<and> get_default (nonces s) room 0 = n)"

definition command_left ::
  "lib \<Rightarrow> agent_config \<Rightarrow> str \<Rightarrow> bytes \<Rightarrow> str \<Rightarrow> path \<Rightarrow> world \<Rightarrow> world \<Rightarrow> bool" where
  "command_left L config did key cmd p w w' \<longleftrightarrow> (\<exists>m n swept sig url F.
     recorded p (cfg_room config) (fs w) m \<and> m < n
     \<and> sign_room_message L key (cfg_room config) (str_of_int n) cmd = Inr (swept, sig)
     \<and> say_url (cfg_base_url config) (cfg_room config) did sig (str_of_int n) swept = Inr url
     \<and> says w' = says w @ [(SaySigned url, F)]
     \<and> recorded p (cfg_room config) F n \<and> recorded p (cfg_room config) (fs w') n)"

text \<open>The state file is the old one, or it records a larger nonce.\<close>

definition nonce_kept :: "path \<Rightarrow> str \<Rightarrow> filesystem \<Rightarrow> filesystem \<Rightarrow> bool" where
  "nonce_kept p room F F' \<longleftrightarrow> F' p = F p \<or> (\<exists>m n. recorded p room F m \<and> m < n \<and> recorded p room F' n)"

definition command_effect ::
  "lib \<Rightarrow> agent_config \<Rightarrow> str \<Rightarrow> bytes \<Rightarrow> str \<Rightarrow> path \<Rightarrow> world \<Rightarrow> world \<Rightarrow> bool" where
  "command_effect L config did key cmd p w w' \<longleftrightarrow> (\<forall>q. q \<noteq> p \<longrightarrow> fs w' q = fs w q)
     \<and> nonce_kept p (cfg_room config) (fs w) (fs w')
     \<and> (says w' = says w \<or> cmd \<in> set (map lit CONTROLLER_COMMANDS) \<and> command_left L config did key cmd p w w')"

lemma wp_bind_loadI:
  assumes "\<And>s w'. disk_state (fs w) p = Inr s \<Longrightarrow> waited w w' \<Longrightarrow> wp (f s) Q R w'" "\<And>e w'. waited w w' \<Longrightarrow> R e w'"
  shows "wp (ibind (load_state E p) f) Q R w"
  unfolding wp_ibind by (rule load_state_wp) (use assms waited_tick in blast)+

lemma state_loadable_next_nonce:
  assumes "state_loadable s" "room \<noteq> []" "next_nonce room c s = Inr (s', n)"
  shows "state_loadable s'"
  using assms state_ok_next_nonce [of s room c s' n] by (auto simp: state_loadable_def next_nonce_Inr)

lemma recorded_after_save:
  assumes s: "state_loadable s" and room: "room \<noteq> []" and n: "next_nonce room c s = Inr (s', n)"
    and F: "F p = Some (fresh_file (state_body s'))"
  shows "recorded p room F n"
proof -
  have s': "state_loadable s'" by (rule state_loadable_next_nonce [OF s room n])
  have "get_default (nonces (sort_state s')) room 0 = get_default (nonces s') room 0"
    using sort_state_lookups(3) s' by (simp add: state_loadable_def)
  also have "\<dots> = n" using n by (auto simp: next_nonce_Inr get_default_def update_conv')
  finally show ?thesis using state_in_saved_file [OF s'] F by (auto simp: recorded_def disk_state_def)
qed

lemma effect_waited: "waited w w' \<Longrightarrow> command_effect L c d k cmd p w w'"
  by (auto simp: waited_def command_effect_def nonce_kept_def)

lemma effect_waited_on: "command_effect L c d k cmd p w w" "waited w a \<Longrightarrow> waited a b \<Longrightarrow> command_effect L c d k cmd p w b"
  "waited w a \<Longrightarrow> waited a b \<Longrightarrow> waited b b' \<Longrightarrow> command_effect L c d k cmd p w b'"
  using effect_waited idle.refl idle.trans by metis+

text \<open>The next nonce of the state on disk, and what its file says once it is saved\<close>

definition issues_nonce :: "agent_config \<Rightarrow> path \<Rightarrow> world \<Rightarrow> agent_state \<Rightarrow> int \<Rightarrow> bool" where
  "issues_nonce config p w s n \<longleftrightarrow> (\<exists>m. recorded p (cfg_room config) (fs w) m \<and> m < n)
     \<and> (\<forall>F. F p = Some (fresh_file (state_body s)) \<longrightarrow> recorded p (cfg_room config) F n)"

lemma issues_nonceI:
  assumes s0: "disk_state (fs w) p = Inr s0" and room: "cfg_room config \<noteq> []" and n: "next_nonce (cfg_room config) c s0 = Inr (s, n)"
  shows "issues_nonce config p w s n"
proof -
  have "recorded p (cfg_room config) (fs w) (get_default (nonces s0) (cfg_room config) 0)" using s0 by (auto simp: recorded_def)
  moreover have "get_default (nonces s0) (cfg_room config) 0 < n" using n by (simp add: next_nonce_Inr)
  ultimately show ?thesis
    using recorded_after_save [OF disk_state_loadable [OF s0] room n] by (auto simp: issues_nonce_def)
qed

lemma saved_effect:
  assumes "issues_nonce config p w s n" "waited w v" "agrees_but p v w'"
    and "fs w' p = fs v p \<or> fs w' p = Some (fresh_file (state_body s))"
  shows "command_effect L config did key cmd p w w'"
  using assms by (auto simp: issues_nonce_def command_effect_def nonce_kept_def agrees_but_def waited_def says_def)

lemma say_command_wp:
  assumes n: "issues_nonce config p w s n" and v: "waited w v" "agrees_but p v w1" "fs w1 p = Some (fresh_file (state_body s))"
    and cmd: "cmd \<in> set (map lit CONTROLLER_COMMANDS)" and url: "base_url cl = cfg_base_url config"
  shows "wp (say_command E L did key (cfg_room config) cl n cmd)
     (\<lambda>_ w'. command_effect L config did key cmd p w w' \<and> command_left L config did key cmd p w w')
     (\<lambda>_ w'. command_effect L config did key cmd p w w') w1" (is "wp _ ?Q ?R w1")
  unfolding say_command_def
proof (rule wp_bind_liftI)
  note saved = saved_effect [OF n v(1)]
  have says: "says w1 = says w" using v by (auto simp: agrees_but_def waited_def says_def)
  fix y
  assume "sign_room_message L key (cfg_room config) (str_of_int n) cmd = Inr y"
  then obtain swept sg where y: "y = (swept, sg)" "sign_room_message L key (cfg_room config) (str_of_int n) cmd = Inr (swept, sg)"
    by (cases y) auto
  have left: "command_left L config did key cmd p w w2 \<and> command_effect L config did key cmd p w w2"
    if u: "say_url (base_url cl) (cfg_room config) did sg (str_of_int n) swept = Inr u" and w2: "sent_one (SaySigned u) w1 w2" for u w2
  proof -
    have same: "fs w2 = fs w1" using w2 by (simp add: sent_one_def)
    have "says w2 = says w @ [(SaySigned u, fs w1)]" using says_sent_one [OF w2] says by simp
    then have "command_left L config did key cmd p w w2"
      using n y(2) u url v(3) same unfolding command_left_def issues_nonce_def by metis
    moreover have "\<forall>q. q \<noteq> p \<longrightarrow> fs w2 q = fs w q" using v same by (auto simp: agrees_but_def waited_def)
    moreover have "nonce_kept p (cfg_room config) (fs w) (fs w2)" using n v(3) same by (auto simp: issues_nonce_def nonce_kept_def)
    ultimately show ?thesis using cmd by (simp add: command_effect_def)
  qed
  have "wp (send_signed_message E cl (cfg_room config) did sg (str_of_int n) swept) (\<lambda>_. wp (iret (''acknowledged'', cmd)) ?Q ?R) ?R w1"
  proof (rule send_wp)
    fix e w2
    assume "untouched w1 w2"
    then show "command_effect L config did key cmd p w w2"
      using v by (intro saved) (simp_all add: untouched_def agrees_but_def)
  qed (use left in \<open>auto simp: wp_simps\<close>)
  then show "wp ((\<lambda>(swept, signature). ibind (send_signed_message E cl (cfg_room config) did signature (str_of_int n) swept) (\<lambda>_.
     iret (''acknowledged'', cmd))) y) ?Q ?R w1"
    by (simp add: y(1) wp_ibind)
qed (use saved_effect [OF n v(1,2)] v(3) in simp)

lemma command_with_new_nonce_wp:
  assumes s0: "disk_state (fs w) p = Inr s0" and v: "waited w v" and room: "cfg_room config \<noteq> []"
    and cmd: "cmd \<in> set (map lit CONTROLLER_COMMANDS)" and url: "base_url cl = cfg_base_url config"
  shows "wp (command_with_new_nonce E L did key (cfg_room config) p cmd cl s0)
     (\<lambda>_ w'. command_effect L config did key cmd p w w' \<and> command_left L config did key cmd p w w')
     (\<lambda>_ w'. command_effect L config did key cmd p w w') v"
  unfolding command_with_new_nonce_def
proof (rule wp_bind_idleI [OF idle.grows_ask], rule wp_bind_liftI, goal_cases)
  case (1 now v1 x)
  obtain s n where x: "x = (s, n)" by fastforce
  have v1: "waited w v1" using idle.trans v 1(1) .
  have n: "issues_nonce config p w s n" by (rule issues_nonceI [OF s0 room 1(2) [unfolded x]])
  show ?case
    unfolding x prod.case wp_ibind
    by (rule state_saved.wpI) (use say_command_wp [OF n v1 _ _ cmd url] saved_effect [OF n v1] in auto)
qed (use v effect_waited idle.trans in blast)+

lemma send_command_wp:
  "wp (send_controller_command E L D did key config p cmd cl)
     (\<lambda>_ w'. command_effect L config did key cmd p w w' \<and> command_left L config did key cmd p w w')
     (\<lambda>_ w'. command_effect L config did key cmd p w w') w" (is "wp _ ?Q ?R w")
  unfolding send_controller_command_def
proof ((rule wp_bind_liftI)+, rule wp_bind_idleI [OF idle.grows_require_private_directory],
    rule wp_bind_idleI [OF idle.grows_path_is_there], rule wp_bind_idleI, goal_cases)
  case (1 valid_did u1 u2 u3 u4 derived u5 u6 w1 there w2)
  then show ?case unfolding require_private_file_def by (auto intro: idle.grows_private_file_or idle.grows_iret)
next
  case (2 valid_did u1 valid u3 u4 derived u5 u6 w1 there w2 u7 w3)
  have w3: "waited w w3" using 2 idle.trans by blast
  have did: "valid_did = did" and cmd: "cmd \<in> set (map lit CONTROLLER_COMMANDS)" and url: "base_url cl = cfg_base_url config"
    using 2 by (auto simp: validate_did_def raise_if_def split: if_splits)
  have room: "cfg_room config \<noteq> []"
  proof -
    have "config_ok L valid" using 2(3) validate_config_ok by blast
    moreover have "dget (pairs_of_config config) ''room'' = JStr (cfg_room valid)"
      using 2(3) by (auto simp: validate_config_def bind_eq_Inr)
    ultimately show ?thesis by (auto simp: config_ok_def match_room_def dget_def pairs_of_config_def)
  qed
  show ?case
  proof (rule wp_bind_loadI)
    fix s0 w4
    assume "disk_state (fs w3) p = Inr s0" and w4: "waited w3 w4"
    then have "disk_state (fs w) p = Inr s0" using waited_same [OF w3] by simp
    from command_with_new_nonce_wp [OF this idle.trans [OF w3 w4] room cmd url]
    show "wp (command_with_new_nonce E L valid_did key (cfg_room config) p cmd cl s0) ?Q ?R w4" by (simp add: did)
  qed (use effect_waited idle.trans [OF w3] in blast)
qed (blast intro: effect_waited effect_waited_on)+

lemma recorded_unique: "recorded p room F m \<Longrightarrow> recorded p room F n \<Longrightarrow> m = n"
  by (auto simp: recorded_def)

lemma recorded_cong: "F' p = F p \<Longrightarrow> recorded p room F' n \<longleftrightarrow> recorded p room F n"
  by (simp add: recorded_def disk_state_def)

text \<open>Commands of processes that follow each other: each reads the state file the last one left.\<close>

record command_run =
  cr_env :: env
  cr_desk :: desk
  cr_text :: str
  cr_client :: client

definition send_command :: "lib \<Rightarrow> str \<Rightarrow> bytes \<Rightarrow> agent_config \<Rightarrow> path \<Rightarrow> command_run \<Rightarrow> world \<Rightarrow> world" where
  "send_command L did key config p c w =
     snd (send_controller_command (cr_env c) L (cr_desk c) did key config p (cr_text c) (cr_client c) w)"

definition send_commands :: "lib \<Rightarrow> str \<Rightarrow> bytes \<Rightarrow> agent_config \<Rightarrow> path \<Rightarrow> command_run list \<Rightarrow> world \<Rightarrow> world" where
  "send_commands L did key config p cs w = fold (send_command L did key config p) cs w"

text \<open>A request that carries the command signed under a nonce the file had when it left\<close>

definition carries_nonce :: "lib \<Rightarrow> str \<Rightarrow> bytes \<Rightarrow> agent_config \<Rightarrow> path \<Rightarrow> request \<times> filesystem \<Rightarrow> int \<Rightarrow> bool" where
  "carries_nonce L did key config p q n \<longleftrightarrow> recorded p (cfg_room config) (snd q) n
     \<and> (\<exists>cmd swept sig url. cmd \<in> set (map lit CONTROLLER_COMMANDS)
        \<and> sign_room_message L key (cfg_room config) (str_of_int n) cmd = Inr (swept, sig)
        \<and> say_url (cfg_base_url config) (cfg_room config) did sig (str_of_int n) swept = Inr url \<and> fst q = SaySigned url)"

definition nonces_of :: "lib \<Rightarrow> str \<Rightarrow> bytes \<Rightarrow> agent_config \<Rightarrow> path \<Rightarrow> (request \<times> filesystem) list \<Rightarrow> int list \<Rightarrow> bool" where
  "nonces_of L did key config p qs ns \<longleftrightarrow> list_all2 (carries_nonce L did key config p) qs ns \<and> sorted_wrt (<) ns"

lemma commands_wp:
  assumes "nonces_of L did key config p qs ns" "says w = before_these @ qs"
    and "\<And>n m. n \<in> set ns \<Longrightarrow> recorded p (cfg_room config) (fs w) m \<Longrightarrow> n \<le> m"
  shows "\<exists>qs' ns'. says (send_commands L did key config p cs w) = before_these @ qs'
     \<and> nonces_of L did key config p qs' ns'"
  using assms
proof (induction cs arbitrary: w qs ns)
  case Nil
  then show ?case by (auto simp: send_commands_def)
next
  case (Cons c cs)
  let ?w = "send_command L did key config p c w"
  have "wp (send_controller_command (cr_env c) L (cr_desk c) did key config p (cr_text c) (cr_client c))
      (\<lambda>_ w'. command_effect L config did key (cr_text c) p w w')
      (\<lambda>_ w'. command_effect L config did key (cr_text c) p w w') w"
    by (rule wp_mono [OF send_command_wp]) auto
  then have effect: "command_effect L config did key (cr_text c) p w ?w"
    by (auto simp: wp_def send_command_def split: sum.splits prod.splits)
  have next_run: "\<exists>qs' ns'. says (send_commands L did key config p cs ?w) = before_these @ qs'
      \<and> nonces_of L did key config p qs' ns'" if "nonces_of L did key config p qs1 ns1" "says ?w = before_these @ qs1"
      "\<And>n m. n \<in> set ns1 \<Longrightarrow> recorded p (cfg_room config) (fs ?w) m \<Longrightarrow> n \<le> m" for qs1 ns1
    using Cons.IH [OF that] .
  have unfolded: "send_commands L did key config p (c # cs) w = send_commands L did key config p cs ?w"
    by (simp add: send_commands_def)
  show ?case
  proof (cases "says ?w = says w")
    case True
    have "n \<le> m" if n: "n \<in> set ns" and m: "recorded p (cfg_room config) (fs ?w) m" for n m
    proof -
      consider "fs ?w p = fs w p"
        | m0 m1 where "recorded p (cfg_room config) (fs w) m0" "m0 < m1" "recorded p (cfg_room config) (fs ?w) m1"
        using effect by (auto simp: command_effect_def nonce_kept_def)
      then show ?thesis
      proof cases
        case 1
        then show ?thesis using Cons.prems(3) n m recorded_cong by metis
      next
        case 2
        then show ?thesis using Cons.prems(3) [OF n 2(1)] recorded_unique [OF m 2(3)] by simp
      qed
    qed
    then show ?thesis unfolding unfolded using next_run [of qs ns] Cons.prems True by simp
  next
    case False
    then have "cr_text c \<in> set (map lit CONTROLLER_COMMANDS)" "command_left L config did key (cr_text c) p w ?w"
      using effect by (auto simp: command_effect_def)
    then obtain m n swept sig url F where
      left: "recorded p (cfg_room config) (fs w) m" "m < n" "recorded p (cfg_room config) (fs ?w) n"
        "says ?w = says w @ [(SaySigned url, F)]" and c: "carries_nonce L did key config p (SaySigned url, F) n"
      by (auto simp: command_left_def carries_nonce_def; blast)
    have "x < n" if "x \<in> set ns" for x using Cons.prems(3) [OF that left(1)] left(2) by simp
    then have "nonces_of L did key config p (qs @ [(SaySigned url, F)]) (ns @ [n])"
      using Cons.prems(1) c by (auto simp: nonces_of_def list_all2_appendI sorted_wrt_append)
    moreover have "x \<le> m'" if "x \<in> set (ns @ [n])" "recorded p (cfg_room config) (fs ?w) m'" for x m'
      using that recorded_unique [OF left(3) that(2)] \<open>\<And>x. x \<in> set ns \<Longrightarrow> x < n\<close> by fastforce
    ultimately show ?thesis unfolding unfolded
      using next_run [of "qs @ [(SaySigned url, F)]" "ns @ [n]"] Cons.prems(2) left(4) by simp
  qed
qed

end
