(* ===== verification/Launch_Safety.thy ===== *)
theory Launch_Safety
  imports Cli_Parser Controller_Safety
begin

text \<open>
  What a rendered LaunchAgent starts: its program arguments parse to a live run on the files the
  health check saw, and that run takes the free lock and reaches its loop.
\<close>

section \<open>The files the check saw\<close>

lemma same_answer:
  "gave (\<lambda>E. load_identity E L p) F i \<Longrightarrow> G p = F p \<Longrightarrow> gave (\<lambda>E. load_identity E L p) G i"
  "gave (\<lambda>E. load_config E L p) F c \<Longrightarrow> G p = F p \<Longrightarrow> gave (\<lambda>E. load_config E L p) G c"
  "gave (\<lambda>E. load_state E p) F s \<Longrightarrow> G p = F p \<Longrightarrow> gave (\<lambda>E. load_state E p) G s"
  "gave (\<lambda>E. load_policy E p) F pol \<Longrightarrow> G p = F p \<Longrightarrow> gave (\<lambda>E. load_policy E p) G pol"
  "gave (\<lambda>E. verify_audit E L p None) F summary \<Longrightarrow> G p = F p \<Longrightarrow> gave (\<lambda>E. verify_audit E L p None) G summary"
proof -
  have looks: "looks_at p (\<lambda>E. load_identity E L p)" "looks_at p (\<lambda>E. load_config E L p)"
    "looks_at p (\<lambda>E. load_policy E p)"
    unfolding load_identity_def load_config_def load_policy_def by (intro looks_at_intros)+
  have audit: "looks_at p (\<lambda>E. verify_audit E L p None)"
    unfolding verify_audit_def by (intro looks_at_intros) (auto intro!: looks_at_intros)
  show "gave (\<lambda>E. load_identity E L p) F i \<Longrightarrow> G p = F p \<Longrightarrow> gave (\<lambda>E. load_identity E L p) G i"
    by (rule gave_elsewhere) (rule looks)
  show "gave (\<lambda>E. load_config E L p) F c \<Longrightarrow> G p = F p \<Longrightarrow> gave (\<lambda>E. load_config E L p) G c"
    by (rule gave_elsewhere) (rule looks)
  show "gave (\<lambda>E. load_state E p) F s \<Longrightarrow> G p = F p \<Longrightarrow> gave (\<lambda>E. load_state E p) G s"
    by (rule gave_elsewhere) (rule looks_at_load_state)
  show "gave (\<lambda>E. load_policy E p) F pol \<Longrightarrow> G p = F p \<Longrightarrow> gave (\<lambda>E. load_policy E p) G pol"
    by (rule gave_elsewhere) (rule looks)
  show "gave (\<lambda>E. verify_audit E L p None) F summary \<Longrightarrow> G p = F p \<Longrightarrow> gave (\<lambda>E. verify_audit E L p None) G summary"
    by (rule gave_elsewhere) (rule audit)
qed

definition checked_paths :: "health_paths \<Rightarrow> path list" where
  "checked_paths P = [hp_identity P, hp_config P, hp_state P, hp_capability_policy P, hp_journal P, hp_audit P]"

lemma fit_elsewhere:
  assumes fit: "fit_to_run L P F" and G: "\<And>p. p \<in> set (checked_paths P) \<Longrightarrow> G p = F p"
  shows "fit_to_run L P G"
proof -
  obtain i c pol where f: "gave (\<lambda>E. load_identity E L (hp_identity P)) F i"
     "config_fit L (hp_config P) F (Some i) (Some c)" "state_fit (hp_state P) F (Some c)"
     "gave (\<lambda>E. load_policy E (hp_capability_policy P)) F pol"
     "F (hp_journal P) = None" "audit_fit L (hp_audit P) F (Some i)"
    using fit by (auto simp: fit_to_run_def)
  have "config_fit L (hp_config P) G (Some i) (Some c)" "state_fit (hp_state P) G (Some c)"
    "audit_fit L (hp_audit P) G (Some i)"
    using f same_answer(2) [of L "hp_config P" F c G] same_answer(3) [of "hp_state P" F _ G]
      same_answer(5) [of L "hp_audit P" F _ G] G
    by (auto simp: config_fit_def state_fit_def audit_fit_def checked_paths_def)
  then show ?thesis
    using f same_answer(1) [of L "hp_identity P" F i G] same_answer(4) [of "hp_capability_policy P" F pol G] G
    unfolding fit_to_run_def checked_paths_def by (metis list.set_intros)
qed

section \<open>The command line\<close>

definition launched_options :: "health_paths \<Rightarrow> run_options" where
  "launched_options P = \<lparr>ro_identity = hp_identity P, ro_room = None, ro_config = Some (hp_config P), ro_base_url = None,
     ro_timeout = Fin 20, ro_github_timeout = Fin 15, ro_wait = Fin 10, ro_limit = 50, ro_once = False, ro_start_at = ''saved'',
     ro_state = Some (hp_state P), ro_journal = Some (hp_journal P), ro_lock = Some (hp_lock P),
     ro_audit_log = Some (hp_audit P), ro_allow_did = [], ro_allow_any_signed = False,
     ro_capability_policy = Some (hp_capability_policy P), ro_send = True\<rparr>"

text \<open>With the lock free, exit code 0 means \<open>ready\<close>.\<close>

lemma free_process_check:
  assumes "\<And>t. \<not> H t p" "\<not> held w p"
  shows "wp (process_check E H p n) (\<lambda>(s, n') w'. s \<noteq> ''running'') (\<lambda>_ _. True) w"
proof -
  have "wp (process_lock_status E H p) (\<lambda>s w'. s \<noteq> ''running'') (\<lambda>_ _. True) w"
    unfolding process_lock_status_def
  proof (rule wp_bind_idleI)
    fix present w1
    assume "waited w w1"
    then have "\<not> held w1 p" using assms(2) waited_same by simp
    then show "wp (if \<not> present then iret ''stopped''
     else ibind (ask (fault E)) (\<lambda>flt. ibind (iget (\<lambda>w. fs w p)) (\<lambda>f.
       case (flt, f) of
         (Kill k, _) \<Rightarrow> iraise Killed
       | (_, None) \<Rightarrow> iraise (health_error ''process lock cannot be inspected'')
       | (Fine, Some g) \<Rightarrow> ibind (lift (private_metadata health_error g)) (\<lambda>_.
           ibind (ask H) (\<lambda>others. ibind (iget (\<lambda>w. held w p)) (\<lambda>own.
           iret (if others p \<or> own then ''running'' else ''stopped''))))
       | (Fail k, Some g) \<Rightarrow>
           if k = 0 then iraise (health_error ''process lock cannot be inspected'')
           else ibind (lift (private_metadata health_error g)) (\<lambda>_.
             iraise (if k = 1 then health_error ''process lock cannot be inspected'' else OSError)))))
      (\<lambda>s w'. s \<noteq> ''running'') (\<lambda>_ _. True) w1"
      using assms(1) by (auto simp: wp_simps split: io_fault.split option.split sum.split)
  qed (simp_all add: idle.grows_path_present)
  then show ?thesis
    unfolding process_check_def wp_ibind attempt_def
    by (cases "process_lock_status E H p w")
      (auto simp: wp_def on_error_def ibind_def iret_def split: sum.splits option.splits)
qed

lemma free_lock_ready:
  assumes "\<And>t. \<not> H t (hp_lock P)" "\<not> held w (hp_lock P)"
  shows "wp (inspect_operational_health E L H P head e) (\<lambda>r w'. hr_exit_code r = 0 \<longrightarrow> hr_status r = ''ready'')
     (\<lambda>_ _. True) w"
proof -
  have last: "wp (ibind (process_check E H (hp_lock P) n) (\<lambda>(s, n). iret (health_of e d s n)))
      (\<lambda>r w'. hr_exit_code r = 0 \<longrightarrow> hr_status r = ''ready'') (\<lambda>_ _. True) w1" if "waited w w1" for n d w1
  proof -
    have "\<not> held w1 (hp_lock P)" using that assms(2) waited_same by simp
    then have "wp (process_check E H (hp_lock P) n) (\<lambda>(s, n') w'. s \<noteq> ''running'') (\<lambda>_ _. True) w1"
      using assms(1) by (rule free_process_check [rotated])
    then show ?thesis
      unfolding wp_ibind
      by (rule wp_mono) (auto simp: wp_simps health_of_def Let_def verdict_def split: prod.splits if_splits)
  qed
  show ?thesis
    unfolding inspect_operational_health_def case_prod_unfold
    by (rule wp_bind_idleI [OF idle.grows_checks(1)], rule wp_bind_idleI [OF idle.grows_checks(2)],
      rule wp_bind_idleI [OF idle.grows_checks(3)], rule wp_bind_idleI [OF idle.grows_checks(4)],
      rule wp_bind_idleI [OF idle.grows_checks(5)], rule wp_bind_idleI [OF idle.grows_checks(6)],
      rule last [unfolded case_prod_unfold]) (use idle.trans in blast, simp_all)
qed

lemma idle_validate_spec: "idle.grows (validate_spec E A s)"
  unfolding validate_spec_def validate_executable_def validate_log_path_def validate_log_directory_def
    validate_existing_log_def
  by (auto intro!: idle.grows_intros idle.grows_lstat_file split: option.split prod.split)

lemma rendered_checked:
  assumes free: "\<And>t. \<not> H t (hp_lock (la_health_paths s))" "\<not> held w (hp_lock (la_health_paths s))"
    and "fst (render_launch_agent E L H A s w) = Inr rendered"
  shows "list_all is_absolute (runtime_artifacts s) \<and> fit_to_run L (la_health_paths s) (fs w)"
proof -
  let ?P = "la_health_paths s"
  have "wp (render_launch_agent E L H A s) (\<lambda>_ _. list_all is_absolute (runtime_artifacts s) \<and> fit_to_run L ?P (fs w))
     (\<lambda>_ _. True) w"
  proof (cases "list_all is_absolute (runtime_artifacts s)")
    case absolute: True
    show ?thesis
      unfolding render_launch_agent_def
    proof (rule wp_bind_idleI [OF idle_validate_spec])
      fix u w1
      assume "waited w w1"
      then have same: "fs w1 = fs w" "held w1 = held w" using waited_same by blast+
      have "wp (inspect_operational_health E L H ?P (la_expected_audit_head s) False)
        (\<lambda>r w'. hr_exit_code r = 0 \<longrightarrow> fit_to_run L ?P (fs w)) (\<lambda>_ _. True) w1"
        using wp_conj [OF health_seen [of E L H ?P "la_expected_audit_head s" False w1] free_lock_ready [of H ?P w1]] free same
        by (auto elim!: wp_mono)
      then show "wp (ibind (inspect_operational_health E L H ?P (la_expected_audit_head s) False)
         (\<lambda>health. ibind (iraise_if (hr_exit_code health \<noteq> 0) (launch_error ''health preflight failed''))
          (\<lambda>_. lift (plist_text (agent_plist s)))))
        (\<lambda>_ _. list_all is_absolute (runtime_artifacts s) \<and> fit_to_run L ?P (fs w)) (\<lambda>_ _. True) w1"
        unfolding wp_ibind by (rule wp_mono) (auto simp: wp_simps absolute raise_if_def)
    qed simp
  next
    case False
    then have "require_absolute_paths s = Inl (launch_error ''all LaunchAgent paths must be absolute'')"
      by (auto simp: require_absolute_paths_def list_ex_iff list_all_iff raise_if_def)
    then show ?thesis
      unfolding render_launch_agent_def validate_spec_def by (auto simp: wp_simps raise_if_def)
  qed
  then show ?thesis using assms by (cases "render_launch_agent E L H A s w") (simp add: wp_def)
qed

lemma absolute_word: "is_absolute p \<Longrightarrow> classify names p = Plain" "is_absolute p \<Longrightarrow> p \<noteq> ''--''"
  by (auto simp: is_absolute_def classify_def)

lemma exact_word: "n \<in> set names \<Longrightarrow> take 1 n = ''-'' \<Longrightarrow> classify names n = Given n None"
  by (cases n) (simp_all add: classify_def)

text \<open>An option that takes a word, and a value that is a plain word\<close>

lemma scan_value:
  assumes "n \<in> set (command_flags c)" "take 1 n = ''-''" "n \<noteq> ''--''" "cs_remainder c = None"
    and "find (\<lambda>q. os_flag q = n) (cs_options c) = Some q" "os_action q = Store k" "convert to_float to_int k x = Some y"
    and "classify (command_flags c) x = Plain" "x \<noteq> ''--''"
  shows "scan_words to_float to_int c (n # x # ws) s = (case store_option c q y s of
      None \<Rightarrow> Stopped Refused | Some s' \<Rightarrow> scan_words to_float to_int c ws s')"
  using assms exact_word [of n "command_flags c"] by (simp split: option.split)

lemma scan_switch:
  assumes "n \<in> set (command_flags c)" "take 1 n = ''-''" "n \<noteq> ''--''" "cs_remainder c = None"
    and "find (\<lambda>q. os_flag q = n) (cs_options c) = Some q" "os_action q = StoreTrue"
  shows "scan_words to_float to_int c (n # ws) s = (case store_option c q (Flag True) s of
      None \<Rightarrow> Stopped Refused | Some s' \<Rightarrow> scan_words to_float to_int c ws s')"
  using assms exact_word [of n "command_flags c"] by (simp split: option.split)

lemma store_outside:
  assumes "os_flag q \<notin> set (cs_exclusive c)"
  shows "store_option c q v s = Some (s\<lparr>
     sc_values := AList.update (os_flag q) (stored (os_action q) (arg (sc_values s) (os_flag q)) v) (sc_values s),
     sc_seen := os_flag q # sc_seen s\<rparr>)"
  using assms by (simp add: store_option_def)

lemma store_alone:
  assumes "list_all (\<lambda>n. n \<notin> set (cs_exclusive c)) (sc_seen s)"
  shows "store_option c q v s = Some (s\<lparr>
     sc_values := AList.update (os_flag q) (stored (os_action q) (arg (sc_values s) (os_flag q)) v) (sc_values s),
     sc_seen := os_flag q # sc_seen s\<rparr>)"
  using assms by (auto simp: store_option_def list_all_iff)

lemmas parser_tables = plain_command_def shared_identity_option_def path_option_def option_of_def switch_def

lemma run_parser_facts:
  "cs_remainder (run_parser d) = None" "cs_positional (run_parser d) = None"
  "cs_exclusive (run_parser d) = [''--allow-did'', ''--allow-any-signed'', ''--capability-policy'']"
  "(\<exists>q \<in> set (cs_options (run_parser d)). os_required q \<and> P q) = False"
  "command_flags (run_parser d) = [''-h'', ''--help'', ''--identity'', ''--room'', ''--config'', ''--base-url'',
      ''--timeout'', ''--github-timeout'', ''--wait'', ''--limit'', ''--once'', ''--start-at'', ''--state'', ''--journal'',
      ''--lock'', ''--audit-log'', ''--allow-did'', ''--allow-any-signed'', ''--capability-policy'', ''--send'']"
  by (simp_all add: run_parser_def parser_tables command_flags_def)

lemma run_parser_options:
  "find (\<lambda>q. os_flag q = ''--config'') (cs_options (run_parser d)) = Some (path_option ''--config'')"
  "find (\<lambda>q. os_flag q = ''--state'') (cs_options (run_parser d)) = Some (path_option ''--state'')"
  "find (\<lambda>q. os_flag q = ''--journal'') (cs_options (run_parser d)) = Some (path_option ''--journal'')"
  "find (\<lambda>q. os_flag q = ''--lock'') (cs_options (run_parser d)) = Some (path_option ''--lock'')"
  "find (\<lambda>q. os_flag q = ''--audit-log'') (cs_options (run_parser d)) = Some (path_option ''--audit-log'')"
  "find (\<lambda>q. os_flag q = ''--capability-policy'') (cs_options (run_parser d)) = Some (path_option ''--capability-policy'')"
  "find (\<lambda>q. os_flag q = ''--identity'') (cs_options (run_parser d)) = Some (shared_identity_option d)"
  "find (\<lambda>q. os_flag q = ''--start-at'') (cs_options (run_parser d))
    = Some (option_of ''--start-at'' (OneOf [''latest'', ''saved'', ''zero'']) (Word ''latest''))"
  "find (\<lambda>q. os_flag q = ''--send'') (cs_options (run_parser d)) = Some (switch ''--send'')"
  by (simp_all add: run_parser_def parser_tables)

lemma option_facts:
  "os_flag (option_of n k v) = n" "os_action (option_of n k v) = Store k"
  "os_flag (switch n) = n" "os_action (switch n) = StoreTrue"
  by (simp_all add: option_of_def switch_def)

lemma stored_anew: "stored (Store k) u v = v" "stored StoreTrue u v = v"
  by (cases u; cases v; simp)+

lemma arg_update: "arg (AList.update k v ns) k' = (if k' = k then v else arg ns k')"
  by (simp add: arg_def update_conv')

lemma run_parser_defaults:
  "arg (defaults_of (run_parser d)) ''--room'' = Missing" "arg (defaults_of (run_parser d)) ''--base-url'' = Missing"
  "arg (defaults_of (run_parser d)) ''--timeout'' = Real (Fin 20)"
  "arg (defaults_of (run_parser d)) ''--github-timeout'' = Real (Fin 15)"
  "arg (defaults_of (run_parser d)) ''--wait'' = Real (Fin 10)" "arg (defaults_of (run_parser d)) ''--limit'' = Integer 50"
  "arg (defaults_of (run_parser d)) ''--once'' = Flag False" "arg (defaults_of (run_parser d)) ''--allow-did'' = Words []"
  "arg (defaults_of (run_parser d)) ''--allow-any-signed'' = Flag False"
  by (simp_all add: arg_def defaults_of_def run_parser_def parser_tables)

lemma parse_program_arguments:
  assumes "list_all is_absolute (runtime_artifacts s)"
  shows "parse_run to_float to_int d cd (tl (program_arguments s)) = Some (launched_options (la_health_paths s))"
proof -
  have words: "subcommand flags (''run'' # ws) k = withheld False (k ''run'' ws)" for flags ws k
    by (simp add: subcommand_def classify_def)
  have run: "map_of (commands_of d) ''run'' = Some (run_parser d)" by (simp add: commands_of_def)
  have scan: "parse_args to_float to_int d cd (''run'' # ws) = parse_command to_float to_int [''run''] (run_parser d) ws" for ws
    by (simp add: parse_args_def words run withheld_def split: parsed.split)
  have saved: "classify names ''saved'' = Plain" for names by (simp add: classify_def)
  have absolute: "is_absolute (hp_identity (la_health_paths s))" "is_absolute (hp_config (la_health_paths s))"
     "is_absolute (hp_state (la_health_paths s))" "is_absolute (hp_journal (la_health_paths s))" 
     "is_absolute (hp_lock (la_health_paths s))" "is_absolute (hp_audit (la_health_paths s))" 
     "is_absolute (hp_capability_policy (la_health_paths s))" 
     using assms by (simp_all add: runtime_artifacts_def Let_def)
  note scanning = scan parse_command_def run_parser_facts run_parser_options shared_identity_option_def path_option_def
    scan_value scan_switch absolute_word saved store_outside store_alone option_facts stored_anew
  note reading = run_options_of_def launched_options_def opt_text_def opt_path_def word_of_def words_of_def is_set_def
    int_of_arg_def real_of_arg_def arg_update run_parser_defaults
  show ?thesis
    by (simp add: parse_run_def program_arguments_def Let_def absolute scanning del: scan_words.simps(2) AList.update.simps)
      (simp add: reading del: AList.update.simps)
qed

lemma launched_args:
  assumes "\<And>p. p \<in> set (checked_paths P) \<Longrightarrow> po_resolve (mc_paths M) p = p"
  shows "runs_on P (run_args_of M (launched_options P))" "timeouts_ok (run_args_of M (launched_options P))"
  using assms
  by (simp_all add: runs_on_def timeouts_ok_def run_args_of_def launched_options_def Let_def
      paths_beside_identity_def path_beside_identity_def checked_paths_def)

section \<open>The run\<close>

text \<open>The run is at its loop: it has the lock, has sent nothing, and its files are as the check saw them.\<close>

definition at_loop :: "machine \<Rightarrow> health_paths \<Rightarrow> bytes \<Rightarrow> run_options \<Rightarrow> nat \<Rightarrow> world \<Rightarrow> bool" where
  "at_loop M P key opts sleeps w \<longleftrightarrow> (\<exists>i c r w1.
     gave (\<lambda>E. load_identity E (mc_lib M) (hp_identity P)) (fs w) i
     \<and> gave (\<lambda>E. load_config E (mc_lib M) (hp_config P)) (fs w) c \<and> own_config i c
     \<and> r_did r = id_did i \<and> r_room r = cfg_room c \<and> r_key r = key \<and> r_send r
     \<and> (\<forall>q. q \<noteq> hp_lock P \<longrightarrow> fs w1 q = fs w q) \<and> sent w1 = sent w \<and> held w1 (hp_lock P)
     \<and> (\<forall>rounds. run_command M opts sleeps rounds w =
          ibind (with_lock_held (mc_env M) (hp_lock P)
            (poll (mc_env M) (mc_lib M) (run_args_of M opts) r sleeps rounds 1 1)) (\<lambda>evs. iret (RunLines evs, 0)) w1))"

lemma with_lock_held_cong: "m w = m' w' \<Longrightarrow> with_lock_held E p m w = with_lock_held E p m' w'"
  by (simp add: with_lock_held_def)

lemma launched_run_at_loop:
  assumes fit: "fit_to_run (mc_lib M) P (fs w)" and E: "calm (mc_env M)"
    and lock: "\<And>t. \<not> mc_locks M t (hp_lock P)" "\<not> held w (hp_lock P)" "hp_lock P \<notin> set (checked_paths P)"
    and resolved: "\<And>p. p \<in> set (hp_lock P # checked_paths P) \<Longrightarrow> po_resolve (mc_paths M) p = p"
    and key: "\<And>i t. gave (\<lambda>E. load_identity E (mc_lib M) (hp_identity P)) (fs w) i \<Longrightarrow>
       load_verified_private_key (mc_lib M) i (mc_keychain M t (id_service i, id_account i)) = Inr key"
  shows "at_loop M P key (launched_options P) sleeps w"
proof -
  let ?E = "mc_env M" and ?L = "mc_lib M" and ?a = "run_args_of M (launched_options P)"
  obtain i c pol where i: "gave (\<lambda>E. load_identity E ?L (hp_identity P)) (fs w) i"
     and c: "config_fit ?L (hp_config P) (fs w) (Some i) (Some c)"
    using fit by (auto simp: fit_to_run_def)
  obtain w1 where w1: "load_identity ?E ?L (hp_identity P) w = (Inr i, w1)" "waited w w1"
    using repeatsD [OF repeats_load_identity i E] by blast
  let ?w2 = "w1\<lparr>tick := Suc (tick w1)\<rparr>"
  have loaded: "load_identity_and_key M (hp_identity P) w = (Inr (i, key), ?w2)"
    using w1(1) key [OF i] by (simp add: load_identity_and_key_def ibind_def ask_def lift_def iret_def)
  have same: "fs ?w2 = fs w" "sent ?w2 = sent w" "held ?w2 = held w" using waited_same [OF w1(2)] by simp_all
  obtain w3 where w3: "agrees_but (hp_lock P) ?w2 w3" "held w3 = (held ?w2)(hp_lock P := True)"
     "\<And>m. with_process_lock ?E (mc_locks M) (mc_pid M) (hp_lock P) (m :: run_report list io) ?w2
        = with_lock_held ?E (hp_lock P) m w3"
    using free_lock [OF E, of "mc_locks M" "hp_lock P" ?w2 "mc_pid M"] lock(1,2) same(3) by auto
  have fs3: "fs w3 p = fs w p" if "p \<in> set (checked_paths P)" for p
    using w3(1) same(1) lock(3) that by (metis agrees_but_def)
  have "fit_to_run ?L P (fs w3)" by (rule fit_elsewhere [OF fit fs3])
  then obtain i' c' pol where f: "gave (\<lambda>E. load_identity E ?L (hp_identity P)) (fs w3) i'"
     "config_fit ?L (hp_config P) (fs w3) (Some i') (Some c')" "state_fit (hp_state P) (fs w3) (Some c')"
     "gave (\<lambda>E. load_policy E (hp_capability_policy P)) (fs w3) pol"
     "fs w3 (hp_journal P) = None" "audit_fit ?L (hp_audit P) (fs w3) (Some i')"
    by (auto simp: fit_to_run_def)
  have files: "fs w (hp_identity P) = fs w3 (hp_identity P)" "fs w (hp_config P) = fs w3 (hp_config P)"
    using fs3 by (simp_all add: checked_paths_def)
  have "gave (\<lambda>E. load_identity E ?L (hp_identity P)) (fs w) i'"
    using f(1) files(1) by (rule same_answer(1))
  from repeatsD [OF repeats_load_identity this E] have "i' = i" using w1(1) by auto
  note f = f [unfolded this]
  have did: "match_did (id_did i)" using f(1) by (rule gave_identity_did)
  obtain r w4 where r: "fs w4 = fs w3" "sent w4 = sent w3" "held w4 = held w3" "r_room r = cfg_room c'" "r_send r"
      "r_did r = id_did i" "r_key r = key"
      "\<And>n. run_with_identity ?E ?L ?a i key sleeps n w3 = poll ?E ?L ?a r sleeps n 1 1 w4"
    using fit_run_reaches_loop [OF f(2-6) did _ _ E, of ?a key sleeps] launched_args [of P M] resolved
    by auto
  have "run_command M (launched_options P) sleeps rounds w =
      ibind (with_lock_held ?E (hp_lock P) (poll ?E ?L ?a r sleeps rounds 1 1)) (\<lambda>evs. iret (RunLines evs, 0)) w4" for rounds
  proof -
    have opts: "ro_identity (launched_options P) = hp_identity P" "ro_lock (launched_options P) = Some (hp_lock P)"
      "ro_send (launched_options P)" by (simp_all add: launched_options_def)
    have p: "path_beside_identity M (Some (hp_lock P)) x ''safe-agent.lock'' = hp_lock P" for x
      using resolved by (simp add: path_beside_identity_def)
    have same_run: "with_lock_held ?E (hp_lock P) (run_with_identity ?E ?L ?a i key sleeps rounds) w3
       = with_lock_held ?E (hp_lock P) (poll ?E ?L ?a r sleeps rounds 1 1) w4"
      by (rule with_lock_held_cong) (rule r(8))
    show ?thesis
      unfolding run_command_def opts p Let_def by (simp add: opts ibind_def loaded w3(3) same_run)
  qed
  moreover have "\<forall>q. q \<noteq> hp_lock P \<longrightarrow> fs w4 q = fs w q" "sent w4 = sent w" "held w4 (hp_lock P)"
    using w3(1,2) same r(1-3) by (auto simp: agrees_but_def)
  moreover have "gave (\<lambda>E. load_config E ?L (hp_config P)) (fs w) c'" "own_config i c'"
    using f(2) same_answer(2) [of ?L "hp_config P" "fs w3" c' "fs w"] files(2) by (auto simp: config_fit_def)
  ultimately show ?thesis
    using i r unfolding at_loop_def by blast
qed

end
