(* ===== verification/Health_Complete.thy ===== *)
theory Health_Complete
  imports Health_Safety
begin

text \<open>
  The converse of \<open>health_seen\<close>: on files a live run could use, owner-only, with the lock free and no
  failing system call, the health check reports \<open>ready\<close>.
\<close>

section \<open>Code that answers without a change\<close>

definition answers :: "'a io \<Rightarrow> ('a \<Rightarrow> bool) \<Rightarrow> world \<Rightarrow> bool" where
  "answers m Q w \<longleftrightarrow> (\<exists>x w'. m w = (Inr x, w') \<and> waited w w' \<and> Q x)"

lemma answers_iret [simp]: "answers (iret x) Q w \<longleftrightarrow> Q x"
  by (auto simp: answers_def iret_def idle.refl)

lemma answers_ibind:
  assumes "answers m Q w" "\<And>x w'. waited w w' \<Longrightarrow> Q x \<Longrightarrow> answers (f x) R w'"
  shows "answers (ibind m f) R w"
proof -
  obtain x w1 where m: "m w = (Inr x, w1)" "waited w w1" "Q x" using assms(1) by (auto simp: answers_def)
  obtain y w2 where f: "f x w1 = (Inr y, w2)" "waited w1 w2" "R y"
    using assms(2) [OF m(2,3)] by (auto simp: answers_def)
  show ?thesis using m f idle.trans [OF m(2) f(2)] by (auto simp: answers_def ibind_def)
qed

lemma answers_attempt: "answers m Q w \<Longrightarrow> answers (attempt q m) (\<lambda>r. \<exists>x. r = Some x \<and> Q x) w"
  by (auto simp: answers_def attempt_def on_error_def ibind_def iret_def)

lemma answers_gave:
  assumes "repeats m" "gave m (fs w) x" "calm E"
  shows "answers (m E) (\<lambda>y. y = x) w"
  using repeatsD [OF assms] by (auto simp: answers_def)

lemma answers_present: "calm E \<Longrightarrow> answers (path_present E p) (\<lambda>b. b = (fs w p \<noteq> None)) w"
  by (auto simp: answers_def path_present_def present_or_def lstat_file_def ibind_def ask_def iget_def iret_def calm_def
      waited_def)

lemma answers_private:
  "calm E \<Longrightarrow> fs w p = Some f \<Longrightarrow> private_inode f \<Longrightarrow> answers (require_private_regular_file E p) (\<lambda>_. True) w"
  by (auto simp: answers_def require_private_regular_file_def private_file_or_def lstat_file_def ibind_def ask_def iget_def
      lift_def calm_def waited_def)

text \<open>The shape of five of the checks: is the path there, then a handler per case\<close>

lemma answers_looked:
  assumes "calm E" "\<And>w1. fs w1 = fs w \<Longrightarrow> held w1 = held w \<Longrightarrow> answers (f (Some (fs w p \<noteq> None))) R w1"
  shows "answers (ibind (attempt q (path_present E p)) f) R w"
  by (rule answers_ibind [OF answers_attempt [OF answers_present [OF assms(1)]]]) (use assms(2) waited_same in auto)

lemma answers_private_then:
  assumes "calm E" "fs w p = Some f" "private_inode f" "repeats m" "gave m (fs w) x"
  shows "answers (ibind (require_private_regular_file E p) (\<lambda>_. m E)) (\<lambda>y. y = x) w"
  by (rule answers_ibind [OF answers_private [OF assms(1-3)]])
    (use assms(1,4,5) answers_gave [OF assms(4) _ assms(1)] waited_same in auto)

section \<open>The checks\<close>

abbreviation no_more :: "memo \<Rightarrow> memo \<Rightarrow> bool" where
  "no_more n n' \<equiv> n_problems n' = n_problems n"

definition private_at :: "filesystem \<Rightarrow> path \<Rightarrow> bool" where
  "private_at F p \<longleftrightarrow> (case F p of None \<Rightarrow> True | Some f \<Rightarrow> private_inode f)"

lemma identity_check_passes:
  assumes "gave (\<lambda>E. load_identity E L p) (fs w) i" "calm E"
  shows "answers (identity_check E L p n) (\<lambda>(j, n'). j = Some i \<and> no_more n n') w"
  unfolding identity_check_def
  by (rule answers_ibind [OF answers_attempt [OF answers_gave [OF repeats_load_identity assms]]])
    (auto simp: noted_def)

lemma config_check_passes:
  assumes "config_fit L p (fs w) (Some i) (Some c)" "calm E" "private_at (fs w) p"
  shows "answers (config_check E L p (Some i) n) (\<lambda>(d, n'). d = Some c \<and> no_more n n') w"
proof -
  obtain f where f: "fs w p = Some f" "private_inode f" "gave (\<lambda>E. load_config E L p) (fs w) c" "own_config i c"
    using assms(1,3) by (auto simp: config_fit_def private_at_def)
  have present: "Some (fs w p \<noteq> None) = Some True" using f(1) by simp
  show ?thesis
    unfolding config_check_def
  proof (rule answers_looked [OF assms(2)], unfold present option.case bool.case)
    fix w1 :: world
    assume "fs w1 = fs w"
    then have "answers (ibind (require_private_regular_file E p) (\<lambda>_. load_config E L p)) (\<lambda>d. d = c) w1"
      using answers_private_then [OF assms(2) _ f(2) repeats_load_config, of w1 p] f(1,3) by simp
    then show "answers (ibind (attempt config_unfit (ibind (require_private_regular_file E p) (\<lambda>_. load_config E L p)))
        (\<lambda>d. iret (case d of None \<Rightarrow> (None, flag ''config'' ''invalid'' ''config_invalid'' n)
          | Some d \<Rightarrow> judge_config (Some i) d n))) (\<lambda>(d, n'). d = Some c \<and> no_more n n') w1"
      by (rule answers_ibind [OF answers_attempt]) (use f(4) in \<open>auto simp: judge_config_def own_config_def noted_def\<close>)
  qed
qed

lemma state_check_passes:
  assumes "state_fit p (fs w) (Some c)" "calm E" "private_at (fs w) p"
  shows "answers (state_check E p (Some c) n) (\<lambda>n'. no_more n n') w"
proof -
  obtain s where s: "gave (\<lambda>E. load_state E p) (fs w) s" "state_problems c s = []"
    using assms(1) by (auto simp: state_fit_def)
  have "s = empty_state" if "fs w p = None"
    using s(1) that by (auto simp: gave_def load_state_def ibind_def exists_path_def iget_def iret_def)
  then have "fs w p \<noteq> None"
    using s(2) by (cases "s = empty_state") (auto simp: state_problems_def empty_state_def)
  then obtain f where f: "fs w p = Some f" "private_inode f" using assms(3) by (auto simp: private_at_def)
  then have present: "Some (fs w p \<noteq> None) = Some True" by simp
  show ?thesis
    unfolding state_check_def
  proof (rule answers_looked [OF assms(2)], unfold present option.case bool.case)
    fix w1 :: world
    assume "fs w1 = fs w"
    then have "answers (ibind (require_private_regular_file E p) (\<lambda>_. load_state E p)) (\<lambda>t. t = s) w1"
      using answers_private_then [OF assms(2) _ f(2) repeats_load_state, of w1 p] f(1) s(1) by simp
    then show "answers (ibind (attempt state_unfit (ibind (require_private_regular_file E p) (\<lambda>_. load_state E p)))
        (\<lambda>t. iret (case t of None \<Rightarrow> flag ''state'' ''invalid'' ''state_invalid'' n
          | Some t \<Rightarrow> judge_state (Some c) t n))) (\<lambda>n'. no_more n n') w1"
      by (rule answers_ibind [OF answers_attempt]) (use s(2) in \<open>auto simp: judge_state_def noted_def\<close>)
  qed
qed

lemma capability_check_passes:
  assumes "gave (\<lambda>E. load_policy E p) (fs w) pol" "calm E"
  shows "answers (capability_check E p n) (\<lambda>n'. no_more n n') w"
  unfolding capability_check_def
  by (rule answers_ibind [OF answers_attempt [OF answers_gave [OF repeats_load_policy assms]]]) (auto simp: noted_def)

lemma delivery_check_passes:
  assumes "fs w p = None" "calm E"
  shows "answers (delivery_check E L p i c n) (\<lambda>(d, n'). d = None \<and> no_more n n') w"
  unfolding delivery_check_def by (rule answers_looked [OF assms(2)]) (simp add: assms(1) noted_def)

lemma audit_check_passes:
  assumes "audit_fit L p (fs w) (Some i)" "calm E" "private_at (fs w) p"
  shows "answers (audit_check E L p (Some i) None n) (\<lambda>n'. no_more n n') w"
proof (cases "fs w p")
  case None
  then show ?thesis
    unfolding audit_check_def by (intro answers_looked [OF assms(2)]) (simp add: noted_def)
next
  case (Some f)
  then obtain summary where g: "gave (\<lambda>E. verify_audit E L p None) (fs w) summary"
      "issuer summary \<in> {None, Some (id_did i)}" "private_inode f"
    using assms(1,3) by (auto simp: audit_fit_def private_at_def)
  have present: "Some (fs w p \<noteq> None) = Some True" using Some by simp
  show ?thesis
    unfolding audit_check_def
  proof (rule answers_looked [OF assms(2)], unfold present option.case bool.case)
    fix w1 :: world
    assume w1: "fs w1 = fs w"
    have "answers (bound_audit E L p (Some i) None) (\<lambda>_. True) w1"
      unfolding bound_audit_def
    proof (rule answers_ibind [OF answers_private [OF assms(2)]])
      fix u w2
      assume "waited w1 w2"
      then have "answers (verify_audit E L p None) (\<lambda>y. y = summary) w2"
        using answers_gave [OF repeats_verify_audit _ assms(2)] g(1) w1 waited_same by simp
      then show "answers (ibind (verify_audit E L p None) (\<lambda>summary. iraise_if
          (case Some i of None \<Rightarrow> True | Some i \<Rightarrow> issuer summary \<notin> {None, Some (id_did i)})
          (AuditError ''audit issuer does not match this agent''))) (\<lambda>_. True) w2"
        by (rule answers_ibind) (use g(2) in \<open>auto simp: answers_def lift_def raise_if_def idle.refl\<close>)
    qed (use w1 Some g(3) in auto)
    then show "answers (ibind (attempt audit_unfit (bound_audit E L p (Some i) None)) (\<lambda>a. iret (case a of
           None \<Rightarrow> flag ''audit'' ''invalid'' ''audit_invalid'' n
         | Some _ \<Rightarrow> noted ''audit'' (lit (if None \<noteq> None then ''valid_checkpoint'' else ''valid'')) n)))
        (\<lambda>n'. no_more n n') w1"
      by (rule answers_ibind [OF answers_attempt]) (auto simp: noted_def)
  qed
qed

lemma process_check_passes:
  assumes "\<And>t. \<not> H t p" "\<not> held w p" "calm E" "private_at (fs w) p"
  shows "answers (process_check E H p n) (\<lambda>(s, n'). s = ''stopped'' \<and> no_more n n') w"
proof -
  have "answers (process_lock_status E H p) (\<lambda>s. s = ''stopped'') w"
    using assms
    by (auto simp: answers_def process_lock_status_def path_present_def present_or_def lstat_file_def ibind_def ask_def
        iget_def iret_def lift_def calm_def private_at_def private_metadata_Inr waited_def private_inode_def
        private_metadata_def raise_if_def split: option.splits)
  then show ?thesis
    unfolding process_check_def by (rule answers_ibind [OF answers_attempt]) (auto simp: noted_def)
qed

section \<open>The whole check\<close>

lemma fit_is_ready:
  assumes fit: "fit_to_run L P (fs w)" and E: "calm E"
    and owner_only: "\<And>p. p \<in> {hp_config P, hp_state P, hp_audit P, hp_lock P} \<Longrightarrow> private_at (fs w) p"
    and free: "\<And>t. \<not> H t (hp_lock P)" "\<not> held w (hp_lock P)"
  shows "answers (inspect_operational_health E L H P None False) (\<lambda>r. hr_status r = ''ready'' \<and> hr_exit_code r = 0) w"
proof -
  obtain i c pol where f: "gave (\<lambda>E. load_identity E L (hp_identity P)) (fs w) i"
     "config_fit L (hp_config P) (fs w) (Some i) (Some c)" "state_fit (hp_state P) (fs w) (Some c)"
     "gave (\<lambda>E. load_policy E (hp_capability_policy P)) (fs w) pol"
     "fs w (hp_journal P) = None" "audit_fit L (hp_audit P) (fs w) (Some i)"
    using fit by (auto simp: fit_to_run_def)
  have done_all: "hr_status (health_of False None ''stopped'' n) = ''ready'' \<and> hr_exit_code (health_of False None ''stopped'' n) = 0"
    if "n_problems n = []" for n
    using that by (simp add: health_of_def Let_def last_problems_def add_problems_def verdict_def)
  show ?thesis
    unfolding inspect_operational_health_def case_prod_unfold
  proof (rule answers_ibind [OF identity_check_passes [OF f(1) E]], goal_cases)
    case (1 x1 w1)
    then have x1: "fst x1 = Some i" "n_problems (snd x1) = []" and w1: "fs w1 = fs w" "held w1 = held w"
      using waited_same by (auto simp: case_prod_unfold)
    show ?case
      unfolding x1(1)
    proof (rule answers_ibind [OF config_check_passes [where c = c]], goal_cases)
      case (4 x2 w2)
      then have x2: "fst x2 = Some c" "n_problems (snd x2) = []" and w2: "fs w2 = fs w" "held w2 = held w"
        using x1(2) w1 waited_same by (auto simp: case_prod_unfold)
      show ?case
        unfolding x2(1)
      proof (rule answers_ibind [OF state_check_passes], goal_cases)
        case (4 n3 w3)
        then have n3: "n_problems n3 = []" and w3: "fs w3 = fs w" "held w3 = held w"
          using x2(2) w2 waited_same by auto
        show ?case
        proof (rule answers_ibind [OF capability_check_passes [where pol = pol]], goal_cases)
          case (3 n4 w4)
          then have n4: "n_problems n4 = []" and w4: "fs w4 = fs w" "held w4 = held w"
            using n3 w3 waited_same by auto
          show ?case
          proof (rule answers_ibind [OF delivery_check_passes], goal_cases)
            case (3 x5 w5)
            then have x5: "fst x5 = None" "n_problems (snd x5) = []" and w5: "fs w5 = fs w" "held w5 = held w"
              using n4 w4 waited_same by (auto simp: case_prod_unfold)
            show ?case
              unfolding x5(1)
            proof (rule answers_ibind [OF audit_check_passes], goal_cases)
              case (4 n6 w6)
              then have n6: "n_problems n6 = []" and w6: "fs w6 = fs w" "held w6 = held w"
                using x5(2) w5 waited_same by auto
              show ?case
                by (rule answers_ibind [OF process_check_passes])
                  (use n6 w6 free E owner_only done_all in \<open>auto simp: case_prod_unfold\<close>)
            qed (use f E w5 owner_only in auto)
          qed (use f E w4 in auto)
        qed (use f E w3 in auto)
      qed (use f E w2 owner_only in auto)
    qed (use f E w1 owner_only in auto)
  qed
qed

end
