(* ===== verification/Demo_Files.thy ===== *)
theory Demo_Files
  imports Work_Guarantees Launch_Safety Health_Complete
begin

text \<open>
  The files of a provisioned agent, for the witnesses about the health check, the LaunchAgent and
  the controller: identity, configuration, state and capability policy, and a LaunchAgent for them.
\<close>

definition demo_paths :: health_paths where
  "demo_paths = \<lparr>hp_identity = ''/i'', hp_config = ''/c'', hp_state = ''/s'', hp_capability_policy = ''/p'',
     hp_journal = ''/j'', hp_audit = ''/a'', hp_lock = ''/k''\<rparr>"

definition demo_identity_doc :: json where
  "demo_identity_doc = JObj [(lit ''did'', JStr demo_did), (lit ''fingerprint'', JStr (id_fingerprint demo_identity)),
     (lit ''custody'', JObj [(lit ''backend'', JStr (lit ''macos-keychain'')), (lit ''service'', JStr (lit ''s'')),
        (lit ''account'', JStr (lit ''a''))])]"

definition demo_config :: agent_config where
  "demo_config = \<lparr>cfg_name = lit ''x'', cfg_did = demo_did, cfg_fingerprint = id_fingerprint demo_identity,
     cfg_room = demo_room, cfg_base_url = demo_base, cfg_status = lit ''active'', cfg_created_at = lit ''t'',
     cfg_nonce = JStr (lit ''7''), cfg_seq = Some 3\<rparr>"

definition demo_state :: agent_state where
  "demo_state = \<lparr>cursors = [(demo_room, 3)], nonces = [(demo_room, 7)], generations = [], capability_requests = []\<rparr>"

definition demo_files :: filesystem where
  "demo_files = (\<lambda>p. None)(''/i'' := Some (fresh_file (Text 90 (Doc demo_identity_doc))),
     ''/c'' := Some (fresh_file (config_body demo_config)), ''/s'' := Some (fresh_file (state_body demo_state)),
     ''/p'' := Some (fresh_file (Text 90 (Doc demo_policy_doc))),
     ''/x'' := Some \<lparr>regular = True, mode = 448, owned = True, contents = Text 0 NotJson\<rparr>)"

definition demo_ready_world :: world where
  "demo_ready_world = demo_world\<lparr>fs := demo_files\<rparr>"

text \<open>Another process, 99, runs on the files of \<open>demo_ready_world\<close>.\<close>

definition demo_locked_world :: world where
  "demo_locked_world = demo_ready_world\<lparr>fs := demo_files(''/k'' \<mapsto> fresh_file (lock_body 99))\<rparr>"

lemma demo_file_at:
  "demo_files ''/i'' = Some (fresh_file (Text 90 (Doc demo_identity_doc)))"
  "demo_files ''/c'' = Some (fresh_file (config_body demo_config))"
  "demo_files ''/s'' = Some (fresh_file (state_body demo_state))"
  "demo_files ''/p'' = Some (fresh_file (Text 90 (Doc demo_policy_doc)))"
  "demo_files ''/x'' = Some \<lparr>regular = True, mode = 448, owned = True, contents = Text 0 NotJson\<rparr>"
  "demo_files ''/j'' = None" "demo_files ''/a'' = None" "demo_files ''/k'' = None" "demo_files ''/o'' = None"
  "demo_files ''/e'' = None" "fs demo_ready_world = demo_files" "held demo_ready_world = (\<lambda>p. False)"
  "tick demo_ready_world = 0" "says demo_ready_world = []"
  by (simp_all add: demo_files_def demo_ready_world_def demo_world_def says_def)

section \<open>What the agent reads from them\<close>

lemma gave_read:
  assumes "F p = Some f" "\<And>E. m E = ibind (on_error is_OSError (\<lambda>_. iraise e) (read_file E p)) (\<lambda>f. lift (g f))" "g f = Inr x"
  shows "gave m F x"
  by (rule gaveI [of _ demo_env "demo_world\<lparr>fs := F\<rparr>", simplified])
    (simp add: assms run_simps demo_env_def demo_world_def)

lemma demo_fingerprint: "fingerprint_of_did demo_lib demo_did = Inr (id_fingerprint demo_identity)"
  by (simp add: fingerprint_of_did_Inr demo_did demo_identity_def)

lemma demo_reads_identity: "gave (\<lambda>E. load_identity E demo_lib ''/i'') demo_files demo_identity"
proof -
  have "identity_of_json demo_lib (loads demo_identity_doc) = Inr demo_identity"
    by (simp add: demo_identity_doc_def identity_of_json_def dget_def validate_did_value_def validate_did_def demo_did
        demo_fingerprint raise_if_def dict_of_pairs_def)
      (simp add: demo_identity_def)
  then show ?thesis
    by (intro gaveI [of _ demo_env demo_ready_world, unfolded demo_file_at])
      (simp add: load_identity_def run_simps demo_file_at demo_env_def fresh_file_def parse_text_def)
qed

lemma demo_config_ok: "config_ok demo_lib demo_config"
  by (simp add: config_ok_def demo_config_def demo_did demo_room demo_base_url demo_fingerprint match_agent_name_def
      validate_nonce_value_def validate_nonce_def match_nonce_def char_class_defs lit_simps)
    (simp add: demo_identity_def)

lemma demo_reads_config: "gave (\<lambda>E. load_config E demo_lib ''/c'') demo_files demo_config"
  using config_file_roundtrip [OF demo_config_ok]
  by (intro gaveI [of _ demo_env demo_ready_world, unfolded demo_file_at])
    (simp add: load_config_def run_simps demo_file_at demo_env_def)

lemma demo_state_loadable: "state_loadable demo_state"
  by (simp add: state_loadable_def demo_state_def state_ok_def int_dict_ok_def keys_distinct_def demo_room_def
      MAX_STATE_PRINCIPALS_def)

lemma demo_reads_state: "gave (\<lambda>E. load_state E ''/s'') demo_files demo_state"
proof -
  have "state_in_file (fresh_file (state_body demo_state)) = Inr demo_state"
    using state_in_saved_file [OF demo_state_loadable] by (simp add: sort_state_def demo_state_def)
  then obtain v where "parse_text (StateError ''cannot read state file'')
      (body_doc (contents (fresh_file (state_body demo_state)))) = Inr v" "state_of_json v = Inr demo_state"
    by (auto simp: state_in_file_def res_simps)
  then show ?thesis
    by (intro gaveI [of _ demo_env demo_ready_world, unfolded demo_file_at])
      (simp add: load_state_def run_simps demo_file_at demo_env_def)
qed

lemma demo_reads_policy:
  "gave (\<lambda>E. load_policy E ''/p'') demo_files
     [(demo_peer, \<lparr>enabled = True, commands = [lit ''/ping''], repositories = [], max_requests = 3\<rparr>)]"
proof -
  have "parse_policy demo_policy_doc = Inr [(demo_peer, \<lparr>enabled = True, commands = [lit ''/ping''], repositories = [], max_requests = 3\<rparr>)]"
    by (simp add: parse_policy_def demo_policy_doc_def keys_are_def dget_def MAX_PRINCIPALS_def parse_principal_def validate_did_def
        demo_peer parse_grant_def parse_commands_def SUPPORTED_COMMANDS_def repository_scopes_def parse_rate_def int_at_least_def
        MAX_REQUESTS_PER_HOUR_def raise_if_def)
  moreover have "decode_policy (Doc demo_policy_doc) = Inr demo_policy_doc"
    by (simp add: decode_policy_def parse_bytes_def loads_strict_def) (simp add: demo_policy_doc_def)
  ultimately show ?thesis
    by (intro gaveI [of _ demo_env demo_ready_world, unfolded demo_file_at])
      (simp add: load_policy_def run_simps demo_file_at demo_env_def fresh_file_def raise_if_def group_or_other_def
        MAX_POLICY_BYTES_def)
qed

lemma demo_fit: "fit_to_run demo_lib demo_paths demo_files"
proof -
  have "config_fit demo_lib ''/c'' demo_files (Some demo_identity) (Some demo_config)"
    using demo_reads_config by (simp add: config_fit_def own_config_def demo_file_at) (simp add: demo_config_def demo_identity_def)
  moreover have "state_problems demo_config demo_state = []"
    by (simp add: state_problems_def demo_config_def demo_state_def nonce_int_def nat_of_str_def lit_simps)
  then have "state_fit ''/s'' demo_files (Some demo_config)" using demo_reads_state by (auto simp: state_fit_def)
  moreover have "audit_fit demo_lib ''/a'' demo_files (Some demo_identity)" by (simp add: audit_fit_def demo_file_at)
  ultimately show ?thesis
    using demo_reads_identity demo_reads_policy by (auto simp: fit_to_run_def demo_paths_def demo_file_at)
qed

section \<open>A LaunchAgent for them\<close>

definition demo_spec :: launch_agent_spec where
  "demo_spec = \<lparr>la_label = lit ''a.b'', la_executable = ''/x'', la_health_paths = demo_paths, la_stdout_path = ''/o'',
     la_stderr_path = ''/e'', la_expected_audit_head = None\<rparr>"

definition demo_answers :: launch_answers where
  "demo_answers = \<lparr>lx_resolve = Some, lx_parent = (\<lambda>p. ''/''), lx_directory = (\<lambda>t p. Some (True, 448, True))\<rparr>"

definition no_locks :: lock_table where
  "no_locks = (\<lambda>t p. False)"

definition demo_machine :: machine where
  "demo_machine = \<lparr>mc_env = demo_env, mc_lib = demo_lib, mc_locks = no_locks, mc_pid = 1,
     mc_keychain = (\<lambda>t k. KeychainText demo_seed),
     mc_paths = \<lparr>po_resolve = id, po_absolute = id, po_with_name = (\<lambda>p n. n)\<rparr>,
     mc_shop = demo_shop,
     mc_desk = \<lparr>dk_parent = (\<lambda>p. ''/''), dk_dir = (\<lambda>t p. None), dk_spawned = False,
       dk_turns = (\<lambda>n. \<lparr>tn_now = 0, tn_select = None, tn_read = ReadEIO, tn_echo_off = False, tn_writes = (\<lambda>k. None), tn_wait = None\<rparr>),
       dk_deadline = 0, dk_added = False, dk_delete = ItemDeleted\<rparr>,
     mc_launch = demo_answers, mc_reads = (\<lambda>t p. \<lparr>fr_before = None, fr_opened = None, fr_data = None, fr_after = None,
       fr_doc = NotJson, fr_constants = False\<rparr>)\<rparr>"

lemma demo_machine: "mc_env demo_machine = demo_env" "mc_lib demo_machine = demo_lib" "mc_locks demo_machine = no_locks"
  "po_resolve (mc_paths demo_machine) p = p" "mc_keychain demo_machine t k = KeychainText demo_seed"
  by (simp_all add: demo_machine_def)

lemma demo_ready:
  assumes "fs w = demo_files" "held w = (\<lambda>p. False)"
  shows "answers (inspect_operational_health demo_env demo_lib no_locks demo_paths None False)
     (\<lambda>r. hr_status r = ''ready'' \<and> hr_exit_code r = 0) w"
  by (rule fit_is_ready)
    (use demo_fit assms in \<open>auto simp: demo_calm private_at_def demo_file_at demo_paths_def no_locks_def\<close>)

lemma plist_text_total:
  assumes "\<And>s. s \<in> {la_label spec, lit (la_executable spec), lit (la_stdout_path spec), lit (la_stderr_path spec)}
      \<union> set (map lit (program_arguments spec)) \<Longrightarrow> list_all (\<lambda>c. 32 \<le> c) s"
  shows "\<exists>t. plist_text (agent_plist spec) = Inr t"
proof -
  have text_ok: "\<exists>t. plist_escape s = Inr t" if "list_all (\<lambda>c. 32 \<le> c) s" for s
    using that by (auto simp: plist_escape_def raise_if_def list_all_iff list_ex_iff)
  have args: "\<exists>ts. map_res (plist_value n) (map (\<lambda>a. PString (lit a)) as) = Inr ts"
    if "\<And>a. a \<in> set as \<Longrightarrow> list_all (\<lambda>c. 32 \<le> c) (lit a)" for n as
    using that
  proof (induction as)
    case (Cons a as)
    obtain t ts where "plist_escape (lit a) = Inr t" "map_res (plist_value n) (map (\<lambda>a. PString (lit a)) as) = Inr ts"
      using Cons text_ok [of "lit a"] by auto
    then show ?case by simp
  qed simp
  obtain t1 t2 t3 t4 where "plist_escape (la_label spec) = Inr t1" "plist_escape (lit (la_executable spec)) = Inr t2"
     "plist_escape (lit (la_stdout_path spec)) = Inr t3" "plist_escape (lit (la_stderr_path spec)) = Inr t4"
    using text_ok assms by (meson UnI1 insertI1 insertI2)
  moreover obtain ts where "map_res (plist_value 2) (map (\<lambda>a. PString (lit a)) (program_arguments spec)) = Inr ts"
    using args [of "program_arguments spec" 2] assms by auto
  moreover have "program_arguments spec \<noteq> []" by (simp add: program_arguments_def Let_def)
  moreover obtain u1 u2 u3 where "plist_escape (lit ''Background'') = Inr u1" "plist_escape (lit ''Aqua'') = Inr u2"
     "plist_escape (lit ''077'') = Inr u3"
    using text_ok [of "lit ''Background''"] text_ok [of "lit ''Aqua''"] text_ok [of "lit ''077''"] by (auto simp: lit_simps)
  ultimately show ?thesis
    by (simp add: plist_text_def agent_plist_def del: lit_simps flip: numeral_2_eq_2)
qed

lemma demo_rendered:
  "\<exists>t. fst (render_launch_agent demo_env demo_lib no_locks demo_answers demo_spec demo_ready_world) = Inr t"
proof -
  let ?w = "demo_ready_world\<lparr>tick := 5\<rparr>"
  have spec: "validate_spec demo_env demo_answers demo_spec demo_ready_world = (Inr (), ?w)"
    by (simp add: validate_spec_def demo_spec_def match_label_def lit_simps char_class_defs require_absolute_paths_def
        runtime_artifacts_def demo_paths_def is_absolute_def raise_if_def run_simps validate_executable_def lstat_file_def
        demo_env_def demo_file_at validate_log_destinations_def demo_answers_def validate_log_path_def
        validate_log_directory_def validate_existing_log_def)
  obtain r w' where r: "inspect_operational_health demo_env demo_lib no_locks demo_paths None False ?w = (Inr r, w')"
     "hr_exit_code r = 0"
    using demo_ready [of ?w] by (auto simp: answers_def demo_file_at)
  have "\<exists>t. plist_text (agent_plist demo_spec) = Inr t"
    by (rule plist_text_total) (auto simp: demo_spec_def program_arguments_def demo_paths_def lit_simps)
  then show ?thesis
    using r by (auto simp: render_launch_agent_def ibind_def spec raise_if_def lift_def) (auto simp: demo_spec_def)
qed

section \<open>A Keychain dialogue and a creation\<close>

definition demo_turn :: "nat \<Rightarrow> turn" where   \<comment> \<open>the two prompts, then the tool ends with exit code 0\<close>
  "demo_turn n = \<lparr>tn_now = (if n < 3 then 0 else 15), tn_select = Some (n < 2),
     tn_read = ReadChunk (if n = 0 then lit ''password data for new item:'' else lit ''retype password for new item:''),
     tn_echo_off = True, tn_writes = (\<lambda>k. Some 100), tn_wait = Some (n = 2, 0)\<rparr>"

definition demo_desk :: desk where
  "demo_desk = \<lparr>dk_parent = (\<lambda>p. ''/''), dk_dir = (\<lambda>t p. Some \<lparr>dm_directory = True, dm_mode = 448, dm_owned = True\<rparr>),
     dk_spawned = True, dk_turns = demo_turn, dk_deadline = 15, dk_added = True, dk_delete = ItemDeleted\<rparr>"

definition demo_writer :: seed_writer where
  "demo_writer = \<lparr>sw_service = lit ''s'', sw_account = lit ''a''\<rparr>"

lemma contains_itself: "contains_bytes bs bs"
  by (cases bs) simp_all

lemma demo_dialogue:
  assumes "length secret \<le> 99"
  shows "\<exists>s. run_hidden_keychain_prompt 5 True demo_turn secret 15 = Some (Inr (), s)"
proof -
  have w: "write_all (\<lambda>k. Some 100) 0 (secret @ [10]) = (secret @ [10], Inr ())"
    using assms by (simp add: write_all.simps [of _ _ "secret @ [10]"] write_all.simps [of _ _ "[]"])
  note d = session_step_def answer_if_ready_def read_keychain_prompt_def respond_to_prompt_def extend_buffer_def
    KEYCHAIN_PROMPT_BUFFER_BYTES_def KEYCHAIN_PASSWORD_PROMPTS_def contains_itself demo_turn_def say_event_def w
    open_session_def wipe_bytearray_def close_session_def session_end_def raise_if_def
  have five: "5 = Suc (Suc (Suc (Suc (Suc 0))))" by simp
  show ?thesis
    unfolding five by (simp add: run_hidden_keychain_prompt_def d Let_def)
qed

lemma demo_seed_key: "private_key_from_seed demo_seed = Inr demo_key"
  by (simp add: private_key_from_seed_def match_hex_seed_def demo_seed_def lit_simps demo_key_def replicate_numeral_Cons
      fold_char_def char_class_defs hex_value_def)

lemma demo_controller_record:
  "identity_of_json demo_lib (loads (JObj (controller_record (lit ''t'') demo_did (id_fingerprint demo_identity) demo_writer)))
     = Inr demo_identity"
  by (simp add: controller_record_def identity_of_json_def dget_def validate_did_value_def validate_did_def demo_did
      demo_fingerprint raise_if_def dict_of_pairs_def demo_writer_def)
    (simp add: demo_identity_def)

lemma demo_fault: "fault demo_env n = Fine"
  by (simp add: demo_env_def)

lemma demo_verified:
  assumes "fs w ''/n'' = None"
  shows "\<exists>w'. write_and_verify demo_env demo_lib ''/n''
     (controller_record (lit ''t'') demo_did (id_fingerprint demo_identity) demo_writer) demo_did demo_writer w
     = (Inr demo_identity, w')"
proof -
  have i: "id_did demo_identity = demo_did" "id_service demo_identity = sw_service demo_writer"
    "id_account demo_identity = sw_account demo_writer" by (simp_all add: demo_identity_def demo_writer_def)
  show ?thesis
    using assms demo_controller_record
    by (simp add: write_and_verify_def run_simps write_new_private_json_def Let_def load_controller_identity_def
        require_private_file_def private_file_or_def lstat_file_def private_metadata_def fresh_file_def group_or_other_def
        load_identity_def private_json_body_def parse_text_def demo_fault raise_if_def i)
qed

lemma demo_creation:
  "\<exists>w'. create_controller_identity demo_env demo_lib demo_desk 5 ''/n'' demo_writer demo_seed (lit ''t'') demo_world
     = (Inr demo_identity, w')"
proof -
  obtain s where s: "run_hidden_keychain_prompt 5 True demo_turn demo_seed 15 = Some (Inr (), s)"
    using demo_dialogue [of demo_seed] by (auto simp: demo_seed_def)
  have d: "dk_dir demo_desk t p = Some \<lparr>dm_directory = True, dm_mode = 448, dm_owned = True\<rparr>" "dk_spawned demo_desk"
    "dk_turns demo_desk = demo_turn" "dk_deadline demo_desk = 15" "dk_added demo_desk" for t p
    by (simp_all add: demo_desk_def)
  let ?w = "demo_world\<lparr>tick := 2, seeds := (seeds demo_world)(item_of demo_writer := Some demo_seed)\<rparr>"
  obtain w' where w': "write_and_verify demo_env demo_lib ''/n''
     (controller_record (lit ''t'') demo_did (id_fingerprint demo_identity) demo_writer) demo_did demo_writer ?w
     = (Inr demo_identity, w')"
    using demo_verified [of ?w] by (auto simp: demo_world_def)
  have dir: "require_private_directory demo_desk p w = (Inr (), w\<lparr>tick := Suc (tick w)\<rparr>)" for p w
    by (simp add: require_private_directory_def run_simps d raise_if_def)
  have there: "path_is_there demo_env ''/n'' w = (Inr (fs w ''/n'' \<noteq> None), w\<lparr>tick := Suc (tick w)\<rparr>)" for w
    by (simp add: path_is_there_def present_or_def lstat_file_def run_simps demo_fault)
  have store: "store_seed demo_desk 5 demo_writer demo_seed w
      = (Inr (), w\<lparr>seeds := (seeds w)(item_of demo_writer := Some demo_seed)\<rparr>)" for w
    by (simp add: store_seed_def run_simps demo_seed_key s d set_item_def)
  have fields: "fs demo_world = (\<lambda>p. None)" "tick demo_world = 0" by (simp_all add: demo_world_def)
  show ?thesis
    unfolding create_controller_identity_def write_or_undo_def
    by (simp add: ibind_def lift_def on_error_def dir there fields raise_if_def demo_seed_key demo_did demo_fingerprint store
        w' [unfolded numeral_2_eq_2])
qed

end
