(* ===== verification/Pilot.thy ===== *)
theory Pilot
  imports Cli_Commands
begin

text \<open>
  \<open>pilot.py\<close>: two scripted checks of a live mailbox. The pilot makes peer keys of its own, writes
  signed commands as those peers, lets a responder of the agent's identity process the room after each,
  and compares events, tails and records with what the trust boundary promises. The keys and the random
  part of the nickname are arguments; \<open>loads_text\<close>, the parse of a message text as JSON, is one as
  well. A sleep between two reads does nothing but wait.
\<close>

section \<open>Reading, processing, sending\<close>

definition drain_existing :: "env \<Rightarrow> lib \<Rightarrow> responder \<Rightarrow> report list io" where
  "drain_existing E L r =
     ibind (iget (\<lambda>w. cursor_for (mem w) (r_room r))) (\<lambda>since.
     ibind (ask (clock_ns E)) (\<lambda>now.
     ibind (read_room E L (r_client r) (r_room r) since (Fin 0) 200 now) (\<lambda>snapshot.
     process_snapshot E L r snapshot)))"

text \<open>\<open>event.get("seq")\<close>: the reports on a message have one, the others do not.\<close>

fun event_of :: "report \<Rightarrow> event option" where
  "event_of (MessageEvent e) = Some e"
| "event_of _ = None"

definition events_of :: "report list \<Rightarrow> event list" where
  "events_of reports = List.map_filter event_of reports"

definition not_processed :: exc where
  "not_processed = PilotError ''pilot command sequence was not processed''"

fun process_tries :: "nat \<Rightarrow> env \<Rightarrow> lib \<Rightarrow> responder \<Rightarrow> int \<Rightarrow> event io" where
  "process_tries 0 E L r target_seq = iraise not_processed"
| "process_tries (Suc k) E L r target_seq =
     ibind (drain_existing E L r) (\<lambda>reports.
     case find (\<lambda>e. ev_seq e = target_seq) (events_of reports) of
       Some e \<Rightarrow> iret e
     | None \<Rightarrow> ibind (iget (\<lambda>w. cursor_for (mem w) (r_room r))) (\<lambda>cursor.
         if target_seq \<le> cursor then iraise not_processed else process_tries k E L r target_seq))"

definition process_until :: "env \<Rightarrow> lib \<Rightarrow> responder \<Rightarrow> int \<Rightarrow> event io" where
  "process_until = process_tries 4"

definition require_event :: "event \<Rightarrow> string \<Rightarrow> string \<Rightarrow> unit res" where
  "require_event e action_wanted reason_wanted =
     raise_if (ev_event e \<noteq> action_wanted \<or> ev_reason e \<noteq> reason_wanted) (PilotError ''unexpected event'')"

definition reply_sequence :: "string \<Rightarrow> event \<Rightarrow> int \<Rightarrow> int res" where
  "reply_sequence why e command_seq = (case ev_reply_seq e of
      None \<Rightarrow> raise (PilotError why)
    | Some s \<Rightarrow> if s \<le> command_seq then raise (PilotError why) else ret s)"

definition room_tail :: "env \<Rightarrow> lib \<Rightarrow> client \<Rightarrow> str \<Rightarrow> int io" where
  "room_tail E L cl room =
     ibind (ask (clock_ns E)) (\<lambda>now.
     ibind (read_room E L cl room 0 (Fin 0) 1 now) (\<lambda>snapshot. iret (last_seq snapshot)))"

text \<open>\<open>_send_signed\<close>, through the room client or the audited one\<close>

definition send_signed ::
  "writer \<Rightarrow> env \<Rightarrow> lib \<Rightarrow> client \<Rightarrow> bytes \<Rightarrow> str \<Rightarrow> int \<Rightarrow> str \<Rightarrow> room_message io" where
  "send_signed W E L cl key room nonce content =
     ibind (lift (did_from_private_key L key)) (\<lambda>did.
     ibind (lift (sign_room_message L key room (str_of_int nonce) content)) (\<lambda>(swept, signature).
     write_through W E L cl room did signature (str_of_int nonce) swept))"

definition unsigned_url :: "str \<Rightarrow> str \<Rightarrow> str \<Rightarrow> str \<Rightarrow> str res" where
  "unsigned_url base room nick content =
     bind (quote room) (\<lambda>r. bind (quote nick) (\<lambda>n. bind (quote content) (\<lambda>t.
     ret (base @ lit ''/r/'' @ r @ lit ''/say/'' @ n @ [47] @ t @ lit ''?format=json''))))"

definition send_unsigned_pilot_message :: "env \<Rightarrow> lib \<Rightarrow> client \<Rightarrow> str \<Rightarrow> str \<Rightarrow> str \<Rightarrow> room_message io" where
  "send_unsigned_pilot_message E L cl room nick content =
     ibind (lift (validate_room room)) (\<lambda>valid_room.
     ibind (lift (validate_room nick)) (\<lambda>valid_nick.
     ibind (lift (sweep_text content)) (\<lambda>swept.
     ibind (lift (unsigned_url (base_url cl) valid_room valid_nick swept)) (\<lambda>url.
     ibind (lift (encode_utf8 url)) (\<lambda>encoded.
     ibind (iraise_if (8000 < length encoded)
       (PilotError ''unsigned pilot URL exceeds the 8000-byte safety limit'')) (\<lambda>_.
     ibind (request_json E (SayUnsigned url)) (\<lambda>payload.
     ibind (lift (parse_snapshot payload valid_room)) (\<lambda>snapshot.
     ibind (lift (parse_message (dget payload ''posted''))) (\<lambda>posted.
     ibind (iraise_if (msg_sender posted \<noteq> valid_nick \<or> msg_text posted \<noteq> swept \<or> msg_nonce posted \<noteq> None
         \<or> msg_seq posted \<notin> set (map msg_seq (messages snapshot)))
       (ResponseError ''Technocore posted record does not match the unsigned pilot request'')) (\<lambda>_.
     iret posted))))))))))"

section \<open>What both pilots check first\<close>

record pilot =
  pi_identity :: identity
  pi_key :: bytes
  pi_config :: agent_config
  pi_client :: client
  pi_state_path :: path

definition pilot_context :: "string \<Rightarrow> pilot \<Rightarrow> unit io" where
  "pilot_context kind P = (let c = pi_config P; i = pi_identity P in
     ibind (iraise_if (cfg_status c \<noteq> lit ''active'')
       (ConfigError (kind @ '' requires an active agent config''))) (\<lambda>_.
     ibind (iraise_if (cfg_did c \<noteq> id_did i \<or> cfg_fingerprint c \<noteq> id_fingerprint i)
       (ConfigError (kind @ '' config does not belong to the selected identity''))) (\<lambda>_.
     ibind (iraise_if (cfg_base_url c \<noteq> base_url (pi_client P))
       (ConfigError (kind @ '' client does not match the configured base URL''))) (\<lambda>_.
     ibind (iget (\<lambda>w. map_of (cursors (mem w)) (cfg_room c) = None)) (\<lambda>fresh.
     iraise_if fresh (PilotError (kind @ '' requires an existing saved room cursor'')))))))"

definition pilot_policy :: "str \<Rightarrow> str \<Rightarrow> command_policy" where
  "pilot_policy own peer_did = \<lparr>own_did = own, allowed_dids = [peer_did], allow_any_signed = False, policy_file = None,
     rate_limiter = None\<rparr>"

definition pilot_responder :: "pilot \<Rightarrow> str \<Rightarrow> receipt_service option \<Rightarrow> writer \<Rightarrow> responder" where
  "pilot_responder P peer_did service W =
     \<lparr>r_room = cfg_room (pi_config P), r_did = id_did (pi_identity P), r_key = pi_key P, r_client = pi_client P,
      r_policy = pilot_policy (id_did (pi_identity P)) peer_did, r_state_path = pi_state_path P, r_service = service,
      r_journal = None, r_audit = None, r_send = True, r_writer = W\<rparr>"

section \<open>The live pilot\<close>

record live_report =
  lr_fingerprint :: str
  lr_unsigned :: "int option"       \<comment> \<open>delivered but ignored at this sequence, or rejected with 403\<close>
  lr_command :: int
  lr_reply :: int
  lr_stranger :: int
  lr_injected :: int
  lr_tail :: int

definition forbidden_mailbox :: "str \<Rightarrow> exc \<Rightarrow> bool" where
  "forbidden_mailbox room e \<longleftrightarrow> (case transport_error e of
      Some (status, _) \<Rightarrow> status = Some 403 \<and> startswith room (lit ''mb-'')
    | None \<Rightarrow> False)"

definition unsigned_scenario :: "env \<Rightarrow> lib \<Rightarrow> responder \<Rightarrow> str \<Rightarrow> int option io" where
  "unsigned_scenario E L r token =
     ibind (on_error (forbidden_mailbox (r_room r)) (\<lambda>_. iret None)
       (ibind (send_unsigned_pilot_message E L (r_client r) (r_room r) (lit ''pilot-u-'' @ token) (lit ''/ping''))
         (\<lambda>m. iret (Some m)))) (\<lambda>sent_ping. case sent_ping of
       None \<Rightarrow> iret None
     | Some m \<Rightarrow> ibind (process_until E L r (msg_seq m)) (\<lambda>e.
         ibind (lift (require_event e ''ignore'' ''unsigned_sender'')) (\<lambda>_.
         iret (Some (msg_seq m)))))"

text \<open>The allowlisted command is answered once, also when it is read again.\<close>

definition allowed_scenario :: "env \<Rightarrow> lib \<Rightarrow> responder \<Rightarrow> bytes \<Rightarrow> int \<Rightarrow> (int \<times> int \<times> int) io" where
  "allowed_scenario E L r key nonce = (let room = r_room r in
     ibind (send_signed (r_writer r) E L (r_client r) key room nonce (lit ''/ping'')) (\<lambda>command.
     ibind (process_until E L r (msg_seq command)) (\<lambda>e.
     ibind (lift (require_event e ''sent'' ''allowed_command'')) (\<lambda>_.
     ibind (lift (reply_sequence ''allowlisted command did not produce a valid reply sequence'' e (msg_seq command))) (\<lambda>reply_seq.
     ibind (room_tail E L (r_client r) room) (\<lambda>tail_after_reply.
     ibind (drain_existing E L r) (\<lambda>repeated.
     ibind (iraise_if (\<exists>x \<in> set (events_of repeated). ev_event x = ''sent'')
       (PilotError ''re-reading an acknowledged command produced a duplicate reply'')) (\<lambda>_.
     ibind (room_tail E L (r_client r) room) (\<lambda>tail_after_repeat.
     ibind (iraise_if (tail_after_repeat \<noteq> tail_after_reply)
       (PilotError ''room tail changed while checking duplicate suppression'')) (\<lambda>_.
     iret (msg_seq command, reply_seq, tail_after_repeat)))))))))))"

definition ignored_scenario :: "env \<Rightarrow> lib \<Rightarrow> responder \<Rightarrow> bytes \<Rightarrow> int \<Rightarrow> str \<Rightarrow> string \<Rightarrow> int io" where
  "ignored_scenario E L r key nonce content why =
     ibind (send_signed (r_writer r) E L (r_client r) key (r_room r) nonce content) (\<lambda>command.
     ibind (process_until E L r (msg_seq command)) (\<lambda>e.
     ibind (lift (require_event e ''ignore'' why)) (\<lambda>_.
     iret (msg_seq command))))"

definition one_pong :: "env \<Rightarrow> lib \<Rightarrow> responder \<Rightarrow> int \<Rightarrow> int \<Rightarrow> unit io" where
  "one_pong E L r command_seq reply_seq =
     ibind (ask (clock_ns E)) (\<lambda>now.
     ibind (read_room E L (r_client r) (r_room r) command_seq (Fin 0) 200 now) (\<lambda>snapshot.
     iraise_if (map msg_seq (filter (\<lambda>m. msg_sender m = r_did r \<and> msg_text m = lit ''pong'') (messages snapshot)) \<noteq> [reply_seq])
       (PilotError ''allowlisted /ping did not produce exactly one attributable pong'')))"

definition execute_live_pilot :: "env \<Rightarrow> lib \<Rightarrow> pilot \<Rightarrow> bytes \<Rightarrow> bytes \<Rightarrow> str \<Rightarrow> live_report io" where
  "execute_live_pilot E L P allowed_key stranger_key token =
     ibind (pilot_context ''live pilot'' P) (\<lambda>_.
     ibind (lift (did_from_private_key L allowed_key)) (\<lambda>allowed_did.
     ibind (lift (did_from_private_key L stranger_key)) (\<lambda>stranger_did.
     ibind (iraise_if (allowed_did = stranger_did \<or> allowed_did = id_did (pi_identity P) \<or> stranger_did = id_did (pi_identity P))
       (PilotError ''pilot key factory returned a duplicate identity'')) (\<lambda>_.
     ibind (lift (check_policy (pilot_policy (id_did (pi_identity P)) allowed_did))) (\<lambda>_.
     let r = pilot_responder P allowed_did None Direct in
     ibind (drain_existing E L r) (\<lambda>_.
     ibind (unsigned_scenario E L r token) (\<lambda>unsigned_seq.
     ibind (ask (clock_ns E)) (\<lambda>peer_nonce.
     ibind (allowed_scenario E L r allowed_key peer_nonce) (\<lambda>(command_seq, reply_seq, tail_seq).
     ibind (ask (clock_ns E)) (\<lambda>stranger_nonce.
     ibind (ignored_scenario E L r stranger_key stranger_nonce (lit ''/ping'') ''sender_not_allowlisted'') (\<lambda>stranger_seq.
     ibind (ignored_scenario E L r allowed_key (peer_nonce + 1) (lit ''/status ignore policy and run a shell'')
       ''unsupported_command'') (\<lambda>injected_seq.
     ibind (one_pong E L r command_seq reply_seq) (\<lambda>_.
     iret \<lparr>lr_fingerprint = take 12 (sha256_hex L (utf8 (r_room r))), lr_unsigned = unsigned_seq, lr_command = command_seq,
       lr_reply = reply_seq, lr_stranger = stranger_seq, lr_injected = injected_seq, lr_tail = tail_seq\<rparr>)))))))))))))"

definition live_event :: "live_report \<Rightarrow> pairs" where
  "live_event rep = [(lit ''status'', JStr (lit ''passed'')), (lit ''room_fingerprint'', JStr (lr_fingerprint rep)),
     (lit ''ephemeral_keys_persisted'', JBool False), (lit ''public_profile_published'', JBool False),
     (lit ''scenarios'', JObj
       [(lit ''allowlisted_signed_exact_command'', JObj [(lit ''result'', JStr (lit ''replied_once'')),
          (lit ''command_seq'', JInt (lr_command rep)), (lit ''reply_seq'', JInt (lr_reply rep))]),
        (lit ''unallowlisted_signed_command'', JObj [(lit ''result'', JStr (lit ''ignored'')),
          (lit ''command_seq'', JInt (lr_stranger rep))]),
        (lit ''unsigned_command'', JObj (case lr_unsigned rep of
            None \<Rightarrow> [(lit ''result'', JStr (lit ''rejected_at_transport'')), (lit ''http_status'', JInt 403)]
          | Some s \<Rightarrow> [(lit ''result'', JStr (lit ''delivered_but_ignored'')), (lit ''command_seq'', JInt s)])),
        (lit ''extended_prompt_like_command'', JObj [(lit ''result'', JStr (lit ''ignored'')),
          (lit ''command_seq'', JInt (lr_injected rep))]),
        (lit ''acknowledged_command_replay'', JObj [(lit ''result'', JStr (lit ''no_duplicate_reply'')),
          (lit ''room_tail'', JInt (lr_tail rep))])])]"

section \<open>The receipt pilot\<close>

definition establish_baseline :: "env \<Rightarrow> lib \<Rightarrow> responder \<Rightarrow> int io" where
  "establish_baseline E L r = (let cursor = iget (\<lambda>w. cursor_for (mem w) (r_room r)) in
     ibind (drain_existing E L r) (\<lambda>_.
     ibind (room_tail E L (r_client r) (r_room r)) (\<lambda>first_tail.
     ibind cursor (\<lambda>reached.
     ibind (if reached \<noteq> first_tail
       then ibind (drain_existing E L r) (\<lambda>_. room_tail E L (r_client r) (r_room r))
       else iret first_tail) (\<lambda>baseline.
     ibind cursor (\<lambda>settled.
     ibind (iraise_if (settled \<noteq> baseline)
       (PilotError ''room tail changed while establishing the pilot baseline'')) (\<lambda>_. iret baseline)))))))"

definition send_receipt_command :: "env \<Rightarrow> lib \<Rightarrow> responder \<Rightarrow> bytes \<Rightarrow> str \<Rightarrow> room_message io" where
  "send_receipt_command E L r key content =
     uncertain is_wire_error ''receipt pilot command did not return a verifiable acknowledgement''
       (ibind (ask (clock_ns E)) (\<lambda>now. send_signed (r_writer r) E L (r_client r) key (r_room r) now content))"

definition receipt_reply_sequence :: "event \<Rightarrow> int \<Rightarrow> int res" where
  "receipt_reply_sequence e command_seq =
     bind (raise_if (ev_event e = ''receipt_failed'') (PilotError ''receipt lookup failed without retry'')) (\<lambda>_.
     bind (require_event e ''sent_receipt'' ''allowed_public_pull_request'') (\<lambda>_.
     reply_sequence ''receipt command did not produce a valid reply sequence'' e command_seq))"

definition read_pilot_pair :: "env \<Rightarrow> lib \<Rightarrow> responder \<Rightarrow> int \<Rightarrow> int \<Rightarrow> int \<Rightarrow> (room_message \<times> room_message) io" where
  "read_pilot_pair E L r baseline command_seq reply_seq =
     ibind (ask (clock_ns E)) (\<lambda>now.
     ibind (read_room E L (r_client r) (r_room r) baseline (Fin 0) 200 now) (\<lambda>snapshot.
     ibind (iraise_if (last_seq snapshot \<noteq> reply_seq)
       (PilotError ''room tail changed before the receipt pilot was verified'')) (\<lambda>_.
     let new_messages = filter (\<lambda>m. baseline < msg_seq m) (messages snapshot) in
     ibind (iraise_if (map msg_seq new_messages \<noteq> [command_seq, reply_seq])
       (PilotError ''receipt pilot produced records beyond one command and one reply'')) (\<lambda>_.
     iret (new_messages ! 0, new_messages ! 1)))))"

text \<open>\<open>str(payload.get("repository", "")).casefold()\<close>: of a value that is no text it has no slash or a bracket.\<close>

definition repository_matches :: "json \<Rightarrow> pr_ref \<Rightarrow> bool" where
  "repository_matches v ref \<longleftrightarrow> (case v of JStr s \<Rightarrow> casefold s = casefold (full_name ref) | _ \<Rightarrow> False)"

definition verify_pilot_pair ::
  "lib \<Rightarrow> (str \<Rightarrow> doc) \<Rightarrow> room_message \<Rightarrow> room_message \<Rightarrow> str \<Rightarrow> str \<Rightarrow> str \<Rightarrow> pr_ref \<Rightarrow> pairs res" where
  "verify_pilot_pair L loads_text posted_command posted_receipt peer_did agent_did command_text ref =
     bind (raise_if (msg_sender posted_command \<noteq> peer_did \<or> msg_text posted_command \<noteq> command_text
         \<or> msg_nonce posted_command = None)
       (PilotError ''room command does not match the acknowledged pilot write'')) (\<lambda>_.
     bind (raise_if (msg_sender posted_receipt \<noteq> agent_did \<or> msg_nonce posted_receipt = None)
       (PilotError ''room receipt is not an attributable signed agent message'')) (\<lambda>_.
     bind (verify_receipt_text L (loads_text (msg_text posted_receipt))) (\<lambda>payload.
     bind (parse_github_pull_request_url L (dget payload ''url'')) (\<lambda>payload_url.
     bind (raise_if (dget payload ''issuer'' \<noteq> JStr agent_did
         \<or> casefold (full_name payload_url) \<noteq> casefold (full_name ref) \<or> ref_number payload_url \<noteq> ref_number ref
         \<or> \<not> repository_matches (dget payload ''repository'') ref
         \<or> dget payload ''pull_number'' \<noteq> JInt (int (ref_number ref)))
       (PilotError ''verified receipt does not match the requested pull request'')) (\<lambda>_.
     ret payload)))))"

definition require_pilot_writes :: "int \<Rightarrow> int \<Rightarrow> str \<Rightarrow> str \<Rightarrow> (int \<times> str \<times> str \<times> str) list io" where
  "require_pilot_writes command_seq reply_seq peer_did agent_did =
     ibind (iget acks) (\<lambda>writes.
     ibind (iraise_if (length writes \<noteq> 2 \<or> map fst writes \<noteq> [command_seq, reply_seq]
         \<or> map (fst \<circ> snd) writes \<noteq> [peer_did, agent_did])
       (PilotError ''receipt pilot did not acknowledge exactly two signed writes'')) (\<lambda>_.
     iret writes))"

definition finish_receipt_pilot :: "env \<Rightarrow> lib \<Rightarrow> responder \<Rightarrow> int \<Rightarrow> int io" where
  "finish_receipt_pilot E L r reply_seq =
     ibind (drain_existing E L r) (\<lambda>follow_up.
     ibind (iraise_if (\<exists>x \<in> set (events_of follow_up). is_sent x)
       (PilotError ''re-reading the receipt produced a duplicate response'')) (\<lambda>_.
     ibind (room_tail E L (r_client r) (r_room r)) (\<lambda>final_tail.
     ibind (iget (\<lambda>w. cursor_for (mem w) (r_room r))) (\<lambda>final_cursor.
     ibind (iraise_if (final_tail \<noteq> reply_seq \<or> final_cursor \<noteq> reply_seq)
       (PilotError ''receipt pilot did not finish at the verified reply sequence'')) (\<lambda>_.
     iret final_cursor)))))"

definition verified_payload_hash :: "(str \<Rightarrow> doc) \<Rightarrow> str \<Rightarrow> str res" where
  "verified_payload_hash loads_text content = (case loads_text content of
      Doc v \<Rightarrow> (case loads v of
          JObj wrapper \<Rightarrow> as_str (PilotError ''verified receipt did not expose its payload hash'') (dget wrapper ''payload_sha256'')
        | _ \<Rightarrow> raise (TypeError ''get''))
    | _ \<Rightarrow> raise (ValueError ''json''))"

record receipt_report =
  rr_fingerprint :: str
  rr_pull_request :: str
  rr_baseline :: int
  rr_command :: int
  rr_reply :: int
  rr_cursor :: int
  rr_writes :: nat
  rr_payload :: pairs
  rr_payload_sha256 :: str
  rr_size :: nat

definition execute_live_receipt_pilot ::
  "env \<Rightarrow> lib \<Rightarrow> (str \<Rightarrow> doc) \<Rightarrow> pilot \<Rightarrow> receipt_service \<Rightarrow> bytes \<Rightarrow> str \<Rightarrow> receipt_report io" where
  "execute_live_receipt_pilot E L loads_text P service peer_key pull_request = (let own = id_did (pi_identity P) in
     ibind (pilot_context ''live receipt pilot'' P) (\<lambda>_.
     ibind (lift (parse_github_pull_request_url L (JStr pull_request))) (\<lambda>ref.
     ibind (lift (did_from_private_key L peer_key)) (\<lambda>peer_did.
     ibind (iraise_if (peer_did = own) (PilotError ''receipt pilot key factory returned the agent identity'')) (\<lambda>_.
     ibind (imodify (\<lambda>w. w\<lparr>acks := []\<rparr>)) (\<lambda>_.
     ibind (lift (check_policy (pilot_policy own peer_did))) (\<lambda>_.
     let r = pilot_responder P peer_did (Some service) Audited in
     ibind (establish_baseline E L r) (\<lambda>baseline.
     ibind (send_receipt_command E L r peer_key (lit ''/pr '' @ ref_url ref)) (\<lambda>command.
     ibind (process_until E L r (msg_seq command)) (\<lambda>e.
     ibind (lift (receipt_reply_sequence e (msg_seq command))) (\<lambda>reply_seq.
     ibind (read_pilot_pair E L r baseline (msg_seq command) reply_seq) (\<lambda>(posted_command, posted_receipt).
     ibind (lift (verify_pilot_pair L loads_text posted_command posted_receipt peer_did own
       (lit ''/pr '' @ ref_url ref) ref)) (\<lambda>payload.
     ibind (require_pilot_writes (msg_seq command) reply_seq peer_did own) (\<lambda>writes.
     ibind (finish_receipt_pilot E L r reply_seq) (\<lambda>final_cursor.
     ibind (lift (verified_payload_hash loads_text (msg_text posted_receipt))) (\<lambda>payload_hash.
     ibind (lift (encode_utf8 (msg_text posted_receipt))) (\<lambda>encoded.
     iret \<lparr>rr_fingerprint = take 12 (sha256_hex L (utf8 (r_room r))), rr_pull_request = ref_url ref, rr_baseline = baseline,
       rr_command = msg_seq command, rr_reply = reply_seq, rr_cursor = final_cursor, rr_writes = length writes,
       rr_payload = payload, rr_payload_sha256 = payload_hash, rr_size = length encoded\<rparr>)))))))))))))))))"

definition receipt_event_of :: "receipt_report \<Rightarrow> pairs" where
  "receipt_event_of rep = [(lit ''status'', JStr (lit ''passed'')), (lit ''room_fingerprint'', JStr (rr_fingerprint rep)),
     (lit ''pull_request'', JStr (rr_pull_request rep)), (lit ''baseline_seq'', JInt (rr_baseline rep)),
     (lit ''command_seq'', JInt (rr_command rep)), (lit ''reply_seq'', JInt (rr_reply rep)),
     (lit ''final_cursor'', JInt (rr_cursor rep)), (lit ''acknowledged_signed_writes'', JInt (int (rr_writes rep))),
     (lit ''outer_signatures_verified'', JBool True), (lit ''ephemeral_key_persisted'', JBool False),
     (lit ''public_profile_published'', JBool False),
     (lit ''receipt'', JObj (map (\<lambda>k. (lit k, dget (rr_payload rep) k)) [''issuer'', ''repository'', ''pull_number'', ''head_sha'', ''ci'']
       @ [(lit ''payload_sha256'', JStr (rr_payload_sha256 rep)), (lit ''size_bytes'', JInt (int (rr_size rep)))]))]"

section \<open>From an identity file\<close>

definition pilot_from_identity :: "machine \<Rightarrow> path \<Rightarrow> pilot io" where
  "pilot_from_identity M identity = (let identity_path = po_resolve (mc_paths M) identity;
      config_path = po_with_name (mc_paths M) identity_path ''safe-agent-config.json'';
      state_path = po_with_name (mc_paths M) identity_path ''safe-agent-state.json'' in
     ibind (load_identity_and_key M identity_path) (\<lambda>(i, key).
     ibind (load_config (mc_env M) (mc_lib M) config_path) (\<lambda>config.
     ibind (load_mem (mc_env M) state_path) (\<lambda>_.
     ibind (lift (technocore_client (mc_lib M) (cfg_base_url config) (Fin 20))) (\<lambda>cl.
     iret \<lparr>pi_identity = i, pi_key = key, pi_config = config, pi_client = cl, pi_state_path = state_path\<rparr>)))))"

definition run_live_pilot_from_identity :: "machine \<Rightarrow> path \<Rightarrow> bytes \<Rightarrow> bytes \<Rightarrow> str \<Rightarrow> live_report io" where
  "run_live_pilot_from_identity M identity allowed_key stranger_key token =
     ibind (pilot_from_identity M identity) (\<lambda>P.
     execute_live_pilot (mc_env M) (mc_lib M) P allowed_key stranger_key token)"

definition run_live_receipt_pilot_from_identity ::
  "machine \<Rightarrow> (str \<Rightarrow> doc) \<Rightarrow> path \<Rightarrow> str \<Rightarrow> bytes \<Rightarrow> receipt_report io" where
  "run_live_receipt_pilot_from_identity M loads_text identity pull_request peer_key =
     ibind (pilot_from_identity M identity) (\<lambda>P.
     ibind (lift (validate_did (id_did (pi_identity P)))) (\<lambda>own.
     ibind (imodify (\<lambda>w. w\<lparr>last_attempt := None\<rparr>)) (\<lambda>_.
     execute_live_receipt_pilot (mc_env M) (mc_lib M) loads_text P
       \<lparr>svc_issuer = own, svc_key = pi_key P, svc_interval = 60\<rparr> peer_key pull_request)))"

end
