(* ===== verification/Pilot_Safety.thy ===== *)
theory Pilot_Safety
  imports Pilot
begin

text \<open>
  What a pilot writes. A responder without a journal, an audit log or a capability file writes only
  through \<open>send_text\<close>, and its reports tell how often: the locale \<open>talker\<close> proves that once, from what
  one write does, and is used twice, for the audited client (every write has its note) and for the
  fixed replies. From these the pilots' own writes are counted.
\<close>

section \<open>Code that writes nothing\<close>

definition unsaid :: "world \<Rightarrow> world \<Rightarrow> bool" where
  "unsaid w w' \<longleftrightarrow> says w' = says w \<and> acks w' = acks w"

interpretation unsaid: world_order unsaid
  by unfold_locales (auto simp: unsaid_def)

lemma unsaid_wp: "unsaid.grows m \<longleftrightarrow> (\<forall>w. wp m (\<lambda>_. unsaid w) (\<lambda>_. unsaid w) w)"
  by (simp add: unsaid.grows_def wp_always)

lemma acks_says [simp]: "says (w\<lparr>acks := a\<rparr>) = says w"
  by (simp add: says_def)

lemma unsaid_update: "unsaid.grows (update_mem f)" "unsaid.grows (update_mem_unit g)"
  unfolding unsaid_wp by (auto simp: wp_simps unsaid_def split: sum.split)

lemma unsaid_exchange:
  assumes "case q of SaySigned u \<Rightarrow> False | _ \<Rightarrow> True"
  shows "unsaid.grows (exchange answers E q)"
  unfolding unsaid_wp exchange_def record_request_def
  using assms by (auto simp: wp_simps unsaid_def says_def split: io_fault.split request.splits)

lemma unsaid_request_json:
  "case q of SaySigned u \<Rightarrow> False | _ \<Rightarrow> True \<Longrightarrow> unsaid.grows (request_json E q)"
  unfolding request_json_def by (intro unsaid.grows_intros unsaid_exchange)

lemma unsaid_read_room: "unsaid.grows (read_room E L c room since wait limit n)"
  unfolding read_room_def by (intro unsaid.grows_intros unsaid_request_json) simp

lemma unsaid_save_mem: "unsaid.grows (save_mem E p)"
  unfolding unsaid_wp save_mem_def save_state_def atomic_write_def
  by (auto simp: wp_simps unsaid_def says_def split: io_fault.split)

lemma unsaid_issue: "unsaid.grows (issue E L svc url)"
proof -
  have q: "unsaid.grows (request_object E p)" for p
    unfolding request_object_def by (intro unsaid.grows_intros unsaid_exchange) simp
  have a: "unsaid.grows (reserve_attempt i now)" for i now
    unfolding reserve_attempt_def
    by (intro unsaid.grows_intros) (simp add: unsaid_wp wp_simps unsaid_def)
  show ?thesis
    unfolding issue_def inspect_def Let_def by (intro unsaid.grows_intros q a)
qed

lemma unsaid_try_issue: "unsaid.grows (try_issue E L svc url)"
  unfolding try_issue_def by (intro unsaid.grows_intros unsaid_issue)

lemma unsaid_room_tail: "unsaid.grows (room_tail E L c room)"
  unfolding room_tail_def by (intro unsaid.grows_intros unsaid_read_room)

lemma pure_decide:
  assumes "policy_file p = None"
  shows "wp (decide E L p m) (\<lambda>d w'. w' = w \<and> action d \<in> {''ignore'', ''reply'', ''receipt''} \<and> (case reply d of None \<Rightarrow> True | Some a \<Rightarrow> \<exists>n. reply_for n = Some a))
    (\<lambda>_ w'. w' = w) w"
  using assms
  by (auto simp: decide_def authorize_sender_def policy_grant_def decide_authorized_command_def parse_command_def wp_simps
      split: option.split sum.split)

section \<open>A responder that writes through one operation\<close>

definition sends :: "event \<Rightarrow> nat" where
  "sends e = (if is_sent e then 1 else 0)"

definition sent_count :: "report list \<Rightarrow> nat" where
  "sent_count es = length (filter is_sent (events_of es))"

lemma sent_count_simps [simp]:
  "sent_count [] = 0" "sent_count (MessageEvent e # es) = sends e + sent_count es"
  "sent_count (GenerationChanged a b # es) = sent_count es" "sent_count (RetentionGap c d # es) = sent_count es"
  "sent_count (CursorAdvanced c d # es) = sent_count es" "sent_count (xs @ ys) = sent_count xs + sent_count ys"
  by (simp_all add: sent_count_def events_of_def List.map_filter_def sends_def)

text \<open>
  \<open>Q n\<close> relates the worlds before and after code that returned having written \<open>n\<close> times, \<open>X\<close> those
  before and after code that raised. \<open>allowed\<close> are the texts the responder may be made to send.
\<close>

locale talker =
  fixes E :: env and L :: lib and r :: responder and Q :: "nat \<Rightarrow> world \<Rightarrow> world \<Rightarrow> bool"
    and X :: "world \<Rightarrow> world \<Rightarrow> bool" and allowed :: "str \<Rightarrow> bool"
  assumes unsaid_step: "unsaid v w \<Longrightarrow> Q 0 v w"
    and steps: "Q m u v \<Longrightarrow> Q n v w \<Longrightarrow> Q (m + n) u w"
    and fails: "Q n v w \<Longrightarrow> X v w"
    and fails_later: "Q n u v \<Longrightarrow> X v w \<Longrightarrow> X u w"
    and speaks: "allowed content \<Longrightarrow> wp (send_text E L r content k) (\<lambda>_. Q 1 w) (\<lambda>_. X w) w"
    and plain: "r_journal r = None" "r_audit r = None" "r_send r" "policy_file (r_policy r) = None"
    and service: "r_service r = None \<or> (\<forall>content. allowed content)"
    and replies: "reply_for name = Some answer \<Longrightarrow> allowed answer"
begin

lemma silent: "unsaid.grows m \<Longrightarrow> wp m (\<lambda>_. Q 0 w) (\<lambda>_. X w) w"
  by (rule wp_mono [OF unsaid.wp_grows]) (auto intro: unsaid_step fails)

lemma after:
  assumes "Q m u v" and "wp h (\<lambda>x. Q (f x) v) (\<lambda>_. X v) v"
  shows "wp h (\<lambda>x. Q (m + f x) u) (\<lambda>_. X u) v"
  by (rule wp_mono [OF assms(2)]) (use steps [OF assms(1)] fails_later [OF assms(1)] in auto)

lemma silent_then:
  assumes "unsaid.grows m" and "\<And>x v. Q 0 w v \<Longrightarrow> wp (h x) (\<lambda>y. Q (f y) w) (\<lambda>_. X w) v"
  shows "wp (ibind m h) (\<lambda>y. Q (f y) w) (\<lambda>_. X w) w"
  unfolding wp_ibind by (rule wp_mono [OF silent [OF assms(1)]]) (rule assms(2))

lemma then_silent:
  assumes "Q n w v" and "unsaid.grows m"
  shows "wp m (\<lambda>_. Q n w) (\<lambda>_. X w) v"
  using after [OF assms(1) silent [OF assms(2)]] by simp

lemma sends_once:
  assumes "Q 0 w v" and "allowed content"
  shows "wp (send_text E L r content k) (\<lambda>_. Q 1 w) (\<lambda>_. X w) v"
  using after [OF assms(1) speaks [OF assms(2)]] by simp

lemma event_counted:
  "wp (event_for_message E L r m) (\<lambda>e. Q (sends e) w) (\<lambda>_. X w) w"
proof -
  have here: "Q 0 w w" by (rule unsaid_step) (simp add: unsaid_def)
  have told: "wp (reply_event E L r (base_event m d) k t a) (\<lambda>e. Q (sends e) w) (\<lambda>_. X w) w"
    if "reply_for n = Some a" for d k t a n
    using sends_once [OF here replies [OF that]] by (simp add: reply_event_def plain wp_simps sends_def is_sent_def)
  have issued: "wp (receipt_event E L r (base_event m d) k u) (\<lambda>e. Q (sends e) w) (\<lambda>_. X w) w" for d k u
  proof (cases "r_service r")
    case None
    then show ?thesis using fails [OF here] by (simp add: receipt_event_def plain wp_simps)
  next
    case (Some svc)
    with service have any: "allowed c" for c by simp
    have "wp (ibind (try_issue E L svc u) (\<lambda>outcome. case outcome of
            Inl err \<Rightarrow> iret ((base_event m d)\<lparr>ev_event := ''receipt_failed'', ev_pull_request := Some u, ev_error := error_fields err\<rparr>)
          | Inr receipt \<Rightarrow> ibind (send_text E L r receipt k) (\<lambda>posted.
              iret ((base_event m d)\<lparr>ev_event := ''sent_receipt'', ev_reply_seq := Some (msg_seq posted),
                ev_pull_request := Some u, ev_receipt_sha256 := Some (sha256_hex L (utf8 receipt))\<rparr>))))
        (\<lambda>e. Q (sends e) w) (\<lambda>_. X w) w"
    proof (rule silent_then [OF unsaid_try_issue])
      fix outcome :: "exc + nat list" and v assume v: "Q 0 w v"
      show "wp (case outcome of
            Inl err \<Rightarrow> iret ((base_event m d)\<lparr>ev_event := ''receipt_failed'', ev_pull_request := Some u, ev_error := error_fields err\<rparr>)
          | Inr receipt \<Rightarrow> ibind (send_text E L r receipt k) (\<lambda>posted.
              iret ((base_event m d)\<lparr>ev_event := ''sent_receipt'', ev_reply_seq := Some (msg_seq posted),
                ev_pull_request := Some u, ev_receipt_sha256 := Some (sha256_hex L (utf8 receipt))\<rparr>)))
          (\<lambda>e. Q (sends e) w) (\<lambda>_. X w) v"
        using v sends_once [OF v any] by (cases outcome) (simp_all add: wp_simps sends_def is_sent_def)
    qed
    then show ?thesis by (simp add: receipt_event_def plain Some)
  qed
  have none: "sends (base_event m d) = 0" if "action d \<in> {''ignore'', ''reply'', ''receipt''}" for d
    using that by (auto simp: sends_def base_event_def is_sent_def)
  show ?thesis
    unfolding event_for_message_def wp_ibind
    by (rule wp_mono [OF pure_decide [OF plain(4)]])
      (use here fails [OF here] told issued none in \<open>auto simp: Let_def wp_simps\<close>)
qed

lemma persist_silent: "unsaid.grows (persist_processed_message E L r m e)"
  unfolding persist_processed_message_def plain uncertain_def
  by (auto intro!: unsaid.grows_intros unsaid_update unsaid_save_mem)

lemma messages_counted:
  "wp (process_messages E L r cursor ms) (\<lambda>x. Q (sent_count (Product_Type.snd x)) w) (\<lambda>_. X w) w"
proof (induction ms arbitrary: cursor w)
  case Nil
  then show ?case by (simp add: wp_simps unsaid_step unsaid_def)
next
  case (Cons m ms)
  have rest: "wp (process_messages E L r (msg_seq m) ms) (\<lambda>x. Q (sends e + sent_count (Product_Type.snd x)) w) (\<lambda>_. X w) v"
    if "Q (sends e) w v" for e :: event and v
    by (rule after [OF that Cons.IH])
  have "wp (event_for_message E L r m) (\<lambda>e. wp (persist_processed_message E L r m e)
       (\<lambda>_. wp (process_messages E L r (msg_seq m) ms)
         (\<lambda>x. Q (sends e + sent_count (Product_Type.snd x)) w) (\<lambda>_. X w)) (\<lambda>_. X w)) (\<lambda>_. X w) w"
  proof (rule wp_mono [OF event_counted])
    fix e v assume v: "Q (sends e) w v"
    show "wp (persist_processed_message E L r m e) (\<lambda>_. wp (process_messages E L r (msg_seq m) ms)
         (\<lambda>x. Q (sends e + sent_count (Product_Type.snd x)) w) (\<lambda>_. X w)) (\<lambda>_. X w) v"
      by (rule wp_mono [OF then_silent [OF v persist_silent]]) (use rest in simp_all)
  qed simp
  then show ?case
    using Cons.IH [of cursor] by (simp add: wp_simps wp_ibind_eta wp_iret_eta split_def)
qed

lemma counted_then:
  assumes "wp m (\<lambda>x. Q (f x) w) (\<lambda>_. X w) v"
    and "\<And>x u. Q (f x) w u \<Longrightarrow> wp (h x) (\<lambda>y. Q (g y) w) (\<lambda>_. X w) u"
  shows "wp (ibind m h) (\<lambda>y. Q (g y) w) (\<lambda>_. X w) v"
  unfolding wp_ibind by (rule wp_mono [OF assms(1)]) (rule assms(2), simp_all)

lemma then_silently:
  assumes "Q n w v" and "unsaid.grows m" and "\<And>x u. Q n w u \<Longrightarrow> wp (h x) (\<lambda>y. Q (g y) w) (\<lambda>_. X w) u"
  shows "wp (ibind m h) (\<lambda>y. Q (g y) w) (\<lambda>_. X w) v"
  by (rule counted_then [OF then_silent [OF assms(1,2)]]) (rule assms(3))

lemma snapshot_counted: "wp (process_snapshot E L r snap) (\<lambda>es. Q (sent_count es) w) (\<lambda>_. X w) w"
proof -
  have here: "Q 0 w w" by (rule unsaid_step) (simp add: unsaid_def)
  have saved: "unsaid.grows (save_if_sending E r)"
    unfolding save_if_sending_def by (intro unsaid.grows_intros unsaid_save_mem)
  have messages: "wp (process_messages E L r cursor ms) (\<lambda>x. Q (sent_count (Product_Type.snd x)) w) (\<lambda>_. X w) v"
    if "Q 0 w v" for cursor ms v
    using after [OF that messages_counted] by simp
  have skipping: "wp (if c then ibind (update_mem_unit h) (\<lambda>_. ibind (save_if_sending E r) (\<lambda>_. iret [CursorAdvanced a b])) else iret [])
      (\<lambda>s. Q (n + sent_count s) w) (\<lambda>_. X w) v" if "Q n w v" for c h a b n v
    using that by (auto simp: wp_simps intro!: then_silently [OF _ unsaid_update(2)] then_silently [OF _ saved]
        simp del: wp_ibind)
  show ?thesis
    unfolding process_snapshot_def
    apply (rule then_silently [OF here], intro unsaid.grows_intros)
    apply (rule then_silently, assumption, intro unsaid.grows_intros)
    apply (rule then_silently, assumption, intro unsaid.grows_intros unsaid_update)
    apply (rule then_silently, assumption, intro unsaid.grows_intros)
    apply (rule counted_then, erule messages)
    subgoal for _ _ _ _ _ _ _ _ x u
      apply (cases x, simp only: prod.case snd_conv)
      apply (rule counted_then, erule skipping)
      apply (rule then_silently, assumption, intro unsaid.grows_intros saved)
      apply (simp add: wp_simps)
      done
    done
qed

lemma drain_counted: "wp (drain_existing E L r) (\<lambda>es. Q (sent_count es) w) (\<lambda>_. X w) w"
proof -
  have here: "Q 0 w w" by (rule unsaid_step) (simp add: unsaid_def)
  have "wp (process_snapshot E L r snap) (\<lambda>es. Q (sent_count es) w) (\<lambda>_. X w) v" if "Q 0 w v" for snap v
    using after [OF that snapshot_counted] by simp
  then show ?thesis
    unfolding drain_existing_def
    by (intro then_silently [OF here] then_silently unsaid.grows_intros unsaid_read_room)
qed

lemma tries_counted: "wp (process_tries k E L r t) (\<lambda>_ w'. \<exists>n. Q n w w') (\<lambda>_. X w) w"
proof (induction k arbitrary: w)
  case 0
  then show ?case by (simp add: wp_simps) (rule fails, rule unsaid_step, simp add: unsaid_def)
next
  case (Suc k)
  have again: "wp (process_tries k E L r t) (\<lambda>_ w'. \<exists>n. Q n w w') (\<lambda>_. X w) v" if "Q n w v" for n v
    by (rule wp_mono [OF Suc.IH]) (use steps [OF that] fails_later [OF that] in blast)+
  show ?case
    unfolding process_tries.simps wp_ibind
    by (rule wp_mono [OF drain_counted])
      (auto simp: wp_simps split: option.split intro: again fails)
qed

end

section \<open>Through the audited client every write has its note\<close>

definition wrote :: "lib \<Rightarrow> client \<Rightarrow> str \<Rightarrow> int \<times> str \<times> str \<times> str \<Rightarrow> request \<times> filesystem \<Rightarrow> bool" where
  "wrote L c room = (\<lambda>(s, did, nonce, content) x. \<exists>payload sig url.
     encode_utf8 (canonical_message room nonce content) = Inr payload \<and> verify_detached_signature L did payload sig
     \<and> say_url (base_url c) room did sig nonce content = Inr url \<and> fst x = SaySigned url)"

definition all_noted :: "lib \<Rightarrow> client \<Rightarrow> str \<Rightarrow> str \<Rightarrow> nat \<Rightarrow> world \<Rightarrow> world \<Rightarrow> bool" where
  "all_noted L c room own n w w' \<longleftrightarrow> (\<exists>xs ns. says w' = says w @ xs \<and> acks w' = acks w @ ns \<and> length ns = n
     \<and> list_all2 (wrote L c room) ns xs \<and> list_all (\<lambda>(s, did, nonce, content). did = own) ns)"

lemma noted_trans:
  assumes "all_noted L c room own m u v" and "all_noted L c room own n v w"
  shows "all_noted L c room own (m + n) u w"
  using assms unfolding all_noted_def
  by (elim exE conjE) (intro exI conjI, simp, simp, simp, (rule list_all2_appendI, assumption, assumption), simp)

lemma noted_0: "unsaid v w \<Longrightarrow> all_noted L c room own 0 v w"
  by (simp add: all_noted_def unsaid_def)

lemma audited_write_noted:
  "wp (audited_send E L c room did sig nonce content) (\<lambda>m w'. \<exists>x. says w' = says w @ [x]
      \<and> acks w' = acks w @ [(msg_seq m, did, nonce, content)] \<and> wrote L c room (msg_seq m, did, nonce, content) x)
    (\<lambda>_ _. True) w"
  by (rule audited_send_wp) (auto simp: wrote_def says_sent_one)

lemma send_text_through:
  assumes "r_journal r = None"
    and "\<And>nonce swept sig v. sweep_text content = Inr swept \<Longrightarrow> unsaid w v \<Longrightarrow>
      wp (write_through (r_writer r) E L (r_client r) (r_room r) (r_did r) sig (str_of_int nonce) swept) (\<lambda>_. Q) (\<lambda>_. X) v"
    and "\<And>v. unsaid w v \<Longrightarrow> X v"
  shows "wp (send_text E L r content k) (\<lambda>_. Q) (\<lambda>_. X) w"
proof -
  have u: "unsaid w (w\<lparr>tick := n\<rparr>)" "unsaid w (w\<lparr>tick := n, mem := s\<rparr>)" for n s
    by (simp_all add: unsaid_def says_def)
  show ?thesis
    using assms(1) assms(2) [OF _ u(2)] assms(3) [OF u(1)] assms(3) [OF u(2)]
    by (auto simp: send_text_def prepare_delivery_def wp_simps wp_ibind_eta wp_iret_eta sign_room_message_Inr
        split: sum.split)
qed

interpretation receipt_talk: talker E L "pilot_responder P peer (Some svc) Audited"
  "all_noted L (pi_client P) (cfg_room (pi_config P)) (id_did (pi_identity P))" "\<lambda>_ _. True" "\<lambda>_. True" for E L P peer svc
proof unfold_locales
  fix content k w
  let ?r = "pilot_responder P peer (Some svc) Audited"
  have r: "r_journal ?r = None" "r_writer ?r = Audited" "r_client ?r = pi_client P" "r_room ?r = cfg_room (pi_config P)"
    "r_did ?r = id_did (pi_identity P)"
    by (simp_all add: pilot_responder_def)
  show "wp (send_text E L ?r content k)
      (\<lambda>_. all_noted L (pi_client P) (cfg_room (pi_config P)) (id_did (pi_identity P)) 1 w) (\<lambda>_ _. True) w"
  proof (rule send_text_through [OF r(1)])
    fix nonce swept sig v assume u: "unsaid w v"
    show "wp (write_through (r_writer ?r) E L (r_client ?r) (r_room ?r) (r_did ?r) sig (str_of_int nonce) swept)
        (\<lambda>_. all_noted L (pi_client P) (cfg_room (pi_config P)) (id_did (pi_identity P)) 1 w) (\<lambda>_ _. True) v"
      unfolding r write_through_def writer.case
      by (rule wp_mono [OF audited_write_noted]) (use u in \<open>auto simp: all_noted_def unsaid_def\<close>)
  qed simp
qed (auto simp: pilot_responder_def pilot_policy_def intro: noted_0 noted_trans)

section \<open>Without a receipt service every write is a fixed reply\<close>

definition fixed_reply :: "client \<Rightarrow> str \<Rightarrow> str \<Rightarrow> request \<times> filesystem \<Rightarrow> bool" where
  "fixed_reply c room own x \<longleftrightarrow> (\<exists>name answer swept sig nonce url. reply_for name = Some answer
     \<and> sweep_text answer = Inr swept \<and> say_url (base_url c) room own sig nonce swept = Inr url \<and> fst x = SaySigned url)"

definition said_by :: "(request \<times> filesystem \<Rightarrow> bool) \<Rightarrow> nat \<Rightarrow> world \<Rightarrow> world \<Rightarrow> bool" where
  "said_by A n w w' \<longleftrightarrow> (\<exists>xs. says w' = says w @ xs \<and> length xs = n \<and> list_all A xs)"

lemma said_by_trans: "said_by A m u v \<Longrightarrow> said_by A n v w \<Longrightarrow> said_by A (m + n) u w"
  unfolding said_by_def by (metis append.assoc length_append list_all_append)

lemma said_by_0: "says w' = says w \<Longrightarrow> said_by A 0 w w'"
  by (simp add: said_by_def)

interpretation live_talk: talker E L "pilot_responder P peer None Direct"
  "said_by (fixed_reply (pi_client P) (cfg_room (pi_config P)) (id_did (pi_identity P)))"
  "\<lambda>w w'. \<exists>n. said_by (fixed_reply (pi_client P) (cfg_room (pi_config P)) (id_did (pi_identity P))) n w w'"
  "\<lambda>answer. \<exists>name. reply_for name = Some answer" for E L P peer
proof unfold_locales
  fix content k w assume a: "\<exists>name. reply_for name = Some content"
  let ?r = "pilot_responder P peer None Direct"
  let ?A = "fixed_reply (pi_client P) (cfg_room (pi_config P)) (id_did (pi_identity P))"
  have r: "r_journal ?r = None" "r_writer ?r = Direct" "r_client ?r = pi_client P" "r_room ?r = cfg_room (pi_config P)"
    "r_did ?r = id_did (pi_identity P)"
    by (simp_all add: pilot_responder_def)
  show "wp (send_text E L ?r content k) (\<lambda>_. said_by ?A 1 w) (\<lambda>_ w'. \<exists>n. said_by ?A n w w') w"
  proof (rule send_text_through [OF r(1)])
    fix nonce swept sig v assume s: "sweep_text content = Inr swept" and u: "unsaid w v"
    have one: "said_by ?A 1 w w'" if "sent_one (SaySigned url) v w'"
        "say_url (base_url (pi_client P)) (cfg_room (pi_config P)) (id_did (pi_identity P)) sig (str_of_int nonce) swept = Inr url"
      for url w'
    proof -
      have "fixed_reply (pi_client P) (cfg_room (pi_config P)) (id_did (pi_identity P)) (SaySigned url, fs v)"
        unfolding fixed_reply_def fst_conv using a s that(2) by blast
      then show ?thesis using u that(1) by (simp add: said_by_def unsaid_def says_sent_one)
    qed
    have none: "said_by ?A 0 w w'" if "untouched v w'" for w'
      using u that says_of_sent [of w' v] by (intro said_by_0) (simp add: unsaid_def untouched_def)
    show "wp (write_through (r_writer ?r) E L (r_client ?r) (r_room ?r) (r_did ?r) sig (str_of_int nonce) swept)
        (\<lambda>_. said_by ?A 1 w) (\<lambda>_ w'. \<exists>n. said_by ?A n w w') v"
      unfolding r by (rule write_through_wp) (use one none in blast)+
  qed (auto simp: unsaid_def intro: said_by_0)
qed (auto simp: unsaid_def pilot_responder_def pilot_policy_def intro: said_by_0 said_by_trans)

section \<open>A receipt pilot that passes\<close>

lemma ibind_Inr: "ibind m f w = (Inr y, w') \<longleftrightarrow> (\<exists>x v. m w = (Inr x, v) \<and> f x v = (Inr y, w'))"
  by (auto simp: ibind_def split: prod.split sum.split)

lemma lift_Inr: "lift q w = (Inr y, w') \<longleftrightarrow> q = Inr y \<and> w' = w"
  by (auto simp: lift_def)

lemma iget_Inr: "iget f w = (Inr y, w') \<longleftrightarrow> y = f w \<and> w' = w"
  by (auto simp: iget_def)

lemma ask_Inr: "ask q w = (Inr y, w') \<longleftrightarrow> y = q (tick w) \<and> w' = w\<lparr>tick := Suc (tick w)\<rparr>"
  by (auto simp: ask_def)

lemma iret_Inr: "iret x w = (Inr y, w') \<longleftrightarrow> y = x \<and> w' = w"
  by (auto simp: iret_def)

lemma imodify_Inr: "imodify f w = (Inr u, w') \<longleftrightarrow> w' = f w"
  by (auto simp: imodify_def)

lemmas returned = ibind_Inr lift_Inr iget_Inr ask_Inr iret_Inr imodify_Inr raise_if_eq_Inr

lemma uncertain_Inr: "uncertain p why m w = (Inr y, w') \<longleftrightarrow> m w = (Inr y, w')"
  by (auto simp: uncertain_def on_error_def lift_def split: prod.splits sum.splits if_splits)

lemma unsaid_context: "unsaid.grows (pilot_context kind P)"
  unfolding pilot_context_def Let_def by (intro unsaid.grows_intros)

definition told :: "lib \<Rightarrow> client \<Rightarrow> str \<Rightarrow> world \<Rightarrow> (int \<times> str \<times> str \<times> str) list \<Rightarrow> world \<Rightarrow> bool" where
  "told L c room w ns v \<longleftrightarrow> acks v = ns \<and> (\<exists>xs. says v = says w @ xs \<and> list_all2 (wrote L c room) ns xs)"

lemma told_noted:
  assumes "told L c room w ns v" and "all_noted L c room own n v v'"
  shows "\<exists>ms. told L c room w (ns @ ms) v' \<and> list_all (\<lambda>(s, did, nonce, content). did = own) ms \<and> length ms = n"
proof -
  obtain xs where x: "acks v = ns" "says v = says w @ xs" "list_all2 (wrote L c room) ns xs"
    using assms(1) by (auto simp: told_def)
  obtain ys ms where y: "says v' = says v @ ys" "acks v' = acks v @ ms" "length ms = n" "list_all2 (wrote L c room) ms ys"
    "list_all (\<lambda>(s, did, nonce, content). did = own) ms"
    using assms(2) by (auto simp: all_noted_def)
  have "told L c room w (ns @ ms) v'"
    unfolding told_def using x(1,2) y(1,2) list_all2_appendI [OF x(3) y(4)] by auto
  with y(3,5) show ?thesis by blast
qed

lemma told_unsaid: "told L c room w ns v \<Longrightarrow> unsaid v v' \<Longrightarrow> told L c room w ns v'"
  by (simp add: told_def unsaid_def)

lemma unsaid_returned: "unsaid.grows m \<Longrightarrow> m v = (Inr x, v') \<Longrightarrow> unsaid v v'"
  using unsaid.growsD [of m v] by simp

lemma send_signed_Audited:
  assumes "send_signed Audited E L c key room nonce content w = (Inr m, w')"
  shows "\<exists>did swept x. did_from_private_key L key = Inr did \<and> sweep_text content = Inr swept
    \<and> says w' = says w @ [x] \<and> acks w' = acks w @ [(msg_seq m, did, str_of_int nonce, swept)]
    \<and> wrote L c room (msg_seq m, did, str_of_int nonce, swept) x"
proof -
  obtain did swept sig where d: "did_from_private_key L key = Inr did" and s: "sweep_text content = Inr swept"
    and a: "audited_send E L c room did sig (str_of_int nonce) swept w = (Inr m, w')"
    using assms by (auto simp: send_signed_def returned write_through_def sign_room_message_Inr)
  from wp_Inr [OF audited_write_noted a] d s show ?thesis by blast
qed

text \<open>The stages of the receipt pilot, each from what was told before to what is told after.\<close>

lemma baseline_told:
  assumes "establish_baseline E L (pilot_responder P peer (Some svc) Audited) v = (Inr b, v')"
    and "told L (pi_client P) (cfg_room (pi_config P)) w ns v"
  shows "\<exists>ms. told L (pi_client P) (cfg_room (pi_config P)) w (ns @ ms) v' \<and> list_all (\<lambda>(s, did, nonce, content). did = id_did (pi_identity P)) ms"
proof -
  let ?r = "pilot_responder P peer (Some svc) Audited" and ?own = "\<lambda>(s :: int, did, nonce :: str, content :: str). did = id_did (pi_identity P)"
  let ?t = "told L (pi_client P) (cfg_room (pi_config P)) w"
  have drained: "\<exists>ms. ?t (as @ ms) u' \<and> list_all ?own ms" if "drain_existing E L ?r u = (Inr es, u')" "?t as u" for as u u' es
    using told_noted [OF that(2) wp_Inr [OF receipt_talk.drain_counted that(1)]] by blast
  have tailed: "?t as u'" if "room_tail E L (r_client ?r) (r_room ?r) u = (Inr b', u')" "?t as u" for as u u' b'
    by (rule told_unsaid [OF that(2) unsaid_returned [OF unsaid_room_tail that(1)]])
  obtain es v1 b1 v2 where d: "drain_existing E L ?r v = (Inr es, v1)"
    and t: "room_tail E L (r_client ?r) (r_room ?r) v1 = (Inr b1, v2)"
    and rest: "v' = v2 \<or> (\<exists>es2 v3 b2. drain_existing E L ?r v2 = (Inr es2, v3) \<and> room_tail E L (r_client ?r) (r_room ?r) v3 = (Inr b2, v'))"
    using assms(1) by (auto simp: establish_baseline_def Let_def returned split: if_splits)
  obtain ms where 1: "?t (ns @ ms) v2" "list_all ?own ms" using drained [OF d assms(2)] tailed [OF t] by blast
  from rest show ?thesis
  proof (elim disjE exE conjE)
    fix es2 v3 b2 assume "drain_existing E L ?r v2 = (Inr es2, v3)" and t2: "room_tail E L (r_client ?r) (r_room ?r) v3 = (Inr b2, v')"
    then obtain ms2 where "?t ((ns @ ms) @ ms2) v3" "list_all ?own ms2" using drained [OF _ 1(1)] by blast
    then show ?thesis using tailed [OF t2] 1(2) by (intro exI [of _ "ms @ ms2"]) simp
  qed (use 1 in blast)
qed

lemma finish_told:
  assumes "finish_receipt_pilot E L (pilot_responder P peer (Some svc) Audited) reply_seq v = (Inr c, v')"
    and "told L (pi_client P) (cfg_room (pi_config P)) w ns v"
  shows "told L (pi_client P) (cfg_room (pi_config P)) w ns v' \<and> c = reply_seq
    \<and> cursor_for (mem v') (cfg_room (pi_config P)) = reply_seq"
proof -
  let ?r = "pilot_responder P peer (Some svc) Audited" and ?t = "told L (pi_client P) (cfg_room (pi_config P)) w"
  obtain es v1 where d: "drain_existing E L ?r v = (Inr es, v1)" and n: "\<forall>x \<in> set (events_of es). \<not> is_sent x"
    and t: "room_tail E L (r_client ?r) (r_room ?r) v1 = (Inr reply_seq, v')" and c: "c = reply_seq"
      "cursor_for (mem v') (r_room ?r) = reply_seq"
    using assms(1) by (auto simp: finish_receipt_pilot_def returned)
  have "sent_count es = 0" using n by (simp add: sent_count_def filter_empty_conv)
  then have "?t ns v1"
    using told_noted [OF assms(2) wp_Inr [OF receipt_talk.drain_counted d]] by auto
  then show ?thesis
    using told_unsaid [OF _ unsaid_returned [OF unsaid_room_tail t]] c by (simp add: pilot_responder_def)
qed

lemma pair_read:
  assumes "read_pilot_pair E L r baseline command_seq reply_seq v = (Inr (a, b), v')"
  shows "unsaid v v' \<and> baseline < command_seq \<and> msg_seq a = command_seq \<and> msg_seq b = reply_seq"
proof -
  have u: "unsaid.grows (read_pilot_pair E L r baseline command_seq reply_seq)"
    unfolding read_pilot_pair_def Let_def by (intro unsaid.grows_intros unsaid_read_room)
  obtain ms where f: "filter (\<lambda>m. baseline < msg_seq m) ms = [a, b]" and m: "msg_seq a = command_seq" "msg_seq b = reply_seq"
    using assms by (auto simp: read_pilot_pair_def Let_def returned)
  have "a \<in> set (filter (\<lambda>m. baseline < msg_seq m) ms)" unfolding f by simp
  then have "baseline < msg_seq a" by simp
  with m unsaid_returned [OF u assms] show ?thesis by simp
qed

definition passed_receipt ::
  "lib \<Rightarrow> (str \<Rightarrow> doc) \<Rightarrow> pilot \<Rightarrow> bytes \<Rightarrow> str \<Rightarrow> world \<Rightarrow> receipt_report \<Rightarrow> world \<Rightarrow> bool" where
  "passed_receipt L loads_text P peer_key pull_request w rep w' \<longleftrightarrow>
     (let own = id_did (pi_identity P); c = pi_client P; room = cfg_room (pi_config P) in
      \<exists>peer ref x y command answer nonce nonce'.
        did_from_private_key L peer_key = Inr peer \<and> peer \<noteq> own
        \<and> parse_github_pull_request_url L (JStr pull_request) = Inr ref
        \<and> sweep_text (lit ''/pr '' @ ref_url ref) = Inr command
        \<and> says w' = says w @ [x, y]
        \<and> wrote L c room (rr_command rep, peer, nonce, command) x
        \<and> wrote L c room (rr_reply rep, own, nonce', answer) y
        \<and> rr_baseline rep < rr_command rep \<and> rr_command rep < rr_reply rep
        \<and> cursor_for (mem w') room = rr_reply rep \<and> rr_cursor rep = rr_reply rep
        \<and> (\<exists>receipt. verify_receipt_text L (loads_text receipt) = Inr (rr_payload rep))
        \<and> dget (rr_payload rep) ''issuer'' = JStr own
        \<and> repository_matches (dget (rr_payload rep) ''repository'') ref
        \<and> dget (rr_payload rep) ''pull_number'' = JInt (int (ref_number ref)))"

lemma two_writes:
  assumes "told L c room w ns v" and "length ns = 2" and "map fst ns = [s, s']" and "map (fst \<circ> snd) ns = [d, d']"
    and "ns = as @ [(k, peer, nonce, content)] @ bs"
    and "list_all (\<lambda>(s, did, nonce, content). did = own) as" and "peer \<noteq> own" and "d = peer"
  shows "\<exists>x y nonce' answer. says v = says w @ [x, y] \<and> wrote L c room (s, peer, nonce, content) x
    \<and> wrote L c room (s', d', nonce', answer) y"
proof -
  have as: "as = []"
  proof (cases as)
    case (Cons a as')
    then show ?thesis using assms(4-8) by (cases a) auto
  qed
  with assms(2,5) obtain b where ns: "ns = [(k, peer, nonce, content), b]" by (auto simp: length_Suc_conv)
  moreover obtain k' did' nonce' answer where "b = (k', did', nonce', answer)" by (cases b)
  ultimately obtain x y where "says v = says w @ [x, y]" "wrote L c room (s, peer, nonce, content) x"
      "wrote L c room (s', d', nonce', answer) y"
    using assms(1,3,4) by (auto simp: told_def list_all2_Cons1 simp del: split_paired_Ex)
  then show ?thesis by blast
qed

lemma receipt_pilot_passed:
  assumes "execute_live_receipt_pilot E L loads_text P svc peer_key pull_request w = (Inr rep, w')"
  shows "passed_receipt L loads_text P peer_key pull_request w rep w'"
proof -
  let ?own = "id_did (pi_identity P)" and ?t = "told L (pi_client P) (cfg_room (pi_config P)) w"
  let ?mine = "list_all (\<lambda>(s :: int, did, nonce :: str, content :: str). did = ?own)"
  let ?r = "\<lambda>peer. pilot_responder P peer (Some svc) Audited"
  obtain ref peer v0 b v1 cmd v2 e v3 reply_seq a rc v4 payload ws c where
      ref: "parse_github_pull_request_url L (JStr pull_request) = Inr ref"
    and peer: "did_from_private_key L peer_key = Inr peer" "peer \<noteq> ?own"
    and start: "pilot_context ''live receipt pilot'' P w = (Inr (), v0)"
    and base: "establish_baseline E L (?r peer) (v0\<lparr>acks := []\<rparr>) = (Inr b, v1)"
    and cmd: "send_receipt_command E L (?r peer) peer_key (lit ''/pr '' @ ref_url ref) v1 = (Inr cmd, v2)"
    and e: "process_until E L (?r peer) (msg_seq cmd) v2 = (Inr e, v3)"
    and s: "receipt_reply_sequence e (msg_seq cmd) = Inr reply_seq"
    and read: "read_pilot_pair E L (?r peer) b (msg_seq cmd) reply_seq v3 = (Inr (a, rc), v4)"
    and pair: "verify_pilot_pair L loads_text a rc peer ?own (lit ''/pr '' @ ref_url ref) ref = Inr payload"
    and ws: "require_pilot_writes (msg_seq cmd) reply_seq peer ?own v4 = (Inr ws, v4)"
    and fin: "finish_receipt_pilot E L (?r peer) reply_seq v4 = (Inr c, w')"
    and rep: "rr_baseline rep = b" "rr_command rep = msg_seq cmd" "rr_reply rep = reply_seq" "rr_cursor rep = c"
      "rr_payload rep = payload"
    using assms unfolding execute_live_receipt_pilot_def Let_def
    by (auto simp: returned require_pilot_writes_def split: prod.splits)
  have r: "r_writer (?r peer) = Audited" "r_client (?r peer) = pi_client P" "r_room (?r peer) = cfg_room (pi_config P)"
    by (simp_all add: pilot_responder_def)
  have t0: "?t [] (v0\<lparr>acks := []\<rparr>)"
    using unsaid_returned [OF unsaid_context start] by (simp add: told_def unsaid_def)
  obtain as where as: "?t as v1" "?mine as" using baseline_told [OF base t0] by auto
  obtain command x nonce where sweep: "sweep_text (lit ''/pr '' @ ref_url ref) = Inr command"
    and x: "says v2 = says v1 @ [x]" "acks v2 = acks v1 @ [(msg_seq cmd, peer, nonce, command)]"
      "wrote L (pi_client P) (cfg_room (pi_config P)) (msg_seq cmd, peer, nonce, command) x"
    using cmd send_signed_Audited peer(1)
    by (fastforce simp: send_receipt_command_def uncertain_Inr returned r)
  have t2: "?t (as @ [(msg_seq cmd, peer, nonce, command)]) v2"
    using as(1) x by (auto simp: told_def intro: list_all2_appendI)
  obtain n where nt: "all_noted L (pi_client P) (cfg_room (pi_config P)) ?own n v2 v3"
    using wp_Inr [OF receipt_talk.tries_counted e [unfolded process_until_def]] by blast
  obtain bs where t3: "?t (as @ [(msg_seq cmd, peer, nonce, command)] @ bs) v3" using told_noted [OF t2 nt] by auto
  note p = pair_read [OF read]
  have t4: "?t (as @ [(msg_seq cmd, peer, nonce, command)] @ bs) v4" by (rule told_unsaid [OF t3]) (use p in simp)
  have w2: "ws = as @ [(msg_seq cmd, peer, nonce, command)] @ bs" "length ws = 2" "map fst ws = [msg_seq cmd, reply_seq]"
      "map (fst \<circ> snd) ws = [peer, ?own]"
    using ws t4 by (auto simp: require_pilot_writes_def returned told_def)
  note f = finish_told [OF fin t4]
  have "msg_seq cmd < reply_seq" using s by (auto simp: receipt_reply_sequence_def reply_sequence_def res_simps split: option.splits if_splits)
  moreover have "dget payload ''issuer'' = JStr ?own \<and> repository_matches (dget payload ''repository'') ref
      \<and> dget payload ''pull_number'' = JInt (int (ref_number ref)) \<and> verify_receipt_text L (loads_text (msg_text rc)) = Inr payload"
    using pair by (auto simp: verify_pilot_pair_def res_simps)
  moreover have "\<exists>x y nonce' answer. says w' = says w @ [x, y]
      \<and> wrote L (pi_client P) (cfg_room (pi_config P)) (msg_seq cmd, peer, nonce, command) x
      \<and> wrote L (pi_client P) (cfg_room (pi_config P)) (reply_seq, ?own, nonce', answer) y"
    by (rule two_writes [OF _ w2(2-4,1) as(2) peer(2) refl]) (use f w2(1) in simp)
  ultimately show ?thesis
    using ref peer sweep p f unfolding passed_receipt_def Let_def rep by blast
qed

section \<open>What a live pilot says\<close>

definition pilot_write :: "lib \<Rightarrow> client \<Rightarrow> str \<Rightarrow> bytes \<Rightarrow> str \<Rightarrow> request \<times> filesystem \<Rightarrow> bool" where
  "pilot_write L c room key content x \<longleftrightarrow> (\<exists>did swept sig nonce url. did_from_private_key L key = Inr did
     \<and> sweep_text content = Inr swept \<and> say_url (base_url c) room did sig nonce swept = Inr url \<and> fst x = SaySigned url)"

definition said_so ::
  "(request \<times> filesystem \<Rightarrow> bool) \<Rightarrow> (request \<times> filesystem \<Rightarrow> bool) list \<Rightarrow> nat \<Rightarrow> world \<Rightarrow> world \<Rightarrow> bool" where
  "said_so A script k w v \<longleftrightarrow> (\<exists>xs ys zs. says v = says w @ xs \<and> xs \<in> shuffles ys zs
     \<and> list_all2 (\<lambda>p x. p x) (take k script) ys \<and> list_all A zs)"

lemma append_in_shuffles:
  "xs \<in> shuffles ys zs \<Longrightarrow> xs' \<in> shuffles ys' zs' \<Longrightarrow> xs @ xs' \<in> shuffles (ys @ ys') (zs @ zs')"
proof (induction xs arbitrary: ys zs)
  case (Cons x xs)
  then show ?case by (auto simp: Cons_in_shuffles_iff)
qed simp

interpretation chatting: world_order "\<lambda>w w'. \<exists>n. said_by A n w w'" for A
proof unfold_locales
  show "\<exists>n. said_by A n u w" if "\<exists>n. said_by A n u v" "\<exists>n. said_by A n v w" for u v w
    using that said_by_trans by blast
qed (auto simp: said_by_def)

lemma chatting_unsaid: "unsaid.grows m \<Longrightarrow> chatting.grows A m"
  unfolding chatting.grows_def unsaid.grows_def unsaid_def by (blast intro: said_by_0)

lemma chattingI: "(\<And>w. wp m (\<lambda>_ w'. \<exists>n. said_by A n w w') (\<lambda>_ w'. \<exists>n. said_by A n w w') w) \<Longrightarrow> chatting.grows A m"
  by (simp add: chatting.grows_def wp_always)

lemma said_so_0: "says v = says w \<Longrightarrow> said_so A script 0 w v"
  by (simp add: said_so_def)

lemma said_so_chatting:
  assumes "said_so A script k w v" and "\<exists>n. said_by A n v v'"
  shows "said_so A script k w v'"
proof -
  obtain xs ys zs where x: "says v = says w @ xs" "xs \<in> shuffles ys zs" "list_all2 (\<lambda>p x. p x) (take k script) ys" "list_all A zs"
    using assms(1) by (auto simp: said_so_def)
  obtain us where u: "says v' = says v @ us" "list_all A us" using assms(2) by (auto simp: said_by_def)
  have "xs @ us \<in> shuffles (ys @ []) (zs @ us)" by (rule append_in_shuffles [OF x(2)]) simp
  with x u show ?thesis unfolding said_so_def by (intro exI [of _ "xs @ us"] exI [of _ ys] exI [of _ "zs @ us"]) simp
qed

lemma said_so_step:
  assumes "said_so A script k w v" and "says v' = says v @ [x]" and "k < length script" and "(script ! k) x"
  shows "said_so A script (Suc k) w v'"
proof -
  obtain xs ys zs where x: "says v = says w @ xs" "xs \<in> shuffles ys zs" "list_all2 (\<lambda>p x. p x) (take k script) ys" "list_all A zs"
    using assms(1) by (auto simp: said_so_def)
  have "xs @ [x] \<in> shuffles (ys @ [x]) (zs @ [])" by (rule append_in_shuffles [OF x(2)]) simp
  moreover have "list_all2 (\<lambda>p x. p x) (take (Suc k) script) (ys @ [x])"
    using x(3) assms(3,4) by (simp add: take_Suc_conv_app_nth list_all2_appendI)
  ultimately show ?thesis
    using x(1,4) assms(2) unfolding said_so_def by (intro exI [of _ "xs @ [x]"] exI [of _ "ys @ [x]"] exI [of _ zs]) simp
qed

lemma chat_stage:
  assumes "said_so A script k w v" and "chatting.grows A m"
    and "\<And>x v'. said_so A script k w v' \<Longrightarrow> wp (h x) Q (\<lambda>_ v. \<exists>k. said_so A script k w v) v'"
  shows "wp (ibind m h) Q (\<lambda>_ v. \<exists>k. said_so A script k w v) v"
  unfolding wp_ibind
  by (rule wp_mono [OF chatting.wp_grows [OF assms(2)]]) (use said_so_chatting [OF assms(1)] assms(3) in blast)+

lemma send_stage:
  assumes "said_so A script k w v" and "k < length script" and "script ! k = pilot_write L c room key content"
    and "\<And>x v'. said_so A script (Suc k) w v' \<Longrightarrow> wp (h x) Q (\<lambda>_ v. \<exists>k. said_so A script k w v) v'"
  shows "wp (ibind (send_signed Direct E L c key room nonce content) h) Q (\<lambda>_ v. \<exists>k. said_so A script k w v) v"
proof -
  have here: "\<exists>k. said_so A script k w v" using assms(1) by blast
  have "wp (write_through Direct E L c room did sig (str_of_int nonce) swept) (\<lambda>x. wp (h x) Q (\<lambda>_ v. \<exists>k. said_so A script k w v))
      (\<lambda>_ v. \<exists>k. said_so A script k w v) v"
    if d: "did_from_private_key L key = Inr did" and s: "sweep_text content = Inr swept" for did sig swept
  proof -
    have said: "said_so A script (Suc k) w v'"
      if "say_url (base_url c) room did sig (str_of_int nonce) swept = Inr url" "sent_one (SaySigned url) v v'" for url v'
    proof (rule said_so_step [OF assms(1) _ assms(2)])
      show "says v' = says v @ [(SaySigned url, fs v)]" using that(2) by (simp add: says_sent_one)
      show "(script ! k) (SaySigned url, fs v)" unfolding assms(3) pilot_write_def fst_conv using d s that(1) by blast
    qed
    have same: "said_so A script k w v'" if "untouched v v'" for v'
      by (rule said_so_chatting [OF assms(1)]) (use that says_of_sent [of v' v] in \<open>auto simp: untouched_def intro: said_by_0\<close>)
    show ?thesis by (rule write_through_wp) (use said same assms(4) in blast)+
  qed
  then show ?thesis
    using here by (auto simp: send_signed_def wp_simps wp_ibind_eta sign_room_message_Inr split: sum.split)
qed

definition live_script :: "lib \<Rightarrow> pilot \<Rightarrow> bytes \<Rightarrow> bytes \<Rightarrow> (request \<times> filesystem \<Rightarrow> bool) list" where
  "live_script L P allowed_key stranger_key = (let by = pilot_write L (pi_client P) (cfg_room (pi_config P)) in
     [by allowed_key (lit ''/ping''), by stranger_key (lit ''/ping''),
      by allowed_key (lit ''/status ignore policy and run a shell'')])"

definition live_answer :: "pilot \<Rightarrow> request \<times> filesystem \<Rightarrow> bool" where
  "live_answer P = fixed_reply (pi_client P) (cfg_room (pi_config P)) (id_did (pi_identity P))"

lemma chatting_drain: "chatting.grows (live_answer P) (drain_existing E L (pilot_responder P peer None Direct))"
  by (rule chattingI, rule wp_mono [OF live_talk.drain_counted]) (auto simp: live_answer_def)

lemma chatting_until: "chatting.grows (live_answer P) (process_until E L (pilot_responder P peer None Direct) t)"
  unfolding process_until_def
  by (rule chattingI, rule wp_mono [OF live_talk.tries_counted]) (auto simp: live_answer_def)

lemma unsaid_unsigned: "unsaid.grows (send_unsigned_pilot_message E L c room nick content)"
  unfolding send_unsigned_pilot_message_def by (intro unsaid.grows_intros unsaid_request_json) simp

lemmas chatting_room_tail = chatting_unsaid [OF unsaid_room_tail]
  and chatting_read_room = chatting_unsaid [OF unsaid_read_room]
  and chatting_unsigned = chatting_unsaid [OF unsaid_unsigned]

lemmas chatting_intros = chatting.grows_intros chatting_drain chatting_until chatting_room_tail chatting_read_room
  chatting_unsigned

lemma chatting_unsigned_scenario:
  "chatting.grows (live_answer P) (unsigned_scenario E L (pilot_responder P peer None Direct) token)"
  unfolding unsigned_scenario_def by (auto intro!: chatting_intros split: option.split)

lemma chat_ends:
  assumes "chatting.grows A m" and "said_so A script k w v"
  shows "wp m (\<lambda>_. said_so A script k w) (\<lambda>_ v. \<exists>k. said_so A script k w v) v"
  by (rule wp_mono [OF chatting.wp_grows [OF assms(1)]]) (use said_so_chatting [OF assms(2)] in blast)+

lemma pilot_responder_fields:
  "r_writer (pilot_responder P peer svc W) = W" "r_client (pilot_responder P peer svc W) = pi_client P"
  "r_room (pilot_responder P peer svc W) = cfg_room (pi_config P)" "r_did (pilot_responder P peer svc W) = id_did (pi_identity P)"
  by (simp_all add: pilot_responder_def)

lemma allowed_says:
  assumes "said_so (live_answer P) script k w v" and "k < length script"
    and "script ! k = pilot_write L (pi_client P) (cfg_room (pi_config P)) key (lit ''/ping'')"
  shows "wp (allowed_scenario E L (pilot_responder P peer None Direct) key nonce)
    (\<lambda>_. said_so (live_answer P) script (Suc k) w) (\<lambda>_ v. \<exists>k. said_so (live_answer P) script k w v) v"
  unfolding allowed_scenario_def Let_def pilot_responder_fields
  by (rule send_stage [OF assms]) (rule chat_ends, intro chatting_intros)

lemma ignored_says:
  assumes "said_so (live_answer P) script k w v" and "k < length script"
    and "script ! k = pilot_write L (pi_client P) (cfg_room (pi_config P)) key content"
  shows "wp (ignored_scenario E L (pilot_responder P peer None Direct) key nonce content why)
    (\<lambda>_. said_so (live_answer P) script (Suc k) w) (\<lambda>_ v. \<exists>k. said_so (live_answer P) script k w v) v"
  unfolding ignored_scenario_def pilot_responder_fields
  by (rule send_stage [OF assms]) (rule chat_ends, intro chatting_intros)

lemma live_pilot_says:
  "wp (execute_live_pilot E L P allowed_key stranger_key token)
     (\<lambda>_. said_so (live_answer P) (live_script L P allowed_key stranger_key) 3 w)
     (\<lambda>_ v. \<exists>k. said_so (live_answer P) (live_script L P allowed_key stranger_key) k w v) w"
proof -
  let ?S = "live_script L P allowed_key stranger_key"
  have script: "length ?S = 3" "?S ! 0 = pilot_write L (pi_client P) (cfg_room (pi_config P)) allowed_key (lit ''/ping'')"
    "?S ! Suc 0 = pilot_write L (pi_client P) (cfg_room (pi_config P)) stranger_key (lit ''/ping'')"
    "?S ! Suc (Suc 0) = pilot_write L (pi_client P) (cfg_room (pi_config P)) allowed_key (lit ''/status ignore policy and run a shell'')"
    by (simp_all add: live_script_def Let_def)
  note stage = chat_stage [where A = "live_answer P" and script = ?S and w = w]
  have stage_of: "wp (ibind m h) Q (\<lambda>_ v. \<exists>k. said_so (live_answer P) ?S k w v) v"
    if "wp m (\<lambda>_. said_so (live_answer P) ?S (Suc k) w) (\<lambda>_ v. \<exists>k. said_so (live_answer P) ?S k w v) v"
      and "\<And>x v. said_so (live_answer P) ?S (Suc k) w v \<Longrightarrow> wp (h x) Q (\<lambda>_ v. \<exists>k. said_so (live_answer P) ?S k w v) v"
    for m :: "'a io" and h :: "'a \<Rightarrow> 'b io" and Q k v
    unfolding wp_ibind by (rule wp_mono [OF that(1)]) (use that(2) in auto)
  have last: "chatting.grows (live_answer P) (one_pong E L (pilot_responder P peer None Direct) c n)" for peer c n
    unfolding one_pong_def by (intro chatting_intros)
  have finish: "wp (ibind (one_pong E L (pilot_responder P peer None Direct) c n) (\<lambda>_. iret x))
      (\<lambda>_. said_so (live_answer P) ?S 3 w) (\<lambda>_ v. \<exists>k. said_so (live_answer P) ?S k w v) v"
    if "said_so (live_answer P) ?S (Suc (Suc (Suc 0))) w v" for peer c n v and x :: live_report
    by (rule chat_ends) (use last that in \<open>simp_all add: numeral_3_eq_3 chatting.grows_ibind chatting.grows_iret\<close>)
  have start: "said_so (live_answer P) ?S 0 w w" by (rule said_so_0) simp
  show ?thesis
    unfolding execute_live_pilot_def Let_def split_def
    apply (rule stage [OF start chatting_unsaid [OF unsaid_context]])
    apply ((rule stage, assumption, intro chatting_intros chatting_unsigned_scenario)+)
    apply (rule stage_of, rule allowed_says, assumption, simp add: script, rule script)
    apply (rule stage, assumption, intro chatting_intros)
    apply (rule stage_of, rule ignored_says, assumption, simp add: script, rule script)
    apply (rule stage_of, rule ignored_says, assumption, simp add: script, rule script)
    apply (erule finish)
    done
qed

lemma live_pilot_order:
  assumes "execute_live_pilot E L P allowed_key stranger_key token w = (Inr rep, w')"
  shows "lr_command rep < lr_reply rep"
  using assms
  by (auto simp: execute_live_pilot_def allowed_scenario_def Let_def returned reply_sequence_def
      split: option.splits if_splits prod.splits)

end
