(* ===== verification/Entry_Points.thy ===== *)
theory Entry_Points
  imports Cli_Parser Pilot
begin

text \<open>
  The other entry points: \<open>main\<close> of \<open>mcp_server.py\<close> and the three pilot scripts under \<open>scripts\<close>. Each
  parses its own options. A pilot script does nothing without its acknowledgement flag.
\<close>

section \<open>The MCP server\<close>

definition mcp_parser :: command_spec where
  "mcp_parser = plain_command [path_option ''--audit-log'', path_option ''--work-expectation'', path_option ''--work-receipt'',
     path_option ''--work-stdout'', path_option ''--work-stderr'']"

definition mcp_options :: "namespace \<Rightarrow> mcp_server" where
  "mcp_options ns = \<lparr>mcp_audit = opt_path ns ''--audit-log'', mcp_expectation = opt_path ns ''--work-expectation'',
     mcp_receipt = opt_path ns ''--work-receipt'', mcp_stdout = opt_path ns ''--work-stdout'', mcp_stderr = opt_path ns ''--work-stderr''\<rparr>"

text \<open>A session of the server: the calls of its client one after the other, each with its answer or its exception.\<close>

fun serve_calls :: "machine \<Rightarrow> mcp_server \<Rightarrow> tool_call list \<Rightarrow> world \<Rightarrow> tool_answer res list \<times> world" where
  "serve_calls M s [] w = ([], w)"
| "serve_calls M s (call # calls) w =
     (let (a, w') = call_tool (mc_env M) (mc_lib M) (mc_reads M) s call w; (answers, w'') = serve_calls M s calls w' in
      (a # answers, w''))"

text \<open>
  The status, the answers and the world. \<open>sdk\<close>: is the MCP SDK installed; \<open>interrupted\<close>: did the
  session end by a keyboard interrupt.
\<close>

definition mcp_main ::
  "machine \<Rightarrow> (string \<Rightarrow> pyfloat option) \<Rightarrow> (string \<Rightarrow> int option) \<Rightarrow> bool \<Rightarrow> bool \<Rightarrow> tool_call list \<Rightarrow> string list
    \<Rightarrow> world \<Rightarrow> nat \<times> tool_answer res list \<times> world" where
  "mcp_main M to_float to_int sdk interrupted calls words w =
     (case parse_command to_float to_int [] mcp_parser words of
        Refused \<Rightarrow> (2, [], w)
      | Shown \<Rightarrow> (0, [], w)
      | Selected _ ns \<Rightarrow>
          if mcp_expectation (mcp_options ns) = None
              \<and> (mcp_receipt (mcp_options ns) \<noteq> None \<or> mcp_stdout (mcp_options ns) \<noteq> None \<or> mcp_stderr (mcp_options ns) \<noteq> None)
          then (2, [], w)
          else (case build_mcp_server (po_absolute (mc_paths M)) (mcp_options ns) of
              Inl e \<Rightarrow> (1, [], w)
            | Inr s \<Rightarrow> if \<not> sdk then (2, [], w)
                else (let (answers, w') = serve_calls M s calls w in (if interrupted then 130 else 0, answers, w'))))"

section \<open>A pilot script\<close>

text \<open>An exception the script does not catch ends in a traceback, status 1, or for an interrupt in its signal, 130.\<close>

definition script_main :: "parsed \<Rightarrow> string \<Rightarrow> (namespace \<Rightarrow> nat io) \<Rightarrow> (exc \<Rightarrow> nat) \<Rightarrow> world \<Rightarrow> nat \<times> world" where
  "script_main p ack go code w = (case p of
      Refused \<Rightarrow> (2, w)
    | Shown \<Rightarrow> (0, w)
    | Selected _ ns \<Rightarrow>
        if \<not> is_set ns ack then (2, w)
        else (case go ns w of
            (Inl e, w') \<Rightarrow> (code e, w')
          | (Inr status, w') \<Rightarrow> (status, w')))"

fun live_pilot_code :: "exc \<Rightarrow> nat" where
  "live_pilot_code (UncertainWriteError _) = 3"
| "live_pilot_code (ConfigError _) = 2"
| "live_pilot_code (IdentityError _) = 2"
| "live_pilot_code (PilotError _) = 2"
| "live_pilot_code (ProtocolValueError _) = 2"
| "live_pilot_code (ResponseError _) = 2"
| "live_pilot_code (StateError _) = 2"
| "live_pilot_code (TransportError _ _) = 2"
| "live_pilot_code KeyboardInterrupt = 130"
| "live_pilot_code _ = 1"

definition receipt_pilot_code :: "exc \<Rightarrow> nat" where
  "receipt_pilot_code e = (case e of GitHubReceiptError _ _ _ \<Rightarrow> 2 | _ \<Rightarrow> live_pilot_code e)"

fun work_pilot_code :: "exc \<Rightarrow> nat" where
  "work_pilot_code KeyboardInterrupt = 130"
| "work_pilot_code _ = 1"

definition live_pilot_parser :: "path \<Rightarrow> command_spec" where
  "live_pilot_parser d = plain_command [shared_identity_option d, switch ''--execute-live-pilot'']"

definition live_pilot_script ::
  "machine \<Rightarrow> bytes \<Rightarrow> bytes \<Rightarrow> str \<Rightarrow> (string \<Rightarrow> pyfloat option) \<Rightarrow> (string \<Rightarrow> int option) \<Rightarrow> path \<Rightarrow> string list
    \<Rightarrow> world \<Rightarrow> nat \<times> world" where
  "live_pilot_script M allowed_key stranger_key token to_float to_int d words =
     script_main (parse_command to_float to_int [] (live_pilot_parser d) words) ''--execute-live-pilot''
       (\<lambda>ns. ibind (run_live_pilot_from_identity M (identity_arg ns) allowed_key stranger_key token) (\<lambda>_. iret 0))
       live_pilot_code"

definition receipt_pilot_parser :: "path \<Rightarrow> command_spec" where
  "receipt_pilot_parser d = plain_command [shared_identity_option d, required_option ''--pull-request'',
     switch ''--execute-live-receipt-pilot'']"

definition receipt_pilot_script ::
  "machine \<Rightarrow> (str \<Rightarrow> doc) \<Rightarrow> bytes \<Rightarrow> (string \<Rightarrow> pyfloat option) \<Rightarrow> (string \<Rightarrow> int option) \<Rightarrow> path \<Rightarrow> string list
    \<Rightarrow> world \<Rightarrow> nat \<times> world" where
  "receipt_pilot_script M loads_text peer_key to_float to_int d words =
     script_main (parse_command to_float to_int [] (receipt_pilot_parser d) words) ''--execute-live-receipt-pilot''
       (\<lambda>ns. ibind (run_live_receipt_pilot_from_identity M loads_text (identity_arg ns) (lit (word_of ns ''--pull-request'')) peer_key)
         (\<lambda>_. iret 0)) receipt_pilot_code"

section \<open>The work receipt pilot\<close>

text \<open>\<open>subprocess.run(["git", ...], check=True)\<close>\<close>

definition checked_git :: "env \<Rightarrow> workshop \<Rightarrow> request \<Rightarrow> str io" where
  "checked_git E B r = ibind (exchange (git_answer B) E r) (\<lambda>g. lift (case g of
      GitMissing \<Rightarrow> raise OSError
    | GitBroken \<Rightarrow> raise OSError
    | GitTimedOut \<Rightarrow> raise SubprocessError
    | GitFailed detail \<Rightarrow> raise SubprocessError
    | GitNotUtf8 \<Rightarrow> raise UnicodeDecodeError
    | GitOutput out \<Rightarrow> ret (strip out)))"

text \<open>The output of \<open>git clone\<close> is not captured, so it is not decoded.\<close>

definition clone_git :: "env \<Rightarrow> workshop \<Rightarrow> path \<Rightarrow> path \<Rightarrow> unit io" where
  "clone_git E B from_path to_path = ibind (exchange (git_answer B) E (CloneGit from_path to_path)) (\<lambda>g. lift (case g of
      GitMissing \<Rightarrow> raise OSError
    | GitBroken \<Rightarrow> raise OSError
    | GitTimedOut \<Rightarrow> raise SubprocessError
    | GitFailed detail \<Rightarrow> raise SubprocessError
    | _ \<Rightarrow> ret ()))"

text \<open>
  \<open>_write_private_new\<close>: the exclusive open fails on an existing file. Stage 0 comes before it, stage 1
  before the whole text is written, a later stage after it. \<open>body\<close> is the text with its newline.
\<close>

definition write_private_new :: "env \<Rightarrow> path \<Rightarrow> body \<Rightarrow> unit io" where
  "write_private_new E p body = ibind (ask (fault E)) (\<lambda>flt. ibind (exists_path p) (\<lambda>there.
     let upto = (\<lambda>n. if n = 0 \<or> there then iret ()
         else set_file p (Some (fresh_file (if n = 1 then Text 0 NotJson else body)))) in
     case flt of
       Fine \<Rightarrow> if there then iraise OSError else set_file p (Some (fresh_file body))
     | Fail n \<Rightarrow> ibind (upto n) (\<lambda>_. iraise OSError)
     | Kill n \<Rightarrow> ibind (upto n) (\<lambda>_. iraise Killed)))"

definition test_command :: "str list" where
  "test_command = map lit [''python3'', ''-c'',
     ''import io,sys,unittest;sys.path.insert(0,'' @ [CHR 0x27] @ ''src'' @ [CHR 0x27]
       @ '');suite=unittest.defaultTestLoader.loadTestsFromName('' @ [CHR 0x27]
       @ ''tests.test_crypto_identity.CryptoIdentityTests.test_detached_signatures_verify_against_the_did_public_key''
       @ [CHR 0x27] @ '');result=unittest.TextTestRunner(stream=io.StringIO(),verbosity=0).run(suite);''
       @ ''raise SystemExit(0 if result.wasSuccessful() else 1)'']"

record clone_desk =
  cd_checkout :: path       \<comment> \<open>\<open>checkout\<close> in the temporary directory\<close>
  cd_worker :: bytes        \<comment> \<open>the generated keys\<close>
  cd_verifier :: bytes

text \<open>The pilot in the clone: two keys, one receipt, one countersignature, the verifier.\<close>

definition publish_pilot :: "env \<Rightarrow> workshop \<Rightarrow> lib \<Rightarrow> path option \<Rightarrow> json \<Rightarrow> work_summary io" where
  "publish_pilot E B L output_path countersigned =
     ibind (lift (verify_work_receipt L (ReceiptValue countersigned))) (\<lambda>summary.
     ibind (lift (render_work_receipt L (ReceiptValue countersigned))) (\<lambda>rendered.
     ibind (case output_path of
         None \<Rightarrow> iret ()
       | Some p \<Rightarrow> write_private_new E (resolve_path B p) (Text (length (utf8 rendered) + 1) (Doc countersigned))) (\<lambda>_.
     iret summary)))"

definition pilot_in_clone :: "env \<Rightarrow> workshop \<Rightarrow> lib \<Rightarrow> clone_desk \<Rightarrow> path option \<Rightarrow> work_summary io" where
  "pilot_in_clone E B L K output_path =
     ibind (lift (did_from_private_key L (cd_worker K))) (\<lambda>worker_did.
     ibind (lift (did_from_private_key L (cd_verifier K))) (\<lambda>verifier_did.
     ibind (create_work_receipt E B L (cd_checkout K) test_command worker_did (cd_worker K) (Fin 30) None) (\<lambda>receipt.
     ibind (countersign_work_receipt E B L (ReceiptValue receipt) (cd_checkout K) verifier_did (cd_verifier K) (Some (Fin 30)))
       (\<lambda>countersigned.
     publish_pilot E B L output_path countersigned))))"

text \<open>\<open>None\<close>: the source checkout is not clean.\<close>

definition execute_work_pilot :: "env \<Rightarrow> workshop \<Rightarrow> lib \<Rightarrow> clone_desk \<Rightarrow> path \<Rightarrow> path option \<Rightarrow> work_summary option io" where
  "execute_work_pilot E B L K repository output_path = (let source = resolve_path B repository in
     ibind (checked_git E B (RunGit source [''status'', ''--porcelain'', ''--untracked-files=all''])) (\<lambda>status.
     if status \<noteq> [] then iret None
     else ibind (checked_git E B (RunGit source [''remote'', ''get-url'', ''origin''])) (\<lambda>origin.
       ibind (clone_git E B source (cd_checkout K)) (\<lambda>_.
       ibind (checked_git E B (SetOrigin (cd_checkout K) origin)) (\<lambda>_.
       ibind (pilot_in_clone E B L K output_path) (\<lambda>summary. iret (Some summary)))))))"

definition work_pilot_parser :: command_spec where
  "work_pilot_parser = plain_command [option_of ''--repository'' AsWord (Word ''.''), path_option ''--output'',
     switch ''--execute-work-receipt-pilot'']"

definition work_pilot_script ::
  "machine \<Rightarrow> clone_desk \<Rightarrow> (string \<Rightarrow> pyfloat option) \<Rightarrow> (string \<Rightarrow> int option) \<Rightarrow> string list \<Rightarrow> world \<Rightarrow> nat \<times> world" where
  "work_pilot_script M K to_float to_int words =
     script_main (parse_command to_float to_int [] work_pilot_parser words) ''--execute-work-receipt-pilot''
       (\<lambda>ns. ibind (execute_work_pilot (mc_env M) (mc_shop M) (mc_lib M) K (word_of ns ''--repository'') (opt_path ns ''--output''))
         (\<lambda>r. iret (if r = None then 2 else 0))) work_pilot_code"

end
