(* ===== verification/Cli_Safety.thy ===== *)
theory Cli_Safety
  imports Launch_Safety
begin

text \<open>
  The command line as a whole: the parser selects only commands that have a handler, with a value of
  the right type for everything the handlers read, and the commands that only look leave the world as
  it was.
\<close>

section \<open>Commands and handlers\<close>

definition command_paths :: "path \<Rightarrow> path \<Rightarrow> string list list" where
  "command_paths d cd = map (\<lambda>(n, _). [n]) (commands_of d)
     @ concat (map (\<lambda>(g, cs). map (\<lambda>(n, _). [g, n]) cs) (groups_of d cd))"

lemma scan_stops:
  "scan_words to_float to_int c ws s = Stopped p \<Longrightarrow> p = Refused \<or> p = Shown"
  by (induction c ws s rule: scan_words.induct)
    (auto simp: Let_def split: if_splits option.splits list.splits word_kind.splits action_kind.splits)

lemma first_word_stops: "first_word flags ws b = Inl p \<Longrightarrow> p = Refused \<or> p = Shown"
  by (induction flags ws b rule: first_word.induct) (auto split: if_splits word_kind.splits)

lemma subcommand_selects:
  assumes "subcommand flags words k = Selected path ns"
  obtains w ws where "k w ws = Selected path ns"
  using assms by (auto simp: subcommand_def withheld_def split: sum.splits parsed.splits if_splits dest: first_word_stops)

lemma handled_paths: "set (map fst (handlers M Oc ns)) = set (command_paths d cd)"
  by (auto simp: handlers_def command_paths_def commands_of_def groups_of_def Let_def)

section \<open>Values of their options\<close>

text \<open>What the handlers read is what the conversions made: an option not given has its default.\<close>

fun converted :: "conversion \<Rightarrow> arg_value \<Rightarrow> bool" where
  "converted AsWord v \<longleftrightarrow> (\<exists>w. v = Word w)"
| "converted AsFloat v \<longleftrightarrow> (\<exists>f. v = Real f)"
| "converted AsInt v \<longleftrightarrow> (\<exists>i. v = Integer i)"
| "converted (OneOf choices) v \<longleftrightarrow> (\<exists>w \<in> set choices. v = Word w)"
| "converted ReadyTaskLimit v \<longleftrightarrow> (\<exists>i. v = Integer i \<and> 1 \<le> i \<and> i \<le> 10)"

fun value_fits :: "action_kind \<Rightarrow> arg_value \<Rightarrow> arg_value \<Rightarrow> bool" where
  "value_fits (Store k) d v \<longleftrightarrow> v = d \<or> converted k v"
| "value_fits StoreTrue d v \<longleftrightarrow> v = Flag True \<or> v = Flag False"
| "value_fits Append d v \<longleftrightarrow> (\<exists>ws. v = Words ws)"

definition option_fits :: "option_spec \<Rightarrow> namespace \<Rightarrow> bool" where
  "option_fits q ns \<longleftrightarrow> value_fits (os_action q) (os_default q) (arg ns (os_flag q))"

definition values_fit :: "command_spec \<Rightarrow> namespace \<Rightarrow> bool" where
  "values_fit c ns \<longleftrightarrow> (\<forall>q \<in> set (cs_options c). option_fits q ns \<and> (os_required q \<longrightarrow> (\<exists>w. arg ns (os_flag q) = Word w)))
     \<and> (\<forall>(name, k) \<in> set_option (cs_positional c). converted k (arg ns name))
     \<and> (\<forall>name \<in> set_option (cs_remainder c). \<exists>ws. arg ns name = Words ws)"

text \<open>The tables: no two arguments of a command share a name, and the defaults fit.\<close>

definition argument_names :: "command_spec \<Rightarrow> string list" where
  "argument_names c = map os_flag (cs_options c) @ (case cs_positional c of None \<Rightarrow> [] | Some (name, _) \<Rightarrow> [name])
     @ (case cs_remainder c of None \<Rightarrow> [] | Some name \<Rightarrow> [name])"

definition table_ok :: "command_spec \<Rightarrow> bool" where
  "table_ok c \<longleftrightarrow> distinct (argument_names c)
     \<and> list_all (\<lambda>q. value_fits (os_action q) (os_default q) (os_default q) \<and> (os_required q \<longrightarrow> os_action q = Store AsWord)) (cs_options c)"

lemma tables_ok: "list_all (table_ok \<circ> snd) (commands_of d)"
  "list_all (list_all (table_ok \<circ> snd) \<circ> snd) (groups_of d cd)"
  by (simp_all add: commands_of_def groups_of_def table_ok_def argument_names_def doctor_parser_def health_parser_def
      controller_create_parser_def controller_grant_parser_def controller_send_parser_def launchd_render_parser_def
      provision_parser_def recover_parser_def recover_delivery_parser_def receipt_parser_def path_parser_def
      work_create_parser_def work_countersign_parser_def work_evidence_parser_def audit_verify_parser_def
      task_ready_parser_def run_parser_def required_option_def parser_tables)


definition scan_fits :: "command_spec \<Rightarrow> scan \<Rightarrow> bool" where
  "scan_fits c s \<longleftrightarrow> (\<forall>q \<in> set (cs_options c). option_fits q (sc_values s)
       \<and> (os_required q \<and> os_flag q \<in> set (sc_seen s) \<longrightarrow> (\<exists>w. arg (sc_values s) (os_flag q) = Word w)))
     \<and> (\<forall>(name, k) \<in> set_option (cs_positional c). name \<in> set (sc_seen s) \<longrightarrow> converted k (arg (sc_values s) name))
     \<and> (\<forall>name \<in> set_option (cs_remainder c). \<exists>ws. arg (sc_values s) name = Words ws)"

lemma convert_converted: "convert to_float to_int k w = Some v \<Longrightarrow> converted k v"
  by (cases k) (auto split: option.splits if_splits)

lemma one_option:
  assumes "table_ok c" "q \<in> set (cs_options c)" "q' \<in> set (cs_options c)" "os_flag q' = os_flag q"
  shows "q' = q"
  using assms by (auto simp: table_ok_def argument_names_def distinct_map inj_on_def)

lemma store_option_fits:
  assumes "table_ok c" "scan_fits c s" "q \<in> set (cs_options c)" "store_option c q v s = Some s'"
    and v: "case os_action q of Store k \<Rightarrow> converted k v | StoreTrue \<Rightarrow> v = Flag True | Append \<Rightarrow> \<exists>w. v = Word w"
  shows "scan_fits c s'"
proof -
  let ?v = "stored (os_action q) (arg (sc_values s) (os_flag q)) v"
  have s': "sc_values s' = AList.update (os_flag q) ?v (sc_values s)" "sc_seen s' = os_flag q # sc_seen s"
    using assms(4) by (auto simp: store_option_def split: if_splits)
  have "option_fits q (sc_values s)" using assms(2,3) by (simp add: scan_fits_def)
  then have new: "value_fits (os_action q) (os_default q) ?v"
    using v by (cases "os_action q") (auto simp: option_fits_def stored_anew)
  have word: "\<exists>w. ?v = Word w" if "os_required q"
    using v that assms(1,3) by (auto simp: table_ok_def list_all_iff stored_anew)
  have apart: "name \<noteq> os_flag q" if "cs_positional c = Some (name, k) \<or> cs_remainder c = Some name" for name k
    using that assms(1,3) by (auto simp: table_ok_def argument_names_def)
  show ?thesis
    using assms(2) new word apart one_option [OF assms(1,3)]
    unfolding scan_fits_def s' option_fits_def by (fastforce simp: arg_update)
qed

lemma store_positional_fits:
  assumes "table_ok c" "scan_fits c s" "store_positional to_float to_int c w s = Some s'"
  shows "scan_fits c s'"
proof (cases "cs_positional c")
  case (Some p)
  obtain name k where p: "p = (name, k)" by fastforce
  have apart: "\<And>q. q \<in> set (cs_options c) \<Longrightarrow> os_flag q \<noteq> name" "cs_remainder c \<noteq> Some name"
    using assms(1) Some p by (auto simp: table_ok_def argument_names_def)
  show ?thesis
    using assms(2,3) apart Some p
    by (fastforce simp: store_positional_def scan_fits_def option_fits_def arg_update split: if_splits option.splits
      dest: convert_converted)
qed (use assms in \<open>auto simp: store_positional_def scan_fits_def\<close>)

lemma remainder_fits:
  assumes "table_ok c" "scan_fits c s" "cs_remainder c = Some name"
  shows "scan_fits c (s\<lparr>sc_values := AList.update name (Words ws) (sc_values s)\<rparr>)"
proof -
  have apart: "\<And>q. q \<in> set (cs_options c) \<Longrightarrow> os_flag q \<noteq> name" "\<And>k. cs_positional c \<noteq> Some (name, k)"
    using assms(1,3) by (auto simp: table_ok_def argument_names_def)
  show ?thesis
    using assms(2,3) apart by (fastforce simp: scan_fits_def option_fits_def arg_update)
qed

text \<open>What every store keeps, a scan keeps.\<close>

lemma scan_words_keeps:
  assumes option: "\<And>w n u q v s s'. w \<in> set all_words \<Longrightarrow> classify (command_flags c) w = Given n u \<Longrightarrow>
       find (\<lambda>q. os_flag q = n) (cs_options c) = Some q \<Longrightarrow> store_option c q v s = Some s' \<Longrightarrow>
       (case os_action q of Store k \<Rightarrow> converted k v | StoreTrue \<Rightarrow> v = Flag True | Append \<Rightarrow> \<exists>x. v = Word x) \<Longrightarrow> P s \<Longrightarrow> P s'"
    and positional: "\<And>w s s'. store_positional to_float to_int c w s = Some s' \<Longrightarrow> P s \<Longrightarrow> P s'"
    and remainder: "\<And>name ws s. cs_remainder c = Some name \<Longrightarrow> P s \<Longrightarrow>
       P (s\<lparr>sc_values := AList.update name (Words ws) (sc_values s)\<rparr>)"
    and left_over: "\<And>s. P s \<Longrightarrow> P (s\<lparr>sc_left_over := True\<rparr>)"
  shows "scan_words to_float to_int c ws s = Done s' \<Longrightarrow> set ws \<subseteq> set all_words \<Longrightarrow> P s \<Longrightarrow> P s'"
proof (induction ws arbitrary: s rule: length_induct)
  case (1 ws)
  let ?scan = "scan_words to_float to_int c"
  show ?case
  proof (cases ws)
    case (Cons w ys)
    have tail: "P s'" if "?scan ys s1 = Done s'" "P s1" for s1
      using 1(1) [rule_format, of ys s1] 1(3) that by (simp add: Cons)
    have later: "P s'" if "?scan zs s1 = Done s'" "ys = x # zs" "P s1" for zs x s1
      using 1(1) [rule_format, of zs s1] 1(3) that by (simp add: Cons)
    have "w \<in> set all_words" using 1(3) by (simp add: Cons)
    note stored = option [OF this]
    have valued: "P s1"
      if given: "classify (command_flags c) w = Given n u" "find (\<lambda>q. os_flag q = n) (cs_options c) = Some q"
        "os_action q \<noteq> StoreTrue" "Option.bind (convert to_float to_int (case os_action q of Store k \<Rightarrow> k | _ \<Rightarrow> AsWord) x) (\<lambda>y. store_option c q y s) = Some s1"
      for n u q x s1
    proof -
      obtain y where y: "convert to_float to_int (case os_action q of Store k \<Rightarrow> k | _ \<Rightarrow> AsWord) x = Some y"
         "store_option c q y s = Some s1" using given(4) by (auto simp: bind_eq_Some_conv)
      have "case os_action q of Store k \<Rightarrow> converted k y | StoreTrue \<Rightarrow> y = Flag True | Append \<Rightarrow> \<exists>x. y = Word x"
        using given(3) convert_converted [OF y(1)] by (cases "os_action q") auto
      from stored [OF given(1,2) y(2) this 1(4)] show ?thesis .
    qed
    have switched: "P s1"
      if "classify (command_flags c) w = Given n u" "find (\<lambda>q. os_flag q = n) (cs_options c) = Some q" "os_action q = StoreTrue"
        "store_option c q (Flag True) s = Some s1" for n u q s1
      using stored [OF that(1,2,4)] that(3) 1(4) by simp
    note step = 1(2) [unfolded Cons scan_words.simps(2)]
    show ?thesis
    proof (cases "cs_remainder c \<noteq> None \<and> (w = ''--'' \<or> classify (command_flags c) w = Plain) \<or> w = ''--''")
      case True
      then show ?thesis
        using step 1(4) by (auto split: if_splits list.splits option.splits intro: remainder positional left_over)
    next
      case False
      then show ?thesis
        using step 1(4)
        by (auto simp: Let_def simp del: scan_words.simps split: if_splits option.splits word_kind.splits list.splits
            intro: tail later positional left_over valued switched)
    qed
  qed (use 1 in simp)
qed

lemma scan_words_fits:
  assumes "table_ok c" "scan_words to_float to_int c ws s = Done s'" "scan_fits c s"
  shows "scan_fits c s'"
proof (rule scan_words_keeps [where P = "scan_fits c", OF _ _ _ _ assms(2) order.refl assms(3)])
  fix w n u q v s s'
  assume "find (\<lambda>q. os_flag q = n) (cs_options c) = Some q" "store_option c q v s = Some s'"
    "case os_action q of Store k \<Rightarrow> converted k v | StoreTrue \<Rightarrow> v = Flag True | Append \<Rightarrow> \<exists>x. v = Word x" "scan_fits c s"
  then show "scan_fits c s'"
    using store_option_fits [OF assms(1)] by (auto simp: find_Some_iff dest: nth_mem)
next
  fix w s s' assume "store_positional to_float to_int c w s = Some s'" "scan_fits c s"
  then show "scan_fits c s'" using store_positional_fits [OF assms(1)] by blast
next
  fix name ws s assume "cs_remainder c = Some name" "scan_fits c s"
  then show "scan_fits c (s\<lparr>sc_values := AList.update name (Words ws) (sc_values s)\<rparr>)"
    using remainder_fits [OF assms(1)] by blast
next
  fix s assume "scan_fits c s" then show "scan_fits c (s\<lparr>sc_left_over := True\<rparr>)" by (simp add: scan_fits_def)
qed

lemma start_fits: "table_ok c \<Longrightarrow> scan_fits c \<lparr>sc_values = defaults_of c, sc_seen = [], sc_left_over = False\<rparr>"
proof -
  assume ok: "table_ok c"
  have option: "arg (defaults_of c) (os_flag q) = os_default q" if "q \<in> set (cs_options c)" for q
  proof -
    have "distinct (map fst (map (\<lambda>q. (os_flag q, os_default q)) (cs_options c)))"
      using ok by (simp add: table_ok_def argument_names_def comp_def)
    moreover have "(os_flag q, os_default q) \<in> set (map (\<lambda>q. (os_flag q, os_default q)) (cs_options c))" using that by simp
    ultimately have "map_of (map (\<lambda>q. (os_flag q, os_default q)) (cs_options c)) (os_flag q) = Some (os_default q)"
      by (rule map_of_is_SomeI)
    then show ?thesis by (simp add: arg_def defaults_of_def map_add_Some_iff map_of_append split: option.split) 
  qed
  have remainder: "arg (defaults_of c) name = Words []" if "cs_remainder c = Some name" for name
  proof -
    have "name \<notin> os_flag ` set (cs_options c)" using ok that by (auto simp: table_ok_def argument_names_def)
    then have "map_of (map (\<lambda>q. (os_flag q, os_default q)) (cs_options c)) name = None"
      by (auto simp: map_of_eq_None_iff)
    then show ?thesis using that by (simp add: arg_def defaults_of_def map_add_def)
  qed
  show ?thesis
    using ok by (auto simp: scan_fits_def option_fits_def option remainder table_ok_def list_all_iff)
qed

definition command_at :: "path \<Rightarrow> path \<Rightarrow> string list \<Rightarrow> command_spec option" where
  "command_at d cd path = (case path of
      [n] \<Rightarrow> map_of (commands_of d) n
    | [g, n] \<Rightarrow> Option.bind (map_of (groups_of d cd) g) (\<lambda>cs. map_of cs n)
    | _ \<Rightarrow> None)"

lemma parse_command_fits:
  assumes "parse_command to_float to_int here c ws = Selected path ns" "table_ok c"
  shows "path = here \<and> values_fit c ns"
proof -
  obtain s where s: "scan_words to_float to_int c ws \<lparr>sc_values = defaults_of c, sc_seen = [], sc_left_over = False\<rparr> = Done s"
     "path = here" "ns = sc_values s" "\<forall>q \<in> set (cs_options c). os_required q \<longrightarrow> os_flag q \<in> set (sc_seen s)"
     "case cs_positional c of None \<Rightarrow> True | Some (name, _) \<Rightarrow> name \<in> set (sc_seen s)"
    using assms(1) by (auto simp: parse_command_def split: scanned.splits if_splits option.splits dest: scan_stops)
  from scan_words_fits [OF assms(2) s(1) start_fits [OF assms(2)]] s(2-) show ?thesis
    by (auto simp: scan_fits_def values_fit_def)
qed

lemma parse_fits:
  assumes "parse_args to_float to_int d cd words = Selected path ns"
  shows "\<exists>c. command_at d cd path = Some c \<and> values_fit c ns"
proof -
  have command: "table_ok c" if "map_of (commands_of d) n = Some c" for n c
    using map_of_SomeD [OF that] tables_ok(1) [of d] by (auto simp: list_all_iff)
  have grouped: "table_ok c" if "map_of (groups_of d cd) g = Some cs" "map_of cs n = Some c" for g n cs c
    using map_of_SomeD [OF that(1)] map_of_SomeD [OF that(2)] tables_ok(2) [of d cd] by (fastforce simp: list_all_iff)
  obtain w ws where "(case map_of (commands_of d) w of
         Some c \<Rightarrow> parse_command to_float to_int [w] c ws
       | None \<Rightarrow> (case map_of (groups_of d cd) w of
             None \<Rightarrow> Refused
           | Some subcommands \<Rightarrow> subcommand [''-h'', ''--help''] ws (\<lambda>v vs. case map_of subcommands v of
                 None \<Rightarrow> Refused
               | Some c \<Rightarrow> parse_command to_float to_int [w, v] c vs))) = Selected path ns"
    using assms unfolding parse_args_def by (rule subcommand_selects)
  then show ?thesis
    by (auto split: option.splits elim!: subcommand_selects dest!: parse_command_fits simp: command_at_def intro: command grouped)
qed

lemma command_at_path: "command_at d cd path = Some c \<Longrightarrow> path \<in> set (command_paths d cd)"
proof -
  assume "command_at d cd path = Some c"
  then consider n where "path = [n]" "map_of (commands_of d) n = Some c"
    | g n cs where "path = [g, n]" "map_of (groups_of d cd) g = Some cs" "map_of cs n = Some c"
    by (auto simp: command_at_def bind_eq_Some_conv split: list.splits)
  then show ?thesis
    by cases (force simp: command_paths_def dest!: map_of_SomeD)+
qed

section \<open>Commands that only look\<close>

lemma idle_commands:
  "idle.grows (doctor M p)" "idle.grows (health_command M h running)"
  "idle.grows (launchd_command M h label p out_log err_log)" "idle.grows (verify_receipt_command M p)"
  "idle.grows (work_receipt_verify M p)" "idle.grows (work_evidence_command M p rf sf tf markdown)"
  "idle.grows (audit_command M p head)"
  unfolding doctor_def load_identity_and_key_def case_prod_unfold health_command_def launchd_command_def
    render_launch_agent_def Let_def verify_receipt_command_def work_receipt_verify_def read_text_artifact_def
    work_evidence_command_def read_answer_of_def audit_command_def
  by (intro idle.grows_looks idle.grows_health idle_validate_spec;
    auto split: option.split intro!: idle.grows_looks)+

lemma idle_tasks: "idle.grows (tasks_handler Oc ns)"
  unfolding tasks_handler_def tasks_command_def Let_def by (split option.split) (intro conjI impI allI idle.grows_looks)

text \<open>The commands that may write\<close>

definition writing_commands :: "string list list" where
  "writing_commands = [[''controller'', ''create''], [''controller'', ''grant''], [''controller'', ''send''], [''provision''],
     [''recover''], [''recover-delivery''], [''receipt''], [''work-receipt'', ''create''], [''work-receipt'', ''countersign''],
     [''run'']]"

lemma handlers_look:
  assumes "map_of (handlers M Oc ns) path = Some h"
  shows "path \<in> set writing_commands \<or> idle.grows h"
proof -
  have "list_all (\<lambda>(p, h). p \<in> set writing_commands \<or> idle.grows h) (handlers M Oc ns)"
    by (simp add: handlers_def Let_def idle_commands idle_tasks) (simp add: writing_commands_def)
  then show ?thesis using map_of_SomeD [OF assms] by (auto simp: list_all_iff)
qed

lemma main_selected:
  assumes "parse_args to_float to_int d cd words = Selected path ns"
  obtains h where "map_of (handlers M Oc ns) path = Some h"
    "main_program M Oc to_float to_int d cd words w = (main_status h w, Product_Type.snd (h w))"
proof -
  have "path \<in> fst ` set (handlers M Oc ns)"
    using parse_fits [OF assms] command_at_path handled_paths [of M Oc ns d cd] by fastforce
  then obtain h where "map_of (handlers M Oc ns) path = Some h" 
    by (metis map_of_eq_None_iff not_Some_eq)
  with that show thesis by (simp add: main_program_def assms)
qed

end
