(* ===== verification/Entry_Safety.thy ===== *)
theory Entry_Safety
  imports Entry_Points Cli_Safety Work_Counter
begin

text \<open>
  What the pilot scripts and the MCP server promise: no script acts without its acknowledgement, the
  work receipt pilot runs its test twice and no more, and a session of the server leaves no trace.
\<close>

section \<open>The acknowledgement\<close>

text \<open>An abbreviation of a flag that \<open>--help\<close> does not share names the third letter.\<close>

lemma abbreviated:
  assumes "option_tuples names w = [(ack, v)]" "''--help'' \<in> set names" "take 3 ack = ''--e''"
  shows "take 3 w = ''--e''"
proof -
  have two: "take 2 w = ''--''"
  proof (rule ccontr)
    assume "take 2 w \<noteq> ''--''"
    then have "ack = take 2 w" using assms(1) by (auto simp: option_tuples_def split: if_splits)
    then have "length ack \<le> 2" by simp
    then have "take 3 ack = ack" by simp
    with assms(3) \<open>length ack \<le> 2\<close> show False by simp
  qed
  let ?front = "takeWhile (\<lambda>c. c \<noteq> CHR ''='') w"
  have named: "map fst (option_tuples names w) = filter (has_prefix ?front) names"
    using two by (simp add: option_tuples_def split_equals_def Let_def comp_def)
  then have only: "filter (has_prefix ?front) names = [ack]" using assms(1) by simp
  then have "has_prefix ?front ack" by (auto simp: filter_eq_Cons_iff)
  moreover have "\<not> has_prefix ?front ''--help''"
  proof
    assume "has_prefix ?front ''--help''"
    then have "''--help'' \<in> set (filter (has_prefix ?front) names)" using assms(2) by simp
    then have "ack = ''--help''" using only by simp
    then show False using assms(3) by simp
  qed
  moreover obtain rest where w: "w = CHR ''-'' # CHR ''-'' # rest"
    using two by (cases w; cases "tl w") auto
  ultimately show ?thesis
  proof (cases rest)
    case (Cons c cs)
    have "c \<noteq> CHR ''=''" using \<open>\<not> has_prefix ?front ''--help''\<close> by (auto simp: has_prefix_def w Cons)
    then have front: "3 \<le> length ?front" "take 3 ?front = take 3 w" by (simp_all add: w Cons)
    have "take 3 (take (length ?front) ack) = take 3 ?front" using \<open>has_prefix ?front ack\<close> by (simp add: has_prefix_def)
    then show ?thesis using front assms(3) by (simp add: min_absorb1)
  qed (auto simp: has_prefix_def w)
qed

definition quiet_flag :: "command_spec \<Rightarrow> string \<Rightarrow> bool" where
  "quiet_flag c ack \<longleftrightarrow> take 3 ack = ''--e'' \<and> cs_remainder c = None \<and> cs_positional c = None
     \<and> list_all (\<lambda>q. os_flag q = ack \<longrightarrow> os_default q = Flag False) (cs_options c)"

lemma classified:
  assumes "classify (command_flags c) w = Given ack v" "take 3 ack = ''--e''"
  shows "take 3 w = ''--e''"
proof -
  have helps: "''--help'' \<in> set (command_flags c)" by (simp add: command_flags_def)
  show ?thesis
  proof (cases "w = [] \<or> hd w \<noteq> CHR ''-'' \<or> w \<in> set (command_flags c) \<or> length w = 1")
    case True
    then show ?thesis using assms by (auto simp: classify_def split: if_splits)
  next
    case False
    obtain front u where split: "split_equals w = (front, u)" by fastforce
    show ?thesis
    proof (cases "u \<noteq> None \<and> front \<in> set (command_flags c)")
      case True
      then have "front = ack" using assms(1) False split by (auto simp: classify_def)
      moreover have "take 3 front = ''--e'' \<Longrightarrow> take 3 w = ''--e''"
      proof -
        assume "take 3 front = ''--e''"
        moreover have "w = front @ dropWhile (\<lambda>c. c \<noteq> CHR ''='') w"
          using split by (auto simp: split_equals_def Let_def)
        moreover have "3 \<le> length front" using \<open>take 3 front = ''--e''\<close>
          by (metis One_nat_def Suc_eq_plus1 length_Cons length_take list.size(3) min.bounded_iff numeral_3_eq_3 order_refl plus_nat.add_0)
        ultimately show ?thesis by (metis take_append append_Nil2 diff_is_0_eq take0)
      qed
      ultimately show ?thesis using assms(2) by simp
    next
      case no: False
      then have "option_tuples (command_flags c) w = [(ack, v)]"
        using assms(1) False split by (auto simp: classify_def split: list.splits if_splits)
      then show ?thesis by (rule abbreviated [OF _ helps assms(2)])
    qed
  qed
qed

lemma unset_start:
  assumes "quiet_flag c ack" shows "\<not> is_set (defaults_of c) ack"
proof -
  have "arg (defaults_of c) ack \<noteq> Flag True"
  proof (cases "map_of (map (\<lambda>q. (os_flag q, os_default q)) (cs_options c)) ack")
    case None
    then show ?thesis using assms by (simp add: arg_def defaults_of_def quiet_flag_def)
  next
    case (Some v)
    then have "v = Flag False" using assms by (auto simp: quiet_flag_def list_all_iff dest!: map_of_SomeD)
    then show ?thesis using Some assms by (simp add: arg_def defaults_of_def quiet_flag_def)
  qed
  then show ?thesis by (simp add: is_set_def)
qed

lemma scan_unset:
  assumes "quiet_flag c ack" "scan_words to_float to_int c ws s = Done s'" "\<not> is_set (sc_values s) ack"
    "list_all (\<lambda>w. take 3 w \<noteq> ''--e'') ws"
  shows "\<not> is_set (sc_values s') ack"
proof (rule scan_words_keeps [where P = "\<lambda>s. \<not> is_set (sc_values s) ack", OF _ _ _ _ assms(2) order.refl assms(3)])
  fix w n u q v s s'
  assume w: "w \<in> set ws" "classify (command_flags c) w = Given n u" "find (\<lambda>q. os_flag q = n) (cs_options c) = Some q"
    and s: "store_option c q v s = Some s'" "\<not> is_set (sc_values s) ack"
  have "take 3 w \<noteq> ''--e''" using assms(4) w(1) by (simp add: list_all_iff)
  then have "n \<noteq> ack" using classified w(2) assms(1) by (auto simp: quiet_flag_def)
  moreover have "os_flag q = n" using w(3) by (auto simp: find_Some_iff)
  ultimately show "\<not> is_set (sc_values s') ack"
    using s by (auto simp: store_option_def is_set_def arg_update split: if_splits)
qed (use assms(1) in \<open>auto simp: quiet_flag_def store_positional_def\<close>)

lemma parsed_flag:
  assumes "quiet_flag c ack" "parse_command to_float to_int here c ws = Selected path ns" "is_set ns ack"
  shows "list_ex (\<lambda>w. take 3 w = ''--e'') ws"
proof (rule ccontr)
  assume "\<not> ?thesis"
  then have "list_all (\<lambda>w. take 3 w \<noteq> ''--e'') ws" by (auto simp: list_all_iff list_ex_iff)
  then show False
    using assms scan_unset [OF assms(1), of to_float to_int ws] unset_start [OF assms(1)]
    by (fastforce simp: parse_command_def split: scanned.splits if_splits dest: scan_stops)
qed

lemma script_acknowledged:
  assumes "quiet_flag c ack"
  shows "list_ex (\<lambda>w. take 3 w = ''--e'') words
    \<or> Product_Type.snd (script_main (parse_command to_float to_int [] c words) ack go code w) = w"
  using parsed_flag [OF assms] by (auto simp: script_main_def split: parsed.split)

lemma quiet_flags: "quiet_flag (live_pilot_parser d) ''--execute-live-pilot''"
  "quiet_flag (receipt_pilot_parser d) ''--execute-live-receipt-pilot''"
  "quiet_flag work_pilot_parser ''--execute-work-receipt-pilot''"
  by (simp_all add: quiet_flag_def live_pilot_parser_def receipt_pilot_parser_def work_pilot_parser_def required_option_def
      parser_tables)

section \<open>The MCP server\<close>

lemma served_looks: "waited w (Product_Type.snd (serve_calls M s calls w))"
proof (induction calls arbitrary: w)
  case (Cons call calls)
  have "waited w (Product_Type.snd (call_tool (mc_env M) (mc_lib M) (mc_reads M) s call w))"
    by (simp add: idle.growsD idle_call_tool)
  then show ?case using Cons idle.trans by (auto simp: Let_def split: prod.split) (metis snd_conv)
qed (simp add: idle.refl)

lemma mcp_looks: "waited w (Product_Type.snd (Product_Type.snd (mcp_main M to_float to_int sdk interrupted calls words w)))"
  using served_looks [of w M _ calls]
  by (auto simp: mcp_main_def idle.refl split: parsed.split sum.split prod.split)

section \<open>The work receipt pilot\<close>

text \<open>
  From \<open>w\<close> to \<open>w'\<close> the programs that ran besides git are those of \<open>cmds\<close>, in this order; no file is
  another, but the one at \<open>p\<close> where there was none.
\<close>

definition ran_but :: "path option \<Rightarrow> request list \<Rightarrow> world \<Rightarrow> world \<Rightarrow> bool" where
  "ran_but p cmds w w' \<longleftrightarrow> (\<exists>rs. map fst (sent w') = map fst (sent w) @ rs \<and> filter (\<lambda>r. \<not> is_git r) rs = cmds)
     \<and> (\<forall>q. fs w' q = fs w q \<or> fs w q = None \<and> p = Some q)"

lemma ran_refl: "ran_but p [] w w"
  by (simp add: ran_but_def)

lemma ran_trans: "ran_but p xs u v \<Longrightarrow> ran_but p ys v w \<Longrightarrow> ran_but p (xs @ ys) u w"
proof -
  assume u: "ran_but p xs u v" and v: "ran_but p ys v w"
  obtain rs qs where "map fst (sent v) = map fst (sent u) @ rs" "filter (\<lambda>r. \<not> is_git r) rs = xs"
      "map fst (sent w) = map fst (sent v) @ qs" "filter (\<lambda>r. \<not> is_git r) qs = ys"
    using u v by (auto simp: ran_but_def)
  then have "map fst (sent w) = map fst (sent u) @ (rs @ qs)" "filter (\<lambda>r. \<not> is_git r) (rs @ qs) = xs @ ys" by simp_all
  moreover have "fs w q = fs u q \<or> fs u q = None \<and> p = Some q" for q
    using u v unfolding ran_but_def by metis
  ultimately show "ran_but p (xs @ ys) u w" unfolding ran_but_def by blast
qed

lemma ran_asked: "asked rs w w' \<Longrightarrow> ran_but p (filter (\<lambda>r. \<not> is_git r) rs) w w'"
  by (auto simp: asked_def ran_but_def)

lemma ran_looking: "only_git w w' \<Longrightarrow> ran_but p [] w w'"
  unfolding only_git_def using ran_asked [of _ w w' p] by (fastforce simp: list_all_iff filter_empty_conv)

lemma ran_once:
  assumes "only_git w u" "asked [ExecCommand d args ms] u v" "only_git v w'"
  shows "ran_but p [ExecCommand d args ms] w w'"
  using ran_trans [OF ran_trans [OF ran_looking [OF assms(1)] ran_asked [OF assms(2)]] ran_looking [OF assms(3)], of p]
  by simp

lemma ran_between: "run_between_looks L B d co args ms r w w' \<Longrightarrow> ran_but p [ExecCommand (co_root co) args (nat ms)] w w'"
  unfolding run_between_looks_def one_answer_def by (blast intro: ran_once saw_checkout_git)

lemma ran_stopped:
  assumes "stopped_run L B d P w w'" shows "\<exists>cmds. length cmds \<le> 1 \<and> ran_but p cmds w w'"
proof -
  have "ran_but p [] w w' \<or> (\<exists>d args ms. ran_but p [ExecCommand d args ms] w w')"
    using assms unfolding stopped_run_def by (blast intro: ran_looking ran_once saw_checkout_git)
  then show ?thesis by (metis le_numeral_extra(4) length_0_conv length_Cons One_nat_def zero_le_one)
qed

definition ran_twice_at_most :: "path option \<Rightarrow> world \<Rightarrow> world \<Rightarrow> bool" where
  "ran_twice_at_most p w w' \<longleftrightarrow> (\<exists>cmds. length cmds \<le> 2 \<and> ran_but p cmds w w')"

text \<open>
  What a passed pilot shows: two different identities, a verified receipt of the first for one run of
  the test, one countersignature of the second after another run that gave the same, and both runs
  in the clone, each between two looks at it.
\<close>

definition passed_work_pilot :: "lib \<Rightarrow> workshop \<Rightarrow> clone_desk \<Rightarrow> path option \<Rightarrow> work_summary \<Rightarrow> world \<Rightarrow> world \<Rightarrow> bool" where
  "passed_work_pilot L B K p s w w' \<longleftrightarrow> (\<exists>worker verifier co co' ms r r' ex env q u v x.
     did_from_private_key L (cd_worker K) = Inr worker \<and> did_from_private_key L (cd_verifier K) = Inr verifier
     \<and> worker \<noteq> verifier \<and> work_receipt_ok L env (ws_payload s) [q] \<and> dget q ''verifier'' = JStr verifier
     \<and> ws_countersignatures s = 1 \<and> ws_payload s = work_payload worker co (map JStr test_command) ms ex
     \<and> measured L ex r \<and> run_between_looks L B (resolve_path B (cd_checkout K)) co test_command ms r u v
     \<and> asks_for (ws_payload s) co' test_command ms \<and> claims_reply L (ws_payload s) r'
     \<and> run_between_looks L B (resolve_path B (cd_checkout K)) co' test_command ms r' v x
     \<and> ran_but p [] w u \<and> ran_but p [] x w'
     \<and> ran_but p [ExecCommand (co_root co) test_command (nat ms), ExecCommand (co_root co') test_command (nat ms)] w w')"

lemma write_private_new_ran: "wp (write_private_new E p body) (\<lambda>_. ran_but (Some p) [] w) (\<lambda>_. ran_but (Some p) [] w) w"
  by (auto simp: write_private_new_def wp_simps Let_def ran_but_def split: io_fault.split)

lemma same_receipt:
  assumes "decode_work src = Inr env" "work_receipt_ok L env p qs" "work_receipt_ok L env p' qs'"
  shows "p' = p \<and> length qs' = length qs"
proof -
  have "verify_and_decode L src = Inr (\<lparr>ws_payload = p, ws_countersignatures = length qs, ws_matching = length qs\<rparr>, env)"
    "verify_and_decode L src = Inr (\<lparr>ws_payload = p', ws_countersignatures = length qs', ws_matching = length qs'\<rparr>, env)"
    using assms by (auto simp: verify_and_decode_iff)
  then show ?thesis by simp
qed

lemma pilot_receipt:
  assumes "names_run L worker co test_command ms rp v" "countersigned_by L verifier (ReceiptValue v) p v'"
    "asks_for p co' args ms'" "verify_work_receipt L (ReceiptValue v') = Inr s"
  shows "\<exists>ex env q. measured L ex rp \<and> work_receipt_ok L env (ws_payload s) [q] \<and> dget q ''verifier'' = JStr verifier
     \<and> ws_countersignatures s = 1 \<and> ws_payload s = work_payload worker co (map JStr test_command) ms ex
     \<and> p = ws_payload s \<and> args = test_command \<and> ms' = ms \<and> worker \<noteq> verifier"
proof -
  obtain env ex where v: "v = JObj env" "measured L ex rp"
     "work_receipt_ok L env (work_payload worker co (map JStr test_command) ms ex) []"
    using assms(1) by (auto simp: names_run_def)
  obtain env' qs q where c: "work_receipt_ok L env p qs" "v' = JObj env'" "work_receipt_ok L env' p (qs @ [q])"
     "dget q ''verifier'' = JStr verifier"
    using assms(2) v(1) by (auto simp: countersigned_by_def decode_work_def decode_source_def as_obj_def)
  have d: "decode_work (ReceiptValue (JObj e)) = Inr e" for e
    by (simp add: decode_work_def decode_source_def as_obj_def)
  have p: "p = work_payload worker co (map JStr test_command) ms ex" "qs = []"
    using same_receipt [OF d v(3) c(1)] by simp_all
  have s: "s = \<lparr>ws_payload = p, ws_countersignatures = 1, ws_matching = 1\<rparr>"
  proof -
    obtain p' qs' where "work_receipt_ok L env' p' qs'" "s = \<lparr>ws_payload = p', ws_countersignatures = length qs', ws_matching = length qs'\<rparr>"
      using assms(4) d [of env'] c(2) unfolding verify_work_receipt_def bind_eq_Inr
      by (auto simp: verify_and_decode_iff split: prod.splits)
    then show ?thesis using same_receipt [OF d c(3)] p(2) by force
  qed
  have fields: "dget p ''command'' = JArr (map JStr test_command)" "dget p ''timeout_ms'' = JInt ms" "dget p ''issuer'' = JStr worker"
    unfolding p(1) by (simp_all add: work_payload_def dget_def)
  have "map JStr args = map JStr test_command" "ms' = ms"
    using assms(3) fields by (simp_all add: asks_for_def)
  then have "args = test_command" by (simp add: inj_map_eq_map inj_def)
  moreover have "worker \<noteq> verifier" using c(3,4) fields(3) by (auto simp: work_receipt_ok_def p(2))
  ultimately show ?thesis using v(2) c(3,4) p s \<open>ms' = ms\<close>
    by (intro exI [of _ ex] exI [of _ env'] exI [of _ q]) simp
qed

text \<open>The receipt of the first run, and the world after it\<close>

definition issued_in_clone :: "lib \<Rightarrow> workshop \<Rightarrow> path \<Rightarrow> str \<Rightarrow> checkout \<Rightarrow> int \<Rightarrow> command_reply \<Rightarrow> json \<Rightarrow> world \<Rightarrow> world \<Rightarrow> bool" where
  "issued_in_clone L B d worker co ms r v w w1 \<longleftrightarrow>
     names_run L worker co test_command ms r v \<and> run_between_looks L B d co test_command ms r w w1"

lemma few_runs: "ran_but p cmds w w' \<Longrightarrow> length cmds \<le> 2 \<Longrightarrow> ran_twice_at_most p w w'"
  by (auto simp: ran_twice_at_most_def)

lemma publish_wp:
  assumes keys: "did_from_private_key L (cd_worker K) = Inr worker" "did_from_private_key L (cd_verifier K) = Inr verifier"
    and v: "issued_in_clone L B (resolve_path B (cd_checkout K)) worker co ms r v w w1" and p: "p = map_option (resolve_path B) out"
    and c: "countersigned_by L verifier (ReceiptValue v) q v'" "asks_for q co' args ms'" "claims_reply L q r'"
    and w2: "run_between_looks L B (resolve_path B (cd_checkout K)) co' args ms' r' w1 w2"
  shows "wp (publish_pilot E B L out v') (\<lambda>s w'. passed_work_pilot L B K p s w w') (\<lambda>_. ran_twice_at_most p w) w2"
proof -
  note v = v [unfolded issued_in_clone_def]
  note both = ran_trans [OF ran_between [OF conjunct2 [OF v]] ran_between [OF w2], of p, simplified]
  have saved: "wp (case out of None \<Rightarrow> iret () | Some p \<Rightarrow> write_private_new E (resolve_path B p) b) (\<lambda>_. ran_but p [] w2)
      (\<lambda>_. ran_but p [] w2) w2" for b
    by (cases out) (simp_all add: p wp_simps ran_refl write_private_new_ran)
  have failed: "ran_twice_at_most p w w'" if "ran_but p [] w2 w'" for w'
    by (rule few_runs [OF ran_trans [OF both that]]) simp
  show ?thesis
  proof (cases "verify_work_receipt L (ReceiptValue v')")
    case (Inl e)
    then show ?thesis using few_runs [OF both] by (simp add: publish_pilot_def wp_simps)
  next
    case s: (Inr s)
    have passed: "passed_work_pilot L B K p s w w'" if "ran_but p [] w2 w'" for w'
    proof -
      obtain ex env q1 where m: "measured L ex r" "work_receipt_ok L env (ws_payload s) [q1]" "dget q1 ''verifier'' = JStr verifier"
         "ws_countersignatures s = 1" "ws_payload s = work_payload worker co (map JStr test_command) ms ex"
         "q = ws_payload s" "args = test_command" "ms' = ms" "worker \<noteq> verifier"
        using pilot_receipt [OF conjunct1 [OF v] c(1,2) s] by blast
      have "ran_but p [ExecCommand (co_root co) test_command (nat ms), ExecCommand (co_root co') test_command (nat ms)] w w'"
        using ran_trans [OF both that] m(7,8) by simp
      then show ?thesis
        unfolding passed_work_pilot_def using m keys v c(2,3) w2 that ran_refl [of p w] by blast
    qed
    show ?thesis
      unfolding publish_pilot_def s using failed passed
      by (auto simp: wp_simps ran_refl split: sum.split intro!: wp_mono [OF saved])
  qed
qed

lemma countersign_in_clone_wp:
  assumes keys: "did_from_private_key L (cd_worker K) = Inr worker" "did_from_private_key L (cd_verifier K) = Inr verifier"
    and v: "issued_in_clone L B (resolve_path B (cd_checkout K)) worker co ms r v w w1" and p: "p = map_option (resolve_path B) out"
  shows "wp (countersign_work_receipt E B L (ReceiptValue v) (cd_checkout K) verifier (cd_verifier K) (Some (Fin 30)))
     (\<lambda>v'. wp (publish_pilot E B L out v') (\<lambda>s w'. passed_work_pilot L B K p s w w') (\<lambda>_. ran_twice_at_most p w))
     (\<lambda>_. ran_twice_at_most p w) w1"
proof (rule wp_mono [OF countersign_wp])
  fix v' w2
  assume "countersign_done L B (resolve_path B (cd_checkout K)) verifier (ReceiptValue v) w1 v' w2"
  then show "wp (publish_pilot E B L out v') (\<lambda>s w'. passed_work_pilot L B K p s w w') (\<lambda>_. ran_twice_at_most p w) w2"
    unfolding countersign_done_def using publish_wp [OF keys v p] by blast
next
  fix e w2 assume "stopped_run L B (resolve_path B (cd_checkout K)) (asked_in L (ReceiptValue v)) w1 w2"
  then obtain cmds where "length cmds \<le> 1" "ran_but p cmds w1 w2" using ran_stopped by blast
  then show "ran_twice_at_most p w w2"
    using ran_trans [OF ran_between [OF conjunct2 [OF v [unfolded issued_in_clone_def]]]] few_runs by fastforce
qed

lemma pilot_in_clone_wp:
  "wp (pilot_in_clone E B L K out) (\<lambda>s w'. passed_work_pilot L B K (map_option (resolve_path B) out) s w w')
     (\<lambda>_. ran_twice_at_most (map_option (resolve_path B) out) w) w"
proof (cases "did_from_private_key L (cd_worker K)")
  case worker: (Inr worker)
  let ?p = "map_option (resolve_path B) out"
  show ?thesis
  proof (cases "did_from_private_key L (cd_verifier K)")
    case verifier: (Inr verifier)
    show ?thesis
      unfolding pilot_in_clone_def worker verifier
    proof (simp only: wp_ibind wp_lift sum.case, rule wp_mono [OF create_work_receipt_wp], goal_cases)
      case (1 v w1)
      then obtain co ms r where "issued_in_clone L B (resolve_path B (cd_checkout K)) worker co ms r v w w1"
        by (auto simp: issued_in_clone_def)
      then show ?case unfolding wp_ibind by (rule countersign_in_clone_wp [OF worker verifier _ refl])
    next
      case (2 e w1)
      then show ?case using ran_stopped few_runs by fastforce
    qed
  qed (use few_runs [OF ran_refl] worker in \<open>simp add: pilot_in_clone_def wp_simps\<close>)
qed (use few_runs [OF ran_refl] in \<open>simp add: pilot_in_clone_def wp_simps\<close>)

lemma exchange_ran:
  assumes "is_git r"
  shows "wp (exchange answers E r) (\<lambda>_. ran_but p [] w) (\<lambda>_. ran_but p [] w) w"
proof -
  have sent: "ran_but p [] w w'" if "sent_one r w w'" for w'
    using ran_asked [OF asked_sent_one [OF that], of p] assms by simp
  have same: "ran_but p [] w w'" if "untouched w w'" for w'
    using ran_asked [OF asked_untouched [OF that], of p] by simp
  show ?thesis by (rule exchange_wp) (use sent same in auto)
qed

lemma lift_git_wp:
  assumes "is_git r"
  shows "wp (ibind (exchange answers E r) (\<lambda>g. lift (f g))) (\<lambda>_. ran_but p [] w) (\<lambda>_. ran_but p [] w) w"
  unfolding wp_ibind
  by (rule wp_mono [OF exchange_ran [OF assms]]) (auto simp: wp_simps split: sum.split)

lemma checked_git_ran: "is_git r \<Longrightarrow> wp (checked_git E B r) (\<lambda>_. ran_but p [] w) (\<lambda>_. ran_but p [] w) w"
  unfolding checked_git_def by (rule lift_git_wp)

lemma clone_git_ran: "wp (clone_git E B d e) (\<lambda>_. ran_but p [] w) (\<lambda>_. ran_but p [] w) w"
  unfolding clone_git_def by (rule lift_git_wp) simp

lemma ran_then:
  assumes "wp m (\<lambda>_. ran_but p [] v) (\<lambda>_. ran_but p [] v) v" "ran_but p [] w v"
    and "\<And>x v'. ran_but p [] w v' \<Longrightarrow> wp (f x) Q (\<lambda>_. ran_twice_at_most p w) v'"
  shows "wp (ibind m f) Q (\<lambda>_. ran_twice_at_most p w) v"
  unfolding wp_ibind
proof (rule wp_mono [OF assms(1)])
  fix x v' assume "ran_but p [] v v'"
  with assms(2) have "ran_but p [] w v'" using ran_trans [of p "[]" w v "[]" v'] by simp
  then show "wp (f x) Q (\<lambda>_. ran_twice_at_most p w) v'" by (rule assms(3))
next
  fix e v' assume "ran_but p [] v v'"
  with assms(2) have "ran_but p [] w v'" using ran_trans [of p "[]" w v "[]" v'] by simp
  then show "ran_twice_at_most p w v'" unfolding ran_twice_at_most_def by (auto intro: exI [of _ "[]"])
qed

lemma passed_earlier:
  assumes w: "ran_but p [] w v" and pass: "passed_work_pilot L B K p s v w'" shows "passed_work_pilot L B K p s w w'"
proof -
  have "ran_but p cmds w x" if "ran_but p cmds v x" for cmds x using ran_trans [OF w that] by simp
  then show ?thesis using pass unfolding passed_work_pilot_def by blast
qed

lemma twice_earlier: "ran_but p [] w v \<Longrightarrow> ran_twice_at_most p v w' \<Longrightarrow> ran_twice_at_most p w w'"
  unfolding ran_twice_at_most_def using ran_trans [of p "[]" w v] by fastforce

lemma work_pilot_wp:
  "wp (execute_work_pilot E B L K repository out)
     (\<lambda>r w'. case r of
         None \<Rightarrow> ran_but None [] w w'
       | Some s \<Rightarrow> passed_work_pilot L B K (map_option (resolve_path B) out) s w w')
     (\<lambda>_. ran_twice_at_most (map_option (resolve_path B) out) w) w"
  (is "wp _ ?Q (\<lambda>_. ran_twice_at_most ?p w) w")
proof -
  have clone: "wp (ibind (pilot_in_clone E B L K out) (\<lambda>summary. iret (Some summary))) ?Q (\<lambda>_. ran_twice_at_most ?p w) v"
    if "ran_but ?p [] w v" for v
    unfolding wp_ibind by (rule wp_mono [OF pilot_in_clone_wp]) (auto simp: wp_simps intro: passed_earlier twice_earlier that)
  have clean: "wp (ibind (checked_git E B (RunGit source [''remote'', ''get-url'', ''origin''])) (\<lambda>origin.
       ibind (clone_git E B source (cd_checkout K)) (\<lambda>_.
       ibind (checked_git E B (SetOrigin (cd_checkout K) origin)) (\<lambda>_.
       ibind (pilot_in_clone E B L K out) (\<lambda>summary. iret (Some summary)))))) ?Q (\<lambda>_. ran_twice_at_most ?p w) v"
    if "ran_but ?p [] w v" for v source
    by (intro ran_then [OF checked_git_ran] ran_then [OF clone_git_ran] clone that) simp_all
  show ?thesis
    unfolding execute_work_pilot_def Let_def wp_ibind
  proof (rule wp_mono [OF checked_git_ran])
    fix status v assume v: "ran_but None [] w v"
    have "ran_but ?p [] w v" using v by (auto simp: ran_but_def)
    from clean [OF this] v show "wp (if status \<noteq> [] then iret None
        else ibind (checked_git E B (RunGit (resolve_path B repository) [''remote'', ''get-url'', ''origin''])) (\<lambda>origin.
          ibind (clone_git E B (resolve_path B repository) (cd_checkout K)) (\<lambda>_.
          ibind (checked_git E B (SetOrigin (cd_checkout K) origin)) (\<lambda>_.
          ibind (pilot_in_clone E B L K out) (\<lambda>summary. iret (Some summary)))))) ?Q (\<lambda>_. ran_twice_at_most ?p w) v"
      by (auto simp: wp_simps)
  next
    fix e v assume "ran_but None [] w v"
    then show "ran_twice_at_most ?p w v" unfolding ran_twice_at_most_def by (intro exI [of _ "[]"]) (auto simp: ran_but_def)
  qed simp
qed

end
