(* ===== verification/Operations_Guarantees.thy ===== *)
theory Operations_Guarantees
  imports Demo_Files Pilot_Safety Entry_Safety
begin

text \<open>
  What the commands around the responder promise: the health check and the LaunchAgent, the process
  lock, the commands that only look, the controller, the Keychain dialogue, the task list and the pilots.
\<close>

section \<open>Health and the LaunchAgent\<close>

text \<open>C13. In a calm environment, with owner-only files and a free lock, the health check says \<open>ready\<close> exactly
  when a live run could use the files: its own readers accept identity, configuration, state and
  policy, the configuration is active and the identity's own, the state is not behind it, no
  delivery is pending and the audit log, if any, is the agent's and verifies.\<close>

theorem ready_is_fit:
  assumes "calm E" and "\<And>t. \<not> H t (hp_lock P)" and "\<not> held w (hp_lock P)"
    and "list_all (private_at (fs w)) [hp_config P, hp_state P, hp_audit P, hp_lock P]"
  shows "(\<exists>r w'. inspect_operational_health E L H P None False w = (Inr r, w') \<and> hr_status r = ''ready'')
     \<longleftrightarrow> fit_to_run L P (fs w)"
proof
  assume "\<exists>r w'. inspect_operational_health E L H P None False w = (Inr r, w') \<and> hr_status r = ''ready''"
  then show "fit_to_run L P (fs w)" using wp_Inr [OF health_seen [of E L H P None False w]] by blast
next
  assume "fit_to_run L P (fs w)"
  then have "answers (inspect_operational_health E L H P None False) (\<lambda>r. hr_status r = ''ready'' \<and> hr_exit_code r = 0) w"
    by (rule fit_is_ready) (use assms in auto)
  then show "\<exists>r w'. inspect_operational_health E L H P None False w = (Inr r, w') \<and> hr_status r = ''ready''"
    by (auto simp: answers_def)
qed

theorem ready_is_fit_witness:
  "(\<exists>r w'. inspect_operational_health demo_env demo_lib no_locks demo_paths None False demo_ready_world = (Inr r, w')
      \<and> hr_status r = ''ready'')
   \<and> \<not> (\<exists>r w'. inspect_operational_health demo_env demo_lib no_locks demo_paths None False demo_world = (Inr r, w')
      \<and> hr_status r = ''ready'')"
proof -
  have "\<not> fit_to_run demo_lib demo_paths (fs demo_world)"
    by (simp add: fit_to_run_def config_fit_def demo_world_def)
  then show ?thesis
    using ready_is_fit [of demo_env no_locks demo_paths demo_ready_world demo_lib]
      ready_is_fit [of demo_env no_locks demo_paths demo_world demo_lib] demo_fit
    by (simp add: demo_calm no_locks_def demo_paths_def demo_file_at private_at_def demo_world_def)
qed

text \<open>C10. A rendered LaunchAgent starts: if the lock was free when the property list was rendered and the
  files it names are still what they were, then its program arguments parse, and on a machine where
  nothing fails and the Keychain has the key, the command takes the lock, has sent nothing, and is
  at its polling loop, for the room of the configuration and with the key of the identity.\<close>

theorem rendered_agent_reaches_its_loop:
  assumes "fst (render_launch_agent E (mc_lib M) H A s v) = Inr rendered"
    and "\<And>t. \<not> H t (hp_lock (la_health_paths s))" and "\<not> held v (hp_lock (la_health_paths s))"
    and "\<And>p. p \<in> set (checked_paths (la_health_paths s)) \<Longrightarrow> fs w p = fs v p"
    and "calm (mc_env M)" and "\<And>t. \<not> mc_locks M t (hp_lock (la_health_paths s))"
    and "\<not> held w (hp_lock (la_health_paths s))"
    and "hp_lock (la_health_paths s) \<notin> set (checked_paths (la_health_paths s))"
    and "\<And>p. p \<in> set (hp_lock (la_health_paths s) # checked_paths (la_health_paths s)) \<Longrightarrow> po_resolve (mc_paths M) p = p"
    and "\<And>i t. gave (\<lambda>E. load_identity E (mc_lib M) (hp_identity (la_health_paths s))) (fs w) i \<Longrightarrow>
       load_verified_private_key (mc_lib M) i (mc_keychain M t (id_service i, id_account i)) = Inr key"
  shows "\<exists>opts. parse_run to_float to_int d cd (tl (program_arguments s)) = Some opts \<and> ro_send opts
     \<and> ro_start_at opts = ''saved'' \<and> at_loop M (la_health_paths s) key opts sleeps w"
proof -
  have r: "list_all is_absolute (runtime_artifacts s)" "fit_to_run (mc_lib M) (la_health_paths s) (fs v)"
    using rendered_checked [OF assms(2,3,1)] by auto
  have "at_loop M (la_health_paths s) key (launched_options (la_health_paths s)) sleeps w"
    by (rule launched_run_at_loop [OF fit_elsewhere [OF r(2)]]) (use assms in auto)
  then show ?thesis
    using parse_program_arguments [OF r(1)] by (auto simp: launched_options_def)
qed

theorem rendered_agent_reaches_its_loop_witness:
  "\<exists>opts. parse_run (\<lambda>_. None) (\<lambda>_. None) ''/d'' ''/d'' (tl (program_arguments demo_spec)) = Some opts \<and> ro_send opts
     \<and> ro_start_at opts = ''saved'' \<and> at_loop demo_machine demo_paths demo_key opts 3 demo_ready_world"
proof -
  obtain t where t: "fst (render_launch_agent demo_env (mc_lib demo_machine) no_locks demo_answers demo_spec demo_ready_world) = Inr t"
    using demo_rendered by (auto simp: demo_machine)
  have p: "la_health_paths demo_spec = demo_paths" by (simp add: demo_spec_def)
  have key: "load_verified_private_key demo_lib i (KeychainText demo_seed) = Inr demo_key"
    if i: "gave (\<lambda>E. load_identity E demo_lib ''/i'') demo_files i" for i
  proof -
    have "i = demo_identity"
      using repeatsD [OF repeats_load_identity, of demo_lib "''/i''" demo_ready_world i demo_env]
        repeatsD [OF repeats_load_identity, of demo_lib "''/i''" demo_ready_world demo_identity demo_env]
        i demo_reads_identity demo_calm by (auto simp: demo_file_at)
    then show ?thesis by (simp add: demo_seed)
  qed
  show ?thesis
    using rendered_agent_reaches_its_loop [OF t, where w = demo_ready_world and key = demo_key and d = "''/d''" and cd = "''/d''"
        and sleeps = 3 and to_float = "\<lambda>_. None" and to_int = "\<lambda>_. None"] key
    unfolding p demo_machine
    by (simp add: no_locks_def demo_file_at demo_calm demo_paths_def checked_paths_def)
qed

section \<open>Commands that only look, and the lock\<close>

text \<open>C16. A command line that parses selects a command that has a handler, and gives every option and
  positional argument of it a value of its type, the required ones included. A usage error or a help
  text changes nothing. Whatever its arguments and whatever fails, a command leaves the world as it was
  (no file, no Keychain item, no request, no lock), or it is one of the ten that may write. A session of
  the MCP server, whatever its options and whatever its client calls, leaves the world as it was.\<close>

theorem command_lines_are_handled:
  "(case parse_args to_float to_int d cd words of
      Selected path ns \<Rightarrow> path \<in> fst ` set (handlers M Oc ns)
        \<and> (case command_at d cd path of None \<Rightarrow> False | Some c \<Rightarrow> values_fit c ns)
        \<and> (waited w (snd (main_program M Oc to_float to_int d cd words w)) \<or> path \<in> set writing_commands)
    | _ \<Rightarrow> snd (main_program M Oc to_float to_int d cd words w) = w)
   \<and> waited w (snd (snd (mcp_main M to_float to_int sdk interrupted calls mcp_words w)))"
proof -
  have "path \<in> fst ` set (handlers M Oc ns)
      \<and> (waited w (snd (main_program M Oc to_float to_int d cd words w)) \<or> path \<in> set writing_commands)"
    if selected: "parse_args to_float to_int d cd words = Selected path ns" for path ns
  proof -
    obtain h where h: "map_of (handlers M Oc ns) path = Some h"
       "main_program M Oc to_float to_int d cd words w = (main_status h w, Product_Type.snd (h w))"
      by (rule main_selected [OF selected])
    have "path \<in> fst ` set (handlers M Oc ns)" using map_of_SomeD [OF h(1)] by force
    then show ?thesis using handlers_look [OF h(1)] h(2) by (auto dest: idle.growsD)
  qed
  then show ?thesis
    using mcp_looks by (auto simp: main_program_def dest: parse_fits split: parsed.split option.split)
qed

text \<open>C32. While another process holds the lock, a live run, a delivery recovery and a controller command do
  nothing: none of them returns a result or takes the lock, no request is sent, no file but the lock
  file changes, and the lock file keeps its content: at most its mode is set to \<open>0o600\<close>, or an empty
  one is made where there was none.\<close>

theorem busy_lock_keeps_out:
  assumes "\<And>t. mc_locks M t p" and "ro_send opts"
    and "path_beside_identity M (ro_lock opts) (po_resolve (mc_paths M) (ro_identity opts)) ''safe-agent.lock'' = p"
    and "health_path M lock_file (po_absolute (mc_paths M) identity) ''controller.lock'' = p"
  shows "wp (run_command M opts sleeps rounds) (\<lambda>_ _. False) (\<lambda>_. lock_untouched p w) w
     \<and> wp (recover_delivery_locked M a identity p apply_it confirm_retry) (\<lambda>_ _. False) (\<lambda>_. lock_untouched p w) w
     \<and> wp (controller_send_command M identity config_file state_file lock_file command seconds) (\<lambda>_ _. False)
         (\<lambda>_. lock_untouched p w) w"
proof -
  have out: "wp (ibind (with_process_lock (mc_env M) (mc_locks M) (mc_pid M) p m) f) (\<lambda>_ _. False) (\<lambda>_. lock_untouched p w) w1"
    if "waited w w1" for w1 and m :: "'x io" and f :: "'x \<Rightarrow> 'y io"
    unfolding wp_ibind
    by (rule wp_mono [OF busy_lock_wp [where H = "mc_locks M" and w = w1]])
      (use that assms(1) in \<open>auto simp: waited_def lock_untouched_def agrees_but_def\<close>)
  have same: "lock_untouched p w w1" if "waited w w1" for w1
    using that by (auto simp: waited_def lock_untouched_def agrees_but_def split: option.split)
  have idle_key: "idle.grows (load_identity_and_key M q)" for q
    unfolding load_identity_and_key_def by (intro idle.grows_looks)
  have idle_active: "idle.grows (load_active_config E L i message q)" for E L i message q
    unfolding load_active_config_def by (intro idle.grows_looks) (auto intro!: idle.grows_looks)
  have "wp (run_command M opts sleeps rounds) (\<lambda>_ _. False) (\<lambda>_. lock_untouched p w) w"
    unfolding run_command_def assms(3) Let_def case_prod_unfold
    by (rule wp_bind_idleI [OF idle_key]) (use assms(2) out same in \<open>auto simp: if_P\<close>)
  moreover have "wp (recover_delivery_locked M a identity p apply_it confirm_retry) (\<lambda>_ _. False) (\<lambda>_. lock_untouched p w) w"
    unfolding recover_delivery_locked_def Let_def
    by (rule wp_bind_idleI [OF idle.grows_load_identity], rule wp_bind_idleI [OF idle_active], rule wp_bind_liftI,
      unfold case_prod_unfold, rule out) (use same idle.trans in blast)+
  moreover have "wp (controller_send_command M identity config_file state_file lock_file command seconds) (\<lambda>_ _. False)
         (\<lambda>_. lock_untouched p w) w"
    unfolding controller_send_command_def Let_def assms(4)
    by (rule wp_bind_idleI [OF idle.grows_load_controller_identity], rule wp_bind_idleI [OF idle.grows_ask],
      rule wp_bind_liftI, rule wp_bind_idleI [OF idle.grows_load_config], rule out) (use same idle.trans in blast)+
  ultimately show ?thesis by blast
qed

theorem busy_lock_keeps_out_witness:
  "\<exists>e w'. run_command (demo_machine\<lparr>mc_locks := (\<lambda>t p. True)\<rparr>) (launched_options demo_paths) 3 2 demo_locked_world
     = (Inl e, w') \<and> (\<forall>q. q \<noteq> ''/k'' \<longrightarrow> fs w' q = demo_files q) \<and> sent w' = []
     \<and> map_option contents (fs w' ''/k'') = Some (lock_body 99)"
proof -
  let ?M = "demo_machine\<lparr>mc_locks := (\<lambda>t p. True)\<rparr>"
  have "wp (run_command ?M (launched_options demo_paths) 3 2) (\<lambda>_ _. False) (\<lambda>_. lock_untouched ''/k'' demo_locked_world)
      demo_locked_world"
    using busy_lock_keeps_out [where M = ?M and p = "''/k''" and opts = "launched_options demo_paths"
        and sleeps = 3 and rounds = 2 and w = demo_locked_world and lock_file = "Some ''/k''" and identity = "''/i''"]
    by (auto simp: launched_options_def path_beside_identity_def health_path_def demo_machine_def demo_paths_def)
  moreover have "sent demo_locked_world = []" "fs demo_locked_world = demo_files(''/k'' \<mapsto> fresh_file (lock_body 99))"
    by (simp_all add: demo_locked_world_def demo_ready_world_def demo_world_def)
  ultimately show ?thesis
    by (cases "run_command ?M (launched_options demo_paths) 3 2 demo_locked_world")
      (auto simp: wp_def lock_untouched_def agrees_but_def fresh_file_def split: sum.splits)
qed

section \<open>The controller\<close>

text \<open>C12. The nonces of a controller: over any number of commands of processes that follow each other,
  whichever call fails and wherever one dies, each request that left is one of the four fixed
  commands, signed under a nonce the state file had when it left, and the nonces strictly increase.\<close>

theorem controller_nonces_never_repeat:
  "\<exists>qs ns. says (send_commands L did key config p cs w) = says w @ qs
     \<and> list_all2 (carries_nonce L did key config p) qs ns \<and> sorted_wrt (<) ns"
  using commands_wp [where qs = "[]" and ns = "[]" and w = w and before_these = "says w"]
  by (fastforce simp: nonces_of_def)

text \<open>C29. Creating a controller replaces nothing, whatever fails: every file and every Keychain item that
  was there stays. When it succeeds the path and the item were free, the record is readable as a
  controller identity, and the item holds the seed of its DID. The hypothesis is what is documented
  of \<open>security\<close>: it adds no second item, and exit code 0 means that it added one.\<close>

theorem creation_replaces_nothing:
  assumes "keychain_law D fuel W seed w"
  shows "case create_controller_identity E L D fuel p W seed created_at w of (r, w') \<Rightarrow> kept_all w w' \<and> (case r of
      Inl e \<Rightarrow> True
    | Inr i \<Rightarrow> fs w p = None \<and> seeds w (item_of W) = None \<and> controller_created L p W seed w' i)"
  using create_wp [OF assms, where E = E and L = L and p = p and created_at = created_at] by (auto simp: wp_def split: sum.splits prod.splits)

theorem creation_replaces_nothing_witness:
  "\<exists>w'. create_controller_identity demo_env demo_lib demo_desk 5 ''/n'' demo_writer demo_seed (lit ''t'') demo_world
     = (Inr demo_identity, w') \<and> kept_all demo_world w'
     \<and> controller_created demo_lib ''/n'' demo_writer demo_seed w' demo_identity"
proof -
  have "keychain_law demo_desk 5 demo_writer demo_seed demo_world"
    by (simp add: keychain_law_def demo_desk_def demo_world_def)
  from creation_replaces_nothing [OF this, where E = demo_env and L = demo_lib and p = "''/n''" and created_at = "lit ''t''"]
    demo_creation
  show ?thesis by (auto split: prod.splits)
qed

text \<open>C31. The grant: the policy file is as before, or it was an empty policy and now holds the one entry of
  the controller identity. On success exactly that identity has exactly the four commands, no
  repository and ten requests an hour.\<close>

theorem grant_is_minimal:
  "case grant_controller_to_empty_policy E L D identity_path p w of (r, w') \<Rightarrow>
     granted L identity_path p w w' \<and> (case r of
       Inl e \<Rightarrow> True
     | Inr _ \<Rightarrow> \<exists>i. gave (\<lambda>E. load_controller_identity E L identity_path) (fs w) i
         \<and> gave (\<lambda>E. load_policy E p) (fs w) [] \<and> gave (\<lambda>E. load_policy E p) (fs w') [(id_did i, controller_grant)])"
  using grant_wp [of E L D identity_path p w] by (auto simp: wp_def split: sum.splits prod.splits)

text \<open>C30. The dialogue that stores a seed ends once the clock passes its deadline, and however it ends: the
  seed was written only after the matching prompt was shown, echo off, at most twice, always the same
  bytes; the seed and the buffer are wiped; the tool was reaped or killed; and success means that the
  seed was given twice and the tool ended with exit code 0.\<close>

theorem keychain_dialogue_ends_closed:
  assumes "deadline \<le> tn_now (turns n)" and "n + 2 \<le> fuel"
  shows "case run_hidden_keychain_prompt fuel spawned turns secret deadline of
      None \<Rightarrow> False
    | Some (r, s) \<Rightarrow> obeys_prompts (secret @ [10]) (dialogue s) \<and> secret_line s = [] \<and> prompt_buffer s = []
        \<and> (if spawned then reaped_or_killed s else dialogue s = [])
        \<and> (case r of Inl e \<Rightarrow> True
           | Inr _ \<Rightarrow> answers_in (dialogue s) = [secret @ [10], secret @ [10]] \<and> Reaped 0 \<in> set (dialogue s))"
proof -
  have "run_hidden_keychain_prompt fuel spawned turns secret deadline \<noteq> None"
    using run_ends [of deadline turns 0 n fuel "open_session secret"] assms
    by (auto simp: run_hidden_keychain_prompt_def)
  then obtain r s where run: "run_hidden_keychain_prompt fuel spawned turns secret deadline = Some (r, s)"
    by fastforce
  from closed_dialogue [OF this] show ?thesis unfolding run by (auto split: sum.split)
qed

theorem keychain_dialogue_ends_closed_witness:
  "\<exists>s. run_hidden_keychain_prompt 5 True demo_turn demo_seed 15 = Some (Inr (), s)
     \<and> obeys_prompts (demo_seed @ [10]) (dialogue s) \<and> secret_line s = []
     \<and> answers_in (dialogue s) = [demo_seed @ [10], demo_seed @ [10]]"
proof -
  obtain s where "run_hidden_keychain_prompt 5 True demo_turn demo_seed 15 = Some (Inr (), s)"
    using demo_dialogue [of demo_seed] by (auto simp: demo_seed_def)
  then show ?thesis
    using keychain_dialogue_ends_closed [where deadline = 15 and turns = demo_turn and n = 3 and fuel = 5
      and spawned = True and secret = demo_seed] by (simp add: demo_turn_def)
qed

section \<open>The task list and the receipt tool\<close>

text \<open>C36. The list of ready tasks comes once the clock passes the deadline of the query, whatever \<open>bd\<close> does,
  and what is listed is at most the number asked for and at most ten tasks, each with a safe id, a
  title of 1 to 200 visible characters and a priority from 0 to 4.\<close>

theorem task_list_comes_and_is_bounded:
  assumes "bd_deadline A \<le> pt_now (bd_turns A n)" and "n + 1 \<le> fuel"
  shows "case list_ready_tasks fuel well_placed meta metadata A limit of
      None \<Rightarrow> False
    | Some (Inl e) \<Rightarrow> True
    | Some (Inr ts) \<Rightarrow> int (length ts) \<le> limit \<and> limit \<le> 10 \<and> list_all task_ok ts"
proof -
  have "read_pipes fuel (bd_deadline A) (bd_turns A) 0 no_output \<noteq> None"
    using read_pipes_ends [of "bd_deadline A" "bd_turns A" 0 n fuel] assms by simp
  then have "run_query fuel A \<noteq> None" by (auto simp: run_query_def split: started.split)
  moreover have "int (length ts) \<le> limit \<and> limit \<le> 10 \<and> list_all task_ok ts"
    if "list_ready_tasks fuel well_placed meta metadata A limit = Some (Inr ts)" for ts
  proof -
    have bound: "limit \<le> MAX_READY_TASKS"
      using that by (auto simp: list_ready_tasks_def raise_if_def split: if_splits)
    have "\<exists>rows. map_res task_from_row rows = Inr ts \<and> int (length rows) \<le> limit"
      using that unfolding list_ready_tasks_def
    proof (cases "run_query fuel A", goal_cases)
      case (2 q)
      then show ?case
        by (cases q) (auto simp: bind_eq_Inr raise_if_def not_less split: sum.splits if_splits prod.splits)
    qed (auto split: sum.splits)
    then obtain rows where rows: "map_res task_from_row rows = Inr ts" "int (length rows) \<le> limit" by blast
    from map_res_all [OF rows(1) task_from_row_ok] rows(2) bound show ?thesis by (simp add: MAX_READY_TASKS_def)
  qed
  ultimately show ?thesis
    by (auto simp: list_ready_tasks_def split: option.splits sum.splits)
qed

definition demo_bd :: bd_answers where
  "demo_bd = \<lparr>bd_installed = True, bd_started = Started, bd_deadline = 10,
     bd_turns = (\<lambda>n. \<lparr>pt_now = (if n < 2 then 0 else 10),
       pt_events = [(True, PipeChunk (if n = 0 then lit ''[]'' else [])), (False, PipeChunk [])]\<rparr>),
     bd_exit = Some 0, bd_parse = (\<lambda>bs. Doc (JArr [JObj [(lit ''id'', JStr (lit ''a-1'')), (lit ''title'', JStr (lit ''b'')),
       (lit ''priority'', JInt 2), (lit ''status'', JStr (lit ''open''))]]))\<rparr>"

theorem task_list_comes_and_is_bounded_witness:
  "\<exists>t. list_ready_tasks 3 True (Some \<lparr>db_is_directory = True, db_metadata_regular = True, db_mode = 448, db_owned = True\<rparr>)
     (Some (20, Doc (JObj [(lit ''backend'', JStr (lit ''dolt'')), (lit ''dolt_mode'', JStr (lit ''embedded''))]))) demo_bd 3
     = Some (Inr [t]) \<and> task_ok t"
proof -
  let ?r = "list_ready_tasks 3 True (Some \<lparr>db_is_directory = True, db_metadata_regular = True, db_mode = 448, db_owned = True\<rparr>)
     (Some (20, Doc (JObj [(lit ''backend'', JStr (lit ''dolt'')), (lit ''dolt_mode'', JStr (lit ''embedded''))]))) demo_bd 3"
  have three: "3 = Suc (Suc (Suc 0))" by simp
  have "read_pipes 3 (bd_deadline demo_bd) (bd_turns demo_bd) 0 no_output
      = Some (Inr \<lparr>out_open = False, err_open = False, out_size = 2, err_size = 0, collected = lit ''[]''\<rparr>)"
    unfolding three
    by (simp add: demo_bd_def no_output_def pipe_event_def read_out_def read_err_def MAX_RESULT_BYTES_def
        MAX_STDERR_BYTES_def lit_simps)
  then have q: "run_query 3 demo_bd = Some (Inr (0, lit ''[]''))"
    by (simp add: run_query_def) (simp add: demo_bd_def)
  have "\<exists>t. ?r = Some (Inr [t])"
    by (simp add: list_ready_tasks_def MAX_READY_TASKS_def raise_if_def check_local_database_def MAX_METADATA_BYTES_def
        dget_def dict_of_pairs_def q MAX_RESULT_BYTES_def)
      (simp add: demo_bd_def rows_of_def task_from_row_def dget_def dict_of_pairs_def match_task_id_def lit_simps
        char_class_defs raise_if_def strip_def lstrip_def rstrip_def is_space_def in_ranges_def cat_Cc_def cat_Cf_def
        int_at_least_def)
  then show ?thesis
    using task_list_comes_and_is_bounded [where A = demo_bd and n = 2 and fuel = 3 and limit = 3 and well_placed = True
        and meta = "Some \<lparr>db_is_directory = True, db_metadata_regular = True, db_mode = 448, db_owned = True\<rparr>"
        and metadata = "Some (20, Doc (JObj [(lit ''backend'', JStr (lit ''dolt'')), (lit ''dolt_mode'', JStr (lit ''embedded''))]))"]
    by (auto simp: demo_bd_def [THEN arg_cong, of bd_deadline] demo_bd_def [THEN arg_cong, of bd_turns])
qed

text \<open>The two ways to check a saved receipt agree: the tool of the MCP server calls the text of a file
  valid exactly when it has at most 4096 bytes and the command \<open>verify-receipt\<close> accepts that file.\<close>

lemma receipt_checks_agree:
  assumes "calm (mc_env M)" and "fs w (po_resolve (mc_paths M) p) = Some f" and "contents f = Text n d"
  shows "(\<exists>v. verify_receipt_content (mc_lib M) (Some (n, d)) = Inr v \<and> rv_valid v)
     \<longleftrightarrow> n \<le> 4096 \<and> (\<exists>x w'. verify_receipt_command M p w = (Inr x, w'))"
proof -
  have read: "read_file (mc_env M) (po_resolve (mc_paths M) p) w = (Inr f, w\<lparr>tick := Suc (tick w)\<rparr>)"
    using assms(1,2) by (simp add: read_file_def run_simps calm_def)
  have "(\<exists>x w'. verify_receipt_command M p w = (Inr x, w')) \<longleftrightarrow> d \<noteq> NotUtf8 \<and> (\<exists>payload. verify_receipt_text (mc_lib M) d = Inr payload)"
    using assms(3) by (auto simp: verify_receipt_command_def ibind_def on_error_def read lift_def raise_if_def Let_def iret_def
        split: sum.splits)
  then show ?thesis
    using valid_receipt_answer [of "mc_lib M" n d] by (auto simp: MAX_RECEIPT_INPUT_BYTES_def)
qed

section \<open>The pilots\<close>

text \<open>C14. A receipt pilot that passes made exactly two signed writes, whatever the room held and whoever
  else wrote to it: the \<open>/pr\<close> command of its one-time peer and one answer of the agent, each with a
  signature that verifies under its writer's DID. The command follows the baseline, the answer follows the
  command and is where the cursor ends; the receipt read back verifies and is the agent's for the pull
  request asked for.\<close>

theorem passed_receipt_pilot_wrote_twice:
  "wp (execute_live_receipt_pilot E L loads_text P service peer_key pull_request)
     (\<lambda>rep w'. passed_receipt L loads_text P peer_key pull_request w rep w') (\<lambda>_ _. True) w"
  using receipt_pilot_passed [where E = E] by (auto simp: wp_def split: prod.split sum.split)

text \<open>C15. A live pilot keeps to its script: whatever the peer answers and whichever call fails, its signed
  writes are the first of \<open>/ping\<close> as the allowed peer, \<open>/ping\<close> as the stranger and the longer text as the
  allowed peer, interleaved only with fixed replies of the agent; when it passes it wrote all three, and
  the reply it reports follows the command.\<close>

theorem live_pilot_keeps_to_its_script:
  "case execute_live_pilot E L P allowed_key stranger_key token w of
     (Inl e, w') \<Rightarrow> \<exists>k. said_so (live_answer P) (live_script L P allowed_key stranger_key) k w w'
   | (Inr rep, w') \<Rightarrow> said_so (live_answer P) (live_script L P allowed_key stranger_key) 3 w w'
       \<and> lr_command rep < lr_reply rep"
  using live_pilot_says [of E L P allowed_key stranger_key token w] live_pilot_order [of E L P allowed_key stranger_key token w]
  by (auto simp: wp_def split: prod.splits sum.splits)

text \<open>C35. No pilot script acts unasked: unless one of its words begins with \<open>--e\<close>, as the acknowledgement
  flag does, in full or abbreviated, each of the three scripts leaves the world as it was.\<close>

theorem pilots_need_their_acknowledgement:
  "list_ex (\<lambda>w. take 3 w = ''--e'') words
   \<or> snd (live_pilot_script M allowed_key stranger_key token to_float to_int d words w) = w
     \<and> snd (receipt_pilot_script M loads_text peer_key to_float to_int d words w) = w
     \<and> snd (work_pilot_script M K to_float to_int words w) = w"
  unfolding live_pilot_script_def receipt_pilot_script_def work_pilot_script_def
  using script_acknowledged [OF quiet_flags(1)] script_acknowledged [OF quiet_flags(2)]
    script_acknowledged [OF quiet_flags(3)] by blast

text \<open>C17. A work receipt pilot that passes ran its test exactly twice, besides git, each time in a checkout of
  the clone: once for the receipt of its worker and once for the countersignature of its verifier,
  another identity, and both runs gave what the receipt, which verifies, claims. However it ends, it ran
  at most twice and changed no file, but that it may create the output file where there was none; on a
  checkout that is not clean it runs nothing.\<close>

theorem work_pilot_runs_its_test_twice:
  "wp (execute_work_pilot E B L K repository out)
     (\<lambda>r w'. case r of
         None \<Rightarrow> ran_but None [] w w'
       | Some s \<Rightarrow> passed_work_pilot L B K (map_option (resolve_path B) out) s w w')
     (\<lambda>_. ran_twice_at_most (map_option (resolve_path B) out) w) w"
  by (rule work_pilot_wp)

end
