(* ===== verification/Mailbox_History.thy ===== *)
theory Mailbox_History
  imports Sessions
begin

text \<open>
  Any number of \<open>provision\<close> and \<open>recover\<close> commands, one process after the other, for one identity and
  one configuration file: each has its own environment and its own server, and ends where it may.
  \<open>mailbox_so_far\<close> is what holds between two of them.
\<close>

section \<open>Histories\<close>

datatype mailbox_command =
    Provision env client str "str option" str str   \<comment> \<open>server, name, room, random token, creation time\<close>
  | RecoverMailbox env client bool                  \<comment> \<open>server, \<open>--retry\<close>\<close>

fun server_of :: "mailbox_command \<Rightarrow> str" where
  "server_of (Provision E cl name room token created) = base_url cl"
| "server_of (RecoverMailbox E cl retry) = base_url cl"

fun is_retry :: "mailbox_command \<Rightarrow> bool" where
  "is_retry (Provision E cl name room token created) = False"
| "is_retry (RecoverMailbox E cl retry) = retry"

fun mailbox_step :: "lib \<Rightarrow> provisioning \<Rightarrow> mailbox_command \<Rightarrow> provision_event io" where
  "mailbox_step L P (Provision E cl name room token created) =
     provision_mailbox E L (P\<lparr>pv_client := cl\<rparr>) name room token created"
| "mailbox_step L P (RecoverMailbox E cl retry) = recover_pending_mailbox E L (P\<lparr>pv_client := cl\<rparr>) retry"

fun mailbox_history :: "lib \<Rightarrow> provisioning \<Rightarrow> mailbox_command list \<Rightarrow> world \<Rightarrow> world" where
  "mailbox_history L P [] w = w"
| "mailbox_history L P (c # cs) w = mailbox_history L P cs (snd (mailbox_step L P c (restart w)))"

section \<open>The invariant\<close>

text \<open>Every signed write so far announced \<open>c\<close> at one of \<open>servers\<close> and left with the pending \<open>c\<close> on disk.\<close>

definition only_announced :: "lib \<Rightarrow> provisioning \<Rightarrow> str set \<Rightarrow> agent_config \<Rightarrow> (request \<times> filesystem) list \<Rightarrow> bool" where
  "only_announced L P servers c qs \<longleftrightarrow> list_all (\<lambda>(r, g). g (pv_config_path P) = Some (fresh_file (config_body c))
     \<and> (\<exists>base \<in> servers. \<exists>url. announces L (pv_key P) c base url \<and> r = SaySigned url)) qs"

text \<open>
  Either there is no configuration and nothing was sent; or there is one mailbox, its file is the
  pending configuration or the active one it became, and every signed write so far announced this
  mailbox, at most \<open>k + 1\<close> times.
\<close>

definition mailbox_so_far :: "lib \<Rightarrow> provisioning \<Rightarrow> str set \<Rightarrow> nat \<Rightarrow> world \<Rightarrow> bool" where
  "mailbox_so_far L P servers k w \<longleftrightarrow> fs w (pv_config_path P) = None \<and> says w = []
     \<or> (\<exists>c. own_pending L P c \<and> mailbox_file (pv_config_path P) c (fs w) \<and> length (says w) \<le> Suc k
          \<and> only_announced L P servers c (says w))"

lemma only_announced_more: "only_announced L P servers c qs \<Longrightarrow> only_announced L P (insert base servers) c qs"
  unfolding only_announced_def by (erule list.pred_mono_strong) auto

lemma only_announced_next:
  assumes "only_announced L P servers c (says w)" "announced L (P\<lparr>pv_client := cl\<rparr>) c w w'"
  shows "only_announced L P (insert (base_url cl) servers) c (says w')"
  using only_announced_more [OF assms(1), of "base_url cl"] assms(2) by (auto simp: only_announced_def announced_def)

text \<open>
  What one command does. Provisioning refuses a path that already holds a file. A recovery sends
  only with \<open>--retry\<close> and only while the configuration is pending. A success is an active mailbox, with
  its cursor and its nonce on disk.
\<close>

fun command_kept :: "lib \<Rightarrow> provisioning \<Rightarrow> mailbox_command \<Rightarrow> world \<Rightarrow> world \<Rightarrow> bool" where
  "command_kept L P (Provision E cl name room token created) w w' \<longleftrightarrow>
     fs w (pv_config_path P) = None \<or> fs w' (pv_config_path P) = fs w (pv_config_path P) \<and> says w' = says w"
| "command_kept L P (RecoverMailbox E cl retry) w w' \<longleftrightarrow> says w' = says w
     \<or> retry \<and> (\<exists>c. own_pending L P c \<and> fs w (pv_config_path P) = Some (fresh_file (config_body c)))"

fun mailbox_event_ok :: "lib \<Rightarrow> provisioning \<Rightarrow> provision_event \<Rightarrow> world \<Rightarrow> world \<Rightarrow> bool" where
  "mailbox_event_ok L P (MailboxProvisioned room n) w w' \<longleftrightarrow>
     (\<exists>c. own_pending L P c \<and> cfg_room c = room \<and> mailbox_active L P c n w' \<and> length (says w') = Suc (length (says w)))"
| "mailbox_event_ok L P (RecoveredFromAcknowledged room n) w w' \<longleftrightarrow>
     (\<exists>c. own_pending L P c \<and> cfg_room c = room \<and> mailbox_active L P c n w' \<and> says w' = says w)"
| "mailbox_event_ok L P (RecoveredAfterRetry room n) w w' \<longleftrightarrow>
     (\<exists>c. own_pending L P c \<and> cfg_room c = room \<and> mailbox_active L P c n w' \<and> length (says w') = Suc (length (says w)))"
| "mailbox_event_ok L P (MailboxHistoryIncomplete room) w w' \<longleftrightarrow> fs w' = fs w \<and> says w' = says w"
| "mailbox_event_ok L P (MailboxWriteNotFound room) w w' \<longleftrightarrow> fs w' = fs w \<and> says w' = says w"

lemma mailbox_active_client [simp]: "mailbox_active L (P\<lparr>pv_client := cl\<rparr>) = mailbox_active L P"
  by (simp add: fun_eq_iff mailbox_active_def)

lemma own_pending_client [simp]: "own_pending L (P\<lparr>pv_client := cl\<rparr>) = own_pending L P"
  by (simp add: fun_eq_iff own_pending_def)

lemma so_far_frame:
  "mailbox_so_far L P servers k w \<Longrightarrow> says w' = says w \<Longrightarrow> fs w' (pv_config_path P) = fs w (pv_config_path P) \<Longrightarrow>
     mailbox_so_far L P servers k w'"
  by (simp add: mailbox_so_far_def mailbox_file_def)

lemma so_far_server:
  "mailbox_so_far L P servers k w \<Longrightarrow> k \<le> k' \<Longrightarrow> mailbox_so_far L P (insert base servers) k' w"
  unfolding mailbox_so_far_def using only_announced_more by force

section \<open>Recovery\<close>

lemma load_written_config_wp:
  assumes "fs w p = Some (fresh_file (config_body c))" "config_ok L c"
    and "\<And>w'. silent w w' \<Longrightarrow> Q c w'" and "\<And>e w'. silent w w' \<Longrightarrow> R e w'"
  shows "wp (load_config E L p) Q R w"
  using assms(3,4) config_file_roundtrip [OF assms(2)]
  by (auto simp: load_config_def read_file_def wp_simps assms(1) silent_def split: io_fault.splits)

text \<open>What \<open>recover\<close> leaves of the pending mailbox \<open>c\<close>: \<open>R\<close> on every exception\<close>

definition recovered :: "lib \<Rightarrow> provisioning \<Rightarrow> bool \<Rightarrow> agent_config \<Rightarrow> world \<Rightarrow> world \<Rightarrow> bool" where
  "recovered L P retry c w w' \<longleftrightarrow> mailbox_file (pv_config_path P) c (fs w')
     \<and> (says w' = says w \<or> retry \<and> fs w (pv_config_path P) = Some (fresh_file (config_body c)) \<and> announced L P c w w')"

lemma recover_from_history_wp:
  assumes own: "own_pending L P c" and p: "pv_config_path P \<noteq> pv_state_path P"
    and f: "fs w (pv_config_path P) = Some (fresh_file (config_body c))" and snap: "snapshot_ok room snap"
  shows "wp (case find (provision_matches c) (messages snap) of
       Some m \<Rightarrow> ibind (activate E c (msg_seq m) (pv_config_path P) (pv_state_path P)) (\<lambda>_.
         iret (RecoveredFromAcknowledged (cfg_room c) (msg_seq m)))
     | None \<Rightarrow>
         if \<not> provision_history_complete snap then iret (MailboxHistoryIncomplete (cfg_room c))
         else if \<not> retry then iret (MailboxWriteNotFound (cfg_room c))
         else ibind (announce E L P c why) (\<lambda>n. iret (RecoveredAfterRetry (cfg_room c) n)))
     (\<lambda>ev w'. recovered L P retry c w w' \<and> mailbox_event_ok L P ev w w') (\<lambda>_. recovered L P retry c w) w"
proof -
  have ok: "config_ok L c" using own by (simp add: own_pending_def)
  have here: "mailbox_file (pv_config_path P) c (fs w)" using f by (simp add: mailbox_file_def)
  show ?thesis
  proof (cases "find (provision_matches c) (messages snap)")
    case (Some m)
    have "m \<in> set (messages snap)" using Some by (auto simp: find_Some_iff)
    then have "0 < msg_seq m" using snap by (simp add: snapshot_ok_def list_all_iff message_ok_def)
    then have "1 \<le> msg_seq m" by simp
    then show ?thesis
      unfolding Some option.case wp_ibind wp_iret_eta
      by (intro wp_mono [OF wp_conj [OF activate_wp [OF ok _ p] activate_keeps [OF _ p here]]])
        (use f own in \<open>auto simp: recovered_def\<close>)
  next
    case None
    have "wp (announce E L P c why) (\<lambda>n w'. recovered L P True c w w' \<and> mailbox_event_ok L P (RecoveredAfterRetry (cfg_room c) n) w w')
       (\<lambda>_. recovered L P True c w) w"
      by (rule wp_mono [OF announce_wp [OF ok p f]])
        (use own f in \<open>auto simp: recovered_def told_at_most_once_def announced_def\<close>)
    then show ?thesis
      unfolding None option.case using here
      by (auto simp: wp_ibind wp_iret_eta wp_iret recovered_def)
  qed
qed

lemma recover_wp:
  assumes own: "own_pending L P c" and p: "pv_config_path P \<noteq> pv_state_path P"
    and f: "mailbox_file (pv_config_path P) c (fs w)"
  shows "wp (recover_pending_mailbox E L P retry)
     (\<lambda>ev w'. recovered L P retry c w w' \<and> mailbox_event_ok L P ev w w') (\<lambda>_. recovered L P retry c w) w"
proof -
  have same: "recovered L P retry c w w'" if "silent w w'" for w'
    using that f by (simp add: silent_def recovered_def)
  show ?thesis
  proof (cases "fs w (pv_config_path P) = Some (fresh_file (config_body c))")
    case True
    have moved: "recovered L P retry c w w'" "mailbox_event_ok L P ev w w'"
      if "silent w w1" "recovered L P retry c w1 w'" "mailbox_event_ok L P ev w1 w'" for w1 w' ev
      using that by (auto simp: recovered_def silent_def announced_def elim!: mailbox_event_ok.elims)
    have failed: "recovered L P retry c w w'" if "silent w w1" "recovered L P retry c w1 w'" for w1 w'
      using that by (auto simp: recovered_def silent_def announced_def)
    have read: "wp (read_room E L (pv_client P) (cfg_room c) 0 (Fin 0) 200 0) (\<lambda>snap. wp (case find (provision_matches c) (messages snap) of
         Some m \<Rightarrow> ibind (activate E c (msg_seq m) (pv_config_path P) (pv_state_path P)) (\<lambda>_.
           iret (RecoveredFromAcknowledged (cfg_room c) (msg_seq m)))
       | None \<Rightarrow>
           if \<not> provision_history_complete snap then iret (MailboxHistoryIncomplete (cfg_room c))
           else if \<not> retry then iret (MailboxWriteNotFound (cfg_room c))
           else ibind (announce E L P c ''manual mailbox retry has an uncertain result'') (\<lambda>n. iret (RecoveredAfterRetry (cfg_room c) n)))
       (\<lambda>ev w'. recovered L P retry c w w' \<and> mailbox_event_ok L P ev w w') (\<lambda>_. recovered L P retry c w))
       (\<lambda>_. recovered L P retry c w) w1" if w1: "silent w w1" for w1
    proof (rule wp_mono [OF wp_conj [OF silent_read_room read_room_ok]])
      fix snap w2 assume s: "silent w1 w2 \<and> snapshot_ok (cfg_room c) snap"
      then have w2: "silent w w2" using w1 silent_trans by blast
      then have f2: "fs w2 (pv_config_path P) = Some (fresh_file (config_body c))" using True by (simp add: silent_def)
      show "wp (case find (provision_matches c) (messages snap) of
           Some m \<Rightarrow> ibind (activate E c (msg_seq m) (pv_config_path P) (pv_state_path P)) (\<lambda>_.
             iret (RecoveredFromAcknowledged (cfg_room c) (msg_seq m)))
         | None \<Rightarrow>
             if \<not> provision_history_complete snap then iret (MailboxHistoryIncomplete (cfg_room c))
             else if \<not> retry then iret (MailboxWriteNotFound (cfg_room c))
             else ibind (announce E L P c ''manual mailbox retry has an uncertain result'') (\<lambda>n. iret (RecoveredAfterRetry (cfg_room c) n)))
         (\<lambda>ev w'. recovered L P retry c w w' \<and> mailbox_event_ok L P ev w w') (\<lambda>_. recovered L P retry c w) w2"
        by (rule wp_mono [OF recover_from_history_wp [OF own p f2 conjunct2 [OF s]]])
          (use moved [OF w2] failed [OF w2] in auto)
    qed (use same w1 silent_trans in blast)
    show ?thesis
      unfolding recover_pending_mailbox_def wp_ibind
      by (rule load_written_config_wp [OF True])
        (use own same read in \<open>auto simp: own_pending_def wp_lift raise_if_def\<close>)
  next
    case False
    then obtain n where n: "1 \<le> n" "fs w (pv_config_path P) = Some (fresh_file (config_body (c\<lparr>cfg_status := lit ''active'', cfg_seq := Some n\<rparr>)))"
      using f by (auto simp: mailbox_file_def)
    have "config_ok L (c\<lparr>cfg_status := lit ''active'', cfg_seq := Some n\<rparr>)"
      using own n(1) by (intro config_ok_active) (simp_all add: own_pending_def)
    then show ?thesis
      unfolding recover_pending_mailbox_def wp_ibind
      by (intro load_written_config_wp [OF n(2)]) (auto simp: wp_lift raise_if_def lit_simps intro: same)
  qed
qed

lemma recover_nothing_wp:
  assumes "fs w (pv_config_path P) = None"
  shows "wp (recover_pending_mailbox E L P retry) (\<lambda>_ _. False) (\<lambda>_. silent w) w"
  using assms by (auto simp: recover_pending_mailbox_def load_config_def read_file_def wp_simps silent_def split: io_fault.splits)

section \<open>One command\<close>

lemma so_far_announced:
  assumes own: "own_pending L P c" and kept: "mailbox_file (pv_config_path P) c (fs w')"
    and told: "says w' = says w \<or> announced L (P\<lparr>pv_client := cl\<rparr>) c w w'"
    and old: "only_announced L P servers c (says w)" and k: "length (says w') \<le> Suc k"
  shows "mailbox_so_far L P (insert (base_url cl) servers) k w'"
proof -
  have "only_announced L P (insert (base_url cl) servers) c (says w')"
    using told only_announced_next [OF old] only_announced_more [OF old] by auto
  then show ?thesis unfolding mailbox_so_far_def using own kept k by blast
qed

lemma provision_step:
  assumes p: "pv_config_path P \<noteq> pv_state_path P" and I: "mailbox_so_far L P servers k w"
  shows "wp (provision_mailbox E L (P\<lparr>pv_client := cl\<rparr>) name room token created)
     (\<lambda>ev w'. mailbox_so_far L P (insert (base_url cl) servers) k w'
        \<and> command_kept L P (Provision E cl name room token created) w w' \<and> mailbox_event_ok L P ev w w')
     (\<lambda>_ w'. mailbox_so_far L P (insert (base_url cl) servers) k w'
        \<and> command_kept L P (Provision E cl name room token created) w w') w"
proof (rule wp_mono [OF provision_wp])
  show "pv_config_path (P\<lparr>pv_client := cl\<rparr>) \<noteq> pv_state_path (P\<lparr>pv_client := cl\<rparr>)" using p by simp
next
  fix ev w'
  assume "fs w (pv_config_path (P\<lparr>pv_client := cl\<rparr>)) = None \<and> (\<exists>c n. own_pending L (P\<lparr>pv_client := cl\<rparr>) c
     \<and> ev = MailboxProvisioned (cfg_room c) n \<and> mailbox_active L (P\<lparr>pv_client := cl\<rparr>) c n w'
     \<and> announced L (P\<lparr>pv_client := cl\<rparr>) c w w' \<and> mailbox_file (pv_config_path (P\<lparr>pv_client := cl\<rparr>)) c (fs w'))"
  then obtain c n where h: "fs w (pv_config_path P) = None" "own_pending L P c" "ev = MailboxProvisioned (cfg_room c) n"
     "mailbox_active L P c n w'" "announced L (P\<lparr>pv_client := cl\<rparr>) c w w'" "mailbox_file (pv_config_path P) c (fs w')" by auto
  have "says w = []" using I h(1) by (auto simp: mailbox_so_far_def mailbox_file_def)
  then have "length (says w') = Suc (length (says w))" "length (says w') \<le> Suc k" using h(5) by (auto simp: announced_def)
  then show "mailbox_so_far L P (insert (base_url cl) servers) k w'
     \<and> command_kept L P (Provision E cl name room token created) w w' \<and> mailbox_event_ok L P ev w w'"
    using so_far_announced [OF h(2,6) disjI2 [OF h(5)]] h \<open>says w = []\<close> by (auto simp: only_announced_def)
next
  fix e w'
  assume "first_told L (P\<lparr>pv_client := cl\<rparr>) w w'"
  then consider "says w' = says w" "fs w' (pv_config_path P) = fs w (pv_config_path P)"
    | c where "fs w (pv_config_path P) = None" "own_pending L P c" "told_at_most_once L (P\<lparr>pv_client := cl\<rparr>) c w w'"
    by (auto simp: first_told_def)
  then show "mailbox_so_far L P (insert (base_url cl) servers) k w'
     \<and> command_kept L P (Provision E cl name room token created) w w'"
  proof cases
    case 1
    then show ?thesis using so_far_server [OF so_far_frame [OF I]] by auto
  next
    case (2 c)
    have s: "says w = []" using I 2(1) by (auto simp: mailbox_so_far_def mailbox_file_def)
    have t: "says w' = says w \<or> announced L (P\<lparr>pv_client := cl\<rparr>) c w w'" "mailbox_file (pv_config_path P) c (fs w')"
      using 2(3) by (simp_all add: told_at_most_once_def)
    then have "length (says w') \<le> Suc k" using s by (auto simp: announced_def)
    then show ?thesis using so_far_announced [OF 2(2) t(2,1)] s 2(1) by (simp add: only_announced_def)
  qed
qed

lemma recover_step:
  assumes p: "pv_config_path P \<noteq> pv_state_path P" and I: "mailbox_so_far L P servers k w"
  shows "wp (recover_pending_mailbox E L (P\<lparr>pv_client := cl\<rparr>) retry)
     (\<lambda>ev w'. mailbox_so_far L P (insert (base_url cl) servers) (if retry then Suc k else k) w'
        \<and> command_kept L P (RecoverMailbox E cl retry) w w' \<and> mailbox_event_ok L P ev w w')
     (\<lambda>_ w'. mailbox_so_far L P (insert (base_url cl) servers) (if retry then Suc k else k) w'
        \<and> command_kept L P (RecoverMailbox E cl retry) w w') w"
proof (cases "fs w (pv_config_path P) = None")
  case True
  have kept: "mailbox_so_far L P (insert (base_url cl) servers) (if retry then Suc k else k) w'
        \<and> command_kept L P (RecoverMailbox E cl retry) w w'" if "silent w w'" for w'
  proof -
    have s: "says w' = says w" "fs w' (pv_config_path P) = fs w (pv_config_path P)" using that by (simp_all add: silent_def)
    then show ?thesis using so_far_server [OF so_far_frame [OF I s]] by auto
  qed
  show ?thesis by (rule wp_mono [OF recover_nothing_wp]) (simp add: True, blast, rule kept)
next
  case False
  then obtain c where c: "own_pending L P c" "mailbox_file (pv_config_path P) c (fs w)" "length (says w) \<le> Suc k"
     "only_announced L P servers c (says w)"
    using I by (auto simp: mailbox_so_far_def)
  have kept: "mailbox_so_far L P (insert (base_url cl) servers) (if retry then Suc k else k) w'
        \<and> command_kept L P (RecoverMailbox E cl retry) w w'" if "recovered L (P\<lparr>pv_client := cl\<rparr>) retry c w w'" for w'
  proof -
    have r: "mailbox_file (pv_config_path P) c (fs w')" "says w' = says w \<or> retry \<and> announced L (P\<lparr>pv_client := cl\<rparr>) c w w'"
      "command_kept L P (RecoverMailbox E cl retry) w w'"
      using that c(1) by (auto simp: recovered_def)
    then have "length (says w') \<le> Suc (if retry then Suc k else k)" using c(3) by (auto simp: announced_def)
    then show ?thesis using so_far_announced [OF c(1) r(1) _ c(4)] r(2,3) by auto
  qed
  have ev: "mailbox_event_ok L (P\<lparr>pv_client := cl\<rparr>) ev = mailbox_event_ok L P ev" for ev
    by (cases ev) (simp_all add: fun_eq_iff)
  show ?thesis
  proof (rule wp_mono [OF recover_wp [where c = c]])
    fix ev' w'
    assume "recovered L (P\<lparr>pv_client := cl\<rparr>) retry c w w' \<and> mailbox_event_ok L (P\<lparr>pv_client := cl\<rparr>) ev' w w'"
    then show "mailbox_so_far L P (insert (base_url cl) servers) (if retry then Suc k else k) w'
        \<and> command_kept L P (RecoverMailbox E cl retry) w w' \<and> mailbox_event_ok L P ev' w w'"
      unfolding ev using kept by blast
  qed (use c(1,2) p in simp, use c(1,2) p in simp, use c(1,2) p in simp, rule kept)
qed

section \<open>Every history\<close>

lemma mailbox_step_wp:
  assumes "pv_config_path P \<noteq> pv_state_path P" and "mailbox_so_far L P servers k w"
  shows "wp (mailbox_step L P c)
     (\<lambda>ev w'. mailbox_so_far L P (insert (server_of c) servers) (if is_retry c then Suc k else k) w'
        \<and> command_kept L P c w w' \<and> mailbox_event_ok L P ev w w')
     (\<lambda>_ w'. mailbox_so_far L P (insert (server_of c) servers) (if is_retry c then Suc k else k) w'
        \<and> command_kept L P c w w') w"
  using provision_step [OF assms] recover_step [OF assms] by (cases c) simp_all

lemma so_far_restart: "mailbox_so_far L P servers k (restart w) = mailbox_so_far L P servers k w"
  by (simp add: mailbox_so_far_def restart_def says_def)

lemma mailbox_history_so_far:
  assumes p: "pv_config_path P \<noteq> pv_state_path P"
  shows "mailbox_so_far L P servers k w \<Longrightarrow>
     mailbox_so_far L P (servers \<union> set (map server_of cs)) (k + length (filter is_retry cs)) (mailbox_history L P cs w)"
proof (induction cs arbitrary: servers k w)
  case (Cons c cs)
  have "mailbox_so_far L P (insert (server_of c) servers) (if is_retry c then Suc k else k) (snd (mailbox_step L P c (restart w)))"
    using mailbox_step_wp [OF p so_far_restart [THEN iffD2, OF Cons.prems], of c]
    by (auto simp: wp_def split: prod.splits sum.splits)
  from Cons.IH [OF this] show ?case by (simp split: if_splits)
qed simp

end
