(* ===== verification/Demo_Mailbox.thy ===== *)
theory Demo_Mailbox
  imports Mailbox_History Demo_Files
begin

text \<open>
  A concrete mailbox whose announcement left but whose answer was lost, and the room as the server
  shows it afterwards: inputs of the witness for provisioning.
\<close>

definition demo_pending :: agent_config where
  "demo_pending = \<lparr>cfg_name = lit ''A'', cfg_did = demo_did, cfg_fingerprint = id_fingerprint demo_identity,
     cfg_room = demo_room, cfg_base_url = demo_base, cfg_status = lit ''pending'', cfg_created_at = lit ''d'',
     cfg_nonce = JStr (lit ''7''), cfg_seq = None\<rparr>"

definition demo_online :: str where "demo_online = online_text (lit ''A'') demo_did"

definition demo_lost :: env where   \<comment> \<open>no answer arrives\<close>
  "demo_lost = demo_env\<lparr>wire := (\<lambda>n q. ConnFailure)\<rparr>"

definition demo_announced_room :: pairs where
  "demo_announced_room = [(lit ''room'', JStr demo_room), (lit ''last_seq'', JInt 1), (lit ''first_seq'', JInt 1),
     (lit ''messages'', JArr [demo_message 1 demo_did demo_online (lit ''7'')]), (lit ''generation'', JInt 0)]"

definition demo_found :: env where   \<comment> \<open>every read shows the announcement as record 1\<close>
  "demo_found = demo_env\<lparr>wire := (\<lambda>n q. Payload 400 (Doc (JObj demo_announced_room)))\<rparr>"

definition demo_provision :: mailbox_command where
  "demo_provision = Provision demo_lost demo_client (lit ''A'') (Some demo_room) (lit ''t'') (lit ''d'')"

definition demo_recover :: mailbox_command where
  "demo_recover = RecoverMailbox demo_found demo_client False"

lemma demo_pending_ok: "config_ok demo_lib demo_pending" "own_pending demo_lib demo_provisioning demo_pending"
proof -
  show "config_ok demo_lib demo_pending"
    by (simp add: config_ok_def demo_pending_def demo_did demo_room demo_base_url match_agent_name_def
        lit_simps char_class_defs validate_nonce_value_def validate_nonce_def match_nonce_def)
      (simp add: demo_identity_def)
  then show "own_pending demo_lib demo_provisioning demo_pending"
    by (simp add: own_pending_def) (simp add: demo_pending_def demo_provisioning_def demo_identity_def)
qed

lemma demo_pending_made:
  "pending_config (demo_provisioning\<lparr>pv_client := demo_client\<rparr>) (lit ''A'') (Some demo_room) (lit ''t'') (lit ''d'') 7 = demo_pending"
  by (simp add: pending_config_def demo_pending_def demo_provisioning_def demo_identity_def demo_client_def demo_nonce)
    (simp add: demo_room_def)

lemma demo_online_swept: "sweep_text demo_online = Inr demo_online" "is_ascii demo_online" "length demo_online \<le> 200"
proof -
  have chars: "list_all (\<lambda>c. 33 \<le> c \<and> c \<le> 126) demo_did"
  proof -
    have "take 12 demo_did = lit ''did:key:z6Mk''" "list_all (\<lambda>c. c \<in> set BASE58BTC_ALPHABET) (drop 12 demo_did)"
      using demo_did(2) by (auto simp: match_did_def startswith_def eval_nat_numeral)
    moreover have "list_all (\<lambda>c. 33 \<le> c \<and> c \<le> 126) BASE58BTC_ALPHABET" by (simp add: BASE58BTC_ALPHABET_def lit_simps)
    ultimately have "list_all (\<lambda>c. 33 \<le> c \<and> c \<le> 126) (take 12 demo_did @ drop 12 demo_did)"
      unfolding list_all_append by (auto simp: lit_simps list_all_iff)
    then show ?thesis by simp
  qed
  have printable: "list_all (\<lambda>c. 32 \<le> c \<and> c \<le> 126) demo_online"
    using chars by (auto simp: demo_online_def online_text_def lit_simps list_all_iff)
  then have "list_all (\<lambda>c. \<not> is_invisible c) demo_online"
    by (rule list.pred_mono_strong) (auto simp: is_invisible_def in_ranges_def cat_Cc_def cat_Cf_def cat_Cs_def cat_Co_def cat_Zl_Zp_def)
  moreover have "strip demo_online = demo_online"
    by (rule strip_id) (simp_all add: demo_online_def online_text_def lit_simps is_space_def)
  moreover show len: "length demo_online \<le> 200"
    using demo_ascii(3) by (simp add: demo_online_def online_text_def)
  moreover have "demo_online \<noteq> []" by (simp add: demo_online_def online_text_def lit_simps)
  ultimately show "sweep_text demo_online = Inr demo_online"
    unfolding sweep_text_def by (intro sweep_fixed) simp_all
  show "is_ascii demo_online" using printable unfolding is_ascii_def by (rule list.pred_mono_strong) simp
qed

definition demo_online_signature :: str where
  "demo_online_signature = b64_encode (ed_sign demo_lib demo_key (utf8 (canonical_message demo_room (lit ''7'') demo_online)))"

lemma demo_online_signed:
  "sign_room_message demo_lib demo_key demo_room (lit ''7'') demo_online = Inr (demo_online, demo_online_signature)"
  unfolding sign_room_message_Inr demo_online_signature_def
  using demo_room demo_nonce demo_online_swept sign_detached_total [OF demo_lib_ok(1,3)] by blast

definition demo_online_url :: str where
  "demo_online_url = (case say_url demo_base demo_room demo_did demo_online_signature (lit ''7'') demo_online of Inr u \<Rightarrow> u | Inl _ \<Rightarrow> [])"

lemma demo_online_url: "say_url demo_base demo_room demo_did demo_online_signature (lit ''7'') demo_online = Inr demo_online_url"
  "is_ascii demo_online_url" "length demo_online_url \<le> 8000"
proof -
  have "match_signature demo_online_signature"
    using demo_online_signed sign_detached_Inr unfolding sign_room_message_Inr by blast
  then have sg: "is_ascii demo_online_signature" "length demo_online_signature = 86"
    by (auto simp: match_signature_def is_ascii_def list_all_iff char_class_defs is_b64url_def)
  have "\<exists>url. say_url demo_base demo_room demo_did demo_online_signature (lit ''7'') demo_online = Inr url
      \<and> is_ascii url \<and> length url \<le> 8000"
    by (rule say_url_short)
      (use sg demo_online_swept in \<open>simp_all add: demo_ascii\<close>, simp_all add: demo_base_def demo_room_def is_ascii_def lit_simps)
  then show "say_url demo_base demo_room demo_did demo_online_signature (lit ''7'') demo_online = Inr demo_online_url"
    "is_ascii demo_online_url" "length demo_online_url \<le> 8000" by (auto simp: demo_online_url_def)
qed

lemma demo_pending_fields:
  "cfg_name demo_pending = lit ''A''" "cfg_did demo_pending = demo_did" "cfg_room demo_pending = demo_room"
  "cfg_nonce demo_pending = JStr (lit ''7'')" "cfg_status demo_pending = lit ''pending''"
  "cfg_fingerprint demo_pending = id_fingerprint demo_identity"
  by (simp_all add: demo_pending_def)

lemma demo_provisioning_fields:
  "pv_identity demo_provisioning = demo_identity" "pv_key demo_provisioning = demo_key"
  "pv_config_path demo_provisioning = ''c''" "pv_state_path demo_provisioning = ''s''"
  "id_did demo_identity = demo_did" "base_url demo_client = demo_base" "timeout demo_client = Fin 20"
  by (simp_all add: demo_provisioning_def demo_identity_def demo_client_def)

section \<open>The announcement leaves, its answer is lost\<close>

definition demo_announced_files :: filesystem where
  "demo_announced_files = (\<lambda>p. None)(''c'' := Some (fresh_file (config_body demo_pending)))"

lemma demo_lost_run:
  "\<exists>e w'. mailbox_step demo_lib demo_provisioning demo_provision demo_world = (Inl e, w')
     \<and> says w' = [(SaySigned demo_online_url, demo_announced_files)] \<and> fs w' = demo_announced_files"
proof -
  have sg: "match_canonical_signature demo_online_signature"
    using sign_detached_canonical [OF demo_lib_ok(1,3)] demo_online_signed unfolding sign_room_message_Inr by blast
  have c: "fault demo_lost = (\<lambda>n. Fine)" "clock_ns demo_lost n = 7" "wire demo_lost = (\<lambda>n q. ConnFailure)" for n
    by (simp_all add: demo_lost_def demo_env_def)
  have n: "match_agent_name (lit ''A'')" by (simp add: match_agent_name_def lit_simps char_class_defs)
  have t: "nonce_text (JStr (lit ''7'')) = lit ''7''" by (simp add: nonce_text_def)
  show ?thesis
    unfolding demo_provision_def mailbox_step.simps provision_mailbox_def
    using validate_pairs_of_config [OF demo_pending_ok(1)] demo_online_url(3) [THEN leD]
    by (simp add: run_simps raise_if_def n c Let_def demo_pending_made save_new_config_def write_config_def demo_world_def
        demo_provisioning_fields announce_def demo_pending_fields t demo_online_def [symmetric] demo_online_signed
        send_signed_message_def validate_room_def demo_room validate_did_def demo_did validate_nonce_def demo_nonce sg
        demo_online_url(1,2) encode_utf8_def ascii_no_surrogate utf8_ascii request_json_def exchange_def record_request_def
        payload_of_response_def uncertain_def says_def demo_announced_files_def)
qed

section \<open>The recovery finds it\<close>

definition demo_online_message :: room_message where
  "demo_online_message = \<lparr>msg_seq = 1, msg_sender = demo_did, msg_text = demo_online, msg_nonce = Some (lit ''7'')\<rparr>"

definition demo_online_snapshot :: room_snapshot where
  "demo_online_snapshot = \<lparr>snap_room = demo_room, first_seq = 1, last_seq = 1, messages = [demo_online_message], generation = 0\<rparr>"

lemma demo_online_read:
  "payload_of_response (Payload 400 (Doc (JObj demo_announced_room))) = Inr demo_announced_room"
  "parse_snapshot demo_announced_room demo_room = Inr demo_online_snapshot"
  by (simp_all add: payload_of_response_def MAX_RESPONSE_BYTES_def raise_if_def parse_bytes_def demo_announced_room_def
      demo_message_def dict_of_pairs_def)
    (simp_all add: parse_snapshot_def dget_def int_at_least_def parse_first_seq_def dget_default_def
      parse_message_def parse_nonce_def validate_nonce_value_def validate_nonce_def
      match_nonce_def lit_simps char_class_defs except_raise_def raise_if_def demo_online_message_def demo_online_snapshot_def)

lemma demo_found_run:
  assumes "fs w = demo_announced_files"
  shows "fst (mailbox_step demo_lib demo_provisioning demo_recover w) = Inr (RecoveredFromAcknowledged demo_room 1)"
proof -
  have c: "fault demo_found = (\<lambda>n. Fine)" "wire demo_found n q = Payload 400 (Doc (JObj demo_announced_room))" for n q
    by (simp_all add: demo_found_def demo_env_def)
  have m: "find (provision_matches demo_pending) (messages demo_online_snapshot) = Some demo_online_message" "msg_seq demo_online_message = 1"
    by (simp_all add: demo_online_snapshot_def provision_matches_def demo_pending_fields demo_online_message_def demo_online_def)
  show ?thesis
    unfolding demo_recover_def mailbox_step.simps recover_pending_mailbox_def
    using config_file_roundtrip [OF demo_pending_ok(1)] assms
    by (simp add: run_simps raise_if_def c demo_provisioning_fields load_config_def demo_announced_files_def
        demo_pending_fields read_room_def validate_room_def demo_room bounded_float_def request_json_def exchange_def
        record_request_def demo_online_read m activate_def save_replacement_config_def write_config_def load_state_def
        advance_cursor_def empty_state_def cursor_for_def get_default_def require_nonnegative_int_def uncertain_def save_state_def)
qed

lemma demo_mailbox_history:
  "says (mailbox_history demo_lib demo_provisioning [demo_provision] demo_world) = [(SaySigned demo_online_url, demo_announced_files)]"
  "fst (mailbox_step demo_lib demo_provisioning demo_recover (restart (mailbox_history demo_lib demo_provisioning [demo_provision] demo_world)))
     = Inr (RecoveredFromAcknowledged demo_room 1)"
proof -
  have r: "restart demo_world = demo_world" by (simp add: restart_def demo_world_def)
  obtain e w' where w: "mailbox_step demo_lib demo_provisioning demo_provision demo_world = (Inl e, w')"
     "says w' = [(SaySigned demo_online_url, demo_announced_files)]" "fs w' = demo_announced_files"
    using demo_lost_run by blast
  show "says (mailbox_history demo_lib demo_provisioning [demo_provision] demo_world) = [(SaySigned demo_online_url, demo_announced_files)]"
    by (simp add: r w)
  have "fs (restart w') = demo_announced_files" by (simp add: restart_def w)
  from demo_found_run [OF this] show "fst (mailbox_step demo_lib demo_provisioning demo_recover
     (restart (mailbox_history demo_lib demo_provisioning [demo_provision] demo_world))) = Inr (RecoveredFromAcknowledged demo_room 1)"
    by (simp add: r w(1))
qed

end
