(* ===== verification/Spec2Isabelle.thy ===== *)
theory Spec2Isabelle
  imports Guarantees Receipt_Guarantees Work_Evidence Operations_Guarantees Demo_Mailbox
begin

text \<open>
  A model of the Technocore safe agent, the Python package \<open>src/src/technocore_safe_agent\<close>: a
  responder that polls one room of a chat service, answers a few fixed commands of allowed senders
  under its own signature, and keeps enough on disk that no input is answered twice, whichever call
  fails and wherever the process dies. Around it stand the commands that provision a mailbox, recover
  an ambiguous delivery, check the local files, render a LaunchAgent, manage a second identity, and
  issue and check work receipts. The names of the definitions are those of the source.

  \<^bold>\<open>The ground.\<close>
  \<^item> \<open>Prelude\<close>: the exceptions (one constructor per class, with the fixed part of the message), the
    error monad \<open>res\<close>, dictionaries as association lists. \<open>Pytext\<close>: \<open>str\<close> as a list of code points,
    UTF-8, \<open>strip\<close>, \<open>casefold\<close> and decimal text. \<open>Json\<close>: a parsed document as a datatype with Python's
    equality and last-key-wins objects. \<open>Radix\<close>: positional numbers and base64. \<open>Url\<close>: the corners
    of \<open>urllib.parse\<close> in use. \<open>Timestamp\<close>: \<open>strftime\<close> and its parser.
  \<^item> \<open>Runtime\<close>: a \<open>world\<close> (files, requests with the files as they were when each left, the state in
    memory) and an \<open>env\<close> of answers indexed by a counter that every primitive advances. \<open>fault\<close> makes
    any primitive fail, or lets the process die in it, at a named stage. A statement over every \<open>env\<close>
    is a statement over every peer, every clock and every schedule of failures. \<open>wp\<close> is the weakest
    precondition of an \<open>io\<close> with one postcondition for the return and one for the exceptions.
    The locale \<open>world_order\<close> lifts a reflexive, transitive relation of worlds over the monad (read-only,
    quiet, local and bounded code are its interpretations); \<open>durable\<close> is the contract of a replacement
    that leaves the old or the new file.

  \<^bold>\<open>The agent.\<close>
  \<^item> \<open>Crypto\<close> (\<open>crypto.py\<close>): base58, \<open>did:key\<close>, the regular expressions, the text sweep, signatures.
    Ed25519 and SHA-256 are the record \<open>lib\<close>; \<open>ed25519_ok\<close> (a made signature verifies, keys and
    signatures have their lengths) and \<open>sha256_ok\<close> (64 hexadecimal digits) are the only laws used.
  \<^item> \<open>State\<close>, \<open>State_File\<close> (\<open>state.py\<close>): cursors, nonces, generations, request histories; the file is
    replaced atomically. The locale \<open>high_water\<close> is the contract of a mark that never goes back, with
    cursor, generation and nonce as its interpretations.
  \<^item> \<open>Protocol\<close> (\<open>protocol.py\<close>): the HTTP outcomes, the parsers and the two requests with their URLs.
  \<^item> \<open>Capabilities\<close> (\<open>capabilities.py\<close>) and \<open>Policy\<close> (\<open>policy.py\<close>): who may ask for what, how often.
  \<^item> \<open>Receipt\<close> (\<open>receipt.py\<close>): the evidence on a pull request and the signed receipt.
  \<^item> \<open>Delivery\<close> (\<open>delivery.py\<close>): the journal of the one envelope in flight. \<open>Audit_Log\<close> (\<open>audit.py\<close>):
    the signed hash chain.
  \<^item> \<open>Agent\<close> (\<open>agent.py\<close>): \<open>event_for_message\<close>, \<open>persist_processed_message\<close>, \<open>process_snapshot\<close>, in
    the order of the source: journal, write, acknowledgement, audit record, cursor, journal cleared.
    \<open>Recovery\<close> (\<open>delivery_recovery.py\<close>) settles what a dead process left.
  \<^item> \<open>Config\<close> (\<open>config.py\<close>, \<open>identity.py\<close>), \<open>Provision\<close> (\<open>provision.py\<close>), \<open>Cli_Run\<close> (\<open>cli.py\<close>: \<open>run\<close>
    and \<open>recover-delivery\<close>, the polling loop, the exit codes).
  \<^item> \<open>Agent_Safety\<close>, \<open>Recovery_Safety\<close>, \<open>Sessions\<close>: \<open>safe\<close> is the invariant of the responder (every signed
    write was backed by the journal, inputs are answered in order, the cursor on disk covers what was
    answered but for the envelope the journal holds); every operation keeps it on every path, and
    \<open>safe_disk\<close> is what lasts between two processes. \<open>Mailbox_History\<close> does the same for \<open>provision\<close> and \<open>recover\<close>:
    \<open>mailbox_so_far\<close> lasts between two of them. \<open>Liveness\<close> shows that the agent does answer.

  \<^bold>\<open>Around the agent.\<close>
  \<^item> \<open>Process_Lock\<close> (\<open>process_lock.py\<close>): what other processes hold is a table of answers; what this one
    holds is part of the world.
  \<^item> \<open>Health\<close> (\<open>health.py\<close>, with \<open>Private_Files\<close>), \<open>Health_Safety\<close> and \<open>Health_Complete\<close>: the verdict
    \<open>ready\<close> and what a live run's readers accept imply each other. \<open>Launchd\<close> (\<open>launchd.py\<close>),
    \<open>Launch_Safety\<close>: what launchd starts is a live run on the files that were checked.
  \<^item> \<open>Keychain_Prompt\<close>, \<open>Controller\<close> (\<open>controller.py\<close>), \<open>Controller_Safety\<close>: the dialogue on a
    pseudo-terminal, creation, grant and the one write of a controller.
  \<^item> \<open>Beads_Tasks\<close> (\<open>beads_tasks.py\<close>), \<open>Mcp_Server\<close> (\<open>mcp_server.py\<close>), \<open>Cli_Commands\<close> (the handlers of
    \<open>cli.py\<close>), \<open>Cli_Parser\<close> (\<open>build_parser\<close> as a table of commands with their options, an interpreter
    of that table for \<open>argparse\<close>, and \<open>main\<close>). \<open>Cli_Safety\<close>: what parses has a handler and values of
    the right types, and the commands that only look do only that.
  \<^item> \<open>Audited_Client\<close> and \<open>Pilot\<close> (\<open>pilot.py\<close>): the client that verifies a signed write, sends it and
    notes the acknowledgement, and the two pilots that drive a responder against a server; a responder
    writes through either client (\<open>write_through\<close>). \<open>Pilot_Safety\<close>: the locale \<open>talker\<close> is the contract
    of a responder under test (each text it is made to send counts as one write, every other step as
    none), with the responders of the two pilots as its interpretations.
  \<^item> \<open>Entry_Points\<close> (\<open>main\<close> of \<open>mcp_server.py\<close> and \<open>scripts/run_live_pilot.py\<close>,
    \<open>scripts/run_live_receipt_pilot.py\<close>, \<open>scripts/run_work_receipt_pilot.py\<close>): their options, their exit
    statuses, a session of the server, the work receipt pilot in its clone. \<open>Entry_Safety\<close>: no script acts
    without its acknowledgement flag, and what a passed work receipt pilot shows.
  \<^item> \<open>Work_Receipt\<close> (\<open>work_receipt_verifier.py\<close>), \<open>Work_Run\<close>, \<open>Work_Create\<close> (\<open>work_receipt.py\<close>),
    \<open>Work_Output\<close> (\<open>work_output.py\<close>), \<open>Work_Evidence\<close> (\<open>work_evidence.py\<close>); \<open>Work_Bundle\<close>,
    \<open>Work_Counter\<close> and \<open>Work_Honest\<close> hold what issuing, countersigning and an honest run promise.
    \<open>run_between_looks\<close> says which questions git was asked, in which order, and what it answered, before
    and after the one command; \<open>claims_reply\<close> compares a receipt with the answer of that command, field
    by field.

  \<^bold>\<open>Where the properties are.\<close> This theory has those of whole histories of the agent, \<open>Guarantees\<close> and
  \<open>Receipt_Guarantees\<close> those of one component, \<open>Work_Guarantees\<close> and \<open>Work_Evidence\<close> those of work
  receipts, \<open>Operations_Guarantees\<close> those of the commands around the agent. \<open>Demo\<close>, \<open>Demo_Files\<close> and \<open>Demo_Mailbox\<close> are
  the concrete inputs of their witnesses.

  \<^bold>\<open>Bounds and fuel.\<close> Four loops of the source have no bound of their own. \<open>poll\<close> takes the number of
  rounds: with \<open>n\<close> it is the first \<open>n\<close> rounds of an endless loop, and the theorems hold for every \<open>n\<close>.
  \<open>sleep_until\<close> takes the number of clock readings, and running out is the death of the process, a
  path every theorem covers anyway. \<open>session_run\<close> (the dialogue) and \<open>read_pipes\<close> (the task query) take
  the number of turns and give \<open>None\<close> when they run out: the properties prove that a few turns after the
  deadline are enough, so the value is never \<open>None\<close>. Everything else recurses on data. The machine's
  integers are Python's, so \<open>int\<close>; the limits of the source (nonces below \<open>10 ^ 19\<close>, sizes, counts) are
  written where the source checks them.

  \<^bold>\<open>Hypotheses.\<close> Besides the laws of \<open>lib\<close>: \<open>calm\<close> and \<open>undisturbed\<close> (no call fails) only where
  something is to be achieved; \<open>keychain_law\<close> (\<open>/usr/bin/security\<close> adds an item only where there is none,
  and adds it when it reports success); clocks that do not go back, for the rate bound. The answers of
  git, GitHub, \<open>bd\<close>, the Keychain tool and the operating system's path resolution are arguments, and
  so are the random keys and the nickname of a pilot's peers and the path of its clone, the parse of a message text as JSON, and
  Python's reading of a word as a \<open>float\<close> or an \<open>int\<close>.

  \<^bold>\<open>Not modelled.\<close> Help texts, the text of error messages and the printing of events; of \<open>argparse\<close>
  what the tables do not use, and \<open>--\<close> between two plain words; the sleep between two reads of a pilot; TLS contexts and socket time; the MCP
  SDK, its process and its texts; temporary files, the making of parent directories beyond their
  failure, the environment and the process group of started programs; property lists for paths outside
  ASCII; two processes interleaved step by step (what another process holds is an answer of the lock
  table, and its writes to a file are not seen). The tests are not part of the program.
\<close>

section \<open>What an operator can rely on\<close>

lemma later_unique:
  "sorted_wrt (later z) xs \<Longrightarrow> x \<in> set xs \<Longrightarrow> y \<in> set xs \<Longrightarrow> fst x = fst y \<Longrightarrow> x = y"
  by (induction xs) (auto simp: later_def)

lemma once_replies: "once z L R J w \<Longrightarrow> inj_on fst (set (replies L J w))"
  unfolding once_def by (blast intro: inj_onI later_unique)

lemma replies_sorted: "once False L R J w \<Longrightarrow> sorted_wrt (<) (answered L J w)"
  unfolding once_def answered_def sorted_wrt_map by (auto simp: later_def elim!: sorted_wrt_mono_rel [rotated])

text \<open>C1. Whatever the peer answers, whichever call fails and wherever a process dies: over any number
  of runs on one mailbox every signed write answers an input no earlier write answered, in the order
  of the inputs, and when it left, the delivery journal on disk held its verified envelope.\<close>

theorem one_reply_per_input:
  assumes "sha256_ok L" and "live R J" and "match_did (r_did R)" and "list_all (command_aims L R J) cs"
    and "list_all is_run cs" and "says w = []"
  shows "sorted_wrt (<) (answered L J (history_of L cs w))
    \<and> list_all (backed L R J) (says (history_of L cs w))"
proof -
  have "safe_disk False L R J (history_of L cs w)"
    by (rule history_safe [OF assms(1-4)]) (simp_all add: assms(5) safe_disk_start [OF assms(6)])
  then have o: "once False L R J (history_of L cs w)" by (simp add: safe_disk_def)
  with replies_sorted [OF o] show ?thesis by (simp add: once_def)
qed

theorem one_reply_per_input_witness:
  "answered demo_lib ''j'' (history_of demo_lib [RunCommand demo_crash (demo_args True) demo_identity demo_key 3 2] demo_world) = [4]
   \<and> sorted_wrt (<) (answered demo_lib ''j'' (history_of demo_lib
     [RunCommand demo_crash (demo_args True) demo_identity demo_key 3 2,
      RunCommand demo_env (demo_args False) demo_identity demo_key 3 2,
      RunCommand demo_env (demo_args True) demo_identity demo_key 3 2] demo_world))"
  using one_reply_per_input [OF demo_lib_ok(2) demo_live _ _ _ demo_start, of
     "[RunCommand demo_crash (demo_args True) demo_identity demo_key 3 2,
      RunCommand demo_env (demo_args False) demo_identity demo_key 3 2,
      RunCommand demo_env (demo_args True) demo_identity demo_key 3 2]"] demo_aims demo_did(2) demo_crash_history
  by (simp add: demo_responder_def answered_def history_of_def)

text \<open>C2. With recoveries among the runs, confirmed retries included, an input never gets two different
  envelopes: the input determines the request that answers it.\<close>

theorem one_envelope_per_input:
  assumes "sha256_ok L" and "live R J" and "match_did (r_did R)" and "list_all (command_aims L R J) cs"
    and "says w = []"
  shows "inj_on fst (set (replies L J (history_of L cs w)))
    \<and> list_all (backed L R J) (says (history_of L cs w))"
proof -
  have "safe_disk True L R J (history_of L cs w)"
    by (rule history_safe [OF assms(1-4)]) (simp_all add: safe_disk_start [OF assms(5)])
  then have o: "once True L R J (history_of L cs w)" by (simp add: safe_disk_def)
  with once_replies [OF o] show ?thesis by (simp add: once_def)
qed

theorem one_envelope_per_input_witness:
  "replies demo_lib ''j'' (history_of demo_lib [RunCommand demo_crash (demo_args True) demo_identity demo_key 3 2] demo_world)
     = [(4, SaySigned demo_url)]
   \<and> inj_on fst (set (replies demo_lib ''j'' (history_of demo_lib
     [RunCommand demo_crash (demo_args True) demo_identity demo_key 3 2,
      RecoverCommand demo_env (demo_args True) demo_identity True True,
      RunCommand demo_env (demo_args True) demo_identity demo_key 3 2] demo_world)))"
  using one_envelope_per_input [OF demo_lib_ok(2) demo_live _ _ demo_start, of
     "[RunCommand demo_crash (demo_args True) demo_identity demo_key 3 2,
      RecoverCommand demo_env (demo_args True) demo_identity True True,
      RunCommand demo_env (demo_args True) demo_identity demo_key 3 2]"] demo_aims demo_did(2) demo_crash_history
  by (simp add: demo_responder_def history_of_def)

text \<open>C8. A run without \<open>--send\<close> changes no file and sends nothing that is signed, however many
  rounds it polls.\<close>

theorem dry_run_changes_nothing:
  assumes "\<not> ra_send a"
  shows "fs (snd (run_with_identity E L a i key sleeps rounds w)) = fs w
    \<and> says (snd (run_with_identity E L a i key sleeps rounds w)) = says w"
  using quiet.growsD [OF dry_run_quiet [OF assms]] by blast

theorem dry_run_changes_nothing_witness:
  "fs (snd (run_with_identity demo_env demo_lib (demo_args False) demo_identity demo_key 3 2 demo_world)) = fs demo_world"
  by (rule conjunct1 [OF dry_run_changes_nothing]) (simp add: demo_args_def)

text \<open>C7. A delivery journal left behind blocks live runs: the run raises and nothing signed leaves.\<close>

theorem pending_delivery_blocks_runs:
  assumes "ra_send a" and "fs w (ra_journal_path a) \<noteq> None"
  shows "(\<exists>e. fst (run_with_identity E L a i key sleeps rounds w) = Inl e)
    \<and> says (snd (run_with_identity E L a i key sleeps rounds w)) = says w"
  using run_blocked [of a w E L i key sleeps rounds, OF assms]
  by (auto simp: wp_def split: prod.splits sum.splits)

theorem pending_delivery_blocks_runs_witness:
  "\<exists>e. fst (run_with_identity demo_env demo_lib (demo_args True) demo_identity demo_key 3 2
      (demo_world\<lparr>fs := (\<lambda>p. None)(''j'' := Some (fresh_file (Text 9 NotJson)))\<rparr>)) = Inl e"
  by (rule conjunct1 [OF pending_delivery_blocks_runs]) (simp_all add: demo_args_def)


text \<open>C5. A recovery sends at most one write, the journal's own envelope, and only with \<open>--apply\<close> and
  \<open>--confirm-retry\<close>, on a history that has every record after the input and none that is the delivery.\<close>

theorem retry_only_when_absent:
  "let w' = snd (recover_pending E L room d snap c S J apply_it confirm w) in
    says w' = says w \<or>
    apply_it \<and> confirm
    \<and> {dr_input_sequence d<..last_seq snap} \<subseteq> msg_seq ` {m \<in> set (messages snap). \<not> record_matches d m}
    \<and> (\<exists>url. say_url (base_url c) room (dr_did d) (dr_signature d) (str_of_int (dr_nonce d)) (dr_text d) = Inr url
         \<and> says w' = says w @ [(SaySigned url, fs w)])"
proof -
  have "wp (recover_pending E L room d snap c S J apply_it confirm)
     (\<lambda>_ w'. says w' = says w \<or> may_resend d snap apply_it confirm \<and> resent c room d w w')
     (\<lambda>_ w'. says w' = says w \<or> may_resend d snap apply_it confirm \<and> resent c room d w w') w"
    by (rule recover_pending_sends)
  then show ?thesis
    unfolding wp_always Let_def may_resend_def resent_def filter_empty_conv
    by (elim disjE conjE) (auto dest!: complete_history_no_gap)
qed

text \<open>C26. When a recovery finalizes a delivery, the journal is gone, the state file holds the state in
  memory, and its cursor and nonce are past the delivery: no later run repeats it.\<close>

theorem finalized_delivery_is_settled:
  assumes "finalize_recovery E L room d n S J why w = (Inr (), w')" and "S \<noteq> J"
  shows "fs w' J = None \<and> fs w' S = Some (fresh_file (state_body (mem w')))
    \<and> dr_input_sequence d \<le> cursor_for (mem w') room \<and> dr_nonce d \<le> get_default (nonces (mem w')) room 0"
  using wp_Inr [OF finalize_settles [OF assms(2)] assms(1)] by (simp add: settled_def)

lemma demo_finalizes:
  "\<exists>w'. finalize_recovery demo_env demo_lib demo_room demo_record 5 ''s'' ''j'' []
     (demo_world\<lparr>fs := (\<lambda>p. None)(''j'' := Some (fresh_file (record_body demo_record)))\<rparr>) = (Inr (), w')"
proof -
  have a: "acknowledge_record 5 demo_record = Inr (demo_record\<lparr>dr_status := lit ''acknowledged'', dr_reply_sequence := Some 5\<rparr>)"
    unfolding acknowledge_record_Inr by (simp add: demo_record_def)
  have n: "dr_nonce demo_record = 7" "dr_input_sequence demo_record = 4" by (simp_all add: demo_record_def)
  show ?thesis
    using decode_written_record [OF demo_record_ok]
    by (simp add: finalize_recovery_def uncertain_def acknowledge_journal_def load_journal_def run_simps demo_env_def demo_world_def
        a write_record_def persist_recovered_state_def n observe_nonce_def advance_cursor_def require_nonnegative_int_def
        cursor_for_def empty_state_def save_mem_def save_state_def clear_journal_def)
qed

theorem finalized_delivery_is_settled_witness:
  "\<exists>w' :: world. fs w' ''j'' = None \<and> dr_input_sequence demo_record \<le> cursor_for (mem w') demo_room"
proof -
  obtain w' where "finalize_recovery demo_env demo_lib demo_room demo_record 5 ''s'' ''j'' []
     (demo_world\<lparr>fs := (\<lambda>p. None)(''j'' := Some (fresh_file (record_body demo_record)))\<rparr>) = (Inr (), w')"
    using demo_finalizes by blast
  from finalized_delivery_is_settled [OF this] show ?thesis by auto
qed

text \<open>C28. Over any number of \<open>provision\<close> and \<open>recover\<close> commands for one identity and one configuration
  path, whichever call fails and wherever a process dies: either there is no configuration and
  nothing was announced; or there is one mailbox, its pending or active configuration is on disk,
  and every signed write was the announcement of this mailbox under its one nonce, left while the
  pending configuration was on disk, at most once and once more for each \<open>--retry\<close>. The next command
  keeps an existing configuration from being replaced, sends only if it is the first or a \<open>--retry\<close>
  of a pending one, and a success leaves the active configuration, the cursor and the nonce.\<close>

theorem provisioning_is_recoverable:
  assumes "pv_config_path P \<noteq> pv_state_path P" and "fs w (pv_config_path P) = None" and "says w = []"
  shows "mailbox_so_far L P (set (map server_of cs)) (length (filter is_retry cs)) (mailbox_history L P cs w)
    \<and> wp (mailbox_step L P c)
        (\<lambda>ev w'. command_kept L P c (restart (mailbox_history L P cs w)) w'
           \<and> mailbox_event_ok L P ev (restart (mailbox_history L P cs w)) w')
        (\<lambda>_ w'. command_kept L P c (restart (mailbox_history L P cs w)) w')
        (restart (mailbox_history L P cs w))"
proof -
  have "mailbox_so_far L P {} 0 w" using assms(2,3) by (simp add: mailbox_so_far_def)
  from mailbox_history_so_far [OF assms(1) this]
  have I: "mailbox_so_far L P (set (map server_of cs)) (length (filter is_retry cs)) (mailbox_history L P cs w)" by simp
  show ?thesis
    by (intro conjI I wp_mono [OF mailbox_step_wp [OF assms(1) so_far_restart [THEN iffD2, OF I]]]) auto
qed

theorem provisioning_is_recoverable_witness:
  "\<exists>w'. mailbox_step demo_lib demo_provisioning demo_recover
      (restart (mailbox_history demo_lib demo_provisioning [demo_provision] demo_world)) = (Inr (RecoveredFromAcknowledged demo_room 1), w')
    \<and> says w' = [(SaySigned demo_online_url, demo_announced_files)]
    \<and> (\<exists>c. own_pending demo_lib demo_provisioning c \<and> mailbox_active demo_lib demo_provisioning c 1 w')"
proof -
  have p: "pv_config_path demo_provisioning \<noteq> pv_state_path demo_provisioning"
      "fs demo_world (pv_config_path demo_provisioning) = None"
    by (simp_all add: demo_provisioning_def demo_world_def)
  let ?u = "restart (mailbox_history demo_lib demo_provisioning [demo_provision] demo_world)"
  have s: "says ?u = [(SaySigned demo_online_url, demo_announced_files)]"
    using demo_mailbox_history(1) by (simp add: restart_def says_def)
  show ?thesis
    using provisioning_is_recoverable [OF p demo_start, of demo_lib "[demo_provision]" demo_recover] demo_mailbox_history(2) s
    by (cases "mailbox_step demo_lib demo_provisioning demo_recover ?u") (auto simp: wp_def)
qed

text \<open>The key a run signs with derives the DID of the public identity: whatever the Keychain
  answers, no other key is used.\<close>

lemma private_key_matches_identity:
  assumes "load_verified_private_key L i k = Inr key"
  shows "did_from_private_key L key = Inr (id_did i) \<and> length key = 32"
  using load_verified_private_key_Inr [OF assms] by blast

text \<open>C3. The agent does answer: when no call fails, no delivery is pending, the reply's URL fits and the
  peer posts what it is sent, \<open>_send_text\<close> returns the posted record, having sent the envelope once, with
  the pending journal on disk when it left and the acknowledged one afterwards.\<close>

theorem reply_is_delivered:
  assumes "calm E" and "ed25519_ok L" "sha256_ok L" and "length (r_key r) = 32"
      "did_from_private_key L (r_key r) = Inr (r_did r)"
    and "r_journal r = Some J" "fs w J = None" and "match_room (r_room r)" and "1 \<le> i"
    and "next_nonce (r_room r) (clock_ns E (tick w)) (mem w) = Inr (s, n)" and "sweep_text content = Inr swept"
    and "sign_room_message L (r_key r) (r_room r) (str_of_int n) content = Inr (swept, sig)"
    and "say_url (base_url (r_client r)) (r_room r) (r_did r) sig (str_of_int n) swept = Inr url"
      "is_ascii url" "length url \<le> 8000"
    and "posts E url (r_room r) m" "posted_matches (r_did r) (str_of_int n) swept m" "i < msg_seq m"
  shows "\<exists>d w'. send_text E L r content i w = (Inr m, w') \<and> create_record L (r_room r) i (r_did r) n swept sig = Inr d
    \<and> sent w' = sent w @ [(SaySigned url, (fs w)(J := Some (fresh_file (record_body d))))]
    \<and> fs w' = (fs w)(J := Some (fresh_file (record_body
        (d\<lparr>dr_status := lit ''acknowledged'', dr_reply_sequence := Some (msg_seq m)\<rparr>)))) \<and> mem w' = s"
  using send_text_delivers [OF assms(1-8,10,11,9,12-)] by metis

theorem reply_is_delivered_witness:
  "\<exists>w'. send_text demo_env demo_lib demo_running (lit ''pong'') 4 demo_world = (Inr demo_posted, w')
    \<and> map fst (sent w') = [SaySigned demo_url]"
proof -
  have n: "next_nonce (r_room demo_running) (clock_ns demo_env (tick demo_world)) (mem demo_world)
      = Inr (empty_state\<lparr>nonces := [(demo_room, 7)]\<rparr>, 7)"
    by (simp add: demo_running_fields demo_env_def demo_world_def next_nonce_def empty_state_def get_default_def
        require_nonnegative_int_def NONCE_LIMIT_def raise_if_def)
  have "\<exists>d w'. send_text demo_env demo_lib demo_running (lit ''pong'') 4 demo_world = (Inr demo_posted, w')
    \<and> create_record demo_lib (r_room demo_running) 4 (r_did demo_running) 7 (lit ''pong'') demo_signature = Inr d
    \<and> sent w' = sent demo_world @ [(SaySigned demo_url, (fs demo_world)(''j'' := Some (fresh_file (record_body d))))]
    \<and> fs w' = (fs demo_world)(''j'' := Some (fresh_file (record_body
        (d\<lparr>dr_status := lit ''acknowledged'', dr_reply_sequence := Some (msg_seq demo_posted)\<rparr>))))
    \<and> mem w' = empty_state\<lparr>nonces := [(demo_room, 7)]\<rparr>"
    by (rule reply_is_delivered [OF demo_calm demo_lib_ok(1,2) _ _ _ _ _ _ n demo_sweep])
      (simp_all add: demo_running_fields demo_lib_ok demo_did demo_world_def demo_room demo_nonce demo_signed demo_url
        demo_posts posted_matches_def, simp_all add: demo_posted_def)
  then show ?thesis by (auto simp: demo_world_def)
qed

end
